(* ===== verification/Prelude.thy ===== *)
theory Prelude
  imports Main "HOL-Library.AList" "HOL-Library.Sublist" "HOL-Library.List_Lexorder"
    "HOL-Library.Char_ord"
begin

text \<open>
  Shared vocabulary of the development: the exceptions of the code as values, the
  small combinators that sequence fallible steps, Python dictionaries as association
  lists in insertion order, duplicate removal in first-occurrence order, and the
  \<open>str\<close>-valued enumerations. Everything here is language level: no definition of this
  theory models a particular function of the repository.
\<close>

section \<open>Exceptions and fallible steps\<close>

text \<open>
  One constructor per exception class the modelled code raises. The string names the
  raise site (the messages of the code are prose and are not modelled).
\<close>

datatype err =
    ValueError string
  | KeyError string
  | TypeError string
  | RuntimeError string
  | FileNotFoundError string
  | FileExistsError string
  | PermissionError string
  | AttributeError string
  | PlanPatchError string
  | PlanValidationError string
  | PortAllocationError string
  | StopIteration string
  | IndexError string

type_synonym 'a result = "err + 'a"

definition bindE :: "'e + 'a \<Rightarrow> ('a \<Rightarrow> 'e + 'b) \<Rightarrow> 'e + 'b" where
  "bindE r f = (case r of Inl e \<Rightarrow> Inl e | Inr x \<Rightarrow> f x)"

text \<open>A run of \<open>if cond: raise ...\<close> statements: the first condition that holds decides.\<close>

fun raises :: "(bool \<times> 'e) list \<Rightarrow> 'e + unit" where
  "raises [] = Inr ()"
| "raises ((c, e) # cs) = (if c then Inl e else raises cs)"

text \<open>A \<open>for\<close> loop whose body may raise, and the same loop collecting its results.\<close>

fun for_each :: "('a \<Rightarrow> 'e + unit) \<Rightarrow> 'a list \<Rightarrow> 'e + unit" where
  "for_each f [] = Inr ()"
| "for_each f (x # xs) = bindE (f x) (\<lambda>_. for_each f xs)"

fun mapE :: "('a \<Rightarrow> 'e + 'b) \<Rightarrow> 'a list \<Rightarrow> 'e + 'b list" where
  "mapE f [] = Inr []"
| "mapE f (x # xs) = bindE (f x) (\<lambda>y. bindE (mapE f xs) (\<lambda>ys. Inr (y # ys)))"

fun foldE :: "('a \<Rightarrow> 's \<Rightarrow> 'e + 's) \<Rightarrow> 'a list \<Rightarrow> 's \<Rightarrow> 'e + 's" where
  "foldE f [] s = Inr s"
| "foldE f (x # xs) s = bindE (f x s) (foldE f xs)"

lemma bindE_simps [simp]:
  "bindE (Inl e) f = Inl e"
  "bindE (Inr x) f = f x"
  by (simp_all add: bindE_def)

lemma bindE_Inr_iff [simp]: "bindE r f = Inr y \<longleftrightarrow> (\<exists>x. r = Inr x \<and> f x = Inr y)"
  by (cases r) auto

lemma bindE_Inr_unit: "bindE r (\<lambda>_ :: unit. s) = Inr y \<longleftrightarrow> r = Inr () \<and> s = Inr y"
  by auto

lemma result_pair: "\<not> isl r \<Longrightarrow> r = Inr (fst (projr r), snd (projr r))"
  by (cases r) auto

lemma raises_Inr_iff: "raises cs = Inr () \<longleftrightarrow> (\<forall>(c, e) \<in> set cs. \<not> c)"
  by (induction cs rule: raises.induct) auto

lemma raises_Inr_simps [simp]:
  "raises [] = Inr ()"
  "raises ((c, e) # cs) = Inr () \<longleftrightarrow> \<not> c \<and> raises cs = Inr ()"
  by simp_all

declare raises.simps(2) [simp del]

lemma raises_Inl: "raises cs = Inl e \<Longrightarrow> \<exists>c. (c, e) \<in> set cs \<and> c"
  by (induction cs rule: raises.induct) (auto simp: raises.simps(2) split: if_splits)

lemma for_each_Inr_iff: "for_each f xs = Inr () \<longleftrightarrow> (\<forall>x \<in> set xs. f x = Inr ())"
  by (induction xs) auto

lemma for_each_cong [fundef_cong]:
  "xs = ys \<Longrightarrow> (\<And>x. x \<in> set ys \<Longrightarrow> f x = g x) \<Longrightarrow> for_each f xs = for_each g ys"
  by (induction xs arbitrary: ys) auto

lemma mapE_cong [fundef_cong]:
  "xs = ys \<Longrightarrow> (\<And>x. x \<in> set ys \<Longrightarrow> f x = g x) \<Longrightarrow> mapE f xs = mapE g ys"
  by (induction xs arbitrary: ys) auto

lemma mapE_Inr_iff: "mapE f xs = Inr ys \<longleftrightarrow> list_all2 (\<lambda>x y. f x = Inr y) xs ys"
  by (induction xs arbitrary: ys) (auto simp: list_all2_Cons1)

lemma mapE_length: "mapE f xs = Inr ys \<Longrightarrow> length ys = length xs"
  by (auto simp: mapE_Inr_iff dest: list_all2_lengthD)

lemma mapE_map: "(\<And>x. x \<in> set xs \<Longrightarrow> f (g x) = Inr (h x)) \<Longrightarrow> mapE f (map g xs) = Inr (map h xs)"
  by (induction xs) auto

lemma mapE_set: "mapE f xs = Inr ys \<Longrightarrow> y \<in> set ys \<Longrightarrow> \<exists>x \<in> set xs. f x = Inr y"
  by (induction xs arbitrary: ys) auto

lemma foldE_append: "foldE f (xs @ ys) s = bindE (foldE f xs s) (foldE f ys)"
proof (induction xs arbitrary: s)
  case (Cons x xs)
  then show ?case by (cases "f x s") auto
qed simp

text \<open>The invariant rule of the loop: what every step keeps, the whole loop keeps.\<close>

lemma foldE_invariant:
  assumes "foldE f xs s = Inr t" and "P s"
    and "\<And>x s t. x \<in> set xs \<Longrightarrow> P s \<Longrightarrow> f x s = Inr t \<Longrightarrow> P t"
  shows "P t"
  using assms
proof (induction xs arbitrary: s)
  case (Cons x xs)
  from Cons.prems(1) obtain u where u: "f x s = Inr u" "foldE f xs u = Inr t" by auto
  have "P u" using Cons.prems(2,3) u(1) by auto
  with u(2) show ?case
    by (rule Cons.IH) (use Cons.prems(3) in auto)
qed simp

text \<open>What one element establishes and the later ones keep holds at the end.\<close>

lemma foldE_establishes:
  assumes "foldE f xs s = Inr t" "x \<in> set xs"
    and "\<And>s t. f x s = Inr t \<Longrightarrow> P t" and "\<And>y s t. y \<in> set xs \<Longrightarrow> f y s = Inr t \<Longrightarrow> P s \<Longrightarrow> P t"
  shows "P t"
  using assms
proof (induction xs arbitrary: s)
  case (Cons y ys)
  from Cons.prems(1) obtain u where u: "f y s = Inr u" "foldE f ys u = Inr t" by auto
  show ?case
  proof (cases "x \<in> set ys")
    case True
    show ?thesis
    proof (rule Cons.IH [OF u(2) True])
      show "P t'" if "f x s' = Inr t'" for s' t' using that by (rule Cons.prems(3))
      show "P t'" if "z \<in> set ys" "f z s' = Inr t'" "P s'" for z s' t'
        using that Cons.prems(4) [of z s' t'] by simp
    qed
  next
    case False
    then have "P u" using Cons.prems(2,3) u(1) by auto
    show ?thesis
    proof (rule foldE_invariant [where P = P, OF u(2)])
      show "P t'" if "z \<in> set ys" "P s'" "f z s' = Inr t'" for z s' t'
        using that Cons.prems(4) [of z s' t'] by simp
    qed fact
  qed
qed simp

lemma list_all2_member2: "list_all2 R xs ys \<Longrightarrow> y \<in> set ys \<Longrightarrow> \<exists>x \<in> set xs. R x y"
  by (induction rule: list_all2_induct) auto

lemma list_all2_member1: "list_all2 R xs ys \<Longrightarrow> x \<in> set xs \<Longrightarrow> \<exists>y \<in> set ys. R x y"
  by (induction rule: list_all2_induct) auto

section \<open>Dictionaries\<close>

text \<open>
  A Python dictionary keeps the position of a key that is assigned again and appends a
  new key, which is what \<open>AList.update\<close> does on association lists.
\<close>

type_synonym ('k, 'v) dict = "('k \<times> 'v) list"

abbreviation dict_get :: "('k, 'v) dict \<Rightarrow> 'k \<Rightarrow> 'v option" where
  "dict_get d k \<equiv> map_of d k"

abbreviation dict_put :: "'k \<Rightarrow> 'v \<Rightarrow> ('k, 'v) dict \<Rightarrow> ('k, 'v) dict" where
  "dict_put \<equiv> AList.update"

abbreviation dict_pop :: "'k \<Rightarrow> ('k, 'v) dict \<Rightarrow> ('k, 'v) dict" where
  "dict_pop \<equiv> AList.delete"

abbreviation dict_keys :: "('k, 'v) dict \<Rightarrow> 'k list" where
  "dict_keys d \<equiv> map fst d"

text \<open>A dictionary display or comprehension: the pairs are assigned in order.\<close>

definition dict_of :: "('k \<times> 'v) list \<Rightarrow> ('k, 'v) dict" where
  "dict_of kvs = foldl (\<lambda>d (k, v). dict_put k v d) [] kvs"

text \<open>
  The interface the clients of a dictionary rely on. It is stated over an abstract store
  so that the lemmas of the clients do not depend on the list representation.
\<close>

locale key_store =
  fixes get :: "'s \<Rightarrow> 'k \<Rightarrow> 'v option"
    and put :: "'k \<Rightarrow> 'v \<Rightarrow> 's \<Rightarrow> 's"
    and drop_key :: "'k \<Rightarrow> 's \<Rightarrow> 's"
  assumes get_put: "get (put k v s) j = (if j = k then Some v else get s j)"
    and get_drop: "get (drop_key k s) j = (if j = k then None else get s j)"
begin

lemma put_same: "get (put k v s) k = Some v"
  by (simp add: get_put)

lemma put_other: "j \<noteq> k \<Longrightarrow> get (put k v s) j = get s j"
  by (simp add: get_put)

lemma put_put: "get (put k w (put k v s)) = get (put k w s)"
  by (rule ext) (simp add: get_put)

lemma drop_put: "get s k = None \<Longrightarrow> get (drop_key k (put k v s)) = get s"
  by (rule ext) (simp add: get_put get_drop)

lemma put_commute: "j \<noteq> k \<Longrightarrow> get (put j w (put k v s)) = get (put k v (put j w s))"
  by (rule ext) (simp add: get_put)

end

lemma map_of_update_if: "map_of (AList.update k v d) j = (if j = k then Some v else map_of d j)"
  by (simp add: update_conv')

lemma map_of_delete_if: "map_of (AList.delete k d) j = (if j = k then None else map_of d j)"
  by (simp add: delete_conv')

interpretation dict: key_store "map_of" "AList.update" "AList.delete"
  by unfold_locales (simp_all add: map_of_update_if map_of_delete_if)

lemma dict_keys_put: "dict_keys (dict_put k v d) = (if k \<in> set (dict_keys d) then dict_keys d else dict_keys d @ [k])"
  by (simp add: update_keys)

lemma distinct_dict_put: "distinct (dict_keys d) \<Longrightarrow> distinct (dict_keys (dict_put k v d))"
  by (rule distinct_update)

lemma set_dict_put_new: "k \<notin> set (dict_keys d) \<Longrightarrow> dict_put k v d = d @ [(k, v)]"
  by (induction d) auto

lemma set_dict_put: "set (dict_put k v d) \<subseteq> insert (k, v) (set d)"
  by (induction d) auto

lemma set_dict_put_distinct:
  "(i, x) \<in> set (dict_put k v d) \<Longrightarrow> distinct (dict_keys d) \<Longrightarrow> i = k \<and> x = v \<or> i \<noteq> k \<and> (i, x) \<in> set d"
  by (induction d) (auto simp: rev_image_eqI split: if_splits)

lemma dict_keys_pop: "dict_keys (dict_pop k d) = removeAll k (dict_keys d)"
  by (rule delete_keys)

lemma set_dict_pop: "set (dict_pop k d) \<subseteq> set d"
  by (auto simp: AList.delete_eq)

lemma foldl_dict_put:
  "distinct (map fst (d @ kvs)) \<Longrightarrow> foldl (\<lambda>d (k, v). dict_put k v d) d kvs = d @ kvs"
proof (induction kvs arbitrary: d)
  case (Cons kv kvs)
  then show ?case by (cases kv) (auto simp: set_dict_put_new)
qed simp

lemma dict_of_distinct: "distinct (map fst kvs) \<Longrightarrow> dict_of kvs = kvs"
  using foldl_dict_put [of "[]" kvs] by (simp add: dict_of_def)

section \<open>Ordered duplicate removal\<close>

text \<open>\<open>dict.fromkeys\<close> keeps the first occurrence of each element.\<close>

fun dedup_from :: "'a list \<Rightarrow> 'a list \<Rightarrow> 'a list" where
  "dedup_from seen [] = []"
| "dedup_from seen (x # xs) =
     (if x \<in> set seen then dedup_from seen xs else x # dedup_from (x # seen) xs)"

definition dict_fromkeys :: "'a list \<Rightarrow> 'a list" where
  "dict_fromkeys xs = dedup_from [] xs"

lemma set_dedup_from: "set (dedup_from seen xs) = set xs - set seen"
  by (induction seen xs rule: dedup_from.induct) auto

lemma distinct_dedup_from: "distinct (dedup_from seen xs)"
  by (induction seen xs rule: dedup_from.induct) (auto simp: set_dedup_from)

lemma set_dict_fromkeys [simp]: "set (dict_fromkeys xs) = set xs"
  by (simp add: dict_fromkeys_def set_dedup_from)

lemma distinct_dict_fromkeys [simp]: "distinct (dict_fromkeys xs)"
  by (simp add: dict_fromkeys_def distinct_dedup_from)

lemma dedup_from_id: "distinct xs \<Longrightarrow> set xs \<inter> set seen = {} \<Longrightarrow> dedup_from seen xs = xs"
  by (induction seen xs rule: dedup_from.induct) auto

lemma dict_fromkeys_id: "distinct xs \<Longrightarrow> dict_fromkeys xs = xs"
  by (simp add: dict_fromkeys_def dedup_from_id)

text \<open>\<open>next((x for x in xs if p(x)), None)\<close> is \<open>List.find\<close>.\<close>

lemma find_Some_in: "List.find P xs = Some x \<Longrightarrow> x \<in> set xs \<and> P x"
  by (auto simp: find_Some_iff)

lemma find_None_all: "List.find P xs = None \<longleftrightarrow> (\<forall>x \<in> set xs. \<not> P x)"
  by (auto simp: find_None_iff)

lemma find_distinct_key:
  "distinct (map f xs) \<Longrightarrow> x \<in> set xs \<Longrightarrow> List.find (\<lambda>y. f y = f x) xs = Some x"
  by (induction xs) (auto simp: rev_image_eqI)

section \<open>Counting\<close>

lemma length_filter_drops: "filter P xs \<noteq> [] \<Longrightarrow> length (filter (\<lambda>x. \<not> P x) xs) < length xs"
  using sum_length_filter_compl [of P xs] by (cases "filter P xs") auto

lemma length_filter_strict:
  assumes "\<And>x. P x \<Longrightarrow> Q x" "x \<in> set xs" "Q x" "\<not> P x"
  shows "length (filter P xs) < length (filter Q xs)"
proof -
  have "filter P (filter Q xs) = filter P xs" using assms(1) by (auto intro: filter_cong simp: conj_commute)
  moreover have "length (filter P (filter Q xs)) < length (filter Q xs)"
    by (rule length_filter_less [of x]) (use assms(2-4) in auto)
  ultimately show ?thesis by simp
qed

section \<open>Enumerations with string values\<close>

text \<open>
  \<open>class K(str, Enum)\<close>: every member has a string value, and \<open>K(text)\<close> finds the
  member with that value or raises \<open>ValueError\<close>.
\<close>

definition enum_of :: "string \<Rightarrow> ('a \<Rightarrow> string) \<Rightarrow> 'a list \<Rightarrow> string \<Rightarrow> 'a result" where
  "enum_of name value members text =
     (case List.find (\<lambda>k. value k = text) members of
        None \<Rightarrow> Inl (ValueError name) | Some k \<Rightarrow> Inr k)"

lemma enum_of_value:
  "distinct (map value members) \<Longrightarrow> k \<in> set members \<Longrightarrow> enum_of name value members (value k) = Inr k"
  by (simp add: enum_of_def find_distinct_key)

lemma enum_of_Inr: "enum_of name value members text = Inr k \<Longrightarrow> k \<in> set members \<and> value k = text"
  by (auto simp: enum_of_def split: option.splits dest: find_Some_in)

end
