(* ===== verification/Py_Strings.thy ===== *)
theory Py_Strings
  imports Prelude
begin

text \<open>
  The string operations of the Python standard library the modelled code uses. A Python
  string is a \<open>string\<close> (a list of characters), which holds the code points below 256; the
  whitespace and case tables below are Python's, restricted to that range. \<open>fnmatch\<close> is
  translated from \<^verbatim>\<open>fnmatch.translate\<close> on POSIX: \<open>*\<close> and \<open>?\<close> also match \<open>/\<close>, and a
  bracket set may hold ranges and a leading \<open>!\<close>. (A set that starts with a reversed range
  directly before a \<open>!\<close> is read as written, without the library's rewriting of it.)
\<close>

section \<open>Whitespace, affixes, splitting\<close>

definition is_space :: "char \<Rightarrow> bool" where
  "is_space c = (let n = (of_char c :: nat) in
     (9 \<le> n \<and> n \<le> 13) \<or> (28 \<le> n \<and> n \<le> 32) \<or> n = 133 \<or> n = 160)"

definition py_lstrip :: "string \<Rightarrow> string" where
  "py_lstrip s = dropWhile is_space s"

definition py_rstrip :: "string \<Rightarrow> string" where
  "py_rstrip s = rev (dropWhile is_space (rev s))"

definition py_strip :: "string \<Rightarrow> string" where
  "py_strip s = py_rstrip (py_lstrip s)"

text \<open>\<open>not s or not s.strip()\<close>\<close>

definition blank :: "string \<Rightarrow> bool" where
  "blank s = list_all is_space s"

definition blank_opt :: "string option \<Rightarrow> bool" where
  "blank_opt v = (case v of None \<Rightarrow> True | Some s \<Rightarrow> blank s)"

text \<open>\<open>v is not None and not v.strip()\<close>\<close>

definition blank_some :: "string option \<Rightarrow> bool" where
  "blank_some v = (case v of None \<Rightarrow> False | Some s \<Rightarrow> blank s)"

definition lstrip_of :: "char \<Rightarrow> string \<Rightarrow> string" where
  "lstrip_of c s = dropWhile ((=) c) s"

definition rstrip_of :: "char \<Rightarrow> string \<Rightarrow> string" where
  "rstrip_of c s = rev (dropWhile ((=) c) (rev s))"

definition removeprefix :: "string \<Rightarrow> string \<Rightarrow> string" where
  "removeprefix p s = (if prefix p s then drop (length p) s else s)"

definition removesuffix :: "string \<Rightarrow> string \<Rightarrow> string" where
  "removesuffix p s = (if p \<noteq> [] \<and> suffix p s then take (length s - length p) s else s)"

definition replace_char :: "char \<Rightarrow> char \<Rightarrow> string \<Rightarrow> string" where
  "replace_char a b s = map (\<lambda>c. if c = a then b else c) s"

text \<open>\<open>s.replace("**", "*")\<close>, left to right without overlap.\<close>

fun squash_stars :: "string \<Rightarrow> string" where
  "squash_stars (x # y # r) =
     (if x = CHR ''*'' \<and> y = CHR ''*'' then CHR ''*'' # squash_stars r
      else x # squash_stars (y # r))"
| "squash_stars s = s"

fun split_on :: "char \<Rightarrow> string \<Rightarrow> string list" where
  "split_on c [] = [[]]"
| "split_on c (x # xs) =
     (if x = c then [] # split_on c xs
      else (case split_on c xs of [] \<Rightarrow> [[x]] | w # ws \<Rightarrow> (x # w) # ws))"

fun join :: "string \<Rightarrow> string list \<Rightarrow> string" where
  "join sep [] = []"
| "join sep [w] = w"
| "join sep (w # ws) = w @ sep @ join sep ws"

definition py_lower_char :: "char \<Rightarrow> char" where
  "py_lower_char c = (let n = (of_char c :: nat) in
     if (65 \<le> n \<and> n \<le> 90) \<or> (192 \<le> n \<and> n \<le> 222 \<and> n \<noteq> 215) then char_of (n + 32) else c)"

definition py_lower :: "string \<Rightarrow> string" where
  "py_lower s = map py_lower_char s"

text \<open>\<open>re.sub(r"\s+", " ", s)\<close>: each maximal run of white space becomes one blank.\<close>

fun squeeze_from :: "bool \<Rightarrow> string \<Rightarrow> string" where
  "squeeze_from in_run [] = []"
| "squeeze_from in_run (c # cs) =
     (if is_space c then (if in_run then squeeze_from True cs else CHR '' '' # squeeze_from True cs)
      else c # squeeze_from False cs)"

definition squeeze_spaces :: "string \<Rightarrow> string" where
  "squeeze_spaces s = squeeze_from False s"

lemma dropWhile_all_rev: "dropWhile P (rev (dropWhile P (rev xs))) = [] \<longleftrightarrow> list_all P xs"
proof
  assume "dropWhile P (rev (dropWhile P (rev xs))) = []"
  then have a: "\<forall>x \<in> set (dropWhile P (rev xs)). P x"
    by (simp add: dropWhile_eq_Nil_conv)
  have "\<forall>x \<in> set (rev xs). P x"
    using a by (metis Un_iff set_append set_takeWhileD takeWhile_dropWhile_id)
  then show "list_all P xs" by (simp add: list_all_iff)
next
  assume "list_all P xs"
  then have "dropWhile P (rev xs) = []" by (simp add: list_all_iff dropWhile_eq_Nil_conv)
  then show "dropWhile P (rev (dropWhile P (rev xs))) = []"
    by (simp del: dropWhile_eq_Nil_conv)
qed

lemma blank_iff_strip: "blank s \<longleftrightarrow> py_strip s = []"
proof -
  have "py_strip s = [] \<longleftrightarrow> dropWhile is_space (rev (dropWhile is_space s)) = []"
    by (simp add: py_strip_def py_rstrip_def py_lstrip_def)
  also have "\<dots> \<longleftrightarrow> list_all is_space (rev s)"
    using dropWhile_all_rev [of is_space "rev s"] by simp
  finally show ?thesis by (simp add: blank_def)
qed

lemma blank_Nil [simp]: "blank []"
  by (simp add: blank_def)

lemma blank_some_simps [simp]: "blank_some None = False" "blank_some (Some s) = blank s"
  by (simp_all add: blank_some_def)

lemma blank_opt_simps [simp]: "blank_opt None" "blank_opt (Some s) = blank s"
  by (simp_all add: blank_opt_def)

lemma split_on_nonempty: "split_on c s \<noteq> []"
  by (cases s) (auto split: list.splits)

lemma join_split: "join [c] (split_on c s) = s"
proof (induction s)
  case (Cons x xs)
  then show ?case
    using split_on_nonempty [of c xs]
    by (cases "split_on c xs"; cases "tl (split_on c xs)") auto
qed simp

lemma split_on_no_sep: "c \<notin> set s \<Longrightarrow> split_on c s = [s]"
  by (induction s) auto

lemma split_on_append:
  "c \<notin> set w \<Longrightarrow> split_on c (w @ c # s) = w # split_on c s"
  by (induction w) (auto split: list.splits)

lemma split_on_piece: "w \<in> set (split_on c s) \<Longrightarrow> set w \<subseteq> set s - {c}"
proof (induction s arbitrary: w)
  case (Cons x xs)
  show ?case
  proof (cases "x = c")
    case True
    with Cons show ?thesis by auto
  next
    case False
    obtain v vs where v: "split_on c xs = v # vs"
      using split_on_nonempty [of c xs] by (cases "split_on c xs") auto
    with False Cons.prems have "w = x # v \<or> w \<in> set vs" by auto
    then show ?thesis using Cons.IH [of v] Cons.IH [of w] v False by auto
  qed
qed simp

lemma squash_stars_id: "CHR ''*'' \<notin> set s \<Longrightarrow> squash_stars s = s"
  by (induction s rule: squash_stars.induct) auto

lemma set_squash_stars: "set (squash_stars s) = set s"
  by (induction s rule: squash_stars.induct) auto

section \<open>Decimal numbers\<close>

definition digit_char :: "nat \<Rightarrow> char" where
  "digit_char d = char_of (48 + d)"

fun nat_str :: "nat \<Rightarrow> string" where
  "nat_str n = (if n < 10 then [digit_char n] else nat_str (n div 10) @ [digit_char (n mod 10)])"

declare nat_str.simps [simp del]

definition int_str :: "int \<Rightarrow> string" where
  "int_str i = (if i < 0 then CHR ''-'' # nat_str (nat (- i)) else nat_str (nat i))"

text \<open>The format \<open>:02d\<close> of a non-negative number.\<close>

definition pad2 :: "nat \<Rightarrow> string" where
  "pad2 n = (if n < 10 then CHR ''0'' # nat_str n else nat_str n)"

definition is_digit :: "char \<Rightarrow> bool" where
  "is_digit c = (let n = (of_char c :: nat) in 48 \<le> n \<and> n \<le> 57)"

definition digit_val :: "char \<Rightarrow> nat" where
  "digit_val c = of_char c - 48"

text \<open>\<open>int(text)\<close>: optional whitespace and sign, digits with single underscores between.\<close>

fun digits_ok :: "string \<Rightarrow> bool" where
  "digits_ok [] = False"
| "digits_ok [c] = is_digit c"
| "digits_ok (c # d # r) = (is_digit c \<and> (if d = CHR ''_'' then digits_ok r else digits_ok (d # r)))"

definition digits_val :: "string \<Rightarrow> nat" where
  "digits_val s = foldl (\<lambda>a c. 10 * a + digit_val c) 0 (filter is_digit s)"

definition py_int_of_str :: "string \<Rightarrow> int result" where
  "py_int_of_str text =
     (let s = py_strip text;
          neg = (case s of c # _ \<Rightarrow> c = CHR ''-'' | [] \<Rightarrow> False);
          sign = (case s of c # _ \<Rightarrow> c = CHR ''-'' \<or> c = CHR ''+'' | [] \<Rightarrow> False);
          body = (if sign then tl s else s)
      in if digits_ok body then Inr (if neg then - int (digits_val body) else int (digits_val body))
         else Inl (ValueError ''int''))"

lemma of_char_digit: "d < 10 \<Longrightarrow> (of_char (digit_char d) :: nat) = 48 + d"
  by (simp add: digit_char_def)

lemma digit_char_props:
  assumes "d < 10"
  shows "is_digit (digit_char d)" "digit_val (digit_char d) = d" "\<not> is_space (digit_char d)"
    "digit_char d \<noteq> CHR ''-''" "digit_char d \<noteq> CHR ''+''" "digit_char d \<noteq> CHR ''_''"
    "digit_char d \<noteq> CHR ''.''" "digit_char d \<noteq> CHR '':''"
proof -
  have n: "(of_char (digit_char d) :: nat) = 48 + d" by (rule of_char_digit [OF assms])
  show "is_digit (digit_char d)" "digit_val (digit_char d) = d" "\<not> is_space (digit_char d)"
    using assms by (simp_all add: is_digit_def digit_val_def is_space_def Let_def n)
  have ne: "digit_char d \<noteq> c" if "(of_char c :: nat) < 48 \<or> 57 < (of_char c :: nat)" for c
    using that n assms by auto
  show "digit_char d \<noteq> CHR ''-''" "digit_char d \<noteq> CHR ''+''" "digit_char d \<noteq> CHR ''_''"
    "digit_char d \<noteq> CHR ''.''" "digit_char d \<noteq> CHR '':''"
    by (rule ne, simp)+
qed

lemma nat_str_digits: "c \<in> set (nat_str n) \<Longrightarrow> \<exists>d < 10. c = digit_char d"
proof (induction n rule: nat_str.induct)
  case (1 n)
  show ?case
  proof (cases "n < 10")
    case True
    with "1.prems" show ?thesis by (subst (asm) nat_str.simps) auto
  next
    case False
    with "1.prems" have "c \<in> set (nat_str (n div 10)) \<or> c = digit_char (n mod 10)"
      by (subst (asm) nat_str.simps) auto
    with "1.IH" False show ?thesis by (metis mod_less_divisor zero_less_numeral)
  qed
qed

lemma nat_str_nonempty: "nat_str n \<noteq> []"
  by (subst nat_str.simps) auto

lemma all_digits_ok: "s \<noteq> [] \<Longrightarrow> list_all is_digit s \<Longrightarrow> CHR ''_'' \<notin> set s \<Longrightarrow> digits_ok s"
  by (induction s rule: digits_ok.induct) auto

lemma nat_str_chars: "list_all is_digit (nat_str n)" "CHR ''_'' \<notin> set (nat_str n)"
  "list_all (\<lambda>c. \<not> is_space c) (nat_str n)" "CHR ''-'' \<notin> set (nat_str n)"
  "CHR ''+'' \<notin> set (nat_str n)" "CHR ''.'' \<notin> set (nat_str n)" "CHR '':'' \<notin> set (nat_str n)"
proof -
  have all: "P c" if "\<And>d. d < 10 \<Longrightarrow> P (digit_char d)" "c \<in> set (nat_str n)" for P c
    using nat_str_digits [OF that(2)] that(1) by auto
  show "list_all is_digit (nat_str n)" "list_all (\<lambda>c. \<not> is_space c) (nat_str n)"
    unfolding list_all_iff
    using all [where P = is_digit] all [where P = "\<lambda>c. \<not> is_space c"] digit_char_props by blast+
  show "CHR ''_'' \<notin> set (nat_str n)" "CHR ''-'' \<notin> set (nat_str n)"
    "CHR ''+'' \<notin> set (nat_str n)" "CHR ''.'' \<notin> set (nat_str n)" "CHR '':'' \<notin> set (nat_str n)"
    using all [where P = "\<lambda>c. c \<noteq> CHR ''_''"] all [where P = "\<lambda>c. c \<noteq> CHR ''-''"]
      all [where P = "\<lambda>c. c \<noteq> CHR ''+''"] all [where P = "\<lambda>c. c \<noteq> CHR ''.''"]
      all [where P = "\<lambda>c. c \<noteq> CHR '':''"] digit_char_props
    by blast+
qed

lemma digits_val_nat_str: "digits_val (nat_str n) = n"
proof (induction n rule: nat_str.induct)
  case (1 n)
  show ?case
  proof (cases "n < 10")
    case True
    then show ?thesis
      by (subst nat_str.simps) (simp add: digits_val_def digit_char_props)
  next
    case False
    have "digits_val (nat_str n) = 10 * digits_val (nat_str (n div 10)) + n mod 10"
      using False by (subst nat_str.simps) (simp add: digits_val_def digit_char_props)
    with "1.IH" False show ?thesis by simp
  qed
qed

lemma strip_no_space: "list_all (\<lambda>c. \<not> is_space c) s \<Longrightarrow> py_strip s = s"
proof -
  assume a: "list_all (\<lambda>c. \<not> is_space c) s"
  then have "dropWhile is_space s = s" by (cases s) auto
  moreover have "dropWhile is_space (rev s) = rev s"
    using a by (cases "rev s") (auto simp: list_all_iff dest: arg_cong [of _ _ set])
  ultimately show ?thesis by (simp add: py_strip_def py_lstrip_def py_rstrip_def)
qed

text \<open>Printing a number and reading it back gives the number.\<close>

lemma py_int_nat_str: "py_int_of_str (nat_str n) = Inr (int n)"
proof -
  obtain c r where cr: "nat_str n = c # r" using nat_str_nonempty by (cases "nat_str n") auto
  have c: "c \<noteq> CHR ''-''" "c \<noteq> CHR ''+''"
    using nat_str_chars(4,5) [of n] cr by auto
  have "digits_ok (c # r)"
    using all_digits_ok [of "nat_str n"] nat_str_chars [of n] cr by simp
  moreover have "py_strip (c # r) = c # r"
    using strip_no_space nat_str_chars(3) [of n] cr by metis
  moreover have "digits_val (c # r) = n" using digits_val_nat_str [of n] cr by simp
  ultimately show ?thesis using cr c by (simp add: py_int_of_str_def)
qed

section \<open>Evaluation\<close>

text \<open>
  Code equations that read a character by its bits and a number by its digits, so that the
  closed examples of the development evaluate without arithmetic on code points.
\<close>

lemma of_char_bits:
  "(of_char (Char b0 b1 b2 b3 b4 b5 b6 b7) :: nat) =
     of_bool b0 + 2 * of_bool b1 + 4 * of_bool b2 + 8 * of_bool b3
     + 16 * of_bool b4 + 32 * of_bool b5 + 64 * of_bool b6 + 128 * of_bool b7"
  by (simp add: of_char_def)

lemma less_eq_char_bits [code]:
  "Char b0 b1 b2 b3 b4 b5 b6 b7 \<le> Char c0 c1 c2 c3 c4 c5 c6 c7 \<longleftrightarrow>
    (if b7 = c7 then if b6 = c6 then if b5 = c5 then if b4 = c4 then if b3 = c3
     then if b2 = c2 then if b1 = c1 then b0 \<longrightarrow> c0
      else c1 else c2 else c3 else c4 else c5 else c6 else c7)"
  by (auto simp: lexordp_eq_simps)

lemma less_char_bits [code]:
  "Char b0 b1 b2 b3 b4 b5 b6 b7 < Char c0 c1 c2 c3 c4 c5 c6 c7 \<longleftrightarrow>
    (if b7 = c7 then if b6 = c6 then if b5 = c5 then if b4 = c4 then if b3 = c3
     then if b2 = c2 then if b1 = c1 then \<not> b0 \<and> c0
      else c1 else c2 else c3 else c4 else c5 else c6 else c7)"
  by (auto simp: lexordp_simps)

lemma is_space_bits [code]:
  "is_space (Char b0 b1 b2 b3 b4 b5 b6 b7) \<longleftrightarrow>
    (if b6 then False
     else if b7 then \<not> b4 \<and> (if b5 then \<not> b3 \<and> \<not> b2 \<and> \<not> b1 \<and> \<not> b0 else \<not> b3 \<and> b2 \<and> \<not> b1 \<and> b0)
     else if b5 then \<not> b4 \<and> \<not> b3 \<and> \<not> b2 \<and> \<not> b1 \<and> \<not> b0
     else if b3 then if b4 then b2 else if b2 then \<not> b1 else b1 \<or> b0 else False)"
  unfolding is_space_def Let_def of_char_bits by (cases b5; cases b6; cases b7; cases b4; cases b3; cases b2; cases b1; cases b0) simp_all

lemma py_lower_char_bits [code]:
  "py_lower_char (Char b0 b1 b2 b3 b4 b5 b6 b7) =
    Char b0 b1 b2 b3 b4
      (b5 \<or> b6 \<and> (if b7 then \<not> (b4 \<and> b2 \<and> b1 \<and> b0)
         else if b4 then \<not> b3 \<or> \<not> b2 \<and> \<not> (b1 \<and> b0) else b3 \<or> b2 \<or> b1 \<or> b0)) b6 b7"
  unfolding py_lower_char_def Let_def of_char_bits
  by (cases b5; cases b6; cases b7; cases b4; cases b3; cases b2; cases b1; cases b0) (simp_all add: char_of_def bit_0)

lemma is_digit_bits [code]:
  "is_digit (Char b0 b1 b2 b3 b4 b5 b6 b7) \<longleftrightarrow>
    \<not> b7 \<and> \<not> b6 \<and> b5 \<and> b4 \<and> \<not> (b3 \<and> (b2 \<or> b1))"
  unfolding is_digit_def Let_def of_char_bits by (cases b5; cases b6; cases b7; cases b4; cases b3; cases b2; cases b1; cases b0) simp_all

definition bit_val :: "bool list \<Rightarrow> nat" where
  "bit_val bs = foldr (\<lambda>b n. if b then Suc (n + n) else n + n) bs 0"

lemma digit_val_bits [code]:
  "digit_val (Char b0 b1 b2 b3 b4 b5 b6 b7) = bit_val [b0, b1, b2, b3, b4, b5, b6, b7] - 48"
  unfolding digit_val_def of_char_bits bit_val_def by (cases b5; cases b6; cases b7; cases b4; cases b3; cases b2; cases b1; cases b0) simp_all

text \<open>Decimal digits, the least significant first, of a binary and of a unary number.\<close>

fun dbl :: "bool \<Rightarrow> nat list \<Rightarrow> nat list" where
  "dbl c [] = (if c then [1] else [])"
| "dbl c (d # ds) = (let e = d + d + (if c then 1 else 0) in if e < 10 then e # dbl False ds else (e - 10) # dbl True ds)"

fun num_digits :: "num \<Rightarrow> nat list" where
  "num_digits num.One = [1]"
| "num_digits (num.Bit0 n) = dbl False (num_digits n)"
| "num_digits (num.Bit1 n) = dbl True (num_digits n)"

fun inc :: "nat list \<Rightarrow> nat list" where
  "inc [] = [1]"
| "inc (d # ds) = (if d = 9 then 0 # inc ds else Suc d # ds)"

fun nat_digits :: "nat \<Rightarrow> nat list" where
  "nat_digits 0 = []"
| "nat_digits (Suc n) = inc (nat_digits n)"

fun digits_to_nat :: "nat list \<Rightarrow> nat" where
  "digits_to_nat [] = 0" | "digits_to_nat (d # ds) = d + 10 * digits_to_nat ds"

definition digits_norm :: "nat list \<Rightarrow> bool" where
  "digits_norm ds \<longleftrightarrow> list_all (\<lambda>d. d < 10) ds \<and> (ds \<noteq> [] \<longrightarrow> last ds \<noteq> 0)"

lemma dbl_val: "digits_to_nat (dbl c ds) = 2 * digits_to_nat ds + of_bool c"
  by (induction ds arbitrary: c) (auto simp: Let_def)

lemma dbl_norm: "digits_norm ds \<Longrightarrow> digits_norm (dbl c ds)"
proof (induction ds arbitrary: c)
  case (Cons d ds)
  have "digits_norm ds" using Cons.prems by (cases ds) (auto simp: digits_norm_def)
  from Cons.IH [OF this] have IH: "digits_norm (dbl c' ds)" for c' .
  have ne: "dbl c' ds \<noteq> []" if "ds \<noteq> []" for c' using that by (cases ds) (auto simp: Let_def)
  show ?case using Cons.prems IH [of True] IH [of False] ne [of True] ne [of False]
    by (cases ds) (auto simp: digits_norm_def Let_def split: if_splits)
qed (simp add: digits_norm_def)

lemma dbl_Nil_iff: "dbl c ds = [] \<longleftrightarrow> ds = [] \<and> \<not> c"
  by (cases ds) (auto simp: Let_def)

lemma digits_pos: "digits_norm ds \<Longrightarrow> ds \<noteq> [] \<Longrightarrow> 0 < digits_to_nat ds"
  by (induction ds) (auto simp: digits_norm_def split: if_splits)

lemma num_digits_ok: "digits_norm (num_digits n)" "num_digits n \<noteq> []" "digits_to_nat (num_digits n) = numeral n"
proof (induction n)
  case One
  { case 1 then show ?case by (simp add: digits_norm_def) next
    case 2 then show ?case by simp next
    case 3 then show ?case by simp }
next
  case (Bit0 n)
  { case 1 then show ?case using Bit0 by (simp add: dbl_norm) next
    case 2 then show ?case using Bit0 by (simp add: dbl_Nil_iff) next
    case 3 then show ?case using Bit0 by (simp add: dbl_val numeral_Bit0) }
next
  case (Bit1 n)
  { case 1 then show ?case using Bit1 by (simp add: dbl_norm) next
    case 2 then show ?case using Bit1 by (simp add: dbl_Nil_iff) next
    case 3 then show ?case using Bit1 by (simp add: dbl_val numeral_Bit1) }
qed

lemma inc_ok: "digits_norm ds \<Longrightarrow> digits_norm (inc ds)" "inc ds \<noteq> []" "digits_to_nat (inc ds) = Suc (digits_to_nat ds)"
proof (induction ds)
  case (Cons d ds)
  have ne: "inc ds \<noteq> []" by (cases ds) auto
  { case 1 
    have "digits_norm ds" using 1 by (cases ds) (auto simp: digits_norm_def)
    then show ?case using 1 Cons ne by (auto simp: digits_norm_def) next
    case 2 then show ?case by simp next
    case 3 then show ?case using Cons by simp }
qed (simp_all add: digits_norm_def)

lemma nat_digits_ok: "digits_norm (nat_digits n)" "digits_to_nat (nat_digits n) = n"
  by (induction n) (simp_all add: inc_ok, simp add: digits_norm_def)

definition dec_char :: "nat \<Rightarrow> char" where "dec_char d = ''0123456789'' ! d"

lemma dec_char: "d < 10 \<Longrightarrow> dec_char d = digit_char d"
proof -
  have "\<forall>d \<in> set [0..<10]. dec_char d = digit_char d"
    unfolding dec_char_def digit_char_def by (simp add: upt_rec char_of_def bit_0)
  then show "d < 10 \<Longrightarrow> dec_char d = digit_char d" by simp
qed

lemma nat_str_snoc: "0 < m \<Longrightarrow> d < 10 \<Longrightarrow> nat_str (d + 10 * m) = nat_str m @ [digit_char d]"
  by (subst nat_str.simps) simp

lemma nat_str_of_digits:
  "digits_norm ds \<Longrightarrow> ds \<noteq> [] \<Longrightarrow> nat_str (digits_to_nat ds) = rev (map dec_char ds)"
proof (induction ds)
  case (Cons d ds)
  show ?case
  proof (cases "ds = []")
    case True
    then show ?thesis using Cons.prems by (simp add: nat_str.simps dec_char digits_norm_def)
  next
    case False
    have n: "digits_norm ds" "d < 10" using Cons.prems False by (auto simp: digits_norm_def)
    show ?thesis using digits_pos [OF n(1) False] Cons.IH [OF n(1) False] n(2)
      by (simp add: nat_str_snoc dec_char)
  qed
qed simp

lemma int_str_code [code]:
  "int_str 0 = ''0''"
  "int_str (Int.Pos n) = rev (map dec_char (num_digits n))"
  "int_str (Int.Neg n) = CHR ''-'' # rev (map dec_char (num_digits n))"
proof -
  have n: "nat_str (numeral n) = rev (map dec_char (num_digits n))"
    using nat_str_of_digits [OF num_digits_ok(1,2)] by (simp add: num_digits_ok(3))
  show "int_str 0 = ''0''" using dec_char [of 0] by (simp add: int_str_def nat_str.simps dec_char_def)
  show "int_str (Int.Pos n) = rev (map dec_char (num_digits n))" 
    "int_str (Int.Neg n) = CHR ''-'' # rev (map dec_char (num_digits n))"
   by (simp_all add: int_str_def n Int.Pos_def Int.Neg_def)
qed

lemma nat_str_code [code]:
  "nat_str 0 = ''0''"
  "nat_str (Suc n) = rev (map dec_char (inc (nat_digits n)))"
proof -
  show "nat_str 0 = ''0''" using dec_char [of 0] by (simp add: nat_str.simps dec_char_def)
  show "nat_str (Suc n) = rev (map dec_char (inc (nat_digits n)))"
    using nat_str_of_digits [OF nat_digits_ok(1) [of "Suc n"]] by (simp only: nat_digits_ok(2)) (simp add: inc_ok(2))
qed

end
