(* ===== verification/Json.thy ===== *)
theory Json
  imports Py_Strings
begin

text \<open>
  The JSON values the control plane writes to and reads from its files, the conversions
  \<open>str(value)\<close> and \<open>int(value)\<close> the readers apply to them, and the canonical text
  \<open>json.dumps(value, ensure_ascii=False, sort_keys=True, separators=...)\<close> that the contract
  digests are computed from. Numbers are integers: none of the modelled files holds a
  float. An object is a dictionary in insertion order. A file that the code writes with
  \<open>json.dumps\<close> and reads with \<open>json.loads\<close> is modelled by the value it holds.
\<close>

datatype json =
    JNull
  | JBool bool
  | JInt int
  | JStr string
  | JList "json list"
  | JObj "(string \<times> json) list"

definition json_get :: "json \<Rightarrow> string \<Rightarrow> json option" where
  "json_get j k = (case j of JObj kvs \<Rightarrow> map_of kvs k | _ \<Rightarrow> None)"

text \<open>\<open>payload.get(k)\<close>: a missing key and a null read the same.\<close>

definition json_get_null :: "json \<Rightarrow> string \<Rightarrow> json" where
  "json_get_null j k = (case json_get j k of None \<Rightarrow> JNull | Some v \<Rightarrow> v)"

text \<open>\<open>payload[k]\<close> raises \<open>KeyError\<close>.\<close>

definition json_index :: "json \<Rightarrow> string \<Rightarrow> json result" where
  "json_index j k = (case json_get j k of None \<Rightarrow> Inl (KeyError k) | Some v \<Rightarrow> Inr v)"

fun is_obj :: "json \<Rightarrow> bool" where
  "is_obj (JObj _) = True" | "is_obj _ = False"

fun is_list :: "json \<Rightarrow> bool" where
  "is_list (JList _) = True" | "is_list _ = False"

fun is_str :: "json \<Rightarrow> bool" where
  "is_str (JStr _) = True" | "is_str _ = False"

text \<open>The truth value of a Python object.\<close>

fun truthy :: "json \<Rightarrow> bool" where
  "truthy JNull = False"
| "truthy (JBool b) = b"
| "truthy (JInt i) = (i \<noteq> 0)"
| "truthy (JStr s) = (s \<noteq> [])"
| "truthy (JList xs) = (xs \<noteq> [])"
| "truthy (JObj kvs) = (kvs \<noteq> [])"

section \<open>str and int\<close>

definition hex_char :: "nat \<Rightarrow> char" where
  "hex_char d = (if d < 10 then char_of (48 + d) else char_of (87 + d))"

definition hex2 :: "nat \<Rightarrow> string" where
  "hex2 n = [hex_char (n div 16), hex_char (n mod 16)]"

text \<open>One character of \<open>repr\<close> of a string whose quote is \<open>q\<close>.\<close>

definition repr_char :: "char \<Rightarrow> char \<Rightarrow> string" where
  "repr_char q c = (let n = (of_char c :: nat) in
     if c = q \<or> n = 92 then [CHR 0x5C, c]
     else if n = 10 then CHR 0x5C # ''n''
     else if n = 13 then CHR 0x5C # ''r''
     else if n = 9 then CHR 0x5C # ''t''
     else if n < 32 \<or> (127 \<le> n \<and> n \<le> 160) \<or> n = 173 then CHR 0x5C # ''x'' @ hex2 n
     else [c])"

definition py_repr_str :: "string \<Rightarrow> string" where
  "py_repr_str s = (let q = (if CHR 0x27 \<in> set s \<and> CHR 0x22 \<notin> set s then CHR 0x22 else CHR 0x27)
     in q # concat (map (repr_char q) s) @ [q])"

fun py_repr :: "json \<Rightarrow> string" where
  "py_repr JNull = ''None''"
| "py_repr (JBool b) = (if b then ''True'' else ''False'')"
| "py_repr (JInt i) = int_str i"
| "py_repr (JStr s) = py_repr_str s"
| "py_repr (JList xs) = ''['' @ join '', '' (map py_repr xs) @ '']''"
| "py_repr (JObj kvs) =
     ''{'' @ join '', '' (map (\<lambda>(k, v). py_repr_str k @ '': '' @ py_repr v) kvs) @ ''}''"

definition py_str :: "json \<Rightarrow> string" where
  "py_str j = (case j of JStr s \<Rightarrow> s | _ \<Rightarrow> py_repr j)"

definition py_int :: "json \<Rightarrow> int result" where
  "py_int j = (case j of
      JInt i \<Rightarrow> Inr i
    | JBool b \<Rightarrow> Inr (if b then 1 else 0)
    | JStr s \<Rightarrow> py_int_of_str s
    | _ \<Rightarrow> Inl (TypeError ''int''))"

definition obj_items :: "json \<Rightarrow> (string \<times> json) list" where
  "obj_items j = (case j of JObj kvs \<Rightarrow> kvs | _ \<Rightarrow> [])"

definition list_items :: "json \<Rightarrow> json list" where
  "list_items j = (case j of JList xs \<Rightarrow> xs | _ \<Rightarrow> [])"

text \<open>\<open>str(payload[k]) if payload.get(k) is not None else None\<close>\<close>

definition opt_str_field :: "json \<Rightarrow> string \<Rightarrow> string option" where
  "opt_str_field j k = (case json_get j k of
      None \<Rightarrow> None | Some v \<Rightarrow> if v = JNull then None else Some (py_str v))"

text \<open>\<open>str(payload[k])\<close>\<close>

definition str_field :: "json \<Rightarrow> string \<Rightarrow> string result" where
  "str_field j k = bindE (json_index j k) (\<lambda>v. Inr (py_str v))"

text \<open>\<open>tuple(str(value) for value in payload.get(k, ()))\<close> over a list; a string is iterated
  by its characters and an object by its keys, as Python does.\<close>

definition str_list_of :: "json \<Rightarrow> string list result" where
  "str_list_of v = (case v of
      JList xs \<Rightarrow> Inr (map py_str xs)
    | JStr s \<Rightarrow> Inr (map (\<lambda>c. [c]) s)
    | JObj kvs \<Rightarrow> Inr (map fst kvs)
    | _ \<Rightarrow> Inl (TypeError ''not iterable''))"

definition str_list_field :: "json \<Rightarrow> string \<Rightarrow> string list result" where
  "str_list_field j k = (case json_get j k of None \<Rightarrow> Inr [] | Some v \<Rightarrow> str_list_of v)"

definition jopt :: "string option \<Rightarrow> json" where
  "jopt v = (case v of None \<Rightarrow> JNull | Some s \<Rightarrow> JStr s)"

definition jstrs :: "string list \<Rightarrow> json" where
  "jstrs xs = JList (map JStr xs)"

lemma json_get_simps [simp]:
  "json_get (JObj kvs) k = map_of kvs k"
  by (simp add: json_get_def)

lemma json_index_simps [simp]:
  "map_of kvs k = Some v \<Longrightarrow> json_index (JObj kvs) k = Inr v"
  by (simp add: json_index_def)

lemma py_str_simps [simp]:
  "py_str (JStr s) = s"
  by (simp add: py_str_def)

lemma py_int_simps [simp]: "py_int (JInt i) = Inr i"
  by (simp add: py_int_def)

lemma str_list_of_jstrs [simp]: "str_list_of (jstrs xs) = Inr xs"
  by (simp add: jstrs_def str_list_of_def comp_def)

lemma opt_str_field_jopt: "json_get j k = Some (jopt v) \<Longrightarrow> opt_str_field j k = v"
  by (auto simp: opt_str_field_def jopt_def split: option.splits)

definition str_default :: "json \<Rightarrow> string \<Rightarrow> string \<Rightarrow> string" where
  "str_default j k d = (case json_get j k of None \<Rightarrow> d | Some v \<Rightarrow> py_str v)"

text \<open>\<open>str(raw[k]) if raw.get(k) else None\<close>\<close>

definition truthy_str_field :: "json \<Rightarrow> string \<Rightarrow> string option" where
  "truthy_str_field j k =
     (if truthy (json_get_null j k) then Some (py_str (json_get_null j k)) else None)"

lemma py_str_nonempty: "truthy v \<Longrightarrow> py_str v \<noteq> []"
  by (cases v) (auto simp: py_str_def int_str_def py_repr_str_def Let_def nat_str_nonempty)

lemma truthy_str_field_nonempty: "truthy_str_field j k \<noteq> Some []"
  by (simp add: truthy_str_field_def py_str_nonempty)

lemma truthy_str_field_jopt:
  "json_get j k = Some (jopt v) \<Longrightarrow> v \<noteq> Some [] \<Longrightarrow> truthy_str_field j k = v"
  by (cases v) (auto simp: truthy_str_field_def json_get_null_def jopt_def)

lemma str_default_JStr: "json_get j k = Some (JStr s) \<Longrightarrow> str_default j k d = s"
  by (simp add: str_default_def)

lemma str_field_JStr: "json_get j k = Some (JStr s) \<Longrightarrow> str_field j k = Inr s"
  by (simp add: str_field_def json_index_def)

text \<open>\<open>value == n\<close> for a number \<open>n\<close>: \<open>True\<close> equals 1 and \<open>False\<close> equals 0.\<close>

definition json_eq_int :: "json option \<Rightarrow> int \<Rightarrow> bool" where
  "json_eq_int v n = (case v of
      Some (JInt i) \<Rightarrow> i = n
    | Some (JBool b) \<Rightarrow> (if b then 1 else 0) = n
    | _ \<Rightarrow> False)"

text \<open>What a path holds: nothing, a text that is not JSON, or a JSON value.\<close>

datatype json_file = NoFile | NotJson | JsonFile json

section \<open>Canonical text\<close>

definition esc_char :: "char \<Rightarrow> string" where
  "esc_char c = (let n = (of_char c :: nat) in
     if n = 34 then [CHR 0x5C, CHR 0x22]
     else if n = 92 then [CHR 0x5C, CHR 0x5C]
     else if n = 10 then CHR 0x5C # ''n''
     else if n = 13 then CHR 0x5C # ''r''
     else if n = 9 then CHR 0x5C # ''t''
     else if n = 8 then CHR 0x5C # ''b''
     else if n = 12 then CHR 0x5C # ''f''
     else if n < 32 then CHR 0x5C # ''u00'' @ hex2 n
     else [c])"

definition json_quote :: "string \<Rightarrow> string" where
  "json_quote s = [CHR 0x22] @ concat (map esc_char s) @ [CHR 0x22]"

text \<open>\<open>item_sep\<close> and \<open>key_sep\<close> are the two separators; object keys are sorted.\<close>

function json_dumps :: "string \<Rightarrow> string \<Rightarrow> json \<Rightarrow> string" where
  "json_dumps item_sep key_sep JNull = ''null''"
| "json_dumps item_sep key_sep (JBool b) = (if b then ''true'' else ''false'')"
| "json_dumps item_sep key_sep (JInt i) = int_str i"
| "json_dumps item_sep key_sep (JStr s) = json_quote s"
| "json_dumps item_sep key_sep (JList xs) =
     ''['' @ join item_sep (map (json_dumps item_sep key_sep) xs) @ '']''"
| "json_dumps item_sep key_sep (JObj kvs) =
     ''{'' @ join item_sep
       (map (\<lambda>(k, v). json_quote k @ key_sep @ json_dumps item_sep key_sep v) (sort_key fst kvs)) @ ''}''"
  by pat_completeness auto
termination
proof (relation "measure (\<lambda>(_, _, j). size j)", goal_cases)
  case 1
  then show ?case by simp
next
  case (2 i k xs x)
  then show ?case by (auto dest: size_list_estimation' [where f = size, OF _ order_refl])
next
  case (3 i k kvs kv key v)
  then have "(key, v) \<in> set kvs" by simp
  then have "size v < size (JObj kvs)" by (induction kvs) auto
  then show ?case by simp
qed

definition compact_dumps :: "json \<Rightarrow> string" where
  "compact_dumps = json_dumps '','' '':''"

definition spaced_dumps :: "json \<Rightarrow> string" where
  "spaced_dumps = json_dumps '', '' '': ''"

section \<open>Evaluation\<close>

text \<open>The escapes of a character read off its bits.\<close>

definition nibble_char :: "bool \<Rightarrow> bool \<Rightarrow> bool \<Rightarrow> bool \<Rightarrow> char" where
  "nibble_char b0 b1 b2 b3 =
    (if b3
     then if b2
       then if b1 then if b0 then CHR ''f'' else CHR ''e'' else if b0 then CHR ''d'' else CHR ''c''
       else if b1 then if b0 then CHR ''b'' else CHR ''a'' else if b0 then CHR ''9'' else CHR ''8''
     else if b2
       then if b1 then if b0 then CHR ''7'' else CHR ''6'' else if b0 then CHR ''5'' else CHR ''4''
       else if b1 then if b0 then CHR ''3'' else CHR ''2'' else if b0 then CHR ''1'' else CHR ''0'')"

lemma esc_char_bits [code]:
  "esc_char (Char b0 b1 b2 b3 b4 b5 b6 b7) =
   (let c = Char b0 b1 b2 b3 b4 b5 b6 b7 in
    if b5 \<or> b6 \<or> b7 then (if c = CHR 0x22 \<or> c = CHR 0x5C then [CHR 0x5C, c] else [c])
    else if c = CHR 0x0A then CHR 0x5C # ''n'' else if c = CHR 0x0D then CHR 0x5C # ''r''
    else if c = CHR 0x09 then CHR 0x5C # ''t'' else if c = CHR 0x08 then CHR 0x5C # ''b''
    else if c = CHR 0x0C then CHR 0x5C # ''f''
    else CHR 0x5C # ''u00'' @ [if b4 then CHR ''1'' else CHR ''0'', nibble_char b0 b1 b2 b3])"
 unfolding esc_char_def hex2_def hex_char_def nibble_char_def Let_def of_char_bits
  by (cases b5; cases b6; cases b7; cases b4; cases b3; cases b2; cases b1; cases b0)
    (simp_all add: char_of_def bit_0)

lemma repr_char_bits [code]:
  "repr_char q (Char b0 b1 b2 b3 b4 b5 b6 b7) =
   (let c = Char b0 b1 b2 b3 b4 b5 b6 b7 in
    if c = q \<or> c = CHR 0x5C then [CHR 0x5C, c]
    else if c = CHR 0x0A then CHR 0x5C # ''n'' else if c = CHR 0x0D then CHR 0x5C # ''r''
    else if c = CHR 0x09 then CHR 0x5C # ''t''
    else if \<not> b7 \<and> (\<not> b6 \<and> \<not> b5 \<or> c = CHR 0x7F) \<or> b7 \<and> (\<not> b6 \<and> \<not> b5 \<or> c = CHR 0xA0 \<or> c = CHR 0xAD)
    then CHR 0x5C # ''x'' @ [nibble_char b4 b5 b6 b7, nibble_char b0 b1 b2 b3]
    else [c])"
  unfolding repr_char_def hex2_def hex_char_def nibble_char_def Let_def of_char_bits
  by (cases b5; cases b6; cases b7; cases b4; cases b3; cases b2; cases b1; cases b0)
    (simp_all add: char_of_def bit_0)

end
