(* ===== verification/Py_Fnmatch.thy ===== *)
theory Py_Fnmatch
  imports Py_Strings
begin

text \<open>
  Python's \<open>fnmatch.fnmatch\<close> on POSIX as an executable matcher: the pattern is parsed to
  tokens once and matched by structural recursion. The lemmas characterise the two
  shapes of pattern the code's path checks rest on: a pattern without special characters
  matches only itself, and a literal followed by a star matches what starts with it.
\<close>

datatype gtok = GLit char | GAny | GStar | GSet bool "(char \<times> char) list"

text \<open>What follows an opening bracket: the text of the set and the rest of the pattern.\<close>

definition split_class :: "string \<Rightarrow> (string \<times> string) option" where
  "split_class cs =
     (let neg = (case cs of c # _ \<Rightarrow> if c = CHR ''!'' then [c] else [] | [] \<Rightarrow> []);
          r1 = drop (length neg) cs;
          first = (case r1 of c # _ \<Rightarrow> if c = CHR '']'' then [c] else [] | [] \<Rightarrow> []);
          r2 = drop (length first) r1;
          body = takeWhile (\<lambda>c. c \<noteq> CHR '']'') r2
      in case dropWhile (\<lambda>c. c \<noteq> CHR '']'') r2 of
           [] \<Rightarrow> None
         | _ # rest \<Rightarrow> Some (neg @ first @ body, rest))"

fun class_items :: "string \<Rightarrow> (char \<times> char) list" where
  "class_items (x # y # z # r) =
     (if y = CHR ''-'' then (x, z) # class_items r else (x, x) # class_items (y # z # r))"
| "class_items (x # r) = (x, x) # class_items r"
| "class_items [] = []"

definition mk_class :: "string \<Rightarrow> gtok" where
  "mk_class stuff = (case stuff of
      c # r \<Rightarrow> if c = CHR ''!'' then GSet True (class_items r) else GSet False (class_items stuff)
    | [] \<Rightarrow> GSet False [])"

lemma dropWhile_Cons_shorter: "dropWhile P ys = x # rest \<Longrightarrow> length rest < length ys"
  by (metis Suc_le_lessD length_Cons length_dropWhile_le)

lemma split_class_shorter: "split_class cs = Some (stuff, rest) \<Longrightarrow> length rest < length cs"
  by (auto simp: split_class_def Let_def split: list.splits if_splits
      dest!: dropWhile_Cons_shorter)

function gparse :: "string \<Rightarrow> gtok list" where
  "gparse [] = []"
| "gparse (c # cs) =
     (if c = CHR ''*'' then GStar # gparse cs
      else if c = CHR ''?'' then GAny # gparse cs
      else if c = CHR ''['' then
        (case split_class cs of
           None \<Rightarrow> GLit c # gparse cs
         | Some (stuff, rest) \<Rightarrow> mk_class stuff # gparse rest)
      else GLit c # gparse cs)"
  by pat_completeness auto
termination
  by (relation "measure length") (auto dest: split_class_shorter)

fun gmatch :: "gtok list \<Rightarrow> string \<Rightarrow> bool" where
  "gmatch [] s = (s = [])"
| "gmatch (GStar # ts) s =
     (gmatch ts s \<or> (case s of [] \<Rightarrow> False | _ # r \<Rightarrow> gmatch (GStar # ts) r))"
| "gmatch (GLit c # ts) s = (case s of [] \<Rightarrow> False | x # r \<Rightarrow> x = c \<and> gmatch ts r)"
| "gmatch (GAny # ts) s = (case s of [] \<Rightarrow> False | _ # r \<Rightarrow> gmatch ts r)"
| "gmatch (GSet neg items # ts) s =
     (case s of [] \<Rightarrow> False
      | x # r \<Rightarrow> list_ex (\<lambda>(a, b). a \<le> x \<and> x \<le> b) items \<noteq> neg \<and> gmatch ts r)"

definition fnmatch :: "string \<Rightarrow> string \<Rightarrow> bool" where
  "fnmatch name pattern = gmatch (gparse pattern) name"

definition glob_free :: "string \<Rightarrow> bool" where
  "glob_free s = list_all (\<lambda>c. c \<noteq> CHR ''*'' \<and> c \<noteq> CHR ''?'' \<and> c \<noteq> CHR ''['') s"

lemma gparse_literal_append: "glob_free l \<Longrightarrow> gparse (l @ p) = map GLit l @ gparse p"
  by (induction l) (auto simp: glob_free_def)

lemma gparse_literal: "glob_free l \<Longrightarrow> gparse l = map GLit l"
  using gparse_literal_append [of l "[]"] by simp

lemma gmatch_literal_append: "gmatch (map GLit l @ ts) s \<longleftrightarrow> (\<exists>r. s = l @ r \<and> gmatch ts r)"
  by (induction l arbitrary: s) (auto split: list.splits)

lemma gmatch_star: "gmatch (GStar # ts) s \<longleftrightarrow> (\<exists>u v. s = u @ v \<and> gmatch ts v)"
proof (induction s)
  case Nil
  then show ?case by simp
next
  case (Cons x xs)
  have "(\<exists>u v. x # xs = u @ v \<and> gmatch ts v) \<longleftrightarrow>
      gmatch ts (x # xs) \<or> (\<exists>u v. xs = u @ v \<and> gmatch ts v)"
    by (auto simp: Cons_eq_append_conv)
  with Cons show ?case by simp
qed

lemma gmatch_stars: "gmatch [GStar] s" "gmatch [GStar, GStar] s"
  by (induction s) auto

lemma fnmatch_literal: "glob_free p \<Longrightarrow> fnmatch s p \<longleftrightarrow> s = p"
  using gmatch_literal_append [of p "[]" s]
  by (auto simp: fnmatch_def gparse_literal)

lemma fnmatch_literal_append:
  "glob_free l \<Longrightarrow> fnmatch s (l @ p) \<longleftrightarrow> (\<exists>r. s = l @ r \<and> fnmatch r p)"
  by (simp add: fnmatch_def gparse_literal_append gmatch_literal_append)

lemma fnmatch_star: "fnmatch s ''*''" "fnmatch s ''**''"
  using gmatch_stars by (simp_all add: fnmatch_def del: gmatch.simps)

lemma fnmatch_literal_star: "glob_free l \<Longrightarrow> fnmatch s (l @ ''*'') \<longleftrightarrow> prefix l s"
  by (auto simp: fnmatch_literal_append fnmatch_star prefix_def)

text \<open>Two stars in a row match what one star matches.\<close>

lemma gmatch_star_star: "gmatch (GStar # GStar # ts) s \<longleftrightarrow> gmatch (GStar # ts) s"
  by (simp only: gmatch_star) (metis append.assoc append_Nil)

lemma glob_free_squash: "glob_free p \<Longrightarrow> squash_stars p = p"
  by (rule squash_stars_id) (auto simp: glob_free_def list_all_iff)

text \<open>A pattern that ends in an ordinary character matches only names that end in it.\<close>

definition close_class :: "string \<Rightarrow> string \<Rightarrow> (string \<times> string) option" where
  "close_class acc r =
     (case dropWhile (\<lambda>c. c \<noteq> CHR '']'') r of
        [] \<Rightarrow> None
      | _ # rest \<Rightarrow> Some (acc @ takeWhile (\<lambda>c. c \<noteq> CHR '']'') r, rest))"

lemma split_class_simps:
  "split_class [] = close_class [] []"
  "x \<noteq> CHR ''!'' \<Longrightarrow> x \<noteq> CHR '']'' \<Longrightarrow> split_class (x # xs) = close_class [] (x # xs)"
  "split_class (CHR '']'' # xs) = close_class '']'' xs"
  "split_class [CHR ''!''] = close_class ''!'' []"
  "y \<noteq> CHR '']'' \<Longrightarrow> split_class (CHR ''!'' # y # ys) = close_class ''!'' (y # ys)"
  "split_class (CHR ''!'' # CHR '']'' # ys) = close_class ''!]'' ys"
  by (simp_all add: split_class_def close_class_def Let_def cong: list.case_cong)

lemma close_class_snoc:
  assumes "c \<noteq> CHR '']''"
  shows "close_class acc (r @ [c]) = map_option (\<lambda>(stuff, rest). (stuff, rest @ [c])) (close_class acc r)"
proof (cases "CHR '']'' \<in> set r")
  case True
  then obtain u v where "r = u @ CHR '']'' # v" "CHR '']'' \<notin> set u"
    by (meson split_list_first)
  moreover have "dropWhile (\<lambda>c. c \<noteq> CHR '']'') (u @ CHR '']'' # w) = CHR '']'' # w"
    "takeWhile (\<lambda>c. c \<noteq> CHR '']'') (u @ CHR '']'' # w) = u" for w
    using \<open>CHR '']'' \<notin> set u\<close> by (induction u) auto
  ultimately show ?thesis by (simp add: close_class_def)
next
  case False
  then have "dropWhile (\<lambda>c. c \<noteq> CHR '']'') r = []" "dropWhile (\<lambda>c. c \<noteq> CHR '']'') (r @ [c]) = []"
    using assms by (auto simp: dropWhile_eq_Nil_conv)
  then show ?thesis by (simp only: close_class_def list.case option.map)
qed

lemma split_class_snoc:
  assumes "c \<noteq> CHR '']''" "c \<noteq> CHR ''!''"
  shows "split_class (cs @ [c]) = map_option (\<lambda>(stuff, rest). (stuff, rest @ [c])) (split_class cs)"
proof (cases cs)
  case Nil
  then show ?thesis using assms close_class_snoc [of c "[]" "[]"] by (simp add: split_class_simps)
next
  case (Cons x xs)
  consider "x = CHR '']''" | "x = CHR ''!''" "xs = []" | y ys where "x = CHR ''!''" "xs = y # ys"
    | "x \<noteq> CHR ''!''" "x \<noteq> CHR '']''" by (cases xs) auto
  then show ?thesis
  proof cases
    case 1
    then show ?thesis using Cons close_class_snoc [OF assms(1), of "'']''" xs] by (simp add: split_class_simps)
  next
    case 2
    then show ?thesis using Cons assms close_class_snoc [OF assms(1), of "''!''" "[]"]
      by (simp add: split_class_simps)
  next
    case 3
    then show ?thesis
      using Cons close_class_snoc [OF assms(1), of "''!''" "y # ys"] close_class_snoc [OF assms(1), of "''!]''" ys]
      by (cases "y = CHR '']''") (simp_all add: split_class_simps)
  next
    case 4
    then show ?thesis using Cons close_class_snoc [OF assms(1), of "[]" "x # xs"]
      by (simp add: split_class_simps)
  qed
qed

lemma gparse_snoc:
  assumes "c \<notin> {CHR ''*'', CHR ''?'', CHR ''['', CHR '']'', CHR ''!''}"
  shows "gparse (p @ [c]) = gparse p @ [GLit c]"
proof (induction p rule: gparse.induct)
  case 1
  then show ?case using assms by simp
next
  case (2 d cs)
  consider "d = CHR ''*''" | "d = CHR ''?''" | "d = CHR ''[''" |
    "d \<noteq> CHR ''*''" "d \<noteq> CHR ''?''" "d \<noteq> CHR ''[''" by blast
  then show ?case
  proof cases
    case 3
    show ?thesis
    proof (cases "split_class cs")
      case None
      then show ?thesis using 2(3) 3 assms by (simp add: split_class_snoc)
    next
      case (Some a)
      then show ?thesis using 2(4) 3 assms by (cases a) (simp add: split_class_snoc)
    qed
  qed (use 2 in simp_all)
qed

lemma gmatch_snoc: "gmatch (ts @ [GLit c]) s \<Longrightarrow> \<exists>u. s = u @ [c]"
proof (induction ts arbitrary: s)
  case Nil
  then show ?case by (auto split: list.splits)
next
  case (Cons t ts)
  show ?case
  proof (cases t)
    case GStar
    then obtain u v where "s = u @ v" "gmatch (ts @ [GLit c]) v"
      using Cons.prems by (auto simp only: append_Cons gmatch_star)
    with Cons.IH show ?thesis by fastforce
  next
    case (GLit x)
    with Cons.prems obtain r where "s = x # r" "gmatch (ts @ [GLit c]) r" by (auto split: list.splits)
    with Cons.IH show ?thesis by fastforce
  next
    case GAny
    with Cons.prems obtain x r where "s = x # r" "gmatch (ts @ [GLit c]) r" by (auto split: list.splits)
    with Cons.IH show ?thesis by fastforce
  next
    case (GSet n cs)
    with Cons.prems obtain x r where "s = x # r" "gmatch (ts @ [GLit c]) r" by (auto split: list.splits)
    with Cons.IH show ?thesis by fastforce
  qed
qed

lemma fnmatch_snoc:
  assumes "fnmatch s (p @ [c])" "c \<notin> {CHR ''*'', CHR ''?'', CHR ''['', CHR '']'', CHR ''!''}"
  shows "\<exists>u. s = u @ [c]"
  using assms(1) gmatch_snoc [of "gparse p" c s] gparse_snoc [OF assms(2), of p]
  by (simp only: fnmatch_def)

end
