(* ===== verification/Artifacts.thy ===== *)
theory Artifacts
  imports Py_Strings
begin

text \<open>
  The artifact repository: \<^verbatim>\<open>app/artifact/store.py\<close> (the project's known Markdown
  artifacts) and \<^verbatim>\<open>app/artifact/repository.py\<close> (staged outputs, integration candidates,
  published revisions). The files are a record of maps keyed by the identifiers the paths
  are built from: \<open>_validate_id\<close> admits no separator, so two keys never share a path.
  A JSON file is modelled by the record it holds. \<open>sha\<close> stands for the hexadecimal
  SHA-256 of the UTF-8 text; no property of it is assumed. The time stamp and the random
  part of a candidate identifier are arguments.
\<close>

section \<open>References\<close>

definition is_alnum :: "char \<Rightarrow> bool" where
  "is_alnum c = (let n = (of_char c :: nat) in
     (48 \<le> n \<and> n \<le> 57) \<or> (65 \<le> n \<and> n \<le> 90) \<or> (97 \<le> n \<and> n \<le> 122))"

lemma is_alnum_bits [code]:
  "is_alnum (Char b0 b1 b2 b3 b4 b5 b6 b7) \<longleftrightarrow>
    (if b7 then False
     else if b6 then (if b4 then b3 \<longrightarrow> \<not> b2 \<and> (b1 \<longrightarrow> \<not> b0) else b3 \<or> b2 \<or> b1 \<or> b0)
     else b5 \<and> b4 \<and> (b3 \<longrightarrow> \<not> b2 \<and> \<not> b1))"
  unfolding is_alnum_def Let_def of_char_bits by (cases b5; cases b6; cases b7; cases b4; cases b3; cases b2; cases b1; cases b0) simp_all

text \<open>\<open>_SAFE_ID\<close>: a letter or digit, then at most 127 of letters, digits, \<open>_\<close>, \<open>.\<close>, \<open>-\<close>.\<close>

definition safe_id :: "string \<Rightarrow> bool" where
  "safe_id s = (case s of [] \<Rightarrow> False
     | c # r \<Rightarrow> is_alnum c \<and> length r \<le> 127 \<and>
         list_all (\<lambda>d. is_alnum d \<or> d = CHR ''_'' \<or> d = CHR ''.'' \<or> d = CHR ''-'') r)"

definition validate_id :: "string \<Rightarrow> string option \<Rightarrow> err + unit" where
  "validate_id name v = (case v of
      None \<Rightarrow> Inl (ValueError name)
    | Some s \<Rightarrow> if safe_id s then Inr () else Inl (ValueError name))"

record artifact_ref =
  ref_artifact_key :: string
  ref_layer :: string
  ref_trace_id :: "string option"
  ref_work_item_id :: "string option"
  ref_slot :: "string option"
  ref_revision_id :: "string option"

text \<open>\<open>ArtifactRef.__post_init__\<close>\<close>

definition mk_ref :: "artifact_ref \<Rightarrow> artifact_ref result" where
  "mk_ref r =
     bindE (validate_id ''artifact_key'' (Some (ref_artifact_key r))) (\<lambda>_.
     if ref_layer r = ''published'' then
       (if ref_trace_id r \<noteq> None \<or> ref_work_item_id r \<noteq> None \<or> ref_slot r \<noteq> None
        then Inl (ValueError ''published ref with staged location'')
        else if ref_revision_id r \<noteq> None
        then bindE (validate_id ''revision_id'' (ref_revision_id r)) (\<lambda>_. Inr r)
        else Inr r)
     else if ref_layer r \<noteq> ''staged'' then Inl (ValueError ''layer'')
     else bindE (validate_id ''trace_id'' (ref_trace_id r)) (\<lambda>_.
          bindE (validate_id ''work_item_id'' (ref_work_item_id r)) (\<lambda>_.
          bindE (validate_id ''slot'' (ref_slot r)) (\<lambda>_. Inr r))))"

definition ref_published :: "string \<Rightarrow> string option \<Rightarrow> artifact_ref result" where
  "ref_published key revision = mk_ref \<lparr>ref_artifact_key = key, ref_layer = ''published'',
     ref_trace_id = None, ref_work_item_id = None, ref_slot = None, ref_revision_id = revision\<rparr>"

definition ref_staged :: "string \<Rightarrow> string \<Rightarrow> string \<Rightarrow> string \<Rightarrow> artifact_ref result" where
  "ref_staged key trace item slot = mk_ref \<lparr>ref_artifact_key = key, ref_layer = ''staged'',
     ref_trace_id = Some trace, ref_work_item_id = Some item, ref_slot = Some slot,
     ref_revision_id = None\<rparr>"

text \<open>The text of an optional field in an f-string.\<close>

definition fmt_opt :: "string option \<Rightarrow> string" where
  "fmt_opt v = (case v of None \<Rightarrow> ''None'' | Some s \<Rightarrow> s)"

definition ref_id :: "artifact_ref \<Rightarrow> string" where
  "ref_id r = (if ref_layer r = ''published''
     then ''published:'' @ ref_artifact_key r @ '':'' @
       (case ref_revision_id r of None \<Rightarrow> ''current'' | Some v \<Rightarrow> if v = [] then ''current'' else v)
     else ''staged:'' @ fmt_opt (ref_trace_id r) @ '':'' @ fmt_opt (ref_work_item_id r) @ '':''
       @ fmt_opt (ref_slot r))"

section \<open>The store of published projections\<close>

definition store_filenames :: "(string, string) dict" where
  "store_filenames =
    [(''requirement'', ''requirement.md''),
     (''architecture'', ''architecture.md''),
     (''architecture_contract'', ''.projectos/architecture/project-contract.json''),
     (''tasks'', ''tasks.md''),
     (''implementation'', ''implementation.md''),
     (''environment'', ''environment.md''),
     (''tests'', ''tests.md''),
     (''review'', ''review.md'')]"

definition filename_for :: "string \<Rightarrow> string result" where
  "filename_for artifact = (case map_of store_filenames artifact of
      None \<Rightarrow> Inl (ValueError ''unknown artifact'') | Some f \<Rightarrow> Inr f)"

definition legacy_contract_file :: string where
  "legacy_contract_file = ''.projectos/architecture/implementation-contract.json''"

type_synonym store_files = "string \<Rightarrow> string option"

definition store_save :: "string \<Rightarrow> string \<Rightarrow> store_files \<Rightarrow> store_files result" where
  "store_save artifact content fs =
     bindE (filename_for artifact) (\<lambda>f. Inr (fs(f \<mapsto> content)))"

text \<open>The notice returned for an artifact that was never written (prose in the code).\<close>

definition missing_notice :: "string \<Rightarrow> string" where
  "missing_notice f = ''(not created yet: '' @ f @ '')''"

definition store_load :: "string \<Rightarrow> store_files \<Rightarrow> string result" where
  "store_load artifact fs = bindE (filename_for artifact) (\<lambda>f.
     let path = (if artifact = ''architecture_contract'' \<and> fs f = None \<and> fs legacy_contract_file \<noteq> None
                 then legacy_contract_file else f)
     in case fs path of None \<Rightarrow> Inr (missing_notice f) | Some text \<Rightarrow> Inr text)"

definition store_exists :: "string \<Rightarrow> store_files \<Rightarrow> bool result" where
  "store_exists artifact fs = bindE (filename_for artifact) (\<lambda>f.
     if artifact = ''architecture_contract'' \<and> fs f = None
     then Inr (fs legacy_contract_file \<noteq> None) else Inr (fs f \<noteq> None))"

section \<open>The repository's files\<close>

record provenance =
  pv_source_refs :: "artifact_ref list"
  pv_source_digests :: "string list"
  pv_contract_digest :: "string option"

record manifest =
  mf_artifact_key :: string
  mf_trace_id :: string
  mf_work_item_id :: string
  mf_slot :: string
  mf_digest :: string
  mf_created_at :: string
  mf_provenance :: "provenance option"  \<comment> \<open>absent in manifests written without sources\<close>

record commit_receipt =
  rc_artifact_id :: string
  rc_artifact_kind :: string
  rc_ref :: artifact_ref
  rc_digest :: string
  rc_trace_id :: string
  rc_work_item_id :: string
  rc_slot :: string
  rc_validation_status :: string
  rc_committed_at :: string

record integration_issue =
  ii_rule_id :: string
  ii_evidence_refs :: "string list"

record integration_report =
  ir_candidate_id :: string
  ir_accepted_output_ids :: "string list"
  ir_issues :: "integration_issue list"

definition report_status :: "integration_report \<Rightarrow> string" where
  "report_status r = (if ir_issues r = [] then ''ready_for_quality_gate'' else ''needs_rework'')"

record candidate =
  cd_id :: string
  cd_artifact_key :: string
  cd_trace_id :: string
  cd_work_item_id :: string
  cd_content :: string
  cd_digest :: string
  cd_source_refs :: "artifact_ref list"
  cd_report :: integration_report
  cd_created_at :: string
  cd_source_digests :: "string list"
  cd_contract_digest :: "string option"

record current_pointer =
  cp_revision_id :: string
  cp_candidate_id :: string
  cp_digest :: string
  cp_promoted_at :: string

record intermediate =
  im_trace_id :: string
  im_work_item_id :: string
  im_phase :: string
  im_input_digest :: string
  im_content_digest :: string
  im_content :: string
  im_created_at :: string

text \<open>
  \<open>candidate.json\<close> holds everything of a candidate but its content, which is in
  \<open>content.md\<close>; the two are separate maps, so that a change of one shows.
\<close>

record repo =
  rp_manifest :: "(string \<times> string) \<Rightarrow> manifest option"
  rp_output :: "(string \<times> string \<times> string) \<Rightarrow> string option"
  rp_receipt :: "(string \<times> string) \<Rightarrow> commit_receipt option"
  rp_intermediate :: "(string \<times> string \<times> string) \<Rightarrow> intermediate option"
  rp_candidate :: "(string \<times> string) \<Rightarrow> candidate option"
  rp_candidate_text :: "(string \<times> string) \<Rightarrow> string option"
  rp_current :: "string \<Rightarrow> current_pointer option"
  rp_revisions :: "string \<Rightarrow> (string, string) dict"
  rp_store :: store_files

definition empty_repo :: repo where
  "empty_repo = \<lparr>rp_manifest = (\<lambda>_. None), rp_output = (\<lambda>_. None), rp_receipt = (\<lambda>_. None),
     rp_intermediate = (\<lambda>_. None), rp_candidate = (\<lambda>_. None), rp_candidate_text = (\<lambda>_. None),
     rp_current = (\<lambda>_. None), rp_revisions = (\<lambda>_. []), rp_store = (\<lambda>_. None)\<rparr>"

definition known_artifact :: "string \<Rightarrow> err + unit" where
  "known_artifact key = bindE (filename_for key) (\<lambda>_. Inr ())"

text \<open>The key of a staged location; only a staged reference reaches it.\<close>

definition staged_key :: "artifact_ref \<Rightarrow> string \<times> string" where
  "staged_key r = (fmt_opt (ref_trace_id r), fmt_opt (ref_work_item_id r))"

definition output_key_of :: "artifact_ref \<Rightarrow> string \<times> string \<times> string" where
  "output_key_of r = (fmt_opt (ref_trace_id r), fmt_opt (ref_work_item_id r), fmt_opt (ref_slot r))"

definition load_published :: "repo \<Rightarrow> artifact_ref \<Rightarrow> string result" where
  "load_published rp r = (case ref_revision_id r of
      None \<Rightarrow> store_load (ref_artifact_key r) (rp_store rp)
    | Some rid \<Rightarrow> (case map_of (rp_revisions rp (ref_artifact_key r)) rid of
        None \<Rightarrow> Inl (FileNotFoundError ''revision'') | Some text \<Rightarrow> Inr text))"

definition load_ref :: "(string \<Rightarrow> string) \<Rightarrow> repo \<Rightarrow> artifact_ref \<Rightarrow> string result" where
  "load_ref sha rp r = bindE (known_artifact (ref_artifact_key r)) (\<lambda>_.
     if ref_layer r = ''published'' then load_published rp r
     else (case (rp_manifest rp (staged_key r), rp_output rp (output_key_of r)) of
        (Some m, Some content) \<Rightarrow>
          if mf_artifact_key m \<noteq> ref_artifact_key r \<or> mf_digest m \<noteq> sha content
          then Inl (RuntimeError ''staged manifest mismatch'') else Inr content
      | _ \<Rightarrow> Inl (FileNotFoundError ''staged output'')))"

definition load_versioned_ref ::
  "(string \<Rightarrow> string) \<Rightarrow> repo \<Rightarrow> artifact_ref \<Rightarrow> string option \<Rightarrow> string result" where
  "load_versioned_ref sha rp r expected = bindE (load_ref sha rp r) (\<lambda>content.
     case expected of None \<Rightarrow> Inr content
     | Some d \<Rightarrow> if sha content \<noteq> d then Inl (RuntimeError ''input changed'') else Inr content)"

text \<open>The loop of \<open>verify_input_versions\<close> and of \<open>verify_candidate_sources\<close>.\<close>

definition verify_pairs ::
  "(string \<Rightarrow> string) \<Rightarrow> repo \<Rightarrow> err \<Rightarrow> (artifact_ref \<times> string) list \<Rightarrow> err + unit" where
  "verify_pairs sha rp e pairs = for_each (\<lambda>(r, d).
     bindE (load_ref sha rp r) (\<lambda>content. if sha content \<noteq> d then Inl e else Inr ())) pairs"

definition verify_input_versions ::
  "(string \<Rightarrow> string) \<Rightarrow> repo \<Rightarrow> artifact_ref list \<Rightarrow> string list option \<Rightarrow> err + unit" where
  "verify_input_versions sha rp refs expected = (case expected of
      None \<Rightarrow> Inr ()
    | Some ds \<Rightarrow> if length refs \<noteq> length ds then Inl (RuntimeError ''incomplete input versions'')
                 else verify_pairs sha rp (RuntimeError ''input changed'') (zip refs ds))"

end
