(* ===== verification/Artifact_Repository.thy ===== *)
theory Artifact_Repository
  imports Artifacts
begin

text \<open>
  The state changing operations of \<^verbatim>\<open>app/artifact/repository.py\<close>: staged writes, the
  commit receipt, integration candidates and their promotion to a published revision.
  Each takes the repository and returns the new one with its result, or the exception;
  an operation that raises has written nothing.
\<close>

section \<open>Intermediate results\<close>

definition write_intermediate ::
  "(string \<Rightarrow> string) \<Rightarrow> string \<Rightarrow> string \<Rightarrow> string \<Rightarrow> string \<Rightarrow> string \<Rightarrow> string \<Rightarrow> repo
   \<Rightarrow> (intermediate \<times> repo) result" where
  "write_intermediate sha now trace item phase input_digest content rp =
     bindE (validate_id ''trace_id'' (Some trace)) (\<lambda>_.
     bindE (validate_id ''work_item_id'' (Some item)) (\<lambda>_.
     bindE (validate_id ''phase'' (Some phase)) (\<lambda>_.
     if input_digest = [] \<or> blank content then Inl (ValueError ''intermediate'')
     else (let im = \<lparr>im_trace_id = trace, im_work_item_id = item, im_phase = phase,
                 im_input_digest = input_digest, im_content_digest = sha content,
                 im_content = content, im_created_at = now\<rparr>
           in Inr (im, rp\<lparr>rp_intermediate := (rp_intermediate rp)((trace, item, phase) \<mapsto> im)\<rparr>)))))"

definition load_intermediate ::
  "(string \<Rightarrow> string) \<Rightarrow> repo \<Rightarrow> string \<Rightarrow> string \<Rightarrow> string \<Rightarrow> string \<Rightarrow> intermediate result" where
  "load_intermediate sha rp trace item expected_input_digest phase =
     bindE (validate_id ''trace_id'' (Some trace)) (\<lambda>_.
     bindE (validate_id ''work_item_id'' (Some item)) (\<lambda>_.
     bindE (validate_id ''phase'' (Some phase)) (\<lambda>_.
     case rp_intermediate rp (trace, item, phase) of
       None \<Rightarrow> Inl (FileNotFoundError ''intermediate'')
     | Some im \<Rightarrow>
         if im_input_digest im \<noteq> expected_input_digest \<or> sha (im_content im) \<noteq> im_content_digest im
         then Inl (RuntimeError ''intermediate mismatch'') else Inr im)))"

text \<open>The loop over the phases, newest first: only a missing file moves to an earlier one.\<close>

fun latest_from ::
  "(string \<Rightarrow> intermediate result) \<Rightarrow> string list \<Rightarrow> intermediate option result" where
  "latest_from load [] = Inr None"
| "latest_from load (p # ps) = (case load p of
      Inr im \<Rightarrow> Inr (Some im)
    | Inl (FileNotFoundError _) \<Rightarrow> latest_from load ps
    | Inl e \<Rightarrow> Inl e)"

definition latest_intermediate ::
  "(string \<Rightarrow> string) \<Rightarrow> repo \<Rightarrow> string \<Rightarrow> string \<Rightarrow> string list \<Rightarrow> string \<Rightarrow> intermediate option result" where
  "latest_intermediate sha rp trace item phases expected_input_digest =
     latest_from (load_intermediate sha rp trace item expected_input_digest) (rev phases)"

section \<open>Staged outputs\<close>

definition write_staged ::
  "(string \<Rightarrow> string) \<Rightarrow> string \<Rightarrow> string \<Rightarrow> string \<Rightarrow> string \<Rightarrow> string \<Rightarrow> string
   \<Rightarrow> artifact_ref list option \<Rightarrow> string option \<Rightarrow> string list option \<Rightarrow> repo
   \<Rightarrow> (artifact_ref \<times> repo) result" where
  "write_staged sha now trace item key slot content source_refs contract_digest expected rp =
     bindE (known_artifact key) (\<lambda>_.
     bindE (validate_id ''trace_id'' (Some trace)) (\<lambda>_.
     bindE (validate_id ''work_item_id'' (Some item)) (\<lambda>_.
     bindE (validate_id ''slot'' (Some slot)) (\<lambda>_.
     if blank content then Inl (ValueError ''staged content'')
     else
       bindE (ref_staged key trace item slot) (\<lambda>r.
       bindE (verify_input_versions sha rp (case source_refs of None \<Rightarrow> [] | Some rs \<Rightarrow> rs) expected) (\<lambda>_.
       bindE (case source_refs of
            None \<Rightarrow> Inr None
          | Some rs \<Rightarrow>
              bindE (case expected of
                   Some ds \<Rightarrow> Inr ds
                 | None \<Rightarrow> mapE (\<lambda>q. bindE (load_ref sha rp q) (\<lambda>text. Inr (sha text))) rs) (\<lambda>ds.
              Inr (Some \<lparr>pv_source_refs = rs, pv_source_digests = ds,
                         pv_contract_digest = contract_digest\<rparr>))) (\<lambda>prov.
       let m = \<lparr>mf_artifact_key = key, mf_trace_id = trace, mf_work_item_id = item, mf_slot = slot,
                mf_digest = sha content, mf_created_at = now, mf_provenance = prov\<rparr>
       in Inr (r, rp\<lparr>rp_output := (rp_output rp)((trace, item, slot) \<mapsto> content),
                     rp_manifest := (rp_manifest rp)((trace, item) \<mapsto> m)\<rparr>))))))))"

definition staged_source_versions ::
  "(string \<Rightarrow> string) \<Rightarrow> repo \<Rightarrow> artifact_ref \<Rightarrow> (artifact_ref list \<times> string list) result" where
  "staged_source_versions sha rp r =
     (if ref_layer r \<noteq> ''staged'' then Inl (ValueError ''staged ref required'')
      else bindE (load_ref sha rp r) (\<lambda>_.
        case rp_manifest rp (staged_key r) of
          None \<Rightarrow> Inl (FileNotFoundError ''manifest'')
        | Some m \<Rightarrow> (case mf_provenance m of
            None \<Rightarrow> Inl (RuntimeError ''no input version evidence'')
          | Some pv \<Rightarrow>
              if length (pv_source_refs pv) \<noteq> length (pv_source_digests pv)
                \<or> list_ex (\<lambda>d. d = []) (pv_source_digests pv)
              then Inl (RuntimeError ''incomplete input version evidence'')
              else
                bindE (mapE mk_ref (pv_source_refs pv)) (\<lambda>refs.
                bindE (verify_input_versions sha rp refs (Some (pv_source_digests pv))) (\<lambda>_.
                Inr (refs, pv_source_digests pv))))))"

text \<open>
  The gate every staged delivery passes. \<open>validator\<close> is the domain check of the content,
  an exception or nothing.
\<close>

definition verify_staged ::
  "(string \<Rightarrow> string) \<Rightarrow> string \<Rightarrow> artifact_ref \<Rightarrow> string \<Rightarrow> string \<Rightarrow> string \<Rightarrow> string
   \<Rightarrow> (string \<Rightarrow> err + unit) option \<Rightarrow> artifact_ref list option \<Rightarrow> string option \<Rightarrow> repo
   \<Rightarrow> (commit_receipt \<times> repo) result" where
  "verify_staged sha now r e_trace e_item e_slot e_kind validator e_sources e_contract rp =
     bindE (raises
       [(ref_layer r \<noteq> ''staged'', ValueError ''staged ref required''),
        (ref_trace_id r \<noteq> Some e_trace \<or> ref_work_item_id r \<noteq> Some e_item, ValueError ''provenance''),
        (ref_slot r \<noteq> Some e_slot, ValueError ''slot'')]) (\<lambda>_.
     bindE (load_ref sha rp r) (\<lambda>content.
     bindE (case validator of None \<Rightarrow> Inr () | Some v \<Rightarrow> v content) (\<lambda>_.
     case rp_manifest rp (staged_key r) of
       None \<Rightarrow> Inl (FileNotFoundError ''manifest'')
     | Some m \<Rightarrow>
         bindE (case e_sources of
              None \<Rightarrow> Inr ()
            | Some rs \<Rightarrow>
                if map_option pv_source_refs (mf_provenance m) \<noteq> Some rs
                then Inl (RuntimeError ''source refs'')
                else bindE (mapE (\<lambda>q. bindE (load_ref sha rp q) (\<lambda>text. Inr (sha text))) rs) (\<lambda>ds.
                  if map_option pv_source_digests (mf_provenance m) \<noteq> Some ds
                  then Inl (RuntimeError ''source digests'') else Inr ())) (\<lambda>_.
         if e_contract \<noteq> None \<and> Option.bind (mf_provenance m) pv_contract_digest \<noteq> e_contract
         then Inl (RuntimeError ''contract'')
         else (let d = (if mf_digest m = [] then sha content else mf_digest m);
                   rc = \<lparr>rc_artifact_id = ref_id r, rc_artifact_kind = e_kind, rc_ref = r, rc_digest = d,
                         rc_trace_id = e_trace, rc_work_item_id = e_item, rc_slot = e_slot,
                         rc_validation_status = ''passed'', rc_committed_at = now\<rparr>
               in Inr (rc, rp\<lparr>rp_receipt := (rp_receipt rp)(staged_key r \<mapsto> rc)\<rparr>))))))"

definition load_commit_receipt ::
  "(string \<Rightarrow> string) \<Rightarrow> repo \<Rightarrow> artifact_ref \<Rightarrow> commit_receipt result" where
  "load_commit_receipt sha rp r =
     (if ref_layer r \<noteq> ''staged'' then Inl (ValueError ''staged ref required'')
      else (case rp_receipt rp (staged_key r) of
          None \<Rightarrow> Inl (FileNotFoundError ''receipt'')
        | Some rc \<Rightarrow> bindE (load_ref sha rp r) (\<lambda>content.
            if rc_digest rc \<noteq> sha content then Inl (RuntimeError ''receipt digest'')
            else bindE (mk_ref (rc_ref rc)) (\<lambda>_. Inr rc))))"

section \<open>Candidates\<close>

text \<open>
  One source of a candidate: an issue, or the accepted reference identifier and digest.
  \<open>FileNotFoundError\<close> and \<open>RuntimeError\<close> of the load become issues; others propagate.
\<close>

definition examine_source ::
  "(string \<Rightarrow> string) \<Rightarrow> repo \<Rightarrow> string \<Rightarrow> artifact_ref
   \<Rightarrow> integration_issue list \<times> string list \<times> string list
   \<Rightarrow> (integration_issue list \<times> string list \<times> string list) result" where
  "examine_source sha rp key r acc = (case acc of (issues, accepted, digests) \<Rightarrow>
     if ref_layer r \<noteq> ''staged'' \<or> ref_artifact_key r \<noteq> key
     then Inr (issues @ [\<lparr>ii_rule_id = ''integration.invalid_source'', ii_evidence_refs = [ref_id r]\<rparr>],
               accepted, digests)
     else (case load_ref sha rp r of
         Inr text \<Rightarrow> Inr (issues, accepted @ [ref_id r], digests @ [sha text])
       | Inl (FileNotFoundError _) \<Rightarrow>
           Inr (issues @ [\<lparr>ii_rule_id = ''integration.source_unavailable'', ii_evidence_refs = [ref_id r]\<rparr>],
                accepted, digests)
       | Inl (RuntimeError _) \<Rightarrow>
           Inr (issues @ [\<lparr>ii_rule_id = ''integration.source_unavailable'', ii_evidence_refs = [ref_id r]\<rparr>],
                accepted, digests)
       | Inl e \<Rightarrow> Inl e))"

definition create_candidate ::
  "(string \<Rightarrow> string) \<Rightarrow> string \<Rightarrow> string \<Rightarrow> string \<Rightarrow> string \<Rightarrow> string \<Rightarrow> string
   \<Rightarrow> artifact_ref list \<Rightarrow> string option \<Rightarrow> string list option \<Rightarrow> repo
   \<Rightarrow> (candidate \<times> repo) result" where
  "create_candidate sha now uuid trace item key content refs contract_digest expected rp =
     bindE (known_artifact key) (\<lambda>_.
     bindE (validate_id ''trace_id'' (Some trace)) (\<lambda>_.
     bindE (validate_id ''work_item_id'' (Some item)) (\<lambda>_.
     if blank content then Inl (ValueError ''candidate content'')
     else
       bindE (foldE (examine_source sha rp key) refs ([], [], [])) (\<lambda>(issues, accepted, digests).
       let issues' = (if refs = []
             then issues @ [\<lparr>ii_rule_id = ''integration.no_staged_outputs'', ii_evidence_refs = []\<rparr>]
             else issues);
           cid = ''cand-'' @ uuid;
           c = \<lparr>cd_id = cid, cd_artifact_key = key, cd_trace_id = trace, cd_work_item_id = item,
                cd_content = content, cd_digest = sha content, cd_source_refs = refs,
                cd_report = \<lparr>ir_candidate_id = cid, ir_accepted_output_ids = accepted, ir_issues = issues'\<rparr>,
                cd_created_at = now,
                cd_source_digests = (case expected of Some ds \<Rightarrow> ds | None \<Rightarrow> digests),
                cd_contract_digest = contract_digest\<rparr>
       in bindE (verify_input_versions sha rp refs expected) (\<lambda>_.
          if rp_candidate rp (key, cid) \<noteq> None \<or> rp_candidate_text rp (key, cid) \<noteq> None
          then Inl (FileExistsError ''candidate'')
          else Inr (c, rp\<lparr>rp_candidate_text := (rp_candidate_text rp)((key, cid) \<mapsto> content),
                          rp_candidate := (rp_candidate rp)((key, cid) \<mapsto> c)\<rparr>))))))"

definition load_candidate ::
  "(string \<Rightarrow> string) \<Rightarrow> repo \<Rightarrow> string \<Rightarrow> string \<Rightarrow> candidate result" where
  "load_candidate sha rp key cid =
     bindE (known_artifact key) (\<lambda>_.
     bindE (validate_id ''candidate_id'' (Some cid)) (\<lambda>_.
     case (rp_candidate rp (key, cid), rp_candidate_text rp (key, cid)) of
       (Some c, Some content) \<Rightarrow>
         if cd_digest c \<noteq> sha content then Inl (RuntimeError ''candidate content'')
         else bindE (mapE mk_ref (cd_source_refs c)) (\<lambda>refs.
              Inr (c\<lparr>cd_content := content, cd_source_refs := refs\<rparr>))
     | _ \<Rightarrow> Inl (FileNotFoundError ''candidate'')))"

definition verify_candidate_sources ::
  "(string \<Rightarrow> string) \<Rightarrow> repo \<Rightarrow> candidate \<Rightarrow> err + unit" where
  "verify_candidate_sources sha rp c =
     (if length (cd_source_digests c) \<noteq> length (cd_source_refs c)
      then Inl (RuntimeError ''candidate versions'')
      else verify_pairs sha rp (RuntimeError ''candidate input changed'')
             (zip (cd_source_refs c) (cd_source_digests c)))"

text \<open>\<open>{n:03d}\<close>\<close>

definition pad3 :: "nat \<Rightarrow> string" where
  "pad3 n = (if n < 10 then ''00'' @ nat_str n else if n < 100 then ''0'' @ nat_str n else nat_str n)"

text \<open>A new revision: its file, then \<open>current.json\<close>, then the compatibility projection.\<close>

definition promote_new ::
  "(string \<Rightarrow> string) \<Rightarrow> string \<Rightarrow> candidate \<Rightarrow> string \<Rightarrow> repo \<Rightarrow> (artifact_ref \<times> repo) result" where
  "promote_new sha now c key rp =
     (let rid = ''rev-'' @ pad3 (length (rp_revisions rp key) + 1);
          rp1 = rp\<lparr>rp_revisions := (rp_revisions rp)(key := dict_put rid (cd_content c) (rp_revisions rp key))\<rparr>;
          rp2 = rp1\<lparr>rp_current := (rp_current rp1)(key \<mapsto>
                  \<lparr>cp_revision_id = rid, cp_candidate_id = cd_id c, cp_digest = cd_digest c,
                   cp_promoted_at = now\<rparr>)\<rparr>
      in bindE (store_save key (cd_content c) (rp_store rp2)) (\<lambda>fs.
         bindE (ref_published key (Some rid)) (\<lambda>r. Inr (r, rp2\<lparr>rp_store := fs\<rparr>))))"

definition promote_candidate ::
  "(string \<Rightarrow> string) \<Rightarrow> string \<Rightarrow> string \<Rightarrow> string \<Rightarrow> repo \<Rightarrow> (artifact_ref \<times> repo) result" where
  "promote_candidate sha now cid key rp =
     bindE (load_candidate sha rp key cid) (\<lambda>c.
     if report_status (cd_report c) \<noteq> ''ready_for_quality_gate''
     then Inl (PermissionError ''unresolved integration issues'')
     else bindE (verify_candidate_sources sha rp c) (\<lambda>_.
       case rp_current rp key of
         Some cur \<Rightarrow>
           if cp_candidate_id cur = cd_id c then
             bindE (ref_published key (Some (cp_revision_id cur))) (\<lambda>r.
             if cp_digest cur \<noteq> cd_digest c then Inl (RuntimeError ''published content'')
             else bindE (load_ref sha rp r) (\<lambda>text.
               if sha text \<noteq> cd_digest c then Inl (RuntimeError ''published content'')
               else bindE (store_save key (cd_content c) (rp_store rp)) (\<lambda>fs.
                 Inr (r, rp\<lparr>rp_store := fs\<rparr>))))
           else promote_new sha now c key rp
       | None \<Rightarrow> promote_new sha now c key rp))"

definition verify_published_candidate ::
  "(string \<Rightarrow> string) \<Rightarrow> repo \<Rightarrow> candidate \<Rightarrow> artifact_ref result" where
  "verify_published_candidate sha rp c =
     bindE (verify_candidate_sources sha rp c) (\<lambda>_.
     if report_status (cd_report c) \<noteq> ''ready_for_quality_gate''
     then Inl (RuntimeError ''integration issues'')
     else (case rp_current rp (cd_artifact_key c) of
         None \<Rightarrow> Inl (FileNotFoundError ''current'')
       | Some cur \<Rightarrow>
           if cp_candidate_id cur \<noteq> cd_id c \<or> cp_digest cur \<noteq> cd_digest c
           then Inl (RuntimeError ''not the published candidate'')
           else bindE (ref_published (cd_artifact_key c) (Some (cp_revision_id cur))) (\<lambda>r.
             bindE (load_ref sha rp r) (\<lambda>text.
             bindE (store_load (cd_artifact_key c) (rp_store rp)) (\<lambda>projected.
             if sha text \<noteq> cd_digest c \<or> sha projected \<noteq> cd_digest c
             then Inl (RuntimeError ''published content'') else Inr r)))))"

definition current_ref :: "repo \<Rightarrow> string \<Rightarrow> artifact_ref option result" where
  "current_ref rp key = bindE (known_artifact key) (\<lambda>_.
     case rp_current rp key of
       None \<Rightarrow> Inr None
     | Some cur \<Rightarrow> bindE (ref_published key (Some (cp_revision_id cur))) (\<lambda>r. Inr (Some r)))"

text \<open>
  The candidates of one integration work item whose inputs are still the ones they were
  built from. \<open>names\<close> lists the candidate directories of the artifact (a directory listing
  has no fixed order).
\<close>

fun current_matches ::
  "(string \<Rightarrow> string) \<Rightarrow> repo \<Rightarrow> candidate list \<Rightarrow> candidate list result" where
  "current_matches sha rp [] = Inr []"
| "current_matches sha rp (c # cs) = (case verify_candidate_sources sha rp c of
      Inr _ \<Rightarrow> bindE (current_matches sha rp cs) (\<lambda>r. Inr (c # r))
    | Inl (FileNotFoundError _) \<Rightarrow> current_matches sha rp cs
    | Inl (RuntimeError _) \<Rightarrow> current_matches sha rp cs
    | Inl (ValueError _) \<Rightarrow> current_matches sha rp cs
    | Inl e \<Rightarrow> Inl e)"

definition candidate_for_work_item ::
  "(string \<Rightarrow> string) \<Rightarrow> repo \<Rightarrow> string list \<Rightarrow> string \<Rightarrow> string \<Rightarrow> string
   \<Rightarrow> artifact_ref list option \<Rightarrow> string option \<Rightarrow> candidate result" where
  "candidate_for_work_item sha rp names trace key item e_sources e_contract =
     bindE (known_artifact key) (\<lambda>_.
     bindE (mapE (load_candidate sha rp key)
              (filter (\<lambda>cid. rp_candidate rp (key, cid) \<noteq> None) names)) (\<lambda>cs.
     let matches = filter (\<lambda>c. cd_trace_id c = trace \<and> cd_work_item_id c = item
            \<and> (e_sources = None \<or> Some (cd_source_refs c) = e_sources)
            \<and> (e_contract = None \<or> cd_contract_digest c = e_contract)) cs
     in bindE (current_matches sha rp matches) (\<lambda>ms.
        case ms of [c] \<Rightarrow> Inr c | _ \<Rightarrow> Inl (RuntimeError ''candidate not unique''))))"

end
