(* ===== verification/Artifact_Laws.thy ===== *)
theory Artifact_Laws
  imports Artifact_Repository
begin

text \<open>
  What the artifact repository guarantees: a staged write is read back, every operation
  keeps the repository's invariant, published revisions are never rewritten, promotion
  publishes exactly a candidate without issues whose inputs are unchanged, and promoting
  the same candidate again (the recovery after a crash) creates no second revision.
\<close>

section \<open>References and revision names\<close>

lemma validate_id_Inr [simp]: "validate_id n v = Inr () \<longleftrightarrow> (\<exists>s. v = Some s \<and> safe_id s)"
  by (auto simp: validate_id_def split: option.splits)

lemma mk_ref_same: "mk_ref r = Inr q \<Longrightarrow> q = r"
  by (auto simp: mk_ref_def split: if_splits)

lemma mk_ref_idem: "mk_ref r = Inr q \<Longrightarrow> mk_ref q = Inr q"
  using mk_ref_same by metis

lemma mapE_mk_ref: "mapE mk_ref rs = Inr qs \<Longrightarrow> qs = rs"
  by (induction rs arbitrary: qs) (auto dest: mk_ref_same)

lemma ref_staged_fields:
  "ref_staged key trace item slot = Inr r \<Longrightarrow>
     r = \<lparr>ref_artifact_key = key, ref_layer = ''staged'', ref_trace_id = Some trace,
          ref_work_item_id = Some item, ref_slot = Some slot, ref_revision_id = None\<rparr>"
  by (auto simp: ref_staged_def dest: mk_ref_same)

lemma ref_published_fields:
  "ref_published key rid = Inr r \<Longrightarrow>
     r = \<lparr>ref_artifact_key = key, ref_layer = ''published'', ref_trace_id = None,
          ref_work_item_id = None, ref_slot = None, ref_revision_id = rid\<rparr>"
  by (auto simp: ref_published_def dest: mk_ref_same)

lemma digits_val_pad3: "digits_val (pad3 n) = n"
proof -
  have z: "digits_val (CHR ''0'' # s) = digits_val s" for s
    by (simp add: digits_val_def is_digit_def digit_val_def)
  show ?thesis by (simp add: pad3_def z digits_val_nat_str)
qed

lemma pad3_inj: "pad3 m = pad3 n \<Longrightarrow> m = n"
  using digits_val_pad3 by metis

definition revision_name :: "nat \<Rightarrow> string" where
  "revision_name n = ''rev-'' @ pad3 n"

lemma revision_name_inj [simp]: "revision_name m = revision_name n \<longleftrightarrow> m = n"
  by (auto simp: revision_name_def dest: pad3_inj)

section \<open>Frame of the reads\<close>

lemma load_ref_staged_frame:
  assumes "rp_manifest rp' (staged_key r) = rp_manifest rp (staged_key r)"
    and "rp_output rp' (output_key_of r) = rp_output rp (output_key_of r)"
    and "ref_layer r = ''staged''"
  shows "load_ref sha rp' r = load_ref sha rp r"
  using assms by (simp add: load_ref_def)

lemma load_ref_frame:
  assumes "rp_manifest rp' = rp_manifest rp" "rp_output rp' = rp_output rp"
    and "ref_layer r = ''staged''"
  shows "load_ref sha rp' r = load_ref sha rp r"
  using assms by (simp add: load_ref_def)

lemma verify_pairs_frame:
  assumes "\<And>r d. (r, d) \<in> set ps \<Longrightarrow> load_ref sha rp' r = load_ref sha rp r"
  shows "verify_pairs sha rp' e ps = verify_pairs sha rp e ps"
  unfolding verify_pairs_def using assms by (auto intro!: for_each_cong)

text \<open>What a verified list of inputs means: every digest is the digest of the text now.\<close>

lemma verify_pairs_Inr:
  "verify_pairs sha rp e ps = Inr () \<longleftrightarrow>
     (\<forall>(r, d) \<in> set ps. \<exists>text. load_ref sha rp r = Inr text \<and> sha text = d)"
  by (auto simp: verify_pairs_def for_each_Inr_iff split: prod.splits if_splits) fastforce+

lemma store_load_saved:
  "store_save key text fs = Inr fs' \<Longrightarrow> store_load key fs' = Inr text"
  by (auto simp: store_save_def store_load_def Let_def)

section \<open>Staged outputs\<close>

lemma write_staged_result:
  assumes "write_staged sha now trace item key slot content sources digest expected rp = Inr (r, rp')"
  shows "\<exists>prov. ref_staged key trace item slot = Inr r \<and> known_artifact key = Inr ()
    \<and> rp' = rp\<lparr>rp_output := (rp_output rp)((trace, item, slot) \<mapsto> content),
              rp_manifest := (rp_manifest rp)((trace, item) \<mapsto>
                \<lparr>mf_artifact_key = key, mf_trace_id = trace, mf_work_item_id = item, mf_slot = slot,
                 mf_digest = sha content, mf_created_at = now, mf_provenance = prov\<rparr>)\<rparr>"
  using assms by (auto simp: write_staged_def Let_def split: if_splits)

text \<open>A staged write is read back: after \<open>write_staged\<close> returns a reference, loading the
  reference passes the manifest's checks and gives the content that was written.\<close>

theorem write_staged_then_load:
  assumes "write_staged sha now trace item key slot content sources digest expected rp = Inr (r, rp')"
  shows "load_ref sha rp' r = Inr content"
  using write_staged_result [OF assms]
  by (auto simp: load_ref_def staged_key_def output_key_of_def fmt_opt_def dest: ref_staged_fields)

text \<open>The steps of the repository: every operation that writes, when it returns.\<close>

inductive repo_step :: "(string \<Rightarrow> string) \<Rightarrow> repo \<Rightarrow> repo \<Rightarrow> bool" for sha where
  intermediate_step:
    "write_intermediate sha now trace item phase idigest content rp = Inr (im, rp') \<Longrightarrow> repo_step sha rp rp'"
| stage_step:
    "write_staged sha now trace item key slot content sources digest expected rp = Inr (r, rp')
     \<Longrightarrow> repo_step sha rp rp'"
| receipt_step:
    "verify_staged sha now r trace item slot kind validator sources digest rp = Inr (rc, rp')
     \<Longrightarrow> repo_step sha rp rp'"
| candidate_step:
    "create_candidate sha now uuid trace item key content refs digest expected rp = Inr (c, rp')
     \<Longrightarrow> repo_step sha rp rp'"
| promote_step:
    "promote_candidate sha now cid key rp = Inr (r, rp') \<Longrightarrow> repo_step sha rp rp'"

inductive repo_reachable :: "(string \<Rightarrow> string) \<Rightarrow> repo \<Rightarrow> bool" for sha where
  repo_start: "repo_reachable sha empty_repo"
| repo_next: "repo_reachable sha rp \<Longrightarrow> repo_step sha rp rp' \<Longrightarrow> repo_reachable sha rp'"

definition candidates_ok :: "(string \<Rightarrow> string) \<Rightarrow> repo \<Rightarrow> bool" where
  "candidates_ok sha rp \<longleftrightarrow> (\<forall>key cid c. rp_candidate rp (key, cid) = Some c \<longrightarrow>
     cd_id c = cid \<and> cd_artifact_key c = key \<and> cd_digest c = sha (cd_content c)
     \<and> rp_candidate_text rp (key, cid) = Some (cd_content c)
     \<and> (ir_issues (cd_report c) = [] \<longrightarrow> cd_source_refs c \<noteq> []
         \<and> (\<forall>r \<in> set (cd_source_refs c). ref_layer r = ''staged'' \<and> ref_artifact_key r = key)))"

definition revisions_ok :: "repo \<Rightarrow> bool" where
  "revisions_ok rp \<longleftrightarrow> (\<forall>key. map fst (rp_revisions rp key) =
     map (\<lambda>i. revision_name (Suc i)) [0..<length (rp_revisions rp key)])"

definition current_ok :: "(string \<Rightarrow> string) \<Rightarrow> repo \<Rightarrow> bool" where
  "current_ok sha rp \<longleftrightarrow> (\<forall>key cur. rp_current rp key = Some cur \<longrightarrow>
     (\<exists>text. map_of (rp_revisions rp key) (cp_revision_id cur) = Some text \<and> sha text = cp_digest cur))"

definition repo_inv :: "(string \<Rightarrow> string) \<Rightarrow> repo \<Rightarrow> bool" where
  "repo_inv sha rp \<longleftrightarrow> candidates_ok sha rp \<and> revisions_ok rp \<and> current_ok sha rp"

lemma repo_inv_revisions: "repo_inv sha rp \<Longrightarrow> revisions_ok rp"
  by (simp add: repo_inv_def)

text \<open>Steps that touch none of the candidates, revisions and pointers keep the invariant.\<close>

lemma repo_inv_frame:
  assumes "repo_inv sha rp"
    and "rp_candidate rp' = rp_candidate rp" "rp_candidate_text rp' = rp_candidate_text rp"
    and "rp_revisions rp' = rp_revisions rp" "rp_current rp' = rp_current rp"
  shows "repo_inv sha rp'"
  using assms by (simp add: repo_inv_def candidates_ok_def revisions_ok_def current_ok_def)

lemma new_revision_fresh:
  assumes "revisions_ok rp"
  shows "revision_name (Suc (length (rp_revisions rp key))) \<notin> set (dict_keys (rp_revisions rp key))"
proof -
  have "dict_keys (rp_revisions rp key) =
      map (\<lambda>i. revision_name (Suc i)) [0..<length (rp_revisions rp key)]"
    using assms by (simp add: revisions_ok_def)
  then have "set (dict_keys (rp_revisions rp key)) =
      (\<lambda>i. revision_name (Suc i)) ` {0..<length (rp_revisions rp key)}"
    by (metis set_map set_upt)
  then show ?thesis by auto
qed

lemma examine_sources_clean:
  assumes "foldE (examine_source sha rp key) refs (iss, acc, ds) = Inr (iss', acc', ds')" and "iss' = []"
  shows "iss = [] \<and> (\<forall>r \<in> set refs. ref_layer r = ''staged'' \<and> ref_artifact_key r = key)"
  using assms
proof (induction refs arbitrary: iss acc ds)
  case (Cons r refs)
  from Cons.prems(1) obtain s where s: "examine_source sha rp key r (iss, acc, ds) = Inr s"
    "foldE (examine_source sha rp key) refs s = Inr (iss', acc', ds')" by auto
  obtain i2 a2 d2 where s2: "s = (i2, a2, d2)" by (cases s)
  from Cons.IH [OF s(2) [unfolded s2] Cons.prems(2)] have "i2 = []"
    and rest: "\<forall>r \<in> set refs. ref_layer r = ''staged'' \<and> ref_artifact_key r = key" by auto
  with s(1) s2 have "iss = [] \<and> ref_layer r = ''staged'' \<and> ref_artifact_key r = key"
    by (auto simp: examine_source_def split: if_splits sum.splits err.splits)
  with rest show ?case by simp
qed simp

lemma create_candidate_result:
  assumes "create_candidate sha now uuid trace item key content refs digest expected rp = Inr (c, rp')"
  shows "cd_id c = ''cand-'' @ uuid" "cd_artifact_key c = key" "cd_content c = content"
    "cd_digest c = sha content" "cd_source_refs c = refs"
    "ir_issues (cd_report c) = [] \<Longrightarrow>
       refs \<noteq> [] \<and> (\<forall>r \<in> set refs. ref_layer r = ''staged'' \<and> ref_artifact_key r = key)"
    "rp_candidate rp (key, cd_id c) = None"
    "rp' = rp\<lparr>rp_candidate_text := (rp_candidate_text rp)((key, cd_id c) \<mapsto> content),
             rp_candidate := (rp_candidate rp)((key, cd_id c) \<mapsto> c)\<rparr>"
  using assms
  by (auto simp: create_candidate_def Let_def split: if_splits prod.splits
      dest: examine_sources_clean)

lemma candidate_step_inv:
  assumes inv: "repo_inv sha rp"
    and step: "create_candidate sha now uuid trace item key content refs digest expected rp = Inr (c, rp')"
  shows "repo_inv sha rp'"
proof -
  note res = create_candidate_result [OF step]
  have "candidates_ok sha rp'"
    using inv res(1-7) unfolding res(8) repo_inv_def candidates_ok_def by auto
  moreover have "revisions_ok rp'" "current_ok sha rp'"
    using inv unfolding res(8) repo_inv_def revisions_ok_def current_ok_def by simp_all
  ultimately show ?thesis by (simp add: repo_inv_def)
qed

lemma load_candidate_result:
  assumes "load_candidate sha rp key cid = Inr c" and "candidates_ok sha rp"
  shows "rp_candidate rp (key, cid) = Some c" "cd_id c = cid" "cd_digest c = sha (cd_content c)"
    "ir_issues (cd_report c) = [] \<Longrightarrow>
       \<forall>r \<in> set (cd_source_refs c). ref_layer r = ''staged'' \<and> ref_artifact_key r = key"
proof -
  from assms obtain c0 where c0: "rp_candidate rp (key, cid) = Some c0"
    "c = c0\<lparr>cd_content := cd_content c0, cd_source_refs := cd_source_refs c0\<rparr>"
    by (auto simp: load_candidate_def candidates_ok_def split: option.splits if_splits dest!: mapE_mk_ref)
  then have "c = c0" by simp
  with c0 assms(2) show "rp_candidate rp (key, cid) = Some c" "cd_id c = cid" "cd_digest c = sha (cd_content c)"
    "ir_issues (cd_report c) = [] \<Longrightarrow>
       \<forall>r \<in> set (cd_source_refs c). ref_layer r = ''staged'' \<and> ref_artifact_key r = key"
    by (auto simp: candidates_ok_def)
qed

lemma promote_new_result:
  assumes "promote_new sha now c key rp = Inr (r, rp')"
  shows "\<exists>fs. store_save key (cd_content c) (rp_store rp) = Inr fs
    \<and> ref_published key (Some (revision_name (Suc (length (rp_revisions rp key))))) = Inr r
    \<and> rp' = rp\<lparr>rp_revisions := (rp_revisions rp)(key :=
                  dict_put (revision_name (Suc (length (rp_revisions rp key)))) (cd_content c) (rp_revisions rp key)),
              rp_current := (rp_current rp)(key \<mapsto>
                \<lparr>cp_revision_id = revision_name (Suc (length (rp_revisions rp key))),
                 cp_candidate_id = cd_id c, cp_digest = cd_digest c, cp_promoted_at = now\<rparr>),
              rp_store := fs\<rparr>"
  using assms by (auto simp: promote_new_def revision_name_def Let_def)

lemma promote_new_inv:
  assumes inv: "repo_inv sha rp" and c: "cd_digest c = sha (cd_content c)"
    and step: "promote_new sha now c key rp = Inr (r, rp')"
  shows "repo_inv sha rp'"
proof -
  obtain fs where rp': "rp' = rp\<lparr>rp_revisions := (rp_revisions rp)(key :=
                  dict_put (revision_name (Suc (length (rp_revisions rp key)))) (cd_content c) (rp_revisions rp key)),
              rp_current := (rp_current rp)(key \<mapsto>
                \<lparr>cp_revision_id = revision_name (Suc (length (rp_revisions rp key))),
                 cp_candidate_id = cd_id c, cp_digest = cd_digest c, cp_promoted_at = now\<rparr>),
              rp_store := fs\<rparr>"
    using promote_new_result [OF step] by blast
  from inv have ok: "candidates_ok sha rp" "revisions_ok rp" "current_ok sha rp"
    by (auto simp: repo_inv_def)
  note fresh = new_revision_fresh [OF ok(2), of key]
  have "candidates_ok sha rp'" using ok(1) unfolding rp' candidates_ok_def by simp
  moreover have "revisions_ok rp'"
    using ok(2) fresh unfolding rp' revisions_ok_def by (auto simp: set_dict_put_new)
  moreover have "current_ok sha rp'"
    using ok(3) c fresh unfolding rp' current_ok_def by (auto simp: dict.get_put)
  ultimately show ?thesis by (simp add: repo_inv_def)
qed

text \<open>What a promotion that returns has checked and done.\<close>

lemma promote_candidate_cases:
  assumes "promote_candidate sha now cid key rp = Inr (r, rp')"
  obtains (replay) c cur fs where "load_candidate sha rp key cid = Inr c"
      "ir_issues (cd_report c) = []" "verify_candidate_sources sha rp c = Inr ()"
      "rp_current rp key = Some cur" "cp_candidate_id cur = cd_id c" "cp_digest cur = cd_digest c"
      "ref_published key (Some (cp_revision_id cur)) = Inr r"
      "\<exists>text. load_ref sha rp r = Inr text \<and> sha text = cd_digest c"
      "store_save key (cd_content c) (rp_store rp) = Inr fs" "rp' = rp\<lparr>rp_store := fs\<rparr>"
  | (fresh) c where "load_candidate sha rp key cid = Inr c"
      "ir_issues (cd_report c) = []" "verify_candidate_sources sha rp c = Inr ()"
      "\<And>cur. rp_current rp key = Some cur \<Longrightarrow> cp_candidate_id cur \<noteq> cd_id c"
      "promote_new sha now c key rp = Inr (r, rp')"
proof -
  from assms obtain c where c: "load_candidate sha rp key cid = Inr c"
    "ir_issues (cd_report c) = []" "verify_candidate_sources sha rp c = Inr ()"
    by (auto simp: promote_candidate_def report_status_def split: if_splits)
  show thesis
  proof (cases "\<exists>cur. rp_current rp key = Some cur \<and> cp_candidate_id cur = cd_id c")
    case True
    then obtain cur where cur: "rp_current rp key = Some cur" "cp_candidate_id cur = cd_id c" by blast
    then obtain fs where "cp_digest cur = cd_digest c"
        "ref_published key (Some (cp_revision_id cur)) = Inr r"
        "\<exists>text. load_ref sha rp r = Inr text \<and> sha text = cd_digest c"
        "store_save key (cd_content c) (rp_store rp) = Inr fs" "rp' = rp\<lparr>rp_store := fs\<rparr>"
      using assms c by (auto simp: promote_candidate_def report_status_def split: if_splits)
    with c cur show thesis by (intro replay)
  next
    case False
    then have "promote_new sha now c key rp = Inr (r, rp')"
      using assms c by (auto simp: promote_candidate_def report_status_def split: option.splits if_splits)
    with c False show thesis by (auto intro: fresh)
  qed
qed

lemma promote_step_inv:
  assumes inv: "repo_inv sha rp"
    and step: "promote_candidate sha now cid key rp = Inr (r, rp')"
  shows "repo_inv sha rp'"
  using step
proof (cases rule: promote_candidate_cases)
  case (replay c cur fs)
  then show ?thesis using repo_inv_frame [OF inv, of rp'] by simp
next
  case (fresh c)
  have "cd_digest c = sha (cd_content c)"
    using load_candidate_result [OF fresh(1)] inv by (simp add: repo_inv_def)
  then show ?thesis by (rule promote_new_inv [OF inv _ fresh(5)])
qed

lemma verify_staged_result:
  assumes "verify_staged sha now r trace item slot kind validator sources digest rp = Inr (rc, rp')"
  shows "rp' = rp\<lparr>rp_receipt := (rp_receipt rp)(staged_key r \<mapsto> rc)\<rparr>" (is ?files)
    and "\<exists>body m. load_ref sha rp r = Inr body \<and> rp_manifest rp (staged_key r) = Some m
       \<and> rc_digest rc = (if mf_digest m = [] then sha body else mf_digest m)
       \<and> (\<forall>v. validator = Some v \<longrightarrow> v body = Inr ())" (is ?checked)
    and "ref_layer r = ''staged'' \<and> rc_ref rc = r \<and> ref_trace_id r = Some trace
       \<and> ref_work_item_id r = Some item \<and> ref_slot r = Some slot" (is ?place)
proof -
  from assms have place: "ref_layer r = ''staged''" "ref_trace_id r = Some trace"
      "ref_work_item_id r = Some item" "ref_slot r = Some slot"
    by (auto simp: verify_staged_def split: if_splits)
  from assms obtain body where body: "load_ref sha rp r = Inr body"
      "(case validator of None \<Rightarrow> Inr () | Some v \<Rightarrow> v body) = Inr ()"
    by (auto simp: verify_staged_def simp del: raises.simps)
  from assms place body obtain m where m: "rp_manifest rp (staged_key r) = Some m"
    by (cases "rp_manifest rp (staged_key r)") (auto simp: verify_staged_def)
  from assms place body m
  have "rc_ref rc = r \<and> rc_digest rc = (if mf_digest m = [] then sha body else mf_digest m)
      \<and> rp' = rp\<lparr>rp_receipt := (rp_receipt rp)(staged_key r \<mapsto> rc)\<rparr>"
    by (auto simp: verify_staged_def Let_def simp del: not_None_eq split: if_split_asm)
  with place body m show ?files ?checked ?place by (auto split: option.splits)
qed

lemma repo_step_inv: "repo_step sha rp rp' \<Longrightarrow> repo_inv sha rp \<Longrightarrow> repo_inv sha rp'"
proof (induction rule: repo_step.induct)
  case (intermediate_step now trace item phase idigest content rp im rp')
  then show ?case
    using repo_inv_frame [OF intermediate_step(2), of rp']
    by (auto simp: write_intermediate_def Let_def split: if_splits)
next
  case (stage_step now trace item key slot content sources digest expected rp r rp')
  then show ?case
    using repo_inv_frame [OF stage_step(2), of rp'] write_staged_result [OF stage_step(1)] by auto
next
  case (receipt_step now r trace item slot kind validator sources digest rp rc rp')
  then show ?case
    using repo_inv_frame [OF receipt_step(2), of rp'] verify_staged_result(1) [OF receipt_step(1)] by simp
next
  case (candidate_step now uuid trace item key content refs digest expected rp c rp')
  then show ?case by (blast intro: candidate_step_inv)
next
  case (promote_step now cid key rp r rp')
  then show ?case by (blast intro: promote_step_inv)
qed

lemma empty_repo_inv: "repo_inv sha empty_repo"
  by (simp add: repo_inv_def candidates_ok_def revisions_ok_def current_ok_def empty_repo_def)

text \<open>C23. In every reachable repository each stored candidate's digest is that of its content, a
  candidate without issues has only staged sources of its own artifact, the revisions of an
  artifact are numbered from 1 without gaps, and the current pointer names a stored revision
  whose text has the recorded digest.\<close>

theorem repo_reachable_inv: "repo_reachable sha rp \<Longrightarrow> repo_inv sha rp"
  by (induction rule: repo_reachable.induct) (auto intro: empty_repo_inv repo_step_inv)

text \<open>C24. Published revisions are append only: no operation changes or removes the text of a
  revision that exists.\<close>

theorem revisions_append_only:
  assumes "repo_step sha rp rp'" and "revisions_ok rp"
    and "map_of (rp_revisions rp key) rid = Some text"
  shows "map_of (rp_revisions rp' key) rid = Some text"
  using assms
proof (induction rule: repo_step.induct)
  case (intermediate_step now trace item phase idigest content rp im rp')
  then show ?case by (auto simp: write_intermediate_def Let_def split: if_splits)
next
  case (stage_step now trace item k slot content sources digest expected rp r rp')
  then show ?case using write_staged_result [OF stage_step(1)] by auto
next
  case (receipt_step now r trace item slot kind validator sources digest rp rc rp')
  then show ?case using verify_staged_result(1) [OF receipt_step(1)] by simp
next
  case (candidate_step now uuid trace item k content refs digest expected rp c rp')
  then show ?case using create_candidate_result(8) [OF candidate_step(1)] by simp
next
  case (promote_step now cid k rp r rp')
  note prems = promote_step.prems
  from promote_step.hyps show ?case
  proof (cases rule: promote_candidate_cases)
    case (replay c cur fs)
    then show ?thesis using prems by simp
  next
    case (fresh c)
    have "rid \<in> set (dict_keys (rp_revisions rp key))"
      using prems(2) by (metis domI dom_map_of_conv_image_fst set_map)
    then have "key = k \<Longrightarrow> rid \<noteq> revision_name (Suc (length (rp_revisions rp k)))"
      using new_revision_fresh [OF prems(1), of k] by metis
    then show ?thesis
      using promote_new_result [OF fresh(5)] prems(2) by (auto simp: dict.get_put)
  qed
qed

lemma promote_publishes_body:
  assumes "promote_candidate sha now cid key rp = Inr (r, rp')" and "repo_inv sha rp"
  shows "\<exists>c body. load_candidate sha rp key cid = Inr c \<and> load_ref sha rp' r = Inr body
    \<and> sha body = cd_digest c \<and> ref_layer r = ''published''
    \<and> store_load key (rp_store rp') = Inr (cd_content c)"
  using assms(1)
proof (cases rule: promote_candidate_cases)
  case (replay c cur fs)
  from replay(8) obtain body where body: "load_ref sha rp r = Inr body" "sha body = cd_digest c" by blast
  note r = ref_published_fields [OF replay(7)]
  have "load_ref sha rp' r = Inr body"
    using body(1) unfolding replay(10) r by (simp add: load_ref_def load_published_def)
  then show ?thesis
    using replay(1,10) body(2) r store_load_saved [OF replay(9)] by auto
next
  case (fresh c)
  have ok: "candidates_ok sha rp" using assms(2) by (simp add: repo_inv_def)
  obtain fs where fs: "store_save key (cd_content c) (rp_store rp) = Inr fs"
    and r: "ref_published key (Some (revision_name (Suc (length (rp_revisions rp key))))) = Inr r"
    and rp': "rp' = rp\<lparr>rp_revisions := (rp_revisions rp)(key :=
                  dict_put (revision_name (Suc (length (rp_revisions rp key)))) (cd_content c) (rp_revisions rp key)),
              rp_current := (rp_current rp)(key \<mapsto>
                \<lparr>cp_revision_id = revision_name (Suc (length (rp_revisions rp key))),
                 cp_candidate_id = cd_id c, cp_digest = cd_digest c, cp_promoted_at = now\<rparr>),
              rp_store := fs\<rparr>"
    using promote_new_result [OF fresh(5)] by blast
  have "known_artifact key = Inr ()"
    using fs by (auto simp: store_save_def known_artifact_def)
  then have "load_ref sha rp' r = Inr (cd_content c)"
    unfolding ref_published_fields [OF r] rp'
    by (simp add: load_ref_def load_published_def dict.get_put)
  then show ?thesis
    using fresh(1) load_candidate_result(3) [OF fresh(1) ok] ref_published_fields [OF r]
      store_load_saved [OF fs] rp' by auto
qed

text \<open>Promotion publishes exactly a clean candidate: if it returns a reference, the stored
  candidate has no integration issue, every source still has the digest recorded when the
  candidate was built, the reference is a published one whose text has the candidate's digest,
  and the root projection of the artifact is the candidate's content.\<close>

theorem promote_publishes_candidate:
  assumes "promote_candidate sha now cid key rp = Inr (r, rp')" and "repo_inv sha rp"
  shows "\<exists>c body. rp_candidate rp (key, cid) = Some c \<and> ir_issues (cd_report c) = []
    \<and> length (cd_source_digests c) = length (cd_source_refs c)
    \<and> (\<forall>(q, d) \<in> set (zip (cd_source_refs c) (cd_source_digests c)).
          \<exists>t. load_ref sha rp q = Inr t \<and> sha t = d)
    \<and> ref_layer r = ''published'' \<and> load_ref sha rp' r = Inr body \<and> sha body = sha (cd_content c)
    \<and> store_load key (rp_store rp') = Inr (cd_content c)"
proof -
  have ok: "candidates_ok sha rp" using assms(2) by (simp add: repo_inv_def)
  from assms(1) obtain c where c: "load_candidate sha rp key cid = Inr c"
    "ir_issues (cd_report c) = []" "verify_candidate_sources sha rp c = Inr ()"
    by (cases rule: promote_candidate_cases) auto
  have "length (cd_source_digests c) = length (cd_source_refs c)
      \<and> (\<forall>(q, d) \<in> set (zip (cd_source_refs c) (cd_source_digests c)).
            \<exists>t. load_ref sha rp q = Inr t \<and> sha t = d)"
    using c(3) by (auto simp: verify_candidate_sources_def verify_pairs_Inr split: if_splits)
  then show ?thesis
    using promote_publishes_body [OF assms] c(1,2) load_candidate_result(1,3) [OF c(1) ok] by auto
qed

lemma load_candidate_frame:
  "rp_candidate rp' = rp_candidate rp \<Longrightarrow> rp_candidate_text rp' = rp_candidate_text rp \<Longrightarrow>
     load_candidate sha rp' key cid = load_candidate sha rp key cid"
  by (simp add: load_candidate_def)

lemma verify_candidate_sources_frame:
  assumes "rp_manifest rp' = rp_manifest rp" "rp_output rp' = rp_output rp"
    and "\<forall>r \<in> set (cd_source_refs c). ref_layer r = ''staged''"
  shows "verify_candidate_sources sha rp' c = verify_candidate_sources sha rp c"
  using assms by (auto simp: verify_candidate_sources_def intro!: verify_pairs_frame load_ref_frame
      dest: set_zip_leftD)

lemma promote_candidate_frame:
  assumes "promote_candidate sha now cid key rp = Inr (r, rp')"
  shows "rp_manifest rp' = rp_manifest rp" "rp_output rp' = rp_output rp"
    "rp_candidate rp' = rp_candidate rp" "rp_candidate_text rp' = rp_candidate_text rp"
  using assms
  by (cases rule: promote_candidate_cases; auto dest!: promote_new_result)+

lemma promote_candidate_points:
  assumes "promote_candidate sha now cid key rp = Inr (r, rp')"
    and "load_candidate sha rp key cid = Inr c"
  shows "\<exists>cur. rp_current rp' key = Some cur \<and> cp_candidate_id cur = cd_id c
    \<and> cp_digest cur = cd_digest c \<and> ref_published key (Some (cp_revision_id cur)) = Inr r"
  using assms(1)
proof (cases rule: promote_candidate_cases)
  case (replay c' cur fs)
  then show ?thesis using assms(2) by auto
next
  case (fresh c')
  then show ?thesis using assms(2) by (auto dest!: promote_new_result)
qed

text \<open>Promotion can be repeated after a crash: if a promotion reached \<open>current.json\<close> but the
  projection was lost or damaged (any \<open>fs\<close>), promoting the same candidate again returns the
  same reference, writes the projection again and changes nothing else, so there is no
  second revision.\<close>

theorem promote_replay:
  assumes "promote_candidate sha now cid key rp = Inr (r, rp')" and "repo_inv sha rp"
  shows "\<exists>fs' c. rp_candidate rp (key, cid) = Some c
    \<and> promote_candidate sha now' cid key (rp'\<lparr>rp_store := fs\<rparr>) = Inr (r, rp'\<lparr>rp_store := fs'\<rparr>)
    \<and> store_load key fs' = Inr (cd_content c)"
proof -
  let ?crashed = "rp'\<lparr>rp_store := fs\<rparr>"
  have ok: "candidates_ok sha rp" using assms(2) by (simp add: repo_inv_def)
  from assms(1) obtain c where c: "load_candidate sha rp key cid = Inr c"
    "ir_issues (cd_report c) = []" "verify_candidate_sources sha rp c = Inr ()"
    by (cases rule: promote_candidate_cases) auto
  note cand = load_candidate_result [OF c(1) ok]
  note frame = promote_candidate_frame [OF assms(1)]
  have load: "load_candidate sha ?crashed key cid = Inr c"
    using c(1) frame by (simp add: load_candidate_frame [of ?crashed rp])
  have sources: "verify_candidate_sources sha ?crashed c = Inr ()"
    using c(3) frame cand(4) [OF c(2)] verify_candidate_sources_frame [of ?crashed rp c sha] by simp
  obtain cur where cur: "rp_current rp' key = Some cur" "cp_candidate_id cur = cd_id c"
    "cp_digest cur = cd_digest c" "ref_published key (Some (cp_revision_id cur)) = Inr r"
    using promote_candidate_points [OF assms(1) c(1)] by blast
  obtain body where body: "load_ref sha rp' r = Inr body" "sha body = cd_digest c"
    using promote_publishes_body [OF assms] c(1) by auto
  have "load_ref sha ?crashed r = Inr body"
    using body(1) ref_published_fields [OF cur(4)] by (simp add: load_ref_def load_published_def)
  moreover obtain fs' where fs': "store_save key (cd_content c) fs = Inr fs'"
    using c(1) by (auto simp: load_candidate_def known_artifact_def store_save_def split: if_splits)
  ultimately have "promote_candidate sha now' cid key ?crashed = Inr (r, ?crashed\<lparr>rp_store := fs'\<rparr>)"
    using load sources c(2) cur body(2) by (simp add: promote_candidate_def report_status_def)
  then show ?thesis using cand(1) store_load_saved [OF fs'] by auto
qed

section \<open>A concrete run\<close>

text \<open>
  A run used to instantiate the theorems: one staged output of the \<open>tasks\<close> artifact, the
  candidate built from it, its promotion. The digest function is the identity.
\<close>

definition demo_staged :: "(artifact_ref \<times> repo) result" where
  "demo_staged = write_staged (\<lambda>s. s) ''t0'' ''tr-1'' ''wi-1'' ''tasks'' ''plan'' ''# Tasks''
     None None None empty_repo"

definition demo_candidate :: "(candidate \<times> repo) result" where
  "demo_candidate = create_candidate (\<lambda>s. s) ''t1'' ''01'' ''tr-1'' ''wi-2'' ''tasks'' ''# All tasks''
     [fst (projr demo_staged)] None None (snd (projr demo_staged))"

definition demo_promoted :: "(artifact_ref \<times> repo) result" where
  "demo_promoted = promote_candidate (\<lambda>s. s) ''t2'' ''cand-01'' ''tasks'' (snd (projr demo_candidate))"

lemma demo_runs: "\<not> isl demo_staged" "\<not> isl demo_candidate" "\<not> isl demo_promoted"
  by code_simp+

lemma demo_staged_eq:
  "write_staged (\<lambda>s. s) ''t0'' ''tr-1'' ''wi-1'' ''tasks'' ''plan'' ''# Tasks'' None None None empty_repo
     = Inr (fst (projr demo_staged), snd (projr demo_staged))"
  using result_pair [OF demo_runs(1)] by (simp only: demo_staged_def [symmetric])

lemma demo_candidate_eq:
  "create_candidate (\<lambda>s. s) ''t1'' ''01'' ''tr-1'' ''wi-2'' ''tasks'' ''# All tasks''
     [fst (projr demo_staged)] None None (snd (projr demo_staged))
     = Inr (fst (projr demo_candidate), snd (projr demo_candidate))"
  using result_pair [OF demo_runs(2)] by (simp only: demo_candidate_def [symmetric])

lemma demo_promoted_eq:
  "promote_candidate (\<lambda>s. s) ''t2'' ''cand-01'' ''tasks'' (snd (projr demo_candidate))
     = Inr (fst (projr demo_promoted), snd (projr demo_promoted))"
  using result_pair [OF demo_runs(3)] by (simp only: demo_promoted_def [symmetric])

lemma demo_inv:
  "repo_inv (\<lambda>s. s) (snd (projr demo_staged))"
  "repo_inv (\<lambda>s. s) (snd (projr demo_candidate))"
  "repo_inv (\<lambda>s. s) (snd (projr demo_promoted))"
proof -
  show a: "repo_inv (\<lambda>s. s) (snd (projr demo_staged))"
    by (rule repo_step_inv [OF stage_step [OF demo_staged_eq] empty_repo_inv])
  show b: "repo_inv (\<lambda>s. s) (snd (projr demo_candidate))"
    by (rule repo_step_inv [OF candidate_step [OF demo_candidate_eq] a])
  show "repo_inv (\<lambda>s. s) (snd (projr demo_promoted))"
    by (rule repo_step_inv [OF promote_step [OF demo_promoted_eq] b])
qed

theorem write_staged_then_load_witness:
  "load_ref (\<lambda>s. s) (snd (projr demo_staged)) (fst (projr demo_staged)) = Inr ''# Tasks''"
  by (rule write_staged_then_load [OF demo_staged_eq])

theorem repo_reachable_inv_witness: "repo_inv (\<lambda>s. s) (snd (projr demo_staged))"
  by (rule repo_reachable_inv [OF repo_next [OF repo_start stage_step [OF demo_staged_eq]]])

lemma demo_restage_ok:
  "\<not> isl (write_staged (\<lambda>s. s) ''t3'' ''tr-1'' ''wi-3'' ''tasks'' ''plan'' ''x'' None None None rp)"
  by (simp add: write_staged_def known_artifact_def filename_for_def store_filenames_def safe_id_def
      validate_id_def verify_input_versions_def ref_staged_def mk_ref_def blank_def is_space_def
      is_alnum_def Let_def)

definition demo_restaged :: "(artifact_ref \<times> repo) result" where
  "demo_restaged = write_staged (\<lambda>s. s) ''t3'' ''tr-1'' ''wi-3'' ''tasks'' ''plan'' ''x''
     None None None (snd (projr demo_promoted))"

lemma demo_restaged_eq:
  "write_staged (\<lambda>s. s) ''t3'' ''tr-1'' ''wi-3'' ''tasks'' ''plan'' ''x'' None None None
     (snd (projr demo_promoted)) = Inr (fst (projr demo_restaged), snd (projr demo_restaged))"
  using result_pair [OF demo_restage_ok [of "snd (projr demo_promoted)"]]
  by (simp only: demo_restaged_def [symmetric])

lemma demo_first_revision:
  "map_of (rp_revisions (snd (projr demo_promoted)) ''tasks'') ''rev-001'' = Some ''# All tasks''"
  by code_simp

theorem revisions_append_only_witness:
  "map_of (rp_revisions (snd (projr demo_restaged)) ''tasks'') ''rev-001'' = Some ''# All tasks''"
  by (rule revisions_append_only [OF stage_step [OF demo_restaged_eq]
        repo_inv_revisions [OF demo_inv(3)] demo_first_revision])

theorem promote_publishes_candidate_witness:
  "\<exists>c body. rp_candidate (snd (projr demo_candidate)) (''tasks'', ''cand-01'') = Some c
     \<and> load_ref (\<lambda>s. s) (snd (projr demo_promoted)) (fst (projr demo_promoted)) = Inr body
     \<and> body = cd_content c"
  using promote_publishes_candidate [OF demo_promoted_eq demo_inv(2)] by blast

theorem promote_replay_witness:
  "\<exists>fs'. promote_candidate (\<lambda>s. s) ''t9'' ''cand-01'' ''tasks''
      ((snd (projr demo_promoted))\<lparr>rp_store := (\<lambda>_. None)\<rparr>)
     = Inr (fst (projr demo_promoted), (snd (projr demo_promoted))\<lparr>rp_store := fs'\<rparr>)"
  using promote_replay [OF demo_promoted_eq demo_inv(2), of "''t9''" "\<lambda>_. None"] by blast

end
