(* ===== verification/Delivery_Registry.thy ===== *)
theory Delivery_Registry
  imports Py_Fnmatch Json
begin

text \<open>
  The execution modes (\<^verbatim>\<open>app/execution_context.py\<close>) and the registry that derives the
  delivery contract of a work item from its role (\<^verbatim>\<open>app/orchestration/delivery_registry.py\<close>).
  The checks of the registry that read a whole work item are in \<open>Staged_Outputs\<close>.
\<close>

datatype execution_mode = EXCLUSIVE | PARTITIONED | INTEGRATION | QUALITY_GATE

fun mode_value :: "execution_mode \<Rightarrow> string" where
  "mode_value EXCLUSIVE = ''exclusive''"
| "mode_value PARTITIONED = ''partitioned''"
| "mode_value INTEGRATION = ''integration''"
| "mode_value QUALITY_GATE = ''quality_gate''"

record delivery_contract =
  dc_kind :: string
  dc_agent_id :: string
  dc_domain :: string
  dc_required_tools :: "string list"
  dc_expected_tool :: "string option"
  dc_output_artifact_kind :: "string option"
  dc_output_slot_pattern :: "string option"
  dc_validator :: "string option"
  dc_retry_policy :: string

definition architecture_contract ::
  "string \<Rightarrow> string list \<Rightarrow> string \<Rightarrow> string option \<Rightarrow> string \<Rightarrow> delivery_contract" where
  "architecture_contract kind tools expected slot_pattern validator =
     \<lparr>dc_kind = kind, dc_agent_id = ''architecture_agent'', dc_domain = ''architecture'',
      dc_required_tools = tools, dc_expected_tool = Some expected,
      dc_output_artifact_kind = Some (if validator = ''MarkdownArchitecturePackage''
        then ''architecture_markdown'' else ''architecture_design''),
      dc_output_slot_pattern = slot_pattern, dc_validator = Some validator,
      dc_retry_policy = ''artifact_schema_repair''\<rparr>"

definition partition_contract :: "string \<Rightarrow> delivery_contract option" where
  "partition_contract slot =
     (if slot \<in> {''design'', ''baseline'', ''api'', ''data'', ''frontend''} then
        Some (architecture_contract ''architecture.markdown_package''
          [''load_architecture_input'', ''write_staged_architecture''] ''write_staged_architecture''
          (Some slot) ''MarkdownArchitecturePackage'')
      else if slot = ''blueprint'' then
        Some (architecture_contract ''architecture.blueprint''
          [''load_architecture_input'', ''write_architecture_blueprint''] ''write_architecture_blueprint''
          (Some ''blueprint'') ''ArchitectureBlueprint'')
      else if slot = ''module'' \<or> prefix ''module-'' slot then
        Some (architecture_contract ''architecture.module_design''
          [''load_architecture_input'', ''write_module_design''] ''write_module_design''
          (Some ''module-*'') ''ModuleDesign'')
      else if slot = ''implementation'' \<or> prefix ''implementation-'' slot then
        Some (architecture_contract ''architecture.implementation_design''
          [''load_architecture_input'', ''write_implementation_design''] ''write_implementation_design''
          (Some ''implementation-*'') ''ImplementationDesign'')
      else None)"

definition contract_for ::
  "string \<Rightarrow> execution_mode \<Rightarrow> string option \<Rightarrow> string option \<Rightarrow> string option \<Rightarrow> string option
   \<Rightarrow> delivery_contract option" where
  "contract_for agent mode slot item stage publish_target =
     (if agent \<noteq> ''architecture_agent'' then None
      else
        let slot_value = (case slot of None \<Rightarrow> [] | Some s \<Rightarrow> s);
            item_value = (case item of None \<Rightarrow> [] | Some s \<Rightarrow> s)
        in if mode = PARTITIONED \<and> partition_contract slot_value \<noteq> None
           then partition_contract slot_value
           else if mode = INTEGRATION \<and> stage = Some ''architecture_markdown_integration'' then
             Some (architecture_contract ''architecture.markdown_integration''
               [''load_architecture_input'', ''create_architecture_candidate'']
               ''create_architecture_candidate'' None ''MarkdownArchitecturePackage'')
           else if mode = INTEGRATION \<and>
               (stage = Some ''architecture_integration'' \<or>
                (stage = None \<and> (suffix ''architecture-layered-integration'' item_value
                  \<or> publish_target = Some ''architecture''))) then
             Some (architecture_contract ''architecture.integration''
               [''load_architecture_input'', ''integrate_architecture_designs'']
               ''integrate_architecture_designs'' None ''ArchitectureDesignBundle'')
           else None)"

definition required_tools_for ::
  "string \<Rightarrow> execution_mode \<Rightarrow> string option \<Rightarrow> string option \<Rightarrow> string option \<Rightarrow> string option
   \<Rightarrow> string list" where
  "required_tools_for agent mode slot item stage publish_target =
     (case contract_for agent mode slot item stage publish_target of
        None \<Rightarrow> [] | Some c \<Rightarrow> dc_required_tools c)"

definition expected_tool_for ::
  "string \<Rightarrow> execution_mode \<Rightarrow> string option \<Rightarrow> string option \<Rightarrow> string option \<Rightarrow> string option
   \<Rightarrow> string option" where
  "expected_tool_for agent mode slot item stage publish_target =
     (case contract_for agent mode slot item stage publish_target of
        None \<Rightarrow> None | Some c \<Rightarrow> dc_expected_tool c)"

definition allowlist_for ::
  "string \<Rightarrow> execution_mode \<Rightarrow> string option \<Rightarrow> string option \<Rightarrow> string option \<Rightarrow> string option
   \<Rightarrow> string list" where
  "allowlist_for agent mode slot item stage publish_target =
     (case contract_for agent mode slot item stage publish_target of
        None \<Rightarrow> [] | Some c \<Rightarrow> dc_required_tools c)"

lemma architecture_contract_simps [simp]:
  "dc_required_tools (architecture_contract k ts e p v) = ts"
  "dc_expected_tool (architecture_contract k ts e p v) = Some e"
  "dc_output_slot_pattern (architecture_contract k ts e p v) = p"
  by (simp_all add: architecture_contract_def)

text \<open>The contracts there are, and the slots of the partitioned ones.\<close>

lemma partition_contract_cases:
  assumes "partition_contract slot = Some c"
  obtains (package) "slot \<in> {''design'', ''baseline'', ''api'', ''data'', ''frontend''}"
      "c = architecture_contract ''architecture.markdown_package''
        [''load_architecture_input'', ''write_staged_architecture''] ''write_staged_architecture''
        (Some slot) ''MarkdownArchitecturePackage''"
    | (blueprint) "slot = ''blueprint''"
      "c = architecture_contract ''architecture.blueprint''
        [''load_architecture_input'', ''write_architecture_blueprint''] ''write_architecture_blueprint''
        (Some ''blueprint'') ''ArchitectureBlueprint''"
    | (module) "slot = ''module'' \<or> prefix ''module-'' slot"
      "c = architecture_contract ''architecture.module_design''
        [''load_architecture_input'', ''write_module_design''] ''write_module_design''
        (Some ''module-*'') ''ModuleDesign''"
    | (implementation) "slot = ''implementation'' \<or> prefix ''implementation-'' slot"
      "c = architecture_contract ''architecture.implementation_design''
        [''load_architecture_input'', ''write_implementation_design''] ''write_implementation_design''
        (Some ''implementation-*'') ''ImplementationDesign''"
  using assms unfolding partition_contract_def
  by (simp only: option.inject option.distinct split: if_split_asm)

definition tools_ok :: "delivery_contract \<Rightarrow> bool" where
  "tools_ok c \<longleftrightarrow> (case dc_expected_tool c of None \<Rightarrow> False | Some t \<Rightarrow> t \<in> set (dc_required_tools c))"

lemma tools_ok_contract: "tools_ok (architecture_contract k [x, t] t p v)"
  by (simp add: tools_ok_def)

text \<open>A contract always names its tools, and the tool that produces the delivery is one of them.\<close>

lemma partition_contract_tools: "partition_contract slot = Some c \<Longrightarrow> tools_ok c"
  by (erule partition_contract_cases) (simp_all only: tools_ok_contract)

lemma contract_for_tools: "contract_for agent mode slot item stage target = Some c \<Longrightarrow> tools_ok c"
  unfolding contract_for_def Let_def
  by (simp only: option.inject option.distinct split: if_split_asm)
    (use tools_ok_contract partition_contract_tools in blast)+

lemma tools_ok_nonempty: "tools_ok c \<Longrightarrow> dc_required_tools c \<noteq> []"
  by (auto simp: tools_ok_def split: option.splits)

lemma required_tools_for_Nil_iff:
  "required_tools_for agent mode slot item stage target = [] \<longleftrightarrow>
     contract_for agent mode slot item stage target = None"
  by (auto simp: required_tools_for_def split: option.splits dest: contract_for_tools tools_ok_nonempty)

text \<open>The slot patterns of the partition contracts and the slots they come from.\<close>

lemma partition_contract_slot:
  assumes "partition_contract slot = Some c"
  shows "\<exists>p. dc_output_slot_pattern c = Some p \<and>
    (fnmatch slot p \<longleftrightarrow> slot \<noteq> ''module'' \<and> slot \<noteq> ''implementation'')"
proof -
  have lit: "fnmatch s s" if "glob_free s" for s using that by (simp add: fnmatch_literal)
  have star: "fnmatch s ''module-*'' \<longleftrightarrow> prefix ''module-'' s"
    "fnmatch s ''implementation-*'' \<longleftrightarrow> prefix ''implementation-'' s" for s
    using fnmatch_literal_star [of "''module-''" s] fnmatch_literal_star [of "''implementation-''" s]
    by (simp_all add: glob_free_def)
  from assms show ?thesis
  proof (cases rule: partition_contract_cases)
    case package
    then show ?thesis by (elim insertE emptyE) (simp_all add: lit glob_free_def)
  next
    case blueprint
    then show ?thesis by (simp add: lit glob_free_def)
  next
    case module
    then show ?thesis by (elim disjE) (auto simp: star prefix_def)
  next
    case implementation
    then show ?thesis by (elim disjE) (auto simp: star prefix_def)
  qed
qed

lemma partition_contract_exact_slot:
  "partition_contract ''module'' = Some (architecture_contract ''architecture.module_design''
     [''load_architecture_input'', ''write_module_design''] ''write_module_design''
     (Some ''module-*'') ''ModuleDesign'')"
  "partition_contract ''implementation'' = Some (architecture_contract ''architecture.implementation_design''
     [''load_architecture_input'', ''write_implementation_design''] ''write_implementation_design''
     (Some ''implementation-*'') ''ImplementationDesign'')"
  by (simp_all add: partition_contract_def)

end
