(* ===== verification/Retry.thy ===== *)
theory Retry
  imports Json
begin

text \<open>
  Failure attribution and bounded recovery: \<^verbatim>\<open>app/orchestration/retry.py\<close>. A
  \<open>failure_signal\<close> names a failure, a \<open>retry_record\<close> is one durable recovery decision, the
  ledger is the JSON file of the records of a trace, and \<open>action_for\<close> is the policy that
  picks the recovery action from the signal and three retry counts. \<open>sha\<close> stands for the
  hexadecimal SHA-256 digest; nothing is assumed of it.
\<close>

section \<open>Enumerations\<close>

datatype failure_kind =
    AGENT_RUNTIME
  | PROVIDER_TRANSPORT
  | PROVIDER_EMPTY_RESPONSE
  | PROVIDER_TERMINAL_MISSING
  | PROVIDER_POLICY_REJECTED
  | TEST_FAILURE
  | SANDBOX_TIMEOUT
  | SANDBOX_SETUP
  | TEST_EVIDENCE_MISSING
  | IMPLEMENTATION_SUMMARY_MISSING
  | REPAIR_NO_FILE_CHANGE
  | CODE_DELIVERY_INCOMPLETE
  | RUNTIME_PREFLIGHT
  | ARCHITECTURE_CONTRACT_MISSING
  | ARCHITECTURE_SCHEMA_VALIDATION
  | TOOL_CONTRACT_MISMATCH
  | ARTIFACT_CONTRACT_VIOLATION
  | ARTIFACT_COMMIT_FAILURE
  | TOOL_EXECUTION
  | PLANNER_VALIDATION
  | PROVIDER_STALL
  | WORKER_TIMEOUT
  | WORKER_CRASH
  | WORKER_BOOTSTRAP_FAILURE

fun kind_value :: "failure_kind \<Rightarrow> string" where
  "kind_value AGENT_RUNTIME = ''agent_runtime''"
| "kind_value PROVIDER_TRANSPORT = ''provider_transport''"
| "kind_value PROVIDER_EMPTY_RESPONSE = ''provider_empty_response''"
| "kind_value PROVIDER_TERMINAL_MISSING = ''provider_terminal_missing''"
| "kind_value PROVIDER_POLICY_REJECTED = ''provider_policy_rejected''"
| "kind_value TEST_FAILURE = ''test_failure''"
| "kind_value SANDBOX_TIMEOUT = ''sandbox_timeout''"
| "kind_value SANDBOX_SETUP = ''sandbox_setup''"
| "kind_value TEST_EVIDENCE_MISSING = ''test_evidence_missing''"
| "kind_value IMPLEMENTATION_SUMMARY_MISSING = ''implementation_summary_missing''"
| "kind_value REPAIR_NO_FILE_CHANGE = ''repair_no_file_change''"
| "kind_value CODE_DELIVERY_INCOMPLETE = ''code_delivery_incomplete''"
| "kind_value RUNTIME_PREFLIGHT = ''runtime_preflight''"
| "kind_value ARCHITECTURE_CONTRACT_MISSING = ''architecture_contract_missing''"
| "kind_value ARCHITECTURE_SCHEMA_VALIDATION = ''architecture_schema_validation''"
| "kind_value TOOL_CONTRACT_MISMATCH = ''tool_contract_mismatch''"
| "kind_value ARTIFACT_CONTRACT_VIOLATION = ''artifact_contract_violation''"
| "kind_value ARTIFACT_COMMIT_FAILURE = ''artifact_commit_failure''"
| "kind_value TOOL_EXECUTION = ''tool_execution''"
| "kind_value PLANNER_VALIDATION = ''planner_validation''"
| "kind_value PROVIDER_STALL = ''provider_stall''"
| "kind_value WORKER_TIMEOUT = ''worker_timeout''"
| "kind_value WORKER_CRASH = ''worker_crash''"
| "kind_value WORKER_BOOTSTRAP_FAILURE = ''worker_bootstrap_failure''"

definition kind_members :: "failure_kind list" where
  "kind_members = [AGENT_RUNTIME, PROVIDER_TRANSPORT, PROVIDER_EMPTY_RESPONSE,
     PROVIDER_TERMINAL_MISSING, PROVIDER_POLICY_REJECTED, TEST_FAILURE, SANDBOX_TIMEOUT,
     SANDBOX_SETUP, TEST_EVIDENCE_MISSING, IMPLEMENTATION_SUMMARY_MISSING, REPAIR_NO_FILE_CHANGE,
     CODE_DELIVERY_INCOMPLETE, RUNTIME_PREFLIGHT, ARCHITECTURE_CONTRACT_MISSING,
     ARCHITECTURE_SCHEMA_VALIDATION, TOOL_CONTRACT_MISMATCH, ARTIFACT_CONTRACT_VIOLATION,
     ARTIFACT_COMMIT_FAILURE, TOOL_EXECUTION, PLANNER_VALIDATION, PROVIDER_STALL, WORKER_TIMEOUT,
     WORKER_CRASH, WORKER_BOOTSTRAP_FAILURE]"

definition kind_of :: "string \<Rightarrow> failure_kind result" where
  "kind_of = enum_of ''FailureKind'' kind_value kind_members"

lemma kind_of_value [simp]: "kind_of (kind_value k) = Inr k"
  unfolding kind_of_def
proof (rule enum_of_value)
  show "distinct (map kind_value kind_members)" by code_simp
  show "k \<in> set kind_members" by (cases k) (simp_all add: kind_members_def)
qed

datatype recovery_action =
    RETRY_ITEM
  | RETRY_BATCH
  | RESUME
  | REQUEST_REPLAN
  | BLOCK
  | FAIL

fun action_value :: "recovery_action \<Rightarrow> string" where
  "action_value RETRY_ITEM = ''retry_item''"
| "action_value RETRY_BATCH = ''retry_batch''"
| "action_value RESUME = ''resume''"
| "action_value REQUEST_REPLAN = ''request_replan''"
| "action_value BLOCK = ''block''"
| "action_value FAIL = ''fail''"

definition action_members :: "recovery_action list" where
  "action_members = [RETRY_ITEM, RETRY_BATCH, RESUME, REQUEST_REPLAN, BLOCK, FAIL]"

definition action_of :: "string \<Rightarrow> recovery_action result" where
  "action_of = enum_of ''RecoveryAction'' action_value action_members"

lemma action_of_value [simp]: "action_of (action_value k) = Inr k"
  unfolding action_of_def by (rule enum_of_value; cases k) (simp_all add: action_members_def)

datatype retry_scope =
    PLANNING
  | RUN
  | BATCH
  | WORK_ITEM

fun scope_value :: "retry_scope \<Rightarrow> string" where
  "scope_value PLANNING = ''planning''"
| "scope_value RUN = ''run''"
| "scope_value BATCH = ''batch''"
| "scope_value WORK_ITEM = ''work_item''"

definition scope_members :: "retry_scope list" where
  "scope_members = [PLANNING, RUN, BATCH, WORK_ITEM]"

definition scope_of :: "string \<Rightarrow> retry_scope result" where
  "scope_of = enum_of ''RetryScope'' scope_value scope_members"

lemma scope_of_value [simp]: "scope_of (scope_value k) = Inr k"
  unfolding scope_of_def by (rule enum_of_value; cases k) (simp_all add: scope_members_def)

section \<open>Failure signals\<close>

record failure_signal =
  fs_kind :: failure_kind
  fs_summary :: string
  fs_evidence_id :: "string option"
  fs_validator :: "string option"
  fs_field_path :: "string option"
  fs_code :: "string option"
  fs_input_digest :: "string option"
  fs_artifact_digest :: "string option"
  fs_retry_hint :: "string option"
  fs_retryable :: bool
  fs_scope :: string
  fs_requires_control_plane :: bool
  fs_related_work_item_ids :: "string list"
  fs_related_artifact_refs :: "string list"

text \<open>\<open>FailureSignal(kind=..., summary=...)\<close>: the other fields have their defaults.\<close>

definition plain_signal :: "failure_kind \<Rightarrow> string \<Rightarrow> failure_signal" where
  "plain_signal k s = \<lparr>fs_kind = k, fs_summary = s, fs_evidence_id = None, fs_validator = None,
     fs_field_path = None, fs_code = None, fs_input_digest = None, fs_artifact_digest = None,
     fs_retry_hint = None, fs_retryable = True, fs_scope = ''current_work_item'',
     fs_requires_control_plane = False, fs_related_work_item_ids = [],
     fs_related_artifact_refs = []\<rparr>"

text \<open>\<open>value or ''''\<close>\<close>

definition or_empty :: "string option \<Rightarrow> string" where
  "or_empty v = (case v of None \<Rightarrow> [] | Some s \<Rightarrow> s)"

definition failure_fingerprint :: "(string \<Rightarrow> string) \<Rightarrow> failure_signal \<Rightarrow> string" where
  "failure_fingerprint sha s =
     (let normalized = take 500 (squeeze_spaces (py_lower (py_strip (fs_summary s))));
          raw = join ''|'' [kind_value (fs_kind s), or_empty (fs_validator s),
                  or_empty (fs_field_path s), or_empty (fs_code s), normalized]
      in take 20 (sha raw))"

definition signal_as_dict :: "(string \<Rightarrow> string) \<Rightarrow> failure_signal \<Rightarrow> json" where
  "signal_as_dict sha s = JObj
    [(''kind'', JStr (kind_value (fs_kind s))),
     (''summary'', JStr (fs_summary s)),
     (''evidence_id'', jopt (fs_evidence_id s)),
     (''validator'', jopt (fs_validator s)),
     (''field_path'', jopt (fs_field_path s)),
     (''code'', jopt (fs_code s)),
     (''input_digest'', jopt (fs_input_digest s)),
     (''artifact_digest'', jopt (fs_artifact_digest s)),
     (''retry_hint'', jopt (fs_retry_hint s)),
     (''retryable'', JBool (fs_retryable s)),
     (''scope'', JStr (fs_scope s)),
     (''requires_control_plane'', JBool (fs_requires_control_plane s)),
     (''related_work_item_ids'', jstrs (fs_related_work_item_ids s)),
     (''related_artifact_refs'', jstrs (fs_related_artifact_refs s)),
     (''failure_fingerprint'', JStr (failure_fingerprint sha s))]"

definition signal_from_dict :: "json \<Rightarrow> failure_signal result" where
  "signal_from_dict j =
     bindE (bindE (str_field j ''kind'') kind_of) (\<lambda>kind.
     bindE (str_field j ''summary'') (\<lambda>summary.
     bindE (str_list_field j ''related_work_item_ids'') (\<lambda>items.
     bindE (str_list_field j ''related_artifact_refs'') (\<lambda>refs.
     Inr \<lparr>fs_kind = kind, fs_summary = summary,
       fs_evidence_id = opt_str_field j ''evidence_id'',
       fs_validator = opt_str_field j ''validator'',
       fs_field_path = opt_str_field j ''field_path'',
       fs_code = opt_str_field j ''code'',
       fs_input_digest = opt_str_field j ''input_digest'',
       fs_artifact_digest = opt_str_field j ''artifact_digest'',
       fs_retry_hint = opt_str_field j ''retry_hint'',
       fs_retryable = (json_get j ''retryable'' \<noteq> Some (JBool False)),
       fs_scope = (case json_get j ''scope'' of None \<Rightarrow> ''current_work_item'' | Some v \<Rightarrow> py_str v),
       fs_requires_control_plane = (json_get j ''requires_control_plane'' = Some (JBool True)),
       fs_related_work_item_ids = items,
       fs_related_artifact_refs = refs\<rparr>))))"

lemma signal_from_as_dict [simp]: "signal_from_dict (signal_as_dict sha s) = Inr s"
  by (simp add: signal_from_dict_def signal_as_dict_def str_field_def str_list_field_def
      opt_str_field_def jopt_def split: option.splits)

lemma is_obj_signal [simp]: "is_obj (signal_as_dict sha s)"
  by (simp add: signal_as_dict_def)

section \<open>Failure packages\<close>

record failure_package =
  fp_signal :: failure_signal
  fp_check_id :: "string option"
  fp_runtime_profile :: "string option"
  fp_exit_code :: "int option"
  fp_stdout_excerpt :: string
  fp_stderr_excerpt :: string
  fp_repair_paths :: "string list"
  fp_forbidden_rework :: "string list"
  fp_unsatisfied_constraints :: "string list"
  fp_satisfied_constraints :: "string list"
  fp_repair_scope :: "string list"
  fp_owner_files :: "string list"

definition package_as_task_data :: "(string \<Rightarrow> string) \<Rightarrow> failure_package \<Rightarrow> json" where
  "package_as_task_data sha p = JObj
    [(''signal'', signal_as_dict sha (fp_signal p)),
     (''check_id'', jopt (fp_check_id p)),
     (''runtime_profile'', jopt (fp_runtime_profile p)),
     (''exit_code'', (case fp_exit_code p of None \<Rightarrow> JNull | Some c \<Rightarrow> JInt c)),
     (''repair_paths'', jstrs (fp_repair_paths p)),
     (''owner_files'', jstrs (fp_owner_files p)),
     (''forbidden_rework'', jstrs (fp_forbidden_rework p)),
     (''repair_scope'', jstrs (fp_repair_scope p)),
     (''unsatisfied_constraints'', jstrs (fp_unsatisfied_constraints p)),
     (''satisfied_constraints'', jstrs (fp_satisfied_constraints p)),
     (''diagnostics'', JObj
       [(''stdout_excerpt'', JStr (fp_stdout_excerpt p)),
        (''stderr_excerpt'', JStr (fp_stderr_excerpt p))])]"

definition package_as_planner_data :: "(string \<Rightarrow> string) \<Rightarrow> failure_package \<Rightarrow> json" where
  "package_as_planner_data sha p = (let s = fp_signal p in JObj
    [(''kind'', JStr (kind_value (fs_kind s))),
     (''summary'', JStr (fs_summary s)),
     (''evidence_id'', jopt (fs_evidence_id s)),
     (''validator'', jopt (fs_validator s)),
     (''field_path'', jopt (fs_field_path s)),
     (''code'', jopt (fs_code s)),
     (''input_digest'', jopt (fs_input_digest s)),
     (''artifact_digest'', jopt (fs_artifact_digest s)),
     (''retry_hint'', jopt (fs_retry_hint s)),
     (''failure_fingerprint'', JStr (failure_fingerprint sha s)),
     (''check_id'', jopt (fp_check_id p)),
     (''runtime_profile'', jopt (fp_runtime_profile p)),
     (''exit_code'', (case fp_exit_code p of None \<Rightarrow> JNull | Some c \<Rightarrow> JInt c)),
     (''repair_paths'', jstrs (fp_repair_paths p)),
     (''forbidden_rework'', jstrs (fp_forbidden_rework p)),
     (''unsatisfied_constraints'', jstrs (fp_unsatisfied_constraints p)),
     (''satisfied_constraints'', jstrs (fp_satisfied_constraints p)),
     (''repair_scope'', jstrs (fp_repair_scope p)),
     (''owner_files'', jstrs (fp_owner_files p))])"

section \<open>Retry records\<close>

record retry_record =
  rr_scope :: retry_scope
  rr_subject_id :: string
  rr_attempt :: int
  rr_max_attempts :: int
  rr_action :: recovery_action
  rr_failure :: failure_signal
  rr_root :: "string option"
  rr_interrupted :: "string list"
  rr_created_at :: string

text \<open>\<open>RetryRecord.__post_init__\<close>\<close>

definition mk_retry_record :: "retry_record \<Rightarrow> retry_record result" where
  "mk_retry_record r =
     bindE (raises
       [(blank (rr_subject_id r), ValueError ''subject_id''),
        (rr_attempt r < 1 \<or> rr_max_attempts r < 1, ValueError ''attempt''),
        (blank_some (rr_root r), ValueError ''root_work_item_id''),
        (list_ex blank (rr_interrupted r), ValueError ''interrupted_work_item_ids''),
        (\<not> distinct (rr_interrupted r), ValueError ''interrupted_work_item_ids''),
        (case rr_root r of None \<Rightarrow> False | Some root \<Rightarrow> root \<in> set (rr_interrupted r),
          ValueError ''root is interrupted'')]) (\<lambda>_. Inr r)"

definition record_as_dict :: "(string \<Rightarrow> string) \<Rightarrow> retry_record \<Rightarrow> json" where
  "record_as_dict sha r = JObj
    [(''scope'', JStr (scope_value (rr_scope r))),
     (''subject_id'', JStr (rr_subject_id r)),
     (''attempt'', JInt (rr_attempt r)),
     (''max_attempts'', JInt (rr_max_attempts r)),
     (''action'', JStr (action_value (rr_action r))),
     (''failure'', signal_as_dict sha (rr_failure r)),
     (''root_work_item_id'', jopt (rr_root r)),
     (''interrupted_work_item_ids'', jstrs (rr_interrupted r)),
     (''created_at'', JStr (rr_created_at r))]"

definition record_from_dict :: "json \<Rightarrow> retry_record result" where
  "record_from_dict j =
     (let failure = json_get_null j ''failure'';
          interrupted = (case json_get j ''interrupted_work_item_ids'' of None \<Rightarrow> JList [] | Some v \<Rightarrow> v)
      in if \<not> is_obj failure \<or> \<not> is_list interrupted then Inl (ValueError ''retry ledger record'')
         else
           bindE (bindE (str_field j ''scope'') scope_of) (\<lambda>scope.
           bindE (str_field j ''subject_id'') (\<lambda>subject.
           bindE (bindE (json_index j ''attempt'') py_int) (\<lambda>attempt.
           bindE (bindE (json_index j ''max_attempts'') py_int) (\<lambda>max_attempts.
           bindE (bindE (str_field j ''action'') action_of) (\<lambda>action.
           bindE (signal_from_dict failure) (\<lambda>sig.
           bindE (str_list_of interrupted) (\<lambda>ids.
           bindE (str_field j ''created_at'') (\<lambda>created.
           mk_retry_record \<lparr>rr_scope = scope, rr_subject_id = subject, rr_attempt = attempt,
             rr_max_attempts = max_attempts, rr_action = action, rr_failure = sig,
             rr_root = opt_str_field j ''root_work_item_id'', rr_interrupted = ids,
             rr_created_at = created\<rparr>)))))))))"

lemma mk_retry_record_same: "mk_retry_record r = Inr q \<Longrightarrow> q = r"
  by (auto simp: mk_retry_record_def)

lemma is_list_jstrs [simp]: "is_list (jstrs xs)"
  by (simp add: jstrs_def)

lemma record_from_as_dict:
  "mk_retry_record r = Inr r \<Longrightarrow> record_from_dict (record_as_dict sha r) = Inr r"
  by (cases r) (simp add: record_from_dict_def record_as_dict_def str_field_def json_get_null_def
      opt_str_field_jopt)

section \<open>The policy\<close>

record retry_limits =
  max_total_retries :: int
  max_retries_per_work_item :: int
  max_retries_by_kind :: "(failure_kind \<times> int) list"

definition default_limits :: retry_limits where
  "default_limits = \<lparr>max_total_retries = 12, max_retries_per_work_item = 2,
     max_retries_by_kind =
      [(AGENT_RUNTIME, 1), (PROVIDER_TRANSPORT, 1), (PROVIDER_EMPTY_RESPONSE, 1),
       (PROVIDER_TERMINAL_MISSING, 1), (SANDBOX_TIMEOUT, 1), (TEST_FAILURE, 0),
       (SANDBOX_SETUP, 0), (TEST_EVIDENCE_MISSING, 1), (IMPLEMENTATION_SUMMARY_MISSING, 1),
       (REPAIR_NO_FILE_CHANGE, 1), (RUNTIME_PREFLIGHT, 0), (ARCHITECTURE_CONTRACT_MISSING, 2),
       (ARCHITECTURE_SCHEMA_VALIDATION, 1), (TOOL_CONTRACT_MISMATCH, 0),
       (ARTIFACT_CONTRACT_VIOLATION, 1), (ARTIFACT_COMMIT_FAILURE, 0),
       (CODE_DELIVERY_INCOMPLETE, 2), (TOOL_EXECUTION, 1), (PLANNER_VALIDATION, 1),
       (PROVIDER_STALL, 1), (WORKER_TIMEOUT, 1), (WORKER_CRASH, 1),
       (WORKER_BOOTSTRAP_FAILURE, 0)]\<rparr>"

text \<open>\<open>dict(pairs).get(kind, 0)\<close>: the last pair of a key wins.\<close>

definition max_retries_for :: "retry_limits \<Rightarrow> failure_kind \<Rightarrow> int" where
  "max_retries_for l k =
     (case map_of (rev (max_retries_by_kind l)) k of None \<Rightarrow> 0 | Some n \<Rightarrow> n)"

definition max_attempts_for :: "retry_limits \<Rightarrow> failure_kind \<Rightarrow> int" where
  "max_attempts_for l k = max_retries_for l k + 1"

definition max_work_item_attempts :: "retry_limits \<Rightarrow> int" where
  "max_work_item_attempts l = max_retries_per_work_item l + 1"

definition action_for ::
  "retry_limits \<Rightarrow> failure_signal \<Rightarrow> int \<Rightarrow> int \<Rightarrow> int \<Rightarrow> recovery_action" where
  "action_for l s total_retries item_retries kind_retries =
     (if \<not> fs_retryable s then BLOCK
      else if fs_kind s \<in> {SANDBOX_SETUP, WORKER_BOOTSTRAP_FAILURE, TOOL_CONTRACT_MISMATCH,
                            ARTIFACT_COMMIT_FAILURE} then BLOCK
      else if fs_kind s = TEST_FAILURE then REQUEST_REPLAN
      else if total_retries \<ge> max_total_retries l
           \<or> item_retries \<ge> max_retries_per_work_item l
           \<or> kind_retries \<ge> max_retries_for l (fs_kind s) then FAIL
      else if fs_kind s \<in> {PROVIDER_STALL, WORKER_TIMEOUT, WORKER_CRASH} then RESUME
      else if fs_kind s = SANDBOX_TIMEOUT then RETRY_ITEM
      else if fs_kind s = TEST_EVIDENCE_MISSING then RETRY_ITEM
      else if fs_kind s = IMPLEMENTATION_SUMMARY_MISSING then RETRY_ITEM
      else if fs_kind s = REPAIR_NO_FILE_CHANGE then RETRY_ITEM
      else if fs_kind s = AGENT_RUNTIME then RETRY_ITEM
      else if fs_kind s \<in> {PROVIDER_TRANSPORT, PROVIDER_EMPTY_RESPONSE, PROVIDER_TERMINAL_MISSING}
      then RETRY_ITEM
      else if fs_kind s = ARCHITECTURE_CONTRACT_MISSING then RETRY_ITEM
      else if fs_kind s = ARCHITECTURE_SCHEMA_VALIDATION then RETRY_ITEM
      else if fs_kind s = ARTIFACT_CONTRACT_VIOLATION then RETRY_ITEM
      else if fs_kind s = CODE_DELIVERY_INCOMPLETE then RETRY_ITEM
      else if fs_kind s = PLANNER_VALIDATION then RETRY_ITEM
      else FAIL)"

definition is_budget_action :: "recovery_action \<Rightarrow> bool" where
  "is_budget_action a \<longleftrightarrow> a \<in> {RETRY_ITEM, RETRY_BATCH, RESUME}"

datatype sandbox_status = SB_PASSED | SB_FAILED | SB_TIMED_OUT | SB_SETUP_FAILED

fun sandbox_status_value :: "sandbox_status \<Rightarrow> string" where
  "sandbox_status_value SB_PASSED = ''passed''"
| "sandbox_status_value SB_FAILED = ''failed''"
| "sandbox_status_value SB_TIMED_OUT = ''timed_out''"
| "sandbox_status_value SB_SETUP_FAILED = ''setup_failed''"

text \<open>An absent or empty message is replaced by a sentence around the status.\<close>

definition sandbox_failure_signal ::
  "sandbox_status \<Rightarrow> string \<Rightarrow> string option \<Rightarrow> failure_signal option" where
  "sandbox_failure_signal status evidence message =
     (if status = SB_PASSED then None
      else (let kind = (case status of SB_FAILED \<Rightarrow> TEST_FAILURE
                        | SB_TIMED_OUT \<Rightarrow> SANDBOX_TIMEOUT | _ \<Rightarrow> SANDBOX_SETUP)
            in Some ((plain_signal kind (if or_empty message = []
                         then ''sandbox check: '' @ sandbox_status_value status else or_empty message))
                     \<lparr>fs_evidence_id := Some evidence\<rparr>)))"

section \<open>The ledger of a trace\<close>

text \<open>
  The file \<^verbatim>\<open>retry-ledger.json\<close>. Every operation holds the file lock from its read to
  its write, so each is one step on the file.
\<close>

definition ledger_read :: "string \<Rightarrow> json_file \<Rightarrow> retry_record list result" where
  "ledger_read trace file = (case file of
      NoFile \<Rightarrow> Inr []
    | NotJson \<Rightarrow> Inl (ValueError ''retry ledger unreadable'')
    | JsonFile j \<Rightarrow>
        if \<not> is_obj j \<or> \<not> json_eq_int (json_get j ''schema_version'') 1
          \<or> json_get j ''trace_id'' \<noteq> Some (JStr trace)
          \<or> \<not> is_list (json_get_null j ''records'')
        then Inl (ValueError ''retry ledger metadata'')
        else (case json_get_null j ''records'' of
            JList raws \<Rightarrow> mapE record_from_dict (filter is_obj raws)
          | _ \<Rightarrow> Inr []))"

definition ledger_write :: "(string \<Rightarrow> string) \<Rightarrow> string \<Rightarrow> retry_record list \<Rightarrow> json_file" where
  "ledger_write sha trace rs = JsonFile (JObj
     [(''schema_version'', JInt 1),
      (''trace_id'', JStr trace),
      (''records'', JList (map (record_as_dict sha) rs))])"

definition ledger_append ::
  "(string \<Rightarrow> string) \<Rightarrow> string \<Rightarrow> retry_record \<Rightarrow> json_file \<Rightarrow> json_file result" where
  "ledger_append sha trace r file =
     bindE (ledger_read trace file) (\<lambda>rs. Inr (ledger_write sha trace (rs @ [r])))"

text \<open>The queries, on the records a read returns.\<close>

definition count_if :: "('a \<Rightarrow> bool) \<Rightarrow> 'a list \<Rightarrow> int" where
  "count_if P xs = int (length (filter P xs))"

definition concerns :: "string \<Rightarrow> retry_record \<Rightarrow> bool" where
  "concerns item r \<longleftrightarrow> rr_subject_id r = item \<or> rr_root r = Some item"

definition budget_count :: "retry_record list \<Rightarrow> int" where
  "budget_count rs = count_if (\<lambda>r. is_budget_action (rr_action r)) rs"

definition budget_count_for_work_item :: "string \<Rightarrow> retry_record list \<Rightarrow> int" where
  "budget_count_for_work_item item rs =
     count_if (\<lambda>r. is_budget_action (rr_action r) \<and> concerns item r) rs"

definition budget_count_for_kind :: "string \<Rightarrow> failure_kind \<Rightarrow> retry_record list \<Rightarrow> int" where
  "budget_count_for_kind item k rs =
     count_if (\<lambda>r. is_budget_action (rr_action r) \<and> fs_kind (rr_failure r) = k \<and> concerns item r) rs"

definition next_attempt :: "retry_scope \<Rightarrow> string \<Rightarrow> retry_record list \<Rightarrow> int" where
  "next_attempt scope subject rs =
     1 + count_if (\<lambda>r. rr_scope r = scope \<and> rr_subject_id r = subject) rs"

definition same_failure :: "(string \<Rightarrow> string) \<Rightarrow> failure_signal \<Rightarrow> failure_signal \<Rightarrow> bool" where
  "same_failure sha prior s \<longleftrightarrow>
     failure_fingerprint sha prior = failure_fingerprint sha s
     \<and> fs_input_digest prior = fs_input_digest s \<and> fs_evidence_id prior = fs_evidence_id s"

fun has_same_failure_without_new_evidence ::
  "(string \<Rightarrow> string) \<Rightarrow> string \<Rightarrow> failure_signal \<Rightarrow> retry_record list \<Rightarrow> bool" where
  "has_same_failure_without_new_evidence sha item s [] = False"
| "has_same_failure_without_new_evidence sha item s (r # newest_first) =
     (if \<not> concerns item r then has_same_failure_without_new_evidence sha item s newest_first
      else if same_failure sha (rr_failure r) s then True
      else has_same_failure_without_new_evidence sha item s newest_first)"

definition recovery_records :: "retry_record list \<Rightarrow> retry_record list" where
  "recovery_records rs = filter (\<lambda>r. rr_action r \<in> {RESUME, RETRY_BATCH}) rs"

definition latest_for_work_item :: "string \<Rightarrow> retry_record list \<Rightarrow> retry_record option" where
  "latest_for_work_item item rs =
     List.find (\<lambda>r. concerns item r \<or> item \<in> set (rr_interrupted r)) (rev rs)"

lemma has_same_failure_iff:
  "has_same_failure_without_new_evidence sha item s rs \<longleftrightarrow>
     (\<exists>r \<in> set rs. concerns item r \<and> same_failure sha (rr_failure r) s)"
  by (induction rs) auto

lemma count_if_append [simp]: "count_if P (xs @ ys) = count_if P xs + count_if P ys"
  by (simp add: count_if_def)

lemma count_if_simps [simp]:
  "count_if P [] = 0" "count_if P (x # xs) = (if P x then 1 else 0) + count_if P xs"
  by (simp_all add: count_if_def)

lemma count_if_nonneg [simp]: "0 \<le> count_if P xs"
  by (simp add: count_if_def)

lemma count_if_mono: "(\<And>x. P x \<Longrightarrow> Q x) \<Longrightarrow> count_if P xs \<le> count_if Q xs"
  by (induction xs) auto

section \<open>The interface of a durable log\<close>

text \<open>
  What the runner relies on: a valid record that is appended is read back after the
  records that were there. The laws say nothing of the representation.
\<close>

locale durable_log =
  fixes read_log :: "'s \<Rightarrow> 'e + 'r list"
    and append_log :: "'r \<Rightarrow> 's \<Rightarrow> 'e + 's"
    and valid :: "'r \<Rightarrow> bool"
  assumes append_reads: "read_log s = Inr rs \<Longrightarrow> list_all valid rs \<Longrightarrow> valid r \<Longrightarrow>
      \<exists>t. append_log r s = Inr t \<and> read_log t = Inr (rs @ [r])"
    and append_error: "read_log s = Inl e \<Longrightarrow> append_log r s = Inl e"
begin

text \<open>Appending a list of records, the way successive writers do.\<close>

lemma append_all:
  "read_log s = Inr rs \<Longrightarrow> list_all valid rs \<Longrightarrow> list_all valid qs \<Longrightarrow>
     \<exists>t. foldE append_log qs s = Inr t \<and> read_log t = Inr (rs @ qs)"
proof (induction qs arbitrary: s rs)
  case (Cons q qs)
  then obtain u where u: "append_log q s = Inr u" "read_log u = Inr (rs @ [q])"
    using append_reads [of s rs q] by auto
  with Cons.IH [of u "rs @ [q]"] Cons.prems show ?case by auto
qed simp

lemma append_keeps: "read_log s = Inr rs \<Longrightarrow> list_all valid rs \<Longrightarrow> valid r \<Longrightarrow> append_log r s = Inr t
    \<Longrightarrow> read_log t = Inr (rs @ [r])"
  using append_reads by fastforce

lemma append_count:
  "read_log s = Inr rs \<Longrightarrow> list_all valid rs \<Longrightarrow> valid r \<Longrightarrow> append_log r s = Inr t
    \<Longrightarrow> \<exists>rs'. read_log t = Inr rs' \<and> count_if P rs' = count_if P rs + (if P r then 1 else 0)"
  using append_keeps by fastforce

end

definition record_valid :: "retry_record \<Rightarrow> bool" where
  "record_valid r \<longleftrightarrow> mk_retry_record r = Inr r"

lemma record_from_dict_valid: "record_from_dict j = Inr r \<Longrightarrow> record_valid r"
  by (auto simp: record_from_dict_def record_valid_def Let_def mk_retry_record_def split: if_splits)

lemma ledger_read_valid: "ledger_read trace file = Inr rs \<Longrightarrow> list_all record_valid rs"
  by (auto simp: ledger_read_def list_all_iff record_from_dict_valid
      split: json_file.splits if_splits json.splits dest!: mapE_set)

lemma is_obj_record [simp]: "is_obj (record_as_dict sha r)"
  by (simp add: record_as_dict_def)

lemma ledger_read_write:
  assumes "list_all record_valid rs"
  shows "ledger_read trace (ledger_write sha trace rs) = Inr rs"
proof -
  have "mapE record_from_dict (map (record_as_dict sha) rs) = Inr (map (\<lambda>r. r) rs)"
    by (rule mapE_map) (use assms in \<open>auto simp: list_all_iff record_valid_def record_from_as_dict\<close>)
  then show ?thesis
    by (simp add: ledger_read_def ledger_write_def json_get_null_def json_eq_int_def filter_map comp_def)
qed

interpretation ledger: durable_log "ledger_read trace" "ledger_append sha trace" record_valid
  for sha trace
proof unfold_locales
  fix s rs r
  assume "ledger_read trace s = Inr rs" "list_all record_valid rs" "record_valid r"
  then show "\<exists>t. ledger_append sha trace r s = Inr t \<and> ledger_read trace t = Inr (rs @ [r])"
    by (simp add: ledger_append_def ledger_read_write)
qed (simp add: ledger_append_def)

section \<open>Properties\<close>

text \<open>C25. The ledger is append only and lossless: writing any sequence of well-formed records to
  a readable ledger succeeds, and a later read (by another process, after a restart) returns
  the earlier records unchanged, followed by the new ones in order.\<close>

theorem ledger_append_only:
  assumes "ledger_read trace file = Inr old" and "list_all record_valid new"
  shows "\<exists>file'. foldE (ledger_append sha trace) new file = Inr file'
    \<and> ledger_read trace file' = Inr (old @ new)"
  by (rule ledger.append_all [OF assms(1) ledger_read_valid [OF assms(1)] assms(2)])

definition demo_record :: retry_record where
  "demo_record = \<lparr>rr_scope = WORK_ITEM, rr_subject_id = ''wi-1'', rr_attempt = 1, rr_max_attempts = 2,
     rr_action = RETRY_ITEM, rr_failure = plain_signal AGENT_RUNTIME ''boom'',
     rr_root = None, rr_interrupted = [], rr_created_at = ''t''\<rparr>"

lemma demo_record_valid: "record_valid demo_record"
  by code_simp

theorem ledger_append_only_witness:
  "\<exists>file'. foldE (ledger_append (\<lambda>s. s) ''tr-1'') [demo_record, demo_record] NoFile = Inr file'
    \<and> ledger_read ''tr-1'' file' = Inr ([] @ [demo_record, demo_record])"
  by (rule ledger_append_only) (simp_all add: ledger_read_def demo_record_valid)

text \<open>The policy spends a retry only within every budget: an answer that lets the work item run
  again (now or by resuming from the checkpoint) is given only to a retryable signal whose
  three counts are strictly below the limits of the run, of the work item and of the
  failure kind, and never to a failure of the control plane or a failed test.\<close>

theorem action_for_within_limits:
  "is_budget_action (action_for l s n m k) \<Longrightarrow>
     fs_retryable s \<and> n < max_total_retries l \<and> m < max_retries_per_work_item l
     \<and> k < max_retries_for l (fs_kind s)
     \<and> fs_kind s \<notin> {SANDBOX_SETUP, WORKER_BOOTSTRAP_FAILURE, TOOL_CONTRACT_MISMATCH,
                      ARTIFACT_COMMIT_FAILURE, TEST_FAILURE}"
  by (auto simp: action_for_def is_budget_action_def split: if_splits)

theorem action_for_within_limits_witness:
  "let s = plain_signal CODE_DELIVERY_INCOMPLETE ''no change set'' in
   fs_retryable s \<and> 3 < max_total_retries default_limits \<and> 1 < max_retries_per_work_item default_limits
     \<and> 1 < max_retries_for default_limits (fs_kind s)
     \<and> fs_kind s \<notin> {SANDBOX_SETUP, WORKER_BOOTSTRAP_FAILURE, TOOL_CONTRACT_MISMATCH,
                      ARTIFACT_COMMIT_FAILURE, TEST_FAILURE}"
proof -
  have "is_budget_action (action_for default_limits
      (plain_signal CODE_DELIVERY_INCOMPLETE ''no change set'') 3 1 1)" by code_simp
  then show ?thesis unfolding Let_def by (rule action_for_within_limits)
qed

lemma max_retries_for_default_bounds:
  "0 \<le> max_retries_for default_limits k \<and> max_retries_for default_limits k \<le> 2"
  by (cases k) (simp_all add: max_retries_for_def default_limits_def)

end
