(* ===== verification/Work_Item.thy ===== *)
theory Work_Item
  imports Delivery_Registry Retry Artifacts
begin

text \<open>
  \<^verbatim>\<open>app/orchestration/work_item.py\<close>: the work item, the checks its constructor runs, the
  digest that seals its execution contract, and the check that a repair does not widen
  its file system authority. \<open>mk_work_item\<close> is the constructor (\<open>__post_init__\<close>): it takes the
  given fields and returns the completed item or the exception.
\<close>

section \<open>Path patterns\<close>

definition has_glob :: "string \<Rightarrow> bool" where
  "has_glob p \<longleftrightarrow> list_ex (\<lambda>c. c = CHR ''*'' \<or> c = CHR ''?'' \<or> c = CHR ''['' \<or> c = CHR '']'') p"

definition unix_slashes :: "string \<Rightarrow> string" where
  "unix_slashes s = replace_char (CHR 0x5C) (CHR ''/'') s"

definition normalize_path_pattern :: "string \<Rightarrow> string" where
  "normalize_path_pattern v =
     (let raw = lstrip_of (CHR ''/'') (removeprefix ''workspace/'' (unix_slashes v));
          directory = suffix ''/'' raw;
          normalized = rstrip_of (CHR ''/'') raw;
          normalized = (if directory \<and> normalized \<noteq> [] then normalized @ ''/**'' else normalized)
      in if normalized \<noteq> [] \<and> suffix ''/**/**'' normalized
         then take (length normalized - 3) normalized else normalized)"

text \<open>Splitting at each glob character in turn and keeping the first part.\<close>

definition literal_prefix :: "string \<Rightarrow> string" where
  "literal_prefix p = rstrip_of (CHR ''/'')
     (foldl (\<lambda>q t. takeWhile (\<lambda>c. c \<noteq> t) q) p [CHR ''*'', CHR ''?'', CHR ''['', CHR '']''])"

text \<open>\<open>_pattern_matches\<close> and the gateway's \<open>_matches_any\<close> for one pattern.\<close>

definition pattern_matches :: "string \<Rightarrow> string \<Rightarrow> bool" where
  "pattern_matches pattern path =
     (let normalized = (if suffix ''/'' pattern then pattern @ ''**'' else pattern)
      in list_ex (\<lambda>candidate. fnmatch candidate normalized \<or> fnmatch candidate (squash_stars normalized))
           [path, ''workspace/'' @ path])"

definition forbidden_covers_allowed :: "string \<Rightarrow> string \<Rightarrow> bool" where
  "forbidden_covers_allowed allowed forbidden =
     (let left = normalize_path_pattern allowed; right = normalize_path_pattern forbidden
      in if left = [] \<or> right = [] then False
         else if \<not> has_glob left then pattern_matches right left
         else if left = right then True
         else
           let allowed_prefix = literal_prefix left
           in if allowed_prefix = [] then has_glob right \<and> (right = ''*'' \<or> right = ''**'')
              else if right = ''**'' then True
              else if \<not> suffix ''/**'' right then False
              else
                let forbidden_root = rstrip_of (CHR ''/'') (take (length right - 3) right)
                in if forbidden_root = [] then True
                   else allowed_prefix = forbidden_root \<or> prefix (forbidden_root @ ''/'') allowed_prefix)"

section \<open>Work items\<close>

datatype dependency_source = SYSTEM | TEMPLATE | PLANNER

fun source_value :: "dependency_source \<Rightarrow> string" where
  "source_value SYSTEM = ''system''"
| "source_value TEMPLATE = ''template''"
| "source_value PLANNER = ''planner''"

record dependency =
  dep_work_item_id :: string
  dep_source :: dependency_source
  dep_rule_id :: "string option"

definition mk_dependency :: "dependency \<Rightarrow> dependency result" where
  "mk_dependency d = bindE (raises
     [(blank (dep_work_item_id d), ValueError ''work_item_id''),
      (blank_some (dep_rule_id d), ValueError ''rule_id'')]) (\<lambda>_. Inr d)"

record work_item =
  wi_id :: string
  wi_agent_id :: string
  wi_objective :: string
  wi_output_key :: string
  wi_artifact_key :: "string option"
  wi_failure_package :: "failure_package option"
  wi_dependencies :: "dependency list"
  wi_acceptance_criteria :: "string list"
  wi_constraints :: "string list"
  wi_non_goals :: "string list"
  wi_execution_mode :: execution_mode
  wi_input_refs :: "artifact_ref list"
  wi_slot :: "string option"
  wi_publish_target :: "string option"
  wi_candidate_from :: "string option"
  wi_unit :: "string option"
  wi_allowed_paths :: "string list"
  wi_forbidden_paths :: "string list"
  wi_required_paths :: "string list"
  wi_policy_refs :: "string list"
  wi_skill_refs :: "string list"
  wi_requirement_ids :: "string list"
  wi_wave :: int
  wi_owned_files :: "string list"
  wi_delivery_contract :: json  \<comment> \<open>\<open>JNull\<close> is \<open>None\<close>\<close>
  wi_output_kind :: "string option"
  wi_stage_id :: "string option"
  wi_required_tools :: "string list"
  wi_contract_digest :: "string option"
  wi_legacy_digest :: bool

text \<open>\<open>WorkItem(id=..., agent_id=..., objective=..., output_key=...)\<close> before its checks.\<close>

definition blank_work_item :: "string \<Rightarrow> string \<Rightarrow> string \<Rightarrow> string \<Rightarrow> work_item" where
  "blank_work_item i agent objective output =
     \<lparr>wi_id = i, wi_agent_id = agent, wi_objective = objective, wi_output_key = output,
      wi_artifact_key = None, wi_failure_package = None, wi_dependencies = [],
      wi_acceptance_criteria = [], wi_constraints = [], wi_non_goals = [],
      wi_execution_mode = EXCLUSIVE, wi_input_refs = [], wi_slot = None, wi_publish_target = None,
      wi_candidate_from = None, wi_unit = None, wi_allowed_paths = [], wi_forbidden_paths = [],
      wi_required_paths = [], wi_policy_refs = [], wi_skill_refs = [], wi_requirement_ids = [],
      wi_wave = 0, wi_owned_files = [], wi_delivery_contract = JNull, wi_output_kind = None,
      wi_stage_id = None, wi_required_tools = [], wi_contract_digest = None, wi_legacy_digest = False\<rparr>"

definition wi_dependency_ids :: "work_item \<Rightarrow> string list" where
  "wi_dependency_ids w = map dep_work_item_id (wi_dependencies w)"

section \<open>The sealed contract\<close>

definition digest_payload :: "bool \<Rightarrow> work_item \<Rightarrow> json" where
  "digest_payload include_required_tools w = JObj
    ([(''agent_id'', JStr (wi_agent_id w)),
      (''execution_mode'', JStr (mode_value (wi_execution_mode w))),
      (''input_refs'', jstrs (map ref_id (wi_input_refs w))),
      (''dependencies'', JList (map (\<lambda>d. JObj
         [(''work_item_id'', JStr (dep_work_item_id d)),
          (''source'', JStr (source_value (dep_source d))),
          (''rule_id'', jopt (dep_rule_id d))]) (wi_dependencies w))),
      (''output_key'', JStr (wi_output_key w)),
      (''artifact_key'', jopt (wi_artifact_key w)),
      (''slot'', jopt (wi_slot w)),
      (''publish_target'', jopt (wi_publish_target w)),
      (''candidate_from_work_item_id'', jopt (wi_candidate_from w)),
      (''implementation_unit_id'', jopt (wi_unit w)),
      (''required_paths'', jstrs (wi_required_paths w)),
      (''owned_files'', jstrs (wi_owned_files w)),
      (''allowed_paths'', jstrs (wi_allowed_paths w)),
      (''forbidden_paths'', jstrs (wi_forbidden_paths w)),
      (''acceptance_criteria'', jstrs (wi_acceptance_criteria w)),
      (''constraints'', jstrs (wi_constraints w)),
      (''non_goals'', jstrs (wi_non_goals w)),
      (''policy_refs'', jstrs (wi_policy_refs w)),
      (''skill_refs'', jstrs (wi_skill_refs w)),
      (''requirement_ids'', jstrs (wi_requirement_ids w)),
      (''delivery_contract'', wi_delivery_contract w),
      (''output_kind'', jopt (wi_output_kind w))]
     @ (if include_required_tools then [(''required_tools'', jstrs (wi_required_tools w))] else [])
     @ (case wi_stage_id w of None \<Rightarrow> [] | Some s \<Rightarrow> [(''stage_id'', JStr s)]))"

definition compute_contract_digest :: "(string \<Rightarrow> string) \<Rightarrow> bool \<Rightarrow> work_item \<Rightarrow> string" where
  "compute_contract_digest sha include_required_tools w =
     sha (compact_dumps (digest_payload include_required_tools w))"

definition wi_contract :: "work_item \<Rightarrow> json" where
  "wi_contract w = JObj
    [(''contract_digest'', jopt (wi_contract_digest w)),
     (''agent_id'', JStr (wi_agent_id w)),
     (''stage_id'', jopt (wi_stage_id w)),
     (''execution_mode'', JStr (mode_value (wi_execution_mode w))),
     (''output_kind'', jopt (wi_output_kind w)),
     (''required_tools'', jstrs (wi_required_tools w)),
     (''input_refs'', jstrs (map ref_id (wi_input_refs w))),
     (''dependencies'', jstrs (wi_dependency_ids w)),
     (''allowed_paths'', jstrs (wi_allowed_paths w)),
     (''forbidden_paths'', jstrs (wi_forbidden_paths w)),
     (''required_paths'', jstrs (wi_required_paths w)),
     (''owned_files'', jstrs (wi_owned_files w))]"

section \<open>The checks of the constructor\<close>

definition check_names :: "work_item \<Rightarrow> err + unit" where
  "check_names w = raises
     [(blank (wi_id w), ValueError ''id''),
      (blank (wi_agent_id w), ValueError ''agent_id''),
      (blank (wi_objective w), ValueError ''objective''),
      (blank (wi_output_key w), ValueError ''output_key'')]"

definition with_artifact_key :: "work_item \<Rightarrow> work_item result" where
  "with_artifact_key w = (case wi_artifact_key w of
      None \<Rightarrow> Inr (w\<lparr>wi_artifact_key := Some (wi_output_key w)\<rparr>)
    | Some k \<Rightarrow> if blank k then Inl (ValueError ''artifact_key'') else Inr w)"

definition check_paths :: "work_item \<Rightarrow> err + unit" where
  "check_paths w = raises
     [(blank_some (wi_unit w), ValueError ''implementation_unit_id''),
      (blank_some (wi_stage_id w), ValueError ''stage_id''),
      (list_ex blank (wi_allowed_paths w), ValueError ''allowed_paths''),
      (list_ex blank (wi_forbidden_paths w), ValueError ''forbidden_paths''),
      (list_ex blank (wi_required_paths w), ValueError ''required_paths''),
      (list_ex blank (wi_policy_refs w), ValueError ''policy_refs''),
      (list_ex blank (wi_skill_refs w), ValueError ''skill_refs''),
      (list_ex blank (wi_requirement_ids w), ValueError ''requirement_ids''),
      (wi_allowed_paths w \<noteq> [] \<and> list_ex (\<lambda>p. p = ''*'' \<or> p = ''**'') (wi_forbidden_paths w),
        ValueError ''global forbidden path''),
      (list_ex (\<lambda>a. list_ex (forbidden_covers_allowed a) (wi_forbidden_paths w)) (wi_allowed_paths w),
        ValueError ''allowed path fully forbidden''),
      (list_ex (\<lambda>f. list_ex (\<lambda>p. fnmatch (lstrip_of (CHR ''/'') (unix_slashes f)) (squash_stars p))
          (wi_forbidden_paths w)) (wi_owned_files w), ValueError ''owned file forbidden''),
      (wi_wave w < 0, ValueError ''wave'')]"

text \<open>The single-file rule of the code agent; \<open>.get\<close> of a value that is no object raises.\<close>

definition check_code_agent :: "work_item \<Rightarrow> err + unit" where
  "check_code_agent w =
     (if wi_agent_id w = ''code_agent'' \<and> wi_execution_mode w = PARTITIONED
         \<and> wi_unit w \<noteq> None \<and> wi_unit w \<noteq> Some ''project-documents'' then
        (if truthy (wi_delivery_contract w) \<and> \<not> is_obj (wi_delivery_contract w)
         then Inl (AttributeError ''delivery_contract'')
         else if json_get (wi_delivery_contract w) ''compilation_strategy'' = Some (JStr ''semantic'')
         then Inr ()
         else (case wi_owned_files w of
             [f] \<Rightarrow> (let owned = py_strip (unix_slashes f) in
               if owned = [] \<or> suffix ''/'' owned \<or> has_glob owned
               then Inl (ValueError ''owned_files must be concrete'') else Inr ())
           | _ \<Rightarrow> Inl (ValueError ''exactly one owned file'')))
      else Inr ())"

definition check_tools :: "work_item \<Rightarrow> err + unit" where
  "check_tools w = raises
     [(wi_delivery_contract w \<noteq> JNull \<and> \<not> is_obj (wi_delivery_contract w), ValueError ''delivery_contract''),
      (list_ex blank (wi_required_tools w), ValueError ''required_tools''),
      (\<not> distinct (wi_required_tools w), ValueError ''required_tools'')]"

definition derived_tools :: "work_item \<Rightarrow> string list" where
  "derived_tools w = required_tools_for (wi_agent_id w) (wi_execution_mode w) (wi_slot w)
     (Some (wi_id w)) (wi_stage_id w) (wi_publish_target w)"

definition with_required_tools :: "work_item \<Rightarrow> work_item result" where
  "with_required_tools w =
     (if wi_required_tools w = [] \<and> derived_tools w \<noteq> []
      then Inr (w\<lparr>wi_required_tools := derived_tools w\<rparr>)
      else if derived_tools w \<noteq> [] \<and> wi_required_tools w \<noteq> derived_tools w
      then Inl (ValueError ''required_tools differ from the contract'')
      else Inr w)"

fun default_output_kind :: "execution_mode \<Rightarrow> string" where
  "default_output_kind PARTITIONED = ''partition_artifact''"
| "default_output_kind INTEGRATION = ''integrated_artifact''"
| "default_output_kind QUALITY_GATE = ''quality_report''"
| "default_output_kind EXCLUSIVE = ''exclusive_artifact''"

definition with_output_kind :: "work_item \<Rightarrow> work_item result" where
  "with_output_kind w = (case wi_output_kind w of
      None \<Rightarrow> Inr (w\<lparr>wi_output_kind := Some (default_output_kind (wi_execution_mode w))\<rparr>)
    | Some k \<Rightarrow> if blank k then Inl (ValueError ''output_kind'') else Inr w)"

definition check_dependencies :: "work_item \<Rightarrow> err + unit" where
  "check_dependencies w = raises
     [(\<not> distinct (wi_dependency_ids w), ValueError ''duplicate dependency''),
      (wi_id w \<in> set (wi_dependency_ids w), ValueError ''self dependency''),
      (list_ex blank (wi_acceptance_criteria w), ValueError ''acceptance_criteria''),
      (list_ex blank (wi_constraints w), ValueError ''constraints''),
      (list_ex blank (wi_non_goals w), ValueError ''non_goals'')]"

definition validate_execution_grant :: "work_item \<Rightarrow> err + unit" where
  "validate_execution_grant w = (case wi_execution_mode w of
      PARTITIONED \<Rightarrow> raises
        [(blank_opt (wi_slot w), ValueError ''PARTITIONED slot''),
         (wi_publish_target w \<noteq> None \<or> wi_candidate_from w \<noteq> None, ValueError ''PARTITIONED grant'')]
    | INTEGRATION \<Rightarrow> raises
        [(blank_opt (wi_publish_target w), ValueError ''INTEGRATION publish_target''),
         (wi_slot w \<noteq> None \<or> wi_candidate_from w \<noteq> None, ValueError ''INTEGRATION grant'')]
    | QUALITY_GATE \<Rightarrow> raises
        [(blank_opt (wi_publish_target w), ValueError ''QUALITY_GATE publish_target''),
         (blank_opt (wi_candidate_from w), ValueError ''QUALITY_GATE candidate''),
         (wi_slot w \<noteq> None, ValueError ''QUALITY_GATE slot'')]
    | EXCLUSIVE \<Rightarrow> raises
        [(wi_slot w \<noteq> None \<or> wi_publish_target w \<noteq> None \<or> wi_candidate_from w \<noteq> None,
           ValueError ''EXCLUSIVE grant'')])"

text \<open>A stored digest is accepted when it seals the item with or (older plans) without its tools.\<close>

definition with_contract_digest :: "(string \<Rightarrow> string) \<Rightarrow> work_item \<Rightarrow> work_item result" where
  "with_contract_digest sha w =
     (let computed = compute_contract_digest sha True w in
      case wi_contract_digest w of
        None \<Rightarrow> Inr (w\<lparr>wi_contract_digest := Some computed\<rparr>)
      | Some d \<Rightarrow>
          if d = computed then Inr w
          else if d = compute_contract_digest sha False w then Inr (w\<lparr>wi_legacy_digest := True\<rparr>)
          else Inl (ValueError ''contract_digest''))"

definition mk_work_item :: "(string \<Rightarrow> string) \<Rightarrow> work_item \<Rightarrow> work_item result" where
  "mk_work_item sha w0 =
     (let w = w0\<lparr>wi_legacy_digest := False\<rparr> in
      bindE (check_names w) (\<lambda>_.
      bindE (with_artifact_key w) (\<lambda>w.
      bindE (check_paths w) (\<lambda>_.
      bindE (check_code_agent w) (\<lambda>_.
      bindE (check_tools w) (\<lambda>_.
      bindE (with_required_tools w) (\<lambda>w.
      bindE (with_output_kind w) (\<lambda>w.
      bindE (check_dependencies w) (\<lambda>_.
      bindE (validate_execution_grant w) (\<lambda>_.
      with_contract_digest sha w))))))))))"

section \<open>Repairs\<close>

definition validate_scope_transition :: "work_item \<Rightarrow> work_item \<Rightarrow> err + unit" where
  "validate_scope_transition w revised =
     bindE (raises
       [(wi_agent_id w \<noteq> wi_agent_id revised \<or> wi_execution_mode w \<noteq> wi_execution_mode revised,
          ValueError ''agent or mode''),
        (wi_output_kind w \<noteq> wi_output_kind revised, ValueError ''output_kind''),
        (wi_owned_files w \<noteq> wi_owned_files revised, ValueError ''owned_files''),
        (\<not> set (wi_forbidden_paths w) \<subseteq> set (wi_forbidden_paths revised), ValueError ''forbidden_paths''),
        (wi_allowed_paths w = [] \<and> wi_allowed_paths revised \<noteq> []
           \<and> list_ex has_glob (wi_allowed_paths revised), ValueError ''wildcard allowed_paths'')]) (\<lambda>_.
     if wi_allowed_paths w = [] then Inr ()
     else for_each (\<lambda>p.
       if has_glob p then
         (if p \<notin> set (wi_allowed_paths w) then Inl (ValueError ''wildcard allowed_paths'') else Inr ())
       else if \<not> list_ex (\<lambda>pattern. fnmatch p (squash_stars pattern)) (wi_allowed_paths w)
       then Inl (ValueError ''path outside allowed_paths'') else Inr ()) (wi_allowed_paths revised))"

end
