(* ===== verification/Write_Guard.thy ===== *)
theory Write_Guard
  imports Work_Item
begin

text \<open>
  Where a work item may write, and which staged outputs it owns: the execution context
  the runner builds from an item (\<^verbatim>\<open>app/execution_context.py\<close>), the checks of
  \<open>write_staged_file\<close> (\<^verbatim>\<open>app/domain/code/git_service.py\<close>) on a normalised path, and the
  structural checks of \<open>DeliveryContractRegistry\<close> on the items of a plan.
\<close>

section \<open>The write guard\<close>

record execution_context =
  ec_trace_id :: string
  ec_work_item_id :: string
  ec_agent_id :: string
  ec_contract_digest :: "string option"
  ec_execution_mode :: execution_mode
  ec_input_refs :: "artifact_ref list"
  ec_input_digests :: "string list option"
  ec_slot :: "string option"
  ec_publish_target :: "string option"
  ec_allowed_paths :: "string list"
  ec_forbidden_paths :: "string list"
  ec_required_paths :: "string list"
  ec_unit :: "string option"
  ec_unit_count :: "int option"
  ec_owned_files :: "string list"
  ec_tool_allowlist :: "string list"

text \<open>\<open>not value\<close> for an optional string.\<close>

definition falsy_opt :: "string option \<Rightarrow> bool" where
  "falsy_opt v = (case v of None \<Rightarrow> True | Some s \<Rightarrow> s = [])"

definition mk_context :: "execution_context \<Rightarrow> execution_context result" where
  "mk_context c = bindE (raises
     [(blank (ec_trace_id c), ValueError ''trace_id''),
      (blank (ec_work_item_id c), ValueError ''work_item_id''),
      (blank (ec_agent_id c), ValueError ''agent_id''),
      (case ec_contract_digest c of None \<Rightarrow> False | Some d \<Rightarrow> length d \<noteq> 64, ValueError ''contract_digest''),
      (ec_execution_mode c = PARTITIONED \<and> falsy_opt (ec_slot c), ValueError ''slot''),
      (ec_execution_mode c = INTEGRATION \<and> falsy_opt (ec_publish_target c), ValueError ''publish_target''),
      (case ec_unit_count c of None \<Rightarrow> False | Some n \<Rightarrow> n < 1, ValueError ''implementation_unit_count'')])
     (\<lambda>_. Inr c)"

text \<open>The context of one attempt: the path fields are the item's.\<close>

definition item_context ::
  "string \<Rightarrow> string list option \<Rightarrow> int option \<Rightarrow> string list \<Rightarrow> work_item \<Rightarrow> execution_context result" where
  "item_context trace input_digests unit_count allowlist w = mk_context
     \<lparr>ec_trace_id = trace, ec_work_item_id = wi_id w, ec_agent_id = wi_agent_id w,
      ec_contract_digest = wi_contract_digest w, ec_execution_mode = wi_execution_mode w,
      ec_input_refs = wi_input_refs w, ec_input_digests = input_digests, ec_slot = wi_slot w,
      ec_publish_target = wi_publish_target w, ec_allowed_paths = wi_allowed_paths w,
      ec_forbidden_paths = wi_forbidden_paths w, ec_required_paths = wi_required_paths w,
      ec_unit = wi_unit w,
      ec_unit_count = (if wi_agent_id w = ''architecture_agent'' then unit_count else None),
      ec_owned_files = wi_owned_files w, ec_tool_allowlist = allowlist\<rparr>"

definition matches_any :: "string \<Rightarrow> string list \<Rightarrow> bool" where
  "matches_any path patterns = list_ex (\<lambda>p. pattern_matches p path) patterns"

definition scope_prefix :: "string \<Rightarrow> string" where
  "scope_prefix slot = (case map_of [(''backend'', ''backend/''), (''frontend'', ''frontend/''), (''root'', [])] slot of
     None \<Rightarrow> [] | Some p \<Rightarrow> p)"

text \<open>The checks of \<open>write_staged_file\<close>, up to the write; the result is the path written to.\<close>

definition write_guard :: "execution_context \<Rightarrow> string \<Rightarrow> string \<Rightarrow> string result" where
  "write_guard c path content =
     (if ec_execution_mode c \<noteq> PARTITIONED then Inl (PermissionError ''mode'')
      else
        let pre = scope_prefix (or_empty (ec_slot c)) in
        bindE (if pre \<noteq> [] \<and> \<not> prefix pre path
               then (if ec_allowed_paths c \<noteq> [] \<and> matches_any (pre @ path) (ec_allowed_paths c)
                     then Inr (pre @ path) else Inl (PermissionError ''slot prefix''))
               else Inr path) (\<lambda>p.
        bindE (raises
          [(ec_allowed_paths c \<noteq> [] \<and> \<not> matches_any p (ec_allowed_paths c), PermissionError ''allowed''),
           (ec_forbidden_paths c \<noteq> [] \<and> matches_any p (ec_forbidden_paths c), PermissionError ''forbidden''),
           (ec_owned_files c \<noteq> [] \<and> \<not> matches_any p (ec_owned_files c), PermissionError ''owned''),
           (blank content, ValueError ''empty content'')]) (\<lambda>_. Inr p)))"

section \<open>Delivery checks of a plan\<close>

datatype delivery_error =
    RequiredToolsMismatch "string list" "string list"
  | SlotMismatch string string
  | StagedOutputTaken string string string string string

definition item_contract :: "work_item \<Rightarrow> delivery_contract option" where
  "item_contract w = contract_for (wi_agent_id w) (wi_execution_mode w) (wi_slot w) (Some (wi_id w))
     (wi_stage_id w) (wi_publish_target w)"

definition validate_work_item :: "work_item \<Rightarrow> delivery_error list" where
  "validate_work_item w = (case item_contract w of
      None \<Rightarrow> []
    | Some c \<Rightarrow>
        (if wi_required_tools w \<noteq> dc_required_tools c
         then [RequiredToolsMismatch (wi_required_tools w) (dc_required_tools c)] else [])
        @ (case dc_output_slot_pattern c of
             None \<Rightarrow> []
           | Some p \<Rightarrow> if \<not> fnmatch (or_empty (wi_slot w)) p
                       then [SlotMismatch (or_empty (wi_slot w)) p] else []))"

type_synonym seen_slots = "(string \<times> string \<times> string, string) dict"

definition staged_identities :: "work_item \<Rightarrow> (string \<times> string \<times> string) list" where
  "staged_identities w =
     (if wi_execution_mode w = PARTITIONED \<and> or_empty (wi_artifact_key w) \<noteq> [] \<and> or_empty (wi_slot w) \<noteq> []
      then map (\<lambda>i. (or_empty (wi_artifact_key w), i, or_empty (wi_stage_id w)))
             (if wi_owned_files w \<noteq> [] then wi_owned_files w else [or_empty (wi_slot w)])
      else [])"

fun claim_identities ::
  "string \<Rightarrow> (string \<times> string \<times> string) list \<Rightarrow> delivery_error list \<times> seen_slots
   \<Rightarrow> delivery_error list \<times> seen_slots" where
  "claim_identities item [] st = st"
| "claim_identities item (k # ks) (errors, seen) =
     claim_identities item ks
       (case map_of seen k of
          Some previous \<Rightarrow>
            if previous \<noteq> item
            then (errors @ [StagedOutputTaken (fst k) (fst (snd k)) (snd (snd k)) previous item], seen)
            else (errors, dict_put k item seen)
        | None \<Rightarrow> (errors, dict_put k item seen))"

fun validate_items ::
  "work_item list \<Rightarrow> (string \<times> delivery_error) list \<times> seen_slots
   \<Rightarrow> (string \<times> delivery_error) list \<times> seen_slots" where
  "validate_items [] st = st"
| "validate_items (w # ws) (errors, seen) =
     (let own = map (Pair (wi_id w)) (validate_work_item w);
          (taken, seen') = claim_identities (wi_id w) (staged_identities w) ([], seen)
      in validate_items ws (errors @ own @ map (Pair (wi_id w)) taken, seen'))"

definition validate_delivery_plan :: "work_item list \<Rightarrow> (string \<times> delivery_error) list" where
  "validate_delivery_plan items = fst (validate_items items ([], []))"

end
