(* ===== verification/Work_Item_Laws.thy ===== *)
theory Work_Item_Laws
  imports Write_Guard
begin

text \<open>
  What the constructor of a work item guarantees, that rebuilding an item changes nothing,
  that a repair the scope check admits cannot write where the original item could not, and
  that a plan without delivery errors gives every staged output one owner.
\<close>

section \<open>The constructor\<close>

text \<open>The grants of an item are the ones of its mode.\<close>

definition grants_ok :: "work_item \<Rightarrow> bool" where
  "grants_ok w \<longleftrightarrow>
     (wi_slot w \<noteq> None \<longleftrightarrow> wi_execution_mode w = PARTITIONED)
     \<and> (wi_publish_target w \<noteq> None \<longleftrightarrow> wi_execution_mode w \<in> {INTEGRATION, QUALITY_GATE})
     \<and> (wi_candidate_from w \<noteq> None \<longleftrightarrow> wi_execution_mode w = QUALITY_GATE)"

definition sealed :: "(string \<Rightarrow> string) \<Rightarrow> work_item \<Rightarrow> bool" where
  "sealed sha w \<longleftrightarrow>
     wi_contract_digest w = Some (compute_contract_digest sha (\<not> wi_legacy_digest w) w)"

definition tools_match_contract :: "work_item \<Rightarrow> bool" where
  "tools_match_contract w \<longleftrightarrow>
     (case item_contract w of None \<Rightarrow> True | Some c \<Rightarrow> wi_required_tools w = dc_required_tools c)"

definition denies_ok :: "work_item \<Rightarrow> bool" where
  "denies_ok w \<longleftrightarrow>
     list_all (\<lambda>a. list_all (\<lambda>f. \<not> forbidden_covers_allowed a f) (wi_forbidden_paths w)) (wi_allowed_paths w)
     \<and> list_all (\<lambda>f. list_all (\<lambda>p. \<not> fnmatch (lstrip_of (CHR ''/'') (unix_slashes f)) (squash_stars p))
         (wi_forbidden_paths w)) (wi_owned_files w)"

text \<open>The checks do not read the fields the constructor completes.\<close>

lemma check_updates [simp]:
  "check_names (w\<lparr>wi_artifact_key := k\<rparr>) = check_names w"
  "check_names (w\<lparr>wi_required_tools := ts\<rparr>) = check_names w"
  "check_names (w\<lparr>wi_output_kind := k\<rparr>) = check_names w"
  "check_names (w\<lparr>wi_contract_digest := k\<rparr>) = check_names w"
  "check_names (w\<lparr>wi_legacy_digest := b\<rparr>) = check_names w"
  "check_paths (w\<lparr>wi_artifact_key := k\<rparr>) = check_paths w"
  "check_paths (w\<lparr>wi_required_tools := ts\<rparr>) = check_paths w"
  "check_paths (w\<lparr>wi_output_kind := k\<rparr>) = check_paths w"
  "check_paths (w\<lparr>wi_contract_digest := k\<rparr>) = check_paths w"
  "check_paths (w\<lparr>wi_legacy_digest := b\<rparr>) = check_paths w"
  "check_tools (w\<lparr>wi_artifact_key := k\<rparr>) = check_tools w"
  "check_tools (w\<lparr>wi_output_kind := k\<rparr>) = check_tools w"
  "check_tools (w\<lparr>wi_contract_digest := k\<rparr>) = check_tools w"
  "check_tools (w\<lparr>wi_legacy_digest := b\<rparr>) = check_tools w"
  by (simp_all add: check_names_def check_paths_def check_tools_def)

lemma check_code_agent_fields:
  "wi_agent_id v = wi_agent_id w \<Longrightarrow> wi_execution_mode v = wi_execution_mode w \<Longrightarrow> wi_unit v = wi_unit w
     \<Longrightarrow> wi_delivery_contract v = wi_delivery_contract w \<Longrightarrow> wi_owned_files v = wi_owned_files w
     \<Longrightarrow> check_code_agent v = check_code_agent w"
  by (simp only: check_code_agent_def)

lemma check_code_agent_updates [simp]:
  "check_code_agent (w\<lparr>wi_artifact_key := k\<rparr>) = check_code_agent w"
  "check_code_agent (w\<lparr>wi_required_tools := ts\<rparr>) = check_code_agent w"
  "check_code_agent (w\<lparr>wi_output_kind := k\<rparr>) = check_code_agent w"
  "check_code_agent (w\<lparr>wi_contract_digest := k\<rparr>) = check_code_agent w"
  "check_code_agent (w\<lparr>wi_legacy_digest := b\<rparr>) = check_code_agent w"
  by (rule check_code_agent_fields; simp)+

lemma check_updates' [simp]:
  "check_dependencies (w\<lparr>wi_contract_digest := k\<rparr>) = check_dependencies w"
  "check_dependencies (w\<lparr>wi_legacy_digest := b\<rparr>) = check_dependencies w"
  "validate_execution_grant (w\<lparr>wi_contract_digest := k\<rparr>) = validate_execution_grant w"
  "validate_execution_grant (w\<lparr>wi_legacy_digest := b\<rparr>) = validate_execution_grant w"
  "derived_tools (w\<lparr>wi_artifact_key := k\<rparr>) = derived_tools w"
  "derived_tools (w\<lparr>wi_required_tools := ts\<rparr>) = derived_tools w"
  "derived_tools (w\<lparr>wi_output_kind := k\<rparr>) = derived_tools w"
  "derived_tools (w\<lparr>wi_contract_digest := k\<rparr>) = derived_tools w"
  "derived_tools (w\<lparr>wi_legacy_digest := b\<rparr>) = derived_tools w"
  "compute_contract_digest sha b (w\<lparr>wi_contract_digest := k\<rparr>) = compute_contract_digest sha b w"
  "compute_contract_digest sha b (w\<lparr>wi_legacy_digest := l\<rparr>) = compute_contract_digest sha b w"
  by (simp_all add: check_dependencies_def wi_dependency_ids_def validate_execution_grant_def
      derived_tools_def compute_contract_digest_def digest_payload_def cong: execution_mode.case_cong)

lemma with_artifact_key_result:
  "with_artifact_key w = Inr v \<Longrightarrow> \<not> blank (wi_output_key w) \<Longrightarrow>
     v = w\<lparr>wi_artifact_key := wi_artifact_key v\<rparr> \<and> \<not> blank_opt (wi_artifact_key v)"
  by (auto simp: with_artifact_key_def split: option.splits if_splits)

lemma with_required_tools_result:
  "with_required_tools w = Inr v \<Longrightarrow>
     v = w\<lparr>wi_required_tools := wi_required_tools v\<rparr>
     \<and> (derived_tools w \<noteq> [] \<longrightarrow> wi_required_tools v = derived_tools w)
     \<and> (derived_tools w = [] \<longrightarrow> v = w)"
  by (auto simp: with_required_tools_def split: if_splits)

lemma with_output_kind_result:
  "with_output_kind w = Inr v \<Longrightarrow>
     v = w\<lparr>wi_output_kind := wi_output_kind v\<rparr> \<and> \<not> blank_opt (wi_output_kind v)"
  by (cases "wi_execution_mode w")
    (auto simp: with_output_kind_def blank_def is_space_def split: option.splits if_splits)

lemma with_contract_digest_result:
  "with_contract_digest sha w = Inr v \<Longrightarrow> \<not> wi_legacy_digest w \<Longrightarrow>
     sealed sha v \<and> v = w\<lparr>wi_contract_digest := wi_contract_digest v, wi_legacy_digest := wi_legacy_digest v\<rparr>
     \<and> (wi_legacy_digest v \<longrightarrow> wi_contract_digest v \<noteq> Some (compute_contract_digest sha True v))"
  by (auto simp: with_contract_digest_def sealed_def Let_def split: option.splits if_splits)

lemma contract_tools_ok:
  "(derived_tools w \<noteq> [] \<Longrightarrow> wi_required_tools w = derived_tools w) \<Longrightarrow> tools_match_contract w"
  using contract_for_tools [of "wi_agent_id w"] tools_ok_nonempty
  by (fastforce simp: tools_match_contract_def item_contract_def derived_tools_def
      required_tools_for_def split: option.splits)

lemma partition_tools_ok:
  "partition_contract slot = Some c \<Longrightarrow>
     distinct (dc_required_tools c) \<and> list_all (\<lambda>t. \<not> blank t) (dc_required_tools c)"
  by (erule partition_contract_cases) (simp_all add: blank_def is_space_def)

lemma derived_tools_ok: "distinct (derived_tools w) \<and> list_all (\<lambda>t. \<not> blank t) (derived_tools w)"
proof (cases "item_contract w")
  case (Some c)
  have "distinct (dc_required_tools c) \<and> list_all (\<lambda>t. \<not> blank t) (dc_required_tools c)"
    using Some unfolding item_contract_def contract_for_def Let_def
    by (simp only: option.inject option.distinct split: if_split_asm)
      (auto simp: blank_def is_space_def dest: partition_tools_ok)
  with Some show ?thesis by (simp add: derived_tools_def required_tools_for_def item_contract_def)
qed (simp add: derived_tools_def required_tools_for_def item_contract_def)

text \<open>Every check holds of the finished item, and the derived fields are filled.\<close>

lemma mk_work_item_result:
  assumes "mk_work_item sha w0 = Inr w"
  shows "check_names w = Inr ()" "check_paths w = Inr ()" "check_code_agent w = Inr ()"
    "check_dependencies w = Inr ()" "validate_execution_grant w = Inr ()"
    "\<not> blank_opt (wi_artifact_key w)" "\<not> blank_opt (wi_output_kind w)"
    "derived_tools w \<noteq> [] \<Longrightarrow> wi_required_tools w = derived_tools w"
    "derived_tools w = [] \<Longrightarrow> check_tools w = Inr ()"
    "wi_delivery_contract w = JNull \<or> is_obj (wi_delivery_contract w)"
    "sealed sha w"
    "wi_legacy_digest w \<Longrightarrow> wi_contract_digest w \<noteq> Some (compute_contract_digest sha True w)"
proof -
  let ?w = "w0\<lparr>wi_legacy_digest := False\<rparr>"
  from assms obtain w1 w2 w3 where
    st: "check_names ?w = Inr ()" "with_artifact_key ?w = Inr w1" "check_paths w1 = Inr ()"
      "check_code_agent w1 = Inr ()" "check_tools w1 = Inr ()" "with_required_tools w1 = Inr w2"
      "with_output_kind w2 = Inr w3" "check_dependencies w3 = Inr ()"
      "validate_execution_grant w3 = Inr ()" "with_contract_digest sha w3 = Inr w"
    by (simp only: mk_work_item_def Let_def bindE_Inr_unit bindE_Inr_iff) blast
  have "\<not> blank (wi_output_key ?w)"
    using st(1) unfolding check_names_def raises_Inr_iff by simp
  note r1 = with_artifact_key_result [OF st(2) this] and r2 = with_required_tools_result [OF st(6)]
    and r3 = with_output_kind_result [OF st(7)]
  have leg: "\<not> wi_legacy_digest w3"
    by (subst r3 [THEN conjunct1], subst r2 [THEN conjunct1], subst r1 [THEN conjunct1]) simp
  note r4 = with_contract_digest_result [OF st(10) leg]
  obtain k ts q d l where
    e1: "w1 = ?w\<lparr>wi_artifact_key := k\<rparr>" "\<not> blank_opt k" and e2: "w2 = w1\<lparr>wi_required_tools := ts\<rparr>"
    and e3: "w3 = w2\<lparr>wi_output_kind := q\<rparr>" "\<not> blank_opt q"
    and e4: "w = w3\<lparr>wi_contract_digest := d, wi_legacy_digest := l\<rparr>"
    using r1 r2 r3 r4 by metis
  show "check_names w = Inr ()" using st(1) by (simp add: e1(1) e2 e3(1) e4)
  show "check_paths w = Inr ()" using st(3) by (simp add: e2 e3(1) e4)
  show "check_code_agent w = Inr ()" using st(4) by (simp add: e2 e3(1) e4)
  show "check_dependencies w = Inr ()" "validate_execution_grant w = Inr ()"
    using st(8,9) by (simp_all add: e4)
  show "\<not> blank_opt (wi_artifact_key w)" using e1(2) by (simp add: e1(1) e2 e3(1) e4)
  show "\<not> blank_opt (wi_output_kind w)" using e3(2) by (simp add: e3(1) e4)
  have tools: "wi_required_tools w = wi_required_tools w2" "derived_tools w = derived_tools w1"
    by (simp_all add: e2 e3(1) e4)
  show "derived_tools w \<noteq> [] \<Longrightarrow> wi_required_tools w = derived_tools w" using r2 tools by simp
  show "check_tools w = Inr ()" if "derived_tools w = []"
  proof -
    have "w2 = w1" using r2 tools that by simp
    then show ?thesis using st(5) by (simp add: e3(1) e4)
  qed
  have "wi_delivery_contract w1 = wi_delivery_contract w" by (simp add: e2 e3(1) e4)
  then show "wi_delivery_contract w = JNull \<or> is_obj (wi_delivery_contract w)"
    using st(5) unfolding check_tools_def raises_Inr_iff by auto
  show "sealed sha w" using r4 by blast
  show "wi_legacy_digest w \<Longrightarrow> wi_contract_digest w \<noteq> Some (compute_contract_digest sha True w)"
    using r4 by blast
qed

lemma grant_matrix: "validate_execution_grant w = Inr () \<Longrightarrow> grants_ok w"
  by (cases "wi_execution_mode w") (auto simp: validate_execution_grant_def grants_ok_def blank_opt_def split: if_splits option.splits)

text \<open>The constructor only fills the fields that were left open.\<close>

lemma mk_work_item_shape:
  assumes "mk_work_item sha w0 = Inr w"
  shows "w = w0\<lparr>wi_artifact_key := wi_artifact_key w, wi_required_tools := wi_required_tools w,
      wi_output_kind := wi_output_kind w, wi_contract_digest := wi_contract_digest w,
      wi_legacy_digest := wi_legacy_digest w\<rparr>"
    and "wi_artifact_key w0 \<noteq> None \<longrightarrow> wi_artifact_key w = wi_artifact_key w0"
    and "wi_output_kind w0 \<noteq> None \<longrightarrow> wi_output_kind w = wi_output_kind w0"
    and "wi_contract_digest w0 \<noteq> None \<longrightarrow> wi_contract_digest w = wi_contract_digest w0"
proof -
  let ?w = "w0\<lparr>wi_legacy_digest := False\<rparr>"
  from assms obtain w1 w2 w3 where
    st: "with_artifact_key ?w = Inr w1" "with_required_tools w1 = Inr w2" "with_output_kind w2 = Inr w3"
      "with_contract_digest sha w3 = Inr w"
    by (simp only: mk_work_item_def Let_def bindE_Inr_unit bindE_Inr_iff) blast
  have 1: "w1 = ?w\<lparr>wi_artifact_key := wi_artifact_key w1\<rparr>"
      "wi_artifact_key w0 \<noteq> None \<longrightarrow> wi_artifact_key w1 = wi_artifact_key w0"
    using st(1) by (cases w0; auto simp: with_artifact_key_def split: if_splits option.splits)+
  have 2: "w2 = w1\<lparr>wi_required_tools := wi_required_tools w2\<rparr>"
    using with_required_tools_result [OF st(2)] by blast
  have 3: "w3 = w2\<lparr>wi_output_kind := wi_output_kind w3\<rparr>"
      "wi_output_kind w2 \<noteq> None \<longrightarrow> wi_output_kind w3 = wi_output_kind w2"
    using st(3) by (cases w2; auto simp: with_output_kind_def split: if_splits option.splits)+
  have 4: "w = w3\<lparr>wi_contract_digest := wi_contract_digest w, wi_legacy_digest := wi_legacy_digest w\<rparr>"
      "wi_contract_digest w3 \<noteq> None \<longrightarrow> wi_contract_digest w = wi_contract_digest w3"
    using st(4) by (cases w3; auto simp: with_contract_digest_def Let_def split: if_splits option.splits)+
  obtain k ts q d l where e: "w1 = ?w\<lparr>wi_artifact_key := k\<rparr>" "w2 = w1\<lparr>wi_required_tools := ts\<rparr>"
      "w3 = w2\<lparr>wi_output_kind := q\<rparr>" "w = w3\<lparr>wi_contract_digest := d, wi_legacy_digest := l\<rparr>"
    using 1(1) 2 3(1) 4(1) by metis
  show "w = w0\<lparr>wi_artifact_key := wi_artifact_key w, wi_required_tools := wi_required_tools w,
      wi_output_kind := wi_output_kind w, wi_contract_digest := wi_contract_digest w,
      wi_legacy_digest := wi_legacy_digest w\<rparr>"
    by (simp add: e)
  show "wi_artifact_key w0 \<noteq> None \<longrightarrow> wi_artifact_key w = wi_artifact_key w0" using 1(2) by (simp add: e)
  show "wi_output_kind w0 \<noteq> None \<longrightarrow> wi_output_kind w = wi_output_kind w0" using 3(2) by (simp add: e)
  show "wi_contract_digest w0 \<noteq> None \<longrightarrow> wi_contract_digest w = wi_contract_digest w0" using 4(2) by (simp add: e)
qed

lemma mk_work_item_id: "mk_work_item sha w0 = Inr w \<Longrightarrow> wi_id w = wi_id w0"
  by (subst mk_work_item_shape(1)) simp_all

text \<open>C26. Every work item the constructor returns is well formed: it does not depend on itself or
  twice on another item, it carries exactly the grants of its execution mode, its tools are the
  ones its delivery contract requires, none of its allowed paths is wholly forbidden and none of
  its own files is forbidden, and its digest seals its execution contract.\<close>

theorem mk_work_item_invariant:
  assumes "mk_work_item sha w0 = Inr w"
  shows "distinct (wi_dependency_ids w) \<and> wi_id w \<notin> set (wi_dependency_ids w) \<and> grants_ok w
    \<and> tools_match_contract w \<and> denies_ok w \<and> sealed sha w"
proof -
  note r = mk_work_item_result [OF assms]
  have "tools_match_contract w" by (rule contract_tools_ok) (rule r(8))
  moreover have "denies_ok w"
    using r(2) unfolding check_paths_def raises_Inr_iff
    by (auto simp: denies_ok_def list_all_iff list_ex_iff)
  moreover have "distinct (wi_dependency_ids w) \<and> wi_id w \<notin> set (wi_dependency_ids w)"
    using r(4) unfolding check_dependencies_def raises_Inr_iff by simp
  ultimately show ?thesis using grant_matrix [OF r(5)] r(11) by simp
qed

text \<open>Construction is idempotent: building an item again from its own fields, as the
  checkpoint, the patch and the retry code do, returns the same item, its digest unchanged.\<close>

theorem mk_work_item_idempotent:
  assumes "mk_work_item sha w0 = Inr w"
  shows "mk_work_item sha w = Inr w"
proof -
  note r = mk_work_item_result [OF assms]
  let ?w = "w\<lparr>wi_legacy_digest := False\<rparr>"
  have tools: "check_tools w = Inr ()"
  proof (cases "derived_tools w = []")
    case False
    have "distinct (derived_tools w) \<and> list_all (\<lambda>t. \<not> blank t) (derived_tools w)"
      by (rule derived_tools_ok)
    then show ?thesis
      using r(8) [OF False] r(10) unfolding check_tools_def raises_Inr_iff
      by (auto simp: list_all_iff list_ex_iff)
  qed (rule r(9))
  have key: "with_artifact_key ?w = Inr ?w" "with_output_kind ?w = Inr ?w"
    using r(6,7) by (auto simp: with_artifact_key_def with_output_kind_def blank_opt_def split: option.splits)
  have req: "with_required_tools ?w = Inr ?w"
    by (cases "derived_tools w = []") (use r(8) in \<open>simp_all add: with_required_tools_def\<close>)
  have digest: "with_contract_digest sha ?w = Inr w"
    using r(11,12) by (cases "wi_legacy_digest w") (auto simp: with_contract_digest_def sealed_def Let_def)
  show ?thesis
    using r(1-5) tools key req digest by (simp add: mk_work_item_def Let_def del: bindE_Inr_iff)
qed

section \<open>Scope transitions\<close>

lemma glob_free_of_has_glob: "\<not> has_glob p \<Longrightarrow> glob_free p"
  by (auto simp: has_glob_def glob_free_def list_ex_iff list_all_iff)

lemma concrete_pattern_matches:
  assumes "\<not> has_glob p" "\<not> suffix ''/'' p"
  shows "pattern_matches p path \<longleftrightarrow> p = path \<or> p = ''workspace/'' @ path"
  using assms(2) glob_free_of_has_glob [OF assms(1)]
  by (auto simp: pattern_matches_def glob_free_squash fnmatch_literal)

lemma squash_stars_snoc: "c \<noteq> CHR ''*'' \<Longrightarrow> squash_stars (p @ [c]) = squash_stars p @ [c]"
  by (induction p rule: squash_stars.induct) auto

text \<open>A pattern that matches a path without a trailing slash lets the gateway match it.\<close>

lemma pattern_matches_of_fnmatch:
  assumes "fnmatch p (squash_stars pat)" "\<not> suffix ''/'' p" "p = path \<or> p = ''workspace/'' @ path"
  shows "pattern_matches pat path"
proof (cases "suffix ''/'' pat")
  case True
  then obtain q where "pat = q @ ''/''" by (auto simp: suffix_def)
  with assms(1) have "\<exists>u. p = u @ ''/''"
    by (intro fnmatch_snoc [of p "squash_stars q"]) (simp_all add: squash_stars_snoc)
  with assms(2) show ?thesis by (auto simp: suffix_def)
qed (use assms in \<open>auto simp: pattern_matches_def\<close>)

lemma scope_transition_checks:
  assumes "validate_scope_transition w r = Inr ()"
  shows "wi_execution_mode r = wi_execution_mode w" "wi_owned_files r = wi_owned_files w"
    "set (wi_forbidden_paths w) \<subseteq> set (wi_forbidden_paths r)"
    "wi_allowed_paths w \<noteq> [] \<Longrightarrow> p \<in> set (wi_allowed_paths r) \<Longrightarrow>
       p \<in> set (wi_allowed_paths w) \<or>
       (\<not> has_glob p \<and> (\<exists>pat \<in> set (wi_allowed_paths w). fnmatch p (squash_stars pat)))"
  using assms unfolding validate_scope_transition_def bindE_Inr_unit raises_Inr_iff
  by (auto simp: for_each_Inr_iff list_ex_iff split: if_splits)

lemma matches_any_narrowed:
  assumes "validate_scope_transition w r = Inr ()" "wi_allowed_paths w \<noteq> []"
    and "\<forall>p \<in> set (wi_allowed_paths r). \<not> suffix ''/'' p"
    and "matches_any path (wi_allowed_paths r)"
  shows "matches_any path (wi_allowed_paths w)"
proof -
  from assms(4) obtain p where p: "p \<in> set (wi_allowed_paths r)" "pattern_matches p path"
    by (auto simp: matches_any_def list_ex_iff)
  from scope_transition_checks(4) [OF assms(1,2) p(1)] consider "p \<in> set (wi_allowed_paths w)"
    | pat where "\<not> has_glob p" "pat \<in> set (wi_allowed_paths w)" "fnmatch p (squash_stars pat)" by blast
  then show ?thesis
  proof cases
    case 1
    with p(2) show ?thesis by (auto simp: matches_any_def list_ex_iff)
  next
    case 2
    have ns: "\<not> suffix ''/'' p" using assms(3) p(1) by blast
    have "pattern_matches pat path"
      by (rule pattern_matches_of_fnmatch [OF 2(3) ns])
        (use p(2) concrete_pattern_matches [OF 2(1) ns] in simp)
    with 2(2) show ?thesis by (auto simp: matches_any_def list_ex_iff)
  qed
qed

lemma matches_any_mono: "set ps \<subseteq> set qs \<Longrightarrow> matches_any path ps \<Longrightarrow> matches_any path qs"
  by (auto simp: matches_any_def list_ex_iff)

lemma write_guard_accepts:
  "write_guard c path content = Inr q \<Longrightarrow>
     ec_execution_mode c = PARTITIONED
     \<and> (scope_prefix (or_empty (ec_slot c)) = [] \<or> prefix (scope_prefix (or_empty (ec_slot c))) q)
     \<and> (ec_allowed_paths c = [] \<or> matches_any q (ec_allowed_paths c))
     \<and> \<not> matches_any q (ec_forbidden_paths c)
     \<and> (ec_owned_files c = [] \<or> matches_any q (ec_owned_files c)) \<and> \<not> blank content"
  by (auto simp: write_guard_def Let_def raises_Inr_iff matches_any_def split: if_splits)

lemma write_guard_here:
  "ec_execution_mode c = PARTITIONED
     \<Longrightarrow> scope_prefix (or_empty (ec_slot c)) = [] \<or> prefix (scope_prefix (or_empty (ec_slot c))) q
     \<Longrightarrow> ec_allowed_paths c = [] \<or> matches_any q (ec_allowed_paths c)
     \<Longrightarrow> \<not> matches_any q (ec_forbidden_paths c)
     \<Longrightarrow> ec_owned_files c = [] \<or> matches_any q (ec_owned_files c) \<Longrightarrow> \<not> blank content
     \<Longrightarrow> write_guard c q content = Inr q"
  by (auto simp: write_guard_def Let_def)

lemma item_context_fields:
  "item_context trace ds n al w = Inr c \<Longrightarrow>
     ec_execution_mode c = wi_execution_mode w \<and> ec_slot c = wi_slot w
     \<and> ec_allowed_paths c = wi_allowed_paths w \<and> ec_forbidden_paths c = wi_forbidden_paths w
     \<and> ec_owned_files c = wi_owned_files w"
  by (auto simp: item_context_def mk_context_def)


definition demo_scoped :: work_item where
  "demo_scoped = (blank_work_item ''wi-1'' ''doc_agent'' ''goal'' ''implementation'')
     \<lparr>wi_execution_mode := PARTITIONED, wi_slot := Some ''backend'',
      wi_allowed_paths := [''backend/api/**''], wi_contract_digest := Some (replicate 64 CHR ''0'')\<rparr>"

definition writable :: "work_item \<Rightarrow> string \<Rightarrow> bool" where
  "writable w path = (case item_context ''tr-1'' None None [] w of
     Inl _ \<Rightarrow> False | Inr c \<Rightarrow> write_guard c path ''x'' = Inr path)"

text \<open>The scope check misses one widening: a revision that drops the whole list of allowed
  paths always passes, and the gateway reads an empty list as no restriction. The item below may
  write below \<open>backend/api\<close> only; its revision passes the check and may write anywhere below
  \<open>backend\<close>.\<close>

theorem scope_transition_drops_allowlist:
  "validate_scope_transition w (w\<lparr>wi_allowed_paths := []\<rparr>) = Inr ()
   \<and> \<not> writable demo_scoped ''backend/main.py''
   \<and> writable (demo_scoped\<lparr>wi_allowed_paths := []\<rparr>) ''backend/main.py''"
proof (intro conjI)
  show "validate_scope_transition w (w\<lparr>wi_allowed_paths := []\<rparr>) = Inr ()"
    by (simp add: validate_scope_transition_def)
qed code_simp+

text \<open>The deny check is not subsumption: it rejects a grant that the deny does not cover.\<close>

lemma forbidden_covers_not_subsumption:
  "forbidden_covers_allowed ''backend*'' ''backend/**''"
  "pattern_matches ''backend*'' ''backend.py''" "\<not> pattern_matches ''backend/**'' ''backend.py''"
  by code_simp+

section \<open>Staged outputs\<close>

lemma delivery_errors_of_tools:
  assumes "tools_match_contract w"
  shows "validate_work_item w =
    (if wi_agent_id w = ''architecture_agent'' \<and> wi_execution_mode w = PARTITIONED
        \<and> (wi_slot w = Some ''module'' \<or> wi_slot w = Some ''implementation'')
     then [SlotMismatch (or_empty (wi_slot w)) (or_empty (wi_slot w) @ ''-*'')] else [])"
proof (cases "wi_agent_id w = ''architecture_agent'' \<and> wi_execution_mode w = PARTITIONED
    \<and> partition_contract (or_empty (wi_slot w)) \<noteq> None")
  case True
  then obtain c where c: "partition_contract (or_empty (wi_slot w)) = Some c" by blast
  have ic: "item_contract w = Some c"
    using True c by (simp add: item_contract_def contract_for_def or_empty_def)
  have blank_slot: "partition_contract [] = None" by (simp add: partition_contract_def)
  from partition_contract_slot [OF c] obtain p where
    p: "dc_output_slot_pattern c = Some p"
      "fnmatch (or_empty (wi_slot w)) p \<longleftrightarrow>
         or_empty (wi_slot w) \<noteq> ''module'' \<and> or_empty (wi_slot w) \<noteq> ''implementation''" by blast
  obtain s where s: "wi_slot w = Some s" using c blank_slot by (cases "wi_slot w") (auto simp: or_empty_def)
  have named: "p = s @ ''-*''" if "s = ''module'' \<or> s = ''implementation''"
    using that c p(1) s partition_contract_exact_slot by (auto simp: or_empty_def)
  have "validate_work_item w = (if \<not> fnmatch s p then [SlotMismatch s p] else [])"
    using assms by (simp add: validate_work_item_def ic p(1) tools_match_contract_def s or_empty_def)
  with p(2) named True s show ?thesis by (auto simp: or_empty_def)
next
  case False
  then have "case item_contract w of None \<Rightarrow> True | Some c \<Rightarrow> dc_output_slot_pattern c = None"
    unfolding item_contract_def contract_for_def Let_def or_empty_def by (auto split: option.splits)
  moreover have "\<not> (wi_agent_id w = ''architecture_agent'' \<and> wi_execution_mode w = PARTITIONED
        \<and> (wi_slot w = Some ''module'' \<or> wi_slot w = Some ''implementation''))"
    using False partition_contract_exact_slot by (auto simp: or_empty_def)
  ultimately show ?thesis
    using assms by (cases "item_contract w") (auto simp: validate_work_item_def tools_match_contract_def)
qed

text \<open>A work item the constructor accepts passes the structural delivery check, with one
  exception: an architecture partition whose slot is exactly \<open>module\<close> or \<open>implementation\<close> gets a
  contract whose slot pattern it cannot match.\<close>

theorem constructed_item_delivery_errors:
  assumes "mk_work_item sha w0 = Inr w"
  shows "validate_work_item w =
    (if wi_agent_id w = ''architecture_agent'' \<and> wi_execution_mode w = PARTITIONED
        \<and> (wi_slot w = Some ''module'' \<or> wi_slot w = Some ''implementation'')
     then [SlotMismatch (or_empty (wi_slot w)) (or_empty (wi_slot w) @ ''-*'')] else [])"
proof -
  have tools: "tools_match_contract w"
    by (rule contract_tools_ok) (rule mk_work_item_result(8) [OF assms])
  show ?thesis by (rule delivery_errors_of_tools [OF tools])
qed

lemma claim_identities_no_errors:
  "fst (claim_identities item ks st) = [] \<Longrightarrow>
     fst st = []
     \<and> (\<forall>k \<in> set ks. map_of (snd (claim_identities item ks st)) k = Some item)
     \<and> (\<forall>k i. map_of (snd st) k = Some i \<longrightarrow> map_of (snd (claim_identities item ks st)) k = Some i)"
proof (induction item ks st rule: claim_identities.induct)
  case (2 item k ks errors seen)
  let ?st = "case map_of seen k of
      Some previous \<Rightarrow>
        if previous \<noteq> item
        then (errors @ [StagedOutputTaken (fst k) (fst (snd k)) (snd (snd k)) previous item], seen)
        else (errors, dict_put k item seen)
    | None \<Rightarrow> (errors, dict_put k item seen)"
  have run: "claim_identities item (k # ks) (errors, seen) = claim_identities item ks ?st" by simp
  note ih = 2(1) [OF 2(2) [unfolded run]]
  then have "fst ?st = []" by simp
  then have free: "errors = []" "map_of seen k = None \<or> map_of seen k = Some item"
    by (auto split: option.splits if_splits)
  then have st: "?st = ([], dict_put k item seen)" by auto
  have run': "claim_identities item (k # ks) (errors, seen) = claim_identities item ks ([], dict_put k item seen)"
    unfolding run st ..
  have here: "map_of (dict_put k item seen) k = Some item" by (simp add: dict.get_put)
  have kept: "map_of (dict_put k item seen) j = Some i" if "map_of seen j = Some i" for j i
    using that free(2) by (auto simp: dict.get_put)
  note ih' = ih [unfolded st fst_conv snd_conv]
  show ?case
    unfolding run' using ih' free(1) here kept by (simp del: split_paired_All)
qed simp

lemma validate_items_no_errors:
  "fst (validate_items ws st) = [] \<Longrightarrow>
     fst st = []
     \<and> (\<forall>w \<in> set ws. \<forall>k \<in> set (staged_identities w). map_of (snd (validate_items ws st)) k = Some (wi_id w))
     \<and> (\<forall>k i. map_of (snd st) k = Some i \<longrightarrow> map_of (snd (validate_items ws st)) k = Some i)
     \<and> (\<forall>w \<in> set ws. validate_work_item w = [])"
proof (induction ws st rule: validate_items.induct)
  case (2 w ws errors seen)
  obtain taken seen' where c: "claim_identities (wi_id w) (staged_identities w) ([], seen) = (taken, seen')"
    by (cases "claim_identities (wi_id w) (staged_identities w) ([], seen)")
  note ih = 2(1) [OF refl c [symmetric] refl]
  from 2(2) c have e: "fst (validate_items ws (errors @ map (Pair (wi_id w)) (validate_work_item w)
      @ map (Pair (wi_id w)) taken, seen')) = []" by simp
  from ih [OF e] have "taken = []" by simp
  with claim_identities_no_errors [of "wi_id w" "staged_identities w" "([], seen)"] c
  have "\<forall>k \<in> set (staged_identities w). map_of seen' k = Some (wi_id w)"
    "\<forall>k i. map_of seen k = Some i \<longrightarrow> map_of seen' k = Some i" by simp_all
  with ih [OF e] c show ?case by auto
qed simp

text \<open>When the delivery check of a plan reports no error, every staged output has one owner: two
  partitioned items that would write the same file (or the same slot, for items that name no file)
  of the same artifact and stage are the same item.\<close>

theorem staged_outputs_exclusive:
  assumes "validate_delivery_plan items = []" and "w \<in> set items" "v \<in> set items"
    and "k \<in> set (staged_identities w)" "k \<in> set (staged_identities v)"
  shows "wi_id w = wi_id v"
proof -
  have "fst (validate_items items ([], [])) = []"
    using assms(1) by (simp add: validate_delivery_plan_def)
  note owner = validate_items_no_errors [OF this]
  have "map_of (snd (validate_items items ([], []))) k = Some (wi_id w)"
    "map_of (snd (validate_items items ([], []))) k = Some (wi_id v)"
    using owner assms(2-5) by blast+
  then show ?thesis by simp
qed

section \<open>Concrete items\<close>

text \<open>The digest function of the examples is constant.\<close>

definition demo_sha :: "string \<Rightarrow> string" where
  "demo_sha s = replicate 64 CHR ''0''"

definition demo_module :: work_item where
  "demo_module = (blank_work_item ''wi-2'' ''architecture_agent'' ''design'' ''architecture'')
     \<lparr>wi_execution_mode := PARTITIONED, wi_slot := Some ''module-users'',
      wi_dependencies := [\<lparr>dep_work_item_id = ''wi-1'', dep_source = SYSTEM, dep_rule_id = None\<rparr>]\<rparr>"

definition demo_module_built :: work_item where
  "demo_module_built = projr (mk_work_item demo_sha demo_module)"

lemma demo_module_eq: "mk_work_item demo_sha demo_module = Inr demo_module_built"
proof -
  have "\<not> isl (mk_work_item demo_sha demo_module)" by code_simp
  then show ?thesis unfolding demo_module_built_def by (cases "mk_work_item demo_sha demo_module") auto
qed

theorem mk_work_item_invariant_witness:
  "distinct (wi_dependency_ids demo_module_built)
   \<and> wi_id demo_module_built \<notin> set (wi_dependency_ids demo_module_built)
   \<and> grants_ok demo_module_built \<and> tools_match_contract demo_module_built
   \<and> denies_ok demo_module_built \<and> sealed demo_sha demo_module_built"
  by (rule mk_work_item_invariant [OF demo_module_eq])

theorem mk_work_item_idempotent_witness:
  "mk_work_item demo_sha demo_module_built = Inr demo_module_built"
  by (rule mk_work_item_idempotent [OF demo_module_eq])

theorem constructed_item_delivery_errors_witness: "validate_work_item demo_module_built =
    (if wi_agent_id demo_module_built = ''architecture_agent''
        \<and> wi_execution_mode demo_module_built = PARTITIONED
        \<and> (wi_slot demo_module_built = Some ''module'' \<or> wi_slot demo_module_built = Some ''implementation'')
     then [SlotMismatch (or_empty (wi_slot demo_module_built)) (or_empty (wi_slot demo_module_built) @ ''-*'')]
     else [])"
  by (rule constructed_item_delivery_errors [OF demo_module_eq])

definition demo_narrowed :: work_item where
  "demo_narrowed = demo_scoped\<lparr>wi_allowed_paths := [''backend/api/users.py'']\<rparr>"

definition demo_context :: "work_item \<Rightarrow> execution_context" where
  "demo_context w = projr (item_context ''tr-1'' None None [] w)"


theorem staged_outputs_exclusive_witness: "wi_id demo_module_built = wi_id demo_module_built"
  by (rule staged_outputs_exclusive [of "[demo_module_built]" _ _
        "(''architecture'', ''module-users'', [])"]) code_simp+

end
