(* ===== verification/Plan.thy ===== *)
theory Plan
  imports Write_Guard
begin

text \<open>
  \<^verbatim>\<open>app/orchestration/plan.py\<close>: the execution plan of a trace and the checks of its
  constructor, the last of which are the cycle check and the check of the edges between
  the producers and the consumers of staged outputs.
\<close>

record trace_context =
  tc_requirement_id :: string
  tc_trace_id :: string
  tc_parent_trace_id :: "string option"

record plan =
  pl_id :: string
  pl_goal :: string
  pl_work_items :: "work_item list"
  pl_template_id :: "string option"
  pl_process_id :: string
  pl_trace :: trace_context
  pl_validation_scope :: string

definition find_item :: "work_item list \<Rightarrow> string \<Rightarrow> work_item option" where
  "find_item items i = List.find (\<lambda>w. wi_id w = i) items"

definition plan_item :: "plan \<Rightarrow> string \<Rightarrow> work_item option" where
  "plan_item p i = find_item (pl_work_items p) i"

definition root_items :: "plan \<Rightarrow> work_item list" where
  "root_items p = filter (\<lambda>w. wi_dependencies w = []) (pl_work_items p)"

section \<open>The cycle check\<close>

text \<open>
  Each round resolves the items all of whose dependencies are resolved; a round that
  resolves none while items are left means a cycle.
\<close>

definition resolvable :: "string list \<Rightarrow> string \<times> string list \<Rightarrow> bool" where
  "resolvable resolved d \<longleftrightarrow> set (snd d) \<subseteq> set resolved"

function resolve_rounds :: "(string \<times> string list) list \<Rightarrow> string list \<Rightarrow> err + unit" where
  "resolve_rounds deps resolved =
     (if deps = [] then Inr ()
      else if filter (resolvable resolved) deps = [] then Inl (ValueError ''cycle'')
      else resolve_rounds (filter (\<lambda>d. \<not> resolvable resolved d) deps)
             (resolved @ map fst (filter (resolvable resolved) deps)))"
  by pat_completeness auto
termination
  by (relation "measure (\<lambda>(deps, _). length deps)") (simp_all add: length_filter_drops)

declare resolve_rounds.simps [simp del]

definition ensure_acyclic :: "work_item list \<Rightarrow> err + unit" where
  "ensure_acyclic items = resolve_rounds (map (\<lambda>w. (wi_id w, wi_dependency_ids w)) items) []"

section \<open>Producers and consumers\<close>

text \<open>
  The ancestors of an item: a stack of items to visit, its top at the head (the code pops
  from and appends to the end of its list). An unknown parent raises \<open>KeyError\<close>.
\<close>

function ancestors_loop :: "work_item list \<Rightarrow> string list \<Rightarrow> string list \<Rightarrow> string list result" where
  "ancestors_loop items result [] = Inr result"
| "ancestors_loop items result (parent # pending) =
     (if parent \<in> set result then ancestors_loop items result pending
      else (case find_item items parent of
          None \<Rightarrow> Inl (KeyError parent)
        | Some w \<Rightarrow> ancestors_loop items (parent # result) (rev (wi_dependency_ids w) @ pending)))"
  by pat_completeness auto
termination
proof (relation "measures [\<lambda>(items, result, _). length (filter (\<lambda>w. wi_id w \<notin> set result) items),
    \<lambda>(_, _, pending). length pending]", goal_cases)
  case (3 items result parent pending w)
  then have "w \<in> set items" "wi_id w = parent" by (auto simp: find_item_def dest: find_Some_in)
  then have "length (filter (\<lambda>w. wi_id w \<notin> set (parent # result)) items)
      < length (filter (\<lambda>w. wi_id w \<notin> set result) items)"
    using 3(1) by (intro length_filter_strict [of _ _ w]) auto
  then show ?case by simp
qed simp_all

definition ancestors :: "work_item list \<Rightarrow> work_item \<Rightarrow> string list result" where
  "ancestors items w = ancestors_loop items [] (rev (wi_dependency_ids w))"

text \<open>One staged input of an integration node whose contract is \<open>c\<close>.\<close>

definition check_staged_input ::
  "string \<Rightarrow> work_item list \<Rightarrow> string list \<Rightarrow> delivery_contract \<Rightarrow> artifact_ref \<Rightarrow> err + unit" where
  "check_staged_input trace items upstream c r =
     (if ref_layer r \<noteq> ''staged'' then Inr ()
      else if ref_trace_id r \<noteq> Some trace then Inr ()
      else (case Option.bind (ref_work_item_id r) (find_item items) of
          None \<Rightarrow> Inl (ValueError ''producer not in the plan'')
        | Some producer \<Rightarrow> raises
            [(wi_id producer \<notin> set upstream, ValueError ''producer not awaited''),
             (wi_execution_mode producer \<noteq> PARTITIONED \<or> wi_slot producer \<noteq> ref_slot r
                \<or> (if or_empty (wi_artifact_key producer) \<noteq> [] then or_empty (wi_artifact_key producer)
                   else wi_output_key producer) \<noteq> ref_artifact_key r,
               ValueError ''delivery location''),
             (map_option dc_output_artifact_kind (item_contract producer) \<noteq> Some (dc_output_artifact_kind c),
               ValueError ''delivery protocol'')]))"

definition check_artifact_edges :: "string \<Rightarrow> work_item list \<Rightarrow> work_item \<Rightarrow> err + unit" where
  "check_artifact_edges trace items w =
     bindE (if wi_execution_mode w = QUALITY_GATE then
         (case Option.bind (wi_candidate_from w) (find_item items) of
            None \<Rightarrow> Inl (KeyError ''candidate_from_work_item_id'')
          | Some producer \<Rightarrow> raises
              [(wi_execution_mode producer \<noteq> INTEGRATION
                  \<or> wi_publish_target producer \<noteq> wi_publish_target w, ValueError ''QUALITY_GATE producer'')])
       else Inr ()) (\<lambda>_.
     if wi_execution_mode w \<noteq> INTEGRATION then Inr ()
     else (case item_contract w of
         None \<Rightarrow> Inr ()
       | Some c \<Rightarrow> bindE (ancestors items w) (\<lambda>upstream.
           for_each (check_staged_input trace items upstream c) (wi_input_refs w))))"

definition check_dependencies_known :: "work_item list \<Rightarrow> work_item \<Rightarrow> err + unit" where
  "check_dependencies_known items w = raises
     [(\<not> set (wi_dependency_ids w) \<subseteq> set (map wi_id items), ValueError ''unknown dependency''),
      (wi_execution_mode w = QUALITY_GATE
         \<and> (case wi_candidate_from w of None \<Rightarrow> True | Some i \<Rightarrow> i \<notin> set (wi_dependency_ids w)),
       ValueError ''QUALITY_GATE candidate not a dependency'')]"

text \<open>\<open>ExecutionPlan.__post_init__\<close>\<close>

definition mk_plan :: "plan \<Rightarrow> plan result" where
  "mk_plan p = (let items = pl_work_items p in
     bindE (raises
       [(blank (pl_id p), ValueError ''id''),
        (blank (pl_goal p), ValueError ''goal''),
        (items = [], ValueError ''work_items''),
        (blank_some (pl_template_id p), ValueError ''template_id''),
        (blank (pl_process_id p), ValueError ''process_id''),
        (pl_validation_scope p \<notin> {''full_delivery'', ''architecture'', ''vertical_slice''},
          ValueError ''validation_scope''),
        (\<not> distinct (map wi_id items), ValueError ''duplicate WorkItem id''),
        (validate_delivery_plan items \<noteq> [], ValueError ''delivery contracts'')]) (\<lambda>_.
     bindE (for_each (check_dependencies_known items) items) (\<lambda>_.
     bindE (ensure_acyclic items) (\<lambda>_.
     bindE (for_each (check_artifact_edges (tc_trace_id (pl_trace p)) items) items) (\<lambda>_. Inr p)))))"

end
