(* ===== verification/Plan_Laws.thy ===== *)
theory Plan_Laws
  imports Plan Work_Item_Laws
begin

text \<open>
  The cycle check decides acyclicity, the ancestor loop computes the transitive closure of the
  dependency relation, and what follows for the plans the constructor accepts.
\<close>

section \<open>The dependency relation\<close>

definition dep_edges :: "work_item list \<Rightarrow> (string \<times> string) set" where
  "dep_edges items = {(d, wi_id w) |d w. w \<in> set items \<and> d \<in> set (wi_dependency_ids w)}"

definition deps_known :: "work_item list \<Rightarrow> bool" where
  "deps_known items \<longleftrightarrow> (\<forall>w \<in> set items. set (wi_dependency_ids w) \<subseteq> wi_id ` set items)"

lemma find_item_Some: "find_item items i = Some w \<Longrightarrow> w \<in> set items \<and> wi_id w = i"
  by (auto simp: find_item_def dest: find_Some_in)

lemma find_item_of: "distinct (map wi_id items) \<Longrightarrow> w \<in> set items \<Longrightarrow> find_item items (wi_id w) = Some w"
  unfolding find_item_def by (rule find_distinct_key)

lemma find_item_None: "find_item items i = None \<longleftrightarrow> i \<notin> wi_id ` set items"
  by (auto simp: find_item_def find_None_iff)

lemma dep_edges_of:
  "distinct (map wi_id items) \<Longrightarrow> w \<in> set items \<Longrightarrow> (d, wi_id w) \<in> dep_edges items \<longleftrightarrow> d \<in> set (wi_dependency_ids w)"
  by (auto simp: dep_edges_def dest: find_item_of)
    (metis find_item_of option.inject)

section \<open>The cycle check\<close>

text \<open>A run of the rounds that succeeds gives every item a rank above the ranks of its dependencies.\<close>

lemma resolve_rounds_rank:
  "resolve_rounds deps resolved = Inr () \<Longrightarrow> distinct (map fst deps) \<Longrightarrow>
     \<exists>f :: string \<Rightarrow> nat. \<forall>(i, required) \<in> set deps. \<forall>d \<in> set required. d \<in> set resolved \<or> f d < f i"
proof (induction deps resolved rule: resolve_rounds.induct)
  case (1 deps resolved)
  let ?ready = "filter (resolvable resolved) deps" and ?rest = "filter (\<lambda>d. \<not> resolvable resolved d) deps"
  show ?case
  proof (cases "deps = []")
    case False
    with 1(2) have nonempty: "?ready \<noteq> []" by (auto simp: resolve_rounds.simps [of deps])
    with False 1(2) have "resolve_rounds ?rest (resolved @ map fst ?ready) = Inr ()"
      by (simp add: resolve_rounds.simps [of deps])
    moreover have "distinct (map fst ?rest)" using 1(3) by (simp add: distinct_map_filter)
    ultimately obtain f :: "string \<Rightarrow> nat" where
      f: "\<forall>(i, required) \<in> set ?rest. \<forall>d \<in> set required. d \<in> set (resolved @ map fst ?ready) \<or> f d < f i"
      using 1(1) [OF False nonempty] by blast
    define g where "g x = (if x \<in> fst ` set ?ready then 0 else Suc (f x))" for x
    have "d \<in> set resolved \<or> g d < g i" if "(i, required) \<in> set deps" "d \<in> set required" for i required d
    proof (cases "resolvable resolved (i, required)")
      case True
      with that(2) show ?thesis by (auto simp: resolvable_def)
    next
      case False
      then have "(i, required) \<in> set ?rest" using that(1) by simp
      with f that(2) have step: "d \<in> set resolved \<or> d \<in> fst ` set ?ready \<or> f d < f i" by fastforce
      have "i \<notin> fst ` set ?ready"
        using that(1) False by (auto dest: eq_key_imp_eq_value [OF 1(3)])
      then show ?thesis using step by (auto simp: g_def)
    qed
    then show ?thesis by (intro exI [of _ g]) auto
  qed simp
qed

lemma resolve_rounds_no_cycle:
  assumes "acyclic E" "finite E"
    and "\<And>i required d. (i, required) \<in> set deps \<Longrightarrow> d \<in> set required \<Longrightarrow>
      d \<in> set resolved \<or> (d \<in> fst ` set deps \<and> (d, i) \<in> E)"
  shows "resolve_rounds deps resolved = Inr ()"
  using assms(3)
proof (induction deps resolved rule: resolve_rounds.induct)
  case (1 deps resolved)
  let ?ready = "filter (resolvable resolved) deps" and ?rest = "filter (\<lambda>d. \<not> resolvable resolved d) deps"
  show ?case
  proof (cases "deps = []")
    case False
    then obtain x where "x \<in> fst ` set deps" by (cases deps) auto
    with finite_acyclic_wf [OF assms(2,1)] obtain z where
      z: "z \<in> fst ` set deps" "\<And>y. (y, z) \<in> E \<Longrightarrow> y \<notin> fst ` set deps"
      by (rule wfE_min) blast
    then obtain required where "(z, required) \<in> set deps" by auto
    moreover from this have "resolvable resolved (z, required)"
      using 1(2) z(2) by (fastforce simp: resolvable_def)
    ultimately have nonempty: "?ready \<noteq> []" by (auto simp: filter_empty_conv)
    have "resolve_rounds ?rest (resolved @ map fst ?ready) = Inr ()"
    proof (rule 1(1) [OF False nonempty])
      fix i required d
      assume "(i, required) \<in> set ?rest" "d \<in> set required"
      then have "d \<in> set resolved \<or> (d \<in> fst ` set deps \<and> (d, i) \<in> E)" using 1(2) [of i required d] by simp
      moreover have "fst ` set deps = fst ` set ?ready \<union> fst ` set ?rest" by auto
      ultimately show "d \<in> set (resolved @ map fst ?ready) \<or> (d \<in> fst ` set ?rest \<and> (d, i) \<in> E)" by auto
    qed
    then show ?thesis using False nonempty by (simp add: resolve_rounds.simps [of deps])
  qed (simp add: resolve_rounds.simps)
qed

lemma dep_edges_finite: "finite (dep_edges items)"
proof -
  have "dep_edges items = (\<Union>w \<in> set items. (\<lambda>d. (d, wi_id w)) ` set (wi_dependency_ids w))"
    by (auto simp: dep_edges_def)
  then show ?thesis by simp
qed

lemma acyclic_of_rank:
  assumes "\<And>d i. (d, i) \<in> E \<Longrightarrow> (f d :: nat) < f i"
  shows "acyclic E"
proof -
  have "E \<subseteq> measure f" using assms by auto
  then show ?thesis by (meson wf_measure wf_subset wf_acyclic)
qed

lemma ensure_acyclic_iff:
  assumes "distinct (map wi_id items)" "deps_known items"
  shows "ensure_acyclic items = Inr () \<longleftrightarrow> acyclic (dep_edges items)"
proof
  assume "ensure_acyclic items = Inr ()"
  then obtain f :: "string \<Rightarrow> nat" where
    "\<forall>(i, required) \<in> set (map (\<lambda>w. (wi_id w, wi_dependency_ids w)) items). \<forall>d \<in> set required. f d < f i"
    using resolve_rounds_rank [of "map (\<lambda>w. (wi_id w, wi_dependency_ids w)) items" "[]"] assms(1)
    by (auto simp: ensure_acyclic_def comp_def)
  then have "f d < f i" if "(d, i) \<in> dep_edges items" for d i
    using that by (auto simp: dep_edges_def)
  then show "acyclic (dep_edges items)" by (rule acyclic_of_rank)
next
  assume "acyclic (dep_edges items)"
  then show "ensure_acyclic items = Inr ()"
    unfolding ensure_acyclic_def
    by (rule resolve_rounds_no_cycle [OF _ dep_edges_finite])
      (use assms(2) in \<open>force simp: deps_known_def dep_edges_def\<close>)
qed

section \<open>The ancestors\<close>

lemma ancestors_loop_sound:
  "ancestors_loop items result stack = Inr r \<Longrightarrow>
     set r \<subseteq> set result \<union> {x. \<exists>s \<in> set stack. (x, s) \<in> (dep_edges items)\<^sup>*}"
proof (induction items result stack rule: ancestors_loop.induct)
  case (2 items result parent pending)
  show ?case
  proof (cases "parent \<in> set result")
    case True
    then show ?thesis using 2(1) 2(3) by auto
  next
    case False
    with 2(3) obtain w where w: "find_item items parent = Some w" by (auto split: option.splits)
    then have wi: "w \<in> set items" "wi_id w = parent" by (auto dest: find_item_Some)
    have "(d, parent) \<in> dep_edges items" if "d \<in> set (wi_dependency_ids w)" for d
      using that wi by (auto simp: dep_edges_def)
    then have "(x, parent) \<in> (dep_edges items)\<^sup>*"
      if "d \<in> set (wi_dependency_ids w)" "(x, d) \<in> (dep_edges items)\<^sup>*" for x d
      using that by (meson rtrancl.rtrancl_into_rtrancl)
    moreover have "set r \<subseteq> set (parent # result) \<union>
        {x. \<exists>s \<in> set (rev (wi_dependency_ids w) @ pending). (x, s) \<in> (dep_edges items)\<^sup>*}"
      using 2(2) [OF False w] 2(3) False w by simp
    ultimately show ?thesis by fastforce
  qed
qed simp

lemma ancestors_loop_closed:
  "ancestors_loop items result stack = Inr r \<Longrightarrow>
     set result \<union> set stack \<subseteq> set r
     \<and> (\<forall>x \<in> set r - set result. \<exists>w. find_item items x = Some w \<and> set (wi_dependency_ids w) \<subseteq> set r)"
proof (induction items result stack rule: ancestors_loop.induct)
  case (2 items result parent pending)
  show ?case
  proof (cases "parent \<in> set result")
    case True
    then show ?thesis using 2(1) 2(3) by auto
  next
    case False
    with 2(3) obtain w where w: "find_item items parent = Some w" by (auto split: option.splits)
    then show ?thesis using 2(2) [OF False w] 2(3) False by auto
  qed
qed simp

lemma ancestors_loop_returns:
  "deps_known items \<Longrightarrow> set stack \<subseteq> wi_id ` set items \<Longrightarrow> \<exists>r. ancestors_loop items result stack = Inr r"
proof (induction items result stack rule: ancestors_loop.induct)
  case (2 items result parent pending)
  show ?case
  proof (cases "parent \<in> set result")
    case False
    from 2(4) obtain w where w: "find_item items parent = Some w"
      using find_item_None [of items parent] by (cases "find_item items parent") auto
    then have "set (wi_dependency_ids w) \<subseteq> wi_id ` set items"
      using 2(3) by (auto simp: deps_known_def dest: find_item_Some)
    with 2(2) [OF False w 2(3)] 2(4) False w show ?thesis by simp
  qed (use 2 in simp)
qed simp

text \<open>The ancestors of an item are its predecessors in the transitive closure.\<close>

lemma ancestors_trancl:
  assumes "distinct (map wi_id items)" "w \<in> set items" "ancestors items w = Inr r"
  shows "set r = {x. (x, wi_id w) \<in> (dep_edges items)\<^sup>+}"
proof (intro equalityI subsetI)
  fix x assume "x \<in> set r"
  with ancestors_loop_sound [OF assms(3) [unfolded ancestors_def]] obtain d where
    "d \<in> set (wi_dependency_ids w)" "(x, d) \<in> (dep_edges items)\<^sup>*" by auto
  moreover from this(1) have "(d, wi_id w) \<in> dep_edges items" using assms(1,2) by (simp add: dep_edges_of)
  ultimately show "x \<in> {x. (x, wi_id w) \<in> (dep_edges items)\<^sup>+}" by simp
next
  fix x assume "x \<in> {x. (x, wi_id w) \<in> (dep_edges items)\<^sup>+}"
  then have "(x, wi_id w) \<in> (dep_edges items)\<^sup>+" by simp
  note closed = ancestors_loop_closed [OF assms(3) [unfolded ancestors_def]]
  from \<open>(x, wi_id w) \<in> (dep_edges items)\<^sup>+\<close> show "x \<in> set r"
  proof (induction rule: converse_trancl_induct)
    case (base y)
    then show ?case using closed assms(1,2) by (auto simp: dep_edges_of)
  next
    case (step y z)
    then obtain v where v: "find_item items z = Some v" "set (wi_dependency_ids v) \<subseteq> set r"
      using closed by auto
    then have "v \<in> set items" "wi_id v = z" by (auto dest: find_item_Some)
    with step(1) have "y \<in> set (wi_dependency_ids v)" using assms(1) dep_edges_of by blast
    then show ?case using v(2) by blast
  qed
qed

section \<open>Plans\<close>

lemma mk_plan_checks:
  assumes "mk_plan p = Inr q"
  shows "q = p" "distinct (map wi_id (pl_work_items p))" "pl_work_items p \<noteq> []"
    "deps_known (pl_work_items p)" "acyclic (dep_edges (pl_work_items p))"
    "validate_delivery_plan (pl_work_items p) = []"
    "w \<in> set (pl_work_items p) \<Longrightarrow>
       check_artifact_edges (tc_trace_id (pl_trace p)) (pl_work_items p) w = Inr ()"
proof -
  let ?items = "pl_work_items p"
  from assms have st: "q = p" "distinct (map wi_id ?items)" "?items \<noteq> []" "validate_delivery_plan ?items = []"
      "for_each (check_dependencies_known ?items) ?items = Inr ()" "ensure_acyclic ?items = Inr ()"
      "for_each (check_artifact_edges (tc_trace_id (pl_trace p)) ?items) ?items = Inr ()"
    unfolding mk_plan_def Let_def bindE_Inr_unit by auto
  show "q = p" "distinct (map wi_id ?items)" "?items \<noteq> []" "validate_delivery_plan ?items = []"
    by (rule st)+
  show known: "deps_known ?items"
    using st(5) by (auto simp: deps_known_def for_each_Inr_iff check_dependencies_known_def split: if_splits)
  show "acyclic (dep_edges ?items)" using st(6) ensure_acyclic_iff [OF st(2) known] by simp
  show "w \<in> set ?items \<Longrightarrow> check_artifact_edges (tc_trace_id (pl_trace p)) ?items w = Inr ()"
    using st(7) by (simp add: for_each_Inr_iff)
qed

text \<open>C28. The cycle check decides acyclicity: for items with distinct identifiers whose dependencies
  all name an item of the plan, the rounds end without an error exactly when the dependency
  relation has no cycle.\<close>

theorem cycle_check_decides:
  assumes "distinct (map wi_id items)" "deps_known items"
  shows "ensure_acyclic items = Inr () \<longleftrightarrow> acyclic (dep_edges items)"
  by (rule ensure_acyclic_iff [OF assms])

lemma integration_producer:
  assumes "mk_plan p = Inr p" and "w \<in> set (pl_work_items p)"
    and "wi_execution_mode w = INTEGRATION" "item_contract w \<noteq> None"
    and "r \<in> set (wi_input_refs w)" "ref_layer r = ''staged''"
    and "ref_trace_id r = Some (tc_trace_id (pl_trace p))"
  shows "\<exists>v \<in> set (pl_work_items p). ref_work_item_id r = Some (wi_id v)
    \<and> (wi_id v, wi_id w) \<in> (dep_edges (pl_work_items p))\<^sup>+
    \<and> wi_execution_mode v = PARTITIONED \<and> wi_slot v = ref_slot r"
proof -
  let ?items = "pl_work_items p"
  note c = mk_plan_checks [OF assms(1)]
  from assms(3,4) c(7) [OF assms(2)] obtain k up where
    up: "ancestors ?items w = Inr up"
    and inputs: "for_each (check_staged_input (tc_trace_id (pl_trace p)) ?items up k) (wi_input_refs w) = Inr ()"
    by (auto simp: check_artifact_edges_def split: if_splits)
  from inputs assms(5) have "check_staged_input (tc_trace_id (pl_trace p)) ?items up k r = Inr ()"
    by (simp add: for_each_Inr_iff)
  with assms(6,7) obtain i v where "ref_work_item_id r = Some i" "find_item ?items i = Some v"
      "wi_id v \<in> set up" "wi_execution_mode v = PARTITIONED" "wi_slot v = ref_slot r"
    by (auto simp: check_staged_input_def raises_Inr_iff split: bind_splits option.splits)
  moreover from this have "v \<in> set ?items" "wi_id v = i" by (auto dest: find_item_Some)
  ultimately show ?thesis
    using ancestors_trancl [OF c(2) assms(2) up] by auto
qed

text \<open>A plan the constructor accepts orders its staged data flow: an integration item with a
  delivery contract that reads a staged output of this run depends, directly or through other
  items, on the one item that produces it, and that item delivers to the referenced slot.\<close>

theorem integration_awaits_producers:
  assumes "mk_plan p = Inr p" and "w \<in> set (pl_work_items p)"
    and "wi_execution_mode w = INTEGRATION" "item_contract w \<noteq> None"
    and "r \<in> set (wi_input_refs w)" "ref_layer r = ''staged''"
    and "ref_trace_id r = Some (tc_trace_id (pl_trace p))"
  shows "\<exists>v \<in> set (pl_work_items p). ref_work_item_id r = Some (wi_id v)
    \<and> (wi_id v, wi_id w) \<in> (dep_edges (pl_work_items p))\<^sup>+
    \<and> wi_execution_mode v = PARTITIONED \<and> wi_slot v = ref_slot r"
  by (rule integration_producer [OF assms])

section \<open>A concrete plan\<close>

definition demo_trace :: trace_context where
  "demo_trace = \<lparr>tc_requirement_id = ''req-1'', tc_trace_id = ''tr-1'', tc_parent_trace_id = None\<rparr>"

definition demo_blueprint :: work_item where
  "demo_blueprint = projr (mk_work_item demo_sha
     ((blank_work_item ''wi-1'' ''architecture_agent'' ''blueprint'' ''architecture_blueprint'')
       \<lparr>wi_artifact_key := Some ''architecture'', wi_execution_mode := PARTITIONED,
        wi_slot := Some ''blueprint''\<rparr>))"

definition demo_users :: work_item where
  "demo_users = projr (mk_work_item demo_sha
     ((blank_work_item ''wi-2'' ''architecture_agent'' ''users'' ''architecture_users'')
       \<lparr>wi_artifact_key := Some ''architecture'', wi_execution_mode := PARTITIONED,
        wi_slot := Some ''module-users'',
        wi_dependencies := [\<lparr>dep_work_item_id = ''wi-1'', dep_source = SYSTEM, dep_rule_id = None\<rparr>]\<rparr>))"

definition demo_users_ref :: artifact_ref where
  "demo_users_ref = projr (ref_staged ''architecture'' ''tr-1'' ''wi-2'' ''module-users'')"

definition demo_merge :: work_item where
  "demo_merge = projr (mk_work_item demo_sha
     ((blank_work_item ''wi-3'' ''architecture_agent'' ''merge'' ''architecture_candidate'')
       \<lparr>wi_artifact_key := Some ''architecture'', wi_execution_mode := INTEGRATION,
        wi_publish_target := Some ''architecture'', wi_stage_id := Some ''architecture_integration'',
        wi_input_refs := [demo_users_ref],
        wi_dependencies := [\<lparr>dep_work_item_id = ''wi-2'', dep_source = SYSTEM, dep_rule_id = None\<rparr>]\<rparr>))"

definition demo_plan :: plan where
  "demo_plan = \<lparr>pl_id = ''plan-1'', pl_goal = ''goal'',
     pl_work_items = [demo_blueprint, demo_users, demo_merge], pl_template_id = None,
     pl_process_id = ''software_delivery'', pl_trace = demo_trace, pl_validation_scope = ''full_delivery''\<rparr>"

lemma demo_plan_ok: "mk_plan demo_plan = Inr demo_plan"
proof -
  have "\<not> isl (mk_plan demo_plan)" by code_simp
  then obtain q where "mk_plan demo_plan = Inr q" by (cases "mk_plan demo_plan") auto
  with mk_plan_checks(1) show ?thesis by metis
qed

theorem cycle_check_decides_witness:
  "ensure_acyclic (pl_work_items demo_plan) = Inr () \<longleftrightarrow> acyclic (dep_edges (pl_work_items demo_plan))"
  by (rule cycle_check_decides) (rule mk_plan_checks [OF demo_plan_ok])+

theorem integration_awaits_producers_witness:
  "\<exists>v \<in> set (pl_work_items demo_plan). ref_work_item_id demo_users_ref = Some (wi_id v)
    \<and> (wi_id v, wi_id demo_merge) \<in> (dep_edges (pl_work_items demo_plan))\<^sup>+
    \<and> wi_execution_mode v = PARTITIONED \<and> wi_slot v = ref_slot demo_users_ref"
  by (rule integration_awaits_producers [OF demo_plan_ok])
    (simp add: demo_plan_def, code_simp+)

end
