(* ===== verification/Node_Result.thy ===== *)
theory Node_Result
  imports Retry
begin

text \<open>
  What an agent answers (\<^verbatim>\<open>app/agent/result.py\<close>), the registry of agents
  (\<^verbatim>\<open>app/agent/registry.py\<close>), and the result of a node the runner works with
  (\<^verbatim>\<open>app/orchestration/node_result.py\<close>).
\<close>

section \<open>Capability requests\<close>

record capability_request =
  cq_capability :: string
  cq_reason :: string

text \<open>\<open>needle in text\<close>\<close>

definition contains :: "string \<Rightarrow> string \<Rightarrow> bool" where
  "contains needle haystack \<longleftrightarrow> sublist needle haystack"

text \<open>
  Splitting at runs of separators; of the separators of the code only those of the
  character model are listed (the others are full-width punctuation).
\<close>

definition is_separator :: "char \<Rightarrow> bool" where
  "is_separator c \<longleftrightarrow> c = CHR '','' \<or> c = CHR '';'' \<or> c = CHR ''|'' \<or> is_space c"

fun split_runs :: "string \<Rightarrow> string \<Rightarrow> string list" where
  "split_runs acc [] = (if acc = [] then [] else [rev acc])"
| "split_runs acc (c # cs) =
     (if is_separator c then (if acc = [] then [] else [rev acc]) @ split_runs [] cs
      else split_runs (c # acc) cs)"

definition normalize_capability :: "string \<Rightarrow> string" where
  "normalize_capability v =
     (let raw = py_lower (py_strip v); parts = split_runs [] raw in
      if contains ''external'' raw \<and> (contains ''document'' raw \<or> contains ''doc'' raw)
      then ''external_documentation''
      else if ''prepare_environment'' \<in> set parts \<and> ''save_environment'' \<in> set parts
      then ''environment_preparation''
      else if contains ''environment'' raw
          \<and> (contains ''save'' raw \<or> contains ''prepare'' raw \<or> contains ''persistence'' raw)
          \<and> (contains ''approval'' raw \<or> contains ''dependency'' raw \<or> contains ''persistence'' raw)
      then ''environment_preparation''
      else (case map_of [(''save environment'', ''save_environment''),
                         (''prepare environment'', ''prepare_environment''),
                         (''external documentation'', ''external_documentation'')] raw of
          Some alias \<Rightarrow> alias | None \<Rightarrow> raw))"

definition normalized_request :: "capability_request \<Rightarrow> capability_request" where
  "normalized_request q = \<lparr>cq_capability = normalize_capability (cq_capability q),
     cq_reason = py_strip (cq_reason q)\<rparr>"

section \<open>Agent results\<close>

datatype agent_status = Agent_COMPLETED | Agent_NEEDS_CAPABILITY

record agent_result =
  ar_status :: agent_status
  ar_content :: "string option"
  ar_capability_request :: "capability_request option"

definition agent_completed :: "string \<Rightarrow> agent_result" where
  "agent_completed content =
     \<lparr>ar_status = Agent_COMPLETED, ar_content = Some content, ar_capability_request = None\<rparr>"

definition agent_needs_capability :: "string \<Rightarrow> string \<Rightarrow> agent_result" where
  "agent_needs_capability capability reason =
     \<lparr>ar_status = Agent_NEEDS_CAPABILITY, ar_content = None,
      ar_capability_request =
        Some (normalized_request \<lparr>cq_capability = capability, cq_reason = reason\<rparr>)\<rparr>"

text \<open>\<open>payload\<close> is what \<open>json.loads\<close> makes of the content, if it is JSON.\<close>

definition from_llm_content :: "string \<Rightarrow> json option \<Rightarrow> agent_result" where
  "from_llm_content content payload = (case payload of
      None \<Rightarrow> agent_completed content
    | Some j \<Rightarrow>
        (case (json_get j ''type'', json_get j ''capability'', json_get j ''reason'') of
           (Some (JStr t), Some (JStr c), Some (JStr r)) \<Rightarrow>
             if t = ''capability_request'' \<and> \<not> blank c \<and> \<not> blank r
             then agent_needs_capability (py_strip c) (py_strip r) else agent_completed content
         | _ \<Rightarrow> agent_completed content))"

section \<open>The agent registry\<close>

record agent_definition =
  ad_id :: string
  ad_domain :: string
  ad_description :: string
  ad_output_key :: string
  ad_max_parallel_instances :: int
  ad_artifact_key :: "string option"

definition mk_agent_definition :: "agent_definition \<Rightarrow> agent_definition result" where
  "mk_agent_definition d = bindE (raises
     [(blank (ad_id d), ValueError ''id''),
      (blank (ad_domain d), ValueError ''domain''),
      (blank (ad_description d), ValueError ''description''),
      (blank (ad_output_key d), ValueError ''output_key''),
      (ad_max_parallel_instances d < 1, ValueError ''max_parallel_instances''),
      (blank_some (ad_artifact_key d), ValueError ''artifact_key'')]) (\<lambda>_. Inr d)"

text \<open>The definitions and the factories, both by agent identifier.\<close>

record 'f agent_registry =
  ag_definitions :: "(string, agent_definition) dict"
  ag_factories :: "(string, 'f) dict"

definition empty_registry :: "'f agent_registry" where
  "empty_registry = \<lparr>ag_definitions = [], ag_factories = []\<rparr>"

definition register_agent ::
  "agent_definition \<Rightarrow> 'f \<Rightarrow> 'f agent_registry \<Rightarrow> 'f agent_registry result" where
  "register_agent d f reg =
     (if dict_get (ag_definitions reg) (ad_id d) \<noteq> None then Inl (ValueError ''agent registered'')
      else (case List.find (\<lambda>r. ad_output_key r = ad_output_key d) (map snd (ag_definitions reg)) of
          Some _ \<Rightarrow> Inl (ValueError ''output_key taken'')
        | None \<Rightarrow> Inr (reg\<lparr>ag_definitions := dict_put (ad_id d) d (ag_definitions reg),
                         ag_factories := dict_put (ad_id d) f (ag_factories reg)\<rparr>)))"

definition agent_of :: "'f agent_registry \<Rightarrow> string \<Rightarrow> agent_definition option" where
  "agent_of reg i = dict_get (ag_definitions reg) i"

definition agent_definitions :: "'f agent_registry \<Rightarrow> agent_definition list" where
  "agent_definitions reg = map snd (ag_definitions reg)"

definition create_agent :: "'f agent_registry \<Rightarrow> string \<Rightarrow> 'f result" where
  "create_agent reg i = (case dict_get (ag_factories reg) i of
     None \<Rightarrow> Inl (KeyError i) | Some f \<Rightarrow> Inr f)"

section \<open>Node results\<close>

datatype node_status = COMPLETED | NEEDS_CAPABILITY | NEEDS_REPLAN | FAILED

fun node_status_value :: "node_status \<Rightarrow> string" where
  "node_status_value COMPLETED = ''completed''"
| "node_status_value NEEDS_CAPABILITY = ''needs_capability''"
| "node_status_value NEEDS_REPLAN = ''needs_replan''"
| "node_status_value FAILED = ''failed''"

definition node_status_members :: "node_status list" where
  "node_status_members = [COMPLETED, NEEDS_CAPABILITY, NEEDS_REPLAN, FAILED]"

definition node_status_of :: "string \<Rightarrow> node_status result" where
  "node_status_of = enum_of ''NodeStatus'' node_status_value node_status_members"

lemma node_status_of_value [simp]: "node_status_of (node_status_value k) = Inr k"
  unfolding node_status_of_def by (rule enum_of_value; cases k) (simp_all add: node_status_members_def)

record node_result =
  nr_work_item_id :: string
  nr_agent_id :: string
  nr_status :: node_status
  nr_content :: "string option"
  nr_capability_request :: "capability_request option"
  nr_failure_signal :: "failure_signal option"
  nr_error :: "string option"

definition node_result_as_dict :: "(string \<Rightarrow> string) \<Rightarrow> node_result \<Rightarrow> json" where
  "node_result_as_dict sha r = JObj
    [(''work_item_id'', JStr (nr_work_item_id r)),
     (''agent_id'', JStr (nr_agent_id r)),
     (''status'', JStr (node_status_value (nr_status r))),
     (''content'', jopt (nr_content r)),
     (''capability_request'', (case nr_capability_request r of None \<Rightarrow> JNull | Some q \<Rightarrow>
        JObj [(''capability'', JStr (cq_capability q)), (''reason'', JStr (cq_reason q))])),
     (''failure_signal'', (case nr_failure_signal r of None \<Rightarrow> JNull | Some s \<Rightarrow> signal_as_dict sha s)),
     (''error'', jopt (nr_error r))]"

definition node_result_from_dict :: "json \<Rightarrow> node_result result" where
  "node_result_from_dict j =
     (let cap = json_get_null j ''capability_request''; failure = json_get_null j ''failure_signal'' in
      bindE (if is_obj cap
             then bindE (str_field cap ''capability'') (\<lambda>c. bindE (str_field cap ''reason'') (\<lambda>r.
                    Inr (Some \<lparr>cq_capability = c, cq_reason = r\<rparr>)))
             else Inr None) (\<lambda>capability.
      bindE (if is_obj failure then bindE (signal_from_dict failure) (\<lambda>s. Inr (Some s)) else Inr None)
        (\<lambda>sig.
      bindE (str_field j ''agent_id'') (\<lambda>agent.
      bindE (bindE (str_field j ''status'') node_status_of) (\<lambda>status.
      Inr \<lparr>nr_work_item_id = (case json_get j ''work_item_id'' of
              Some v \<Rightarrow> py_str v
            | None \<Rightarrow> (case json_get j ''node_id'' of Some v \<Rightarrow> py_str v | None \<Rightarrow> [])),
          nr_agent_id = agent, nr_status = status,
          nr_content = opt_str_field j ''content'',
          nr_capability_request = capability, nr_failure_signal = sig,
          nr_error = opt_str_field j ''error''\<rparr>)))))"

definition validate_node_id :: "string \<Rightarrow> err + unit" where
  "validate_node_id i = raises [(blank i, ValueError ''work_item_id'')]"

definition node_failed :: "string \<Rightarrow> string \<Rightarrow> string \<Rightarrow> node_result result" where
  "node_failed item agent e = bindE (validate_node_id item) (\<lambda>_. Inr
     \<lparr>nr_work_item_id = item, nr_agent_id = agent, nr_status = FAILED, nr_content = None,
      nr_capability_request = None, nr_failure_signal = None, nr_error = Some e\<rparr>)"

definition node_completed :: "string \<Rightarrow> string \<Rightarrow> string \<Rightarrow> node_result result" where
  "node_completed item agent content = bindE (validate_node_id item) (\<lambda>_. Inr
     \<lparr>nr_work_item_id = item, nr_agent_id = agent, nr_status = COMPLETED, nr_content = Some content,
      nr_capability_request = None, nr_failure_signal = None, nr_error = None\<rparr>)"

definition node_needs_replan ::
  "string \<Rightarrow> string \<Rightarrow> failure_signal \<Rightarrow> string option \<Rightarrow> node_result result" where
  "node_needs_replan item agent s content = bindE (validate_node_id item) (\<lambda>_. Inr
     \<lparr>nr_work_item_id = item, nr_agent_id = agent, nr_status = NEEDS_REPLAN, nr_content = content,
      nr_capability_request = None, nr_failure_signal = Some s, nr_error = None\<rparr>)"

definition from_agent_result :: "string \<Rightarrow> string \<Rightarrow> agent_result \<Rightarrow> node_result result" where
  "from_agent_result item agent r = bindE (validate_node_id item) (\<lambda>_.
     case ar_status r of
       Agent_COMPLETED \<Rightarrow> Inr
         \<lparr>nr_work_item_id = item, nr_agent_id = agent, nr_status = COMPLETED, nr_content = ar_content r,
          nr_capability_request = None, nr_failure_signal = None, nr_error = None\<rparr>
     | Agent_NEEDS_CAPABILITY \<Rightarrow> Inr
         \<lparr>nr_work_item_id = item, nr_agent_id = agent, nr_status = NEEDS_CAPABILITY, nr_content = None,
          nr_capability_request = ar_capability_request r, nr_failure_signal = None, nr_error = None\<rparr>)"

lemma node_result_from_as_dict: "node_result_from_dict (node_result_as_dict sha r) = Inr r"
  by (cases r; cases "nr_capability_request r"; cases "nr_failure_signal r")
    (simp_all add: node_result_from_dict_def node_result_as_dict_def json_get_null_def str_field_def
      opt_str_field_jopt)

end
