(* ===== verification/Run_State.thy ===== *)
theory Run_State
  imports Plan Node_Result
begin

text \<open>
  \<^verbatim>\<open>app/orchestration/state.py\<close>: the state of a run, its checkpoint, and the selection of
  the items that may run. A checkpoint is the JSON object \<open>as_checkpoint\<close> builds; reading it
  trusts completed results only.
\<close>

record run_state =
  rs_plan :: plan
  rs_results :: "(string, node_result) dict"
  rs_artifacts :: "(string, string) dict"
  rs_forced :: "string set"
  rs_diagnostics :: "(string, string) dict"
  rs_retry_contexts :: "(string, json) dict"

definition new_run :: "plan \<Rightarrow> run_state" where
  "new_run p = \<lparr>rs_plan = p, rs_results = [], rs_artifacts = [], rs_forced = {}, rs_diagnostics = [],
     rs_retry_contexts = []\<rparr>"

definition is_completed :: "(string, node_result) dict \<Rightarrow> string \<Rightarrow> bool" where
  "is_completed results i =
     (case dict_get results i of None \<Rightarrow> False | Some r \<Rightarrow> nr_status r = COMPLETED)"

definition completed_results :: "run_state \<Rightarrow> (string, node_result) dict" where
  "completed_results s = filter (\<lambda>(_, r). nr_status r = COMPLETED) (rs_results s)"

section \<open>Scheduling and recording\<close>

definition ready_items :: "run_state \<Rightarrow> work_item list" where
  "ready_items s = filter (\<lambda>w. dict_get (rs_results s) (wi_id w) = None
       \<and> list_all (is_completed (rs_results s)) (wi_dependency_ids w)) (pl_work_items (rs_plan s))"

definition record_result :: "work_item \<Rightarrow> node_result \<Rightarrow> run_state \<Rightarrow> run_state result" where
  "record_result w r s =
     (if nr_work_item_id r \<noteq> wi_id w \<or> nr_agent_id r \<noteq> wi_agent_id w
      then Inl (ValueError ''NodeResult does not match'')
      else if dict_get (rs_results s) (wi_id w) \<noteq> None then Inl (ValueError ''already recorded'')
      else
        let s1 = s\<lparr>rs_results := dict_put (wi_id w) r (rs_results s)\<rparr> in
        if nr_status r \<noteq> COMPLETED then Inr s1
        else
          let s2 = s1\<lparr>rs_forced := rs_forced s1 - {wi_id w},
                     rs_diagnostics := dict_pop (wi_id w) (rs_diagnostics s1),
                     rs_retry_contexts := dict_pop (wi_id w) (rs_retry_contexts s1)\<rparr>
          in (case nr_content r of
                None \<Rightarrow> Inr s2
              | Some c \<Rightarrow> Inr (s2\<lparr>rs_artifacts := dict_put (wi_output_key w) c (rs_artifacts s2)\<rparr>)))"

definition run_complete :: "run_state \<Rightarrow> bool" where
  "run_complete s \<longleftrightarrow> length (rs_results s) = length (pl_work_items (rs_plan s))
     \<and> list_all (\<lambda>(_, r). nr_status r = COMPLETED) (rs_results s)"

section \<open>The checkpoint\<close>

text \<open>\<open>{**result.as_dict(), "content": None}\<close>\<close>

definition checkpoint_result :: "(string \<Rightarrow> string) \<Rightarrow> node_result \<Rightarrow> json" where
  "checkpoint_result sha r = (case node_result_as_dict sha r of
     JObj kvs \<Rightarrow> JObj (dict_put ''content'' JNull kvs) | j \<Rightarrow> j)"

definition checkpoint_ref :: "work_item \<Rightarrow> string \<times> json" where
  "checkpoint_ref w = (wi_output_key w, JObj
     [(''artifact_key'', JStr (if or_empty (wi_artifact_key w) \<noteq> [] then or_empty (wi_artifact_key w)
                              else wi_output_key w)),
      (''work_item_id'', JStr (wi_id w)),
      (''contract_digest'', jopt (wi_contract_digest w))])"

definition as_checkpoint :: "(string \<Rightarrow> string) \<Rightarrow> run_state \<Rightarrow> json" where
  "as_checkpoint sha s =
     (let items = pl_work_items (rs_plan s) in JObj
      [(''schema_version'', JInt 1),
       (''plan_id'', JStr (pl_id (rs_plan s))),
       (''trace_id'', JStr (tc_trace_id (pl_trace (rs_plan s)))),
       (''node_results'', JList (map (checkpoint_result sha \<circ> snd) (rs_results s))),
       (''artifact_refs'', JObj (dict_of (map checkpoint_ref
          (filter (\<lambda>w. is_completed (rs_results s) (wi_id w)) items)))),
       (''completed_work_items'', jstrs (sort (map fst (completed_results s)))),
       (''pending_work_items'', jstrs (map wi_id
          (filter (\<lambda>w. dict_get (rs_results s) (wi_id w) = None) items))),
       (''forced_rerun_work_item_ids'', jstrs (sorted_list_of_set (rs_forced s))),
       (''recovery_diagnostics'', JObj (map (\<lambda>(i, d). (i, JStr d)) (rs_diagnostics s)))])"

section \<open>Reading a checkpoint\<close>

definition get_default :: "json \<Rightarrow> string \<Rightarrow> json \<Rightarrow> json" where
  "get_default j k d = (case json_get j k of None \<Rightarrow> d | Some v \<Rightarrow> v)"

text \<open>One entry of \<open>node_results\<close>: the completed results so far and the identifiers seen.\<close>

definition load_result ::
  "plan \<Rightarrow> json \<Rightarrow> (string, node_result) dict \<times> string list
   \<Rightarrow> ((string, node_result) dict \<times> string list) result" where
  "load_result p raw st = (case st of (results, seen) \<Rightarrow>
     if \<not> is_obj raw then Inl (ValueError ''NodeResult entry'')
     else bindE (node_result_from_dict raw) (\<lambda>r.
       case plan_item p (nr_work_item_id r) of
         None \<Rightarrow> Inl (ValueError ''NodeResult not in plan'')
       | Some w \<Rightarrow>
           if wi_agent_id w \<noteq> nr_agent_id r then Inl (ValueError ''NodeResult not in plan'')
           else if nr_work_item_id r \<in> set seen then Inl (ValueError ''duplicate NodeResult'')
           else Inr (if nr_status r = COMPLETED then dict_put (nr_work_item_id r) r results else results,
                     nr_work_item_id r # seen)))"

definition check_ref :: "plan \<Rightarrow> string \<times> json \<Rightarrow> err + unit" where
  "check_ref p kv = (case kv of (output_key, raw) \<Rightarrow>
     if \<not> is_obj raw then Inl (ValueError ''artifact_refs entry'')
     else
       let i = json_get_null raw ''work_item_id'' in
       (case (if truthy i then plan_item p (py_str i) else None) of
          None \<Rightarrow> Inl (ValueError ''artifact_refs WorkItem'')
        | Some w \<Rightarrow>
            let digest = json_get_null raw ''contract_digest'' in raises
              [(output_key \<noteq> wi_output_key w, ValueError ''artifact_refs output_key''),
               (digest \<noteq> JNull \<and> Some (py_str digest) \<noteq> wi_contract_digest w,
                 ValueError ''artifact_refs digest'')]))"

definition referenced_items :: "(string \<times> json) list \<Rightarrow> string list" where
  "referenced_items refs = map (\<lambda>(_, raw). py_str (json_get_null raw ''work_item_id''))
     (filter (\<lambda>(_, raw). is_obj raw \<and> truthy (json_get_null raw ''work_item_id'')) refs)"

definition output_keys_of :: "plan \<Rightarrow> string list \<Rightarrow> string list" where
  "output_keys_of p ids = map wi_output_key (List.map_filter (plan_item p) ids)"

text \<open>Completed items without stored content are present with an empty body.\<close>

definition mark_present ::
  "plan \<Rightarrow> (string, node_result) dict \<Rightarrow> (string, string) dict \<Rightarrow> (string, string) dict" where
  "mark_present p results artifacts = foldl (\<lambda>a (i, _). case plan_item p i of
       None \<Rightarrow> a
     | Some w \<Rightarrow> if dict_get a (wi_output_key w) = None then dict_put (wi_output_key w) [] a else a)
     artifacts results"

definition restore_contents ::
  "plan \<Rightarrow> (string, node_result) dict \<Rightarrow> (string, string) dict \<Rightarrow> (string, string) dict" where
  "restore_contents p results artifacts = foldl (\<lambda>a (i, r).
     if nr_status r = COMPLETED \<and> dict_get a i = None
     then (case (plan_item p i, nr_content r) of
         (Some w, Some c) \<Rightarrow> dict_put (wi_output_key w) c a
       | _ \<Rightarrow> a)
     else a) artifacts results"

definition nonblank_str :: "json \<Rightarrow> bool" where
  "nonblank_str j = (case j of JStr s \<Rightarrow> \<not> blank s | _ \<Rightarrow> False)"

definition from_checkpoint :: "plan \<Rightarrow> json \<Rightarrow> run_state result" where
  "from_checkpoint p cp =
     (let raw_results = get_default cp ''node_results'' (JList []);
          raw_artifacts = get_default cp ''artifacts'' (JObj []);
          raw_refs = get_default cp ''artifact_refs'' (JObj []);
          raw_forced = get_default cp ''forced_rerun_work_item_ids'' (JList []);
          raw_diagnostics = get_default cp ''recovery_diagnostics'' (JObj []) in
      bindE (raises
        [(\<not> json_eq_int (json_get cp ''schema_version'') 1, ValueError ''schema_version''),
         (json_get cp ''plan_id'' \<noteq> Some (JStr (pl_id p)), ValueError ''plan_id''),
         (json_get cp ''trace_id'' \<noteq> Some (JStr (tc_trace_id (pl_trace p))), ValueError ''trace_id''),
         (\<not> is_list raw_results, ValueError ''node_results'')]) (\<lambda>_.
      bindE (foldE (load_result p) (list_items raw_results) ([], [])) (\<lambda>(results, _).
      bindE (raises
        [(\<not> is_obj raw_artifacts, ValueError ''artifacts''),
         (truthy raw_refs \<and> \<not> is_obj raw_refs, ValueError ''artifact_refs'')]) (\<lambda>_.
      bindE (for_each (check_ref p) (obj_items raw_refs)) (\<lambda>_.
      let artifacts = map (\<lambda>(k, v). (k, py_str v)) (obj_items raw_artifacts);
          forced = map py_str (list_items raw_forced);
          ids = map wi_id (pl_work_items p) in
      bindE (raises
        [(is_obj raw_refs \<and> json_get cp ''artifact_refs'' \<noteq> None
            \<and> set (referenced_items (obj_items raw_refs)) \<noteq> set (map fst results),
           ValueError ''artifact_refs mismatch''),
         (\<not> set (map fst artifacts) \<subseteq> set (output_keys_of p (map fst results)),
           ValueError ''artifacts of unknown items''),
         (\<not> is_list raw_forced \<or> \<not> list_all nonblank_str (list_items raw_forced),
           ValueError ''forced_rerun_work_item_ids''),
         (\<not> set forced \<subseteq> set ids, ValueError ''forced unknown''),
         (set forced \<inter> set (map fst results) \<noteq> {}, ValueError ''forced completed''),
         (\<not> is_obj raw_diagnostics \<or>
           \<not> list_all (\<lambda>(i, d). i \<in> set forced \<and> nonblank_str d) (obj_items raw_diagnostics),
           ValueError ''recovery_diagnostics''),
         (set (map fst (obj_items raw_diagnostics)) \<noteq> set forced,
           ValueError ''recovery_diagnostics mismatch'')]) (\<lambda>_.
      Inr \<lparr>rs_plan = p, rs_results = results,
        rs_artifacts = restore_contents p results (mark_present p results artifacts),
        rs_forced = set forced,
        rs_diagnostics = map (\<lambda>(i, d). (i, py_str d)) (obj_items raw_diagnostics),
        rs_retry_contexts = []\<rparr>))))))"

end
