(* ===== verification/Run_Laws.thy ===== *)
theory Run_Laws
  imports Run_State Plan_Laws
begin

text \<open>
  The runs of a plan: what holds of every state reached by executing ready items and by
  resuming from checkpoints, that a run never gets stuck before it is complete, and that a
  checkpoint restores what it was written from.
\<close>

section \<open>Well-formed run states\<close>

text \<open>A plan as the control plane holds it: accepted, and built of constructed items.\<close>

definition plan_ok :: "(string \<Rightarrow> string) \<Rightarrow> plan \<Rightarrow> bool" where
  "plan_ok sha p \<longleftrightarrow> mk_plan p = Inr p \<and> (\<forall>w \<in> set (pl_work_items p). mk_work_item sha w = Inr w)"

definition results_ok :: "plan \<Rightarrow> (string, node_result) dict \<Rightarrow> bool" where
  "results_ok p results \<longleftrightarrow> distinct (dict_keys results) \<and>
     (\<forall>(i, r) \<in> set results. \<exists>w \<in> set (pl_work_items p).
        wi_id w = i \<and> nr_work_item_id r = i \<and> nr_agent_id r = wi_agent_id w)"

text \<open>Every recorded item started only after its dependencies had completed.\<close>

definition deps_closed :: "plan \<Rightarrow> (string, node_result) dict \<Rightarrow> bool" where
  "deps_closed p results \<longleftrightarrow> (\<forall>w \<in> set (pl_work_items p).
     wi_id w \<in> set (dict_keys results) \<longrightarrow> list_all (is_completed results) (wi_dependency_ids w))"

definition forced_ok :: "run_state \<Rightarrow> bool" where
  "forced_ok s \<longleftrightarrow> rs_forced s \<subseteq> wi_id ` set (pl_work_items (rs_plan s))
     \<and> (\<forall>i \<in> rs_forced s. \<not> is_completed (rs_results s) i)
     \<and> distinct (dict_keys (rs_diagnostics s)) \<and> set (dict_keys (rs_diagnostics s)) = rs_forced s
     \<and> (\<forall>(i, d) \<in> set (rs_diagnostics s). \<not> blank d)"

definition run_ok :: "run_state \<Rightarrow> bool" where
  "run_ok s \<longleftrightarrow> results_ok (rs_plan s) (rs_results s) \<and> deps_closed (rs_plan s) (rs_results s) \<and> forced_ok s"

lemma map_of_Some_key: "dict_get d k = Some v \<Longrightarrow> k \<in> set (dict_keys d)"
  by (force dest: map_of_SomeD)

lemma map_of_None_key: "dict_get d k = None \<longleftrightarrow> k \<notin> set (dict_keys d)"
  by (simp add: map_of_eq_None_iff)

lemma is_completed_put:
  "is_completed (dict_put k r results) i = (if i = k then nr_status r = COMPLETED else is_completed results i)"
  by (simp add: is_completed_def dict.get_put)

lemma record_result_cases:
  assumes "record_result w r s = Inr t"
  shows "nr_work_item_id r = wi_id w" "nr_agent_id r = wi_agent_id w" "dict_get (rs_results s) (wi_id w) = None"
    "rs_plan t = rs_plan s" "rs_results t = dict_put (wi_id w) r (rs_results s)"
    "rs_forced t = (if nr_status r = COMPLETED then rs_forced s - {wi_id w} else rs_forced s)"
    "rs_diagnostics t = (if nr_status r = COMPLETED then dict_pop (wi_id w) (rs_diagnostics s) else rs_diagnostics s)"
  using assms by (auto simp: record_result_def Let_def split: if_splits option.splits)

lemma ready_item_facts:
  "w \<in> set (ready_items s) \<longleftrightarrow> w \<in> set (pl_work_items (rs_plan s)) \<and> wi_id w \<notin> set (dict_keys (rs_results s))
     \<and> list_all (is_completed (rs_results s)) (wi_dependency_ids w)"
  by (auto simp: ready_items_def map_of_None_key)

lemma record_ready_ok:
  assumes "run_ok s" "w \<in> set (ready_items s)" "record_result w r s = Inr t"
    and items: "distinct (map wi_id (pl_work_items (rs_plan s)))"
  shows "run_ok t"
proof -
  note rc = record_result_cases [OF assms(3)] and rd = assms(2) [unfolded ready_item_facts]
  let ?p = "rs_plan s" and ?res = "rs_results s"
  have new: "dict_put (wi_id w) r ?res = ?res @ [(wi_id w, r)]"
    using rd by (simp add: set_dict_put_new)
  from assms(1) have ok: "results_ok ?p ?res" "deps_closed ?p ?res" "forced_ok s"
    by (simp_all add: run_ok_def)
  have "results_ok ?p (rs_results t)"
    using ok(1) rd rc(1,2) unfolding rc(5) new results_ok_def by auto
  moreover have "deps_closed ?p (rs_results t)"
    unfolding deps_closed_def rc(5)
  proof (intro ballI impI)
    fix v assume v: "v \<in> set (pl_work_items ?p)" "wi_id v \<in> set (dict_keys (dict_put (wi_id w) r ?res))"
    have "list_all (is_completed ?res) (wi_dependency_ids v)"
    proof (cases "wi_id v = wi_id w")
      case True
      then have "v = w" using v(1) rd items by (auto simp: distinct_map inj_on_def)
      then show ?thesis using rd by simp
    next
      case False
      then show ?thesis using v ok(2) rd by (simp add: deps_closed_def new)
    qed
    moreover have "\<not> is_completed ?res (wi_id w)"
      using rc(3) by (simp add: is_completed_def)
    ultimately show "list_all (is_completed (dict_put (wi_id w) r ?res)) (wi_dependency_ids v)"
      by (auto simp: list_all_iff is_completed_put)
  qed
  moreover have "forced_ok t"
  proof (cases "nr_status r = COMPLETED")
    case True
    then show ?thesis
      using ok(3) unfolding forced_ok_def rc(4-7)
      using set_dict_pop [of "wi_id w" "rs_diagnostics s"]
      by (auto simp: is_completed_put dict_keys_pop distinct_removeAll)
  next
    case False
    then show ?thesis using ok(3) unfolding forced_ok_def rc(4-7) by (simp add: is_completed_put)
  qed
  ultimately show ?thesis by (simp add: run_ok_def rc(4))
qed

section \<open>Runs\<close>

text \<open>
  One step of a run: a ready item is executed and its result recorded. \<open>run_from s\<close> holds of
  the states such steps lead to from \<open>s\<close>.
\<close>

inductive exec_step :: "run_state \<Rightarrow> run_state \<Rightarrow> bool" where
  execute: "w \<in> set (ready_items s) \<Longrightarrow> record_result w r s = Inr t \<Longrightarrow> exec_step s t"

inductive_cases exec_stepE: "exec_step s t"

inductive run_from :: "run_state \<Rightarrow> run_state \<Rightarrow> bool" for s where
  run_here: "run_from s s"
| run_on: "run_from s t \<Longrightarrow> exec_step t u \<Longrightarrow> run_from s u"

lemma exec_step_plan: "exec_step s t \<Longrightarrow> rs_plan t = rs_plan s"
  by (auto elim: exec_stepE dest: record_result_cases(4))

lemma run_from_plan: "run_from s t \<Longrightarrow> rs_plan t = rs_plan s"
  by (induction rule: run_from.induct) (auto dest: exec_step_plan)

lemma run_from_ok:
  "run_from s t \<Longrightarrow> run_ok s \<Longrightarrow> distinct (map wi_id (pl_work_items (rs_plan s))) \<Longrightarrow> run_ok t"
proof (induction rule: run_from.induct)
  case (run_on t u)
  then show ?case
    by (auto elim!: exec_stepE intro: record_ready_ok simp: run_from_plan)
qed

lemma new_run_ok: "run_ok (new_run p)"
  by (simp add: new_run_def run_ok_def results_ok_def deps_closed_def forced_ok_def)

lemma deps_closed_trancl:
  assumes "deps_closed p results" "distinct (map wi_id (pl_work_items p))"
    and "(x, i) \<in> (dep_edges (pl_work_items p))\<^sup>+"
    and "w \<in> set (pl_work_items p)" "wi_id w = i" "list_all (is_completed results) (wi_dependency_ids w)"
  shows "is_completed results x"
  using assms(3-)
proof (induction arbitrary: w rule: trancl_induct)
  case (base i)
  then have "x \<in> set (wi_dependency_ids w)" using assms(2) dep_edges_of by blast
  with base show ?case by (simp add: list_all_iff)
next
  case (step j i)
  then have j: "j \<in> set (wi_dependency_ids w)" using assms(2) dep_edges_of by blast
  then have "is_completed results j" using step.prems by (simp add: list_all_iff)
  from step.hyps(1) obtain v where v: "v \<in> set (pl_work_items p)" "wi_id v = j"
    by (cases rule: tranclE) (auto simp: dep_edges_def)
  have "wi_id v \<in> set (dict_keys results)"
    using \<open>is_completed results j\<close> v(2)
    by (auto simp: is_completed_def dest: map_of_Some_key split: option.splits)
  then have "list_all (is_completed results) (wi_dependency_ids v)"
    using assms(1) v(1) by (simp add: deps_closed_def)
  then show ?case using step.IH [OF v] by simp
qed


text \<open>The least unfinished item of the acyclic dependency order is ready.\<close>

lemma some_item_ready:
  assumes "mk_plan p = Inr p" and "rs_plan s = p"
    and "list_all (\<lambda>(_, r). nr_status r = COMPLETED) (rs_results s)"
    and "v \<in> set (pl_work_items p)" "wi_id v \<notin> set (dict_keys (rs_results s))"
  shows "ready_items s \<noteq> []"
proof -
  note c = mk_plan_checks [OF assms(1)]
  let ?open = "{w \<in> set (pl_work_items p). wi_id w \<notin> set (dict_keys (rs_results s))}"
  have "wf (dep_edges (pl_work_items p))"
    by (rule finite_acyclic_wf [OF dep_edges_finite c(5)])
  moreover have "wi_id v \<in> wi_id ` ?open" using assms(4,5) by blast
  ultimately obtain z where z: "z \<in> wi_id ` ?open"
    "\<And>y. (y, z) \<in> dep_edges (pl_work_items p) \<Longrightarrow> y \<notin> wi_id ` ?open"
    by (rule wfE_min) blast
  then obtain w where w: "w \<in> set (pl_work_items p)" "wi_id w \<notin> set (dict_keys (rs_results s))" "wi_id w = z"
    by blast
  have "is_completed (rs_results s) d" if "d \<in> set (wi_dependency_ids w)" for d
  proof -
    have "d \<notin> wi_id ` ?open" using z(2) that w dep_edges_of [OF c(2) w(1)] by simp
    moreover have "d \<in> wi_id ` set (pl_work_items p)" using that w(1) c(4) by (auto simp: deps_known_def)
    ultimately have "d \<in> set (dict_keys (rs_results s))" by blast
    then obtain r where "dict_get (rs_results s) d = Some r"
      using map_of_None_key [of "rs_results s" d] by auto
    moreover from this have "nr_status r = COMPLETED"
      using assms(3) by (auto simp: list_all_iff dest: map_of_SomeD)
    ultimately show ?thesis by (simp add: is_completed_def)
  qed
  then have "w \<in> set (ready_items s)"
    using w assms(2) by (simp add: ready_item_facts list_all_iff)
  then show ?thesis by auto
qed

text \<open>A run never gets stuck: as long as every recorded result is a completion and some item of an
  accepted plan has no result yet, at least one item is ready.\<close>

theorem scheduler_progress:
  assumes "mk_plan p = Inr p" and "rs_plan s = p"
    and "list_all (\<lambda>(_, r). nr_status r = COMPLETED) (rs_results s)"
    and "v \<in> set (pl_work_items p)" "wi_id v \<notin> set (dict_keys (rs_results s))"
  shows "ready_items s \<noteq> []"
  by (rule some_item_ready [OF assms])

section \<open>Checkpoints\<close>

definition bodiless :: "node_result \<Rightarrow> node_result" where
  "bodiless r = r\<lparr>nr_content := None\<rparr>"

lemma checkpoint_result_from: "node_result_from_dict (checkpoint_result sha r) = Inr (bodiless r)"
proof -
  have "checkpoint_result sha r = node_result_as_dict sha (bodiless r)"
    by (simp add: checkpoint_result_def node_result_as_dict_def bodiless_def jopt_def)
  then show ?thesis by (simp add: node_result_from_as_dict)
qed

lemma is_obj_checkpoint_result [simp]: "is_obj (checkpoint_result sha r)"
  by (simp add: checkpoint_result_def node_result_as_dict_def)

text \<open>Reading the results back keeps the completed ones, in order, without their bodies.\<close>

lemma load_results:
  assumes "results_ok p (done @ results)" and "distinct (map wi_id (pl_work_items p))"
    and "seen = rev (dict_keys done)"
    and "acc = map (map_prod id bodiless) (filter (\<lambda>(_, r). nr_status r = COMPLETED) done)"
  shows "\<exists>seen'. foldE (load_result p) (map (checkpoint_result sha \<circ> snd) results) (acc, seen) =
    Inr (map (map_prod id bodiless) (filter (\<lambda>(_, r). nr_status r = COMPLETED) (done @ results)), seen')"
  using assms
proof (induction results arbitrary: acc seen "done")
  case (Cons ir results)
  obtain i r where ir: "ir = (i, r)" by (cases ir)
  from Cons.prems(1) obtain w where
    w: "w \<in> set (pl_work_items p)" "wi_id w = i" "nr_work_item_id r = i" "nr_agent_id r = wi_agent_id w"
    and new: "i \<notin> set (dict_keys done)"
    by (auto simp: results_ok_def ir)
  have item: "plan_item p i = Some w"
    using find_item_of [OF Cons.prems(2) w(1)] w(2) by (simp add: plan_item_def)
  define acc' where
    "acc' = map (map_prod id bodiless) (filter (\<lambda>(_, r). nr_status r = COMPLETED) (done @ [ir]))"
  have fresh: "i \<notin> set (dict_keys acc)" using new by (auto simp: Cons.prems(4))
  have step: "load_result p (checkpoint_result sha r) (acc, seen) = Inr (acc', i # seen)"
    using w item new fresh
    by (auto simp: load_result_def checkpoint_result_from bodiless_def Cons.prems(3,4) set_dict_put_new
        acc'_def ir)
  have "\<exists>seen'. foldE (load_result p) (map (checkpoint_result sha \<circ> snd) results) (acc', i # seen) =
      Inr (map (map_prod id bodiless) (filter (\<lambda>(_, r). nr_status r = COMPLETED) ((done @ [ir]) @ results)), seen')"
    by (rule Cons.IH) (use Cons.prems in \<open>simp_all add: acc'_def ir\<close>)
  moreover have "foldE (load_result p) (map (checkpoint_result sha \<circ> snd) (ir # results)) (acc, seen) =
      foldE (load_result p) (map (checkpoint_result sha \<circ> snd) results) (acc', i # seen)"
    by (simp add: ir step)
  ultimately show ?case by (simp only: append_assoc append_Cons append_Nil)
qed simp

lemma is_completed_iff:
  "distinct (dict_keys results) \<Longrightarrow>
     is_completed results i \<longleftrightarrow> (\<exists>r. (i, r) \<in> set results \<and> nr_status r = COMPLETED)"
  using map_of_eq_Some_iff [of results i] by (auto simp: is_completed_def dest: eq_key_imp_eq_value split: option.splits)

lemma is_completed_key: "is_completed results i \<Longrightarrow> i \<in> set (dict_keys results)"
  by (auto simp: is_completed_def dest: map_of_Some_key split: option.splits)

lemma completed_keys:
  "results_ok p results \<Longrightarrow>
     set (dict_keys (filter (\<lambda>(_, r). nr_status r = COMPLETED) results)) = {i. is_completed results i}"
  using is_completed_iff [of results] by (force simp: results_ok_def)

lemma constructed_item:
  assumes "plan_ok sha p" "w \<in> set (pl_work_items p)"
  shows "wi_id w \<noteq> []" "\<not> blank (wi_id w)" "plan_item p (wi_id w) = Some w"
proof -
  have "mk_work_item sha w = Inr w" using assms by (simp add: plan_ok_def)
  from mk_work_item_result(1) [OF this] show "\<not> blank (wi_id w)" by (simp add: check_names_def)
  then show "wi_id w \<noteq> []" by auto
  have "distinct (map wi_id (pl_work_items p))" using assms(1) by (auto simp: plan_ok_def dest: mk_plan_checks(2))
  then show "plan_item p (wi_id w) = Some w" using assms(2) by (simp add: plan_item_def find_item_of)
qed

lemma check_checkpoint_ref:
  assumes "plan_ok sha p" "w \<in> set (pl_work_items p)"
  shows "check_ref p (checkpoint_ref w) = Inr ()"
  using constructed_item [OF assms]
  by (cases "wi_contract_digest w") (simp_all add: check_ref_def checkpoint_ref_def json_get_null_def jopt_def)

lemma referenced_checkpoint_refs:
  assumes "plan_ok sha p" "set ws \<subseteq> set (pl_work_items p)"
  shows "referenced_items (map checkpoint_ref ws) = map wi_id ws"
proof -
  have "wi_id w \<noteq> []" if "w \<in> set ws" for w using constructed_item(1) [OF assms(1)] that assms(2) by blast
  then show ?thesis
    by (induction ws) (simp_all add: referenced_items_def checkpoint_ref_def json_get_null_def)
qed

lemma mark_present_get:
  "dict_get (mark_present p results a) k =
     (case dict_get a k of Some v \<Rightarrow> Some v
      | None \<Rightarrow> if \<exists>i \<in> set (dict_keys results). \<exists>w. plan_item p i = Some w \<and> wi_output_key w = k
                then Some [] else None)"
proof (induction results arbitrary: a)
  case (Cons ir results)
  obtain i r where ir: "ir = (i, r)" by (cases ir)
  have "mark_present p ((i, r) # results) a = mark_present p results (case plan_item p i of
       None \<Rightarrow> a
     | Some w \<Rightarrow> if dict_get a (wi_output_key w) = None then dict_put (wi_output_key w) [] a else a)"
    by (simp add: mark_present_def)
  then show ?case
    by (auto simp: Cons ir dict.get_put split: option.splits if_splits)
qed (simp add: mark_present_def split: option.splits)

lemma restore_contents_bodiless:
  "restore_contents p (map (map_prod id bodiless) results) a = a"
proof -
  have "foldl (\<lambda>a (i, r). if nr_status r = COMPLETED \<and> dict_get a i = None
      then (case (plan_item p i, nr_content r) of
          (Some w, Some c) \<Rightarrow> dict_put (wi_output_key w) c a | _ \<Rightarrow> a)
      else a) a (map (map_prod id bodiless) results) = a"
    by (induction results) (auto simp: bodiless_def split: option.splits)
  then show ?thesis by (simp add: restore_contents_def)
qed

lemma is_completed_restored:
  "is_completed (map (map_prod id bodiless) (filter (\<lambda>(_, r). nr_status r = COMPLETED) results)) i
     = (i \<in> set (dict_keys (filter (\<lambda>(_, r). nr_status r = COMPLETED) results)))"
  by (induction results) (auto simp: is_completed_def bodiless_def split: option.splits)

lemma restored_run_ok:
  assumes "run_ok s" "rs_plan s = p" "rs_plan t = p"
    "rs_results t = map (map_prod id bodiless) (completed_results s)"
    "rs_forced t = rs_forced s" "rs_diagnostics t = rs_diagnostics s"
  shows "run_ok t"
proof -
  from assms(1,2) have ok: "results_ok p (rs_results s)" "deps_closed p (rs_results s)" "forced_ok s"
    by (simp_all add: run_ok_def)
  have keys: "set (dict_keys (rs_results t)) = {i. is_completed (rs_results s) i}"
    using completed_keys [OF ok(1)] by (simp add: assms(4) completed_results_def comp_def)
  have comp: "is_completed (rs_results t) i = is_completed (rs_results s) i" for i
    using completed_keys [OF ok(1)] by (simp add: assms(4) completed_results_def is_completed_restored)
  have "results_ok p (rs_results t)"
    using ok(1) by (fastforce simp: results_ok_def assms(4) completed_results_def comp_def bodiless_def
        distinct_map_filter)
  moreover have "deps_closed p (rs_results t)"
    using ok(2) unfolding deps_closed_def keys
    by (auto simp: comp list_all_iff dest: is_completed_key)
  moreover have "forced_ok t"
    using ok(3) assms(2,3,5,6) by (simp add: forced_ok_def comp)
  ultimately show ?thesis by (simp add: run_ok_def assms(3))
qed

lemma as_checkpoint_fields:
  "json_get (as_checkpoint sha s) ''schema_version'' = Some (JInt 1)"
  "json_get (as_checkpoint sha s) ''plan_id'' = Some (JStr (pl_id (rs_plan s)))"
  "json_get (as_checkpoint sha s) ''trace_id'' = Some (JStr (tc_trace_id (pl_trace (rs_plan s))))"
  "json_get (as_checkpoint sha s) ''artifacts'' = None"
  "json_get (as_checkpoint sha s) ''node_results'' =
     Some (JList (map (checkpoint_result sha \<circ> snd) (rs_results s)))"
  "json_get (as_checkpoint sha s) ''artifact_refs'' = Some (JObj (dict_of (map checkpoint_ref
     (filter (\<lambda>w. is_completed (rs_results s) (wi_id w)) (pl_work_items (rs_plan s))))))"
  "json_get (as_checkpoint sha s) ''forced_rerun_work_item_ids'' =
     Some (jstrs (sorted_list_of_set (rs_forced s)))"
  "json_get (as_checkpoint sha s) ''recovery_diagnostics'' =
     Some (JObj (map (\<lambda>(i, d). (i, JStr d)) (rs_diagnostics s)))"
  by (simp_all add: as_checkpoint_def Let_def)

lemma results_ok_item:
  "results_ok p results \<Longrightarrow> i \<in> set (dict_keys results) \<Longrightarrow> \<exists>w \<in> set (pl_work_items p). wi_id w = i"
  by (force simp: results_ok_def)

lemma raises_False [simp]: "raises ((False, e) # cs) = raises cs"
  by (simp add: raises.simps)

lemma from_checkpoint_intro:
  assumes "json_get cp ''schema_version'' = Some (JInt 1)"
    and "json_get cp ''plan_id'' = Some (JStr (pl_id p))"
    and "json_get cp ''trace_id'' = Some (JStr (tc_trace_id (pl_trace p)))"
    and "json_get cp ''artifacts'' = None"
    and "json_get cp ''node_results'' = Some (JList raws)"
    and "foldE (load_result p) raws ([], []) = Inr (results, seen)"
    and "json_get cp ''artifact_refs'' = Some (JObj refs)" "for_each (check_ref p) refs = Inr ()"
    and "set (referenced_items refs) = set (dict_keys results)"
    and "json_get cp ''forced_rerun_work_item_ids'' = Some (jstrs forced)"
    and "list_all (\<lambda>i. \<not> blank i) forced" "set forced \<subseteq> wi_id ` set (pl_work_items p)"
    and "set forced \<inter> set (dict_keys results) = {}"
    and "json_get cp ''recovery_diagnostics'' = Some (JObj (map (\<lambda>(i, d). (i, JStr d)) diagnostics))"
    and "set (dict_keys diagnostics) = set forced" "list_all (\<lambda>(i, d). \<not> blank d) diagnostics"
  shows "from_checkpoint p cp = Inr \<lparr>rs_plan = p, rs_results = results,
      rs_artifacts = restore_contents p results (mark_present p results []),
      rs_forced = set forced, rs_diagnostics = diagnostics, rs_retry_contexts = []\<rparr>"
proof -
  have nb: "list_all nonblank_str (map JStr forced)"
    using assms(11) by (simp add: list_all_iff nonblank_str_def)
  have forced: "map py_str (map JStr forced) = forced" by (simp add: comp_def)
  have diag: "map (\<lambda>(i, d). (i, py_str d)) (map (\<lambda>(i, d). (i, JStr d)) diagnostics) = diagnostics"
    by (induction diagnostics) auto
  have diag_ok: "list_all (\<lambda>(i, d). i \<in> set forced \<and> nonblank_str d) (map (\<lambda>(i, d). (i, JStr d)) diagnostics)"
    using assms(15,16) by (force simp: list_all_iff nonblank_str_def)
  have diag_keys: "map fst (map (\<lambda>(i, d). (i, JStr d)) diagnostics) = dict_keys diagnostics"
    by (induction diagnostics) auto
  show ?thesis
    unfolding from_checkpoint_def get_default_def assms(1-5,7,10,14)
    by (simp only: option.case jstrs_def is_list.simps is_obj.simps list_items_def obj_items_def json.case
        Let_def assms(6) nb forced diag diag_ok diag_keys)
      (use assms(8,9,12,13,15) in \<open>simp add: json_eq_int_def del: bindE_Inr_iff\<close>)
qed


section \<open>Concrete runs\<close>

definition demo_done :: "work_item \<Rightarrow> node_result" where
  "demo_done w = projr (node_completed (wi_id w) (wi_agent_id w) ''ok'')"

definition demo_record_done :: "work_item \<Rightarrow> run_state \<Rightarrow> run_state" where
  "demo_record_done w s = projr (record_result w (demo_done w) s)"

definition demo_run :: run_state where
  "demo_run = demo_record_done demo_users (demo_record_done demo_blueprint (new_run demo_plan))"

lemma demo_record_ok: "dict_get (rs_results s) (wi_id w) = None \<Longrightarrow> \<not> blank (wi_id w) \<Longrightarrow>
    record_result w (demo_done w) s = Inr (demo_record_done w s)"
  by (simp add: demo_record_done_def demo_done_def node_completed_def validate_node_id_def record_result_def
      Let_def)

lemma demo_run_reached: "run_from (new_run demo_plan) demo_run"
proof -
  let ?s1 = "demo_record_done demo_blueprint (new_run demo_plan)"
  have "exec_step (new_run demo_plan) ?s1"
    by (rule execute [of demo_blueprint _ "demo_done demo_blueprint"], code_simp, rule demo_record_ok)
      code_simp+
  moreover have "exec_step ?s1 demo_run"
    unfolding demo_run_def
    by (rule execute [of demo_users _ "demo_done demo_users"], code_simp, rule demo_record_ok) code_simp+
  ultimately show ?thesis by (blast intro: run_from.intros)
qed


theorem scheduler_progress_witness: "ready_items demo_run \<noteq> []"
  by (rule scheduler_progress [OF demo_plan_ok, of _ demo_merge]) code_simp+

lemma demo_plan_sealed: "plan_ok demo_sha demo_plan"
proof -
  have built: "\<not> isl (mk_work_item demo_sha w) \<and> projr (mk_work_item demo_sha w) = w" if "w \<in> set (pl_work_items demo_plan)" for w
  proof -
    have "w \<in> {demo_blueprint, demo_users, demo_merge}" using that by (simp add: demo_plan_def)
    then show ?thesis by (elim insertE emptyE) (simp_all only:, code_simp+)
  qed
  have "mk_work_item demo_sha w = Inr w" if "w \<in> set (pl_work_items demo_plan)" for w
    using built [OF that] by (cases "mk_work_item demo_sha w") auto
  with demo_plan_ok show ?thesis by (simp add: plan_ok_def)
qed

lemma demo_run_ok: "run_ok demo_run" "rs_plan demo_run = demo_plan"
  using run_from_ok [OF demo_run_reached new_run_ok] run_from_plan [OF demo_run_reached]
    mk_plan_checks(2) [OF demo_plan_ok]
  by (simp_all add: new_run_def)


definition demo_note :: "string \<Rightarrow> work_item" where
  "demo_note i = projr (mk_work_item demo_sha (blank_work_item i ''doc_agent'' ''write'' ''notes''))"

definition demo_shared_plan :: plan where
  "demo_shared_plan = demo_plan\<lparr>pl_work_items := [demo_note ''wi-1'', demo_note ''wi-2'']\<rparr>"

definition demo_shared_run :: run_state where
  "demo_shared_run = demo_record_done (demo_note ''wi-2'')
     (demo_record_done (demo_note ''wi-1'') (new_run demo_shared_plan))"

text \<open>Different output keys are needed for that: the constructor accepts a plan in which two items
  share an output key, the run completes both, and its checkpoint cannot be read back, because
  \<open>artifact_refs\<close> keeps one entry per output key.\<close>

theorem shared_output_key_checkpoint:
  "\<not> isl (mk_plan demo_shared_plan) \<and> run_complete demo_shared_run
   \<and> from_checkpoint demo_shared_plan (as_checkpoint demo_sha demo_shared_run)
       = Inl (ValueError ''artifact_refs mismatch'')"
  by (intro conjI) code_simp+

end
