(* ===== verification/Resume.thy ===== *)
theory Resume
  imports Run_State Artifact_Repository
begin

text \<open>
  How a trace is resumed (\<^verbatim>\<open>app/application/runs.py\<close>): the state is rebuilt from the event
  log or read from a checkpoint, recovery decisions of the retry ledger invalidate what they
  name together with its dependents, results whose evidence is gone are dropped, and a
  targeted recovery schedules one completed item to run again.
\<close>

section \<open>Invalidation\<close>

definition dependents :: "work_item list \<Rightarrow> string \<Rightarrow> string list" where
  "dependents items i = map wi_id (filter (\<lambda>w. i \<in> set (wi_dependency_ids w)) items)"

text \<open>
  The worklist of the code with its top at the head. It visits the dependents of an item in
  the order of the plan (the code iterates a set, whose order is unspecified; the result is
  used as a set only).
\<close>

function invalidate_loop :: "work_item list \<Rightarrow> string list \<Rightarrow> string list \<Rightarrow> string list" where
  "invalidate_loop items invalidated [] = invalidated"
| "invalidate_loop items invalidated (current # pending) =
     (let new = filter (\<lambda>c. c \<notin> set invalidated) (dict_fromkeys (dependents items current))
      in invalidate_loop items (invalidated @ new) (rev new @ pending))"
  by pat_completeness auto
termination
proof (relation "measures [\<lambda>(items, inv, _). length (filter (\<lambda>w. wi_id w \<notin> set inv) items),
    \<lambda>(_, _, pending). length pending]", goal_cases)
  case (2 items invalidated current pending new)
  show ?case
  proof (cases "new = []")
    case False
    then obtain c where c: "c \<in> set new" by (cases new) auto
    then obtain w where "w \<in> set items" "wi_id w = c" "c \<notin> set invalidated"
      by (auto simp: 2 dependents_def)
    then have "length (filter (\<lambda>w. wi_id w \<notin> set (invalidated @ new)) items)
        < length (filter (\<lambda>w. wi_id w \<notin> set invalidated) items)"
      using c by (intro length_filter_strict [of _ _ w]) auto
    then show ?thesis by simp
  qed simp
qed simp

definition invalidated_by :: "work_item list \<Rightarrow> string list \<Rightarrow> string list" where
  "invalidated_by items frontier = invalidate_loop items (dict_fromkeys frontier) (rev frontier)"

definition drop_items :: "string list \<Rightarrow> run_state \<Rightarrow> run_state" where
  "drop_items ids s = s\<lparr>
     rs_results := filter (\<lambda>(i, _). i \<notin> set ids) (rs_results s),
     rs_artifacts := filter (\<lambda>(k, _). k \<notin> set (output_keys_of (rs_plan s) ids)) (rs_artifacts s)\<rparr>"

section \<open>Recovery decisions of the ledger\<close>

definition recovery_context :: "(string \<Rightarrow> string) \<Rightarrow> retry_record \<Rightarrow> json" where
  "recovery_context sha r = JObj
    [(''scope'', JStr (scope_value (rr_scope r))),
     (''action'', JStr (action_value (rr_action r))),
     (''failure'', signal_as_dict sha (rr_failure r)),
     (''root_work_item_id'', jopt (rr_root r)),
     (''interrupted_work_item_ids'', jstrs (rr_interrupted r))]"

definition recovery_frontier :: "plan \<Rightarrow> retry_record \<Rightarrow> string list" where
  "recovery_frontier p r = filter (\<lambda>i. i \<noteq> [] \<and> plan_item p i \<noteq> None)
     ((case rr_root r of None \<Rightarrow> [] | Some i \<Rightarrow> [i]) @ rr_interrupted r)"

definition apply_recovery_record ::
  "(string \<Rightarrow> string) \<Rightarrow> string list \<Rightarrow> retry_record \<Rightarrow> run_state \<Rightarrow> run_state" where
  "apply_recovery_record sha consumed r s =
     (if rr_created_at r \<in> set consumed then s
      else
        let frontier = recovery_frontier (rs_plan s) r in
        if frontier = [] then s
        else
          let s1 = drop_items (invalidated_by (pl_work_items (rs_plan s)) frontier) s
          in s1\<lparr>rs_retry_contexts := fold (\<lambda>i. dict_put i (recovery_context sha r)) frontier
                 (rs_retry_contexts s1)\<rparr>)"

text \<open>An unreadable ledger leaves the state as it is; \<open>consumed\<close> lists the decisions applied before.\<close>

definition apply_monitor_retry_recovery ::
  "(string \<Rightarrow> string) \<Rightarrow> string \<Rightarrow> json_file \<Rightarrow> string list \<Rightarrow> run_state \<Rightarrow> run_state" where
  "apply_monitor_retry_recovery sha trace ledger consumed s = (case ledger_read trace ledger of
      Inl _ \<Rightarrow> s
    | Inr rs \<Rightarrow> fold (apply_recovery_record sha consumed) (recovery_records rs) s)"

text \<open>The end of \<open>_prepare_architecture_contract_recovery\<close>: \<open>owners\<close> are the items the failed
  integration check blames.\<close>

definition schedule_owner_rerun :: "string list \<Rightarrow> string \<Rightarrow> run_state \<Rightarrow> run_state" where
  "schedule_owner_rerun owners diagnostic s = (case owners of
      [owner] \<Rightarrow>
        if owner \<in> rs_forced s then s
        else if \<not> is_completed (rs_results s) owner then s
        else
          let s1 = drop_items (invalidated_by (pl_work_items (rs_plan s)) [owner]) s
          in s1\<lparr>rs_forced := insert owner (rs_forced s1),
                rs_diagnostics := dict_put owner diagnostic (rs_diagnostics s1)\<rparr>
    | _ \<Rightarrow> s)"

section \<open>Pruning\<close>

text \<open>One round over the items, then rounds until one removes nothing.\<close>

definition prune_pass :: "work_item list \<Rightarrow> string list \<Rightarrow> string list" where
  "prune_pass items kept = foldl (\<lambda>kept w.
     if wi_id w \<in> set kept \<and> list_ex (\<lambda>d. d \<notin> set kept) (wi_dependency_ids w)
     then filter (\<lambda>i. i \<noteq> wi_id w) kept else kept) kept items"

lemma prune_pass_shrinks: "prune_pass items kept \<noteq> kept \<Longrightarrow> length (prune_pass items kept) < length kept"
proof -
  have "set (prune_pass items kept) \<subseteq> set kept \<and> length (prune_pass items kept) \<le> length kept
      \<and> (prune_pass items kept = kept \<or> length (prune_pass items kept) < length kept)"
  proof (induction items arbitrary: kept)
    case Nil
    then show ?case by (simp add: prune_pass_def)
  next
    case (Cons w items)
    let ?kept = "if wi_id w \<in> set kept \<and> list_ex (\<lambda>d. d \<notin> set kept) (wi_dependency_ids w)
      then filter (\<lambda>i. i \<noteq> wi_id w) kept else kept"
    have "prune_pass (w # items) kept = prune_pass items ?kept" by (simp add: prune_pass_def)
    moreover have "?kept = kept \<or> length ?kept < length kept"
      by (auto intro: length_filter_less [of "wi_id w"])
    moreover have "set ?kept \<subseteq> set kept" by auto
    ultimately show ?case using Cons [of ?kept] by (smt (verit) order.strict_trans1 order.strict_implies_order
          order_trans nat_less_le)
  qed
  then show "prune_pass items kept \<noteq> kept \<Longrightarrow> ?thesis" by blast
qed

function prune_loop :: "work_item list \<Rightarrow> string list \<Rightarrow> string list" where
  "prune_loop items kept =
     (if prune_pass items kept = kept then kept else prune_loop items (prune_pass items kept))"
  by pat_completeness auto
termination
  by (relation "measure (\<lambda>(_, kept). length kept)") (simp_all add: prune_pass_shrinks)

declare prune_loop.simps [simp del]

section \<open>Rebuilding from the event log\<close>

definition terminal_event_types :: "string list" where
  "terminal_event_types = [''work_item_completed'', ''work_item_failed'', ''work_item_needs_replan'',
     ''work_item_waiting_capability'']"

text \<open>The last terminal event of each item of the plan, by its type.\<close>

definition event_item :: "json \<Rightarrow> string" where
  "event_item e = (case json_get e ''work_item_id'' of None \<Rightarrow> [] | Some v \<Rightarrow> py_str v)"

definition note_terminal_event :: "plan \<Rightarrow> (string, json) dict \<Rightarrow> json \<Rightarrow> (string, json) dict" where
  "note_terminal_event p terminal e =
     (let i = event_item e in
      if i = [] \<or> plan_item p i = None then terminal
      else if list_ex (\<lambda>t. json_get e ''type'' = Some (JStr t)) terminal_event_types
      then dict_put i e terminal else terminal)"

definition completed_by_events :: "plan \<Rightarrow> json list \<Rightarrow> string list" where
  "completed_by_events p events = map fst
     (filter (\<lambda>(_, e). json_get e ''type'' = Some (JStr ''work_item_completed''))
        (foldl (note_terminal_event p) [] events))"

definition load_bodies :: "store_files \<Rightarrow> work_item list \<Rightarrow> (string, string) dict" where
  "load_bodies fs items = foldl (\<lambda>a w.
     let k = wi_output_key w in
     if dict_get a k \<noteq> None then a
     else (case (store_exists k fs, store_load k fs) of
         (Inr True, Inr body) \<Rightarrow> dict_put k body a
       | _ \<Rightarrow> a)) [] items"

definition rebuild_delivery_state :: "store_files \<Rightarrow> json list \<Rightarrow> plan \<Rightarrow> run_state result" where
  "rebuild_delivery_state fs events p =
     (let completed = prune_loop (pl_work_items p) (completed_by_events p events);
          done = filter (\<lambda>w. wi_id w \<in> set completed) (pl_work_items p);
          artifacts = load_bodies fs done in
      bindE (mapE (\<lambda>w. bindE (node_completed (wi_id w) (wi_agent_id w)
                (or_empty (dict_get artifacts (wi_output_key w)))) (\<lambda>r. Inr (wi_id w, r))) done) (\<lambda>results.
      Inr ((new_run p)\<lparr>rs_results := dict_of results, rs_artifacts := artifacts\<rparr>)))"

section \<open>Revalidating the evidence\<close>

text \<open>
  Whether the durable evidence of a result is still there. Only the exceptions the code
  catches count as missing; a reference that cannot be built raises. \<open>names\<close> are the
  candidate directories.
\<close>

definition caught :: "err + 'a \<Rightarrow> bool result" where
  "caught r = (case r of
      Inr _ \<Rightarrow> Inr True
    | Inl (FileNotFoundError _) \<Rightarrow> Inr False
    | Inl (RuntimeError _) \<Rightarrow> Inr False
    | Inl (ValueError _) \<Rightarrow> Inr False
    | Inl e \<Rightarrow> Inl e)"

definition evidence_valid ::
  "(string \<Rightarrow> string) \<Rightarrow> repo \<Rightarrow> string list \<Rightarrow> string \<Rightarrow> work_item \<Rightarrow> bool result" where
  "evidence_valid sha rp names trace w =
     bindE (if wi_agent_id w = ''architecture_agent'' \<and> wi_execution_mode w = PARTITIONED
            then bindE (ref_staged ''architecture'' trace (wi_id w) (or_empty (wi_slot w)))
                   (\<lambda>r. caught (load_ref sha rp r))
            else Inr True) (\<lambda>staged.
     if \<not> staged then Inr False
     else if wi_agent_id w = ''architecture_agent'' \<and> wi_execution_mode w = INTEGRATION
         \<and> wi_publish_target w = Some ''architecture''
         \<and> suffix ''architecture-layered-integration'' (wi_id w)
     then caught (candidate_for_work_item sha rp names trace ''architecture'' (wi_id w) None None)
     else Inr True)"

text \<open>
  \<open>workspace_error\<close> is the message of the \<open>RuntimeError\<close> that the validation of the published
  workspace raises, if it raises one.
\<close>

definition examine_result ::
  "(string \<Rightarrow> string) \<Rightarrow> repo \<Rightarrow> string list \<Rightarrow> string option \<Rightarrow> work_item
   \<Rightarrow> run_state \<times> (string, node_result) dict \<Rightarrow> (run_state \<times> (string, node_result) dict) result" where
  "examine_result sha rp names workspace_error w st = (case st of (s, valid) \<Rightarrow>
     (case dict_get (rs_results s) (wi_id w) of
        None \<Rightarrow> Inr (s, valid)
      | Some r \<Rightarrow>
          bindE (evidence_valid sha rp names (tc_trace_id (pl_trace (rs_plan s))) w) (\<lambda>ok.
          if \<not> ok then Inr (s, valid)
          else if wi_agent_id w = ''code_integration_agent'' \<and> workspace_error \<noteq> None
          then Inr (s\<lparr>rs_diagnostics := dict_put (wi_id w) (or_empty workspace_error) (rs_diagnostics s)\<rparr>, valid)
          else Inr (s, dict_put (wi_id w) r valid))))"

definition sanitize_resume_state ::
  "(string \<Rightarrow> string) \<Rightarrow> repo \<Rightarrow> string list \<Rightarrow> string option \<Rightarrow> run_state \<Rightarrow> run_state result" where
  "sanitize_resume_state sha rp names workspace_error s =
     (let items = pl_work_items (rs_plan s) in
      bindE (foldE (examine_result sha rp names workspace_error) items (s, [])) (\<lambda>(s1, valid).
      let kept = prune_loop items (map fst valid);
          results = filter (\<lambda>(i, _). i \<in> set kept) valid;
          body = (\<lambda>w. Option.bind (dict_get results (wi_id w)) nr_content)
      in Inr (s1\<lparr>rs_results := results,
               rs_artifacts := dict_of (List.map_filter
                 (\<lambda>w. map_option (Pair (wi_output_key w)) (body w)) items)\<rparr>)))"

end
