(* ===== verification/Resume_Laws.thy ===== *)
theory Resume_Laws
  imports Resume Run_Laws
begin

text \<open>
  Resuming a trace keeps the run state well formed: an invalidation removes exactly the named
  items and what depends on them, and the pruning of unsupported results keeps the largest
  set that is closed under dependencies.
\<close>

section \<open>Invalidation\<close>

lemma set_dependents: "set (dependents items i) = {x. (i, x) \<in> dep_edges items}"
  by (auto simp: dependents_def dep_edges_def)

lemma invalidate_loop_sound:
  "set (invalidate_loop items inval pending) \<subseteq>
     set inval \<union> {x. \<exists>c \<in> set pending. (c, x) \<in> (dep_edges items)\<^sup>*}"
proof (induction items inval pending rule: invalidate_loop.induct)
  case (2 items inval current pending)
  let ?new = "filter (\<lambda>c. c \<notin> set inval) (dict_fromkeys (dependents items current))"
  have new: "(current, x) \<in> (dep_edges items)\<^sup>*" if "x \<in> set ?new" for x
    using that by (auto simp: set_dependents)
  have "(current, x) \<in> (dep_edges items)\<^sup>*" if "c \<in> set ?new" "(c, x) \<in> (dep_edges items)\<^sup>*" for c x
    using new [OF that(1)] that(2) by (rule rtrancl_trans)
  moreover have "set (invalidate_loop items (inval @ ?new) (rev ?new @ pending)) \<subseteq>
      set (inval @ ?new) \<union> {x. \<exists>c \<in> set (rev ?new @ pending). (c, x) \<in> (dep_edges items)\<^sup>*}"
    by (rule 2 [OF refl])
  ultimately show ?case using new by (fastforce simp: Let_def)
qed simp

lemma invalidate_loop_closed:
  "set pending \<subseteq> set inval \<Longrightarrow> \<forall>x \<in> set inval - set pending. set (dependents items x) \<subseteq> set inval \<Longrightarrow>
     set inval \<subseteq> set (invalidate_loop items inval pending)
     \<and> (\<forall>x \<in> set (invalidate_loop items inval pending).
          set (dependents items x) \<subseteq> set (invalidate_loop items inval pending))"
proof (induction items inval pending rule: invalidate_loop.induct)
  case (2 items inval current pending)
  let ?new = "filter (\<lambda>c. c \<notin> set inval) (dict_fromkeys (dependents items current))"
  have "set (rev ?new @ pending) \<subseteq> set (inval @ ?new)" using 2(2) by auto
  moreover have "\<forall>x \<in> set (inval @ ?new) - set (rev ?new @ pending). set (dependents items x) \<subseteq> set (inval @ ?new)"
    using 2(3) by auto
  ultimately show ?case using 2(1) [OF refl] by (auto simp: Let_def)
qed simp

lemma set_invalidated_by:
  "set (invalidated_by items frontier) = {x. \<exists>f \<in> set frontier. (f, x) \<in> (dep_edges items)\<^sup>*}"
proof (intro equalityI subsetI)
  fix x assume "x \<in> set (invalidated_by items frontier)"
  then show "x \<in> {x. \<exists>f \<in> set frontier. (f, x) \<in> (dep_edges items)\<^sup>*}"
    using invalidate_loop_sound [of items "dict_fromkeys frontier" "rev frontier"]
    by (auto simp: invalidated_by_def)
next
  fix x assume "x \<in> {x. \<exists>f \<in> set frontier. (f, x) \<in> (dep_edges items)\<^sup>*}"
  then obtain f where f: "f \<in> set frontier" "(f, x) \<in> (dep_edges items)\<^sup>*" by blast
  have closed: "set frontier \<subseteq> set (invalidated_by items frontier)"
    "\<And>y. y \<in> set (invalidated_by items frontier) \<Longrightarrow>
       set (dependents items y) \<subseteq> set (invalidated_by items frontier)"
    using invalidate_loop_closed [of "rev frontier" "dict_fromkeys frontier" items]
    by (auto simp: invalidated_by_def)
  from f(2) show "x \<in> set (invalidated_by items frontier)"
    by (induction rule: rtrancl_induct) (use f(1) closed in \<open>auto simp: set_dependents\<close>)
qed

lemma dict_get_filter:
  "dict_get (filter (\<lambda>(i, _). P i) d) k = (if P k then dict_get d k else None)"
  by (induction d) auto

lemma is_completed_filter:
  "is_completed (filter (\<lambda>(i, _). P i) results) k \<longleftrightarrow> P k \<and> is_completed results k"
  by (simp add: is_completed_def dict_get_filter)

text \<open>Dropping a set of items that is closed under dependents keeps the state well formed.\<close>

lemma drop_items_ok:
  assumes "run_ok s"
    and closed: "\<And>x y. x \<in> set ids \<Longrightarrow> (x, y) \<in> dep_edges (pl_work_items (rs_plan s)) \<Longrightarrow> y \<in> set ids"
  shows "run_ok (drop_items ids s)"
proof -
  let ?p = "rs_plan s" and ?res = "rs_results s"
  let ?res' = "filter (\<lambda>(i, _). i \<notin> set ids) ?res"
  from assms(1) have ok: "results_ok ?p ?res" "deps_closed ?p ?res" "forced_ok s" by (simp_all add: run_ok_def)
  have "results_ok ?p ?res'" using ok(1) by (auto simp: results_ok_def distinct_map_filter)
  moreover have "deps_closed ?p ?res'"
    unfolding deps_closed_def
  proof (intro ballI impI)
    fix w assume w: "w \<in> set (pl_work_items ?p)" "wi_id w \<in> set (dict_keys ?res')"
    then have "wi_id w \<notin> set ids" "list_all (is_completed ?res) (wi_dependency_ids w)"
      using ok(2) by (auto simp: deps_closed_def)
    moreover have "d \<notin> set ids" if "d \<in> set (wi_dependency_ids w)" for d
      using closed [of d "wi_id w"] \<open>wi_id w \<notin> set ids\<close> that w(1) by (auto simp: dep_edges_def)
    ultimately show "list_all (is_completed ?res') (wi_dependency_ids w)"
      by (simp add: list_all_iff is_completed_filter)
  qed
  moreover have "forced_ok (drop_items ids s)"
    using ok(3) by (simp add: forced_ok_def drop_items_def is_completed_filter)
  ultimately show ?thesis by (simp add: run_ok_def drop_items_def)
qed

lemma invalidated_closed:
  "x \<in> set (invalidated_by items frontier) \<Longrightarrow> (x, y) \<in> dep_edges items \<Longrightarrow>
     y \<in> set (invalidated_by items frontier)"
  by (auto simp: set_invalidated_by intro: rtrancl_into_rtrancl)

lemma run_ok_contexts [simp]: "run_ok (s\<lparr>rs_retry_contexts := c\<rparr>) = run_ok s"
  by (simp add: run_ok_def forced_ok_def)

text \<open>A recovery decision that has not been applied invalidates exactly its causal frontier (the
  root cause and the interrupted siblings that the plan knows) and everything that depends on it,
  directly or not: those items have no result afterwards, every other result is unchanged, and
  the state stays well formed.\<close>

theorem recovery_invalidates_frontier:
  assumes "run_ok s" "rr_created_at r \<notin> set consumed" "t = apply_recovery_record sha consumed r s"
  shows "run_ok t \<and> (\<forall>i. dict_get (rs_results t) i =
    (if \<exists>f \<in> set (recovery_frontier (rs_plan s) r). (f, i) \<in> (dep_edges (pl_work_items (rs_plan s)))\<^sup>*
     then None else dict_get (rs_results s) i))"
proof (cases "recovery_frontier (rs_plan s) r = []")
  case True
  with assms show ?thesis by (simp add: apply_recovery_record_def)
next
  case False
  let ?inval = "invalidated_by (pl_work_items (rs_plan s)) (recovery_frontier (rs_plan s) r)"
  have "run_ok (drop_items ?inval s)" by (rule drop_items_ok [OF assms(1) invalidated_closed])
  with False assms(2,3) show ?thesis
    by (simp add: apply_recovery_record_def Let_def drop_items_def dict_get_filter set_invalidated_by)
qed

text \<open>Scheduling a completed item to run again keeps the state well formed: the item and all its
  dependents lose their results, and the item is marked with its diagnostic, so that the
  checkpoint written next can be read back.\<close>

theorem rerun_keeps_run_ok:
  assumes "run_ok s" "set owners \<subseteq> wi_id ` set (pl_work_items (rs_plan s))" "\<not> blank diagnostic"
  shows "run_ok (schedule_owner_rerun owners diagnostic s)"
proof (cases "\<exists>owner. owners = [owner] \<and> owner \<notin> rs_forced s \<and> is_completed (rs_results s) owner")
  case True
  then obtain owner where o: "owners = [owner]" "owner \<notin> rs_forced s" "is_completed (rs_results s) owner" by blast
  let ?inval = "invalidated_by (pl_work_items (rs_plan s)) [owner]"
  have ok: "run_ok (drop_items ?inval s)" by (rule drop_items_ok [OF assms(1) invalidated_closed])
  have "\<not> is_completed (rs_results (drop_items ?inval s)) owner"
    by (simp add: drop_items_def is_completed_filter set_invalidated_by)
  moreover have "owner \<notin> set (dict_keys (rs_diagnostics s))"
    using assms(1) o(2) by (simp add: run_ok_def forced_ok_def)
  ultimately show ?thesis
    using ok o assms(2,3)
    by (auto simp: schedule_owner_rerun_def Let_def run_ok_def forced_ok_def drop_items_def set_dict_put_new)
next
  case False
  then have "schedule_owner_rerun owners diagnostic s = s"
    by (auto simp: schedule_owner_rerun_def split: list.splits)
  with assms(1) show ?thesis by simp
qed

section \<open>Pruning\<close>

definition supported :: "work_item list \<Rightarrow> string set \<Rightarrow> bool" where
  "supported items S \<longleftrightarrow> (\<forall>w \<in> set items. wi_id w \<in> S \<longrightarrow> set (wi_dependency_ids w) \<subseteq> S)"

lemma prune_pass_Cons:
  "prune_pass (w # items) kept = prune_pass items
     (if wi_id w \<in> set kept \<and> list_ex (\<lambda>d. d \<notin> set kept) (wi_dependency_ids w)
      then filter (\<lambda>i. i \<noteq> wi_id w) kept else kept)"
  by (simp add: prune_pass_def)

lemma prune_pass_subset: "set (prune_pass items kept) \<subseteq> set kept"
proof (induction items arbitrary: kept)
  case (Cons w items)
  show ?case
    unfolding prune_pass_Cons
    using Cons [of "filter (\<lambda>i. i \<noteq> wi_id w) kept"] Cons [of kept] by auto
qed (simp add: prune_pass_def)

lemma prune_pass_length: "length (prune_pass items kept) \<le> length kept"
  using prune_pass_shrinks [of items kept] by (cases "prune_pass items kept = kept") auto

lemma prune_pass_fixed: "prune_pass items kept = kept \<Longrightarrow> supported items (set kept)"
proof (induction items arbitrary: kept)
  case (Cons w items)
  have stay: "\<not> (wi_id w \<in> set kept \<and> list_ex (\<lambda>d. d \<notin> set kept) (wi_dependency_ids w))"
  proof
    assume drop: "wi_id w \<in> set kept \<and> list_ex (\<lambda>d. d \<notin> set kept) (wi_dependency_ids w)"
    then have "length (filter (\<lambda>i. i \<noteq> wi_id w) kept) < length kept"
      by (intro length_filter_less [of "wi_id w"]) auto
    moreover have "kept = prune_pass items (filter (\<lambda>i. i \<noteq> wi_id w) kept)"
      using Cons.prems drop by (simp add: prune_pass_Cons)
    ultimately show False
      using prune_pass_length [of items "filter (\<lambda>i. i \<noteq> wi_id w) kept"] by simp
  qed
  then have "prune_pass items kept = kept" using Cons.prems by (simp only: prune_pass_Cons if_False)
  with Cons.IH stay show ?case by (auto simp: supported_def list_ex_iff)
qed (simp add: supported_def)

lemma prune_pass_keeps:
  "S \<subseteq> set kept \<Longrightarrow> supported items S \<Longrightarrow> S \<subseteq> set (prune_pass items kept)"
proof (induction items arbitrary: kept)
  case (Cons w items)
  have "S \<subseteq> set (if wi_id w \<in> set kept \<and> list_ex (\<lambda>d. d \<notin> set kept) (wi_dependency_ids w)
      then filter (\<lambda>i. i \<noteq> wi_id w) kept else kept)"
    using Cons.prems by (auto simp: supported_def list_ex_iff)
  then show ?case
    unfolding prune_pass_Cons using Cons.prems(2) by (intro Cons.IH) (auto simp: supported_def)
qed (simp add: prune_pass_def)

lemma prune_loop_greatest:
  "set (prune_loop items kept) \<subseteq> set kept \<and> supported items (set (prune_loop items kept))
   \<and> (\<forall>S. S \<subseteq> set kept \<longrightarrow> supported items S \<longrightarrow> S \<subseteq> set (prune_loop items kept))"
proof (induction items kept rule: prune_loop.induct)
  case (1 items kept)
  show ?case
  proof (cases "prune_pass items kept = kept")
    case True
    then show ?thesis using prune_pass_fixed by (auto simp: prune_loop.simps [of items kept])
  next
    case False
    from 1 [OF False] prune_pass_subset [of items kept] prune_pass_keeps [of _ kept items] False
    show ?thesis unfolding prune_loop.simps [of items kept] by (auto 4 3)
  qed
qed

text \<open>The last terminal event of an item decides whether the log counts it as completed.\<close>

definition terminal_for :: "string \<Rightarrow> json \<Rightarrow> bool" where
  "terminal_for i e \<longleftrightarrow> event_item e = i
     \<and> list_ex (\<lambda>t. json_get e ''type'' = Some (JStr t)) terminal_event_types"

definition log_completed :: "plan \<Rightarrow> json list \<Rightarrow> string set" where
  "log_completed p events = {i. i \<noteq> [] \<and> plan_item p i \<noteq> None \<and>
     (\<exists>e. List.find (terminal_for i) (rev events) = Some e
        \<and> json_get e ''type'' = Some (JStr ''work_item_completed''))}"

lemma note_terminal_event_get:
  "dict_get (note_terminal_event p terminal e) i =
     (if i \<noteq> [] \<and> plan_item p i \<noteq> None \<and> terminal_for i e then Some e else dict_get terminal i)"
  by (auto simp: note_terminal_event_def Let_def terminal_for_def dict.get_put)

lemma terminal_events_get:
  "dict_get (foldl (note_terminal_event p) [] events) i =
     (if i = [] \<or> plan_item p i = None then None else List.find (terminal_for i) (rev events))"
proof (induction events rule: rev_induct)
  case (snoc e events)
  then show ?case
    by (auto simp: note_terminal_event_get)
qed simp

lemma terminal_events_distinct: "distinct (dict_keys (foldl (note_terminal_event p) [] events))"
  by (induction events rule: rev_induct) (auto simp: note_terminal_event_def Let_def distinct_update)

lemma completed_by_events_eq: "set (completed_by_events p events) = log_completed p events"
proof -
  have "i \<in> set (completed_by_events p events) \<longleftrightarrow>
      (\<exists>e. dict_get (foldl (note_terminal_event p) [] events) i = Some e
         \<and> json_get e ''type'' = Some (JStr ''work_item_completed''))" for i
    using map_of_eq_Some_iff [OF terminal_events_distinct, of p events i]
    by (force simp: completed_by_events_def)
  then show ?thesis by (auto simp: terminal_events_get log_completed_def split: if_splits)
qed

lemma supported_results:
  assumes "supported items (set (dict_keys results))" "\<forall>(i, r) \<in> set results. nr_status r = COMPLETED"
    "pl_work_items p = items"
  shows "deps_closed p results"
  unfolding deps_closed_def list_all_iff
proof (intro ballI impI)
  fix w d assume "w \<in> set (pl_work_items p)" "wi_id w \<in> set (dict_keys results)" "d \<in> set (wi_dependency_ids w)"
  then have "d \<in> set (dict_keys results)" using assms(1,3) by (auto simp: supported_def)
  then obtain r where "dict_get results d = Some r" using map_of_None_key [of results d] by auto
  moreover from this have "nr_status r = COMPLETED" using assms(2) by (auto dest: map_of_SomeD)
  ultimately show "is_completed results d" by (simp add: is_completed_def)
qed

lemma completed_nodes:
  "\<forall>w \<in> set ws. \<not> blank (wi_id w) \<Longrightarrow>
     mapE (\<lambda>w. bindE (node_completed (wi_id w) (wi_agent_id w) (body w)) (\<lambda>r. Inr (wi_id w, r))) ws =
     Inr (map (\<lambda>w. (wi_id w, \<lparr>nr_work_item_id = wi_id w, nr_agent_id = wi_agent_id w,
       nr_status = COMPLETED, nr_content = Some (body w), nr_capability_request = None,
       nr_failure_signal = None, nr_error = None\<rparr>)) ws)"
  by (induction ws) (simp_all add: node_completed_def validate_node_id_def)

text \<open>C30. The event log alone rebuilds a sound state of an accepted plan: it succeeds, the state is well
  formed, and the items it counts as completed are the largest set of items whose last terminal
  event is a completion and whose dependencies are in the set.\<close>

theorem rebuild_from_log:
  assumes "plan_ok sha p"
  shows "\<exists>s. rebuild_delivery_state fs events p = Inr s \<and> rs_plan s = p \<and> run_ok s
    \<and> set (dict_keys (rs_results s)) \<subseteq> log_completed p events
    \<and> supported (pl_work_items p) (set (dict_keys (rs_results s)))
    \<and> (\<forall>S. S \<subseteq> log_completed p events \<longrightarrow> supported (pl_work_items p) S \<longrightarrow>
          S \<subseteq> set (dict_keys (rs_results s)))"
proof -
  let ?items = "pl_work_items p" and ?kept = "prune_loop (pl_work_items p) (completed_by_events p events)"
  let ?done = "filter (\<lambda>w. wi_id w \<in> set ?kept) ?items"
  let ?body = "\<lambda>w. or_empty (dict_get (load_bodies fs ?done) (wi_output_key w))"
  let ?results = "map (\<lambda>w. (wi_id w, \<lparr>nr_work_item_id = wi_id w, nr_agent_id = wi_agent_id w,
       nr_status = COMPLETED, nr_content = Some (?body w), nr_capability_request = None,
       nr_failure_signal = None, nr_error = None\<rparr>)) ?done"
  have ids: "distinct (map wi_id ?items)" using assms by (auto simp: plan_ok_def dest: mk_plan_checks(2))
  note greatest = prune_loop_greatest [of ?items "completed_by_events p events", unfolded completed_by_events_eq]
  have "set ?kept \<subseteq> wi_id ` set ?items"
    using greatest find_item_Some [of ?items] by (fastforce simp: log_completed_def plan_item_def)
  then have keys: "set (dict_keys ?results) = set ?kept" by (auto simp: comp_def)
  have dk: "distinct (dict_keys ?results)" using ids by (simp add: comp_def distinct_map_filter)
  let ?s = "(new_run p)\<lparr>rs_results := ?results, rs_artifacts := load_bodies fs ?done\<rparr>"
  have "rebuild_delivery_state fs events p = Inr ?s"
    using completed_nodes [of ?done ?body] constructed_item(2) [OF assms]
    by (simp add: rebuild_delivery_state_def Let_def dict_of_distinct [OF dk] del: bindE_Inr_iff)
  moreover have "run_ok ?s"
  proof -
    have "results_ok p ?results" using dk by (auto simp: results_ok_def)
    moreover have "deps_closed p ?results"
      by (rule supported_results [of ?items]) (use greatest keys in auto)
    ultimately show ?thesis by (simp add: run_ok_def new_run_def forced_ok_def)
  qed
  ultimately show ?thesis using greatest keys by (intro exI [of _ ?s]) (simp add: new_run_def del: set_map)
qed

section \<open>Revalidation\<close>

lemma examine_results:
  assumes "foldE (examine_result sha rp names err_msg) ws (s0, v0) = Inr (s1, v1)"
    and "distinct (dict_keys v0)"
    and "\<forall>(i, r) \<in> set v0. dict_get (rs_results s0) i = Some r \<and>
      (\<exists>w \<in> set (pl_work_items (rs_plan s0)). wi_id w = i \<and>
         evidence_valid sha rp names (tc_trace_id (pl_trace (rs_plan s0))) w = Inr True)"
    and "set ws \<subseteq> set (pl_work_items (rs_plan s0))"
  shows "rs_plan s1 = rs_plan s0 \<and> rs_results s1 = rs_results s0 \<and> distinct (dict_keys v1)
    \<and> (\<forall>(i, r) \<in> set v1. dict_get (rs_results s0) i = Some r \<and>
      (\<exists>w \<in> set (pl_work_items (rs_plan s0)). wi_id w = i \<and>
         evidence_valid sha rp names (tc_trace_id (pl_trace (rs_plan s0))) w = Inr True))"
  using assms
proof (induction ws arbitrary: s0 v0)
  case (Cons w ws)
  from Cons.prems(1) obtain s v where
    step: "examine_result sha rp names err_msg w (s0, v0) = Inr (s, v)"
    and rest: "foldE (examine_result sha rp names err_msg) ws (s, v) = Inr (s1, v1)" by auto
  have same: "rs_plan s = rs_plan s0" "rs_results s = rs_results s0"
    using step by (auto simp: examine_result_def split: option.splits if_splits)
  have "v = v0 \<or> (\<exists>r. v = dict_put (wi_id w) r v0 \<and> dict_get (rs_results s0) (wi_id w) = Some r
      \<and> evidence_valid sha rp names (tc_trace_id (pl_trace (rs_plan s0))) w = Inr True)"
    using step by (auto simp: examine_result_def split: option.splits if_splits)
  then have "distinct (dict_keys v)" "\<forall>(i, r) \<in> set v. dict_get (rs_results s0) i = Some r \<and>
      (\<exists>w \<in> set (pl_work_items (rs_plan s0)). wi_id w = i \<and>
         evidence_valid sha rp names (tc_trace_id (pl_trace (rs_plan s0))) w = Inr True)"
    using Cons.prems(2,3,4) by (auto simp: distinct_update dest!: set_dict_put [THEN subsetD])
  then show ?case
    using Cons.IH [OF rest] Cons.prems(4) by (simp add: same)
qed simp

text \<open>Resuming never trusts a result without its evidence: when all results of a well-formed state
  are completions (as they are after reading a checkpoint), what revalidation keeps was there
  before, has valid durable evidence, and stays closed under dependencies.\<close>

theorem sanitize_keeps_evidence:
  assumes "run_ok s" "\<forall>(i, r) \<in> set (rs_results s). nr_status r = COMPLETED"
    and "sanitize_resume_state sha rp names err_msg s = Inr t"
  shows "rs_plan t = rs_plan s \<and> results_ok (rs_plan s) (rs_results t) \<and> deps_closed (rs_plan s) (rs_results t)
    \<and> (\<forall>(i, r) \<in> set (rs_results t). dict_get (rs_results s) i = Some r \<and>
      (\<exists>w \<in> set (pl_work_items (rs_plan s)). wi_id w = i \<and>
         evidence_valid sha rp names (tc_trace_id (pl_trace (rs_plan s))) w = Inr True))"
proof -
  let ?items = "pl_work_items (rs_plan s)"
  from assms(3) obtain s1 v1 where
    ex: "foldE (examine_result sha rp names err_msg) ?items (s, []) = Inr (s1, v1)"
    and t: "rs_plan t = rs_plan s1"
      "rs_results t = filter (\<lambda>(i, _). i \<in> set (prune_loop ?items (map fst v1))) v1"
    by (auto simp: sanitize_resume_state_def Let_def)
  note v = examine_results [OF ex, simplified]
  have sub: "set (prune_loop ?items (map fst v1)) \<subseteq> set (map fst v1)"
    and sup: "supported ?items (set (prune_loop ?items (map fst v1)))"
    using prune_loop_greatest [of ?items "map fst v1"] by auto
  then have keys: "set (dict_keys (rs_results t)) = set (prune_loop ?items (map fst v1))"
    by (force simp: t(2))
  have "results_ok (rs_plan s) (rs_results t)"
    using assms(1) v unfolding results_ok_def run_ok_def t(2)
    by (fastforce simp: distinct_map_filter dest: map_of_SomeD)
  moreover have "deps_closed (rs_plan s) (rs_results t)"
    by (rule supported_results [of ?items]) (use sup keys v assms(2) t(2) in \<open>auto dest!: map_of_SomeD\<close>)
  moreover have "\<forall>(i, r) \<in> set (rs_results t). dict_get (rs_results s) i = Some r \<and>
      (\<exists>w \<in> set ?items. wi_id w = i \<and>
         evidence_valid sha rp names (tc_trace_id (pl_trace (rs_plan s))) w = Inr True)"
    using v unfolding t(2) by auto
  moreover have "rs_plan t = rs_plan s" using v t(1) by simp
  ultimately show ?thesis by (intro conjI)
qed

section \<open>Concrete resumptions\<close>

definition demo_crash :: retry_record where
  "demo_crash = \<lparr>rr_scope = BATCH, rr_subject_id = ''wave-0'', rr_attempt = 1, rr_max_attempts = 2,
     rr_action = RETRY_BATCH, rr_failure = plain_signal WORKER_CRASH ''gone'',
     rr_root = Some ''wi-2'', rr_interrupted = [], rr_created_at = ''t1''\<rparr>"

theorem recovery_invalidates_frontier_witness:
  "let t = apply_recovery_record demo_sha [] demo_crash demo_run in run_ok t
   \<and> (\<forall>i. dict_get (rs_results t) i =
    (if \<exists>f \<in> set (recovery_frontier (rs_plan demo_run) demo_crash).
          (f, i) \<in> (dep_edges (pl_work_items (rs_plan demo_run)))\<^sup>*
     then None else dict_get (rs_results demo_run) i))"
  unfolding Let_def
  by (rule recovery_invalidates_frontier [where consumed = "[]"]) (simp_all add: demo_run_ok)

theorem rerun_keeps_run_ok_witness:
  "run_ok (schedule_owner_rerun [''wi-1''] ''contract mismatch'' demo_run)"
  by (rule rerun_keeps_run_ok [OF demo_run_ok(1)]) (simp add: demo_run_ok(2), code_simp+)

definition demo_event :: "string \<Rightarrow> string \<Rightarrow> json" where
  "demo_event i t = JObj [(''work_item_id'', JStr i), (''type'', JStr t)]"

definition demo_log :: "json list" where
  "demo_log = [demo_event ''wi-1'' ''work_item_failed'', demo_event ''wi-1'' ''work_item_completed'']"

theorem rebuild_from_log_witness:
  "\<exists>s. rebuild_delivery_state (\<lambda>_. None) demo_log demo_plan = Inr s \<and> rs_plan s = demo_plan \<and> run_ok s
    \<and> set (dict_keys (rs_results s)) \<subseteq> log_completed demo_plan demo_log"
  using rebuild_from_log [OF demo_plan_sealed, of "\<lambda>_. None" demo_log] by blast

definition demo_sanitized :: run_state where
  "demo_sanitized = projr (sanitize_resume_state demo_sha empty_repo [] None demo_run)"

lemma demo_sanitized_eq: "sanitize_resume_state demo_sha empty_repo [] None demo_run = Inr demo_sanitized"
proof -
  have "\<not> isl (sanitize_resume_state demo_sha empty_repo [] None demo_run)" by code_simp
  then show ?thesis
    unfolding demo_sanitized_def by (cases "sanitize_resume_state demo_sha empty_repo [] None demo_run") auto
qed

lemma demo_run_completed: "\<forall>(i, r) \<in> set (rs_results demo_run). nr_status r = COMPLETED"
  by code_simp

theorem sanitize_keeps_evidence_witness:
  "results_ok (rs_plan demo_run) (rs_results demo_sanitized)
   \<and> deps_closed (rs_plan demo_run) (rs_results demo_sanitized)"
  using sanitize_keeps_evidence [OF demo_run_ok(1) demo_run_completed demo_sanitized_eq] by blast

definition demo_merge_code :: work_item where
  "demo_merge_code = projr (mk_work_item demo_sha
     (blank_work_item ''wi-1'' ''code_integration_agent'' ''merge'' ''implementation_merge''))"

definition demo_code_plan :: plan where
  "demo_code_plan = demo_plan\<lparr>pl_work_items := [demo_merge_code]\<rparr>"

definition demo_code_sanitized :: run_state where
  "demo_code_sanitized = projr (sanitize_resume_state demo_sha empty_repo [] (Some ''import error'')
     (demo_record_done demo_merge_code (new_run demo_code_plan)))"

text \<open>One resumption leaves a state whose checkpoint cannot be read: when the published workspace of
  a completed code integration fails its validation, the item gets a recovery diagnostic without
  a forced rerun, and the reader of checkpoints rejects that combination.\<close>

theorem sanitize_unreadable_checkpoint:
  "\<not> isl (mk_plan demo_code_plan)
   \<and> from_checkpoint demo_code_plan (as_checkpoint demo_sha demo_code_sanitized)
       = Inl (ValueError ''recovery_diagnostics'')"
  by (intro conjI) code_simp+

end
