(* ===== verification/Grants.thy ===== *)
theory Grants
  imports Json "HOL-Library.Multiset"
begin

text \<open>
  Capability grants, \<^verbatim>\<open>app/tool_manager/grants.py\<close>: the records, the two files that hold
  them (of the project and of the trace), and the operations of the store. A time stamp is
  read by \<open>instant\<close>, which stands for \<open>datetime.fromisoformat\<close>: the text is no time stamp, an
  instant without a time zone, which Python refuses to compare with the aware current time, or
  an aware instant. The clock is read once per operation. A file is the JSON value it holds.
\<close>

record capability_grant =
  cg_grant_id :: string
  cg_trace_id :: string
  cg_work_item_id :: "string option"
  cg_capability :: string
  cg_source_name :: string
  cg_scope :: string
  cg_approved_by :: string
  cg_approved_at :: string
  cg_expires_at :: "string option"
  cg_status :: string

datatype timestamp = NoTimestamp | NaiveTime int | AwareTime int

definition grant_active :: "(string \<Rightarrow> timestamp) \<Rightarrow> int \<Rightarrow> capability_grant \<Rightarrow> bool result" where
  "grant_active instant now g =
     (if cg_status g \<noteq> ''active'' then Inr False
      else (case cg_expires_at g of
          None \<Rightarrow> Inr True
        | Some e \<Rightarrow> if e = [] then Inr True else (case instant e of
              NoTimestamp \<Rightarrow> Inr False
            | NaiveTime t \<Rightarrow> Inl (TypeError ''offset-naive'')
            | AwareTime t \<Rightarrow> Inr (t > now))))"

definition grant_as_dict :: "capability_grant \<Rightarrow> json" where
  "grant_as_dict g = JObj
    [(''grant_id'', JStr (cg_grant_id g)),
     (''trace_id'', JStr (cg_trace_id g)),
     (''work_item_id'', jopt (cg_work_item_id g)),
     (''capability'', JStr (cg_capability g)),
     (''source_name'', JStr (cg_source_name g)),
     (''scope'', JStr (cg_scope g)),
     (''approved_by'', JStr (cg_approved_by g)),
     (''approved_at'', JStr (cg_approved_at g)),
     (''expires_at'', jopt (cg_expires_at g)),
     (''status'', JStr (cg_status g))]"

definition parse_grant :: "json \<Rightarrow> capability_grant result" where
  "parse_grant j =
     bindE (str_field j ''grant_id'') (\<lambda>i. bindE (str_field j ''trace_id'') (\<lambda>trace.
     bindE (str_field j ''capability'') (\<lambda>cap. bindE (str_field j ''source_name'') (\<lambda>source.
     Inr \<lparr>cg_grant_id = i, cg_trace_id = trace, cg_work_item_id = truthy_str_field j ''work_item_id'',
       cg_capability = cap, cg_source_name = source, cg_scope = str_default j ''scope'' ''trace'',
       cg_approved_by = str_default j ''approved_by'' ''api'',
       cg_approved_at = str_default j ''approved_at'' [],
       cg_expires_at = truthy_str_field j ''expires_at'',
       cg_status = str_default j ''status'' ''active''\<rparr>))))"

section \<open>The files\<close>

record grant_files =
  gf_project :: json_file
  gf_trace :: json_file

definition read_grants :: "json_file \<Rightarrow> json list" where
  "read_grants f = (case f of JsonFile (JList xs) \<Rightarrow> xs | _ \<Rightarrow> [])"

definition write_grants :: "json list \<Rightarrow> json_file" where
  "write_grants xs = JsonFile (JList xs)"

text \<open>The project's grants first; of two entries with one identifier the first is read.\<close>

fun first_by_id :: "string list \<Rightarrow> json list \<Rightarrow> json list" where
  "first_by_id seen [] = []"
| "first_by_id seen (x # xs) =
     (let i = str_default x ''grant_id'' [] in
      if i \<noteq> [] \<and> i \<in> set seen then first_by_id seen xs
      else x # first_by_id (if i \<noteq> [] then i # seen else seen) xs)"

definition read_all_grants :: "grant_files \<Rightarrow> json list result" where
  "read_all_grants f =
     (let items = read_grants (gf_project f) @ read_grants (gf_trace f)
      in if list_all is_obj items then Inr (first_by_id [] items) else Inl (AttributeError ''get''))"

definition write_all_grants :: "json list \<Rightarrow> grant_files \<Rightarrow> grant_files" where
  "write_all_grants gs f =
     (let project = filter (\<lambda>g. json_get g ''scope'' = Some (JStr ''project'')) gs;
          trace = filter (\<lambda>g. json_get g ''scope'' \<noteq> Some (JStr ''project'')) gs;
          f1 = (if project \<noteq> [] \<or> gf_project f \<noteq> NoFile
                then f\<lparr>gf_project := write_grants project\<rparr> else f)
      in if trace \<noteq> [] \<or> gf_trace f1 \<noteq> NoFile then f1\<lparr>gf_trace := write_grants trace\<rparr> else f1)"

section \<open>The operations\<close>

definition visible_grants :: "string \<Rightarrow> grant_files \<Rightarrow> capability_grant list result" where
  "visible_grants trace f = bindE (read_all_grants f) (\<lambda>raw. bindE (mapE parse_grant raw) (\<lambda>gs.
     Inr (filter (\<lambda>g. cg_scope g = ''project'' \<or> cg_trace_id g = trace) gs)))"

fun filterE :: "('a \<Rightarrow> bool result) \<Rightarrow> 'a list \<Rightarrow> 'a list result" where
  "filterE p [] = Inr []"
| "filterE p (x # xs) = bindE (p x) (\<lambda>b. bindE (filterE p xs) (\<lambda>ys. Inr (if b then x # ys else ys)))"

text \<open>Listing the active grants rewrites the files when some are no longer active.\<close>

definition list_grants ::
  "(string \<Rightarrow> timestamp) \<Rightarrow> int \<Rightarrow> string \<Rightarrow> bool \<Rightarrow> grant_files
   \<Rightarrow> (capability_grant list \<times> grant_files) result" where
  "list_grants instant now trace include_inactive f = bindE (visible_grants trace f) (\<lambda>gs.
     bindE (filterE (grant_active instant now) gs) (\<lambda>active.
       if include_inactive then Inr (gs, f)
       else if length active \<noteq> length gs
       then bindE (filterE (\<lambda>g. bindE (grant_active instant now g) (\<lambda>b.
                     Inr (b \<or> cg_status g = ''revoked''))) gs) (\<lambda>kept.
              Inr (active, write_all_grants (map grant_as_dict kept) f))
       else Inr (active, f)))"

definition new_grant ::
  "string \<Rightarrow> string \<Rightarrow> string \<Rightarrow> string \<Rightarrow> string \<Rightarrow> string option \<Rightarrow> string \<Rightarrow> string
   \<Rightarrow> string option \<Rightarrow> capability_grant" where
  "new_grant now_text trace uuid cap source item scope approved_by expires =
     \<lparr>cg_grant_id = ''grant-'' @ uuid, cg_trace_id = trace, cg_work_item_id = item,
      cg_capability = py_strip cap, cg_source_name = py_strip source, cg_scope = scope,
      cg_approved_by = approved_by, cg_approved_at = now_text, cg_expires_at = expires,
      cg_status = ''active''\<rparr>"

definition add_grant ::
  "(string \<Rightarrow> timestamp) \<Rightarrow> int \<Rightarrow> string \<Rightarrow> string \<Rightarrow> string \<Rightarrow> string \<Rightarrow> string \<Rightarrow> string option
   \<Rightarrow> string \<Rightarrow> string \<Rightarrow> string option \<Rightarrow> grant_files \<Rightarrow> (capability_grant \<times> grant_files) result" where
  "add_grant instant now now_text trace uuid cap source item scope approved_by expires f =
     (if scope \<noteq> ''node'' \<and> scope \<noteq> ''trace'' \<and> scope \<noteq> ''project'' then Inl (ValueError ''scope'')
      else if blank cap \<or> blank source then Inl (ValueError ''capability'')
      else bindE (list_grants instant now trace True f) (\<lambda>(gs, _).
        case List.find (\<lambda>g. grant_active instant now g = Inr True \<and> cg_capability g = cap
               \<and> cg_source_name g = source \<and> cg_work_item_id g = item) gs of
          Some g \<Rightarrow> Inr (g, f)
        | None \<Rightarrow>
            let g = new_grant now_text trace uuid cap source item scope approved_by expires
            in if scope = ''project''
               then Inr (g, f\<lparr>gf_project := write_grants (read_grants (gf_project f) @ [grant_as_dict g])\<rparr>)
               else Inr (g, f\<lparr>gf_trace := write_grants
                      (filter (\<lambda>x. json_get x ''status'' = Some (JStr ''active'')) (read_grants (gf_trace f))
                       @ [grant_as_dict g])\<rparr>)))"

fun revoke_in :: "string \<Rightarrow> capability_grant list \<Rightarrow> (capability_grant \<times> capability_grant list) option" where
  "revoke_in i [] = None"
| "revoke_in i (g # gs) =
     (if cg_grant_id g = i then Some (g\<lparr>cg_status := ''revoked''\<rparr>, g\<lparr>cg_status := ''revoked''\<rparr> # gs)
      else map_option (\<lambda>(r, rest). (r, g # rest)) (revoke_in i gs))"

definition revoke_grant ::
  "(string \<Rightarrow> timestamp) \<Rightarrow> int \<Rightarrow> string \<Rightarrow> string \<Rightarrow> grant_files
   \<Rightarrow> (capability_grant \<times> grant_files) result" where
  "revoke_grant instant now trace i f = bindE (list_grants instant now trace True f) (\<lambda>(gs, _).
     case revoke_in i gs of
       None \<Rightarrow> Inl (KeyError i)
     | Some (r, gs') \<Rightarrow> Inr (r, write_all_grants (map grant_as_dict gs') f))"

text \<open>
  \<open>GraphRunner._capability_granted\<close>: a file system, value or type error grants nothing; the
  other exceptions of the store pass. Reading the grants may rewrite the files.
\<close>

definition covers :: "string \<Rightarrow> string \<Rightarrow> string \<Rightarrow> capability_grant \<Rightarrow> bool" where
  "covers trace item cap g \<longleftrightarrow> cg_capability g = cap \<and>
     (cg_scope g = ''project''
      \<or> (cg_trace_id g = trace \<and> cg_scope g = ''trace'')
      \<or> (cg_trace_id g = trace \<and> cg_scope g = ''node'' \<and> cg_work_item_id g = Some item))"

fun swallowed :: "err \<Rightarrow> bool" where
  "swallowed (ValueError _) = True"
| "swallowed (TypeError _) = True"
| "swallowed (FileNotFoundError _) = True"
| "swallowed (FileExistsError _) = True"
| "swallowed (PermissionError _) = True"
| "swallowed _ = False"

definition capability_granted ::
  "(string \<Rightarrow> timestamp) \<Rightarrow> int \<Rightarrow> string \<Rightarrow> string \<Rightarrow> string \<Rightarrow> grant_files
   \<Rightarrow> (bool \<times> grant_files) result" where
  "capability_granted instant now trace item cap f =
     (case list_grants instant now trace False f of
        Inl e \<Rightarrow> if swallowed e then Inr (False, f) else Inl e
      | Inr (gs, f') \<Rightarrow> Inr (list_ex (covers trace item cap) gs, f'))"

section \<open>Lemmas\<close>

text \<open>What a grant that was read satisfies: empty optional fields are read as absent.\<close>

definition parsed_grant :: "capability_grant \<Rightarrow> bool" where
  "parsed_grant g \<longleftrightarrow> cg_work_item_id g \<noteq> Some [] \<and> cg_expires_at g \<noteq> Some []"

definition raw_id :: "json \<Rightarrow> string" where
  "raw_id j = str_default j ''grant_id'' []"

definition ids_distinct :: "string list \<Rightarrow> bool" where
  "ids_distinct is \<longleftrightarrow> distinct (filter (\<lambda>i. i \<noteq> []) is)"

lemma parse_grant_parsed: "parse_grant j = Inr g \<Longrightarrow> parsed_grant g"
  by (auto simp: parse_grant_def parsed_grant_def truthy_str_field_nonempty)

lemma parse_grant_id: "parse_grant j = Inr g \<Longrightarrow> cg_grant_id g = raw_id j"
  by (auto simp: parse_grant_def str_field_def json_index_def raw_id_def str_default_def split: option.splits)

lemma raw_id_as_dict [simp]: "raw_id (grant_as_dict g) = cg_grant_id g"
  by (simp add: raw_id_def str_default_def grant_as_dict_def)

lemma is_obj_as_dict [simp]: "is_obj (grant_as_dict g)"
  by (simp add: grant_as_dict_def)

lemma scope_as_dict [simp]: "json_get (grant_as_dict g) ''scope'' = Some (JStr (cg_scope g))"
  by (simp add: grant_as_dict_def)

lemma status_as_dict [simp]: "json_get (grant_as_dict g) ''status'' = Some (JStr (cg_status g))"
  by (simp add: grant_as_dict_def)

lemma as_dict_fields:
  "json_get (grant_as_dict g) ''grant_id'' = Some (JStr (cg_grant_id g))"
  "json_get (grant_as_dict g) ''trace_id'' = Some (JStr (cg_trace_id g))"
  "json_get (grant_as_dict g) ''work_item_id'' = Some (jopt (cg_work_item_id g))"
  "json_get (grant_as_dict g) ''capability'' = Some (JStr (cg_capability g))"
  "json_get (grant_as_dict g) ''source_name'' = Some (JStr (cg_source_name g))"
  "json_get (grant_as_dict g) ''approved_by'' = Some (JStr (cg_approved_by g))"
  "json_get (grant_as_dict g) ''approved_at'' = Some (JStr (cg_approved_at g))"
  "json_get (grant_as_dict g) ''expires_at'' = Some (jopt (cg_expires_at g))"
  by (simp_all add: grant_as_dict_def)

lemma parse_grant_as_dict: "parsed_grant g \<Longrightarrow> parse_grant (grant_as_dict g) = Inr g"
  by (simp add: parse_grant_def parsed_grant_def as_dict_fields str_field_JStr str_default_JStr
      truthy_str_field_jopt)

lemma first_by_id_Cons:
  "first_by_id seen (x # xs) =
     (if raw_id x \<noteq> [] \<and> raw_id x \<in> set seen then first_by_id seen xs
      else x # first_by_id (if raw_id x \<noteq> [] then raw_id x # seen else seen) xs)"
  by (simp add: raw_id_def Let_def)

lemma first_by_id_distinct:
  "ids_distinct (map raw_id (first_by_id seen xs))
   \<and> (\<forall>i \<in> set (map raw_id (first_by_id seen xs)). i \<noteq> [] \<longrightarrow> i \<notin> set seen)"
  by (induction seen xs rule: first_by_id.induct)
    (auto simp: ids_distinct_def raw_id_def Let_def)

lemma first_by_id_id:
  "ids_distinct (map raw_id xs) \<Longrightarrow> (\<forall>i \<in> set (map raw_id xs). i \<noteq> [] \<longrightarrow> i \<notin> set seen)
   \<Longrightarrow> first_by_id seen xs = xs"
proof (induction xs arbitrary: seen)
  case (Cons x xs)
  then have "first_by_id (if raw_id x \<noteq> [] then raw_id x # seen else seen) xs = xs"
    by (intro Cons.IH) (auto simp: ids_distinct_def rev_image_eqI split: if_splits)
  then show ?case using Cons.prems(2) by (auto simp: first_by_id_Cons simp del: first_by_id.simps)
qed simp

lemma distinct_filter_map:
  "distinct (filter P (map f xs)) \<Longrightarrow> distinct (filter P (map f (filter Q xs)))"
  by (induction xs) auto

lemma visible_grants_inv:
  assumes "visible_grants trace f = Inr gs"
  shows "list_all parsed_grant gs" and "ids_distinct (map cg_grant_id gs)"
    and "list_all (\<lambda>g. cg_scope g = ''project'' \<or> cg_trace_id g = trace) gs"
proof -
  obtain raw ps where raw: "raw = first_by_id [] (read_grants (gf_project f) @ read_grants (gf_trace f))"
    and ps: "mapE parse_grant raw = Inr ps"
    and gs: "gs = filter (\<lambda>g. cg_scope g = ''project'' \<or> cg_trace_id g = trace) ps"
    using assms by (auto simp: visible_grants_def read_all_grants_def Let_def split: if_splits)
  show "list_all parsed_grant gs"
    using mapE_set [OF ps] by (auto simp: gs list_all_iff intro: parse_grant_parsed)
  have ids: "map cg_grant_id ps = map raw_id raw"
    using ps unfolding mapE_Inr_iff
    by (induction raw ps rule: list_all2_induct) (auto dest: parse_grant_id)
  have "ids_distinct (map cg_grant_id ps)" using first_by_id_distinct [of "[]"] by (simp add: ids raw)
  then show "ids_distinct (map cg_grant_id gs)"
    unfolding gs ids_distinct_def by (rule distinct_filter_map)
  show "list_all (\<lambda>g. cg_scope g = ''project'' \<or> cg_trace_id g = trace) gs"
    by (simp add: gs list_all_iff)
qed

text \<open>Writing grants back and reading them moves the project's to the front and loses none.\<close>

abbreviation project_first :: "capability_grant list \<Rightarrow> capability_grant list" where
  "project_first gs \<equiv> filter (\<lambda>g. cg_scope g = ''project'') gs @ filter (\<lambda>g. cg_scope g \<noteq> ''project'') gs"

lemma read_write_all:
  "read_grants (gf_project (write_all_grants (map grant_as_dict gs) f))
   @ read_grants (gf_trace (write_all_grants (map grant_as_dict gs) f))
   = map grant_as_dict (project_first gs)"
proof -
  define P where "P = (\<lambda>g. json_get g ''scope'' = Some (JStr ''project''))"
  let ?xs = "map grant_as_dict gs" and ?w = "write_all_grants (map grant_as_dict gs) f"
  have w: "?w = (let f1 = (if filter P ?xs \<noteq> [] \<or> gf_project f \<noteq> NoFile
                  then f\<lparr>gf_project := write_grants (filter P ?xs)\<rparr> else f)
     in if filter (\<lambda>g. \<not> P g) ?xs \<noteq> [] \<or> gf_trace f1 \<noteq> NoFile
        then f1\<lparr>gf_trace := write_grants (filter (\<lambda>g. \<not> P g) ?xs)\<rparr> else f1)"
    unfolding write_all_grants_def P_def Let_def by (rule refl)
  have "read_grants (gf_project ?w) = filter P ?xs \<and> read_grants (gf_trace ?w) = filter (\<lambda>g. \<not> P g) ?xs"
    unfolding w Let_def by (cases "filter P ?xs"; cases "filter (\<lambda>g. \<not> P g) ?xs")
      (simp_all add: read_grants_def write_grants_def)
  moreover have "P (grant_as_dict g) \<longleftrightarrow> cg_scope g = ''project''" for g
    by (simp add: P_def)
  ultimately show ?thesis by (simp add: filter_map comp_def)
qed

lemma ids_distinct_perm: "mset xs = mset ys \<Longrightarrow> ids_distinct xs \<Longrightarrow> ids_distinct ys"
  unfolding ids_distinct_def by (metis mset_eq_imp_distinct_iff mset_filter)

lemma visible_write_all:
  assumes "list_all parsed_grant gs" "ids_distinct (map cg_grant_id gs)"
    and "list_all (\<lambda>g. cg_scope g = ''project'' \<or> cg_trace_id g = trace) gs"
  shows "visible_grants trace (write_all_grants (map grant_as_dict gs) f) = Inr (project_first gs)"
proof -
  let ?ps = "project_first gs"
  have m: "mset ?ps = mset gs" by simp
  have "ids_distinct (map cg_grant_id ?ps)"
    by (rule ids_distinct_perm [OF _ assms(2)]) (simp only: mset_map m)
  then have "first_by_id [] (map grant_as_dict ?ps) = map grant_as_dict ?ps"
    by (intro first_by_id_id) (simp_all add: comp_def)
  moreover have "mapE parse_grant (map grant_as_dict ?ps) = Inr (map (\<lambda>g. g) ?ps)"
    by (rule mapE_map) (use assms(1) in \<open>auto simp: list_all_iff intro!: parse_grant_as_dict\<close>)
  moreover have "filter (\<lambda>g. cg_scope g = ''project'' \<or> cg_trace_id g = trace) ?ps = ?ps"
    by (rule filter_True) (use assms(3) in \<open>auto simp: list_all_iff\<close>)
  ultimately show ?thesis
    by (simp add: visible_grants_def read_all_grants_def Let_def read_write_all list_all_iff
        del: map_append filter_append)
qed

definition revoked_if :: "string \<Rightarrow> capability_grant \<Rightarrow> capability_grant" where
  "revoked_if i g = (if cg_grant_id g = i then g\<lparr>cg_status := ''revoked''\<rparr> else g)"

lemma revoked_if_sel [simp]:
  "cg_grant_id (revoked_if i g) = cg_grant_id g" "cg_scope (revoked_if i g) = cg_scope g"
  "cg_trace_id (revoked_if i g) = cg_trace_id g" "parsed_grant (revoked_if i g) = parsed_grant g"
  by (simp_all add: revoked_if_def parsed_grant_def)

lemma revoked_if_id: "i \<notin> set (map cg_grant_id gs) \<Longrightarrow> map (revoked_if i) gs = gs"
  by (auto simp: revoked_if_def intro!: map_idI)

lemma revoke_in_Some:
  assumes "revoke_in i gs = Some (r, gs')" "ids_distinct (map cg_grant_id gs)" "i \<noteq> []"
  shows "gs' = map (revoked_if i) gs
    \<and> r \<in> set gs' \<and> cg_grant_id r = i \<and> cg_status r = ''revoked''"
  using assms(1,2)
proof (induction gs arbitrary: r gs')
  case (Cons g gs)
  show ?case
  proof (cases "cg_grant_id g = i")
    case True
    then have "i \<notin> set (map cg_grant_id gs)" using Cons.prems(2) assms(3) by (simp add: ids_distinct_def)
    then have "map (revoked_if i) gs = gs" by (rule revoked_if_id)
    moreover have "r = g\<lparr>cg_status := ''revoked''\<rparr>" "gs' = r # gs"
      using Cons.prems(1) True by auto
    moreover have "r = revoked_if i g" using True calculation(2) by (simp add: revoked_if_def)
    ultimately show ?thesis using True by simp
  next
    case False
    then obtain rest where rest: "revoke_in i gs = Some (r, rest)" "gs' = g # rest"
      using Cons.prems(1) by auto
    have "ids_distinct (map cg_grant_id gs)" using Cons.prems(2) by (simp add: ids_distinct_def split: if_splits)
    from Cons.IH [OF rest(1) this] show ?thesis using False rest(2)
      by (elim conjE) (simp add: revoked_if_def [of i g])
  qed
qed simp

lemma filterE_Inr:
  "filterE p xs = Inr ys \<Longrightarrow> ys = filter (\<lambda>x. p x = Inr True) xs"
proof (induction xs arbitrary: ys)
  case (Cons x xs)
  then obtain b zs where "p x = Inr b" "filterE p xs = Inr zs" "ys = (if b then x # zs else zs)"
    by auto
  with Cons.IH show ?case by (cases b) simp_all
qed simp

lemma filterE_Inl: "x \<in> set xs \<Longrightarrow> p x = Inl e \<Longrightarrow> (\<And>x e'. p x = Inl e' \<Longrightarrow> e' = e) \<Longrightarrow> filterE p xs = Inl e"
proof (induction xs)
  case Nil
  from Nil.prems(1) show ?case by simp
next
  case (Cons y ys)
  show ?case
  proof (cases "p y")
    case (Inl e')
    then show ?thesis using Cons.prems(3) [OF Inl] by simp
  next
    case (Inr b)
    then have "x \<in> set ys" using Cons.prems(1,2) by auto
    then have "filterE p ys = Inl e" by (rule Cons.IH [OF _ Cons.prems(2,3)])
    then show ?thesis using Inr by simp
  qed
qed

lemma list_grants_visible:
  "list_grants instant now trace True f = Inr (gs, f') \<Longrightarrow> visible_grants trace f = Inr gs \<and> f' = f"
  by (auto simp: list_grants_def)

lemma list_grants_active:
  assumes "list_grants instant now trace False f = Inr (gs, f')"
  obtains vs where "visible_grants trace f = Inr vs"
    and "gs = filter (\<lambda>g. grant_active instant now g = Inr True) vs"
  using assms by (auto simp: list_grants_def dest!: filterE_Inr split: if_splits)

section \<open>Properties\<close>

text \<open>Revoking a grant revokes it in the files: read again, the grants of the trace are
  the same ones with the named grant revoked, so no later reading finds it active.\<close>

theorem revoke_is_effective:
  assumes "revoke_grant instant now trace i f = Inr (r, f')" and "i \<noteq> []"
  shows "\<exists>gs gs'. visible_grants trace f = Inr gs \<and> visible_grants trace f' = Inr gs'
    \<and> set gs' = revoked_if i ` set gs \<and> r \<in> set gs' \<and> cg_grant_id r = i
    \<and> (\<forall>g. g \<in> set gs' \<longrightarrow> cg_grant_id g = i \<longrightarrow> grant_active instant now' g = Inr False)"
proof -
  obtain gs gs' where gs: "visible_grants trace f = Inr gs" and rev: "revoke_in i gs = Some (r, gs')"
    and f': "f' = write_all_grants (map grant_as_dict gs') f"
    using assms(1) by (auto simp: revoke_grant_def dest!: list_grants_visible split: option.splits)
  note vis = visible_grants_inv [OF gs]
  note new = revoke_in_Some [OF rev vis(2) assms(2)]
  have "list_all parsed_grant gs'" "ids_distinct (map cg_grant_id gs')"
    "list_all (\<lambda>g. cg_scope g = ''project'' \<or> cg_trace_id g = trace) gs'"
    using vis by (simp_all add: new list_all_iff comp_def)
  then have read: "visible_grants trace f' = Inr (project_first gs')"
    unfolding f' by (rule visible_write_all)
  have "set (project_first gs') = set gs'" by auto
  moreover have "set gs' = revoked_if i ` set gs" using new by simp
  moreover have "grant_active instant now' g = Inr False" if "g \<in> set gs'" "cg_grant_id g = i" for g
  proof -
    from that(1) new have "g \<in> revoked_if i ` set gs" by simp
    then obtain h where "g = revoked_if i h" by blast
    then have "g = h\<lparr>cg_status := ''revoked''\<rparr>" using that(2) by (simp add: revoked_if_def split: if_splits)
    then have "cg_status g = ''revoked''" by simp
    then show ?thesis by (simp add: grant_active_def)
  qed
  moreover have "r \<in> set gs'" "cg_grant_id r = i" using new by blast+
  ultimately show ?thesis using gs read by auto
qed

text \<open>The runner treats a capability as granted only on the strength of a grant that is
  visible to the trace, has not been revoked, has not expired, and whose scope is the project,
  the trace, or the very node.\<close>

theorem granted_only_by_live_grant:
  assumes "capability_granted instant now trace item cap f = Inr (True, f')"
  shows "\<exists>gs g. visible_grants trace f = Inr gs \<and> g \<in> set gs \<and> cg_status g = ''active''
    \<and> cg_capability g = cap
    \<and> (\<forall>e t. cg_expires_at g = Some e \<longrightarrow> instant e = AwareTime t \<longrightarrow> t > now)
    \<and> (cg_scope g = ''project'' \<or> cg_trace_id g = trace
        \<and> (cg_scope g = ''trace'' \<or> cg_scope g = ''node'' \<and> cg_work_item_id g = Some item))"
proof -
  obtain gs where "list_grants instant now trace False f = Inr (gs, f')" and ex: "list_ex (covers trace item cap) gs"
    using assms by (auto simp: capability_granted_def split: sum.splits if_splits)
  then obtain vs where vs: "visible_grants trace f = Inr vs"
    "gs = filter (\<lambda>g. grant_active instant now g = Inr True) vs" by (auto elim: list_grants_active)
  with ex obtain g where g: "g \<in> set vs" "grant_active instant now g = Inr True" "covers trace item cap g"
    by (auto simp: list_ex_iff)
  from g(2) have st: "cg_status g = ''active''" by (auto simp: grant_active_def split: if_splits)
  have "t > now" if "cg_expires_at g = Some e" "instant e = AwareTime t" for e t
  proof -
    have "parsed_grant g" using visible_grants_inv(1) [OF vs(1)] g(1) by (simp add: list_all_iff)
    then show ?thesis using g(2) that st by (simp add: grant_active_def parsed_grant_def)
  qed
  then show ?thesis using vs(1) g st by (auto simp: covers_def)
qed

text \<open>A grant whose expiry has no time zone makes the listing, the granting and the
  revocation of every grant of the trace raise \<open>TypeError\<close>: the comparison with the aware
  current time raises, and only \<open>ValueError\<close> is handled. The runner treats this as \<open>not
  granted\<close>.\<close>

theorem naive_expiry_locks_store:
  assumes "visible_grants trace f = Inr gs" and "g \<in> set gs" and "cg_status g = ''active''"
    and "cg_expires_at g = Some e" and "instant e = NaiveTime t"
  shows "list_grants instant now trace inactive f = Inl (TypeError ''offset-naive'')
    \<and> revoke_grant instant now trace i f = Inl (TypeError ''offset-naive'')
    \<and> capability_granted instant now trace item cap f = Inr (False, f)"
proof -
  have "parsed_grant g" using visible_grants_inv(1) [OF assms(1)] assms(2) by (simp add: list_all_iff)
  then have "grant_active instant now g = Inl (TypeError ''offset-naive'')"
    using assms(3-5) by (simp add: grant_active_def parsed_grant_def)
  moreover have "e' = TypeError ''offset-naive''" if "grant_active instant now h = Inl e'" for h e'
    using that by (auto simp: grant_active_def split: if_splits option.splits timestamp.splits)
  ultimately have "filterE (grant_active instant now) gs = Inl (TypeError ''offset-naive'')"
    using assms(2) by (intro filterE_Inl)
  then have l: "list_grants instant now trace inactive f = Inl (TypeError ''offset-naive'')" for inactive
    using assms(1) by (simp add: list_grants_def)
  then show ?thesis by (simp add: revoke_grant_def capability_granted_def)
qed

section \<open>Witnesses\<close>

definition demo_grant :: "string \<Rightarrow> string \<Rightarrow> string option \<Rightarrow> capability_grant" where
  "demo_grant i scope expires =
     (new_grant ''now'' ''t1'' i ''docs'' ''mcp'' None scope ''api'' expires)\<lparr>cg_grant_id := i\<rparr>"

definition demo_files :: grant_files where
  "demo_files = \<lparr>gf_project = write_grants [grant_as_dict (demo_grant ''a'' ''project'' None)],
     gf_trace = write_grants [grant_as_dict (demo_grant ''b'' ''trace'' None)]\<rparr>"

definition naive_files :: grant_files where
  "naive_files = \<lparr>gf_project = NoFile,
     gf_trace = write_grants [grant_as_dict (demo_grant ''b'' ''trace'' (Some ''d''))]\<rparr>"

definition revoked_files :: grant_files where
  "revoked_files = snd (projr (revoke_grant (\<lambda>_. NoTimestamp) 0 ''t1'' ''b'' demo_files))"

definition revoked_grant :: capability_grant where
  "revoked_grant = fst (projr (revoke_grant (\<lambda>_. NoTimestamp) 0 ''t1'' ''b'' demo_files))"

lemma demo_revoked:
  "revoke_grant (\<lambda>_. NoTimestamp) 0 ''t1'' ''b'' demo_files = Inr (revoked_grant, revoked_files)"
  unfolding revoked_files_def revoked_grant_def by (rule result_pair) code_simp

lemma revoke_is_effective_witness:
  "\<exists>gs gs'. visible_grants ''t1'' demo_files = Inr gs \<and> visible_grants ''t1'' revoked_files = Inr gs'
    \<and> set gs' = revoked_if ''b'' ` set gs \<and> revoked_grant \<in> set gs'"
  using revoke_is_effective [OF demo_revoked] by blast

lemma granted_only_by_live_grant_witness:
  "\<exists>gs g. visible_grants ''t1'' demo_files = Inr gs \<and> g \<in> set gs \<and> cg_status g = ''active''
    \<and> cg_capability g = ''docs''"
proof -
  have "capability_granted (\<lambda>_. NoTimestamp) 0 ''t1'' ''x'' ''docs'' demo_files = Inr (True, demo_files)"
    by code_simp
  from granted_only_by_live_grant [OF this] show ?thesis by blast
qed

lemma naive_expiry_locks_store_witness:
  "revoke_grant (\<lambda>_. NaiveTime 9) 0 ''t1'' ''b'' naive_files = Inl (TypeError ''offset-naive'')"
proof -
  have v: "visible_grants ''t1'' naive_files = Inr [demo_grant ''b'' ''trace'' (Some ''d'')]"
    by code_simp
  show ?thesis
    using naive_expiry_locks_store [OF v, where instant = "\<lambda>_. NaiveTime 9" and e = "''d''"]
    by (simp add: demo_grant_def new_grant_def)
qed

end
