(* ===== verification/Retry_Loop.thy ===== *)
theory Retry_Loop
  imports Node_Result Work_Item Artifacts Grants
begin

text \<open>
  One work item under its retry budget, \<^verbatim>\<open>app/orchestration/runner.py\<close>
  (\<^verbatim>\<open>_run_item_with_retries\<close> and what it calls) and the control decisions of
  \<^verbatim>\<open>app/orchestration/control_decision.py\<close>. The state outside the run state is a
  \<open>runner_world\<close>: the files of the trace the runner reads and writes, and its in-memory count
  of retries. One execution of the item is the parameter \<open>exec\<close>: attempt number, retry context
  and world to a result and a world, or an exception. The trace events and the progress
  snapshots are output only and are left out; messages are abbreviated to their variable parts.
\<close>

section \<open>Control decisions\<close>

record control_decision =
  cd_decision_id :: string
  cd_trace_id :: string
  cd_plan_id :: string
  cd_plan_revision :: int
  cd_source_work_item_id :: string
  cd_source_failure_digest :: string
  cd_action :: string
  cd_target_work_item_ids :: "string list"
  cd_invalidated_artifact_refs :: "string list"
  cd_reason :: string
  cd_evidence_refs :: "string list"

definition control_actions :: "string list" where
  "control_actions = [''retry_current_work_item'', ''rebuild_architecture_subgraph'',
     ''retry_upstream_stage'', ''await_user_input'', ''terminate_run'']"

definition mk_control_decision :: "control_decision \<Rightarrow> control_decision result" where
  "mk_control_decision d = bindE (raises
     [(cd_action d \<notin> set control_actions, ValueError ''action''),
      (blank (cd_decision_id d) \<or> blank (cd_trace_id d) \<or> blank (cd_source_work_item_id d),
        ValueError ''identity'')]) (\<lambda>_. Inr d)"

text \<open>The file holds the decisions line by line; it is only ever appended to.\<close>

definition decisions_append :: "control_decision \<Rightarrow> control_decision list \<Rightarrow> control_decision list" where
  "decisions_append d ds = ds @ [d]"

section \<open>The runner's configuration and world\<close>

text \<open>\<open>ev_traces\<close> and \<open>ev_artifacts\<close>: whether the runner has a trace store (and so a ledger, a decision
  store and grants) and an artifact repository.\<close>

record runner_env =
  ev_traces :: bool
  ev_artifacts :: bool
  ev_limits :: retry_limits
  ev_sha :: "string \<Rightarrow> string"
  ev_trace :: string
  ev_plan_id :: string
  ev_instant :: "string \<Rightarrow> timestamp"
  ev_now :: int
  ev_now_text :: string

record runner_world =
  rw_ledger :: json_file
  rw_decisions :: "control_decision list"
  rw_grants :: grant_files
  rw_store :: store_files
  rw_total :: int

abbreviation read_ledger :: "runner_env \<Rightarrow> runner_world \<Rightarrow> retry_record list result" where
  "read_ledger env w \<equiv> ledger_read (ev_trace env) (rw_ledger w)"

definition persist_control_decision ::
  "runner_env \<Rightarrow> work_item \<Rightarrow> failure_signal \<Rightarrow> runner_world \<Rightarrow> (control_decision option \<times> runner_world) result" where
  "persist_control_decision env item s w =
     (if \<not> ev_traces env then Inr (None, w)
      else bindE (mk_control_decision
        \<lparr>cd_decision_id = ''cd-'' @ ev_trace env @ ''-'' @ wi_id item @ ''-''
           @ take 12 (failure_fingerprint (ev_sha env) s),
         cd_trace_id = ev_trace env, cd_plan_id = ev_plan_id env, cd_plan_revision = 1,
         cd_source_work_item_id = wi_id item,
         cd_source_failure_digest = failure_fingerprint (ev_sha env) s,
         cd_action = (if fs_scope s = ''upstream_stage'' then ''retry_upstream_stage''
                      else ''rebuild_architecture_subgraph''),
         cd_target_work_item_ids = fs_related_work_item_ids s,
         cd_invalidated_artifact_refs = fs_related_artifact_refs s,
         cd_reason = fs_summary s, cd_evidence_refs = fs_related_artifact_refs s\<rparr>) (\<lambda>d.
        Inr (Some d, if cd_decision_id d \<in> set (map cd_decision_id (rw_decisions w)) then w
                     else w\<lparr>rw_decisions := decisions_append d (rw_decisions w)\<rparr>)))"

section \<open>Recording and choosing\<close>

definition record_retry_decision ::
  "runner_env \<Rightarrow> work_item \<Rightarrow> failure_signal \<Rightarrow> recovery_action \<Rightarrow> runner_world
   \<Rightarrow> (retry_record option \<times> runner_world) result" where
  "record_retry_decision env item s a w =
     (if \<not> ev_traces env then Inr (None, w)
      else bindE (read_ledger env w) (\<lambda>rs.
        bindE (mk_retry_record
          \<lparr>rr_scope = WORK_ITEM, rr_subject_id = wi_id item,
           rr_attempt = next_attempt WORK_ITEM (wi_id item) rs,
           rr_max_attempts = max_work_item_attempts (ev_limits env), rr_action = a,
           rr_failure = s, rr_root = Some (wi_id item), rr_interrupted = [],
           rr_created_at = ev_now_text env\<rparr>) (\<lambda>r.
        bindE (ledger_append (ev_sha env) (ev_trace env) r (rw_ledger w)) (\<lambda>f.
        Inr (Some r, w\<lparr>rw_ledger := f\<rparr>)))))"

text \<open>With a ledger the counts are those of the ledger, not the caller's.\<close>

definition recovery_action_of ::
  "runner_env \<Rightarrow> work_item \<Rightarrow> failure_signal \<Rightarrow> int \<Rightarrow> int \<Rightarrow> runner_world
   \<Rightarrow> (recovery_action \<times> runner_world) result" where
  "recovery_action_of env item s item_retries kind_retries w =
     (if ev_traces env
      then bindE (read_ledger env w) (\<lambda>rs.
        let a = action_for (ev_limits env) s (budget_count rs)
                  (budget_count_for_work_item (wi_id item) rs)
                  (budget_count_for_kind (wi_id item) (fs_kind s) rs)
        in bindE (record_retry_decision env item s a w) (\<lambda>(_, w1).
           bindE (read_ledger env w1) (\<lambda>rs1. Inr (a, w1\<lparr>rw_total := budget_count rs1\<rparr>))))
      else
        let a = action_for (ev_limits env) s (rw_total w) item_retries kind_retries
        in Inr (a, if a = RETRY_ITEM then w\<lparr>rw_total := rw_total w + 1\<rparr> else w))"

text \<open>\<open>_failure_signal_for\<close>: the failure a result stands for, if any.\<close>

definition failure_signal_for ::
  "runner_env \<Rightarrow> work_item \<Rightarrow> node_result \<Rightarrow> runner_world \<Rightarrow> (failure_signal option \<times> runner_world) result" where
  "failure_signal_for env item r w = (case nr_status r of
      NEEDS_CAPABILITY \<Rightarrow>
        (case nr_capability_request r of
           None \<Rightarrow> Inr (None, w)
         | Some q \<Rightarrow>
             if \<not> ev_traces env then Inr (None, w)
             else bindE (capability_granted (ev_instant env) (ev_now env) (ev_trace env) (wi_id item)
                           (cq_capability q) (rw_grants w)) (\<lambda>(granted, gf).
               let w1 = w\<lparr>rw_grants := gf\<rparr> in
               if \<not> granted then Inr (None, w1)
               else if wi_agent_id item = ''code_agent'' \<and> wi_execution_mode item = PARTITIONED
               then Inr (Some (plain_signal CODE_DELIVERY_INCOMPLETE (''granted: '' @ cq_capability q)), w1)
               else Inr (Some (plain_signal AGENT_RUNTIME (''granted: '' @ cq_capability q)), w1)))
    | NEEDS_REPLAN \<Rightarrow> Inr (nr_failure_signal r, w)
    | FAILED \<Rightarrow> Inr (Some (plain_signal AGENT_RUNTIME
        (if or_empty (nr_error r) \<noteq> [] then or_empty (nr_error r) else ''agent failed'')), w)
    | COMPLETED \<Rightarrow> Inr (None, w))"

section \<open>The loop\<close>

definition exhausted :: "work_item \<Rightarrow> failure_signal \<Rightarrow> string" where
  "exhausted item s = wi_id item @ '' retries exhausted: '' @ kind_value (fs_kind s) @ '': '' @ fs_summary s"

definition circuit_open :: "work_item \<Rightarrow> failure_signal \<Rightarrow> string" where
  "circuit_open item s = wi_id item @ '' circuit open: '' @ kind_value (fs_kind s) @ '': '' @ fs_summary s"

text \<open>What ends the loop after an action other than a retry.\<close>

definition give_up ::
  "runner_env \<Rightarrow> work_item \<Rightarrow> node_result \<Rightarrow> failure_signal \<Rightarrow> recovery_action \<Rightarrow> runner_world
   \<Rightarrow> (node_result \<times> runner_world) result" where
  "give_up env item r s a w =
     (if a = REQUEST_REPLAN \<or> a = BLOCK
      then bindE (node_needs_replan (wi_id item) (wi_agent_id item) s None) (\<lambda>n. Inr (n, w))
      else if fs_kind s = IMPLEMENTATION_SUMMARY_MISSING \<and> ev_artifacts env
           \<and> py_strip (or_empty (nr_content r)) \<noteq> []
      then bindE (store_save ''implementation'' (or_empty (nr_content r)) (rw_store w)) (\<lambda>st.
           bindE (node_completed (wi_id item) (wi_agent_id item) (or_empty (nr_content r))) (\<lambda>n.
           Inr (n, w\<lparr>rw_store := st\<rparr>)))
      else bindE (node_failed (wi_id item) (wi_agent_id item) (exhausted item s)) (\<lambda>n. Inr (n, w)))"

text \<open>
  The body of the loop after a failure signal: a final result, or (\<open>None\<close>) one more attempt.
\<close>

definition settle_failure ::
  "runner_env \<Rightarrow> work_item \<Rightarrow> node_result \<Rightarrow> failure_signal \<Rightarrow> int \<Rightarrow> int \<Rightarrow> runner_world
   \<Rightarrow> (node_result option \<times> runner_world) result" where
  "settle_failure env item r s item_retries kind_retries w =
     (if fs_scope s \<noteq> ''current_work_item'' \<or> fs_requires_control_plane s
      then bindE (persist_control_decision env item s w) (\<lambda>(_, w1).
           bindE (node_needs_replan (wi_id item) (wi_agent_id item) s (nr_content r)) (\<lambda>n. Inr (Some n, w1)))
      else
        bindE (if fs_kind s = ARCHITECTURE_SCHEMA_VALIDATION \<and> ev_traces env
               then bindE (read_ledger env w) (\<lambda>rs.
                      Inr (has_same_failure_without_new_evidence (ev_sha env) (wi_id item) s (rev rs)))
               else Inr False) (\<lambda>repeated.
        if repeated
        then bindE (record_retry_decision env item s FAIL w) (\<lambda>(_, w1).
             bindE (node_failed (wi_id item) (wi_agent_id item) (circuit_open item s)) (\<lambda>n. Inr (Some n, w1)))
        else if wi_agent_id item = ''code_integration_agent'' \<and> fs_kind s = CODE_DELIVERY_INCOMPLETE
        then bindE (node_needs_replan (wi_id item) (wi_agent_id item) s (nr_content r)) (\<lambda>n. Inr (Some n, w))
        else bindE (recovery_action_of env item s item_retries kind_retries w) (\<lambda>(a, w1).
             if a = RETRY_ITEM then Inr (None, w1)
             else bindE (give_up env item r s a w1) (\<lambda>(n, w2). Inr (Some n, w2)))))"

type_synonym item_exec = "int \<Rightarrow> string option \<Rightarrow> runner_world \<Rightarrow> (node_result \<times> runner_world) result"

definition with_input_digest :: "work_item \<Rightarrow> failure_signal \<Rightarrow> failure_signal" where
  "with_input_digest item s = (if fs_input_digest s = None then s\<lparr>fs_input_digest := wi_contract_digest item\<rparr> else s)"

definition count_of :: "(failure_kind, int) dict \<Rightarrow> failure_kind \<Rightarrow> int" where
  "count_of d k = (case dict_get d k of None \<Rightarrow> 0 | Some n \<Rightarrow> n)"

text \<open>Every unit of fuel is one execution of the item; \<open>None\<close> is the fuel running out.\<close>

fun attempts ::
  "runner_env \<Rightarrow> item_exec \<Rightarrow> work_item \<Rightarrow> nat \<Rightarrow> int \<Rightarrow> (failure_kind, int) dict \<Rightarrow> string option
   \<Rightarrow> runner_world \<Rightarrow> (node_result \<times> runner_world) result option" where
  "attempts env exec item 0 item_retries kinds context w = None"
| "attempts env exec item (Suc fuel) item_retries kinds context w =
     (case exec (item_retries + 1) context w of
        Inl e \<Rightarrow> Some (Inl e)
      | Inr (r, w1) \<Rightarrow> (case failure_signal_for env item r w1 of
          Inl e \<Rightarrow> Some (Inl e)
        | Inr (None, w2) \<Rightarrow> Some (Inr (r, w2))
        | Inr (Some s0, w2) \<Rightarrow>
            let s = with_input_digest item s0 in
            (case settle_failure env item r s item_retries (count_of kinds (fs_kind s)) w2 of
               Inl e \<Rightarrow> Some (Inl e)
             | Inr (Some n, w3) \<Rightarrow> Some (Inr (n, w3))
             | Inr (None, w3) \<Rightarrow> attempts env exec item fuel (item_retries + 1)
                 (dict_put (fs_kind s) (count_of kinds (fs_kind s) + 1) kinds) (Some (fs_summary s)) w3)))"

definition run_item_with_retries ::
  "runner_env \<Rightarrow> item_exec \<Rightarrow> nat \<Rightarrow> work_item \<Rightarrow> runner_world \<Rightarrow> (node_result \<times> runner_world) result option" where
  "run_item_with_retries env exec fuel item w =
     (if \<not> ev_traces env then attempts env exec item fuel 0 [] None w
      else (case read_ledger env w of
          Inl e \<Rightarrow> Some (Inl e)
        | Inr rs \<Rightarrow> attempts env exec item fuel (budget_count_for_work_item (wi_id item) rs)
            (map (\<lambda>k. (k, budget_count_for_kind (wi_id item) k rs)) kind_members) None w))"

section \<open>What each step does to the ledger\<close>

definition decision_record :: "runner_env \<Rightarrow> work_item \<Rightarrow> failure_signal \<Rightarrow> recovery_action \<Rightarrow> retry_record list \<Rightarrow> retry_record" where
  "decision_record env item s a rs =
     \<lparr>rr_scope = WORK_ITEM, rr_subject_id = wi_id item, rr_attempt = next_attempt WORK_ITEM (wi_id item) rs,
      rr_max_attempts = max_work_item_attempts (ev_limits env), rr_action = a, rr_failure = s,
      rr_root = Some (wi_id item), rr_interrupted = [], rr_created_at = ev_now_text env\<rparr>"

lemma decision_record_sel [simp]:
  "rr_action (decision_record env item s a rs) = a" "rr_failure (decision_record env item s a rs) = s"
  "concerns i (decision_record env item s a rs) \<longleftrightarrow> i = wi_id item"
  by (auto simp: decision_record_def concerns_def)

lemma record_retry_decision_read:
  assumes "record_retry_decision env item s a w = Inr (r, w1)" "ev_traces env" "read_ledger env w = Inr rs"
  shows "read_ledger env w1 = Inr (rs @ [decision_record env item s a rs])"
    and "\<exists>f. w1 = w\<lparr>rw_ledger := f\<rparr>"
proof -
  let ?r = "decision_record env item s a rs"
  obtain f where r: "mk_retry_record ?r = Inr ?r" and f: "ledger_append (ev_sha env) (ev_trace env) ?r (rw_ledger w) = Inr f"
    and w1: "w1 = w\<lparr>rw_ledger := f\<rparr>"
    using assms by (auto simp: record_retry_decision_def decision_record_def [symmetric] dest: mk_retry_record_same)
  then show "read_ledger env w1 = Inr (rs @ [?r])"
    using ledger.append_keeps [OF assms(3) ledger_read_valid [OF assms(3)] _ f] by (simp add: record_valid_def)
  show "\<exists>f. w1 = w\<lparr>rw_ledger := f\<rparr>" using w1 by blast
qed

lemma record_retry_decision_no_traces:
  "\<not> ev_traces env \<Longrightarrow> record_retry_decision env item s a w = Inr (None, w)"
  by (simp add: record_retry_decision_def)

lemma recovery_action_of_read:
  assumes "recovery_action_of env item s m k w = Inr (a, w1)" "ev_traces env" "read_ledger env w = Inr rs"
  shows "a = action_for (ev_limits env) s (budget_count rs) (budget_count_for_work_item (wi_id item) rs)
           (budget_count_for_kind (wi_id item) (fs_kind s) rs)"
    and "read_ledger env w1 = Inr (rs @ [decision_record env item s a rs])"
proof -
  obtain r w2 where a: "a = action_for (ev_limits env) s (budget_count rs) (budget_count_for_work_item (wi_id item) rs)
           (budget_count_for_kind (wi_id item) (fs_kind s) rs)"
    and rec: "record_retry_decision env item s a w = Inr (r, w2)" and w1: "rw_ledger w1 = rw_ledger w2"
    using assms by (auto simp: recovery_action_of_def Let_def)
  show "a = action_for (ev_limits env) s (budget_count rs) (budget_count_for_work_item (wi_id item) rs)
           (budget_count_for_kind (wi_id item) (fs_kind s) rs)" by (rule a)
  show "read_ledger env w1 = Inr (rs @ [decision_record env item s a rs])"
    using record_retry_decision_read(1) [OF rec assms(2,3)] by (simp add: w1)
qed

lemma recovery_action_of_unreadable:
  "ev_traces env \<Longrightarrow> read_ledger env w = Inl e \<Longrightarrow> recovery_action_of env item s m k w = Inl e"
  by (simp add: recovery_action_of_def)

lemma within_limits:
  "action_for l s n m k = RETRY_ITEM \<Longrightarrow>
     n < max_total_retries l \<and> m < max_retries_per_work_item l \<and> k < max_retries_for l (fs_kind s)"
  by (auto simp: action_for_def split: if_splits)

text \<open>The whole body keeps the records and adds at most one.\<close>

definition one_more :: "runner_env \<Rightarrow> work_item \<Rightarrow> failure_signal \<Rightarrow> retry_record list \<Rightarrow> retry_record list \<Rightarrow> bool" where
  "one_more env item s rs rs' \<longleftrightarrow> rs' = rs \<or> (\<exists>a. rs' = rs @ [decision_record env item s a rs]
     \<and> (a = FAIL \<or> a = action_for (ev_limits env) s (budget_count rs) (budget_count_for_work_item (wi_id item) rs)
           (budget_count_for_kind (wi_id item) (fs_kind s) rs)))"

lemma persist_keeps_ledger:
  "persist_control_decision env item s w = Inr (d, w1) \<Longrightarrow> rw_ledger w1 = rw_ledger w"
  by (auto simp: persist_control_decision_def split: if_splits)

lemma give_up_keeps_ledger:
  "give_up env item r s a w = Inr (n, w1) \<Longrightarrow> rw_ledger w1 = rw_ledger w"
  by (auto simp: give_up_def split: if_splits)

lemma settle_failure_read:
  assumes "settle_failure env item r s m k w = Inr (n, w1)" "ev_traces env" "read_ledger env w = Inr rs"
  shows "\<exists>rs'. read_ledger env w1 = Inr rs' \<and> one_more env item s rs rs'
    \<and> (n = None \<longrightarrow> rs' = rs @ [decision_record env item s RETRY_ITEM rs]
         \<and> budget_count_for_work_item (wi_id item) rs < max_retries_per_work_item (ev_limits env))"
proof (cases "fs_scope s \<noteq> ''current_work_item'' \<or> fs_requires_control_plane s")
  case True
  then have "n \<noteq> None" "rw_ledger w1 = rw_ledger w"
    using assms(1) by (auto simp: settle_failure_def dest: persist_keeps_ledger)
  then show ?thesis using assms(3) by (auto simp: one_more_def)
next
  case False
  define repeated where "repeated \<longleftrightarrow> fs_kind s = ARCHITECTURE_SCHEMA_VALIDATION \<and>
    has_same_failure_without_new_evidence (ev_sha env) (wi_id item) s (rev rs)"
  have body: "settle_failure env item r s m k w =
     (if repeated
        then bindE (record_retry_decision env item s FAIL w) (\<lambda>(_, w1).
             bindE (node_failed (wi_id item) (wi_agent_id item) (circuit_open item s)) (\<lambda>n. Inr (Some n, w1)))
        else if wi_agent_id item = ''code_integration_agent'' \<and> fs_kind s = CODE_DELIVERY_INCOMPLETE
        then bindE (node_needs_replan (wi_id item) (wi_agent_id item) s (nr_content r)) (\<lambda>n. Inr (Some n, w))
        else bindE (recovery_action_of env item s m k w) (\<lambda>(a, w1).
             if a = RETRY_ITEM then Inr (None, w1)
             else bindE (give_up env item r s a w1) (\<lambda>(n, w2). Inr (Some n, w2))))"
    using False assms(2,3) unfolding settle_failure_def repeated_def
    by (cases "fs_kind s = ARCHITECTURE_SCHEMA_VALIDATION") simp_all
  show ?thesis
  proof (cases repeated)
    case True
    then obtain d where d: "record_retry_decision env item s FAIL w = Inr (d, w1)" "n \<noteq> None"
      using assms(1) unfolding body by auto
    show ?thesis using record_retry_decision_read(1) [OF d(1) assms(2,3)] d(2) by (auto simp: one_more_def)
  next
    case fresh: False
    show ?thesis
    proof (cases "wi_agent_id item = ''code_integration_agent'' \<and> fs_kind s = CODE_DELIVERY_INCOMPLETE")
      case True
      then have "n \<noteq> None" "w1 = w" using assms(1) fresh unfolding body by auto
      then show ?thesis using assms(3) by (auto simp: one_more_def)
    next
      case False
      then obtain a w2 where a: "recovery_action_of env item s m k w = Inr (a, w2)"
        and n: "if a = RETRY_ITEM then n = None \<and> w1 = w2 else n \<noteq> None \<and> rw_ledger w1 = rw_ledger w2"
        using assms(1) fresh unfolding body by (auto dest: give_up_keeps_ledger split: if_splits)
      note read = recovery_action_of_read [OF a assms(2,3)]
      have "read_ledger env w1 = read_ledger env w2" using n by (auto split: if_splits)
      then show ?thesis using read n within_limits [of "ev_limits env" s]
        by (auto simp: one_more_def split: if_splits)
    qed
  qed
qed

lemma settle_failure_no_traces:
  assumes "settle_failure env item r s m k w = Inr (None, w1)" "\<not> ev_traces env"
  shows "m < max_retries_per_work_item (ev_limits env)"
  using assms by (auto simp: settle_failure_def recovery_action_of_def Let_def dest: within_limits split: if_splits)

section \<open>The loop\<close>

text \<open>What the executions of this and of the sibling items do to the ledger: they append.\<close>

definition exec_keeps :: "runner_env \<Rightarrow> item_exec \<Rightarrow> bool" where
  "exec_keeps env exec \<longleftrightarrow> (\<forall>m c w r w' rs. exec m c w = Inr (r, w') \<longrightarrow> read_ledger env w = Inr rs \<longrightarrow>
     (\<exists>new. read_ledger env w' = Inr (rs @ new)))"

lemma failure_signal_for_ledger:
  "failure_signal_for env item r w = Inr (s, w1) \<Longrightarrow> rw_ledger w1 = rw_ledger w"
  by (auto simp: failure_signal_for_def Let_def split: node_status.splits option.splits if_splits)

lemma settle_retry_readable:
  assumes "settle_failure env item r s m k w = Inr (None, w1)" "ev_traces env"
  obtains rs where "read_ledger env w = Inr rs"
proof (cases "read_ledger env w")
  case (Inl e)
  then show ?thesis using assms
    by (auto simp: settle_failure_def recovery_action_of_unreadable split: if_splits)
qed (rule that)

lemma count_for_item_append:
  "budget_count_for_work_item i (rs @ new) = budget_count_for_work_item i rs + budget_count_for_work_item i new"
  by (simp add: budget_count_for_work_item_def)

lemma count_for_item_nonneg: "0 \<le> budget_count_for_work_item i rs"
  by (simp add: budget_count_for_work_item_def)

lemma attempts_return_ledger:
  assumes "exec_keeps env exec" "ev_traces env" "read_ledger env w = Inr rs"
    and "nat (max_retries_per_work_item (ev_limits env) - budget_count_for_work_item (wi_id item) rs) < fuel"
  shows "attempts env exec item fuel m kinds c w \<noteq> None"
  using assms(3,4)
proof (induction fuel arbitrary: w rs m kinds c)
  case (Suc fuel)
  show ?case
  proof (rule notI)
    assume none: "attempts env exec item (Suc fuel) m kinds c w = None"
    then obtain r w1 w2 w3 s where ex: "exec (m + 1) c w = Inr (r, w1)"
      and sig: "failure_signal_for env item r w1 = Inr (Some s, w2)"
      and settle: "settle_failure env item r (with_input_digest item s) m
             (count_of kinds (fs_kind (with_input_digest item s))) w2 = Inr (None, w3)"
      and rest: "attempts env exec item fuel (m + 1)
            (dict_put (fs_kind (with_input_digest item s)) (count_of kinds (fs_kind (with_input_digest item s)) + 1) kinds)
            (Some (fs_summary (with_input_digest item s))) w3 = None"
      by (auto simp: Let_def split: sum.splits prod.splits option.splits)
    obtain new where "read_ledger env w1 = Inr (rs @ new)"
      using assms(1) ex Suc.prems(1) unfolding exec_keeps_def by blast
    then have w2: "read_ledger env w2 = Inr (rs @ new)"
      using failure_signal_for_ledger [OF sig] by simp
    define i where "i = wi_id item"
    note step = settle_failure_read [OF settle assms(2) w2]
    then obtain rs' where rs': "read_ledger env w3 = Inr rs'"
      "rs' = (rs @ new) @ [decision_record env item (with_input_digest item s) RETRY_ITEM (rs @ new)]"
      and lt: "budget_count_for_work_item i (rs @ new) < max_retries_per_work_item (ev_limits env)"
      by (auto simp: i_def)
    have "budget_count_for_work_item i rs' = budget_count_for_work_item i (rs @ new) + 1"
      by (simp add: rs'(2) count_for_item_append) (simp add: budget_count_for_work_item_def is_budget_action_def i_def)
    then have "nat (max_retries_per_work_item (ev_limits env) - budget_count_for_work_item i rs') < fuel"
      using Suc.prems(2) lt count_for_item_append [of i rs new] count_for_item_nonneg [of i new]
        count_for_item_nonneg [of i rs] by (simp add: i_def)
    from Suc.IH [OF rs'(1) this [unfolded i_def]] rest show False by blast
  qed
qed simp

lemma attempts_return_no_traces:
  "\<not> ev_traces env \<Longrightarrow> nat (max_retries_per_work_item (ev_limits env) - m) < fuel \<Longrightarrow>
     attempts env exec item fuel m kinds c w \<noteq> None"
proof (induction fuel arbitrary: w m kinds c)
  case (Suc fuel)
  show ?case
  proof (rule notI)
    assume none: "attempts env exec item (Suc fuel) m kinds c w = None"
    then obtain r w2 w3 s k kinds' c' where
      settle: "settle_failure env item r s m k w2 = Inr (None, w3)"
      and rest: "attempts env exec item fuel (m + 1) kinds' c' w3 = None"
      by (auto simp: Let_def split: sum.splits prod.splits option.splits)
    have "nat (max_retries_per_work_item (ev_limits env) - (m + 1)) < fuel"
      using settle_failure_no_traces [OF settle Suc.prems(1)] Suc.prems(2) by simp
    then show False using Suc.IH [OF Suc.prems(1)] rest by blast
  qed
qed simp

text \<open>C15. A work item is executed at most one time more than its retry budget, and the loop then
  returns, whatever its executions and those of its siblings answer, fail with or append to
  the ledger.\<close>

theorem retries_return:
  assumes "exec_keeps env exec" and "nat (max_retries_per_work_item (ev_limits env)) < fuel"
  shows "\<exists>y. run_item_with_retries env exec fuel item w = Some y"
proof (cases "ev_traces env")
  case True
  show ?thesis
  proof (cases "read_ledger env w")
    case (Inr rs)
    have "nat (max_retries_per_work_item (ev_limits env) - budget_count_for_work_item (wi_id item) rs) < fuel"
      using assms(2) count_for_item_nonneg [of "wi_id item" rs] by linarith
    from attempts_return_ledger [OF assms(1) True Inr this] show ?thesis
      using True Inr by (simp add: run_item_with_retries_def)
  qed (simp add: run_item_with_retries_def True)
next
  case False
  then have "attempts env exec item fuel 0 [] None w \<noteq> None"
    by (rule attempts_return_no_traces) (use assms(2) in simp)
  then show ?thesis using False by (simp add: run_item_with_retries_def)
qed

section \<open>The budgets\<close>

definition budgets_ok :: "retry_limits \<Rightarrow> retry_record list \<Rightarrow> bool" where
  "budgets_ok l rs \<longleftrightarrow> budget_count rs \<le> max_total_retries l
     \<and> (\<forall>i. budget_count_for_work_item i rs \<le> max_retries_per_work_item l)
     \<and> (\<forall>i k. budget_count_for_kind i k rs \<le> max_retries_for l k)"

lemma budget_action_limits:
  "is_budget_action (action_for l s n m k) \<Longrightarrow>
     n < max_total_retries l \<and> m < max_retries_per_work_item l \<and> k < max_retries_for l (fs_kind s)"
  by (auto simp: action_for_def is_budget_action_def split: if_splits)

lemma budgets_one_more:
  assumes "budgets_ok (ev_limits env) rs" "one_more env item s rs rs'"
  shows "budgets_ok (ev_limits env) rs'"
proof -
  consider "rs' = rs" | a where "rs' = rs @ [decision_record env item s a rs]" "\<not> is_budget_action a"
    | a where "rs' = rs @ [decision_record env item s a rs]" "is_budget_action a"
        "budget_count rs < max_total_retries (ev_limits env)"
        "budget_count_for_work_item (wi_id item) rs < max_retries_per_work_item (ev_limits env)"
        "budget_count_for_kind (wi_id item) (fs_kind s) rs < max_retries_for (ev_limits env) (fs_kind s)"
  proof -
    have "\<not> is_budget_action FAIL" by (simp add: is_budget_action_def)
    then show thesis using assms(2) that budget_action_limits unfolding one_more_def by metis
  qed
  then show ?thesis
  proof cases
    case 1
    then show ?thesis using assms(1) by simp
  next
    case 2
    then show ?thesis using assms(1)
      by (simp add: budgets_ok_def budget_count_def budget_count_for_work_item_def budget_count_for_kind_def)
  next
    case 3
    then show ?thesis using assms(1)
      by (auto simp: budgets_ok_def budget_count_def budget_count_for_work_item_def budget_count_for_kind_def)
  qed
qed

definition ledger_within :: "runner_env \<Rightarrow> runner_world \<Rightarrow> bool" where
  "ledger_within env w = (case read_ledger env w of Inl _ \<Rightarrow> False | Inr rs \<Rightarrow> budgets_ok (ev_limits env) rs)"

lemma ledger_within_iff: "ledger_within env w \<longleftrightarrow> (\<exists>rs. read_ledger env w = Inr rs \<and> budgets_ok (ev_limits env) rs)"
  by (auto simp: ledger_within_def split: sum.splits)

lemma settle_within:
  assumes "settle_failure env item r s m k w = Inr (n, w1)" "ev_traces env" "ledger_within env w"
  shows "ledger_within env w1"
  using assms settle_failure_read [OF assms(1,2)] budgets_one_more by (fastforce simp: ledger_within_iff)

lemma attempts_within:
  assumes "ev_traces env"
    and exec: "\<And>m c w r w'. exec m c w = Inr (r, w') \<Longrightarrow> ledger_within env w \<Longrightarrow> ledger_within env w'"
  shows "attempts env exec item fuel m kinds c w = Some (Inr (n, w')) \<Longrightarrow> ledger_within env w \<Longrightarrow> ledger_within env w'"
proof (induction fuel arbitrary: m kinds c w)
  case (Suc fuel)
  obtain r w1 where ex: "exec (m + 1) c w = Inr (r, w1)"
    using Suc.prems(1) by (auto split: sum.splits)
  then obtain s w2 where sig: "failure_signal_for env item r w1 = Inr (s, w2)"
    using Suc.prems(1) by (auto split: sum.splits)
  have w2: "ledger_within env w2"
    using exec [OF ex Suc.prems(2)] failure_signal_for_ledger [OF sig] by (simp add: ledger_within_def)
  show ?case
  proof (cases s)
    case None
    then show ?thesis using Suc.prems(1) ex sig w2 by simp
  next
    case (Some s0)
    let ?s = "with_input_digest item s0"
    obtain n' w3 where settle: "settle_failure env item r ?s m (count_of kinds (fs_kind ?s)) w2 = Inr (n', w3)"
      using Suc.prems(1) ex sig Some by (auto simp: Let_def split: sum.splits)
    note w3 = settle_within [OF settle assms(1) w2]
    show ?thesis
      using Suc.prems(1) ex sig Some settle w3 Suc.IH by (cases n') (auto simp: Let_def)
  qed
qed simp

text \<open>C16. The retry budgets of the trace, of every work item and of every failure kind are never
  exceeded in the ledger: an item run under retries keeps them if its executions do.\<close>

theorem budgets_never_exceeded:
  assumes "ev_traces env" "ledger_within env w"
    and "\<And>m c w r w'. exec m c w = Inr (r, w') \<Longrightarrow> ledger_within env w \<Longrightarrow> ledger_within env w'"
    and "run_item_with_retries env exec fuel item w = Some (Inr (n, w'))"
  shows "ledger_within env w'"
proof -
  obtain rs where "read_ledger env w = Inr rs" using assms(2) by (auto simp: ledger_within_iff)
  then show ?thesis using assms(1,4) attempts_within [OF assms(1,3) _ assms(2)]
    by (auto simp: run_item_with_retries_def)
qed

section \<open>Failures the item may not handle itself\<close>

text \<open>A failure that names another owner or asks for the control plane is handed over after this
  one execution: the node needs replanning, no retry is charged, and the control decision is on
  file exactly once.\<close>

theorem control_failure_handed_over:
  assumes "exec m c w = Inr (r, w1)" and "nr_status r = NEEDS_REPLAN" and "nr_failure_signal r = Some s"
    and "fs_scope s \<noteq> ''current_work_item'' \<or> fs_requires_control_plane s"
    and "ev_traces env" and "\<not> blank (wi_id item)" "\<not> blank (ev_trace env)"
    and "m = k + 1" "distinct (map cd_decision_id (rw_decisions w1))"
  shows "\<exists>n w2 d. attempts env exec item (Suc fuel) k kinds c w = Some (Inr (n, w2))
    \<and> nr_status n = NEEDS_REPLAN \<and> nr_failure_signal n = Some (with_input_digest item s)
    \<and> rw_ledger w2 = rw_ledger w1
    \<and> d \<in> set (rw_decisions w2) \<and> cd_decision_id d = ''cd-'' @ ev_trace env @ ''-'' @ wi_id item @ ''-''
        @ take 12 (failure_fingerprint (ev_sha env) (with_input_digest item s))
    \<and> distinct (map cd_decision_id (rw_decisions w2))"
proof -
  let ?s = "with_input_digest item s"
  have scope: "fs_scope ?s \<noteq> ''current_work_item'' \<or> fs_requires_control_plane ?s"
    using assms(4) by (simp add: with_input_digest_def)
  obtain d w2 where p: "persist_control_decision env item ?s w1 = Inr (Some d, w2)"
    and d: "cd_decision_id d = ''cd-'' @ ev_trace env @ ''-'' @ wi_id item @ ''-'' @ take 12 (failure_fingerprint (ev_sha env) ?s)"
    and w2: "w2 = (if cd_decision_id d \<in> set (map cd_decision_id (rw_decisions w1)) then w1
                     else w1\<lparr>rw_decisions := decisions_append d (rw_decisions w1)\<rparr>)"
    using assms(5-7) by (auto simp: persist_control_decision_def mk_control_decision_def control_actions_def blank_def)
  let ?n = "\<lparr>nr_work_item_id = wi_id item, nr_agent_id = wi_agent_id item, nr_status = NEEDS_REPLAN,
    nr_content = nr_content r, nr_capability_request = None, nr_failure_signal = Some ?s, nr_error = None\<rparr>"
  have "settle_failure env item r ?s k (count_of kinds (fs_kind ?s)) w1 = Inr (Some ?n, w2)"
    using scope p assms(6) unfolding settle_failure_def
    by (simp only: if_True if_P) (simp add: node_needs_replan_def validate_node_id_def)
  then have run: "attempts env exec item (Suc fuel) k kinds c w = Some (Inr (?n, w2))"
    using assms(1-3,8) by (simp add: failure_signal_for_def Let_def)
  have "rw_ledger w2 = rw_ledger w1" "distinct (map cd_decision_id (rw_decisions w2))"
    using assms(9) by (auto simp: w2 decisions_append_def)
  moreover obtain d' where "d' \<in> set (rw_decisions w2)" "cd_decision_id d' = cd_decision_id d"
    by (cases "cd_decision_id d \<in> set (map cd_decision_id (rw_decisions w1))") (auto simp: w2 decisions_append_def)
  ultimately show ?thesis using run d by fastforce
qed

text \<open>A failed runtime preflight ends the node as failed under the default limits: its kind has no
  retry budget and the policy does not block it. The runner's batch step, which turns a node
  that needs replanning for a preflight failure into a blocked run, therefore never sees one.\<close>

theorem preflight_failure_fails_node:
  assumes "exec m c w = Inr (r, w1)" and "nr_status r = NEEDS_REPLAN"
    and "nr_failure_signal r = Some (plain_signal RUNTIME_PREFLIGHT msg)"
    and "ev_traces env" and "ev_limits env = default_limits" and "read_ledger env w1 = Inr rs"
    and "\<not> blank (wi_id item)" and "m = k + 1"
  shows "\<exists>n w2. attempts env exec item (Suc fuel) k kinds c w = Some (Inr (n, w2)) \<and> nr_status n = FAILED"
proof -
  let ?s = "with_input_digest item (plain_signal RUNTIME_PREFLIGHT msg)"
  have s: "fs_kind ?s = RUNTIME_PREFLIGHT" "fs_retryable ?s" "fs_scope ?s = ''current_work_item''"
    "\<not> fs_requires_control_plane ?s" by (simp_all add: with_input_digest_def plain_signal_def)
  have fails: "action_for default_limits ?s n i j = FAIL" if "0 \<le> j" for n i j
    using that s(1,2) by (simp add: action_for_def max_retries_for_def default_limits_def)
  let ?d = "decision_record env item ?s FAIL rs"
  have "mk_retry_record ?d = Inr ?d"
    using assms(5,7) by (simp add: mk_retry_record_def decision_record_def next_attempt_def
        max_work_item_attempts_def default_limits_def blank_some_def count_if_def)
  moreover obtain f where f: "ledger_append (ev_sha env) (ev_trace env) ?d (rw_ledger w1) = Inr f"
    and rf: "ledger_read (ev_trace env) f = Inr (rs @ [?d])"
    using ledger.append_reads [OF assms(6) ledger_read_valid [OF assms(6)], of ?d] calculation
    by (auto simp: record_valid_def)
  ultimately have rec: "record_retry_decision env item ?s FAIL w1 = Inr (Some ?d, w1\<lparr>rw_ledger := f\<rparr>)"
    using assms(4,6) by (simp add: record_retry_decision_def flip: decision_record_def)
  define w2 where "w2 = w1\<lparr>rw_ledger := f, rw_total := budget_count (rs @ [?d])\<rparr>"
  have "recovery_action_of env item ?s k (count_of kinds (fs_kind ?s)) w1 = Inr (FAIL, w2)"
    using assms(4,6) rec rf fails [of "budget_count_for_kind (wi_id item) RUNTIME_PREFLIGHT rs"]
    by (simp add: recovery_action_of_def assms(5) s(1) w2_def budget_count_for_kind_def)
  then obtain n where settle: "settle_failure env item r ?s k (count_of kinds (fs_kind ?s)) w1 = Inr (Some n, w2)"
    and n: "nr_status n = FAILED"
    using s assms(7) by (auto simp: settle_failure_def give_up_def node_failed_def validate_node_id_def)
  have "attempts env exec item (Suc fuel) k kinds c w = Some (Inr (n, w2))"
    using assms(1-3,8) settle by (simp add: failure_signal_for_def Let_def)
  then show ?thesis using n by blast
qed

section \<open>Witnesses\<close>

definition demo_env :: runner_env where
  "demo_env = \<lparr>ev_traces = True, ev_artifacts = True, ev_limits = default_limits, ev_sha = (\<lambda>s. s),
     ev_trace = ''t1'', ev_plan_id = ''p1'', ev_instant = (\<lambda>_. NoTimestamp), ev_now = 0, ev_now_text = ''now''\<rparr>"

definition demo_world :: runner_world where
  "demo_world = \<lparr>rw_ledger = NoFile, rw_decisions = [], rw_grants = \<lparr>gf_project = NoFile, gf_trace = NoFile\<rparr>,
     rw_store = (\<lambda>_. None), rw_total = 0\<rparr>"

definition demo_task :: work_item where
  "demo_task = blank_work_item ''wi-1'' ''doc_agent'' ''write'' ''notes''"

definition demo_answer :: "node_status \<Rightarrow> failure_signal option \<Rightarrow> node_result" where
  "demo_answer st s = \<lparr>nr_work_item_id = ''wi-1'', nr_agent_id = ''doc_agent'', nr_status = st,
     nr_content = Some ''text'', nr_capability_request = None, nr_failure_signal = s, nr_error = None\<rparr>"

text \<open>An execution that fails at the first attempt and succeeds at the second.\<close>

definition flaky :: item_exec where
  "flaky m c w = Inr (demo_answer (if m < 2 then FAILED else COMPLETED) None, w)"

definition flaky_world :: runner_world where
  "flaky_world = snd (projr (the (run_item_with_retries demo_env flaky 3 demo_task demo_world)))"

lemma flaky_runs:
  "run_item_with_retries demo_env flaky 3 demo_task demo_world = Some (Inr (demo_answer COMPLETED None, flaky_world))"
proof -
  let ?r = "run_item_with_retries demo_env flaky 3 demo_task demo_world"
  have "(case ?r of Some (Inr (n, _)) \<Rightarrow> n = demo_answer COMPLETED None | _ \<Rightarrow> False)" by code_simp
  then show ?thesis by (auto simp: flaky_world_def split: option.splits sum.splits)
qed

lemma flaky_keeps: "exec_keeps demo_env flaky"
  by (simp add: exec_keeps_def flaky_def)

lemma retries_return_witness: "\<exists>y. run_item_with_retries demo_env flaky 3 demo_task demo_world = Some y"
  by (rule retries_return [OF flaky_keeps]) code_simp

lemma demo_world_within: "ledger_within demo_env demo_world"
proof -
  have "read_ledger demo_env demo_world = Inr []" by code_simp
  moreover have "budgets_ok default_limits []"
    using max_retries_for_default_bounds
    by (simp add: budgets_ok_def budget_count_def budget_count_for_work_item_def budget_count_for_kind_def)
      (simp add: default_limits_def)
  ultimately show ?thesis by (simp add: ledger_within_def demo_env_def)
qed

lemma budgets_never_exceeded_witness: "ledger_within demo_env flaky_world"
  by (rule budgets_never_exceeded [OF _ demo_world_within _ flaky_runs])
    (simp_all add: demo_env_def flaky_def)

definition handed_over :: failure_signal where
  "handed_over = (plain_signal CODE_DELIVERY_INCOMPLETE ''import'')\<lparr>fs_requires_control_plane := True\<rparr>"

lemma control_failure_handed_over_witness:
  "\<exists>n w2. attempts demo_env (\<lambda>m c w. Inr (demo_answer NEEDS_REPLAN (Some handed_over), w)) demo_task 1 0 [] None demo_world
      = Some (Inr (n, w2)) \<and> nr_status n = NEEDS_REPLAN \<and> distinct (map cd_decision_id (rw_decisions w2))"
proof -
  let ?exec = "(\<lambda>m c w. Inr (demo_answer NEEDS_REPLAN (Some handed_over), w)) :: item_exec"
  have "?exec 1 None demo_world = Inr (demo_answer NEEDS_REPLAN (Some handed_over), demo_world)" by simp
  moreover have "nr_status (demo_answer NEEDS_REPLAN (Some handed_over)) = NEEDS_REPLAN"
    "nr_failure_signal (demo_answer NEEDS_REPLAN (Some handed_over)) = Some handed_over"
    "fs_scope handed_over \<noteq> ''current_work_item'' \<or> fs_requires_control_plane handed_over"
    by (simp_all add: demo_answer_def handed_over_def)
  moreover have "ev_traces demo_env" "\<not> blank (wi_id demo_task)" "\<not> blank (ev_trace demo_env)"
    "(1::int) = 0 + 1" "distinct (map cd_decision_id (rw_decisions demo_world))" by code_simp+
  ultimately show ?thesis
    using control_failure_handed_over [of ?exec 1 None demo_world, where k = 0 and fuel = 0 and kinds = "[]"]
    by (metis One_nat_def)
qed

lemma preflight_failure_fails_node_witness:
  "\<exists>n w2. attempts demo_env (\<lambda>m c w. Inr (demo_answer NEEDS_REPLAN (Some (plain_signal RUNTIME_PREFLIGHT ''x'')), w))
      demo_task 1 0 [] None demo_world = Some (Inr (n, w2)) \<and> nr_status n = FAILED"
proof -
  have "read_ledger demo_env demo_world = Inr []" "\<not> blank (wi_id demo_task)" by code_simp+
  then show ?thesis
    unfolding One_nat_def
    by (intro preflight_failure_fails_node [where m = 1 and msg = "''x''" and ?w1.0 = demo_world
        and r = "demo_answer NEEDS_REPLAN (Some (plain_signal RUNTIME_PREFLIGHT ''x''))"])
      (simp_all add: demo_answer_def demo_env_def)
qed

end
