(* ===== verification/Delivery.thy ===== *)
theory Delivery
  imports Plan
begin

text \<open>
  The delivery state of a project and its traceability matrix,
  \<^verbatim>\<open>app/orchestration/delivery.py\<close>, with the runner's \<^verbatim>\<open>_set_delivery_state\<close>. The store is
  its four files: the state, the state events (one per line), the matrix and the quality
  dimensions. The constructors have the prefix \<open>D_\<close>, as the node results use some of the names.
\<close>

section \<open>States and transitions\<close>

datatype delivery_state =
    D_PLANNED
  | D_IMPLEMENTING
  | D_BUILT
  | D_RUNNABLE
  | D_BEHAVIOR_VERIFIED
  | D_WAITING_FOR_APPROVAL
  | D_NEEDS_REWORK
  | D_DELIVERY_READY
  | D_BLOCKED
  | D_FAILED

fun delivery_value :: "delivery_state \<Rightarrow> string" where
  "delivery_value D_PLANNED = ''planned''"
| "delivery_value D_IMPLEMENTING = ''implementing''"
| "delivery_value D_BUILT = ''built''"
| "delivery_value D_RUNNABLE = ''runnable''"
| "delivery_value D_BEHAVIOR_VERIFIED = ''behavior_verified''"
| "delivery_value D_WAITING_FOR_APPROVAL = ''waiting_for_approval''"
| "delivery_value D_NEEDS_REWORK = ''needs_rework''"
| "delivery_value D_DELIVERY_READY = ''delivery_ready''"
| "delivery_value D_BLOCKED = ''blocked''"
| "delivery_value D_FAILED = ''failed''"

definition delivery_members :: "delivery_state list" where
  "delivery_members = [D_PLANNED, D_IMPLEMENTING, D_BUILT, D_RUNNABLE, D_BEHAVIOR_VERIFIED,
     D_WAITING_FOR_APPROVAL, D_NEEDS_REWORK, D_DELIVERY_READY, D_BLOCKED, D_FAILED]"

definition delivery_of :: "string \<Rightarrow> delivery_state result" where
  "delivery_of = enum_of ''DeliveryState'' delivery_value delivery_members"

lemma delivery_of_value [simp]: "delivery_of (delivery_value k) = Inr k"
  unfolding delivery_of_def by (rule enum_of_value; cases k) (simp_all add: delivery_members_def)

fun delivery_transitions :: "delivery_state \<Rightarrow> delivery_state list" where
  "delivery_transitions D_PLANNED = [D_IMPLEMENTING, D_BLOCKED, D_FAILED]"
| "delivery_transitions D_IMPLEMENTING = [D_BUILT, D_NEEDS_REWORK, D_BLOCKED, D_FAILED]"
| "delivery_transitions D_BUILT = [D_RUNNABLE, D_NEEDS_REWORK, D_BLOCKED, D_FAILED]"
| "delivery_transitions D_RUNNABLE = [D_BEHAVIOR_VERIFIED, D_NEEDS_REWORK, D_BLOCKED, D_FAILED]"
| "delivery_transitions D_BEHAVIOR_VERIFIED = [D_DELIVERY_READY, D_NEEDS_REWORK, D_BLOCKED]"
| "delivery_transitions D_WAITING_FOR_APPROVAL = [D_IMPLEMENTING, D_BLOCKED, D_FAILED]"
| "delivery_transitions D_NEEDS_REWORK = [D_IMPLEMENTING, D_BUILT, D_BLOCKED, D_FAILED]"
| "delivery_transitions D_DELIVERY_READY = []"
| "delivery_transitions D_BLOCKED = [D_IMPLEMENTING, D_FAILED]"
| "delivery_transitions D_FAILED = [D_IMPLEMENTING]"

definition can_transition :: "delivery_state \<Rightarrow> delivery_state \<Rightarrow> bool" where
  "can_transition cur target \<longleftrightarrow> target = cur \<or> target \<in> set (delivery_transitions cur)"

section \<open>Requirements\<close>

record requirement =
  rq_requirement_id :: string
  rq_text :: string
  rq_acceptance_criteria :: "string list"
  rq_implementation_units :: "string list"
  rq_test_evidence_ids :: "string list"
  rq_runtime_evidence_ids :: "string list"
  rq_actor :: "string option"
  rq_action :: "string option"
  rq_preconditions :: "string list"
  rq_expected_outputs :: "string list"
  rq_error_cases :: "string list"
  rq_priority :: string

definition new_requirement :: "string \<Rightarrow> string \<Rightarrow> requirement" where
  "new_requirement i t = \<lparr>rq_requirement_id = i, rq_text = t, rq_acceptance_criteria = [],
     rq_implementation_units = [], rq_test_evidence_ids = [], rq_runtime_evidence_ids = [],
     rq_actor = None, rq_action = None, rq_preconditions = [], rq_expected_outputs = [],
     rq_error_cases = [], rq_priority = ''must''\<rparr>"

definition requirement_as_dict :: "requirement \<Rightarrow> json" where
  "requirement_as_dict r = JObj
    [(''requirement_id'', JStr (rq_requirement_id r)),
     (''text'', JStr (rq_text r)),
     (''acceptance_criteria'', jstrs (rq_acceptance_criteria r)),
     (''implementation_units'', jstrs (rq_implementation_units r)),
     (''test_evidence_ids'', jstrs (rq_test_evidence_ids r)),
     (''runtime_evidence_ids'', jstrs (rq_runtime_evidence_ids r)),
     (''actor'', jopt (rq_actor r)),
     (''action'', jopt (rq_action r)),
     (''preconditions'', jstrs (rq_preconditions r)),
     (''expected_outputs'', jstrs (rq_expected_outputs r)),
     (''error_cases'', jstrs (rq_error_cases r)),
     (''priority'', JStr (rq_priority r))]"

type_synonym matrix = "(string, requirement) dict"

definition register_requirement :: "requirement \<Rightarrow> matrix \<Rightarrow> matrix result" where
  "register_requirement r m = (if blank (rq_requirement_id r) then Inl (ValueError ''requirement_id'')
     else Inr (dict_put (rq_requirement_id r) r m))"

fun bind_implementation :: "string list \<Rightarrow> string \<Rightarrow> matrix \<Rightarrow> matrix" where
  "bind_implementation [] u m = m"
| "bind_implementation (i # is) u m = (case dict_get m i of
      None \<Rightarrow> bind_implementation is u m
    | Some r \<Rightarrow> bind_implementation is u
        (dict_put i (r\<lparr>rq_implementation_units := dict_fromkeys (rq_implementation_units r @ [u])\<rparr>) m))"

definition open_requirement :: "requirement \<Rightarrow> bool" where
  "open_requirement r \<longleftrightarrow> rq_implementation_units r = [] \<or> rq_test_evidence_ids r = []
     \<or> rq_runtime_evidence_ids r = []"

definition incomplete :: "matrix \<Rightarrow> string list" where
  "incomplete m = sort (map fst (filter (\<lambda>(_, r). open_requirement r) m))"

definition matrix_as_dict :: "matrix \<Rightarrow> json" where
  "matrix_as_dict m = JObj [(''schema_version'', JInt 1),
     (''requirements'', JList (map (requirement_as_dict \<circ> snd) m))]"

section \<open>The store\<close>

record delivery_store =
  ds_state :: json_file
  ds_events :: "json list"
  ds_matrix :: json_file
  ds_quality :: json_file

definition delivery_state_of :: "delivery_store \<Rightarrow> delivery_state result" where
  "delivery_state_of st = (case ds_state st of
      NoFile \<Rightarrow> Inr D_PLANNED
    | NotJson \<Rightarrow> Inl (ValueError ''JSONDecodeError'')
    | JsonFile j \<Rightarrow> if \<not> is_obj j then Inl (AttributeError ''get'')
        else delivery_of (str_default j ''state'' ''planned''))"

definition delivery_transition ::
  "delivery_state \<Rightarrow> string \<Rightarrow> string list \<Rightarrow> delivery_store \<Rightarrow> delivery_store result" where
  "delivery_transition target reason evidence st =
     bindE (delivery_state_of st) (\<lambda>cur.
       if \<not> can_transition cur target then Inl (ValueError ''transition'')
       else Inr (st\<lparr>
         ds_state := JsonFile (JObj [(''schema_version'', JInt 1), (''state'', JStr (delivery_value target)),
           (''reason'', JStr reason), (''evidence_ids'', jstrs evidence)]),
         ds_events := ds_events st @ [JObj [(''from'', JStr (delivery_value cur)),
           (''to'', JStr (delivery_value target)), (''reason'', JStr reason),
           (''evidence_ids'', jstrs evidence)]]\<rparr>))"

definition save_matrix :: "matrix \<Rightarrow> delivery_store \<Rightarrow> delivery_store" where
  "save_matrix m st = st\<lparr>ds_matrix := JsonFile (matrix_as_dict m)\<rparr>"

definition load_requirement :: "json \<Rightarrow> matrix \<Rightarrow> matrix result" where
  "load_requirement raw m = (if \<not> is_obj raw then Inr m else
     bindE (str_field raw ''requirement_id'') (\<lambda>i.
     bindE (str_list_field raw ''acceptance_criteria'') (\<lambda>acceptance.
     bindE (str_list_field raw ''implementation_units'') (\<lambda>units.
     bindE (str_list_field raw ''test_evidence_ids'') (\<lambda>tests.
     bindE (str_list_field raw ''runtime_evidence_ids'') (\<lambda>runtime.
     bindE (str_list_field raw ''preconditions'') (\<lambda>pre.
     bindE (str_list_field raw ''expected_outputs'') (\<lambda>outs.
     bindE (str_list_field raw ''error_cases'') (\<lambda>errors.
     register_requirement
       \<lparr>rq_requirement_id = i, rq_text = str_default raw ''text'' [], rq_acceptance_criteria = acceptance,
        rq_implementation_units = units, rq_test_evidence_ids = tests, rq_runtime_evidence_ids = runtime,
        rq_actor = truthy_str_field raw ''actor'', rq_action = truthy_str_field raw ''action'',
        rq_preconditions = pre, rq_expected_outputs = outs, rq_error_cases = errors,
        rq_priority = str_default raw ''priority'' ''must''\<rparr> m)))))))))"

text \<open>\<open>for raw in value\<close>: the elements of a JSON value that is iterated.\<close>

definition json_elements :: "json \<Rightarrow> json list result" where
  "json_elements v = (case v of
      JList xs \<Rightarrow> Inr xs
    | JStr s \<Rightarrow> Inr (map (\<lambda>c. JStr [c]) s)
    | JObj kvs \<Rightarrow> Inr (map (JStr \<circ> fst) kvs)
    | _ \<Rightarrow> Inl (TypeError ''not iterable''))"

definition load_matrix :: "delivery_store \<Rightarrow> matrix result" where
  "load_matrix st = (case ds_matrix st of
      NoFile \<Rightarrow> Inr []
    | NotJson \<Rightarrow> Inl (ValueError ''JSONDecodeError'')
    | JsonFile j \<Rightarrow> if \<not> is_obj j then Inl (AttributeError ''get'')
        else bindE (json_elements (case json_get j ''requirements'' of None \<Rightarrow> JList [] | Some v \<Rightarrow> v))
          (\<lambda>raws. foldE load_requirement raws []))"

definition bind_plan :: "plan \<Rightarrow> delivery_store \<Rightarrow> (matrix \<times> delivery_store) result" where
  "bind_plan p st = bindE (load_matrix st) (\<lambda>m.
     let m' = foldl (\<lambda>m w. bind_implementation (wi_requirement_ids w)
                 (if or_empty (wi_unit w) \<noteq> [] then or_empty (wi_unit w)
                  else wi_id w) m) m (pl_work_items p)
     in Inr (m', save_matrix m' st))"

text \<open>
  \<open>bind_evidence\<close> builds a new record from six of the twelve fields; the other six get their
  default values.
\<close>

definition with_evidence :: "bool \<Rightarrow> string \<Rightarrow> requirement \<Rightarrow> requirement" where
  "with_evidence runtime e r =
     (let updated = dict_fromkeys ((if runtime then rq_runtime_evidence_ids r else rq_test_evidence_ids r) @ [e])
      in (new_requirement (rq_requirement_id r) (rq_text r))
        \<lparr>rq_acceptance_criteria := rq_acceptance_criteria r,
         rq_implementation_units := rq_implementation_units r,
         rq_test_evidence_ids := (if runtime then rq_test_evidence_ids r else updated),
         rq_runtime_evidence_ids := (if runtime then updated else rq_runtime_evidence_ids r)\<rparr>)"

fun bind_records :: "string list \<Rightarrow> string \<Rightarrow> bool \<Rightarrow> matrix \<Rightarrow> matrix" where
  "bind_records [] e runtime m = m"
| "bind_records (i # is) e runtime m = (case dict_get m i of
      None \<Rightarrow> bind_records is e runtime m
    | Some r \<Rightarrow> bind_records is e runtime (dict_put i (with_evidence runtime e r) m))"

definition bind_evidence :: "string list \<Rightarrow> string \<Rightarrow> bool \<Rightarrow> delivery_store \<Rightarrow> delivery_store result" where
  "bind_evidence ids e runtime st = bindE (load_matrix st) (\<lambda>m. Inr (save_matrix (bind_records ids e runtime m) st))"

section \<open>Quality dimensions\<close>

definition save_quality_matrix :: "(string, string) dict \<Rightarrow> delivery_store \<Rightarrow> delivery_store" where
  "save_quality_matrix d st = st\<lparr>ds_quality := JsonFile (JObj [(''schema_version'', JInt 1),
     (''dimensions'', JObj (map (\<lambda>(k, v). (k, JStr v)) (sort_key fst d)))])\<rparr>"

text \<open>An unreadable file reads as no dimensions, except that the dimensions must have \<open>items\<close>.\<close>

definition load_quality_matrix :: "delivery_store \<Rightarrow> (string, string) dict result" where
  "load_quality_matrix st = (case ds_quality st of
      NoFile \<Rightarrow> Inr [] | NotJson \<Rightarrow> Inr []
    | JsonFile j \<Rightarrow> (case (case json_get j ''dimensions'' of None \<Rightarrow> JObj [] | Some v \<Rightarrow> v) of
          JObj kvs \<Rightarrow> Inr (map (\<lambda>(k, v). (k, py_str v)) kvs)
        | _ \<Rightarrow> Inl (AttributeError ''items'')))"

section \<open>The runner's use\<close>

fun is_value_error :: "err \<Rightarrow> bool" where
  "is_value_error (ValueError _) = True" | "is_value_error _ = False"

text \<open>The milestones of a completed run, in order; the first refused one ends the loop.\<close>

fun pass_milestones :: "delivery_state list \<Rightarrow> string \<Rightarrow> delivery_store \<Rightarrow> delivery_store result" where
  "pass_milestones [] reason st = Inr st"
| "pass_milestones (d # ds) reason st = bindE (delivery_state_of st) (\<lambda>cur.
     if cur = d then pass_milestones ds reason st
     else (case delivery_transition d reason [] st of
         Inl e \<Rightarrow> if is_value_error e then Inr st else Inl e
       | Inr st' \<Rightarrow> pass_milestones ds reason st'))"

definition set_delivery_state ::
  "bool \<Rightarrow> delivery_state \<Rightarrow> string \<Rightarrow> delivery_store \<Rightarrow> delivery_store result" where
  "set_delivery_state traces target reason st =
     (if \<not> traces then Inr st
      else bindE (delivery_state_of st) (\<lambda>cur.
        if cur = target then Inr st
        else if target = D_DELIVERY_READY
        then pass_milestones [D_BUILT, D_RUNNABLE, D_BEHAVIOR_VERIFIED, D_DELIVERY_READY] reason st
        else (case delivery_transition target reason [] st of
            Inl e \<Rightarrow> if is_value_error e then Inr st else Inl e
          | Inr st' \<Rightarrow> Inr st')))"

section \<open>Lemmas\<close>

definition with_state :: "delivery_state \<Rightarrow> delivery_store \<Rightarrow> bool" where
  "with_state d st \<longleftrightarrow> delivery_state_of st = Inr d"

lemma transition_state:
  "delivery_transition target reason ev st = Inr st' \<Longrightarrow> with_state target st'"
  by (auto simp: delivery_transition_def with_state_def delivery_state_of_def str_default_def split: if_splits)

lemma transition_allowed:
  "with_state cur st \<Longrightarrow> can_transition cur target \<Longrightarrow> \<exists>st'. delivery_transition target reason ev st = Inr st'"
  by (simp add: delivery_transition_def with_state_def)

lemma transition_refused:
  "with_state cur st \<Longrightarrow> \<not> can_transition cur target \<Longrightarrow>
     delivery_transition target reason ev st = Inl (ValueError ''transition'')"
  by (simp add: delivery_transition_def with_state_def)

text \<open>Every move of the runner is one of these two.\<close>

lemma set_state_direct:
  assumes "with_state cur st" "target \<noteq> D_DELIVERY_READY" "set_delivery_state True target reason st = Inr st'"
  shows "with_state (if can_transition cur target then target else cur) st'"
proof (cases "cur = target \<or> \<not> can_transition cur target")
  case True
  then have "st' = st" using assms transition_refused [OF assms(1)]
    by (auto simp: set_delivery_state_def with_state_def split: if_splits)
  then show ?thesis using True assms(1) by (auto simp: can_transition_def)
next
  case False
  then obtain st1 where "delivery_transition target reason [] st = Inr st1"
    using transition_allowed [OF assms(1)] by blast
  moreover from this have "st' = st1" using assms False by (simp add: set_delivery_state_def with_state_def)
  ultimately show ?thesis using False transition_state by auto
qed

lemma set_state_direct_total:
  "with_state cur st \<Longrightarrow> target \<noteq> D_DELIVERY_READY \<Longrightarrow> \<exists>st'. set_delivery_state True target reason st = Inr st'"
  using transition_allowed [of cur st target reason "[]"] transition_refused [of cur st target reason "[]"]
  by (cases "can_transition cur target") (auto simp: set_delivery_state_def with_state_def)

fun milestone_end :: "delivery_state list \<Rightarrow> delivery_state \<Rightarrow> delivery_state" where
  "milestone_end [] cur = cur"
| "milestone_end (d # ds) cur = (if can_transition cur d then milestone_end ds d else cur)"

lemma pass_milestones_end:
  "with_state cur st \<Longrightarrow> \<exists>st'. pass_milestones ds reason st = Inr st' \<and> with_state (milestone_end ds cur) st'"
proof (induction ds arbitrary: cur st)
  case (Cons d ds)
  consider "cur = d" | "cur \<noteq> d" "can_transition cur d" | "\<not> can_transition cur d" by blast
  then show ?case
  proof cases
    case 1
    then show ?thesis using Cons.IH [OF Cons.prems] Cons.prems by (simp add: with_state_def can_transition_def)
  next
    case 2
    then obtain st1 where st1: "delivery_transition d reason [] st = Inr st1"
      using transition_allowed [OF Cons.prems] by blast
    then show ?thesis using Cons.IH [OF transition_state [OF st1]] Cons.prems 2 by (simp add: with_state_def)
  next
    case 3
    then have "cur \<noteq> d" by (auto simp: can_transition_def)
    then show ?thesis using Cons.prems 3 transition_refused [OF Cons.prems 3] by (simp add: with_state_def)
  qed
qed simp

lemma set_state_ready:
  assumes "with_state cur st"
  shows "\<exists>st'. set_delivery_state True D_DELIVERY_READY reason st = Inr st' \<and>
    with_state (if cur = D_DELIVERY_READY then cur
      else milestone_end [D_BUILT, D_RUNNABLE, D_BEHAVIOR_VERIFIED, D_DELIVERY_READY] cur) st'"
  using pass_milestones_end [OF assms, of "[D_BUILT, D_RUNNABLE, D_BEHAVIOR_VERIFIED, D_DELIVERY_READY]" reason] assms
  by (auto simp: set_delivery_state_def with_state_def)

text \<open>A sequence of the runner's calls, one per start or end of a run.\<close>

definition state_calls ::
  "(delivery_state \<times> string) list \<Rightarrow> delivery_store \<Rightarrow> delivery_store result" where
  "state_calls cs st = foldE (\<lambda>(d, reason) st. set_delivery_state True d reason st) cs st"

lemma set_state_step:
  assumes "with_state cur st" "set_delivery_state True d reason st = Inr st'"
  shows "\<exists>new. with_state new st' \<and> (cur = D_DELIVERY_READY \<longrightarrow> new = cur)
    \<and> (new = D_WAITING_FOR_APPROVAL \<longrightarrow> cur = D_WAITING_FOR_APPROVAL)"
proof (cases "d = D_DELIVERY_READY")
  case True
  then have "with_state (if cur = D_DELIVERY_READY then cur
      else milestone_end [D_BUILT, D_RUNNABLE, D_BEHAVIOR_VERIFIED, D_DELIVERY_READY] cur) st'"
    using set_state_ready [OF assms(1), of reason] assms(2) by auto
  then show ?thesis by (cases cur) (auto simp: can_transition_def)
next
  case False
  then show ?thesis using set_state_direct [OF assms(1) False assms(2)]
    by (cases cur; cases d) (auto simp: can_transition_def)
qed

section \<open>Properties\<close>

text \<open>A run that starts and completes takes the project to \<open>delivery_ready\<close> through the
  milestones, from every state but \<open>runnable\<close> and \<open>behavior_verified\<close>: from these (which an
  interrupted process can leave) the start and the first milestone are both refused and the
  state stays where it was.\<close>

theorem completed_run_delivers:
  assumes "with_state cur st"
  shows "\<exists>st1 st2. set_delivery_state True D_IMPLEMENTING started st = Inr st1
    \<and> set_delivery_state True D_DELIVERY_READY finished st1 = Inr st2
    \<and> with_state (if cur = D_RUNNABLE \<or> cur = D_BEHAVIOR_VERIFIED then cur else D_DELIVERY_READY) st2"
proof -
  obtain st1 where st1: "set_delivery_state True D_IMPLEMENTING started st = Inr st1"
    using set_state_direct_total [OF assms] by blast
  then have "with_state (if can_transition cur D_IMPLEMENTING then D_IMPLEMENTING else cur) st1"
    using set_state_direct [OF assms] by blast
  from set_state_ready [OF this, of finished] st1 show ?thesis
    by (cases cur) (auto simp: can_transition_def)
qed

text \<open>Once \<open>delivery_ready\<close>, always \<open>delivery_ready\<close>: no sequence of later starts and
  failures of runs moves the recorded state, because the refused transitions are swallowed.\<close>

theorem delivery_ready_is_final:
  assumes "with_state D_DELIVERY_READY st" and "state_calls cs st = Inr st'"
  shows "with_state D_DELIVERY_READY st'"
  using assms(2) unfolding state_calls_def
proof (rule foldE_invariant)
  show "with_state D_DELIVERY_READY t"
    if "with_state D_DELIVERY_READY s" "(case x of (d, reason) \<Rightarrow> set_delivery_state True d reason) s = Inr t" for x s t
    using that set_state_step [of D_DELIVERY_READY s "fst x" "snd x" t] by (auto simp: with_state_def split: prod.splits)
qed (rule assms(1))

text \<open>The state \<open>waiting_for_approval\<close> is never recorded: no transition leads into it, so a run
  that ends waiting for a capability leaves the state it had.\<close>

theorem waiting_never_recorded:
  assumes "delivery_state_of st = Inr cur" "cur \<noteq> D_WAITING_FOR_APPROVAL" and "state_calls cs st = Inr st'"
  shows "\<exists>d. delivery_state_of st' = Inr d \<and> d \<noteq> D_WAITING_FOR_APPROVAL"
  using assms(3) unfolding state_calls_def
proof (rule foldE_invariant)
  show "\<exists>d. delivery_state_of t = Inr d \<and> d \<noteq> D_WAITING_FOR_APPROVAL"
    if ex: "\<exists>d. delivery_state_of s = Inr d \<and> d \<noteq> D_WAITING_FOR_APPROVAL"
      and call: "(case x of (d, reason) \<Rightarrow> set_delivery_state True d reason) s = Inr t" for x and s t :: delivery_store
  proof -
    obtain d where d: "with_state d s" "d \<noteq> D_WAITING_FOR_APPROVAL" using ex by (auto simp: with_state_def)
    show ?thesis using set_state_step [OF d(1), of "fst x" "snd x" t] call d(2)
      by (auto simp: with_state_def split: prod.splits)
  qed
qed (use assms in blast)

section \<open>The event log\<close>

text \<open>The events form a path of allowed transitions that ends in the recorded state.\<close>

fun event_path :: "delivery_state \<Rightarrow> json list \<Rightarrow> delivery_state \<Rightarrow> bool" where
  "event_path a [] b \<longleftrightarrow> a = b"
| "event_path a (e # es) b \<longleftrightarrow> (\<exists>c \<in> set delivery_members. can_transition a c
     \<and> json_get e ''from'' = Some (JStr (delivery_value a))
     \<and> json_get e ''to'' = Some (JStr (delivery_value c)) \<and> event_path c es b)"

lemma event_path_append:
  "event_path a (es @ fs) b \<longleftrightarrow> (\<exists>c. event_path a es c \<and> event_path c fs b)"
  by (induction a es b rule: event_path.induct) auto

text \<open>The event log explains the state: the transitions of any sequence of runs append to it a
  path of allowed transitions from the state before to the state after.\<close>

theorem events_explain_state:
  assumes "with_state cur st" and "foldE (\<lambda>(d, reason, ev). delivery_transition d reason ev) ts st = Inr st'"
  shows "\<exists>es new. ds_events st' = ds_events st @ es \<and> with_state new st' \<and> event_path cur es new"
  using assms
proof (induction ts arbitrary: cur st)
  case Nil
  then show ?case by auto
next
  case (Cons t ts)
  obtain d reason ev where t: "t = (d, reason, ev)" by (cases t)
  obtain st1 where st1: "delivery_transition d reason ev st = Inr st1"
    and rest: "foldE (\<lambda>(d, reason, ev). delivery_transition d reason ev) ts st1 = Inr st'"
    using Cons.prems(2) t by auto
  obtain e where e: "ds_events st1 = ds_events st @ [e]" "can_transition cur d"
    "json_get e ''from'' = Some (JStr (delivery_value cur))" "json_get e ''to'' = Some (JStr (delivery_value d))"
    using st1 Cons.prems(1) by (auto simp: delivery_transition_def with_state_def split: if_splits)
  have "d \<in> set delivery_members" by (cases d) (simp_all add: delivery_members_def)
  then have "event_path cur [e] d" using e by auto
  moreover obtain es new where "ds_events st' = ds_events st1 @ es" "with_state new st'" "event_path d es new"
    using Cons.IH [OF transition_state [OF st1] rest] by blast
  ultimately show ?case using e(1)
    by (intro exI [of _ "e # es"] exI [of _ new]) (use event_path_append [of cur "[e]" es new] in auto)
qed

section \<open>The matrix\<close>

text \<open>A matrix as the code builds it: keyed by its records' identifiers, none blank; an actor or an
  action is absent rather than empty.\<close>

definition matrix_ok :: "matrix \<Rightarrow> bool" where
  "matrix_ok m \<longleftrightarrow> distinct (dict_keys m) \<and> (\<forall>(i, r) \<in> set m. rq_requirement_id r = i \<and> \<not> blank i
     \<and> rq_actor r \<noteq> Some [] \<and> rq_action r \<noteq> Some [])"

lemma requirement_fields:
  "json_get (requirement_as_dict r) ''requirement_id'' = Some (JStr (rq_requirement_id r))"
  "json_get (requirement_as_dict r) ''text'' = Some (JStr (rq_text r))"
  "json_get (requirement_as_dict r) ''acceptance_criteria'' = Some (jstrs (rq_acceptance_criteria r))"
  "json_get (requirement_as_dict r) ''implementation_units'' = Some (jstrs (rq_implementation_units r))"
  "json_get (requirement_as_dict r) ''test_evidence_ids'' = Some (jstrs (rq_test_evidence_ids r))"
  "json_get (requirement_as_dict r) ''runtime_evidence_ids'' = Some (jstrs (rq_runtime_evidence_ids r))"
  "json_get (requirement_as_dict r) ''actor'' = Some (jopt (rq_actor r))"
  "json_get (requirement_as_dict r) ''action'' = Some (jopt (rq_action r))"
  "json_get (requirement_as_dict r) ''preconditions'' = Some (jstrs (rq_preconditions r))"
  "json_get (requirement_as_dict r) ''expected_outputs'' = Some (jstrs (rq_expected_outputs r))"
  "json_get (requirement_as_dict r) ''error_cases'' = Some (jstrs (rq_error_cases r))"
  "json_get (requirement_as_dict r) ''priority'' = Some (JStr (rq_priority r))"
  by (simp_all add: requirement_as_dict_def)

lemma str_list_field_jstrs: "json_get j k = Some (jstrs xs) \<Longrightarrow> str_list_field j k = Inr xs"
  by (simp add: str_list_field_def)

lemma load_requirement_as_dict:
  assumes "\<not> blank (rq_requirement_id r)" "rq_actor r \<noteq> Some []" "rq_action r \<noteq> Some []"
  shows "load_requirement (requirement_as_dict r) m = Inr (dict_put (rq_requirement_id r) r m)"
proof -
  have "is_obj (requirement_as_dict r)" by (simp add: requirement_as_dict_def)
  then show ?thesis using assms
    by (cases r) (simp add: load_requirement_def requirement_fields str_field_JStr str_list_field_jstrs
        str_default_JStr truthy_str_field_jopt register_requirement_def)
qed

lemma load_requirements:
  "matrix_ok (done @ m) \<Longrightarrow> foldE load_requirement (map (requirement_as_dict \<circ> snd) m) done = Inr (done @ m)"
proof (induction m arbitrary: "done")
  case (Cons e m)
  obtain i r where e: "e = (i, r)" by (cases e)
  have "load_requirement (requirement_as_dict r) done = Inr (dict_put i r done)"
    using Cons.prems load_requirement_as_dict [of r "done"] by (auto simp: matrix_ok_def e)
  moreover have "dict_put i r done = done @ [(i, r)]"
    using Cons.prems by (intro set_dict_put_new) (simp add: matrix_ok_def e)
  ultimately show ?case using Cons.IH [of "done @ [e]"] Cons.prems by (simp add: e)
qed simp

lemma load_saved_matrix: "matrix_ok m \<Longrightarrow> load_matrix (save_matrix m st) = Inr m"
  using load_requirements [of "[]" m]
  by (simp add: load_matrix_def save_matrix_def matrix_as_dict_def json_elements_def)

text \<open>The traceability matrix survives its file: what was saved is loaded, record by record.\<close>

theorem matrix_round_trip: "matrix_ok m \<Longrightarrow> load_matrix (save_matrix m st) = Inr m"
  by (rule load_saved_matrix)

lemma matrix_ok_get:
  "matrix_ok m \<longleftrightarrow> distinct (dict_keys m) \<and> (\<forall>i r. dict_get m i = Some r \<longrightarrow> rq_requirement_id r = i \<and> \<not> blank i
     \<and> rq_actor r \<noteq> Some [] \<and> rq_action r \<noteq> Some [])"
  unfolding matrix_ok_def by (auto simp: map_of_eq_Some_iff)

lemma matrix_ok_put:
  "matrix_ok m \<Longrightarrow> dict_get m i = Some r \<Longrightarrow> rq_requirement_id q = rq_requirement_id r \<Longrightarrow>
     rq_actor q \<noteq> Some [] \<Longrightarrow> rq_action q \<noteq> Some [] \<Longrightarrow> matrix_ok (dict_put i q m)"
  unfolding matrix_ok_get by (auto simp: distinct_dict_put dict.get_put)

lemma open_iff:
  "matrix_ok m \<Longrightarrow> i \<in> set (incomplete m) \<longleftrightarrow> (\<exists>r. dict_get m i = Some r \<and> open_requirement r)"
  unfolding matrix_ok_get by (force simp: incomplete_def map_of_eq_Some_iff)

text \<open>Putting a record that is open only if the old one was opens no requirement.\<close>

lemma put_closes:
  assumes "matrix_ok m" "dict_get m i = Some r" "rq_requirement_id q = rq_requirement_id r"
    "rq_actor q \<noteq> Some []" "rq_action q \<noteq> Some []" "open_requirement q \<Longrightarrow> open_requirement r"
  shows "set (incomplete (dict_put i q m)) \<subseteq> set (incomplete m)"
  using assms matrix_ok_put [OF assms(1-5)]
  by (auto simp: open_iff dict.get_put split: if_splits)

lemma with_evidence_sel [simp]:
  "rq_requirement_id (with_evidence b e r) = rq_requirement_id r" "rq_actor (with_evidence b e r) = None"
  "rq_action (with_evidence b e r) = None"
  by (simp_all add: with_evidence_def new_requirement_def Let_def)

lemma dict_fromkeys_nonempty [simp]: "dict_fromkeys (xs @ [x]) \<noteq> []"
  using set_dict_fromkeys [of "xs @ [x]"] by fastforce

lemma open_with_evidence: "open_requirement (with_evidence b e r) \<Longrightarrow> open_requirement r"
  by (cases b) (auto simp: open_requirement_def with_evidence_def new_requirement_def Let_def)

lemma bind_records_closes:
  "matrix_ok m \<Longrightarrow> matrix_ok (bind_records ids e b m) \<and> set (incomplete (bind_records ids e b m)) \<subseteq> set (incomplete m)"
proof (induction ids arbitrary: m)
  case (Cons i ids)
  show ?case
  proof (cases "dict_get m i")
    case (Some r)
    note q = matrix_ok_put [OF Cons.prems Some, of "with_evidence b e r"]
      put_closes [OF Cons.prems Some, of "with_evidence b e r"]
    show ?thesis using Cons.IH [OF q(1)] q(2) Some open_with_evidence by fastforce
  qed (use Cons in simp)
qed simp

lemma bind_implementation_closes:
  "matrix_ok m \<Longrightarrow> matrix_ok (bind_implementation ids u m)
     \<and> set (incomplete (bind_implementation ids u m)) \<subseteq> set (incomplete m)"
proof (induction ids arbitrary: m)
  case (Cons i ids)
  show ?case
  proof (cases "dict_get m i")
    case (Some r)
    let ?q = "r\<lparr>rq_implementation_units := dict_fromkeys (rq_implementation_units r @ [u])\<rparr>"
    have r: "rq_actor r \<noteq> Some []" "rq_action r \<noteq> Some []"
      using Cons.prems Some by (auto simp: matrix_ok_get)
    then have "matrix_ok (dict_put i ?q m)" using matrix_ok_put [OF Cons.prems Some, of ?q] by simp
    moreover have "set (incomplete (dict_put i ?q m)) \<subseteq> set (incomplete m)"
      by (rule put_closes [OF Cons.prems Some])
        (use r in \<open>auto simp: open_requirement_def\<close>)
    ultimately show ?thesis using Cons.IH Some by fastforce
  qed (use Cons in simp)
qed simp

text \<open>Binding never reopens a requirement: after implementation units and evidence are bound, in
  any order and amount, only requirements that were incomplete before can be incomplete.\<close>

theorem binding_never_reopens:
  "matrix_ok m \<Longrightarrow>
     set (incomplete (bind_records ids e b (bind_implementation is u m))) \<subseteq> set (incomplete m)
     \<and> set (incomplete (bind_implementation is u (bind_records ids e b m))) \<subseteq> set (incomplete m)"
  using bind_implementation_closes [of m "is" u] bind_records_closes [of m ids e b]
    bind_records_closes [of "bind_implementation is u m" ids e b]
    bind_implementation_closes [of "bind_records ids e b m" "is" u] by blast

text \<open>Binding a piece of evidence stores it, but strips the requirement of its actor, action,
  preconditions, expected outputs, error cases and priority: what is loaded afterwards has the
  defaults there.\<close>

theorem evidence_strips_requirement:
  assumes "matrix_ok m" and "load_matrix st = Inr m" and "dict_get m i = Some r"
  shows "\<exists>st' m' q. bind_evidence [i] e runtime st = Inr st' \<and> load_matrix st' = Inr m' \<and> dict_get m' i = Some q
    \<and> e \<in> set (if runtime then rq_runtime_evidence_ids q else rq_test_evidence_ids q)
    \<and> rq_text q = rq_text r \<and> rq_implementation_units q = rq_implementation_units r
    \<and> rq_actor q = None \<and> rq_action q = None \<and> rq_preconditions q = [] \<and> rq_expected_outputs q = []
    \<and> rq_error_cases q = [] \<and> rq_priority q = ''must''"
proof -
  let ?m = "bind_records [i] e runtime m"
  have "matrix_ok ?m" using bind_records_closes [OF assms(1)] by blast
  then have "load_matrix (save_matrix ?m st) = Inr ?m" by (rule load_saved_matrix)
  moreover have "dict_get ?m i = Some (with_evidence runtime e r)"
    using assms(3) by (simp add: dict.get_put)
  moreover have "bind_evidence [i] e runtime st = Inr (save_matrix ?m st)"
    using assms(2) by (simp add: bind_evidence_def)
  ultimately show ?thesis
    by (intro exI [of _ "save_matrix ?m st"] exI [of _ ?m] exI [of _ "with_evidence runtime e r"])
      (simp add: with_evidence_def new_requirement_def Let_def)
qed

section \<open>Witnesses\<close>

definition demo_delivery :: delivery_store where
  "demo_delivery = \<lparr>ds_state = NoFile, ds_events = [], ds_matrix = NoFile, ds_quality = NoFile\<rparr>"

definition demo_requirement :: requirement where
  "demo_requirement = (new_requirement ''AC-1'' ''login'')\<lparr>rq_actor := Some ''user'', rq_priority := ''should''\<rparr>"

definition demo_matrix :: matrix where
  "demo_matrix = [(''AC-1'', demo_requirement)]"

definition ready_delivery :: delivery_store where
  "ready_delivery = projr (set_delivery_state True D_DELIVERY_READY ''done''
     (projr (set_delivery_state True D_IMPLEMENTING ''go'' demo_delivery)))"

lemma demo_matrix_ok: "matrix_ok demo_matrix"
  by code_simp

lemma completed_run_delivers_witness:
  "\<exists>st1 st2. set_delivery_state True D_IMPLEMENTING ''go'' demo_delivery = Inr st1
    \<and> set_delivery_state True D_DELIVERY_READY ''done'' st1 = Inr st2 \<and> with_state D_DELIVERY_READY st2"
proof -
  have "with_state D_PLANNED demo_delivery" by code_simp
  from completed_run_delivers [OF this] show ?thesis by simp
qed

lemma delivery_ready_is_final_witness:
  "with_state D_DELIVERY_READY (projr (state_calls [(D_IMPLEMENTING, ''again''), (D_FAILED, ''boom'')] ready_delivery))"
  by (rule delivery_ready_is_final [of ready_delivery "[(D_IMPLEMENTING, ''again''), (D_FAILED, ''boom'')]"]) code_simp+

lemma waiting_never_recorded_witness:
  "\<exists>d. delivery_state_of (projr (state_calls [(D_IMPLEMENTING, ''go''), (D_WAITING_FOR_APPROVAL, ''ask'')] demo_delivery)) = Inr d
    \<and> d \<noteq> D_WAITING_FOR_APPROVAL"
  by (rule waiting_never_recorded [of demo_delivery D_PLANNED "[(D_IMPLEMENTING, ''go''), (D_WAITING_FOR_APPROVAL, ''ask'')]"])
    code_simp+

definition demo_moves :: "(delivery_state \<times> string \<times> string list) list" where
  "demo_moves = [(D_IMPLEMENTING, ''go'', []), (D_BUILT, ''ok'', [''e1''])]"

lemma events_explain_state_witness:
  "\<exists>es new. ds_events (projr (foldE (\<lambda>(d, reason, ev). delivery_transition d reason ev) demo_moves demo_delivery))
      = ds_events demo_delivery @ es \<and> event_path D_PLANNED es new"
proof -
  let ?r = "foldE (\<lambda>(d, reason, ev). delivery_transition d reason ev) demo_moves demo_delivery"
  have "with_state D_PLANNED demo_delivery" "?r = Inr (projr ?r)" by code_simp+
  from events_explain_state [OF this] show ?thesis by blast
qed

lemma matrix_round_trip_witness: "load_matrix (save_matrix demo_matrix demo_delivery) = Inr demo_matrix"
  by (rule matrix_round_trip [OF demo_matrix_ok])

lemma binding_never_reopens_witness:
  "set (incomplete (bind_records [''AC-1''] ''t1'' False (bind_implementation [''AC-1''] ''u1'' demo_matrix))) \<subseteq> {''AC-1''}"
proof -
  have "set (incomplete demo_matrix) = {''AC-1''}" by code_simp
  then show ?thesis using binding_never_reopens [OF demo_matrix_ok] by metis
qed

lemma evidence_strips_requirement_witness:
  "\<exists>st' m' q. bind_evidence [''AC-1''] ''t1'' False (save_matrix demo_matrix demo_delivery) = Inr st'
    \<and> load_matrix st' = Inr m' \<and> dict_get m' ''AC-1'' = Some q
    \<and> rq_actor demo_requirement = Some ''user'' \<and> rq_actor q = None"
proof -
  have "dict_get demo_matrix ''AC-1'' = Some demo_requirement" "rq_actor demo_requirement = Some ''user''"
    by code_simp+
  then show ?thesis
    using evidence_strips_requirement [OF demo_matrix_ok load_saved_matrix [OF demo_matrix_ok]] by meson
qed

end
