(* ===== verification/Durable_Output.thy ===== *)
theory Durable_Output
  imports Resume_Laws Artifact_Laws
begin

text \<open>
  The control plane's dealings with delivered outputs in \<^verbatim>\<open>app/orchestration/runner.py\<close>: the
  recovery of an item from durable output (\<^verbatim>\<open>_recover_durable_work_item\<close>), the check of a
  restored run (\<^verbatim>\<open>_validate_restored_architecture\<close>) and the quality gate
  (\<^verbatim>\<open>_run_quality_gate\<close>) with the publication policy of
  \<^verbatim>\<open>app/domain/architecture/candidate_policy.py\<close>. Parameters are the domain validators of
  staged content, the listing of the candidate directories, and the code change sets (Git): for
  an item the commit of its change set, if it loads and passes the delivery check.
\<close>

record durable_env =
  du_traces :: bool
  du_artifacts :: bool
  du_trace :: string
  du_sha :: "string \<Rightarrow> string"
  du_now :: string
  du_validate :: "delivery_contract \<Rightarrow> string \<Rightarrow> err + unit"
  du_candidates :: "string list"
  du_change :: "work_item \<Rightarrow> string option"

fun unavailable :: "err \<Rightarrow> bool" where
  "unavailable (FileNotFoundError _) = True"
| "unavailable (RuntimeError _) = True"
| "unavailable (ValueError _) = True"
| "unavailable _ = False"

fun is_type_error :: "err \<Rightarrow> bool" where
  "is_type_error (TypeError _) = True" | "is_type_error _ = False"

fun is_key_error :: "err \<Rightarrow> bool" where
  "is_key_error (KeyError _) = True" | "is_key_error _ = False"

fun is_permission_error :: "err \<Rightarrow> bool" where
  "is_permission_error (PermissionError _) = True" | "is_permission_error _ = False"

section \<open>Recovering an item\<close>

definition recover_staged ::
  "durable_env \<Rightarrow> work_item \<Rightarrow> repo \<Rightarrow> (node_result option \<times> repo) result" where
  "recover_staged env w rp = (case Option.bind (item_contract w) (\<lambda>c. map_option (Pair c) (dc_output_artifact_kind c)) of
      None \<Rightarrow> Inr (None, rp)
    | Some (c, kind) \<Rightarrow>
        bindE (ref_staged (if or_empty (wi_artifact_key w) \<noteq> [] then or_empty (wi_artifact_key w) else ''architecture'')
                 (du_trace env) (wi_id w) (or_empty (wi_slot w))) (\<lambda>r.
        case verify_staged (du_sha env) (du_now env) r (du_trace env) (wi_id w) (or_empty (wi_slot w)) kind
               (Some (du_validate env c)) (Some (wi_input_refs w)) (wi_contract_digest w) rp of
          Inl e \<Rightarrow> if unavailable e \<or> is_type_error e then Inr (None, rp) else Inl e
        | Inr (receipt, rp') \<Rightarrow> bindE (node_completed (wi_id w) (wi_agent_id w)
              (''recovered '' @ rc_artifact_id receipt @ '' digest='' @ rc_digest receipt)) (\<lambda>n. Inr (Some n, rp'))))"

definition recover_candidate ::
  "durable_env \<Rightarrow> work_item \<Rightarrow> repo \<Rightarrow> (node_result option \<times> repo) result" where
  "recover_candidate env w rp =
     (case candidate_for_work_item (du_sha env) rp (du_candidates env) (du_trace env) ''architecture'' (wi_id w)
             (Some (wi_input_refs w)) (wi_contract_digest w) of
        Inl e \<Rightarrow> if unavailable e then Inr (None, rp) else Inl e
      | Inr c \<Rightarrow> if ir_issues (cd_report c) \<noteq> [] then Inr (None, rp)
          else bindE (node_completed (wi_id w) (wi_agent_id w) (''candidate '' @ cd_id c)) (\<lambda>n. Inr (Some n, rp)))"

definition recover_published ::
  "durable_env \<Rightarrow> plan \<Rightarrow> work_item \<Rightarrow> repo \<Rightarrow> (node_result option \<times> repo) result" where
  "recover_published env p w rp = (case plan_item p (or_empty (wi_candidate_from w)) of
      None \<Rightarrow> Inr (None, rp)
    | Some producer \<Rightarrow>
        if wi_execution_mode producer \<noteq> INTEGRATION then Inr (None, rp)
        else (case bindE (candidate_for_work_item (du_sha env) rp (du_candidates env) (du_trace env) ''architecture''
                     (wi_id producer) (Some (wi_input_refs producer)) (wi_contract_digest producer)) (\<lambda>c.
                   bindE (verify_published_candidate (du_sha env) rp c) (\<lambda>r. Inr (c, r))) of
            Inl e \<Rightarrow> if unavailable e \<or> is_key_error e then Inr (None, rp) else Inl e
          | Inr (c, r) \<Rightarrow> bindE (node_completed (wi_id w) (wi_agent_id w)
              (''published '' @ ref_id r @ ''; candidate='' @ cd_id c)) (\<lambda>n. Inr (Some n, rp))))"

definition recover_durable_work_item ::
  "durable_env \<Rightarrow> run_state \<Rightarrow> work_item \<Rightarrow> repo \<Rightarrow> (node_result option \<times> repo) result" where
  "recover_durable_work_item env s w rp =
     (if wi_id w \<in> rs_forced s then Inr (None, rp)
      else if \<not> du_traces env then Inr (None, rp)
      else if wi_agent_id w = ''architecture_agent'' \<and> wi_execution_mode w = PARTITIONED \<and> du_artifacts env
      then recover_staged env w rp
      else if wi_agent_id w = ''architecture_agent'' \<and> wi_execution_mode w = INTEGRATION
           \<and> wi_publish_target w = Some ''architecture'' \<and> du_artifacts env
      then recover_candidate env w rp
      else if wi_execution_mode w = QUALITY_GATE \<and> wi_publish_target w = Some ''architecture'' \<and> du_artifacts env
      then recover_published env (rs_plan s) w rp
      else if wi_agent_id w = ''code_agent'' \<and> wi_execution_mode w = PARTITIONED
      then (case du_change env w of
          None \<Rightarrow> Inr (None, rp)
        | Some commit \<Rightarrow> bindE (node_completed (wi_id w) (wi_agent_id w) (''changeset '' @ commit)) (\<lambda>n. Inr (Some n, rp)))
      else Inr (None, rp))"

section \<open>Checking a restored run\<close>

definition architecture_delivery :: "work_item \<Rightarrow> bool" where
  "architecture_delivery w \<longleftrightarrow>
     (wi_agent_id w = ''architecture_agent'' \<and> (wi_execution_mode w = PARTITIONED \<or> wi_execution_mode w = INTEGRATION))
     \<or> (wi_execution_mode w = QUALITY_GATE \<and> wi_publish_target w = Some ''architecture'')"

fun find_invalid :: "durable_env \<Rightarrow> run_state \<Rightarrow> work_item list \<Rightarrow> repo \<Rightarrow> (string list \<times> repo) result" where
  "find_invalid env s [] rp = Inr ([], rp)"
| "find_invalid env s (w # ws) rp =
     (if \<not> is_completed (rs_results s) (wi_id w) \<or> \<not> architecture_delivery w then find_invalid env s ws rp
      else bindE (recover_durable_work_item env s w rp) (\<lambda>(n, rp1).
        bindE (find_invalid env s ws rp1) (\<lambda>(bad, rp2).
          Inr (if n = None then wi_id w # bad else bad, rp2))))"

definition affected_by :: "string \<Rightarrow> string list \<Rightarrow> work_item \<Rightarrow> bool" where
  "affected_by trace affected w \<longleftrightarrow> list_ex (\<lambda>d. d \<in> set affected) (wi_dependency_ids w)
     \<or> list_ex (\<lambda>r. ref_layer r = ''staged'' \<and> ref_trace_id r = Some trace
          \<and> (case ref_work_item_id r of None \<Rightarrow> False | Some i \<Rightarrow> i \<in> set affected)) (wi_input_refs w)"

function affected_closure :: "work_item list \<Rightarrow> string \<Rightarrow> string list \<Rightarrow> string list" where
  "affected_closure items trace affected =
     (let new = filter (\<lambda>i. i \<notin> set affected) (map wi_id (filter (affected_by trace affected) items))
      in if new = [] then affected else affected_closure items trace (affected @ new))"
  by pat_completeness auto
termination
proof (relation "measure (\<lambda>(items, _, affected). length (filter (\<lambda>w. wi_id w \<notin> set affected) items))", goal_cases)
  case (2 items trace affected new)
  then have "new \<noteq> []" by blast
  then have "hd new \<in> set new" by (rule hd_in_set)
  then obtain w where "w \<in> set items" "wi_id w \<notin> set affected" "wi_id w \<in> set new" using 2(1) by auto
  then have "length (filter (\<lambda>w. wi_id w \<notin> set (affected @ new)) items)
      < length (filter (\<lambda>w. wi_id w \<notin> set affected) items)"
    by (intro length_filter_strict [of _ _ w]) auto
  then show ?case by simp
qed simp

declare affected_closure.simps [simp del]

text \<open>The result and the state without the affected items; nothing if all evidence is valid.\<close>

definition validate_restored_architecture ::
  "durable_env \<Rightarrow> run_state \<Rightarrow> repo \<Rightarrow> (node_result option \<times> run_state \<times> repo) result" where
  "validate_restored_architecture env s rp =
     bindE (find_invalid env s (pl_work_items (rs_plan s)) rp) (\<lambda>(bad, rp1).
       case List.find (\<lambda>w. wi_id w \<in> set bad) (pl_work_items (rs_plan s)) of
         None \<Rightarrow> Inr (None, s, rp1)
       | Some w \<Rightarrow>
           let affected = affected_closure (pl_work_items (rs_plan s)) (tc_trace_id (pl_trace (rs_plan s))) bad;
               sig = (plain_signal PLANNER_VALIDATION (''checkpoint evidence: '' @ join '','' (sort bad)))
                 \<lparr>fs_validator := Some ''ArchitectureCheckpointPreflight'', fs_field_path := Some (wi_id w),
                  fs_retryable := False, fs_retry_hint := Some ''repair_producer_and_rebuild_dependent_plan''\<rparr>
           in bindE (node_needs_replan (wi_id w) (wi_agent_id w) sig (Some (fs_summary sig))) (\<lambda>n.
              Inr (Some n, drop_items affected s, rp1)))"

section \<open>The quality gate\<close>

text \<open>\<open>ArchitectureCandidatePolicy.assert_publishable\<close>; both strategies require completeness.\<close>

definition assert_publishable :: "string list \<Rightarrow> string list \<Rightarrow> err + unit" where
  "assert_publishable expected available =
     (let missing = filter (\<lambda>r. r \<notin> set available) expected
      in if missing = [] \<and> expected \<noteq> [] then Inr () else Inl (ValueError ''incomplete candidate''))"

definition gate_signal :: "work_item \<Rightarrow> failure_signal" where
  "gate_signal w = (plain_signal PLANNER_VALIDATION ''quality gate refused'')
     \<lparr>fs_validator := Some ''ArchitectureQualityGate'', fs_field_path := Some (wi_id w),
      fs_retry_hint := Some ''repair_producer_or_input_reference'', fs_retryable := False\<rparr>"

definition gate_refusal :: "work_item \<Rightarrow> err \<Rightarrow> repo \<Rightarrow> (node_result \<times> repo) result" where
  "gate_refusal w e rp = (if unavailable e \<or> is_permission_error e
     then bindE (node_needs_replan (wi_id w) (wi_agent_id w) (gate_signal w) None) (\<lambda>n. Inr (n, rp))
     else Inl e)"

text \<open>Up to the promotion the gate only reads.\<close>

definition gate_candidate :: "durable_env \<Rightarrow> plan \<Rightarrow> work_item \<Rightarrow> repo \<Rightarrow> candidate result" where
  "gate_candidate env p w rp = (case plan_item p (or_empty (wi_candidate_from w)) of
      None \<Rightarrow> Inl (ValueError ''producer'')
    | Some producer \<Rightarrow>
        if wi_execution_mode producer \<noteq> INTEGRATION then Inl (ValueError ''producer'')
        else bindE (candidate_for_work_item (du_sha env) rp (du_candidates env) (du_trace env)
                     (or_empty (wi_publish_target w)) (wi_id producer) (Some (wi_input_refs producer))
                     (wi_contract_digest producer)) (\<lambda>c.
             bindE (assert_publishable (map ref_id (wi_input_refs producer))
                      (ir_accepted_output_ids (cd_report c))) (\<lambda>_. Inr c)))"

definition run_quality_gate ::
  "durable_env \<Rightarrow> plan \<Rightarrow> work_item \<Rightarrow> repo \<Rightarrow> (node_result \<times> repo) result" where
  "run_quality_gate env p w rp =
     (if \<not> du_artifacts env
      then bindE (node_failed (wi_id w) (wi_agent_id w) ''no artifact repository'') (\<lambda>n. Inr (n, rp))
      else (case gate_candidate env p w rp of
          Inl e \<Rightarrow> gate_refusal w e rp
        | Inr c \<Rightarrow> (case promote_candidate (du_sha env) (du_now env) (cd_id c) (or_empty (wi_publish_target w)) rp of
            Inl e \<Rightarrow> gate_refusal w e rp
          | Inr (_, rp1) \<Rightarrow> (case verify_published_candidate (du_sha env) rp1 c of
              Inl e \<Rightarrow> gate_refusal w e rp1
            | Inr _ \<Rightarrow> bindE (node_completed (wi_id w) (wi_agent_id w)
                (''published '' @ or_empty (wi_publish_target w) @ '': '' @ cd_id c)) (\<lambda>n. Inr (n, rp1))))))"

section \<open>Lemmas\<close>

lemma affected_closure_subset: "set affected \<subseteq> set (affected_closure items trace affected)"
proof (induction items trace affected rule: affected_closure.induct)
  case (1 items trace affected)
  let ?new = "filter (\<lambda>i. i \<notin> set affected) (map wi_id (filter (affected_by trace affected) items))"
  show ?case
  proof (cases "?new = []")
    case True
    then show ?thesis by (subst affected_closure.simps) (simp add: Let_def)
  next
    case False
    then have "set (affected @ ?new) \<subseteq> set (affected_closure items trace (affected @ ?new))"
      using "1.IH" by blast
    then show ?thesis using False by (subst affected_closure.simps) (simp add: Let_def)
  qed
qed

lemma affected_closure_ids:
  "set affected \<subseteq> wi_id ` set items \<Longrightarrow> set (affected_closure items trace affected) \<subseteq> wi_id ` set items"
proof (induction items trace affected rule: affected_closure.induct)
  case (1 items trace affected)
  let ?new = "filter (\<lambda>i. i \<notin> set affected) (map wi_id (filter (affected_by trace affected) items))"
  show ?case
  proof (cases "?new = []")
    case True
    then show ?thesis using "1.prems" by (subst affected_closure.simps) (simp add: Let_def)
  next
    case False
    have "set (affected @ ?new) \<subseteq> wi_id ` set items" using "1.prems" by auto
    then have "set (affected_closure items trace (affected @ ?new)) \<subseteq> wi_id ` set items"
      using "1.IH" [OF refl False] by blast
    then show ?thesis using False by (subst affected_closure.simps) (simp add: Let_def)
  qed
qed

lemma affected_closure_closed:
  "w \<in> set items \<Longrightarrow> affected_by trace (affected_closure items trace affected) w \<Longrightarrow>
     wi_id w \<in> set (affected_closure items trace affected)"
proof (induction items trace affected rule: affected_closure.induct)
  case (1 items trace affected)
  let ?new = "filter (\<lambda>i. i \<notin> set affected) (map wi_id (filter (affected_by trace affected) items))"
  show ?case
  proof (cases "?new = []")
    case True
    then have eq: "affected_closure items trace affected = affected"
      by (subst affected_closure.simps) (simp add: Let_def)
    show ?thesis using "1.prems" True unfolding eq by (auto simp: filter_empty_conv)
  next
    case False
    then have eq: "affected_closure items trace affected = affected_closure items trace (affected @ ?new)"
      by (subst affected_closure.simps) (simp add: Let_def)
    show ?thesis using "1.IH" [OF refl False "1.prems"(1)] "1.prems"(2) unfolding eq [symmetric] by blast
  qed
qed

lemma affected_dependents:
  assumes "x \<in> set (affected_closure items trace bad)" "(x, y) \<in> dep_edges items"
  shows "y \<in> set (affected_closure items trace bad)"
proof -
  obtain w where "w \<in> set items" "wi_id w = y" "x \<in> set (wi_dependency_ids w)"
    using assms(2) by (auto simp: dep_edges_def)
  moreover from this have "affected_by trace (affected_closure items trace bad) w"
    using assms(1) by (auto simp: affected_by_def list_ex_iff)
  ultimately show ?thesis using affected_closure_closed by blast
qed

lemma find_invalid_spec:
  assumes "find_invalid env s ws rp = Inr (bad, rp')"
  shows "set bad \<subseteq> wi_id ` set ws"
    and "w \<in> set ws \<Longrightarrow> is_completed (rs_results s) (wi_id w) \<Longrightarrow> architecture_delivery w \<Longrightarrow>
      wi_id w \<notin> set bad \<Longrightarrow> \<exists>n rp1 rp2. recover_durable_work_item env s w rp1 = Inr (Some n, rp2)"
  using assms
proof (induction ws arbitrary: rp bad)
  case (Cons v ws)
  {
    case 1
    then show ?case using Cons.IH(1) by (fastforce split: if_splits)
  next
    case 2
    show ?case
    proof (cases "is_completed (rs_results s) (wi_id v) \<and> architecture_delivery v")
      case True
      then obtain n rp1 bad' where v: "recover_durable_work_item env s v rp = Inr (n, rp1)"
        and rest: "find_invalid env s ws rp1 = Inr (bad', rp')"
        and bad: "bad = (if n = None then wi_id v # bad' else bad')"
        using 2(5) by auto
      show ?thesis
      proof (cases "w = v")
        case True
        then have "n \<noteq> None" using bad 2(4) by (cases n) simp_all
        then show ?thesis using v True by blast
      next
        case False
        then have "w \<in> set ws" "wi_id w \<notin> set bad'" using 2(1,4) bad by (auto split: if_splits)
        then show ?thesis using Cons.IH(2) [OF _ 2(2,3) _ rest] by blast
      qed
    next
      case False
      then have "w \<in> set ws" "find_invalid env s ws rp = Inr (bad, rp')" using 2 by auto
      then show ?thesis using Cons.IH(2) 2(2-4) by blast
    qed
  }
qed simp_all

section \<open>Properties\<close>

text \<open>A restored run goes on only on evidence: when the check of a restored run passes, every
  architecture delivery it counts as completed was recovered from durable output; when it does
  not, the remaining state is well formed, and neither an item without evidence nor an item
  that depends on one (directly, through other items, or by a staged input) keeps its result.\<close>

theorem restored_run_has_evidence:
  assumes "validate_restored_architecture env s rp = Inr (verdict, s', rp')" and "run_ok s"
    and "distinct (map wi_id (pl_work_items (rs_plan s)))"
  shows "run_ok s' \<and>
    (verdict = None \<longrightarrow> s' = s \<and> (\<forall>w. w \<in> set (pl_work_items (rs_plan s)) \<longrightarrow> is_completed (rs_results s) (wi_id w)
       \<longrightarrow> architecture_delivery w \<longrightarrow> (\<exists>n rp1 rp2. recover_durable_work_item env s w rp1 = Inr (Some n, rp2))))
    \<and> (\<forall>n. verdict = Some n \<longrightarrow> nr_status n = NEEDS_REPLAN
       \<and> (\<exists>bad. bad \<noteq> [] \<and> (\<forall>w. w \<in> set (pl_work_items (rs_plan s)) \<longrightarrow>
            (wi_id w \<in> set bad \<or> affected_by (tc_trace_id (pl_trace (rs_plan s))) bad w)
              \<longrightarrow> wi_id w \<notin> set (dict_keys (rs_results s')))))"
proof -
  let ?items = "pl_work_items (rs_plan s)" and ?trace = "tc_trace_id (pl_trace (rs_plan s))"
  obtain bad rp1 where bad: "find_invalid env s ?items rp = Inr (bad, rp1)"
    using assms(1) by (auto simp: validate_restored_architecture_def)
  note spec = find_invalid_spec [OF bad]
  show ?thesis
  proof (cases "List.find (\<lambda>w. wi_id w \<in> set bad) ?items")
    case None
    have "i \<notin> set bad" for i
    proof
      assume i: "i \<in> set bad"
      then obtain v where "v \<in> set ?items" "i = wi_id v" using spec(1) by blast
      then show False using None i unfolding find_None_all by blast
    qed
    then have none: "i \<notin> set bad" for i .
    have "verdict = None" "s' = s"
      using assms(1) bad None by (auto simp: validate_restored_architecture_def)
    then show ?thesis using spec(2) none assms(2) by auto
  next
    case (Some w)
    let ?aff = "affected_closure ?items ?trace bad"
    have st: "s' = drop_items ?aff s" "\<exists>n. verdict = Some n \<and> nr_status n = NEEDS_REPLAN"
      using assms(1) bad Some
      by (auto simp: validate_restored_architecture_def Let_def node_needs_replan_def)
    have ok: "run_ok s'" unfolding st(1) by (rule drop_items_ok [OF assms(2) affected_dependents])
    have gone: "i \<notin> set (dict_keys (rs_results s'))" if "i \<in> set ?aff" for i
      using that by (auto simp: st(1) drop_items_def)
    have "?aff \<noteq> []"
      using find_Some_in [OF Some] affected_closure_subset [of bad ?items ?trace] by auto
    moreover have "wi_id v \<in> set ?aff" if "v \<in> set ?items" "affected_by ?trace ?aff v" for v
      by (rule affected_closure_closed [OF that])
    ultimately show ?thesis using ok st(2) gone by (intro conjI allI impI) (auto intro!: exI [of _ ?aff])
  qed
qed

section \<open>The gate\<close>

lemma current_matches_subset: "current_matches sha rp cs = Inr ms \<Longrightarrow> set ms \<subseteq> set cs"
proof (induction sha rp cs arbitrary: ms rule: current_matches.induct)
  case (2 sha rp c cs)
  then show ?case by (fastforce split: sum.splits err.splits)
qed simp

lemma single_Inr: "(case ms of [c] \<Rightarrow> Inr c | _ \<Rightarrow> Inl e) = Inr d \<Longrightarrow> ms = [d]"
  by (cases ms; cases "tl ms") auto

lemma candidate_for_work_item_result:
  assumes "candidate_for_work_item sha rp names trace key item e_sources e_contract = Inr c"
  shows "\<exists>cid. load_candidate sha rp key cid = Inr c" "known_artifact key = Inr ()"
    "cd_trace_id c = trace" "cd_work_item_id c = item"
    "e_sources = Some rs \<Longrightarrow> cd_source_refs c = rs"
    "e_contract \<noteq> None \<Longrightarrow> cd_contract_digest c = e_contract"
proof -
  define P where "P = (\<lambda>c :: candidate. cd_trace_id c = trace \<and> cd_work_item_id c = item
            \<and> (e_sources = None \<or> Some (cd_source_refs c) = e_sources)
            \<and> (e_contract = None \<or> cd_contract_digest c = e_contract))"
  obtain cs where known: "known_artifact key = Inr ()"
    and cs: "mapE (load_candidate sha rp key) (filter (\<lambda>cid. rp_candidate rp (key, cid) \<noteq> None) names) = Inr cs"
    and unique: "bindE (current_matches sha rp (filter P cs))
       (\<lambda>ms. case ms of [c] \<Rightarrow> Inr c | _ \<Rightarrow> Inl (RuntimeError ''candidate not unique'')) = Inr c"
    using assms by (auto simp: candidate_for_work_item_def Let_def P_def simp del: not_None_eq)
  from unique have ms: "current_matches sha rp (filter P cs) = Inr [c]"
    by (auto dest: single_Inr)
  have "c \<in> set cs" "P c" using current_matches_subset [OF ms] by auto
  then show "\<exists>cid. load_candidate sha rp key cid = Inr c" "known_artifact key = Inr ()"
    "cd_trace_id c = trace" "cd_work_item_id c = item"
    "e_sources = Some rs \<Longrightarrow> cd_source_refs c = rs"
    "e_contract \<noteq> None \<Longrightarrow> cd_contract_digest c = e_contract"
    using mapE_set [OF cs] known by (auto simp: P_def)
qed

lemma promote_then_verify:
  assumes "promote_candidate sha now cid key rp = Inr (r, rp')" "load_candidate sha rp key cid = Inr c"
    and "repo_inv sha rp"
  shows "verify_published_candidate sha rp' c = Inr r"
proof -
  have ok: "candidates_ok sha rp" using assms(3) by (simp add: repo_inv_def)
  note cand = load_candidate_result [OF assms(2) ok]
  have key: "cd_artifact_key c = key" using ok cand(1) by (auto simp: candidates_ok_def)
  have clean: "ir_issues (cd_report c) = []" "verify_candidate_sources sha rp c = Inr ()"
    using assms(1,2) by (cases rule: promote_candidate_cases; simp)+
  note frame = promote_candidate_frame [OF assms(1)]
  have "verify_candidate_sources sha rp' c = Inr ()"
    using clean(2) cand(4) [OF clean(1)] frame(1,2) verify_candidate_sources_frame [of rp' rp c sha] by simp
  moreover obtain cur where "rp_current rp' key = Some cur" "cp_candidate_id cur = cd_id c"
    "cp_digest cur = cd_digest c" "ref_published key (Some (cp_revision_id cur)) = Inr r"
    using promote_candidate_points [OF assms(1,2)] by blast
  moreover obtain body where "load_ref sha rp' r = Inr body" "sha body = cd_digest c"
    "store_load key (rp_store rp') = Inr (cd_content c)"
    using promote_publishes_body [OF assms(1,3)] assms(2) by auto
  ultimately show ?thesis
    using clean(1) cand(3) key by (simp add: verify_published_candidate_def report_status_def)
qed

lemma gate_candidate_result:
  assumes "gate_candidate env p w rp = Inr c"
  shows "\<exists>producer. plan_item p (or_empty (wi_candidate_from w)) = Some producer
    \<and> wi_execution_mode producer = INTEGRATION \<and> cd_work_item_id c = wi_id producer
    \<and> cd_source_refs c = wi_input_refs producer \<and> wi_input_refs producer \<noteq> []
    \<and> set (map ref_id (wi_input_refs producer)) \<subseteq> set (ir_accepted_output_ids (cd_report c))
    \<and> (\<exists>cid. load_candidate (du_sha env) rp (or_empty (wi_publish_target w)) cid = Inr c)"
proof -
  obtain producer where p: "plan_item p (or_empty (wi_candidate_from w)) = Some producer"
    "wi_execution_mode producer = INTEGRATION"
    and c: "candidate_for_work_item (du_sha env) rp (du_candidates env) (du_trace env)
        (or_empty (wi_publish_target w)) (wi_id producer) (Some (wi_input_refs producer))
        (wi_contract_digest producer) = Inr c"
    and "assert_publishable (map ref_id (wi_input_refs producer)) (ir_accepted_output_ids (cd_report c)) = Inr ()"
    using assms by (auto simp: gate_candidate_def split: option.splits if_splits)
  then have "set (map ref_id (wi_input_refs producer)) \<subseteq> set (ir_accepted_output_ids (cd_report c))"
    "wi_input_refs producer \<noteq> []"
    by (auto simp: assert_publishable_def Let_def filter_empty_conv split: if_splits)
  then show ?thesis using p candidate_for_work_item_result [OF c] by auto
qed

lemma gate_refusal_result: "gate_refusal w e rp = Inr (n, rp') \<Longrightarrow> nr_status n = NEEDS_REPLAN \<and> rp' = rp"
  by (auto simp: gate_refusal_def node_needs_replan_def split: if_splits)

text \<open>How the gate can answer.\<close>

lemma run_quality_gate_cases:
  assumes "run_quality_gate env p w rp = Inr (n, rp')" and "du_artifacts env" and "repo_inv (du_sha env) rp"
  obtains (refused) "nr_status n = NEEDS_REPLAN" "rp' = rp"
  | (published) c r where "nr_status n = COMPLETED" "gate_candidate env p w rp = Inr c"
      "promote_candidate (du_sha env) (du_now env) (cd_id c) (or_empty (wi_publish_target w)) rp = Inr (r, rp')"
      "load_candidate (du_sha env) rp (or_empty (wi_publish_target w)) (cd_id c) = Inr c"
proof (cases "gate_candidate env p w rp")
  case (Inl e)
  then show thesis using assms(1,2) refused gate_refusal_result by (auto simp: run_quality_gate_def)
next
  case (Inr c)
  note g = this
  let ?key = "or_empty (wi_publish_target w)"
  obtain cid where "load_candidate (du_sha env) rp ?key cid = Inr c"
    using gate_candidate_result [OF g] by blast
  then have load: "load_candidate (du_sha env) rp ?key (cd_id c) = Inr c"
    using load_candidate_result(2) assms(3) by (metis repo_inv_def)
  show thesis
  proof (cases "promote_candidate (du_sha env) (du_now env) (cd_id c) ?key rp")
    case (Inl e)
    then show thesis using assms(1,2) g refused gate_refusal_result by (auto simp: run_quality_gate_def)
  next
    case (Inr x)
    obtain r rp1 where x: "x = (r, rp1)" by (cases x)
    have "verify_published_candidate (du_sha env) rp1 c = Inr r"
      using promote_then_verify [OF Inr [unfolded x] load assms(3)] .
    then have "nr_status n = COMPLETED" "rp' = rp1"
      using assms(1,2) g Inr x by (auto simp: run_quality_gate_def node_completed_def)
    then show thesis using published g Inr x load by simp
  qed
qed

text \<open>C12. The quality gate publishes only a complete, verified candidate: when it completes, the plan
  names an integration item as producer, the candidate was built from exactly that item's
  inputs, all of them accepted and unchanged since, and the published artifact is the
  candidate's content.\<close>

theorem gate_publishes_verified:
  assumes "run_quality_gate env p w rp = Inr (n, rp')" and "nr_status n = COMPLETED"
    and "du_artifacts env" and "repo_inv (du_sha env) rp"
  shows "\<exists>producer c. plan_item p (or_empty (wi_candidate_from w)) = Some producer
    \<and> wi_execution_mode producer = INTEGRATION \<and> cd_source_refs c = wi_input_refs producer
    \<and> wi_input_refs producer \<noteq> [] \<and> ir_issues (cd_report c) = []
    \<and> set (map ref_id (wi_input_refs producer)) \<subseteq> set (ir_accepted_output_ids (cd_report c))
    \<and> verify_candidate_sources (du_sha env) rp c = Inr ()
    \<and> store_load (or_empty (wi_publish_target w)) (rp_store rp') = Inr (cd_content c)"
  using assms(1,3,4)
proof (cases rule: run_quality_gate_cases)
  case refused
  then show ?thesis using assms(2) by simp
next
  case (published c r)
  have "ir_issues (cd_report c) = []" "verify_candidate_sources (du_sha env) rp c = Inr ()"
    using published(3,4) by (cases rule: promote_candidate_cases; simp)+
  moreover have "store_load (or_empty (wi_publish_target w)) (rp_store rp') = Inr (cd_content c)"
    using promote_publishes_body [OF published(3) assms(4)] published(4) by auto
  ultimately show ?thesis using gate_candidate_result [OF published(2)] by blast
qed

text \<open>A gate that does not complete publishes nothing: the node asks for replanning and the
  repository is exactly what it was; in particular the verification after a promotion never
  fails, so no refusal leaves a published revision behind.\<close>

theorem refused_gate_publishes_nothing:
  assumes "run_quality_gate env p w rp = Inr (n, rp')" and "du_artifacts env" and "repo_inv (du_sha env) rp"
    and "nr_status n \<noteq> COMPLETED"
  shows "nr_status n = NEEDS_REPLAN \<and> rp' = rp"
  using assms(1-3) by (cases rule: run_quality_gate_cases) (use assms(4) in simp_all)

section \<open>Witnesses\<close>

text \<open>A gate over the integration candidate of a repository holding the module's staged design.\<close>

definition gate_env :: durable_env where
  "gate_env = \<lparr>du_traces = True, du_artifacts = True, du_trace = ''tr-1'', du_sha = (\<lambda>s. s), du_now = ''t5'',
     du_validate = (\<lambda>_ _. Inr ()), du_candidates = [''cand-07''], du_change = (\<lambda>_. None)\<rparr>"

definition gate_staged :: "(artifact_ref \<times> repo) result" where
  "gate_staged = write_staged (\<lambda>s. s) ''t0'' ''tr-1'' ''wi-2'' ''architecture'' ''module-users'' ''design''
     None None None empty_repo"

definition gate_built :: "(candidate \<times> repo) result" where
  "gate_built = create_candidate (\<lambda>s. s) ''t1'' ''07'' ''tr-1'' ''wi-3'' ''architecture'' ''bundle''
     [demo_users_ref] (wi_contract_digest demo_merge) None (snd (projr gate_staged))"

definition gate_repo :: repo where
  "gate_repo = snd (projr gate_built)"

definition gate_item :: work_item where
  "gate_item = (blank_work_item ''wi-4'' ''quality_gate'' ''publish'' ''architecture'')
     \<lparr>wi_execution_mode := QUALITY_GATE, wi_publish_target := Some ''architecture'',
      wi_candidate_from := Some ''wi-3''\<rparr>"

definition gate_answer :: "node_result \<times> repo" where
  "gate_answer = projr (run_quality_gate gate_env demo_plan gate_item gate_repo)"

lemma gate_staged_eq:
  "write_staged (\<lambda>s. s) ''t0'' ''tr-1'' ''wi-2'' ''architecture'' ''module-users'' ''design'' None None None empty_repo
     = Inr (fst (projr gate_staged), snd (projr gate_staged))"
proof -
  have "\<not> isl gate_staged" by code_simp
  from result_pair [OF this] show ?thesis by (simp only: gate_staged_def [symmetric])
qed

lemma gate_built_eq:
  "create_candidate (\<lambda>s. s) ''t1'' ''07'' ''tr-1'' ''wi-3'' ''architecture'' ''bundle''
     [demo_users_ref] (wi_contract_digest demo_merge) None (snd (projr gate_staged)) = Inr (fst (projr gate_built), gate_repo)"
proof -
  have "\<not> isl gate_built" by code_simp
  from result_pair [OF this] show ?thesis by (simp only: gate_built_def [symmetric] gate_repo_def)
qed

lemma gate_repo_inv: "repo_inv (du_sha gate_env) gate_repo"
proof -
  have "repo_inv (\<lambda>s. s) (snd (projr gate_staged))"
    by (rule repo_step_inv [OF stage_step [OF gate_staged_eq] empty_repo_inv])
  from repo_step_inv [OF candidate_step [OF gate_built_eq] this] show ?thesis by (simp add: gate_env_def)
qed

lemma gate_answer_eq: "run_quality_gate gate_env demo_plan gate_item gate_repo = Inr (fst gate_answer, snd gate_answer)"
  and gate_answer_completed: "nr_status (fst gate_answer) = COMPLETED"
proof -
  have "\<not> isl (run_quality_gate gate_env demo_plan gate_item gate_repo)" by code_simp
  from result_pair [OF this]
  show "run_quality_gate gate_env demo_plan gate_item gate_repo = Inr (fst gate_answer, snd gate_answer)"
    by (simp only: gate_answer_def)
  show "nr_status (fst gate_answer) = COMPLETED" by code_simp
qed

lemma gate_publishes_verified_witness:
  "\<exists>producer (c :: candidate). plan_item demo_plan ''wi-3'' = Some producer \<and> cd_source_refs c = wi_input_refs producer
    \<and> store_load ''architecture'' (rp_store (snd gate_answer)) = Inr (cd_content c)"
proof -
  have "du_artifacts gate_env" "or_empty (wi_candidate_from gate_item) = ''wi-3''"
    "or_empty (wi_publish_target gate_item) = ''architecture''" by code_simp+
  with gate_publishes_verified [OF gate_answer_eq gate_answer_completed _ gate_repo_inv]
  show ?thesis by (simp only:) blast
qed

definition lost_item :: work_item where
  "lost_item = gate_item\<lparr>wi_candidate_from := Some ''wi-9''\<rparr>"

definition lost_answer :: node_result where
  "lost_answer = fst (projr (run_quality_gate gate_env demo_plan lost_item gate_repo))"

lemma refused_gate_publishes_nothing_witness:
  "\<exists>rp'. run_quality_gate gate_env demo_plan lost_item gate_repo = Inr (lost_answer, rp') \<and> rp' = gate_repo"
proof -
  have "\<not> isl (run_quality_gate gate_env demo_plan lost_item gate_repo)" by code_simp
  from result_pair [OF this] obtain rp' where
    r: "run_quality_gate gate_env demo_plan lost_item gate_repo = Inr (lost_answer, rp')"
    by (simp only: lost_answer_def)
  have "du_artifacts gate_env" "nr_status lost_answer \<noteq> COMPLETED" by code_simp+
  with refused_gate_publishes_nothing [OF r _ gate_repo_inv] r show ?thesis by blast
qed

definition restored_check :: "node_result option \<times> run_state \<times> repo" where
  "restored_check = projr (validate_restored_architecture gate_env demo_run gate_repo)"

lemma restored_run_has_evidence_witness:
  "run_ok (fst (snd restored_check)) \<and> (\<exists>n. fst restored_check = Some n \<and> nr_status n = NEEDS_REPLAN)"
proof -
  have "\<not> isl (validate_restored_architecture gate_env demo_run gate_repo)" by code_simp
  then have eq: "validate_restored_architecture gate_env demo_run gate_repo
      = Inr (fst restored_check, fst (snd restored_check), snd (snd restored_check))"
    by (simp add: restored_check_def)
  have "fst restored_check \<noteq> None" "distinct (map wi_id (pl_work_items (rs_plan demo_run)))" by code_simp+
  with restored_run_has_evidence [OF eq demo_run_ok(1)] show ?thesis by auto
qed

end
