(* ===== verification/Graph_Run.thy ===== *)
theory Graph_Run
  imports Retry_Loop Durable_Output Delivery
begin

text \<open>
  The graph runner of \<^verbatim>\<open>app/orchestration/runner.py\<close>: the choice of a batch, the execution of
  its items, the recording of their results, the capability requests, the release gate at the
  end of a run, and the run loop. The loop is that of a runner without a trace store: there
  the expansions of the plan and the wave integration, which need the project directory, do
  nothing. The items of a batch are executed in schedule order; in the code they run on
  threads whose recovery decisions one lock serialises.
\<close>

section \<open>Outcomes\<close>

datatype graph_status = G_COMPLETED | G_WAITING | G_BLOCKED | G_FAILED | G_CANCELLED | G_NEEDS_REPLAN

text \<open>A \<open>GraphRunResult\<close> without its state, which is the runner's (shared) run state.\<close>

record outcome =
  oc_status :: graph_status
  oc_node :: "node_result option"
  oc_sources :: "(string \<times> string) list"
  oc_signal :: "failure_signal option"
  oc_error :: "string option"

definition outcome_of :: "graph_status \<Rightarrow> node_result option \<Rightarrow> string option \<Rightarrow> outcome" where
  "outcome_of st n e = \<lparr>oc_status = st, oc_node = n, oc_sources = [], oc_signal = None, oc_error = e\<rparr>"

text \<open>The delivery state a finished run asks for.\<close>

fun delivery_target :: "graph_status \<Rightarrow> delivery_state" where
  "delivery_target G_COMPLETED = D_DELIVERY_READY"
| "delivery_target G_BLOCKED = D_BLOCKED"
| "delivery_target G_NEEDS_REPLAN = D_NEEDS_REWORK"
| "delivery_target G_FAILED = D_FAILED"
| "delivery_target G_WAITING = D_WAITING_FOR_APPROVAL"
| "delivery_target G_CANCELLED = D_BLOCKED"

definition finish_delivery :: "bool \<Rightarrow> outcome \<Rightarrow> string \<Rightarrow> delivery_store \<Rightarrow> delivery_store result" where
  "finish_delivery traces oc reason st = set_delivery_state traces (delivery_target (oc_status oc)) reason st"

section \<open>The runner\<close>

text \<open>
  What a capability request is decided on: the non-ASCII spellings of the code's tests as two
  predicates, the staged output of the item, the environment's preparation, the declared
  references and the tool catalogue.
\<close>

record capability_facts =
  cf_sentinel :: "string \<Rightarrow> bool"
  cf_confirms :: "string \<Rightarrow> bool"
  cf_staged :: "string \<Rightarrow> bool"
  cf_env_ok :: bool
  cf_env_status :: string
  cf_env_message :: string
  cf_env_report :: string
  cf_references :: bool
  cf_sources :: "string \<Rightarrow> string \<Rightarrow> (string \<times> string) list"

record graph_env =
  ge_env :: runner_env
  ge_max_workers :: int
  ge_agents :: "(string, agent_definition) dict"
  ge_facts :: capability_facts
  ge_verdict :: "string \<Rightarrow> string option"

section \<open>Choosing a batch\<close>

definition agent_limit :: "(string, agent_definition) dict \<Rightarrow> string \<Rightarrow> int" where
  "agent_limit agents a = (case dict_get agents a of None \<Rightarrow> 1 | Some d \<Rightarrow> ad_max_parallel_instances d)"

definition running :: "(string, int) dict \<Rightarrow> string \<Rightarrow> int" where
  "running counts a = (case dict_get counts a of None \<Rightarrow> 0 | Some n \<Rightarrow> n)"

fun pick :: "(string, agent_definition) dict \<Rightarrow> int \<Rightarrow> (string, int) dict \<Rightarrow> int \<Rightarrow> work_item list \<Rightarrow> work_item list" where
  "pick agents workers counts n [] = []"
| "pick agents workers counts n (w # ws) =
     (if running counts (wi_agent_id w) \<ge> agent_limit agents (wi_agent_id w)
      then pick agents workers counts n ws
      else if n + 1 = workers then [w]
      else w # pick agents workers (dict_put (wi_agent_id w) (running counts (wi_agent_id w) + 1) counts) (n + 1) ws)"

definition select_schedulable_items :: "graph_env \<Rightarrow> work_item list \<Rightarrow> work_item list" where
  "select_schedulable_items g ready =
     (if ready = [] then []
      else pick (ge_agents g) (ge_max_workers g) [] 0
        (filter (\<lambda>w. wi_wave w = min_list (map wi_wave ready)) ready))"

section \<open>Capability requests\<close>

definition handle_capability_request ::
  "graph_env \<Rightarrow> node_result \<Rightarrow> runner_world \<Rightarrow> (outcome \<times> runner_world) result" where
  "handle_capability_request g r w = (case nr_capability_request r of
      None \<Rightarrow> bindE (node_failed (nr_work_item_id r) (nr_agent_id r) ''no capability request'') (\<lambda>n.
        Inr (outcome_of G_FAILED (Some n) (Some ''no capability request''), w))
    | Some q \<Rightarrow>
        let f = ge_facts g; env = ge_env g;
            capability = py_lower (py_strip (cq_capability q));
            reason = py_strip (cq_reason q);
            contract_saved = contains ''implementation contract'' (py_lower reason) \<and> cf_confirms f reason;
            staged = ev_traces env \<and> nr_agent_id r = ''task_agent'' \<and> cf_staged f (nr_work_item_id r)
        in if (cf_sentinel f capability \<or> capability \<in> {''none'', ''null'', ''n/a''})
              \<and> (contract_saved \<or> staged) \<and> ev_artifacts env
              \<and> (store_exists ''architecture_contract'' (rw_store w) = Inr True \<or> staged)
           then bindE (node_completed (nr_work_item_id r) (nr_agent_id r) reason) (\<lambda>n.
                  Inr (outcome_of G_COMPLETED (Some n) None, w))
           else if nr_agent_id r = ''bootstrap_agent''
              \<and> (capability \<in> {''save_environment'', ''environment_preparation''}
                 \<or> contains ''save_environment'' capability) \<and> ev_traces env
           then (if cf_env_status f = ''dependency_approval_required'' \<or> \<not> cf_env_ok f
                 then Inr (outcome_of G_BLOCKED (Some r) (Some (cf_env_message f)), w)
                 else bindE (store_save ''environment'' (cf_env_report f) (rw_store w)) (\<lambda>st.
                      bindE (node_completed (nr_work_item_id r) (nr_agent_id r) ''environment prepared'') (\<lambda>n.
                      Inr (outcome_of G_COMPLETED (Some n) None, w\<lparr>rw_store := st\<rparr>))))
           else (case dict_get (ge_agents g) (nr_agent_id r) of
               None \<Rightarrow> Inr (outcome_of G_FAILED (Some r) (Some ''agent not registered''), w)
             | Some d \<Rightarrow>
                 if capability = ''external_documentation'' \<and> \<not> (ev_traces env \<and> cf_references f)
                 then Inr (outcome_of G_BLOCKED (Some r) (Some ''no external references declared''), w)
                 else (case cf_sources f (ad_domain d) (cq_capability q) of
                     [] \<Rightarrow> Inr (outcome_of G_BLOCKED (Some r) (Some (''no source for '' @ cq_capability q)), w)
                   | sources \<Rightarrow> Inr ((outcome_of G_WAITING (Some r) None)\<lparr>oc_sources := sources\<rparr>, w))))"

section \<open>Executing and recording a batch\<close>

type_synonym runner_exec = "run_state \<Rightarrow> work_item \<Rightarrow> item_exec"

text \<open>\<open>fuel\<close> bounds the executions of one item; \<open>None\<close> is the fuel running out.\<close>

fun run_ready_items ::
  "runner_env \<Rightarrow> runner_exec \<Rightarrow> nat \<Rightarrow> run_state \<Rightarrow> work_item list \<Rightarrow> runner_world
   \<Rightarrow> ((string, node_result) dict \<times> runner_world) result option" where
  "run_ready_items env exec fuel s [] w = Some (Inr ([], w))"
| "run_ready_items env exec fuel s (i # is) w =
     (case run_item_with_retries env (exec s i) fuel i w of
        None \<Rightarrow> None
      | Some (Inl e) \<Rightarrow> Some (Inl e)
      | Some (Inr (r, w1)) \<Rightarrow> (case run_ready_items env exec fuel s is w1 of
            None \<Rightarrow> None
          | Some (Inl e) \<Rightarrow> Some (Inl e)
          | Some (Inr (rs, w2)) \<Rightarrow> Some (Inr ((wi_id i, r) # rs, w2))))"

text \<open>The outcome a recorded result asks for by itself.\<close>

definition result_outcome :: "node_result \<Rightarrow> outcome option" where
  "result_outcome r = (case nr_status r of
      FAILED \<Rightarrow> Some (outcome_of G_FAILED (Some r) (nr_error r))
    | NEEDS_REPLAN \<Rightarrow> Some \<lparr>
        oc_status = (case nr_failure_signal r of
            None \<Rightarrow> G_NEEDS_REPLAN
          | Some s \<Rightarrow> if fs_kind s = SANDBOX_SETUP \<or> fs_kind s = RUNTIME_PREFLIGHT then G_BLOCKED else G_NEEDS_REPLAN),
        oc_node = Some r, oc_sources = [], oc_signal = nr_failure_signal r,
        oc_error = Some (case nr_failure_signal r of None \<Rightarrow> ''replan requested'' | Some s \<Rightarrow> fs_summary s)\<rparr>
    | _ \<Rightarrow> None)"

definition first_some :: "'a option \<Rightarrow> 'a option \<Rightarrow> 'a option" where
  "first_some a b = (case a of None \<Rightarrow> b | Some _ \<Rightarrow> a)"

text \<open>A request the control plane completes itself replaces the result; any other decides the run.\<close>

definition settle_request ::
  "graph_env \<Rightarrow> node_result \<Rightarrow> outcome option \<Rightarrow> runner_world
   \<Rightarrow> (node_result \<times> outcome option \<times> runner_world) result" where
  "settle_request g r oc w =
     (if nr_status r \<noteq> NEEDS_CAPABILITY then Inr (r, oc, w)
      else bindE (handle_capability_request g r w) (\<lambda>(o', w1).
        case oc_node o' of
          Some n \<Rightarrow> if oc_status o' = G_COMPLETED \<and> nr_status n = COMPLETED then Inr (n, oc, w1)
                    else Inr (r, first_some oc (Some o'), w1)
        | None \<Rightarrow> Inr (r, first_some oc (Some o'), w1)))"

text \<open>
  \<open>cancelled\<close> answers the cancel query before the item is recorded; the last component of the
  result says that the run was cancelled.
\<close>

fun record_batch ::
  "graph_env \<Rightarrow> (string \<Rightarrow> bool) \<Rightarrow> work_item list \<Rightarrow> (string, node_result) dict \<Rightarrow> run_state
   \<Rightarrow> outcome option \<Rightarrow> runner_world
   \<Rightarrow> (run_state \<times> (string, node_result) dict \<times> outcome option \<times> runner_world \<times> bool) result" where
  "record_batch g cancelled [] results s oc w = Inr (s, results, oc, w, False)"
| "record_batch g cancelled (i # is) results s oc w =
     (if ev_traces (ge_env g) \<and> cancelled (wi_id i) then Inr (s, results, oc, w, True)
      else (case dict_get results (wi_id i) of
          None \<Rightarrow> Inl (KeyError (wi_id i))
        | Some r0 \<Rightarrow> bindE (settle_request g r0 oc w) (\<lambda>(r, oc1, w1).
            bindE (record_result i r s) (\<lambda>s1.
            record_batch g cancelled is (dict_put (wi_id i) r results) s1
              (first_some oc1 (result_outcome r)) w1))))"

section \<open>The batch barrier\<close>

text \<open>\<open>_finish_monitor_batch\<close>: a failed batch is recorded in the ledger at batch scope.\<close>

definition barrier_record ::
  "runner_env \<Rightarrow> string \<Rightarrow> (string, node_result) dict \<Rightarrow> string \<Rightarrow> node_result \<Rightarrow> retry_record list \<Rightarrow> retry_record" where
  "barrier_record env batch results root r rs =
     (let sig = (case nr_failure_signal r of
          Some s \<Rightarrow> s
        | None \<Rightarrow> plain_signal AGENT_RUNTIME
            (if or_empty (nr_error r) \<noteq> [] then or_empty (nr_error r) else ''batch member failed''))
      in \<lparr>rr_scope = BATCH, rr_subject_id = batch, rr_attempt = next_attempt BATCH batch rs,
          rr_max_attempts = max_attempts_for (ev_limits env) (fs_kind sig),
          rr_action = (if list_ex (\<lambda>(_, r). nr_status r = NEEDS_REPLAN) results then REQUEST_REPLAN else FAIL),
          rr_failure = sig, rr_root = Some root, rr_interrupted = [], rr_created_at = ev_now_text env\<rparr>)"

definition finish_monitor_batch ::
  "runner_env \<Rightarrow> string \<Rightarrow> (string, node_result) dict \<Rightarrow> runner_world \<Rightarrow> runner_world result" where
  "finish_monitor_batch env batch results w =
     (if \<not> ev_traces env then Inr w
      else (case List.find (\<lambda>(_, r). nr_status r = FAILED \<or> nr_status r = NEEDS_REPLAN) results of
          None \<Rightarrow> Inr w
        | Some (root, r) \<Rightarrow> bindE (read_ledger env w) (\<lambda>rs.
            bindE (mk_retry_record (barrier_record env batch results root r rs)) (\<lambda>rec.
            bindE (ledger_append (ev_sha env) (ev_trace env) rec (rw_ledger w)) (\<lambda>f.
            Inr (w\<lparr>rw_ledger := f\<rparr>))))))"

section \<open>The release gate\<close>

record release_facts =
  rf_quality_failed :: bool
  rf_matrix :: matrix
  rf_exists :: "string \<Rightarrow> bool"

definition requires_delivery_matrix :: "plan \<Rightarrow> bool" where
  "requires_delivery_matrix p \<longleftrightarrow> pl_validation_scope p = ''full_delivery'' \<and> \<not> contains ''-repair-'' (pl_id p)
     \<and> list_ex (\<lambda>w. wi_agent_id w \<in> {''code_agent'', ''test_agent'', ''review_agent''}) (pl_work_items p)"

definition full_delivery_plan :: "plan \<Rightarrow> bool" where
  "full_delivery_plan p \<longleftrightarrow>
     (case pl_template_id p of None \<Rightarrow> False | Some t \<Rightarrow> t \<in> {''project_delivery'', ''project_delivery_dynamic'',
        ''project_delivery_layered'', ''implementation-contract''})
     \<or> (list_ex (\<lambda>w. wi_agent_id w = ''requirement_agent'') (pl_work_items p)
        \<and> list_ex (\<lambda>w. wi_agent_id w = ''review_agent'') (pl_work_items p))"

definition required_artifacts :: "string list" where
  "required_artifacts = [''requirement'', ''architecture'', ''environment'', ''implementation'', ''tests'', ''review'']"

definition review_verdict :: "graph_env \<Rightarrow> run_state \<Rightarrow> (node_result option \<times> string option) option" where
  "review_verdict g s = (case List.find (\<lambda>w. wi_agent_id w = ''review_agent'') (pl_work_items (rs_plan s)) of
      None \<Rightarrow> None
    | Some w \<Rightarrow> (case dict_get (rs_results s) (wi_id w) of
          None \<Rightarrow> Some (None, None)
        | Some r \<Rightarrow> Some (Some r, if or_empty (nr_content r) = [] then None else ge_verdict g (or_empty (nr_content r)))))"

definition delivery_checks :: "graph_env \<Rightarrow> release_facts \<Rightarrow> plan \<Rightarrow> outcome" where
  "delivery_checks g f p =
     (if \<not> ev_traces (ge_env g) then outcome_of G_COMPLETED None None
      else if pl_validation_scope p = ''full_delivery'' \<and> \<not> contains ''-repair-'' (pl_id p) \<and> rf_quality_failed f
      then outcome_of G_BLOCKED None (Some ''quality policy'')
      else if \<not> requires_delivery_matrix p then outcome_of G_COMPLETED None None
      else if incomplete (rf_matrix f) \<noteq> []
      then outcome_of G_BLOCKED None (Some (''open requirements: '' @ join '', '' (incomplete (rf_matrix f))))
      else if full_delivery_plan p \<and> ev_artifacts (ge_env g)
           \<and> filter (\<lambda>k. \<not> rf_exists f k) required_artifacts \<noteq> []
      then outcome_of G_BLOCKED None
        (Some (''missing artifacts: '' @ join '', '' (filter (\<lambda>k. \<not> rf_exists f k) required_artifacts)))
      else outcome_of G_COMPLETED None None)"

definition release_gate :: "graph_env \<Rightarrow> release_facts \<Rightarrow> run_state \<Rightarrow> outcome" where
  "release_gate g f s = (case review_verdict g s of
      Some (r, Some v) \<Rightarrow>
        if v = ''BLOCKED'' then outcome_of G_BLOCKED r (Some ''review'') else delivery_checks g f (rs_plan s)
    | _ \<Rightarrow> delivery_checks g f (rs_plan s))"

section \<open>The run loop\<close>

text \<open>
  Every unit of \<open>rounds\<close> is one iteration of the loop. The runner of this loop has no trace store,
  so there is no cancel query, no batch record and no release fact to read.
\<close>

definition no_facts :: release_facts where
  "no_facts = \<lparr>rf_quality_failed = False, rf_matrix = [], rf_exists = (\<lambda>_. False)\<rparr>"

fun graph_loop ::
  "graph_env \<Rightarrow> runner_exec \<Rightarrow> nat \<Rightarrow> nat \<Rightarrow> run_state \<Rightarrow> runner_world
   \<Rightarrow> (outcome \<times> run_state \<times> runner_world) result option" where
  "graph_loop g exec fuel 0 s w = None"
| "graph_loop g exec fuel (Suc rounds) s w =
     (if run_complete s then Some (Inr (release_gate g no_facts s, s, w))
      else if ready_items s = [] then Some (Inr (outcome_of G_FAILED None (Some ''nothing is ready''), s, w))
      else let batch = select_schedulable_items g (ready_items s) in
        (case run_ready_items (ge_env g) exec fuel s batch w of
           None \<Rightarrow> None
         | Some (Inl e) \<Rightarrow> Some (Inl e)
         | Some (Inr (results, w1)) \<Rightarrow>
             (case record_batch g (\<lambda>_. False) batch results s None w1 of
                Inl e \<Rightarrow> Some (Inl e)
              | Inr (s1, _, Some oc, w2, _) \<Rightarrow> Some (Inr (oc, s1, w2))
              | Inr (s1, _, None, w2, _) \<Rightarrow> graph_loop g exec fuel rounds s1 w2)))"

text \<open>Without a trace store no durable output can vouch for a restored architecture delivery.\<close>

definition no_evidence :: durable_env where
  "no_evidence = \<lparr>du_traces = False, du_artifacts = False, du_trace = [], du_sha = (\<lambda>x. x), du_now = [],
     du_validate = (\<lambda>_ _. Inr ()), du_candidates = [], du_change = (\<lambda>_. None)\<rparr>"

definition graph_run ::
  "graph_env \<Rightarrow> runner_exec \<Rightarrow> nat \<Rightarrow> nat \<Rightarrow> plan \<Rightarrow> run_state option \<Rightarrow> runner_world
   \<Rightarrow> (outcome \<times> run_state \<times> runner_world) result option" where
  "graph_run g exec fuel rounds p resumed w0 =
     (let w = w0\<lparr>rw_total := 0\<rparr> in case resumed of
        None \<Rightarrow> graph_loop g exec fuel rounds (new_run p) w
      | Some s \<Rightarrow>
          if pl_id (rs_plan s) \<noteq> pl_id p \<or> tc_trace_id (pl_trace (rs_plan s)) \<noteq> tc_trace_id (pl_trace p)
          then Some (Inl (ValueError ''resumed state''))
          else (case validate_restored_architecture no_evidence s empty_repo of
              Inl e \<Rightarrow> Some (Inl e)
            | Inr (None, s1, _) \<Rightarrow> graph_loop g exec fuel rounds s1 w
            | Inr (Some n, s1, _) \<Rightarrow> Some (Inr (\<lparr>oc_status = G_NEEDS_REPLAN, oc_node = Some n, oc_sources = [],
                oc_signal = nr_failure_signal n, oc_error = map_option fs_summary (nr_failure_signal n)\<rparr>, s1, w))))"

end
