(* ===== verification/Graph_Laws.thy ===== *)
theory Graph_Laws
  imports Graph_Run
begin

text \<open>
  The laws of the graph runner: the batch it chooses, what recording a batch does to the run
  state, and the run loop as an implementation of the step relation \<open>exec_step\<close>: every state
  it passes is one the relation reaches, it returns, and it cannot get stuck.
\<close>

section \<open>The batch\<close>

lemma pick_subseq: "subseq (pick agents workers counts n ws) ws"
  by (induction agents workers counts n ws rule: pick.induct) auto

lemma subseq_set: "subseq xs ys \<Longrightarrow> x \<in> set xs \<Longrightarrow> x \<in> set ys"
  by (induction rule: list_emb.induct) auto

lemma subseq_distinct: "subseq xs ys \<Longrightarrow> distinct ys \<Longrightarrow> distinct xs"
  by (induction rule: list_emb.induct) (auto dest: subseq_set)

lemma pick_length: "n < workers \<Longrightarrow> n + int (length (pick agents workers counts n ws)) \<le> workers"
  by (induction agents workers counts n ws rule: pick.induct) auto

lemma running_put: "running (dict_put a n counts) b = (if b = a then n else running counts b)"
  by (simp add: running_def dict.get_put)

lemma pick_agents:
  "running counts a + count_if (\<lambda>w. wi_agent_id w = a) (pick agents workers counts n ws)
     \<le> max (running counts a) (agent_limit agents a)"
proof (induction agents workers counts n ws rule: pick.induct)
  case (2 agents workers counts n w ws)
  show ?case
  proof (cases "running counts (wi_agent_id w) \<ge> agent_limit agents (wi_agent_id w)")
    case True
    then show ?thesis using "2.IH"(1) by simp
  next
    case False
    then show ?thesis using "2.IH"(2) by (cases "n + 1 = workers") (auto simp: running_put split: if_splits)
  qed
qed simp

lemma pick_nonempty:
  "w \<in> set ws \<Longrightarrow> running counts (wi_agent_id w) < agent_limit agents (wi_agent_id w) \<Longrightarrow>
     pick agents workers counts n ws \<noteq> []"
  by (induction agents workers counts n ws rule: pick.induct) auto

definition limits_positive :: "graph_env \<Rightarrow> bool" where
  "limits_positive g \<longleftrightarrow> ge_max_workers g \<ge> 1 \<and> (\<forall>(a, d) \<in> set (ge_agents g). ad_max_parallel_instances d \<ge> 1)"

lemma agent_limit_positive: "limits_positive g \<Longrightarrow> agent_limit (ge_agents g) a \<ge> 1"
  by (auto simp: limits_positive_def agent_limit_def split: option.splits dest!: map_of_SomeD)

lemma select_subseq: "subseq (select_schedulable_items g ready) ready"
  by (simp add: select_schedulable_items_def subseq_order.order_trans [OF pick_subseq subseq_filter_left])

lemma select_nonempty:
  assumes "limits_positive g" "ready \<noteq> []"
  shows "select_schedulable_items g ready \<noteq> []"
proof -
  have "min_list (map wi_wave ready) \<in> set (map wi_wave ready)"
    using assms(2) by (simp add: min_list_Min)
  then obtain w where "w \<in> set (filter (\<lambda>w. wi_wave w = min_list (map wi_wave ready)) ready)" by auto
  from pick_nonempty [OF this, of "[]" "ge_agents g"] show ?thesis
    using agent_limit_positive [OF assms(1), of "wi_agent_id w"] assms(2)
    by (simp add: select_schedulable_items_def running_def)
qed

text \<open>A batch is a selection of the ready items in plan order, all of the earliest wave, at most
  as many as there are workers and at most as many of each agent as its contract allows; while
  something is ready it is not empty.\<close>

theorem batch_respects_limits:
  assumes "limits_positive g"
  shows "subseq (select_schedulable_items g ready) ready
    \<and> (\<forall>w. w \<in> set (select_schedulable_items g ready) \<longrightarrow> (\<forall>v. v \<in> set ready \<longrightarrow> wi_wave w \<le> wi_wave v))
    \<and> int (length (select_schedulable_items g ready)) \<le> ge_max_workers g
    \<and> (\<forall>a. count_if (\<lambda>w. wi_agent_id w = a) (select_schedulable_items g ready) \<le> agent_limit (ge_agents g) a)
    \<and> (select_schedulable_items g ready = [] \<longleftrightarrow> ready = [])"
proof -
  let ?b = "select_schedulable_items g ready"
  let ?c = "filter (\<lambda>w. wi_wave w = min_list (map wi_wave ready)) ready"
  have "wi_wave w \<le> wi_wave v" if w: "w \<in> set ?b" and v: "v \<in> set ready" for w v
  proof -
    have ne: "ready \<noteq> []" using v by auto
    then have "w \<in> set ?c" using w subseq_set [OF pick_subseq, of w "ge_agents g" "ge_max_workers g" "[]" 0 ?c]
      by (simp add: select_schedulable_items_def)
    then have "wi_wave w = Min (set (map wi_wave ready))" using ne by (simp add: min_list_Min)
    then show ?thesis using v by simp
  qed
  moreover have "int (length ?b) \<le> ge_max_workers g"
    using pick_length [of 0 "ge_max_workers g"] assms by (auto simp: select_schedulable_items_def limits_positive_def)
  moreover have "count_if (\<lambda>w. wi_agent_id w = a) ?b \<le> agent_limit (ge_agents g) a" for a
    using pick_agents [of "[]" a "ge_agents g" "ge_max_workers g" 0 ?c] agent_limit_positive [OF assms, of a]
    by (auto simp: select_schedulable_items_def running_def)
  ultimately show ?thesis
    using select_subseq select_nonempty [OF assms] by (auto simp: select_schedulable_items_def)
qed

section \<open>Recording a batch\<close>

lemma run_from_trans: "run_from t u \<Longrightarrow> run_from s t \<Longrightarrow> run_from s u"
  by (induction rule: run_from.induct) (auto intro: run_on)

lemma ready_after_record:
  fixes v :: work_item
  assumes "v \<in> set (ready_items s)" "record_result w r s = Inr t" "wi_id v \<noteq> wi_id w"
  shows "v \<in> set (ready_items t)"
proof -
  note rc = record_result_cases [OF assms(2)]
  have "is_completed (rs_results t) d" if "is_completed (rs_results s) d" for d
  proof (cases "d = wi_id w")
    case True
    then show ?thesis using that rc(3) by (simp add: is_completed_def)
  next
    case False
    then show ?thesis using that by (simp add: rc(5) is_completed_put)
  qed
  then show ?thesis using assms(1,3) by (auto simp: ready_item_facts rc(4,5) dict_keys_put list_all_iff)
qed

lemma record_keys:
  assumes "record_result w r s = Inr t"
  shows "rs_results t = rs_results s @ [(wi_id w, r)]"
  using record_result_cases(3,5) [OF assms] by (simp add: set_dict_put_new map_of_None_key)

text \<open>Every answer to a capability request names a result, and a completed one a completed result.\<close>

definition answers :: "(outcome \<times> runner_world) result \<Rightarrow> bool" where
  "answers x \<longleftrightarrow> (case x of Inl _ \<Rightarrow> True | Inr (q, _) \<Rightarrow>
     oc_node q \<noteq> None \<and> (oc_status q = G_COMPLETED \<longrightarrow> (\<exists>n. oc_node q = Some n \<and> nr_status n = COMPLETED)))"

lemma answers_intros:
  "(c \<Longrightarrow> answers x) \<Longrightarrow> (\<not> c \<Longrightarrow> answers y) \<Longrightarrow> answers (if c then x else y)"
  "(\<And>a. m = Inr a \<Longrightarrow> answers (f a)) \<Longrightarrow> answers (bindE m f)"
  "st \<noteq> G_COMPLETED \<or> nr_status n = COMPLETED \<Longrightarrow> answers (Inr (outcome_of st (Some n) e, w))"
  "answers (Inr ((outcome_of G_WAITING (Some n) e)\<lparr>oc_sources := ss\<rparr>, w))"
  by (auto simp: answers_def outcome_of_def split: sum.splits)

lemma node_completed_status: "node_completed i a c = Inr n \<Longrightarrow> nr_status n = COMPLETED"
  by (auto simp: node_completed_def)

lemma handle_capability_answers: "answers (handle_capability_request g r w)"
proof (cases "nr_capability_request r")
  case None
  then show ?thesis by (simp add: handle_capability_request_def answers_intros)
next
  case (Some q)
  show ?thesis
    unfolding handle_capability_request_def Some Let_def option.case
    by (intro answers_intros)
      (auto simp: node_completed_status answers_intros split: option.split list.split)
qed

lemma settle_request_cases:
  assumes "settle_request g r oc w = Inr (r', oc', w')"
  shows "oc' = oc \<and> (r' = r \<and> nr_status r \<noteq> NEEDS_CAPABILITY \<or> nr_status r' = COMPLETED)
    \<or> r' = r \<and> (\<exists>x. oc' = first_some oc (Some x) \<and> oc_status x \<noteq> G_COMPLETED \<and> oc_node x \<noteq> None)"
proof (cases "nr_status r = NEEDS_CAPABILITY")
  case False
  then show ?thesis using assms by (simp add: settle_request_def)
next
  case True
  then obtain q w1 where h: "handle_capability_request g r w = Inr (q, w1)"
    using assms by (auto simp: settle_request_def)
  then show ?thesis
    using assms True handle_capability_answers [of g r w]
    by (auto simp: settle_request_def answers_def split: if_splits)
qed

lemma settle_request_outcome:
  assumes "settle_request g r oc w = Inr (r', oc', w')"
  shows "oc \<noteq> None \<longrightarrow> oc' = oc"
    and "first_some oc' (result_outcome r') = None \<longrightarrow> nr_status r' = COMPLETED"
    and "\<forall>x. oc = None \<longrightarrow> oc' = Some x \<longrightarrow> oc_status x \<noteq> G_COMPLETED \<and> oc_node x \<noteq> None"
  using settle_request_cases [OF assms]
  by (auto simp: first_some_def result_outcome_def split: option.splits node_status.splits)

lemma result_outcome_facts:
  "result_outcome r = Some x \<Longrightarrow> oc_status x \<noteq> G_COMPLETED \<and> oc_node x = Some r"
  by (auto simp: result_outcome_def outcome_of_def split: node_status.splits option.splits if_splits)

definition all_completed :: "run_state \<Rightarrow> bool" where
  "all_completed s \<longleftrightarrow> list_all (\<lambda>(_, r). nr_status r = COMPLETED) (rs_results s)"

text \<open>What recording a batch of ready items does: ready steps only, every sibling recorded, the
  first outcome kept.\<close>

lemma record_batch_steps:
  assumes "record_batch g cancelled ws results s oc w = Inr (s1, res1, oc1, w1, stopped)"
    and "set ws \<subseteq> set (ready_items s)" "distinct (map wi_id ws)"
  shows "run_from s s1 \<and> (oc \<noteq> None \<longrightarrow> oc1 = oc)
    \<and> (\<not> stopped \<longrightarrow> dict_keys (rs_results s1) = dict_keys (rs_results s) @ map wi_id ws)
    \<and> (oc1 = None \<longrightarrow> all_completed s \<longrightarrow> all_completed s1)
    \<and> (\<forall>x. oc = None \<longrightarrow> oc1 = Some x \<longrightarrow> oc_status x \<noteq> G_COMPLETED \<and> oc_node x \<noteq> None)"
  using assms
proof (induction ws arbitrary: results s oc w)
  case Nil
  then show ?case by (auto intro: run_here)
next
  case (Cons v ws)
  show ?case
  proof (cases "ev_traces (ge_env g) \<and> cancelled (wi_id v)")
    case True
    then show ?thesis using Cons.prems(1) by (auto intro: run_here)
  next
    case False
    then obtain r0 r oc' w' t where st: "settle_request g r0 oc w = Inr (r, oc', w')"
      and rec: "record_result v r s = Inr t"
      and rest: "record_batch g cancelled ws (dict_put (wi_id v) r results) t
         (first_some oc' (result_outcome r)) w' = Inr (s1, res1, oc1, w1, stopped)"
      using Cons.prems(1) by (auto split: option.splits)
    have step: "run_from s t" using run_on [OF run_here execute [OF _ rec]] Cons.prems(2) by simp
    have "set ws \<subseteq> set (ready_items t)"
    proof
      fix x assume x: "x \<in> set ws"
      then have "wi_id x \<noteq> wi_id v" using Cons.prems(3) by (metis distinct.simps(2) image_eqI list.set_map list.simps(9))
      then show "x \<in> set (ready_items t)" using ready_after_record [OF _ rec] x Cons.prems(2) by auto
    qed
    note IH = Cons.IH [OF rest this] and so = settle_request_outcome [OF st]
    have ih: "run_from t s1" "first_some oc' (result_outcome r) \<noteq> None \<Longrightarrow> oc1 = first_some oc' (result_outcome r)"
      "\<not> stopped \<Longrightarrow> dict_keys (rs_results s1) = dict_keys (rs_results t) @ map wi_id ws"
      "oc1 = None \<Longrightarrow> all_completed t \<Longrightarrow> all_completed s1"
      "\<And>x. first_some oc' (result_outcome r) = None \<Longrightarrow> oc1 = Some x \<Longrightarrow> oc_status x \<noteq> G_COMPLETED \<and> oc_node x \<noteq> None"
      using IH Cons.prems(3) by auto
    have comp: "all_completed t" if "all_completed s" "oc1 = None"
    proof -
      have "first_some oc' (result_outcome r) = None"
        using ih(2) that(2) by (cases "first_some oc' (result_outcome r)") auto
      then show ?thesis using so(2) that(1) by (simp add: all_completed_def record_keys [OF rec])
    qed
    have none: "oc_status x \<noteq> G_COMPLETED \<and> oc_node x \<noteq> None" if "oc = None" "oc1 = Some x" for x
    proof (cases "first_some oc' (result_outcome r)")
      case None
      then show ?thesis using ih(5) that(2) by simp
    next
      case (Some y)
      then have y: "y = x" using ih(2) that(2) by simp
      show ?thesis
      proof (cases oc')
        case None
        then show ?thesis using Some y result_outcome_facts by (fastforce simp: first_some_def)
      next
        case (Some z)
        then show ?thesis using \<open>first_some oc' (result_outcome r) = Some y\<close> y so(3) that(1)
          by (simp add: first_some_def)
      qed
    qed
    have "oc \<noteq> None \<Longrightarrow> oc1 = oc" using so(1) ih(2) by (auto simp: first_some_def)
    moreover have "\<not> stopped \<Longrightarrow> dict_keys (rs_results s1) = dict_keys (rs_results s) @ map wi_id (v # ws)"
      using ih(3) by (simp add: record_keys [OF rec])
    ultimately show ?thesis
      using run_from_trans [OF ih(1) step] ih(4) comp none by blast
  qed
qed

lemma record_batch_uncancelled:
  "record_batch g (\<lambda>_. False) ws results s oc w = Inr (s1, res1, oc1, w1, stopped) \<Longrightarrow> \<not> stopped"
  by (induction ws arbitrary: results s oc w) (auto split: option.splits)

lemma batch_of_ready:
  assumes "distinct (map wi_id (pl_work_items (rs_plan s)))"
  shows "set (select_schedulable_items g (ready_items s)) \<subseteq> set (ready_items s)"
    "distinct (map wi_id (select_schedulable_items g (ready_items s)))"
proof -
  show "set (select_schedulable_items g (ready_items s)) \<subseteq> set (ready_items s)"
    using subseq_set [OF select_subseq] by blast
  have "subseq (ready_items s) (pl_work_items (rs_plan s))" by (simp add: ready_items_def)
  with select_subseq have "subseq (map wi_id (select_schedulable_items g (ready_items s)))
      (map wi_id (pl_work_items (rs_plan s)))"
    by (blast intro: subseq_map subseq_order.order_trans)
  then show "distinct (map wi_id (select_schedulable_items g (ready_items s)))"
    using assms by (rule subseq_distinct)
qed

text \<open>One batch of the loop, executed and recorded.\<close>

definition batch_recorded :: "graph_env \<Rightarrow> run_state \<Rightarrow> outcome option \<Rightarrow> run_state \<Rightarrow> bool" where
  "batch_recorded g s oc t \<longleftrightarrow> run_from s t
     \<and> dict_keys (rs_results t) = dict_keys (rs_results s) @ map wi_id (select_schedulable_items g (ready_items s))
     \<and> (oc = None \<longrightarrow> all_completed s \<longrightarrow> all_completed t)
     \<and> (\<forall>x. oc = Some x \<longrightarrow> oc_status x \<noteq> G_COMPLETED \<and> oc_node x \<noteq> None)"

lemma record_whole_batch:
  assumes "record_batch g (\<lambda>_. False) (select_schedulable_items g (ready_items s)) results s None w
      = Inr (t, res1, oc, w1, stopped)"
    and "distinct (map wi_id (pl_work_items (rs_plan s)))"
  shows "batch_recorded g s oc t"
  using record_batch_steps [OF assms(1) batch_of_ready [OF assms(2)]] record_batch_uncancelled [OF assms(1)]
  by (simp add: batch_recorded_def)

section \<open>The run loop\<close>

lemma delivery_checks_node: "oc_status (delivery_checks g f p) \<in> {G_COMPLETED, G_BLOCKED}"
proof -
  have pick: "(if b then x else y) \<in> A" if "x \<in> A" "y \<in> A" for b and x y :: outcome and A
    using that by simp
  have "delivery_checks g f p \<in> {q. oc_status q \<in> {G_COMPLETED, G_BLOCKED}}"
    unfolding delivery_checks_def by (intro pick) (simp_all add: outcome_of_def)
  then show ?thesis by simp
qed

lemma release_gate_node:
  "oc_status (release_gate g f s) = G_COMPLETED \<or> oc_status (release_gate g f s) = G_BLOCKED"
  using delivery_checks_node [of g f "rs_plan s"]
  by (auto simp: release_gate_def outcome_of_def split: option.split)

lemma graph_loop_sound:
  assumes "graph_loop g exec fuel rounds s w = Some (Inr (oc, t, w'))"
    and "distinct (map wi_id (pl_work_items (rs_plan s)))"
  shows "run_from s t \<and> (oc_status oc = G_COMPLETED \<longrightarrow> run_complete t)
    \<and> (all_completed s \<and> oc_node oc = None \<longrightarrow> all_completed t \<and> (run_complete t \<or> ready_items t = []))"
  using assms
proof (induction rounds arbitrary: s w)
  case (Suc rounds)
  show ?case
  proof (cases "run_complete s \<or> ready_items s = []")
    case True
    then show ?thesis using Suc.prems(1) by (auto simp: outcome_of_def intro: run_here split: if_splits)
  next
    case False
    let ?b = "select_schedulable_items g (ready_items s)"
    obtain results w1 s1 res oc1 w2 stopped where
      rb: "record_batch g (\<lambda>_. False) ?b results s None w1 = Inr (s1, res, oc1, w2, stopped)"
      and rest: "(case oc1 of None \<Rightarrow> graph_loop g exec fuel rounds s1 w2 | Some q \<Rightarrow> Some (Inr (q, s1, w2)))
        = Some (Inr (oc, t, w'))"
      using Suc.prems(1) False by (auto simp: Let_def split: option.splits sum.splits prod.splits)
    note b = record_whole_batch [OF rb Suc.prems(2), unfolded batch_recorded_def]
    show ?thesis
    proof (cases oc1)
      case None
      have "distinct (map wi_id (pl_work_items (rs_plan s1)))"
        using Suc.prems(2) run_from_plan b by metis
      moreover have "graph_loop g exec fuel rounds s1 w2 = Some (Inr (oc, t, w'))" using rest None by simp
      ultimately show ?thesis using Suc.IH b None run_from_trans by blast
    next
      case (Some q)
      then show ?thesis using rest b by auto
    qed
  qed
qed simp

definition open_items :: "run_state \<Rightarrow> work_item list" where
  "open_items s = filter (\<lambda>w. wi_id w \<notin> set (dict_keys (rs_results s))) (pl_work_items (rs_plan s))"

lemma batch_closes_items:
  assumes "batch_recorded g s oc t" "limits_positive g" "ready_items s \<noteq> []"
  shows "length (open_items t) < length (open_items s)"
proof -
  let ?b = "select_schedulable_items g (ready_items s)"
  have plan: "rs_plan t = rs_plan s" using assms(1) run_from_plan by (auto simp: batch_recorded_def)
  have keys: "set (dict_keys (rs_results t)) = set (dict_keys (rs_results s)) \<union> wi_id ` set ?b"
    using assms(1) by (simp add: batch_recorded_def)
  obtain v where v: "v \<in> set ?b" using select_nonempty [OF assms(2,3)] by (cases ?b) auto
  then have "v \<in> set (ready_items s)" using subseq_set [OF select_subseq] by blast
  then have "v \<in> set (open_items s)" by (auto simp: ready_item_facts open_items_def)
  moreover have "open_items t = filter (\<lambda>w. wi_id w \<notin> set (dict_keys (rs_results t))) (open_items s)"
    unfolding open_items_def plan filter_filter by (rule filter_cong [OF refl]) (use keys in blast)
  ultimately show ?thesis using keys v by (metis (no_types, lifting) UnI2 image_eqI length_filter_less)
qed

lemma run_ready_items_returns:
  assumes "\<not> ev_traces env" "nat (max_retries_per_work_item (ev_limits env)) < fuel"
  shows "run_ready_items env exec fuel s ws w \<noteq> None"
proof (induction ws arbitrary: w)
  case (Cons i ws)
  have "run_item_with_retries env (exec s i) fuel i w \<noteq> None"
    using attempts_return_no_traces [OF assms(1), of 0 fuel] assms by (simp add: run_item_with_retries_def)
  then show ?case using Cons.IH by (auto simp del: not_None_eq split: sum.splits option.splits)
qed simp

lemma graph_loop_returns:
  assumes "\<not> ev_traces (ge_env g)" "limits_positive g"
    and "nat (max_retries_per_work_item (ev_limits (ge_env g))) < fuel"
    and "distinct (map wi_id (pl_work_items (rs_plan s)))" "length (open_items s) < rounds"
  shows "graph_loop g exec fuel rounds s w \<noteq> None"
  using assms(4,5)
proof (induction rounds arbitrary: s w)
  case (Suc rounds)
  show ?case
  proof (rule notI)
    assume none: "graph_loop g exec fuel (Suc rounds) s w = None"
    let ?b = "select_schedulable_items g (ready_items s)"
    from none have ne: "ready_items s \<noteq> []" by (simp split: if_splits)
    obtain results w1 s1 res w2 stopped where
      rb: "record_batch g (\<lambda>_. False) ?b results s None w1 = Inr (s1, res, None, w2, stopped)"
      and rest: "graph_loop g exec fuel rounds s1 w2 = None"
      using none run_ready_items_returns [OF assms(1,3), of exec s ?b w]
      by (auto simp: Let_def split: option.splits sum.splits prod.splits if_splits)
    note b = record_whole_batch [OF rb Suc.prems(1)]
    have "rs_plan s1 = rs_plan s" using b run_from_plan by (auto simp: batch_recorded_def)
    moreover have "length (open_items s1) < rounds"
      using batch_closes_items [OF b assms(2) ne] Suc.prems(2) by simp
    ultimately show False using Suc.IH Suc.prems(1) rest by metis
  qed
qed simp



section \<open>The release gate\<close>

lemma delivery_checks_completed:
  assumes "oc_status (delivery_checks g f p) = G_COMPLETED" "ev_traces (ge_env g)" "requires_delivery_matrix p"
  shows "incomplete (rf_matrix f) = [] \<and> \<not> rf_quality_failed f
    \<and> (full_delivery_plan p \<and> ev_artifacts (ge_env g) \<longrightarrow> list_all (rf_exists f) required_artifacts)"
  using assms
  by (simp add: delivery_checks_def requires_delivery_matrix_def outcome_of_def filter_empty_conv list_all_iff
      split: if_split_asm)

text \<open>C4. The release gate: a delivery run is reported as completed only if the latest review does not
  block it, no requirement of the matrix is open, the quality policy does not fail and, for a full
  delivery, all six required artifacts are published.\<close>

theorem release_gate_safe:
  assumes "oc_status (release_gate g f s) = G_COMPLETED"
    and "ev_traces (ge_env g)" "requires_delivery_matrix (rs_plan s)"
  shows "(\<forall>r v. review_verdict g s = Some (r, Some v) \<longrightarrow> v \<noteq> ''BLOCKED'')
    \<and> incomplete (rf_matrix f) = [] \<and> \<not> rf_quality_failed f
    \<and> (full_delivery_plan (rs_plan s) \<and> ev_artifacts (ge_env g) \<longrightarrow> list_all (rf_exists f) required_artifacts)"
proof -
  have v: "v \<noteq> ''BLOCKED''" if "review_verdict g s = Some (r, Some v)" for r v
    using assms(1) that by (simp add: release_gate_def outcome_of_def split: if_split_asm)
  then have "release_gate g f s = delivery_checks g f (rs_plan s)"
    by (simp add: release_gate_def split: option.split)
  then show ?thesis using delivery_checks_completed [of g f "rs_plan s"] assms v by auto
qed

section \<open>The batch barrier\<close>

lemma find_batch_failure:
  "list_ex (\<lambda>(_, r). nr_status r = FAILED \<or> nr_status r = NEEDS_REPLAN) results \<Longrightarrow>
     \<exists>root r. List.find (\<lambda>(_, r). nr_status r = FAILED \<or> nr_status r = NEEDS_REPLAN) results = Some (root, r)"
  by (cases "List.find (\<lambda>(_, r). nr_status r = FAILED \<or> nr_status r = NEEDS_REPLAN) results")
    (auto simp: find_None_iff list_ex_iff)

text \<open>The batch barrier is free: a batch with a failing item adds exactly one record to the ledger, of
  batch scope, blaming an item of the batch that failed, and no retry budget is charged for it;
  a batch without one leaves the ledger alone.\<close>

theorem batch_barrier_uncharged:
  assumes "ev_traces env" "read_ledger env w = Inr rs" "finish_monitor_batch env batch results w = Inr w'"
  shows "if list_ex (\<lambda>(_, r). nr_status r = FAILED \<or> nr_status r = NEEDS_REPLAN) results
    then \<exists>q. read_ledger env w' = Inr (rs @ [q]) \<and> rr_scope q = BATCH \<and> rr_subject_id q = batch
      \<and> \<not> is_budget_action (rr_action q)
      \<and> list_ex (\<lambda>(i, r). rr_root q = Some i \<and> (nr_status r = FAILED \<or> nr_status r = NEEDS_REPLAN)) results
    else w' = w"
proof (cases "list_ex (\<lambda>(_, r). nr_status r = FAILED \<or> nr_status r = NEEDS_REPLAN) results")
  case True
  then obtain root r where f: "List.find (\<lambda>(_, r). nr_status r = FAILED \<or> nr_status r = NEEDS_REPLAN) results = Some (root, r)"
    using find_batch_failure by blast
  let ?q = "barrier_record env batch results root r rs"
  obtain f' where q: "mk_retry_record ?q = Inr ?q"
    and a: "ledger_append (ev_sha env) (ev_trace env) ?q (rw_ledger w) = Inr f'" "w' = w\<lparr>rw_ledger := f'\<rparr>"
    using assms f by (auto simp: finish_monitor_batch_def dest: mk_retry_record_same)
  have "read_ledger env w' = Inr (rs @ [?q])"
    using ledger.append_keeps [OF assms(2) ledger_read_valid [OF assms(2)] _ a(1)] q a(2) by (simp add: record_valid_def)
  moreover have "rr_scope ?q = BATCH" "rr_subject_id ?q = batch" "\<not> is_budget_action (rr_action ?q)"
    "rr_root ?q = Some root"
    by (simp_all add: barrier_record_def Let_def is_budget_action_def)
  moreover have "list_ex (\<lambda>(i, r). root = i \<and> (nr_status r = FAILED \<or> nr_status r = NEEDS_REPLAN)) results"
    using find_Some_in [OF f] by (auto simp: list_ex_iff)
  ultimately show ?thesis using True by auto
next
  case False
  then have "List.find (\<lambda>(_, r). nr_status r = FAILED \<or> nr_status r = NEEDS_REPLAN) results = None"
    by (auto simp: find_None_iff list_ex_iff)
  then show ?thesis using assms(1,3) False by (auto simp: finish_monitor_batch_def)
qed

section \<open>Witnesses\<close>

definition plain_env :: graph_env where
  "plain_env = \<lparr>ge_env = demo_env\<lparr>ev_traces := False\<rparr>, ge_max_workers = 2, ge_agents = [],
     ge_facts = \<lparr>cf_sentinel = (\<lambda>_. False), cf_confirms = (\<lambda>_. False), cf_staged = (\<lambda>_. False), cf_env_ok = True,
       cf_env_status = [], cf_env_message = [], cf_env_report = [], cf_references = False, cf_sources = (\<lambda>_ _. [])\<rparr>,
     ge_verdict = (\<lambda>_. Some ''APPROVED'')\<rparr>"

definition done_exec :: runner_exec where
  "done_exec s i m c w = Inr (demo_done i, w)"

definition plain_answer :: "outcome \<times> run_state \<times> runner_world" where
  "plain_answer = projr (the (graph_run plain_env done_exec 3 4 demo_plan None demo_world))"

lemma plain_limits: "limits_positive plain_env"
  by (simp add: limits_positive_def plain_env_def)

lemma batch_respects_limits_witness:
  "subseq (select_schedulable_items plain_env [demo_users, demo_blueprint]) [demo_users, demo_blueprint]"
  using batch_respects_limits [OF plain_limits, of "[demo_users, demo_blueprint]"] by blast


lemma plain_answer_eq:
  "graph_run plain_env done_exec 3 4 demo_plan None demo_world = Some (Inr plain_answer)
   \<and> oc_status (fst plain_answer) = G_COMPLETED"
proof -
  let ?r = "graph_run plain_env done_exec 3 4 demo_plan None demo_world"
  have "(case ?r of Some (Inr (q, _)) \<Rightarrow> oc_status q = G_COMPLETED | _ \<Rightarrow> False)" by code_simp
  then show ?thesis by (auto simp: plain_answer_def split: option.splits sum.splits)
qed


definition traced_env :: graph_env where
  "traced_env = plain_env\<lparr>ge_env := demo_env\<rparr>"

definition release_run :: run_state where
  "release_run = new_run (demo_plan\<lparr>pl_template_id := Some ''project_delivery'',
     pl_work_items := [blank_work_item ''wi-9'' ''review_agent'' ''review'' ''review'']\<rparr>)"

definition release_ready :: release_facts where
  "release_ready = \<lparr>rf_quality_failed = False, rf_matrix = [], rf_exists = (\<lambda>_. True)\<rparr>"

lemma release_gate_safe_witness:
  "incomplete (rf_matrix release_ready) = [] \<and> list_all (rf_exists release_ready) required_artifacts"
proof -
  have "oc_status (release_gate traced_env release_ready release_run) = G_COMPLETED" by code_simp
  moreover have "ev_traces (ge_env traced_env)" "requires_delivery_matrix (rs_plan release_run)"
    "full_delivery_plan (rs_plan release_run)" "ev_artifacts (ge_env traced_env)" by code_simp+
  ultimately show ?thesis using release_gate_safe [of traced_env release_ready release_run] by blast
qed

definition failed_batch :: "(string, node_result) dict" where
  "failed_batch = [(''wi-1'', demo_answer FAILED None)]"

lemma batch_barrier_uncharged_witness:
  "\<exists>q. read_ledger demo_env (projr (finish_monitor_batch demo_env ''b1'' failed_batch demo_world)) = Inr [q]
    \<and> \<not> is_budget_action (rr_action q)"
proof -
  have "\<not> isl (finish_monitor_batch demo_env ''b1'' failed_batch demo_world)" by code_simp
  then obtain w where w: "finish_monitor_batch demo_env ''b1'' failed_batch demo_world = Inr w"
    by (cases "finish_monitor_batch demo_env ''b1'' failed_batch demo_world") auto
  have "ev_traces demo_env" "read_ledger demo_env demo_world = Inr []"
    "list_ex (\<lambda>(_, r). nr_status r = FAILED \<or> nr_status r = NEEDS_REPLAN) failed_batch" by code_simp+
  then show ?thesis using batch_barrier_uncharged [OF _ _ w] unfolding w by fastforce
qed

end
