(* ===== verification/Plan_Patch.thy ===== *)
theory Plan_Patch
  imports Resume_Laws
begin

text \<open>
  \<^verbatim>\<open>app/planner/patch.py\<close>: the patches a planner may apply to a plan. A local patch modifies,
  adds and removes a few exclusive items within a change budget; a repair patch builds a plan
  of its own from the items it adds. The patches are the values the schema library returns; the
  rewriting of a repair patch before validation is on JSON.
\<close>

section \<open>Patches\<close>

datatype patch_kind = P_MODIFY | P_ADD | P_REMOVE

record patch_operation =
  po_operation :: patch_kind
  po_work_item_id :: "string option"
  po_ref :: "string option"
  po_agent_id :: "string option"
  po_objective :: "string option"
  po_depends_on :: "string list"

record plan_patch =
  pp_base_plan_id :: string
  pp_operations :: "patch_operation list"
  pp_repair_scope :: "string list"

record change_budget =
  cb_max_added :: int
  cb_max_removed :: int
  cb_max_modified :: int
  cb_max_dependency_changes :: int

definition default_budget :: change_budget where
  "default_budget = \<lparr>cb_max_added = 2, cb_max_removed = 1, cb_max_modified = 2, cb_max_dependency_changes = 2\<rparr>"

record applied_patch =
  ap_plan :: plan
  ap_invalidated :: "string list"
  ap_added :: "string list"
  ap_removed :: "string list"
  ap_dependency_changes :: int

text \<open>A field that is \<open>None\<close> or empty is not given.\<close>

definition given :: "string option \<Rightarrow> bool" where
  "given f \<longleftrightarrow> or_empty f \<noteq> []"

definition operations_of :: "patch_kind \<Rightarrow> plan_patch \<Rightarrow> patch_operation list" where
  "operations_of k pp = filter (\<lambda>q. po_operation q = k) (pp_operations pp)"

definition removed_ids :: "plan_patch \<Rightarrow> string list" where
  "removed_ids pp = map (or_empty \<circ> po_work_item_id) (filter (given \<circ> po_work_item_id) (operations_of P_REMOVE pp))"

definition referenced_ids :: "plan_patch \<Rightarrow> string list" where
  "referenced_ids pp = map (or_empty \<circ> po_work_item_id) (filter (given \<circ> po_work_item_id) (pp_operations pp))"

section \<open>The checks of a local patch\<close>

definition check_sealed :: "(string \<Rightarrow> string) \<Rightarrow> work_item \<Rightarrow> err + unit" where
  "check_sealed sha w =
     (if wi_contract_digest w \<noteq> Some (compute_contract_digest sha (\<not> wi_legacy_digest w) w)
      then Inl (PlanPatchError ''contract_digest'') else Inr ())"

definition check_scope :: "plan \<Rightarrow> plan_patch \<Rightarrow> err + unit" where
  "check_scope p pp =
     (if pp_repair_scope pp = [] then Inr ()
      else let scope = pp_repair_scope pp in raises
        [(\<not> set scope \<subseteq> set (map wi_id (pl_work_items p)), PlanPatchError ''repair_scope unknown''),
         (\<not> set (referenced_ids pp) \<subseteq> set scope, PlanPatchError ''outside repair_scope''),
         (list_ex (\<lambda>q. list_ex (\<lambda>d. d \<notin> set scope) (po_depends_on q)) (pp_operations pp),
           PlanPatchError ''dependency outside repair_scope'')])"

definition changes_dependencies :: "plan \<Rightarrow> patch_operation \<Rightarrow> bool" where
  "changes_dependencies p q \<longleftrightarrow> po_depends_on q \<noteq> [] \<and>
     (case Option.bind (po_work_item_id q) (plan_item p) of
        None \<Rightarrow> False | Some w \<Rightarrow> po_depends_on q \<noteq> wi_dependency_ids w)"

definition check_budget :: "change_budget \<Rightarrow> plan \<Rightarrow> plan_patch \<Rightarrow> err + unit" where
  "check_budget b p pp =
     (let changes = count_if (changes_dependencies p) (operations_of P_MODIFY pp) in raises
       [(changes \<noteq> 0, PlanPatchError ''dependencies are frozen''),
        (int (length (operations_of P_MODIFY pp)) > cb_max_modified b, PlanPatchError ''modified budget''),
        (int (length (operations_of P_ADD pp)) > cb_max_added b, PlanPatchError ''added budget''),
        (int (length (operations_of P_REMOVE pp)) > cb_max_removed b, PlanPatchError ''removed budget''),
        (changes > cb_max_dependency_changes b, PlanPatchError ''dependency budget'')])"

definition check_target :: "plan \<Rightarrow> string set \<Rightarrow> bool \<Rightarrow> patch_operation \<Rightarrow> err + unit" where
  "check_target p completed allow q = raises
     [(\<not> given (po_work_item_id q) \<or> plan_item p (or_empty (po_work_item_id q)) = None,
        PlanPatchError ''unknown WorkItem''),
      (or_empty (po_work_item_id q) \<in> completed \<and> \<not> allow, PlanPatchError ''completed WorkItem'')]"

definition check_objective :: "patch_operation \<Rightarrow> err + unit" where
  "check_objective q = raises
     [(\<not> given (po_objective q), PlanPatchError ''modify needs an objective''),
      (blank_opt (po_objective q), PlanPatchError ''objective'')]"

definition check_operations :: "plan \<Rightarrow> plan_patch \<Rightarrow> string set \<Rightarrow> bool \<Rightarrow> err + unit" where
  "check_operations p pp completed allow =
     bindE (raises [(\<not> distinct (referenced_ids pp), PlanPatchError ''WorkItem twice'')]) (\<lambda>_.
     bindE (for_each (check_target p completed allow) (operations_of P_MODIFY pp @ operations_of P_REMOVE pp)) (\<lambda>_.
     bindE (for_each check_objective (operations_of P_MODIFY pp)) (\<lambda>_.
     raises
       [(\<not> distinct (map (or_empty \<circ> po_ref) (filter (given \<circ> po_ref) (operations_of P_ADD pp))),
          PlanPatchError ''ref twice''),
        (list_ex (\<lambda>w. wi_id w \<notin> set (removed_ids pp)
            \<and> list_ex (\<lambda>d. d \<in> set (removed_ids pp)) (wi_dependency_ids w)) (pl_work_items p),
          PlanPatchError ''removed WorkItem has dependents'')])))"

section \<open>Applying a local patch\<close>

text \<open>The rebuilt item does not take over \<open>required_tools\<close>.\<close>

definition modified_item :: "patch_operation \<Rightarrow> work_item \<Rightarrow> work_item" where
  "modified_item q w = w\<lparr>wi_objective := (if given (po_objective q) then or_empty (po_objective q) else wi_objective w),
     wi_required_tools := []\<rparr>"

definition modification_of :: "plan_patch \<Rightarrow> work_item \<Rightarrow> patch_operation option" where
  "modification_of pp w = List.find (\<lambda>q. po_work_item_id q = Some (wi_id w)) (operations_of P_MODIFY pp)"

fun kept_items :: "(string \<Rightarrow> string) \<Rightarrow> plan_patch \<Rightarrow> work_item list \<Rightarrow> work_item list result" where
  "kept_items sha pp [] = Inr []"
| "kept_items sha pp (w # ws) =
     (if wi_id w \<in> set (removed_ids pp) then kept_items sha pp ws
      else (case modification_of pp w of
          None \<Rightarrow> bindE (kept_items sha pp ws) (\<lambda>vs. Inr (w # vs))
        | Some q \<Rightarrow> bindE (mk_work_item sha (modified_item q w)) (\<lambda>v.
            bindE (kept_items sha pp ws) (\<lambda>vs. Inr (v # vs)))))"

definition planner_dependency :: "string \<Rightarrow> dependency" where
  "planner_dependency d = \<lparr>dep_work_item_id = d, dep_source = PLANNER, dep_rule_id = None\<rparr>"

text \<open>The item an operation adds, named after the kind of patch and its position.\<close>

definition added_item ::
  "(string \<Rightarrow> string) \<Rightarrow> string \<Rightarrow> nat \<Rightarrow> agent_definition \<Rightarrow> patch_operation \<Rightarrow> string list \<Rightarrow> work_item result" where
  "added_item sha kind n d q deps =
     bindE (mapE (mk_dependency \<circ> planner_dependency) deps) (\<lambda>ds.
     mk_work_item sha
      ((blank_work_item (''wi-'' @ kind @ ''-'' @ pad2 n @ ''-'' @ ad_output_key d) (or_empty (po_agent_id q))
          (or_empty (po_objective q)) (ad_output_key d @ ''_'' @ kind @ ''_'' @ pad2 n))
        \<lparr>wi_artifact_key := Some (if given (ad_artifact_key d) then or_empty (ad_artifact_key d) else ad_output_key d),
         wi_dependencies := ds\<rparr>))"

fun add_items ::
  "(string \<Rightarrow> string) \<Rightarrow> (string, agent_definition) dict \<Rightarrow> nat \<Rightarrow> string list \<Rightarrow> patch_operation list
   \<Rightarrow> work_item list result" where
  "add_items sha agents n existing [] = Inr []"
| "add_items sha agents n existing (q # qs) =
     (if \<not> given (po_ref q) \<or> \<not> given (po_agent_id q) \<or> \<not> given (po_objective q)
      then Inl (PlanPatchError ''incomplete add'')
      else (case dict_get agents (or_empty (po_agent_id q)) of
          None \<Rightarrow> Inl (PlanPatchError ''agent not registered'')
        | Some d \<Rightarrow>
            if \<not> set (po_depends_on q) \<subseteq> set existing then Inl (PlanPatchError ''unknown dependency'')
            else if ''wi-patch-'' @ pad2 n @ ''-'' @ ad_output_key d \<in> set existing
            then Inl (PlanPatchError ''id conflict'')
            else bindE (added_item sha ''patch'' n d q (po_depends_on q)) (\<lambda>v.
                 bindE (add_items sha agents (n + 1) (wi_id v # existing) qs) (\<lambda>vs. Inr (v # vs)))))"

text \<open>Rounds over all items until no further item depends on a changed one.\<close>

definition next_dependents :: "work_item list \<Rightarrow> string list \<Rightarrow> string list" where
  "next_dependents items changed = map wi_id (filter (\<lambda>w. wi_id w \<notin> set changed
     \<and> list_ex (\<lambda>d. d \<in> set changed) (wi_dependency_ids w)) items)"

function all_dependents :: "work_item list \<Rightarrow> string list \<Rightarrow> string list" where
  "all_dependents items changed =
     (let ds = next_dependents items changed in
      if ds = [] then changed else all_dependents items (changed @ ds))"
  by pat_completeness auto
termination
proof (relation "measure (\<lambda>(items, changed). length (filter (\<lambda>w. wi_id w \<notin> set changed) items))", goal_cases)
  case (2 items changed ds)
  then obtain w where "w \<in> set items" "wi_id w \<notin> set changed" "wi_id w \<in> set ds"
    by (auto simp: next_dependents_def filter_empty_conv)
  then have "length (filter (\<lambda>w. wi_id w \<notin> set (changed @ ds)) items)
      < length (filter (\<lambda>w. wi_id w \<notin> set changed) items)"
    by (intro length_filter_strict [of _ _ w]) auto
  then show ?case by simp
qed simp

declare all_dependents.simps [simp del]

definition apply_patch ::
  "(string \<Rightarrow> string) \<Rightarrow> (string, agent_definition) dict \<Rightarrow> string set \<Rightarrow> bool \<Rightarrow> change_budget
   \<Rightarrow> plan \<Rightarrow> plan_patch \<Rightarrow> applied_patch result" where
  "apply_patch sha agents completed allow b p pp =
     bindE (raises
       [(pp_base_plan_id pp \<noteq> pl_id p, PlanPatchError ''base plan''),
        (list_ex (\<lambda>w. wi_execution_mode w \<noteq> EXCLUSIVE) (pl_work_items p), PlanPatchError ''controlled workflow'')]) (\<lambda>_.
     bindE (for_each (check_sealed sha) (pl_work_items p)) (\<lambda>_.
     bindE (check_scope p pp) (\<lambda>_.
     bindE (check_budget b p pp) (\<lambda>_.
     bindE (check_operations p pp completed allow) (\<lambda>_.
     bindE (kept_items sha pp (pl_work_items p)) (\<lambda>kept.
     bindE (add_items sha agents 1 (map wi_id kept) (operations_of P_ADD pp)) (\<lambda>added.
     bindE (mk_plan \<lparr>pl_id = pl_id p @ ''-patch-'' @ nat_str (length (pp_operations pp)), pl_goal = pl_goal p,
         pl_work_items = kept @ added, pl_template_id = pl_template_id p, pl_process_id = ''software_delivery'',
         pl_trace = pl_trace p, pl_validation_scope = ''full_delivery''\<rparr>) (\<lambda>p'.
     Inr \<lparr>ap_plan = p',
       ap_invalidated = sort (dict_fromkeys (all_dependents (kept @ added)
         (removed_ids pp @ map (or_empty \<circ> po_work_item_id) (operations_of P_MODIFY pp) @ map wi_id added))),
       ap_added = filter (prefix ''wi-patch-'') (map wi_id (kept @ added)),
       ap_removed = sort (removed_ids pp),
       ap_dependency_changes = count_if (changes_dependencies p) (operations_of P_MODIFY pp)\<rparr>))))))))"

section \<open>Repair patches\<close>

record repair_patch =
  rp_base_plan_id :: string
  rp_repair_scope :: "string list"
  rp_verification :: "string list"
  rp_operations :: "patch_operation list"

text \<open>What \<open>parse\<close> makes of the decoded response before the schema library validates it.\<close>

definition verification_alias :: "string \<Rightarrow> bool" where
  "verification_alias n \<longleftrightarrow> list_ex (\<lambda>p. prefix p n) [''verify'', ''validate'', ''check'', ''test'']"

definition normalize_operation :: "json \<Rightarrow> json" where
  "normalize_operation q = (case q of
      JObj kvs \<Rightarrow>
        let n = py_lower (py_strip (py_str (case json_get q ''operation'' of None \<Rightarrow> JStr [] | Some v \<Rightarrow> v))) in
        if verification_alias n
        then let kvs1 = dict_put ''operation'' (JStr ''add'') kvs in
          JObj (if dict_get kvs1 ''ref'' = None then dict_put ''ref'' (JStr (take 100 n)) kvs1 else kvs1)
        else q
    | _ \<Rightarrow> q)"

definition with_base_plan :: "string option \<Rightarrow> (string, json) dict \<Rightarrow> (string, json) dict" where
  "with_base_plan base kvs =
     (if given base \<and> \<not> truthy (json_get_null (JObj kvs) ''base_plan_id'')
      then dict_put ''base_plan_id'' (JStr (or_empty base)) kvs else kvs)"

definition with_operations :: "(string, json) dict \<Rightarrow> (string, json) dict" where
  "with_operations kvs = (case dict_get kvs ''operations'' of
      Some (JList qs) \<Rightarrow> dict_put ''operations'' (JList (map normalize_operation qs)) kvs
    | _ \<Rightarrow> kvs)"

definition with_scope :: "string list \<Rightarrow> (string, json) dict \<Rightarrow> (string, json) dict result" where
  "with_scope scope kvs =
     (if scope = [] then Inr kvs
      else let submitted = json_get_null (JObj kvs) ''repair_scope'' in
        if truthy submitted \<and> \<not> is_list submitted then Inl (PlanPatchError ''repair_scope'')
        else if \<not> set (map py_str (list_items submitted)) \<subseteq> set scope
        then Inl (PlanPatchError ''repair_scope outside the window'')
        else Inr (dict_put ''repair_scope'' (jstrs scope) kvs))"

definition canonical_repair :: "string option \<Rightarrow> string list \<Rightarrow> json \<Rightarrow> json result" where
  "canonical_repair base scope raw = (case raw of
      JObj kvs \<Rightarrow> bindE (with_scope scope (with_operations (with_base_plan base kvs))) (\<lambda>kvs1.
        Inr (JObj (if dict_get kvs1 ''verification'' = None
          then dict_put ''verification'' (jstrs [''rerun the failed check'']) kvs1 else kvs1)))
    | _ \<Rightarrow> Inl (PlanPatchError ''not an object''))"

text \<open>\<open>validate\<close> is the schema library's validation of the canonical object.\<close>

definition parse_repair_patch ::
  "(json \<Rightarrow> repair_patch option) \<Rightarrow> string option \<Rightarrow> string list \<Rightarrow> json \<Rightarrow> repair_patch result" where
  "parse_repair_patch validate base scope raw =
     bindE (canonical_repair base scope raw) (\<lambda>j. case validate j of
        None \<Rightarrow> Inl (PlanPatchError ''schema'')
      | Some rp \<Rightarrow> bindE (raises
          [(list_ex (\<lambda>q. po_operation q \<noteq> P_ADD) (rp_operations rp), PlanPatchError ''only add''),
           (list_ex blank (rp_verification rp), PlanPatchError ''verification'')]) (\<lambda>_. Inr rp))"

text \<open>
  The items of a repair patch; \<open>refs\<close> maps the references so far to their items. A dependency may
  name a reference or an item of the same patch.
\<close>

fun repair_items ::
  "(string \<Rightarrow> string) \<Rightarrow> (string, agent_definition) dict \<Rightarrow> string list \<Rightarrow> nat \<Rightarrow> (string, string) dict
   \<Rightarrow> patch_operation list \<Rightarrow> work_item list result" where
  "repair_items sha agents original n refs [] = Inr []"
| "repair_items sha agents original n refs (q # qs) =
     (if po_operation q \<noteq> P_ADD \<or> \<not> given (po_ref q) \<or> \<not> given (po_agent_id q) \<or> \<not> given (po_objective q)
      then Inl (PlanPatchError ''incomplete add'')
      else if or_empty (po_ref q) \<in> set (dict_keys refs) then Inl (PlanPatchError ''ref twice'')
      else (case dict_get agents (or_empty (po_agent_id q)) of
          None \<Rightarrow> Inl (PlanPatchError ''agent not registered'')
        | Some d \<Rightarrow>
            let deps = map (\<lambda>r. case dict_get refs r of None \<Rightarrow> r | Some i \<Rightarrow> i) (po_depends_on q);
                i = ''wi-repair-'' @ pad2 n @ ''-'' @ ad_output_key d
            in if \<not> set deps \<subseteq> set (map snd refs) then Inl (PlanPatchError ''dependency'')
               else if i \<in> set original \<or> i \<in> set (map snd refs) then Inl (PlanPatchError ''id conflict'')
               else bindE (added_item sha ''repair'' n d q deps) (\<lambda>v.
                    bindE (repair_items sha agents original (n + 1) (dict_put (or_empty (po_ref q)) i refs) qs) (\<lambda>vs.
                    Inr (v # vs)))))"

definition apply_repair_patch ::
  "(string \<Rightarrow> string) \<Rightarrow> (string, agent_definition) dict \<Rightarrow> string option \<Rightarrow> plan \<Rightarrow> repair_patch \<Rightarrow> plan result" where
  "apply_repair_patch sha agents new_id p rp =
     bindE (raises
       [(rp_base_plan_id rp \<noteq> pl_id p, PlanPatchError ''base plan''),
        (\<not> set (rp_repair_scope rp) \<subseteq> set (map wi_id (pl_work_items p)), PlanPatchError ''repair_scope'')]) (\<lambda>_.
     bindE (repair_items sha agents (map wi_id (pl_work_items p)) 1 [] (rp_operations rp)) (\<lambda>added.
     mk_plan \<lparr>pl_id = (if given new_id then or_empty new_id else pl_id p @ ''-repair''), pl_goal = pl_goal p,
       pl_work_items = added, pl_template_id = None, pl_process_id = ''software_delivery'',
       pl_trace = pl_trace p, pl_validation_scope = ''full_delivery''\<rparr>))"

end
