(* ===== verification/Plan_Patch_Laws.thy ===== *)
theory Plan_Patch_Laws
  imports Plan_Patch Run_Laws
begin

text \<open>
  The laws of plan patches: what a local patch may not touch, which results it invalidates, and
  that a repair patch stays in the window the control plane gave it.
\<close>

section \<open>Rebuilt items\<close>

text \<open>Reconstructing an item changes its tools and its seal only.\<close>

text \<open>The same item but for its objective, its tools and whether its seal is an old one.\<close>

definition same_contract :: "work_item \<Rightarrow> work_item \<Rightarrow> bool" where
  "same_contract w v \<longleftrightarrow> v\<lparr>wi_objective := wi_objective w, wi_required_tools := wi_required_tools w,
     wi_legacy_digest := wi_legacy_digest w\<rparr> = w"

lemma same_contract_refl [simp]: "same_contract w w"
  by (simp add: same_contract_def)

lemma modified_same_contract:
  assumes "mk_work_item sha (modified_item q w) = Inr v" "mk_work_item sha w0 = Inr w"
  shows "same_contract w v \<and> wi_id v = wi_id w"
proof -
  have "wi_artifact_key w \<noteq> None" "wi_output_kind w \<noteq> None"
    using mk_work_item_result(6,7) [OF assms(2)] by (auto simp: blank_opt_def split: option.splits)
  moreover have "wi_contract_digest w \<noteq> None"
    using mk_work_item_result(11) [OF assms(2)] by (auto simp: sealed_def)
  moreover obtain k ts qq d l where v: "v = (modified_item q w)\<lparr>wi_artifact_key := k, wi_required_tools := ts,
      wi_output_kind := qq, wi_contract_digest := d, wi_legacy_digest := l\<rparr>"
    using mk_work_item_shape(1) [OF assms(1)] by metis
  moreover have "wi_artifact_key (modified_item q w) = wi_artifact_key w"
    "wi_output_kind (modified_item q w) = wi_output_kind w" "wi_contract_digest (modified_item q w) = wi_contract_digest w"
    by (simp_all add: modified_item_def)
  ultimately have "k = wi_artifact_key w" "qq = wi_output_kind w" "d = wi_contract_digest w"
    using mk_work_item_shape(2-4) [OF assms(1)] by simp_all
  then show ?thesis by (simp add: v modified_item_def same_contract_def)
qed

section \<open>The items of a patched plan\<close>

definition kept_as :: "(string \<Rightarrow> string) \<Rightarrow> plan_patch \<Rightarrow> work_item \<Rightarrow> work_item \<Rightarrow> bool" where
  "kept_as sha pp w v \<longleftrightarrow> wi_id w \<notin> set (removed_ids pp) \<and> (case modification_of pp w of
     None \<Rightarrow> v = w | Some q \<Rightarrow> mk_work_item sha (modified_item q w) = Inr v)"

lemma kept_items_rel:
  "kept_items sha pp ws = Inr vs \<Longrightarrow>
     list_all2 (kept_as sha pp) (filter (\<lambda>w. wi_id w \<notin> set (removed_ids pp)) ws) vs"
proof (induction ws arbitrary: vs)
  case (Cons w ws)
  show ?case
  proof (cases "wi_id w \<in> set (removed_ids pp)")
    case True
    then show ?thesis using Cons by simp
  next
    case False
    then show ?thesis using Cons by (cases "modification_of pp w") (auto simp: kept_as_def)
  qed
qed simp

lemma add_items_length: "add_items sha agents n existing qs = Inr vs \<Longrightarrow> length vs = length qs"
  by (induction qs arbitrary: n existing vs) (auto split: if_splits option.splits)

lemma apply_patch_cases:
  assumes "apply_patch sha agents completed allow b p pp = Inr a"
  obtains kept added where
    "check_scope p pp = Inr ()" "check_budget b p pp = Inr ()" "check_operations p pp completed allow = Inr ()"
    "kept_items sha pp (pl_work_items p) = Inr kept"
    "add_items sha agents 1 (map wi_id kept) (operations_of P_ADD pp) = Inr added"
    "pl_work_items (ap_plan a) = kept @ added" "pl_validation_scope (ap_plan a) = ''full_delivery''"
    "mk_plan (ap_plan a) = Inr (ap_plan a)"
    "ap_invalidated a = sort (dict_fromkeys (all_dependents (kept @ added)
         (removed_ids pp @ map (or_empty \<circ> po_work_item_id) (operations_of P_MODIFY pp) @ map wi_id added)))"
    "ap_removed a = sort (removed_ids pp)"
proof -
  obtain kept added p' where st: "check_scope p pp = Inr ()" "check_budget b p pp = Inr ()"
      "check_operations p pp completed allow = Inr ()" "kept_items sha pp (pl_work_items p) = Inr kept"
      "add_items sha agents 1 (map wi_id kept) (operations_of P_ADD pp) = Inr added"
    and p': "mk_plan \<lparr>pl_id = pl_id p @ ''-patch-'' @ nat_str (length (pp_operations pp)), pl_goal = pl_goal p,
         pl_work_items = kept @ added, pl_template_id = pl_template_id p, pl_process_id = ''software_delivery'',
         pl_trace = pl_trace p, pl_validation_scope = ''full_delivery''\<rparr> = Inr p'"
    and a: "a = \<lparr>ap_plan = p', ap_invalidated = sort (dict_fromkeys (all_dependents (kept @ added)
         (removed_ids pp @ map (or_empty \<circ> po_work_item_id) (operations_of P_MODIFY pp) @ map wi_id added))),
       ap_added = filter (prefix ''wi-patch-'') (map wi_id (kept @ added)), ap_removed = sort (removed_ids pp),
       ap_dependency_changes = count_if (changes_dependencies p) (operations_of P_MODIFY pp)\<rparr>"
    using assms unfolding apply_patch_def bindE_Inr_unit by auto
  show thesis by (rule that [of kept added]) (use st p' mk_plan_checks(1) [OF p'] in \<open>simp_all add: a\<close>)
qed

section \<open>Dependents\<close>

lemma all_dependents_unfold:
  "next_dependents items changed = [] \<Longrightarrow> all_dependents items changed = changed"
  "next_dependents items changed \<noteq> [] \<Longrightarrow>
     all_dependents items changed = all_dependents items (changed @ next_dependents items changed)"
  by (subst all_dependents.simps, simp add: Let_def)+

lemma next_dependents_edges:
  "set (next_dependents items changed) = {y. y \<notin> set changed \<and> (\<exists>x \<in> set changed. (x, y) \<in> dep_edges items)}"
  by (auto simp: next_dependents_def dep_edges_def list_ex_iff)

lemma set_all_dependents: "set (all_dependents items changed) = (dep_edges items)\<^sup>* `` set changed"
proof (induction items changed rule: all_dependents.induct)
  case (1 items changed)
  show ?case
  proof (cases "next_dependents items changed = []")
    case True
    then have "dep_edges items `` set changed \<subseteq> set changed"
      using next_dependents_edges [of items changed] by auto
    then show ?thesis using True by (simp add: all_dependents_unfold(1) Image_closed_trancl)
  next
    case False
    then have "set (all_dependents items changed) = (dep_edges items)\<^sup>* `` set (changed @ next_dependents items changed)"
      using "1.IH" [OF refl False] by (simp add: all_dependents_unfold(2))
    also have "\<dots> = (dep_edges items)\<^sup>* `` set changed"
      by (auto simp: next_dependents_edges intro: converse_rtrancl_into_rtrancl)
    finally show ?thesis .
  qed
qed

section \<open>Local patches\<close>

lemma list_all2_left: "list_all2 R xs ys \<Longrightarrow> x \<in> set xs \<Longrightarrow> \<exists>y \<in> set ys. R x y"
  by (induction rule: list_all2_induct) auto

lemma list_all2_right: "list_all2 R xs ys \<Longrightarrow> y \<in> set ys \<Longrightarrow> \<exists>x \<in> set xs. R x y"
  by (induction rule: list_all2_induct) auto

lemma kept_items_member:
  assumes "kept_items sha pp ws = Inr vs" "w \<in> set ws" "wi_id w \<notin> set (removed_ids pp)"
  shows "\<exists>v \<in> set vs. kept_as sha pp w v"
proof -
  have "w \<in> set (filter (\<lambda>w. wi_id w \<notin> set (removed_ids pp)) ws)" using assms(2,3) by simp
  with kept_items_rel [OF assms(1)] show ?thesis by (rule list_all2_left)
qed

lemma checked_targets:
  assumes "check_operations p pp completed allow = Inr ()" "q \<in> set (pp_operations pp)" "po_operation q \<noteq> P_ADD"
  shows "\<exists>i. po_work_item_id q = Some i \<and> i \<noteq> [] \<and> plan_item p i \<noteq> None \<and> (i \<in> completed \<longrightarrow> allow)"
proof -
  have "q \<in> set (operations_of P_MODIFY pp @ operations_of P_REMOVE pp)"
    using assms(2,3) by (cases "po_operation q") (auto simp: operations_of_def)
  then have "check_target p completed allow q = Inr ()"
    using assms(1) by (auto simp: check_operations_def for_each_Inr_iff simp del: set_append)
  then show ?thesis by (cases "po_work_item_id q") (auto simp: check_target_def given_def or_empty_def)
qed

lemma completed_untouched:
  assumes "check_operations p pp completed allow = Inr ()" "wi_id w \<in> completed" "\<not> allow"
  shows "wi_id w \<notin> set (removed_ids pp) \<and> modification_of pp w = None"
proof -
  have no: "po_work_item_id q \<noteq> Some (wi_id w)" if "q \<in> set (pp_operations pp)" "po_operation q \<noteq> P_ADD" for q
    using checked_targets [OF assms(1) that] assms(2,3) by auto
  then have "modification_of pp w = None" by (auto simp: modification_of_def find_None_iff operations_of_def)
  moreover have "wi_id w \<notin> set (removed_ids pp)"
  proof
    assume "wi_id w \<in> set (removed_ids pp)"
    then obtain q where "q \<in> set (pp_operations pp)" "po_operation q = P_REMOVE" "given (po_work_item_id q)"
      "or_empty (po_work_item_id q) = wi_id w"
      by (auto simp: removed_ids_def operations_of_def)
    then show False using no [of q] by (auto simp: given_def or_empty_def split: option.splits)
  qed
  ultimately show ?thesis by blast
qed

lemma removed_within_budget:
  assumes "check_budget b p pp = Inr ()"
  shows "int (length (removed_ids pp)) \<le> cb_max_removed b"
proof -
  have "length (removed_ids pp) \<le> length (operations_of P_REMOVE pp)" by (simp add: removed_ids_def)
  then show ?thesis using assms by (simp add: check_budget_def Let_def)
qed

lemma set_shuffle: "A \<inter> K = {} \<Longrightarrow> P \<subseteq> K \<union> R \<Longrightarrow> K \<subseteq> P \<Longrightarrow> R \<subseteq> T \<Longrightarrow> T \<union> A = T \<union> (K \<union> A - P)"
  by blast

lemma touched_ids:
  assumes "check_operations p pp completed allow = Inr ()"
  shows "set (removed_ids pp) \<union> set (map (or_empty \<circ> po_work_item_id) (operations_of P_MODIFY pp))
    = {i. \<exists>q. q \<in> set (pp_operations pp) \<and> po_operation q \<noteq> P_ADD \<and> po_work_item_id q = Some i}"
proof (intro equalityI subsetI)
  fix i assume "i \<in> set (removed_ids pp) \<union> set (map (or_empty \<circ> po_work_item_id) (operations_of P_MODIFY pp))"
  then obtain q where q: "q \<in> set (pp_operations pp)" "po_operation q \<noteq> P_ADD" "or_empty (po_work_item_id q) = i"
    by (auto simp: removed_ids_def operations_of_def)
  then show "i \<in> {i. \<exists>q. q \<in> set (pp_operations pp) \<and> po_operation q \<noteq> P_ADD \<and> po_work_item_id q = Some i}"
    using checked_targets [OF assms q(1,2)] by (auto simp: or_empty_def)
next
  fix i assume "i \<in> {i. \<exists>q. q \<in> set (pp_operations pp) \<and> po_operation q \<noteq> P_ADD \<and> po_work_item_id q = Some i}"
  then obtain q where q: "q \<in> set (pp_operations pp)" "po_operation q \<noteq> P_ADD" "po_work_item_id q = Some i" by blast
  then have "given (po_work_item_id q)" using checked_targets [OF assms q(1,2)] by (auto simp: given_def or_empty_def)
  then show "i \<in> set (removed_ids pp) \<union> set (map (or_empty \<circ> po_work_item_id) (operations_of P_MODIFY pp))"
    using q by (cases "po_operation q") (force simp: removed_ids_def operations_of_def or_empty_def)+
qed


text \<open>A local patch invalidates exactly the items it removes, modifies or adds and, in the patched plan,
  everything that depends on them, directly or not.\<close>

theorem patch_invalidates_dependents:
  assumes "apply_patch sha agents completed allow b p pp = Inr a"
  shows "set (ap_invalidated a) = (dep_edges (pl_work_items (ap_plan a)))\<^sup>* ``
    ({i. \<exists>q. q \<in> set (pp_operations pp) \<and> po_operation q \<noteq> P_ADD \<and> po_work_item_id q = Some i}
      \<union> (wi_id ` set (pl_work_items (ap_plan a)) - wi_id ` set (pl_work_items p)))"
proof -
  obtain kept added where c: "check_operations p pp completed allow = Inr ()"
    "kept_items sha pp (pl_work_items p) = Inr kept"
    "add_items sha agents 1 (map wi_id kept) (operations_of P_ADD pp) = Inr added"
    "pl_work_items (ap_plan a) = kept @ added" "mk_plan (ap_plan a) = Inr (ap_plan a)"
    "ap_invalidated a = sort (dict_fromkeys (all_dependents (kept @ added)
         (removed_ids pp @ map (or_empty \<circ> po_work_item_id) (operations_of P_MODIFY pp) @ map wi_id added)))"
    by (rule apply_patch_cases [OF assms])
  let ?touched = "{i. \<exists>q. q \<in> set (pp_operations pp) \<and> po_operation q \<noteq> P_ADD \<and> po_work_item_id q = Some i}"
  have touched: "set (removed_ids pp) \<union> set (map (or_empty \<circ> po_work_item_id) (operations_of P_MODIFY pp)) = ?touched"
    by (rule touched_ids [OF c(1)])
  have same: "wi_id v = wi_id w" if "kept_as sha pp w v" for w v
    using that mk_work_item_id [of sha _ v] by (auto simp: kept_as_def modified_item_def split: option.splits)
  have kept: "wi_id ` set kept \<subseteq> wi_id ` set (pl_work_items p)"
    using list_all2_right [OF kept_items_rel [OF c(2)]] same by fastforce
  have "wi_id ` set added \<inter> wi_id ` set kept = {}" using mk_plan_checks(2) [OF c(5)] c(4) by auto
  moreover have "wi_id ` set (pl_work_items p) \<subseteq> wi_id ` set kept \<union> set (removed_ids pp)"
  proof
    fix i assume "i \<in> wi_id ` set (pl_work_items p)"
    then obtain w where w: "w \<in> set (pl_work_items p)" "wi_id w = i" by blast
    show "i \<in> wi_id ` set kept \<union> set (removed_ids pp)"
    proof (cases "i \<in> set (removed_ids pp)")
      case False
      then obtain v where "v \<in> set kept" "kept_as sha pp w v" using kept_items_member [OF c(2) w(1)] w(2) by blast
      then show ?thesis using same [of w v] w(2) by (metis Un_iff image_eqI)
    qed simp
  qed
  ultimately have "?touched \<union> wi_id ` set added
      = ?touched \<union> (wi_id ` set (pl_work_items (ap_plan a)) - wi_id ` set (pl_work_items p))"
    using kept touched unfolding c(4) set_append image_Un by (intro set_shuffle) blast+
  then show ?thesis
    using touched by (simp add: c(6) set_all_dependents c(4) Un_assoc [symmetric])
qed

section \<open>Repair patches\<close>

text \<open>C31. The control plane owns the repair window: whatever the model answered, the object that goes to
  validation carries exactly the trusted window, and an answer that names a work item outside it
  is refused rather than cut down.\<close>

theorem repair_window_trusted:
  assumes "canonical_repair base scope raw = Inr j" "scope \<noteq> []"
  shows "json_get j ''repair_scope'' = Some (jstrs scope)
    \<and> set (map py_str (list_items (json_get_null raw ''repair_scope''))) \<subseteq> set scope"
proof -
  obtain kvs where raw: "raw = JObj kvs" using assms(1) by (cases raw) (auto simp: canonical_repair_def)
  let ?k = "with_operations (with_base_plan base kvs)"
  obtain k1 where w: "with_scope scope ?k = Inr k1"
    and j: "j = JObj (if dict_get k1 ''verification'' = None
      then dict_put ''verification'' (jstrs [''rerun the failed check'']) k1 else k1)"
    using assms(1) by (auto simp: canonical_repair_def raw)
  have "json_get_null (JObj ?k) ''repair_scope'' = json_get_null raw ''repair_scope''"
    by (simp add: raw json_get_null_def json_get_def with_operations_def with_base_plan_def dict.get_put
        split: option.split json.split)
  then show ?thesis
    using w assms(2) unfolding j with_scope_def Let_def
    by (auto simp: json_get_def dict.get_put split: if_splits)
qed

lemma added_item_fields:
  assumes "added_item sha kind n d q deps = Inr w"
  shows "wi_execution_mode w = EXCLUSIVE \<and> wi_allowed_paths w = [] \<and> wi_owned_files w = [] \<and> wi_input_refs w = []
    \<and> wi_id w = ''wi-'' @ kind @ ''-'' @ pad2 n @ ''-'' @ ad_output_key d \<and> wi_dependency_ids w = deps"
proof -
  obtain ds w0 where ds: "mapE (mk_dependency \<circ> planner_dependency) deps = Inr ds" and w0: "mk_work_item sha w0 = Inr w"
    and e: "w0 = (blank_work_item (''wi-'' @ kind @ ''-'' @ pad2 n @ ''-'' @ ad_output_key d) (or_empty (po_agent_id q))
          (or_empty (po_objective q)) (ad_output_key d @ ''_'' @ kind @ ''_'' @ pad2 n))
        \<lparr>wi_artifact_key := Some (if given (ad_artifact_key d) then or_empty (ad_artifact_key d) else ad_output_key d),
         wi_dependencies := ds\<rparr>"
    using assms by (auto simp: added_item_def)
  have "map dep_work_item_id ds = deps"
    using ds by (induction deps arbitrary: ds) (auto simp: mk_dependency_def planner_dependency_def)
  then show ?thesis
    by (subst (1 2 3 4 5 6) mk_work_item_shape(1) [OF w0]) (simp add: e blank_work_item_def wi_dependency_ids_def)
qed

lemma repair_items_fields:
  assumes "repair_items sha agents original n refs qs = Inr ws"
  shows "length ws = length qs \<and> (\<forall>w \<in> set ws. wi_execution_mode w = EXCLUSIVE \<and> wi_allowed_paths w = []
    \<and> wi_owned_files w = [] \<and> wi_input_refs w = [] \<and> wi_id w \<notin> set original)"
  using assms
proof (induction qs arbitrary: n refs ws)
  case (Cons q qs)
  then obtain d v vs refs' deps where "''wi-repair-'' @ pad2 n @ ''-'' @ ad_output_key d \<notin> set original"
    "added_item sha ''repair'' n d q deps = Inr v" "repair_items sha agents original (n + 1) refs' qs = Inr vs"
    "ws = v # vs"
    by (auto simp: Let_def split: if_splits option.splits)
  then show ?case using Cons.IH [of "n + 1" refs' vs] added_item_fields [of sha "''repair''" n d q deps v] by auto
qed simp

text \<open>A repair patch is a plan of its own: exactly one item per operation, none under the name of an
  item of the original plan, all exclusive and without any path grant, file ownership or staged
  input of their own, depending on items of the same repair only.\<close>

theorem repair_plan_confined:
  assumes "apply_repair_patch sha agents new_id p rp = Inr q"
  shows "length (pl_work_items q) = length (rp_operations rp)
    \<and> (\<forall>w. w \<in> set (pl_work_items q) \<longrightarrow> wi_id w \<notin> wi_id ` set (pl_work_items p)
        \<and> wi_execution_mode w = EXCLUSIVE \<and> wi_allowed_paths w = [] \<and> wi_owned_files w = [] \<and> wi_input_refs w = []
        \<and> set (wi_dependency_ids w) \<subseteq> wi_id ` set (pl_work_items q))"
proof -
  obtain ws q0 where ws: "repair_items sha agents (map wi_id (pl_work_items p)) 1 [] (rp_operations rp) = Inr ws"
    and q0: "mk_plan q0 = Inr q" "pl_work_items q0 = ws"
    using assms by (auto simp: apply_repair_patch_def)
  note c = mk_plan_checks [OF q0(1)]
  show ?thesis using repair_items_fields [OF ws] c(1,4) q0(2) by (auto simp: deps_known_def)
qed

section \<open>Witnesses\<close>

definition edit_first :: work_item where
  "edit_first = projr (mk_work_item demo_sha (blank_work_item ''wi-1'' ''doc_agent'' ''draft'' ''notes''))"

definition edit_second :: work_item where
  "edit_second = projr (mk_work_item demo_sha ((blank_work_item ''wi-2'' ''doc_agent'' ''polish'' ''guide'')
     \<lparr>wi_dependencies := [planner_dependency ''wi-1'']\<rparr>))"

definition edit_plan :: plan where
  "edit_plan = demo_plan\<lparr>pl_work_items := [edit_first, edit_second], pl_validation_scope := ''vertical_slice''\<rparr>"

definition edit_agents :: "(string, agent_definition) dict" where
  "edit_agents = [(''doc_agent'', \<lparr>ad_id = ''doc_agent'', ad_domain = ''doc'', ad_description = ''d'',
     ad_output_key = ''doc'', ad_max_parallel_instances = 1, ad_artifact_key = None\<rparr>)]"

definition edit_patch :: plan_patch where
  "edit_patch = \<lparr>pp_base_plan_id = ''plan-1'', pp_operations =
     [\<lparr>po_operation = P_MODIFY, po_work_item_id = Some ''wi-1'', po_ref = None, po_agent_id = None,
       po_objective = Some ''redraft'', po_depends_on = []\<rparr>,
      \<lparr>po_operation = P_ADD, po_work_item_id = None, po_ref = Some ''r'', po_agent_id = Some ''doc_agent'',
       po_objective = Some ''extra'', po_depends_on = [''wi-2'']\<rparr>], pp_repair_scope = []\<rparr>"

definition edited :: applied_patch where
  "edited = projr (apply_patch demo_sha edit_agents {} False default_budget edit_plan edit_patch)"

lemma edited_eq: "apply_patch demo_sha edit_agents {} False default_budget edit_plan edit_patch = Inr edited"
proof -
  have "\<not> isl (apply_patch demo_sha edit_agents {} False default_budget edit_plan edit_patch)" by code_simp
  then show ?thesis by (simp add: edited_def)
qed

lemma edit_plan_sealed: "plan_ok demo_sha edit_plan"
proof -
  have "\<not> isl (mk_plan edit_plan)" by code_simp
  then obtain q where "mk_plan edit_plan = Inr q" by (cases "mk_plan edit_plan") auto
  with mk_plan_checks(1) have "mk_plan edit_plan = Inr edit_plan" by metis
  moreover have "mk_work_item demo_sha edit_first = Inr edit_first" "mk_work_item demo_sha edit_second = Inr edit_second"
    by code_simp+
  ultimately show ?thesis by (simp add: plan_ok_def edit_plan_def)
qed


lemma dep_edge_of:
  "list_ex (\<lambda>w. wi_id w = y \<and> list_ex (\<lambda>d. d = x) (wi_dependency_ids w)) items \<Longrightarrow> (x, y) \<in> dep_edges items"
  by (auto simp: list_ex_iff dep_edges_def)

lemma patch_invalidates_dependents_witness: "''wi-2'' \<in> set (ap_invalidated edited)"
proof -
  have "po_work_item_id (hd (pp_operations edit_patch)) = Some ''wi-1''"
    "po_operation (hd (pp_operations edit_patch)) \<noteq> P_ADD" "hd (pp_operations edit_patch) \<in> set (pp_operations edit_patch)"
    by code_simp+
  then have "''wi-1'' \<in> {i. \<exists>q. q \<in> set (pp_operations edit_patch) \<and> po_operation q \<noteq> P_ADD \<and> po_work_item_id q = Some i}"
    by blast
  moreover have "list_ex (\<lambda>w. wi_id w = ''wi-2'' \<and> list_ex (\<lambda>d. d = ''wi-1'') (wi_dependency_ids w))
      (pl_work_items (ap_plan edited))" by code_simp
  then have "(''wi-1'', ''wi-2'') \<in> (dep_edges (pl_work_items (ap_plan edited)))\<^sup>*"
    by (blast intro: dep_edge_of)
  ultimately show ?thesis using patch_invalidates_dependents [OF edited_eq] by blast
qed

definition repair_answer :: json where
  "repair_answer = JObj [(''rationale'', JStr ''x''), (''repair_scope'', JList [JStr ''wi-1''])]"

definition repair_canonical :: json where
  "repair_canonical = projr (canonical_repair None [''wi-1'', ''wi-2''] repair_answer)"

lemma repair_window_trusted_witness:
  "json_get repair_canonical ''repair_scope'' = Some (jstrs [''wi-1'', ''wi-2''])"
proof -
  have "\<not> isl (canonical_repair None [''wi-1'', ''wi-2''] repair_answer)" by code_simp
  then have "canonical_repair None [''wi-1'', ''wi-2''] repair_answer = Inr repair_canonical"
    by (simp add: repair_canonical_def)
  from repair_window_trusted [OF this] show ?thesis by simp
qed

definition edit_repair :: repair_patch where
  "edit_repair = \<lparr>rp_base_plan_id = ''plan-1'', rp_repair_scope = [''wi-1''], rp_verification = [''run''],
     rp_operations = [\<lparr>po_operation = P_ADD, po_work_item_id = None, po_ref = Some ''r'', po_agent_id = Some ''doc_agent'',
       po_objective = Some ''fix'', po_depends_on = []\<rparr>]\<rparr>"

definition repaired :: plan where
  "repaired = projr (apply_repair_patch demo_sha edit_agents None edit_plan edit_repair)"

lemma repair_plan_confined_witness: "length (pl_work_items repaired) = 1"
proof -
  have "\<not> isl (apply_repair_patch demo_sha edit_agents None edit_plan edit_repair)" by code_simp
  then have "apply_repair_patch demo_sha edit_agents None edit_plan edit_repair = Inr repaired"
    by (simp add: repaired_def)
  from repair_plan_confined [OF this] show ?thesis by (simp add: edit_repair_def)
qed

text \<open>
  Two consequences for the caller: the patched plan of a vertical slice is checked as a full
  delivery, and an item that names its tools itself cannot be modified, its old seal no longer
  fitting the rebuilt item.
\<close>

lemma patch_forgets_validation_scope:
  "pl_validation_scope edit_plan = ''vertical_slice'' \<and> pl_validation_scope (ap_plan edited) = ''full_delivery''"
  by code_simp

definition tool_plan :: plan where
  "tool_plan = demo_plan\<lparr>pl_work_items := [projr (mk_work_item (\<lambda>s. s)
     ((blank_work_item ''wi-1'' ''doc_agent'' ''draft'' ''notes'')\<lparr>wi_required_tools := [''save_doc'']\<rparr>))]\<rparr>"

lemma patch_rejects_item_with_tools:
  "apply_patch (\<lambda>s. s) edit_agents {} False default_budget tool_plan
     (edit_patch\<lparr>pp_operations := [hd (pp_operations edit_patch)]\<rparr>) = Inl (ValueError ''contract_digest'')"
  by code_simp

end
