(* ===== verification/Tool_Catalog.thy ===== *)
theory Tool_Catalog
  imports Grants Write_Guard
begin

text \<open>
  The tools of \<^verbatim>\<open>app/tool_manager/\<close>: tool definitions and their sources (\<^verbatim>\<open>source.py\<close>), the
  catalog of registrations (\<^verbatim>\<open>catalog.py\<close>) and the policy that decides which registrations an
  agent may see (\<^verbatim>\<open>access_policy.py\<close>). The operations of the catalog change it before they
  raise, so they return the exception, if any, together with the catalog. A remote client is a
  handle; what its server lists at the time of a call is a parameter.
\<close>

section \<open>Tools and sources\<close>

record tool_def =
  td_name :: string
  td_description :: string
  td_parameters :: json
  td_modes :: "string list option"
  td_completion :: string

definition name_char :: "char \<Rightarrow> bool" where
  "name_char c \<longleftrightarrow> (CHR ''A'' \<le> c \<and> c \<le> CHR ''Z'') \<or> (CHR ''a'' \<le> c \<and> c \<le> CHR ''z'') \<or> is_digit c \<or> c = CHR ''_''"

definition is_identifier :: "string \<Rightarrow> bool" where
  "is_identifier n \<longleftrightarrow> n \<noteq> [] \<and> list_all name_char n \<and> \<not> is_digit (hd n)"

text \<open>\<open>ToolDef.__post_init__\<close>; name and description are strings by type.\<close>

definition mk_tool_def :: "tool_def \<Rightarrow> tool_def result" where
  "mk_tool_def d =
     (let ps = td_parameters d;
          properties = (case json_get ps ''properties'' of None \<Rightarrow> JObj [] | Some v \<Rightarrow> v);
          required = (case json_get ps ''required'' of None \<Rightarrow> JList [] | Some v \<Rightarrow> v)
      in bindE (raises
        [(\<not> is_identifier (td_name d), ValueError ''name''),
         (\<not> is_obj ps, ValueError ''parameters''),
         (case json_get ps ''type'' of None \<Rightarrow> False | Some t \<Rightarrow> t \<noteq> JStr ''object'', ValueError ''parameters root type''),
         (\<not> is_obj properties, ValueError ''properties''),
         (\<not> is_list required \<or> \<not> list_all is_str (list_items required), ValueError ''required''),
         (\<not> set (map py_str (list_items required)) \<subseteq> set (dict_keys (obj_items properties)), ValueError ''unknown required''),
         (case td_modes d of None \<Rightarrow> False
          | Some ms \<Rightarrow> ms = [] \<or> list_ex (\<lambda>m. m \<notin> {''exclusive'', ''partitioned'', ''integration'', ''quality_gate''}) ms,
           ValueError ''execution_modes''),
         (td_completion d \<notin> {''continue'', ''final''}, ValueError ''completion_policy'')]) (\<lambda>_. Inr d))"

datatype exposure = ALWAYS | ON_DEMAND | CONFIRM | DENIED

text \<open>A local tool set, one whose functions need the trusted context, or a remote client.\<close>

datatype tool_source = LocalTools "tool_def list" | ContextTools "tool_def list" | RemoteTools "nat option"

fun is_dynamic :: "tool_source \<Rightarrow> bool" where
  "is_dynamic (RemoteTools _) = True"
| "is_dynamic _ = False"

definition mk_tool_set :: "tool_def list \<Rightarrow> tool_source result" where
  "mk_tool_set defs = bindE (raises [(\<not> distinct (map td_name defs), ValueError ''duplicate tool'')]) (\<lambda>_. Inr (LocalTools defs))"

text \<open>\<open>MCPToolSource._to_tool_def\<close>: the declaration of one remote tool.\<close>

definition to_tool_def :: "json \<Rightarrow> tool_def result" where
  "to_tool_def j =
     (let schema = (case json_get j ''inputSchema'' of Some s \<Rightarrow> s | None \<Rightarrow>
          (case json_get j ''parameters'' of Some s \<Rightarrow> s
           | None \<Rightarrow> JObj [(''type'', JStr ''object''), (''properties'', JObj [])]));
          description = (case json_get j ''description'' of None \<Rightarrow> JStr [] | Some d \<Rightarrow> d)
      in if \<not> is_obj j \<or> \<not> is_str (json_get_null j ''name'') then Inl (ValueError ''remote tool name'')
         else if \<not> is_obj schema then Inl (ValueError ''inputSchema'')
         else if \<not> is_str description \<and> is_identifier (py_str (json_get_null j ''name'')) then Inl (ValueError ''description'')
         else mk_tool_def \<lparr>td_name = py_str (json_get_null j ''name''), td_description = py_str description,
           td_parameters = schema, td_modes = None, td_completion = ''continue''\<rparr>)"

fun discover :: "(nat \<Rightarrow> json list result) \<Rightarrow> tool_source \<Rightarrow> tool_def list result" where
  "discover listing (LocalTools defs) = Inr defs"
| "discover listing (ContextTools defs) = Inr defs"
| "discover listing (RemoteTools None) = Inr []"
| "discover listing (RemoteTools (Some c)) = bindE (listing c) (mapE to_tool_def)"

section \<open>The catalog\<close>

record source_reg =
  sr_domain :: string
  sr_capability :: string
  sr_toolset :: string
  sr_name :: string
  sr_source :: tool_source
  sr_exposure :: exposure

record tool_reg =
  tr_definition :: tool_def
  tr_domain :: string
  tr_capability :: string
  tr_toolset :: string
  tr_source_name :: string
  tr_source :: tool_source
  tr_exposure :: exposure

type_synonym tool_key = "string \<times> string"

record tool_catalog =
  ct_sources :: "(tool_key, source_reg) dict"
  ct_static :: "(tool_key, tool_reg) dict"
  ct_dynamic :: "(tool_key, tool_reg) dict"

definition empty_catalog :: tool_catalog where
  "empty_catalog = \<lparr>ct_sources = [], ct_static = [], ct_dynamic = []\<rparr>"

definition reg_key :: "tool_reg \<Rightarrow> tool_key" where
  "reg_key r = (tr_domain r, td_name (tr_definition r))"

definition registration_of :: "source_reg \<Rightarrow> tool_def \<Rightarrow> tool_reg" where
  "registration_of s d = \<lparr>tr_definition = d, tr_domain = sr_domain s, tr_capability = sr_capability s,
     tr_toolset = sr_toolset s, tr_source_name = sr_name s, tr_source = sr_source s, tr_exposure = sr_exposure s\<rparr>"

text \<open>\<open>{**static, **dynamic}\<close>\<close>

definition all_tools :: "tool_catalog \<Rightarrow> (tool_key, tool_reg) dict" where
  "all_tools c = foldl (\<lambda>d (k, v). dict_put k v d) (ct_static c) (ct_dynamic c)"

definition put_tool :: "bool \<Rightarrow> tool_reg \<Rightarrow> tool_catalog \<Rightarrow> tool_catalog" where
  "put_tool dyn r c = (if dyn then c\<lparr>ct_dynamic := dict_put (reg_key r) r (ct_dynamic c)\<rparr>
     else c\<lparr>ct_static := dict_put (reg_key r) r (ct_static c)\<rparr>)"

fun register_discovered ::
  "bool \<Rightarrow> source_reg \<Rightarrow> tool_def list \<Rightarrow> tool_catalog \<Rightarrow> err option \<times> tool_catalog" where
  "register_discovered dyn s [] c = (None, c)"
| "register_discovered dyn s (d # ds) c =
     (let r = registration_of s d in
      case dict_get (all_tools c) (reg_key r) of
        Some e \<Rightarrow> if tr_source_name e \<noteq> sr_name s then (Some (ValueError ''tool name conflict''), c)
                  else register_discovered dyn s ds (put_tool dyn r c)
      | None \<Rightarrow> register_discovered dyn s ds (put_tool dyn r c))"

definition catalog_register ::
  "(nat \<Rightarrow> json list result) \<Rightarrow> source_reg \<Rightarrow> tool_catalog \<Rightarrow> err option \<times> tool_catalog" where
  "catalog_register listing s c =
     (let key = (sr_domain s, sr_name s) in
      if dict_get (ct_sources c) key \<noteq> None then (Some (ValueError ''source already registered''), c)
      else let c1 = c\<lparr>ct_sources := dict_put key s (ct_sources c)\<rparr> in
        if is_dynamic (sr_source s) then (None, c1)
        else (case discover listing (sr_source s) of
            Inl e \<Rightarrow> (Some e, c1)
          | Inr defs \<Rightarrow> register_discovered False s defs c1))"

definition remove_source_tools :: "source_reg \<Rightarrow> (tool_key, tool_reg) dict \<Rightarrow> (tool_key, tool_reg) dict" where
  "remove_source_tools s tools = filter (\<lambda>(_, r). \<not> (tr_domain r = sr_domain s \<and> tr_source_name r = sr_name s)) tools"

text \<open>Any failure of one source ends the refresh with \<open>ToolDiscoveryError\<close>, a \<open>RuntimeError\<close>.\<close>

definition refresh_source ::
  "(nat \<Rightarrow> json list result) \<Rightarrow> source_reg \<Rightarrow> tool_catalog \<Rightarrow> err option \<times> tool_catalog" where
  "refresh_source listing s c = (case discover listing (sr_source s) of
      Inl _ \<Rightarrow> (Some (RuntimeError ''ToolDiscoveryError''), c)
    | Inr defs \<Rightarrow>
        (case register_discovered True s defs (c\<lparr>ct_dynamic := remove_source_tools s (ct_dynamic c)\<rparr>) of
           (None, c1) \<Rightarrow> (None, c1)
         | (Some _, c1) \<Rightarrow> (Some (RuntimeError ''ToolDiscoveryError''), c1)))"

fun refresh_sources ::
  "(nat \<Rightarrow> json list result) \<Rightarrow> string \<Rightarrow> string list \<Rightarrow> (tool_key \<times> source_reg) list \<Rightarrow> tool_catalog
   \<Rightarrow> err option \<times> tool_catalog" where
  "refresh_sources listing domain names [] c = (None, c)"
| "refresh_sources listing domain names ((key, s) # ss) c =
     (if fst key \<noteq> domain \<or> sr_name s \<notin> set names \<or> \<not> is_dynamic (sr_source s)
      then refresh_sources listing domain names ss c
      else (case refresh_source listing s c of
          (None, c1) \<Rightarrow> refresh_sources listing domain names ss c1
        | (Some e, c1) \<Rightarrow> (Some e, c1)))"

definition list_registrations ::
  "(nat \<Rightarrow> json list result) \<Rightarrow> string \<Rightarrow> string list \<Rightarrow> tool_catalog \<Rightarrow> tool_reg list result \<times> tool_catalog" where
  "list_registrations listing domain names c =
     (case refresh_sources listing domain names (ct_sources c) c of
        (Some e, c1) \<Rightarrow> (Inl e, c1)
      | (None, c1) \<Rightarrow> (Inr (map snd (filter (\<lambda>((d, _), _). d = domain) (all_tools c1))), c1))"

definition find_sources :: "string \<Rightarrow> string \<Rightarrow> bool \<Rightarrow> tool_catalog \<Rightarrow> source_reg list" where
  "find_sources domain capability dynamic_only c = map snd (filter (\<lambda>((d, _), s). d = domain
     \<and> sr_capability s = capability \<and> (\<not> dynamic_only \<or> is_dynamic (sr_source s))) (ct_sources c))"

definition domains :: "tool_catalog \<Rightarrow> string list" where
  "domains c = dict_fromkeys (map (fst \<circ> fst) (ct_sources c))"

section \<open>The access policy\<close>

text \<open>Active grants by identifier; the clock is read once per operation.\<close>

type_synonym active_grants = "(string, capability_grant) dict"

record clock =
  ck_instant :: "string \<Rightarrow> timestamp"
  ck_now :: int

definition live :: "clock \<Rightarrow> capability_grant \<Rightarrow> bool result" where
  "live k g = grant_active (ck_instant k) (ck_now k) g"

definition policy_activate :: "clock \<Rightarrow> capability_grant \<Rightarrow> active_grants \<Rightarrow> active_grants result" where
  "policy_activate k g a = bindE (live k g) (\<lambda>b. Inr (if b then dict_put (cg_grant_id g) g a else a))"

definition policy_deactivate :: "string \<Rightarrow> active_grants \<Rightarrow> active_grants" where
  "policy_deactivate i a = dict_pop i a"

fun active_source_names :: "clock \<Rightarrow> active_grants \<Rightarrow> string list result" where
  "active_source_names k [] = Inr []"
| "active_source_names k ((_, g) # gs) = bindE (live k g) (\<lambda>b. bindE (active_source_names k gs) (\<lambda>ns.
     Inr (if b then cg_source_name g # ns else ns)))"

definition grant_matches :: "clock \<Rightarrow> tool_reg \<Rightarrow> execution_context option \<Rightarrow> capability_grant \<Rightarrow> bool result" where
  "grant_matches k r ctx g = bindE (live k g) (\<lambda>b. Inr (b
     \<and> tr_capability r = cg_capability g \<and> tr_source_name r = cg_source_name g
     \<and> (case ctx of
          None \<Rightarrow> False
        | Some c \<Rightarrow> cg_scope g = ''project'' \<or> cg_trace_id g = ec_trace_id c
            \<and> (cg_scope g = ''trace'' \<or> cg_scope g = ''node'' \<and> cg_work_item_id g = Some (ec_work_item_id c)))))"

fun any_matches :: "clock \<Rightarrow> tool_reg \<Rightarrow> execution_context option \<Rightarrow> active_grants \<Rightarrow> bool result" where
  "any_matches k r ctx [] = Inr False"
| "any_matches k r ctx ((_, g) # gs) = bindE (grant_matches k r ctx g) (\<lambda>b.
     if b then Inr True else any_matches k r ctx gs)"

definition is_visible :: "clock \<Rightarrow> active_grants \<Rightarrow> tool_reg \<Rightarrow> execution_context option \<Rightarrow> bool result" where
  "is_visible k a r ctx = (case tr_exposure r of
      ALWAYS \<Rightarrow> Inr True
    | ON_DEMAND \<Rightarrow> any_matches k r ctx a
    | _ \<Rightarrow> Inr False)"

end
