(* ===== verification/Tool_Gateway.thy ===== *)
theory Tool_Gateway
  imports Tool_Catalog
begin

text \<open>
  \<^verbatim>\<open>app/tool_manager/gateway.py\<close>: which tools an agent is given in an execution context, the
  preflight of a work item's tool contract, and the call of a tool through
  \<^verbatim>\<open>crewai_adapter.py\<close>, which asks the policy again. The argument schemas the adapter builds for
  the agent library are not modelled. The execution context carries the architecture
  configuration of \<^verbatim>\<open>architecture_execution_config.py\<close>.
\<close>

section \<open>The architecture configuration\<close>

record architecture_config =
  ac_mode :: string
  ac_schema_version :: int
  ac_scheme :: string
  ac_candidate_strategy :: string

definition default_architecture :: architecture_config where
  "default_architecture = \<lparr>ac_mode = ''baseline'', ac_schema_version = 1, ac_scheme = ''legacy'',
     ac_candidate_strategy = ''all_or_nothing''\<rparr>"

definition mk_architecture_config :: "architecture_config \<Rightarrow> architecture_config result" where
  "mk_architecture_config a = bindE (raises
     [(ac_scheme a \<notin> {''D'', ''legacy''}, ValueError ''scheme''),
      (ac_mode a \<notin> {''baseline'', ''checkpointed''}, ValueError ''mode''),
      (ac_schema_version a \<noteq> 1, ValueError ''schema''),
      (ac_candidate_strategy a \<notin> {''all_or_nothing'', ''incremental_candidate''}, ValueError ''strategy'')]) (\<lambda>_. Inr a)"

definition recursive_enabled :: "architecture_config \<Rightarrow> bool" where
  "recursive_enabled a \<longleftrightarrow> ac_scheme a = ''D''"

definition checkpoints_enabled :: "architecture_config \<Rightarrow> bool" where
  "checkpoints_enabled a \<longleftrightarrow> ac_mode a = ''checkpointed''"

definition supports_checkpoints :: "architecture_config \<Rightarrow> string \<Rightarrow> string \<Rightarrow> string option \<Rightarrow> bool" where
  "supports_checkpoints a agent mode slot \<longleftrightarrow> checkpoints_enabled a \<and> agent = ''architecture_agent''
     \<and> mode = ''partitioned'' \<and> (prefix ''module-'' (or_empty slot) \<or> prefix ''implementation-'' (or_empty slot))"

definition intermediate_tools :: "architecture_config \<Rightarrow> string list" where
  "intermediate_tools a = (if checkpoints_enabled a
     then [''load_architecture_intermediate'', ''write_architecture_intermediate''] else [])"

text \<open>\<open>_tool_allowlist_for_attempt\<close> of \<^verbatim>\<open>runner.py\<close>: the narrowing of one attempt.\<close>

definition allowlist_for_attempt :: "work_item \<Rightarrow> int \<Rightarrow> bool \<Rightarrow> bool \<Rightarrow> architecture_config \<Rightarrow> string list" where
  "allowlist_for_attempt w attempt prior_failure prior_abort a =
     (let tools = allowlist_for (wi_agent_id w) (wi_execution_mode w) (wi_slot w) (Some (wi_id w))
          (wi_stage_id w) (wi_publish_target w)
      in if tools \<noteq> [] then
           (if supports_checkpoints a (wi_agent_id w) (mode_value (wi_execution_mode w)) (wi_slot w)
            then tools @ intermediate_tools a else tools)
         else if attempt > 1 \<and> wi_agent_id w = ''architecture_contract_agent'' \<and> wi_execution_mode w = EXCLUSIVE
         then [''save_implementation_contract'']
         else if (attempt > 2 \<or> prior_failure \<or> prior_abort) \<and> wi_agent_id w = ''code_agent''
            \<and> wi_execution_mode w = PARTITIONED
         then [''write_staged_code_file'']
         else [])"

section \<open>The gateway\<close>

record gateway =
  gw_catalog :: tool_catalog
  gw_grants :: active_grants

record gateway_env =
  gv_listing :: "nat \<Rightarrow> json list result"
  gv_clock :: clock

record call_context =
  cc_context :: execution_context
  cc_architecture :: architecture_config

definition source_for :: "string \<Rightarrow> string \<Rightarrow> tool_source \<Rightarrow> string option \<Rightarrow> exposure \<Rightarrow> source_reg" where
  "source_for domain name source capability x = \<lparr>sr_domain = domain,
     sr_capability = (if or_empty capability \<noteq> [] then or_empty capability else domain), sr_toolset = name,
     sr_name = name, sr_source = source, sr_exposure = x\<rparr>"

definition register_toolset ::
  "gateway_env \<Rightarrow> string \<Rightarrow> string \<Rightarrow> tool_source \<Rightarrow> string option \<Rightarrow> exposure \<Rightarrow> gateway \<Rightarrow> err option \<times> gateway" where
  "register_toolset v domain name source capability x g =
     (if is_dynamic source then (Some (ValueError ''dynamic source''), g)
      else (case catalog_register (gv_listing v) (source_for domain name source capability x) (gw_catalog g) of
          (e, c) \<Rightarrow> (e, g\<lparr>gw_catalog := c\<rparr>)))"

definition register_source ::
  "gateway_env \<Rightarrow> string \<Rightarrow> string \<Rightarrow> tool_source \<Rightarrow> string option \<Rightarrow> exposure \<Rightarrow> gateway \<Rightarrow> err option \<times> gateway" where
  "register_source v domain name source capability x g =
     (case catalog_register (gv_listing v) (source_for domain name source capability x) (gw_catalog g) of
      (e, c) \<Rightarrow> (e, g\<lparr>gw_catalog := c\<rparr>))"

text \<open>The domains in which the granted source is registered; the grant is activated once for each.\<close>

definition granted_domains :: "capability_grant \<Rightarrow> tool_catalog \<Rightarrow> string list" where
  "granted_domains cg c = filter (\<lambda>d. list_ex (\<lambda>s. sr_name s = cg_source_name cg \<and> sr_capability s = cg_capability cg)
     (find_sources d (cg_capability cg) True c)) (domains c)"

definition activate_grant :: "gateway_env \<Rightarrow> capability_grant \<Rightarrow> gateway \<Rightarrow> (nat \<times> gateway) result" where
  "activate_grant v cg g =
     bindE (foldE (\<lambda>_ a. policy_activate (gv_clock v) cg a) (granted_domains cg (gw_catalog g)) (gw_grants g)) (\<lambda>a.
     if granted_domains cg (gw_catalog g) = [] then Inl (ValueError ''no such source'')
     else Inr (length (granted_domains cg (gw_catalog g)), g\<lparr>gw_grants := a\<rparr>))"

definition deactivate_grant :: "string \<Rightarrow> gateway \<Rightarrow> gateway" where
  "deactivate_grant i g = g\<lparr>gw_grants := policy_deactivate i (gw_grants g)\<rparr>"

definition visible_in_context :: "tool_def \<Rightarrow> call_context option \<Rightarrow> bool" where
  "visible_in_context d ctx =
     (let n = td_name d;
          checkpoint_tool = (n = ''load_architecture_intermediate'' \<or> n = ''write_architecture_intermediate'');
          recursive_tool = (n = ''select_tech_stack'' \<or> n = ''select_interface_kind'')
      in (case ctx of
           None \<Rightarrow> \<not> checkpoint_tool \<and> \<not> recursive_tool
         | Some c \<Rightarrow>
             (checkpoint_tool \<or> recursive_tool \<longrightarrow> ec_agent_id (cc_context c) = ''architecture_agent'')
             \<and> (checkpoint_tool \<longrightarrow> checkpoints_enabled (cc_architecture c))
             \<and> (recursive_tool \<longrightarrow> recursive_enabled (cc_architecture c))
             \<and> (case td_modes d of None \<Rightarrow> True | Some ms \<Rightarrow> mode_value (ec_execution_mode (cc_context c)) \<in> set ms)))"

definition visible_in_allowlist :: "tool_def \<Rightarrow> call_context option \<Rightarrow> bool" where
  "visible_in_allowlist d ctx \<longleftrightarrow> td_name d = ''report_progress'' \<or>
     (case ctx of None \<Rightarrow> True
      | Some c \<Rightarrow> ec_tool_allowlist (cc_context c) = [] \<or> td_name d \<in> set (ec_tool_allowlist (cc_context c)))"

fun visible_registrations ::
  "clock \<Rightarrow> active_grants \<Rightarrow> call_context option \<Rightarrow> tool_reg list \<Rightarrow> tool_reg list result" where
  "visible_registrations k a ctx [] = Inr []"
| "visible_registrations k a ctx (r # rs) =
     bindE (is_visible k a r (map_option cc_context ctx)) (\<lambda>b.
     bindE (visible_registrations k a ctx rs) (\<lambda>vs.
     Inr (if b \<and> visible_in_context (tr_definition r) ctx \<and> visible_in_allowlist (tr_definition r) ctx
          then r # vs else vs)))"

text \<open>The tools handed to the agent; the refresh of the granted sources stays in the catalog.\<close>

definition tools_for ::
  "gateway_env \<Rightarrow> string \<Rightarrow> call_context option \<Rightarrow> gateway \<Rightarrow> tool_reg list result \<times> gateway" where
  "tools_for v domain ctx g =
     (case active_source_names (gv_clock v) (gw_grants g) of
        Inl e \<Rightarrow> (Inl e, g)
      | Inr names \<Rightarrow> (case list_registrations (gv_listing v) domain names (gw_catalog g) of
            (Inl e, c) \<Rightarrow> (Inl e, g\<lparr>gw_catalog := c\<rparr>)
          | (Inr rs, c) \<Rightarrow> (visible_registrations (gv_clock v) (gw_grants g) ctx rs, g\<lparr>gw_catalog := c\<rparr>)))"

record contract_diagnostics =
  cd_required :: "string list"
  cd_registered :: "string list"
  cd_visible :: "string list"
  cd_missing_registered :: "string list"
  cd_missing_visible :: "string list"

definition diagnostics_passed :: "contract_diagnostics \<Rightarrow> bool" where
  "diagnostics_passed d \<longleftrightarrow> cd_missing_registered d = [] \<and> cd_missing_visible d = []"

definition tool_name :: "tool_reg \<Rightarrow> string" where
  "tool_name r = td_name (tr_definition r)"

definition preflight ::
  "gateway_env \<Rightarrow> string \<Rightarrow> string list \<Rightarrow> call_context option \<Rightarrow> gateway \<Rightarrow> contract_diagnostics result \<times> gateway" where
  "preflight v domain required ctx g =
     (case active_source_names (gv_clock v) (gw_grants g) of
        Inl e \<Rightarrow> (Inl e, g)
      | Inr names \<Rightarrow> (case list_registrations (gv_listing v) domain names (gw_catalog g) of
            (Inl e, c) \<Rightarrow> (Inl e, g\<lparr>gw_catalog := c\<rparr>)
          | (Inr rs, c) \<Rightarrow> (case tools_for v domain ctx (g\<lparr>gw_catalog := c\<rparr>) of
                (Inl e, g1) \<Rightarrow> (Inl e, g1)
              | (Inr vs, g1) \<Rightarrow>
                  (let registered = sort (dict_fromkeys (map tool_name rs));
                       visible = sort (map tool_name vs); needed = dict_fromkeys required
                   in (Inr \<lparr>cd_required = needed, cd_registered = registered, cd_visible = visible,
                         cd_missing_registered = filter (\<lambda>t. t \<notin> set registered) needed,
                         cd_missing_visible = filter (\<lambda>t. t \<notin> set visible) needed\<rparr>, g1)))))"

section \<open>Calling a tool\<close>

datatype tool_status = T_COMPLETED | T_FAILED | T_RETRYABLE | T_BLOCKED

record tool_result =
  to_status :: tool_status
  to_message :: string
  to_error_type :: "string option"
  to_retryable :: bool
  to_expected_tool :: "string option"

definition completed_result :: "string \<Rightarrow> tool_result" where
  "completed_result m = \<lparr>to_status = T_COMPLETED, to_message = m, to_error_type = None, to_retryable = False,
     to_expected_tool = None\<rparr>"

definition first_truthy :: "json list \<Rightarrow> json option" where
  "first_truthy js = List.find truthy js"

text \<open>A refused answer: an object whose \<open>ok\<close> is \<open>False\<close>. \<open>dumps\<close> renders its details.\<close>

definition refused_result :: "(json \<Rightarrow> string) \<Rightarrow> json \<Rightarrow> tool_result" where
  "refused_result dumps v =
     (let text = (case first_truthy [json_get_null v ''message'', json_get_null v ''error''] of
            None \<Rightarrow> ''the tool failed'' | Some m \<Rightarrow> py_str m);
          message = (case first_truthy [json_get_null v ''errors'', json_get_null v ''details''] of
            None \<Rightarrow> text | Some d \<Rightarrow> text @ '': '' @ dumps d);
          status = json_get_null v ''status'';
          st = (if status = JStr ''blocked'' then T_BLOCKED
                else if truthy (json_get_null v ''retryable'') \<or> status = JStr ''retryable'' then T_RETRYABLE
                else T_FAILED)
      in \<lparr>to_status = st, to_message = message,
          to_error_type = Some (case first_truthy [json_get_null v ''error_type''] of
            None \<Rightarrow> ''tool_result_invalid'' | Some e \<Rightarrow> py_str e),
          to_retryable = truthy (json_get_null v ''retryable'') \<or> st = T_RETRYABLE,
          to_expected_tool = map_option py_str (first_truthy [json_get_null v ''expected_tool''])\<rparr>)"

text \<open>\<open>ToolResult.from_value\<close> on the string every source returns.\<close>

definition result_of_text :: "(string \<Rightarrow> json option) \<Rightarrow> (json \<Rightarrow> string) \<Rightarrow> string \<Rightarrow> tool_result" where
  "result_of_text loads dumps s = (case loads s of
      Some (JObj kvs) \<Rightarrow> if json_get (JObj kvs) ''ok'' = Some (JBool False) then refused_result dumps (JObj kvs)
        else completed_result s
    | _ \<Rightarrow> completed_result s)"

text \<open>The kind of a failed call, by the class of its exception.\<close>

fun classify_tool_error :: "err \<Rightarrow> string" where
  "classify_tool_error (PermissionError _) = ''tool_authorization''"
| "classify_tool_error (FileNotFoundError _) = ''input_missing''"
| "classify_tool_error (KeyError _) = ''input_missing''"
| "classify_tool_error (TypeError _) = ''tool_validation''"
| "classify_tool_error (ValueError _) = ''tool_validation''"
| "classify_tool_error (PlanPatchError _) = ''tool_validation''"
| "classify_tool_error (PlanValidationError _) = ''tool_validation''"
| "classify_tool_error (FileExistsError _) = ''tool_transport''"
| "classify_tool_error _ = ''tool_execution''"

definition failure_result :: "err \<Rightarrow> string \<Rightarrow> string option \<Rightarrow> tool_result" where
  "failure_result e message kind =
     (let k = (if or_empty kind \<noteq> [] then or_empty kind else classify_tool_error e);
          retryable = list_ex (\<lambda>x. x = k) [''tool_validation'', ''input_missing'', ''tool_transport'', ''tool_protocol'']
      in \<lparr>to_status = (if retryable then T_RETRYABLE else T_FAILED), to_message = message, to_error_type = Some k,
          to_retryable = retryable, to_expected_tool = None\<rparr>)"

text \<open>
  The execution of a tool by its source: \<open>call\<close> is the tool's function or the remote server, \<open>say\<close>
  the text of an exception. A tool that needs the trusted context is refused without one.
\<close>

definition source_execute ::
  "(err \<Rightarrow> string) \<Rightarrow> (string \<Rightarrow> json \<Rightarrow> string result) \<Rightarrow> tool_source \<Rightarrow> string \<Rightarrow> json \<Rightarrow> call_context option
   \<Rightarrow> tool_result + string" where
  "source_execute say call src name args ctx = (case src of
      LocalTools defs \<Rightarrow>
        (case (if name \<in> set (map td_name defs) then call name args else Inl (KeyError name)) of
           Inl e \<Rightarrow> Inl (failure_result e (say e) None) | Inr s \<Rightarrow> Inr s)
    | ContextTools defs \<Rightarrow>
        (if ctx = None then Inl (failure_result (RuntimeError name) (say (RuntimeError name)) None)
         else (case (if name \<in> set (map td_name defs) then call name args else Inl (KeyError name)) of
           Inl e \<Rightarrow> Inl (failure_result e (say e) None) | Inr s \<Rightarrow> Inr s))
    | RemoteTools client \<Rightarrow>
        (if client = None then Inl (failure_result (RuntimeError name) (say (RuntimeError name)) (Some ''tool_transport''))
         else (case call name args of
           Inl e \<Rightarrow> Inl (failure_result e (say e) (Some ''tool_transport'')) | Inr s \<Rightarrow> Inr s)))"

definition execute_safe ::
  "(string \<Rightarrow> json option) \<Rightarrow> (json \<Rightarrow> string) \<Rightarrow> (err \<Rightarrow> string) \<Rightarrow> (string \<Rightarrow> json \<Rightarrow> string result)
   \<Rightarrow> tool_source \<Rightarrow> string \<Rightarrow> json \<Rightarrow> call_context option \<Rightarrow> tool_result" where
  "execute_safe loads dumps say call src name args ctx = (case source_execute say call src name args ctx of
      Inl r \<Rightarrow> r | Inr s \<Rightarrow> result_of_text loads dumps s)"

text \<open>
  \<open>ProjectOSTool._run\<close>: the policy is asked again, the source executes, and an answer that is not
  ok is raised. \<open>execute\<close> is the source's execution.
\<close>

definition run_tool ::
  "(string \<Rightarrow> json option) \<Rightarrow> (json \<Rightarrow> string) \<Rightarrow> clock \<Rightarrow> active_grants \<Rightarrow> (tool_reg \<Rightarrow> string result)
   \<Rightarrow> call_context option \<Rightarrow> tool_reg \<Rightarrow> string result" where
  "run_tool loads dumps k a execute ctx r =
     bindE (is_visible k a r (map_option cc_context ctx)) (\<lambda>b.
     if \<not> b then Inl (PermissionError ''not authorised'')
     else bindE (execute r) (\<lambda>s.
       if to_status (result_of_text loads dumps s) \<noteq> T_COMPLETED then Inl (RuntimeError ''ToolExecutionError'')
       else Inr s))"

end
