(* ===== verification/Tool_Laws.thy ===== *)
theory Tool_Laws
  imports Tool_Gateway
begin

text \<open>
  The laws of the tool boundary: the invariant of the catalog, what an agent can be given and can
  call, and that a remote source is not asked for its tools without a grant.
\<close>

section \<open>Authority\<close>

text \<open>The specification: a standing exposure, or a live grant for this source that covers the caller.\<close>

definition covers_call :: "capability_grant \<Rightarrow> execution_context \<Rightarrow> bool" where
  "covers_call g c \<longleftrightarrow> cg_scope g = ''project''
     \<or> cg_scope g = ''trace'' \<and> cg_trace_id g = ec_trace_id c
     \<or> cg_scope g = ''node'' \<and> cg_trace_id g = ec_trace_id c \<and> cg_work_item_id g = Some (ec_work_item_id c)"

definition authorised :: "clock \<Rightarrow> active_grants \<Rightarrow> execution_context option \<Rightarrow> tool_reg \<Rightarrow> bool" where
  "authorised k a ctx r \<longleftrightarrow> tr_exposure r = ALWAYS \<or> tr_exposure r = ON_DEMAND \<and>
     (\<exists>i g c. (i, g) \<in> set a \<and> ctx = Some c \<and> live k g = Inr True \<and> covers_call g c
        \<and> cg_capability g = tr_capability r \<and> cg_source_name g = tr_source_name r)"

lemma grant_matches_iff: "grant_matches k r ctx g = Inr True \<longleftrightarrow> live k g = Inr True
    \<and> tr_capability r = cg_capability g \<and> tr_source_name r = cg_source_name g
    \<and> (\<exists>c. ctx = Some c \<and> covers_call g c)"
  by (cases ctx) (auto simp: grant_matches_def covers_call_def)

lemma any_matches_sound: "any_matches k r ctx a = Inr True \<Longrightarrow> \<exists>i g. (i, g) \<in> set a \<and> grant_matches k r ctx g = Inr True"
proof (induction a)
  case (Cons ig a)
  obtain i g where ig: "ig = (i, g)" by (cases ig)
  show ?case
  proof (cases "grant_matches k r ctx g = Inr True")
    case True
    then show ?thesis unfolding ig by (intro exI [of _ i] exI [of _ g]) simp
  next
    case False
    then have "any_matches k r ctx a = Inr True" using Cons.prems unfolding ig by (auto split: if_splits)
    then show ?thesis using Cons.IH unfolding ig by auto
  qed
qed simp

lemma visible_authorised: "is_visible k a r ctx = Inr True \<Longrightarrow> authorised k a ctx r"
  by (cases "tr_exposure r")
    (auto simp: is_visible_def authorised_def grant_matches_iff dest!: any_matches_sound, blast)

section \<open>The catalog\<close>

definition tool_ok :: "tool_catalog \<Rightarrow> bool \<Rightarrow> tool_key \<times> tool_reg \<Rightarrow> bool" where
  "tool_ok c dyn kr \<longleftrightarrow> fst kr = reg_key (snd kr) \<and>
     (\<exists>s. dict_get (ct_sources c) (tr_domain (snd kr), tr_source_name (snd kr)) = Some s
        \<and> snd kr = registration_of s (tr_definition (snd kr)) \<and> is_dynamic (sr_source s) = dyn)"

definition catalog_ok :: "tool_catalog \<Rightarrow> bool" where
  "catalog_ok c \<longleftrightarrow> distinct (dict_keys (ct_sources c)) \<and> distinct (dict_keys (ct_static c)) \<and> distinct (dict_keys (ct_dynamic c))
     \<and> list_all (\<lambda>(key, s). key = (sr_domain s, sr_name s)) (ct_sources c)
     \<and> list_all (tool_ok c False) (ct_static c) \<and> list_all (tool_ok c True) (ct_dynamic c)"

lemma registration_sel [simp]:
  "tr_definition (registration_of s d) = d" "tr_domain (registration_of s d) = sr_domain s"
  "tr_source_name (registration_of s d) = sr_name s" "tr_capability (registration_of s d) = sr_capability s"
  "tr_exposure (registration_of s d) = sr_exposure s" "tr_source (registration_of s d) = sr_source s"
  by (simp_all add: registration_of_def)

lemma put_tool_sources [simp]: "ct_sources (put_tool dyn r c) = ct_sources c"
  by (simp add: put_tool_def)

lemma tool_ok_sources: "ct_sources c' = ct_sources c \<Longrightarrow> tool_ok c' = tool_ok c"
  by (simp add: tool_ok_def fun_eq_iff)

lemma put_tool_ok:
  assumes "catalog_ok c" "dict_get (ct_sources c) (sr_domain s, sr_name s) = Some s" "is_dynamic (sr_source s) = dyn"
  shows "catalog_ok (put_tool dyn (registration_of s d) c)"
proof -
  let ?r = "registration_of s d"
  have ok: "tool_ok c dyn (reg_key ?r, ?r)" using assms(2,3) by (simp add: tool_ok_def)
  have "list_all (tool_ok c dyn) (dict_put (reg_key ?r) ?r tools)" if "list_all (tool_ok c dyn) tools" for tools
    using that ok set_dict_put [of "reg_key ?r" ?r tools] by (auto simp: list_all_iff)
  moreover have "tool_ok (put_tool dyn ?r c) = tool_ok c" by (rule tool_ok_sources) simp
  ultimately show ?thesis
    using assms(1) by (cases dyn) (simp_all add: catalog_ok_def put_tool_def distinct_dict_put)
qed

lemma register_discovered_ok:
  "catalog_ok c \<Longrightarrow> dict_get (ct_sources c) (sr_domain s, sr_name s) = Some s \<Longrightarrow> is_dynamic (sr_source s) = dyn \<Longrightarrow>
     catalog_ok (snd (register_discovered dyn s ds c)) \<and> ct_sources (snd (register_discovered dyn s ds c)) = ct_sources c"
  by (induction ds arbitrary: c) (auto simp: Let_def put_tool_ok split: option.splits)

lemma catalog_ok_new_source:
  assumes "catalog_ok c" "dict_get (ct_sources c) (sr_domain s, sr_name s) = None"
  shows "catalog_ok (c\<lparr>ct_sources := dict_put (sr_domain s, sr_name s) s (ct_sources c)\<rparr>)"
proof -
  let ?c = "c\<lparr>ct_sources := dict_put (sr_domain s, sr_name s) s (ct_sources c)\<rparr>"
  have "tool_ok ?c dyn kr" if "tool_ok c dyn kr" for dyn kr
    using that assms(2) by (auto simp: tool_ok_def dict.get_put)
  then have "list_all (tool_ok ?c dyn) tools" if "list_all (tool_ok c dyn) tools" for dyn tools
    using that by (simp add: list_all_iff)
  moreover have "list_all (\<lambda>(key, s). key = (sr_domain s, sr_name s)) (dict_put (sr_domain s, sr_name s) s (ct_sources c))"
    using assms(1) set_dict_put [of "(sr_domain s, sr_name s)" s "ct_sources c"] by (auto simp: catalog_ok_def list_all_iff)
  ultimately show ?thesis using assms(1) by (simp add: catalog_ok_def distinct_dict_put)
qed

lemma catalog_register_ok: "catalog_ok c \<Longrightarrow> catalog_ok (snd (catalog_register listing s c))"
  using catalog_ok_new_source [of c s] register_discovered_ok [of "c\<lparr>ct_sources := dict_put (sr_domain s, sr_name s) s (ct_sources c)\<rparr>" s False]
  by (auto simp: catalog_register_def Let_def dict.get_put split: sum.split)

lemma remove_tools_ok: "catalog_ok c \<Longrightarrow> catalog_ok (c\<lparr>ct_dynamic := remove_source_tools s (ct_dynamic c)\<rparr>)"
  using tool_ok_sources [of "c\<lparr>ct_dynamic := remove_source_tools s (ct_dynamic c)\<rparr>" c]
  by (auto simp: catalog_ok_def remove_source_tools_def list_all_iff distinct_map_filter)

lemma refresh_source_ok:
  assumes "catalog_ok c" "dict_get (ct_sources c) (sr_domain s, sr_name s) = Some s" "is_dynamic (sr_source s)"
  shows "catalog_ok (snd (refresh_source listing s c)) \<and> ct_sources (snd (refresh_source listing s c)) = ct_sources c"
proof (cases "discover listing (sr_source s)")
  case (Inr defs)
  let ?c = "c\<lparr>ct_dynamic := remove_source_tools s (ct_dynamic c)\<rparr>"
  obtain e c1 where r: "register_discovered True s defs ?c = (e, c1)" by (cases "register_discovered True s defs ?c")
  have "catalog_ok c1 \<and> ct_sources c1 = ct_sources c"
    using register_discovered_ok [OF remove_tools_ok [OF assms(1), of s], of s True defs] assms(2,3) r by simp
  then show ?thesis by (cases e) (simp_all add: refresh_source_def Inr r)
qed (simp add: refresh_source_def assms(1))

lemma refresh_sources_ok:
  assumes "catalog_ok c" "set ss \<subseteq> set (ct_sources c)"
  shows "catalog_ok (snd (refresh_sources listing domain names ss c))"
  using assms
proof (induction listing domain names ss c rule: refresh_sources.induct)
  case (2 listing domain names key s ss c)
  have get: "dict_get (ct_sources c) (sr_domain s, sr_name s) = Some s"
    using "2.prems" by (force simp: catalog_ok_def list_all_iff)
  show ?case
  proof (cases "fst key \<noteq> domain \<or> sr_name s \<notin> set names \<or> \<not> is_dynamic (sr_source s)")
    case True
    then show ?thesis using "2.IH"(1) "2.prems" by simp
  next
    case False
    obtain e c1 where r: "refresh_source listing s c = (e, c1)" by (cases "refresh_source listing s c")
    then have "catalog_ok c1" "ct_sources c1 = ct_sources c"
      using refresh_source_ok [OF "2.prems"(1) get, of listing] False by auto
    then show ?thesis using "2.IH"(2) [OF False] "2.prems" r False by (cases e) auto
  qed
qed simp

lemma list_registrations_ok: "catalog_ok c \<Longrightarrow> catalog_ok (snd (list_registrations listing domain names c))"
  using refresh_sources_ok [of c "ct_sources c" listing domain names]
  by (auto simp: list_registrations_def split: prod.split option.split)

lemma foldl_put_keys:
  "map_of (foldl (\<lambda>d (k, v). dict_put k v d) d kvs) j = (case map_of (rev kvs) j of None \<Rightarrow> map_of d j | Some v \<Rightarrow> Some v)"
  by (induction kvs arbitrary: d) (auto simp: map_of_append map_add_def dict.get_put split: option.splits)

lemma set_foldl_put:
  "set (foldl (\<lambda>d (k, v). dict_put k v d) d kvs) \<subseteq> set d \<union> set kvs"
proof (induction kvs arbitrary: d)
  case (Cons kv kvs)
  obtain k v where kv: "kv = (k, v)" by (cases kv)
  show ?case using Cons.IH [of "dict_put k v d"] set_dict_put [of k v d] by (auto simp: kv)
qed simp

lemma distinct_foldl_put: "distinct (dict_keys d) \<Longrightarrow> distinct (dict_keys (foldl (\<lambda>d (k, v). dict_put k v d) d kvs))"
  by (induction kvs arbitrary: d) (auto simp: distinct_dict_put)

lemma all_tools_keys:
  assumes "catalog_ok c"
  shows "distinct (dict_keys (all_tools c))"
  using assms distinct_foldl_put [of "ct_static c" "ct_dynamic c"] by (simp add: catalog_ok_def all_tools_def)

lemma all_tools_ok:
  assumes "catalog_ok c" "(k, r) \<in> set (all_tools c)"
  shows "k = reg_key r \<and> (\<exists>s. dict_get (ct_sources c) (tr_domain r, tr_source_name r) = Some s
      \<and> r = registration_of s (tr_definition r))"
proof -
  have "(k, r) \<in> set (ct_static c) \<union> set (ct_dynamic c)"
    using assms(2) set_foldl_put [of "ct_static c" "ct_dynamic c"] by (auto simp: all_tools_def)
  then have "tool_ok c False (k, r) \<or> tool_ok c True (k, r)"
    using assms(1) by (auto simp: catalog_ok_def list_all_iff)
  then show ?thesis by (auto simp: tool_ok_def)
qed

section \<open>Gateways in use\<close>

text \<open>The gateways reached from an empty one by its operations, each at a time and against remote
  servers of its own; operations that raise count as well.\<close>

definition empty_gateway :: gateway where
  "empty_gateway = \<lparr>gw_catalog = empty_catalog, gw_grants = []\<rparr>"

inductive gateway_reach :: "gateway \<Rightarrow> bool" where
  start: "gateway_reach empty_gateway"
| toolset: "gateway_reach g \<Longrightarrow> gateway_reach (snd (register_toolset v domain name source capability x g))"
| source: "gateway_reach g \<Longrightarrow> gateway_reach (snd (register_source v domain name source capability x g))"
| activate: "gateway_reach g \<Longrightarrow> activate_grant v cg g = Inr (n, g') \<Longrightarrow> gateway_reach g'"
| deactivate: "gateway_reach g \<Longrightarrow> gateway_reach (deactivate_grant i g)"
| query: "gateway_reach g \<Longrightarrow> gateway_reach (snd (tools_for v domain ctx g))"
| check: "gateway_reach g \<Longrightarrow> gateway_reach (snd (preflight v domain required ctx g))"

lemma register_source_catalog: "gw_catalog (snd (register_source v domain name source capability x g)) =
    snd (catalog_register (gv_listing v) (source_for domain name source capability x) (gw_catalog g))"
  by (simp add: register_source_def split: prod.split)

lemma register_toolset_catalog: "gw_catalog (snd (register_toolset v domain name source capability x g)) =
    (if is_dynamic source then gw_catalog g
     else snd (catalog_register (gv_listing v) (source_for domain name source capability x) (gw_catalog g)))"
  by (simp add: register_toolset_def split: prod.split)

lemma tools_for_catalog: "catalog_ok (gw_catalog g) \<Longrightarrow> catalog_ok (gw_catalog (snd (tools_for v domain ctx g)))"
  using list_registrations_ok [of "gw_catalog g"]
  by (auto simp: tools_for_def split: sum.split prod.split) (metis snd_conv)+

lemma preflight_catalog:
  assumes "catalog_ok (gw_catalog g)"
  shows "catalog_ok (gw_catalog (snd (preflight v domain required ctx g)))"
proof (cases "active_source_names (gv_clock v) (gw_grants g)")
  case (Inr names)
  obtain q c where l: "list_registrations (gv_listing v) domain names (gw_catalog g) = (q, c)"
    by (cases "list_registrations (gv_listing v) domain names (gw_catalog g)")
  then have c: "catalog_ok c" using list_registrations_ok [OF assms] by (metis snd_conv)
  obtain q1 g1 where t: "tools_for v domain ctx (g\<lparr>gw_catalog := c\<rparr>) = (q1, g1)"
    by (cases "tools_for v domain ctx (g\<lparr>gw_catalog := c\<rparr>)")
  then have "catalog_ok (gw_catalog g1)" using tools_for_catalog [of "g\<lparr>gw_catalog := c\<rparr>" v domain ctx] c by simp
  then show ?thesis using l t c by (cases q; cases q1) (simp_all add: preflight_def Inr Let_def)
qed (simp add: preflight_def assms)

lemma gateway_catalog_ok_reach:
  assumes "gateway_reach g"
  shows "catalog_ok (gw_catalog g)"
  using assms
proof (induction rule: gateway_reach.induct)
  case start
  show ?case by (simp add: empty_gateway_def empty_catalog_def catalog_ok_def)
next
  case (toolset g v domain name source capability x)
  then show ?case
    using catalog_register_ok by (simp add: register_toolset_catalog)
next
  case (source g v domain name source capability x)
  then show ?case
    using catalog_register_ok by (simp add: register_source_catalog)
next
  case (activate g v cg n g')
  then show ?case by (auto simp: activate_grant_def split: if_splits)
next
  case (deactivate g i)
  then show ?case by (simp add: deactivate_grant_def)
next
  case (query g v domain ctx)
  then show ?case by (intro tools_for_catalog)
next
  case (check g v domain required ctx)
  then show ?case by (intro preflight_catalog)
qed

text \<open>In every gateway in use a tool name denotes at most one tool per domain, and every tool has the
  domain, the capability and the exposure its registered source was registered with: discovery
  cannot give a tool more than its source has.\<close>

theorem gateway_catalog_ok:
  assumes "gateway_reach g"
  shows "distinct (dict_keys (all_tools (gw_catalog g))) \<and>
    (\<forall>k r. (k, r) \<in> set (all_tools (gw_catalog g)) \<longrightarrow> k = (tr_domain r, tool_name r) \<and>
      (\<exists>s. dict_get (ct_sources (gw_catalog g)) (tr_domain r, tr_source_name r) = Some s
        \<and> tr_capability r = sr_capability s \<and> tr_exposure r = sr_exposure s))"
proof -
  note ok = gateway_catalog_ok_reach [OF assms]
  have "k = (tr_domain r, tool_name r) \<and> (\<exists>s. dict_get (ct_sources (gw_catalog g)) (tr_domain r, tr_source_name r) = Some s
        \<and> tr_capability r = sr_capability s \<and> tr_exposure r = sr_exposure s)"
    if mem: "(k, r) \<in> set (all_tools (gw_catalog g))" for k r
  proof -
    obtain s where s: "k = reg_key r" "dict_get (ct_sources (gw_catalog g)) (tr_domain r, tr_source_name r) = Some s"
      "r = registration_of s (tr_definition r)" using all_tools_ok [OF ok mem] by blast
    have "tr_capability r = sr_capability s" "tr_exposure r = sr_exposure s" by (subst s(3), simp)+
    then show ?thesis using s(1,2) by (auto simp: reg_key_def tool_name_def)
  qed
  then show ?thesis using all_tools_keys [OF ok] by blast
qed

section \<open>What an agent is given and may call\<close>

lemma visible_registrations_sound:
  "visible_registrations k a ctx rs = Inr vs \<Longrightarrow> r \<in> set vs \<Longrightarrow> r \<in> set rs
    \<and> is_visible k a r (map_option cc_context ctx) = Inr True
    \<and> visible_in_context (tr_definition r) ctx \<and> visible_in_allowlist (tr_definition r) ctx"
  by (induction rs arbitrary: vs) (auto split: if_splits)

lemma list_registrations_sound:
  assumes "list_registrations listing domain names c = (Inr rs, c1)" "catalog_ok c" "r \<in> set rs"
  shows "tr_domain r = domain \<and> (\<exists>s. dict_get (ct_sources c1) (domain, tr_source_name r) = Some s
    \<and> tr_exposure r = sr_exposure s \<and> tr_capability r = sr_capability s)"
proof -
  have ok: "catalog_ok c1" using list_registrations_ok [OF assms(2), of listing domain names] assms(1) by simp
  obtain n where n: "((domain, n), r) \<in> set (all_tools c1)"
    using assms(1,3) by (auto simp: list_registrations_def split: prod.splits option.splits)
  from all_tools_ok [OF ok n] obtain s where s: "dict_get (ct_sources c1) (tr_domain r, tr_source_name r) = Some s"
    "r = registration_of s (tr_definition r)" by blast
  have dom: "tr_domain r = domain" using all_tools_ok [OF ok n, THEN conjunct1] by (simp add: reg_key_def)
  have "tr_exposure r = sr_exposure s" "tr_capability r = sr_capability s"
    by (subst s(2), simp)+
  then show ?thesis using s(1) dom by auto
qed

lemma visible_in_context_mode:
  assumes "visible_in_context d ctx" "ctx = Some c" "td_modes d = Some ms"
  shows "mode_value (ec_execution_mode (cc_context c)) \<in> set ms"
proof -
  have "case td_modes d of None \<Rightarrow> True | Some ms \<Rightarrow> mode_value (ec_execution_mode (cc_context c)) \<in> set ms"
    using assms(1) unfolding assms(2) visible_in_context_def Let_def option.case by (elim conjE)
  then show ?thesis using assms(3) by simp
qed

text \<open>Whatever the gateway hands to an agent belongs to the agent's domain, is authorised there and
  then (a standing tool, or one a live grant of its source and capability covers for this caller;
  never a tool that needs confirmation or is denied, and no granted tool without an execution
  context), is on the attempt's allowlist unless that is empty, and permits the execution mode.\<close>

theorem exposed_tools_authorised:
  assumes "gateway_reach g" "tools_for v domain ctx g = (Inr rs, g')" "r \<in> set rs"
  shows "tr_domain r = domain \<and> authorised (gv_clock v) (gw_grants g) (map_option cc_context ctx) r
    \<and> (\<forall>c. ctx = Some c \<longrightarrow>
        (ec_tool_allowlist (cc_context c) = [] \<or> tool_name r = ''report_progress''
          \<or> tool_name r \<in> set (ec_tool_allowlist (cc_context c)))
        \<and> (\<forall>ms. td_modes (tr_definition r) = Some ms \<longrightarrow> mode_value (ec_execution_mode (cc_context c)) \<in> set ms))"
proof -
  obtain names qs c1 where l: "list_registrations (gv_listing v) domain names (gw_catalog g) = (Inr qs, c1)"
    and vis: "visible_registrations (gv_clock v) (gw_grants g) ctx qs = Inr rs"
    using assms(2) by (auto simp: tools_for_def split: sum.splits prod.splits)
  note r = visible_registrations_sound [OF vis assms(3)]
  have "tr_domain r = domain"
    using list_registrations_sound [OF l gateway_catalog_ok_reach [OF assms(1)]] r by blast
  moreover have "authorised (gv_clock v) (gw_grants g) (map_option cc_context ctx) r"
    using visible_authorised r by blast
  moreover have "ec_tool_allowlist (cc_context c) = [] \<or> tool_name r = ''report_progress''
      \<or> tool_name r \<in> set (ec_tool_allowlist (cc_context c))" if "ctx = Some c" for c
  proof -
    have "td_name (tr_definition r) = ''report_progress'' \<or> (case ctx of None \<Rightarrow> True | Some c \<Rightarrow>
        ec_tool_allowlist (cc_context c) = [] \<or> td_name (tr_definition r) \<in> set (ec_tool_allowlist (cc_context c)))"
      using r unfolding visible_in_allowlist_def by (elim conjE)
    then show ?thesis unfolding that option.case tool_name_def by (elim disjE) (simp_all only: simp_thms)
  qed
  ultimately show ?thesis using r visible_in_context_mode by blast
qed

text \<open>C32. Authority is checked when a tool is called, not only when it is handed over: a call that returns
  an answer was authorised by the grants of that moment, so a tool whose grants were all
  deactivated or have expired since can no longer be called; and an answer that refuses
  (an object whose \<open>ok\<close> is false) is never returned as a success.\<close>

theorem called_tool_authorised:
  assumes "run_tool loads dumps k a execute ctx r = Inr s"
  shows "authorised k a (map_option cc_context ctx) r \<and> execute r = Inr s
    \<and> (\<forall>kvs. loads s = Some (JObj kvs) \<longrightarrow> json_get (JObj kvs) ''ok'' \<noteq> Some (JBool False))"
proof -
  have v: "is_visible k a r (map_option cc_context ctx) = Inr True" "execute r = Inr s"
    "to_status (result_of_text loads dumps s) = T_COMPLETED"
    using assms by (auto simp: run_tool_def split: if_splits)
  have "to_status (refused_result dumps j) \<noteq> T_COMPLETED" for j
    by (simp add: refused_result_def Let_def)
  then have "\<forall>kvs. loads s = Some (JObj kvs) \<longrightarrow> json_get (JObj kvs) ''ok'' \<noteq> Some (JBool False)"
    using v(3) by (auto simp: result_of_text_def)
  then show ?thesis using v visible_authorised by blast
qed

section \<open>Discovery\<close>

text \<open>The clients of a domain that a refresh for the given source names asks for their tools.\<close>

definition asked_clients :: "string \<Rightarrow> string list \<Rightarrow> tool_catalog \<Rightarrow> nat set" where
  "asked_clients domain names c = {i. \<exists>key s. (key, s) \<in> set (ct_sources c) \<and> fst key = domain
     \<and> sr_name s \<in> set names \<and> sr_source s = RemoteTools (Some i)}"

lemma discover_agree:
  "(\<And>i. src = RemoteTools (Some i) \<Longrightarrow> l1 i = l2 i) \<Longrightarrow> discover l1 src = discover l2 src"
  by (cases "(l1, src)" rule: discover.cases) simp_all

lemma refresh_sources_agree:
  assumes "\<And>i key s. (key, s) \<in> set ss \<Longrightarrow> fst key = domain \<Longrightarrow> sr_name s \<in> set names
      \<Longrightarrow> sr_source s = RemoteTools (Some i) \<Longrightarrow> l1 i = l2 i"
  shows "refresh_sources l1 domain names ss c = refresh_sources l2 domain names ss c"
  using assms
proof (induction l1 domain names ss c rule: refresh_sources.induct)
  case (2 listing domain names key s ss c)
  show ?case
  proof (cases "fst key \<noteq> domain \<or> sr_name s \<notin> set names \<or> \<not> is_dynamic (sr_source s)")
    case True
    then show ?thesis using "2.IH"(1) [OF True] "2.prems" by auto
  next
    case False
    have "discover listing (sr_source s) = discover l2 (sr_source s)"
      by (rule discover_agree) (use "2.prems" [of key s] False in auto)
    then have eq: "refresh_source listing s c = refresh_source l2 s c" by (simp add: refresh_source_def)
    have "refresh_sources listing domain names ss c1 = refresh_sources l2 domain names ss c1"
      if "refresh_source listing s c = (None, c1)" for c1
      using "2.IH"(2) [OF False that [symmetric] refl] "2.prems" by auto
    then show ?thesis using False eq by (auto split: prod.split option.split)
  qed
qed simp

text \<open>No discovery without a grant: the tools handed out, and the catalog afterwards, do not depend on
  what the servers list that no active grant names; with no active grant no server is asked.\<close>

theorem ungranted_servers_not_asked:
  assumes "active_source_names (gv_clock v) (gw_grants g) = Inr names"
    and "\<And>i. i \<in> asked_clients domain names (gw_catalog g) \<Longrightarrow> gv_listing v i = l2 i"
  shows "tools_for v domain ctx g = tools_for (v\<lparr>gv_listing := l2\<rparr>) domain ctx g
    \<and> (gw_grants g = [] \<longrightarrow> asked_clients domain names (gw_catalog g) = {})"
proof -
  have "refresh_sources (gv_listing v) domain names (ct_sources (gw_catalog g)) (gw_catalog g)
      = refresh_sources l2 domain names (ct_sources (gw_catalog g)) (gw_catalog g)"
    by (rule refresh_sources_agree) (use assms(2) [unfolded asked_clients_def] in blast)
  then have "list_registrations (gv_listing v) domain names (gw_catalog g) = list_registrations l2 domain names (gw_catalog g)"
    by (simp add: list_registrations_def)
  then have "tools_for v domain ctx g = tools_for (v\<lparr>gv_listing := l2\<rparr>) domain ctx g"
    using assms(1) by (auto simp: tools_for_def split: prod.split sum.split)
  moreover have "asked_clients domain names (gw_catalog g) = {}" if "gw_grants g = []"
    using assms(1) that by (simp add: asked_clients_def)
  ultimately show ?thesis by blast
qed

section \<open>Witnesses\<close>

definition plain_tool :: "string \<Rightarrow> tool_def" where
  "plain_tool n = \<lparr>td_name = n, td_description = ''d'', td_parameters = JObj [], td_modes = None, td_completion = ''continue''\<rparr>"

definition web_env :: gateway_env where
  "web_env = \<lparr>gv_listing = (\<lambda>_. Inr [JObj [(''name'', JStr ''search'')]]),
     gv_clock = \<lparr>ck_instant = (\<lambda>_. NoTimestamp), ck_now = 0\<rparr>\<rparr>"

definition web_grant :: capability_grant where
  "web_grant = \<lparr>cg_grant_id = ''g1'', cg_trace_id = ''t1'', cg_work_item_id = None, cg_capability = ''web'',
     cg_source_name = ''remote'', cg_scope = ''trace'', cg_approved_by = ''user'', cg_approved_at = ''now'',
     cg_expires_at = None, cg_status = ''active''\<rparr>"

definition doc_gateway :: gateway where
  "doc_gateway = snd (register_source web_env ''doc'' ''remote'' (RemoteTools (Some 0)) (Some ''web'') ON_DEMAND
     (snd (register_toolset web_env ''doc'' ''local'' (LocalTools [plain_tool ''save_doc'']) None ALWAYS empty_gateway)))"

definition web_gateway :: gateway where
  "web_gateway = snd (projr (activate_grant web_env web_grant doc_gateway))"

definition web_context :: call_context where
  "web_context = \<lparr>cc_context = \<lparr>ec_trace_id = ''t1'', ec_work_item_id = ''wi-1'', ec_agent_id = ''doc_agent'',
     ec_contract_digest = None, ec_execution_mode = EXCLUSIVE, ec_input_refs = [], ec_input_digests = None,
     ec_slot = None, ec_publish_target = None, ec_allowed_paths = [], ec_forbidden_paths = [], ec_required_paths = [],
     ec_unit = None, ec_unit_count = None, ec_owned_files = [], ec_tool_allowlist = [''search'']\<rparr>,
     cc_architecture = default_architecture\<rparr>"

lemma web_gateway_reached: "gateway_reach web_gateway"
proof -
  have "\<not> isl (activate_grant web_env web_grant doc_gateway)" by code_simp
  then have "activate_grant web_env web_grant doc_gateway
      = Inr (fst (projr (activate_grant web_env web_grant doc_gateway)), web_gateway)"
    unfolding web_gateway_def by (rule result_pair)
  moreover have "gateway_reach doc_gateway"
    unfolding doc_gateway_def by (intro gateway_reach.source gateway_reach.toolset gateway_reach.start)
  ultimately show ?thesis by (rule gateway_reach.activate [rotated])
qed

definition web_tools :: "tool_reg list" where
  "web_tools = projr (fst (tools_for web_env ''doc'' (Some web_context) web_gateway))"

lemma web_tools_given: "tools_for web_env ''doc'' (Some web_context) web_gateway
    = (Inr web_tools, snd (tools_for web_env ''doc'' (Some web_context) web_gateway))
  \<and> web_tools \<noteq> []"
proof -
  have "\<not> isl (fst (tools_for web_env ''doc'' (Some web_context) web_gateway))" "web_tools \<noteq> []" by code_simp+
  then show ?thesis unfolding web_tools_def by (simp add: prod_eq_iff)
qed

lemma gateway_catalog_ok_witness: "distinct (dict_keys (all_tools (gw_catalog web_gateway)))"
  using gateway_catalog_ok [OF web_gateway_reached] by blast

lemma exposed_tools_authorised_witness:
  "authorised (gv_clock web_env) (gw_grants web_gateway) (Some (cc_context web_context)) (hd web_tools)"
proof -
  have "hd web_tools \<in> set web_tools" using web_tools_given by simp
  from exposed_tools_authorised [OF web_gateway_reached web_tools_given [THEN conjunct1] this]
  show ?thesis by simp
qed

lemma called_tool_authorised_witness:
  "authorised (gv_clock web_env) (gw_grants web_gateway) (Some (cc_context web_context)) (hd web_tools)"
proof -
  have "run_tool (\<lambda>_. None) (\<lambda>_. []) (gv_clock web_env) (gw_grants web_gateway) (\<lambda>_. Inr ''found'')
      (Some web_context) (hd web_tools) = Inr ''found''" by code_simp
  from called_tool_authorised [OF this] show ?thesis by simp
qed

lemma ungranted_servers_not_asked_witness:
  "tools_for web_env ''doc'' None doc_gateway = tools_for (web_env\<lparr>gv_listing := (\<lambda>_. Inl (RuntimeError ''down''))\<rparr>) ''doc'' None doc_gateway"
proof -
  have "active_source_names (gv_clock web_env) (gw_grants doc_gateway) = Inr []" by code_simp
  moreover have "gv_listing web_env i = Inl (RuntimeError ''down'')"
    if "i \<in> asked_clients ''doc'' [] (gw_catalog doc_gateway)" for i
    using that by (simp add: asked_clients_def)
  ultimately show ?thesis using ungranted_servers_not_asked [of web_env doc_gateway "[]" "''doc''" "\<lambda>_. Inl (RuntimeError ''down'')" None] by blast
qed

text \<open>
  A registration that fails leaves its source registered: after a name conflict the corrected tool
  set cannot be registered under the same name any more.
\<close>

lemma failed_registration_sticks:
  "fst (register_toolset web_env ''doc'' ''extra'' (LocalTools [plain_tool ''save_doc'']) None ALWAYS doc_gateway) \<noteq> None
   \<and> fst (register_toolset web_env ''doc'' ''extra'' (LocalTools [plain_tool ''save_page'']) None ALWAYS
        (snd (register_toolset web_env ''doc'' ''extra'' (LocalTools [plain_tool ''save_doc'']) None ALWAYS doc_gateway)))
     = Some (ValueError ''source already registered'')"
  by code_simp

end
