(* ===== verification/Port_Lease.thy ===== *)
theory Port_Lease
  imports Grants
begin

text \<open>
  The host ports of running applications: the allocator of \<^verbatim>\<open>app/runtime/port_allocator.py\<close>,
  which each process has for itself, and the leases of \<^verbatim>\<open>app/runtime/port_lifecycle.py\<close>, which
  all processes share in one registry file under a file lock. What the operating system answers
  (whether a port can be bound, whether a process lives) and the clock are parameters.
\<close>

section \<open>The allocator\<close>

record allocator =
  al_start :: int
  al_end :: int
  al_reserved :: "int set"

definition mk_allocator :: "int \<Rightarrow> int \<Rightarrow> string \<Rightarrow> allocator result" where
  "mk_allocator lo hi mode = bindE (raises
     [(lo < 1 \<or> hi < lo \<or> hi > 65535, ValueError ''port_range''),
      (mode \<notin> {''auto'', ''strict''}, ValueError ''probe_mode'')]) (\<lambda>_.
     Inr \<lparr>al_start = lo, al_end = hi, al_reserved = {}\<rparr>)"

text \<open>The probe of one port: a refused probe counts as free in the mode \<open>auto\<close>.\<close>

datatype probe = P_FREE | P_REFUSED | P_TAKEN

definition is_free :: "string \<Rightarrow> probe \<Rightarrow> bool" where
  "is_free mode b \<longleftrightarrow> b = P_FREE \<or> b = P_REFUSED \<and> mode = ''auto''"

definition allocate :: "(int \<Rightarrow> bool) \<Rightarrow> int \<Rightarrow> int set \<Rightarrow> allocator \<Rightarrow> (int list \<times> allocator) result" where
  "allocate free n excluded a =
     (if n < 1 then Inl (ValueError ''count'')
      else let available = take (nat n) (filter (\<lambda>p. p \<notin> al_reserved a \<and> p \<notin> excluded \<and> free p) [al_start a..al_end a])
        in if length available < nat n then Inl (PortAllocationError ''pool exhausted'')
           else Inr (available, a\<lparr>al_reserved := al_reserved a \<union> set available\<rparr>))"

definition give_back :: "int list \<Rightarrow> allocator \<Rightarrow> allocator" where
  "give_back ps a = a\<lparr>al_reserved := al_reserved a - set ps\<rparr>"

section \<open>Leases\<close>

record port_lease =
  ls_lease_id :: string
  ls_owner :: string
  ls_ports :: "int list"
  ls_pid :: int
  ls_created :: string
  ls_expires :: string

definition lease_as_dict :: "port_lease \<Rightarrow> json" where
  "lease_as_dict l = JObj
    [(''lease_id'', JStr (ls_lease_id l)), (''owner_id'', JStr (ls_owner l)),
     (''ports'', JList (map JInt (ls_ports l))), (''pid'', JInt (ls_pid l)),
     (''created_at'', JStr (ls_created l)), (''expires_at'', JStr (ls_expires l))]"

text \<open>What an operation sees of its process: the clock, the rendering of times and the live processes.\<close>

record lease_env =
  le_now :: int
  le_ttl :: int
  le_iso :: "int \<Rightarrow> string"
  le_instant :: "string \<Rightarrow> timestamp"
  le_alive :: "int \<Rightarrow> bool"
  le_pid :: int

text \<open>\<open>raw[k]\<close> on a registry entry, and the ports of one; every failure is an exception.\<close>

definition entry_field :: "json \<Rightarrow> string \<Rightarrow> json result" where
  "entry_field raw k = (if \<not> is_obj raw then Inl (TypeError k)
     else (case json_get raw k of None \<Rightarrow> Inl (KeyError k) | Some v \<Rightarrow> Inr v))"

definition port_list :: "json \<Rightarrow> int list result" where
  "port_list j = (case j of
      JList xs \<Rightarrow> mapE py_int xs
    | JStr s \<Rightarrow> mapE (\<lambda>c. py_int_of_str [c]) s
    | JObj kvs \<Rightarrow> mapE (py_int_of_str \<circ> fst) kvs
    | _ \<Rightarrow> Inl (TypeError ''ports''))"

definition process_alive :: "lease_env \<Rightarrow> int \<Rightarrow> bool" where
  "process_alive v pid \<longleftrightarrow> 0 < pid \<and> le_alive v pid"

text \<open>One entry of the registry: a lease, or nothing if it has run out, lost its process or is malformed.\<close>

definition live_lease :: "lease_env \<Rightarrow> string \<Rightarrow> json \<Rightarrow> port_lease option" where
  "live_lease v i raw = (case
     bindE (entry_field raw ''expires_at'') (\<lambda>e.
     bindE (entry_field raw ''pid'') (\<lambda>p. bindE (py_int p) (\<lambda>pid.
     bindE (entry_field raw ''ports'') (\<lambda>q. bindE (port_list q) (\<lambda>ports.
     bindE (entry_field raw ''owner_id'') (\<lambda>w. bindE (entry_field raw ''created_at'') (\<lambda>c.
     Inr \<lparr>ls_lease_id = i, ls_owner = py_str w, ls_ports = ports, ls_pid = pid, ls_created = py_str c,
       ls_expires = py_str e\<rparr>))))))) of
      Inl _ \<Rightarrow> None
    | Inr l \<Rightarrow> (case le_instant v (ls_expires l) of
          AwareTime t \<Rightarrow> if t \<le> le_now v \<or> \<not> process_alive v (ls_pid l) then None else Some l
        | _ \<Rightarrow> None))"

definition reclaim_state :: "lease_env \<Rightarrow> (string, json) dict \<Rightarrow> (string, json) dict" where
  "reclaim_state v st = filter (\<lambda>(i, raw). live_lease v i raw \<noteq> None) st"

definition live_leases :: "lease_env \<Rightarrow> (string, json) dict \<Rightarrow> port_lease list" where
  "live_leases v st = List.map_filter (\<lambda>(i, raw). live_lease v i raw) st"

section \<open>The registry file\<close>

definition mk_port_manager :: "int \<Rightarrow> int result" where
  "mk_port_manager ttl = bindE (raises [(ttl < 30, ValueError ''lease_ttl_seconds'')]) (\<lambda>_. Inr ttl)"

definition registry :: "json_file \<Rightarrow> (string, json) dict" where
  "registry f = (case f of JsonFile (JObj kvs) \<Rightarrow> kvs | _ \<Rightarrow> [])"

text \<open>
  Every operation runs under the file lock; when it raises, the file keeps what it held.
  \<open>fresh\<close> is the identifier drawn for a new lease.
\<close>

definition acquire ::
  "lease_env \<Rightarrow> (int \<Rightarrow> bool) \<Rightarrow> string \<Rightarrow> string \<Rightarrow> int \<Rightarrow> allocator \<Rightarrow> json_file
   \<Rightarrow> (port_lease \<times> allocator \<times> json_file) result" where
  "acquire v free fresh owner n a f =
     (if blank owner then Inl (ValueError ''owner_id'')
      else let held = set (concat (map ls_ports (live_leases v (registry f)))) in
        bindE (allocate free n held a) (\<lambda>(ports, a1).
          let l = \<lparr>ls_lease_id = fresh, ls_owner = owner, ls_ports = ports, ls_pid = le_pid v,
                ls_created = le_iso v (le_now v), ls_expires = le_iso v (le_now v + le_ttl v)\<rparr>
          in Inr (l, a1, JsonFile (JObj (dict_put fresh (lease_as_dict l) (reclaim_state v (registry f)))))))"

definition renew :: "lease_env \<Rightarrow> string \<Rightarrow> json_file \<Rightarrow> (port_lease \<times> json_file) result" where
  "renew v i f = (case Option.bind (dict_get (reclaim_state v (registry f)) i) (live_lease v i) of
      None \<Rightarrow> Inl (KeyError i)
    | Some l0 \<Rightarrow> let l = l0\<lparr>ls_expires := le_iso v (le_now v + le_ttl v)\<rparr>
        in Inr (l, JsonFile (JObj (dict_put i (lease_as_dict l) (reclaim_state v (registry f))))))"

definition release_lease :: "string \<Rightarrow> allocator \<Rightarrow> json_file \<Rightarrow> (int list \<times> allocator \<times> json_file) result" where
  "release_lease i a f = (case dict_get (registry f) i of
      None \<Rightarrow> Inr ([], a, JsonFile (JObj (registry f)))
    | Some raw \<Rightarrow> bindE (entry_field raw ''ports'') (\<lambda>q. bindE (port_list q) (\<lambda>ports.
        Inr (ports, give_back ports a, JsonFile (JObj (dict_pop i (registry f)))))))"

definition active_leases :: "lease_env \<Rightarrow> json_file \<Rightarrow> port_lease list \<times> json_file" where
  "active_leases v f = (live_leases v (registry f), JsonFile (JObj (reclaim_state v (registry f))))"

definition reclaim :: "lease_env \<Rightarrow> json_file \<Rightarrow> string list \<times> json_file" where
  "reclaim v f = (sort (filter (\<lambda>i. i \<notin> set (dict_keys (reclaim_state v (registry f)))) (dict_keys (registry f))),
     JsonFile (JObj (reclaim_state v (registry f))))"

end
