(* ===== verification/Port_Laws.thy ===== *)
theory Port_Laws
  imports Port_Lease
begin

text \<open>
  The laws of the port leases. What the registry relies on is stated as the interface of a pool of
  ports; the allocator is one.
\<close>

section \<open>The pool\<close>

locale port_pool =
  fixes grant :: "int \<Rightarrow> int set \<Rightarrow> 'p \<Rightarrow> (int list \<times> 'p) result"
    and restore :: "int list \<Rightarrow> 'p \<Rightarrow> 'p"
    and taken :: "'p \<Rightarrow> int set"
  assumes grant_new: "grant n held p = Inr (ps, q) \<Longrightarrow> set ps \<inter> (held \<union> taken p) = {}"
    and grant_taken: "grant n held p = Inr (ps, q) \<Longrightarrow> taken q = taken p \<union> set ps"
    and back_taken: "taken (restore ps p) = taken p - set ps"
begin

text \<open>Ports that have been granted are granted again only after they have been restored.\<close>

lemma not_granted_twice:
  "grant n held p = Inr (ps, q) \<Longrightarrow> grant m held' q = Inr (rs, r) \<Longrightarrow> set ps \<inter> set rs = {}"
  using grant_new [of m held' q rs r] grant_taken [of n held p ps q] by blast

lemma grant_back: "grant n held p = Inr (ps, q) \<Longrightarrow> taken (restore ps q) = taken p"
  using grant_new [of n held p ps q] grant_taken [of n held p ps q] by (auto simp: back_taken)

lemma granted_elsewhere:
  "grant n (\<Union> (ports ` H)) p = Inr (ps, q) \<Longrightarrow> h \<in> H \<Longrightarrow> set ps \<inter> ports h = {}"
  using grant_new [of n _ p ps q] by blast

end

lemma allocate_cases:
  assumes "allocate free n held a = Inr (ps, a1)"
  shows "distinct ps" "int (length ps) = n" "a1 = a\<lparr>al_reserved := al_reserved a \<union> set ps\<rparr>"
    "p \<in> set ps \<Longrightarrow> al_start a \<le> p \<and> p \<le> al_end a \<and> free p \<and> p \<notin> held \<and> p \<notin> al_reserved a"
proof -
  let ?ok = "filter (\<lambda>p. p \<notin> al_reserved a \<and> p \<notin> held \<and> free p) [al_start a..al_end a]"
  have n: "\<not> n < 1" "\<not> length (take (nat n) ?ok) < nat n" and ps: "ps = take (nat n) ?ok"
    and a1: "a1 = a\<lparr>al_reserved := al_reserved a \<union> set ps\<rparr>"
    using assms by (auto simp: allocate_def Let_def split: if_splits)
  show "distinct ps" by (simp add: ps)
  show "int (length ps) = n" using n by (simp add: ps)
  show "a1 = a\<lparr>al_reserved := al_reserved a \<union> set ps\<rparr>" by (rule a1)
  show "p \<in> set ps \<Longrightarrow> al_start a \<le> p \<and> p \<le> al_end a \<and> free p \<and> p \<notin> held \<and> p \<notin> al_reserved a"
    using set_take_subset [of "nat n" ?ok] by (auto simp: ps)
qed

interpretation pool: port_pool "allocate free" give_back al_reserved
proof
  fix n held p ps q
  assume "allocate free n held p = Inr (ps, q)"
  note c = allocate_cases [OF this]
  show "set ps \<inter> (held \<union> al_reserved p) = {}" using c(4) by blast
  show "al_reserved q = al_reserved p \<union> set ps" by (simp add: c(3))
qed (simp add: give_back_def)

section \<open>The registry\<close>

definition ports_of :: "json \<Rightarrow> int set" where
  "ports_of raw = (case bindE (entry_field raw ''ports'') port_list of Inl _ \<Rightarrow> {} | Inr ps \<Rightarrow> set ps)"

definition no_shared_port :: "(string, json) dict \<Rightarrow> bool" where
  "no_shared_port st \<longleftrightarrow> (\<forall>i raw j raw'. (i, raw) \<in> set st \<longrightarrow> (j, raw') \<in> set st \<longrightarrow> i \<noteq> j
     \<longrightarrow> ports_of raw \<inter> ports_of raw' = {})"

lemma live_lease_ports: "live_lease v i raw = Some l \<Longrightarrow> set (ls_ports l) = ports_of raw \<and> ls_lease_id l = i"
  by (auto simp: live_lease_def ports_of_def split: sum.splits timestamp.splits if_splits)

lemma port_list_JInt [simp]: "port_list (JList (map JInt ps)) = Inr ps"
proof -
  have "mapE py_int (map JInt ps) = Inr ps" using mapE_map [of ps py_int JInt "\<lambda>p. p"] by (simp add: py_int_def)
  then show ?thesis by (simp add: port_list_def)
qed

lemma ports_of_dict [simp]: "ports_of (lease_as_dict l) = set (ls_ports l)"
  by (simp add: ports_of_def lease_as_dict_def entry_field_def json_get_def)

lemma no_shared_port_subset: "no_shared_port st \<Longrightarrow> set st' \<subseteq> set st \<Longrightarrow> no_shared_port st'"
  unfolding no_shared_port_def by blast

lemma set_reclaim_state: "set (reclaim_state v st) \<subseteq> set st"
  by (auto simp: reclaim_state_def)

lemma set_live_leases: "set (live_leases v st) = {l. \<exists>i raw. (i, raw) \<in> set st \<and> live_lease v i raw = Some l}"
  by (force simp: live_leases_def map_filter_def)

lemma no_shared_port_put:
  assumes "no_shared_port st" "\<And>i raw. (i, raw) \<in> set st \<Longrightarrow> i \<noteq> k \<Longrightarrow> ports_of raw \<inter> ports_of new = {}"
    "distinct (dict_keys st)"
  shows "no_shared_port (dict_put k new st)"
  unfolding no_shared_port_def
proof (intro allI impI)
  fix i raw j raw' assume m: "(i, raw) \<in> set (dict_put k new st)" "(j, raw') \<in> set (dict_put k new st)" "i \<noteq> j"
  show "ports_of raw \<inter> ports_of raw' = {}"
    using set_dict_put_distinct [OF m(1) assms(3)] set_dict_put_distinct [OF m(2) assms(3)] assms(1,2) m(3)
    unfolding no_shared_port_def by (metis Int_commute)
qed

definition registry_ok :: "json_file \<Rightarrow> bool" where
  "registry_ok f \<longleftrightarrow> distinct (dict_keys (registry f)) \<and> no_shared_port (registry f)"

lemma distinct_reclaim: "distinct (dict_keys st) \<Longrightarrow> distinct (dict_keys (reclaim_state v st))"
  by (simp add: reclaim_state_def distinct_map_filter)

lemma registry_JsonFile [simp]: "registry (JsonFile (JObj kvs)) = kvs"
  by (simp add: registry_def)

lemma reclaim_ok: "registry_ok f \<Longrightarrow> registry_ok (JsonFile (JObj (reclaim_state v (registry f))))"
  unfolding registry_ok_def registry_JsonFile
  using no_shared_port_subset [OF _ set_reclaim_state] distinct_reclaim by blast

lemma acquire_cases:
  assumes "acquire v free fresh owner n a f = Inr (l, a1, f1)"
  shows "allocate free n (\<Union> ((set \<circ> ls_ports) ` set (live_leases v (registry f)))) a = Inr (ls_ports l, a1)"
    "f1 = JsonFile (JObj (dict_put fresh (lease_as_dict l) (reclaim_state v (registry f))))"
    "ls_lease_id l = fresh" "ls_owner l = owner" "ls_pid l = le_pid v" "ls_created l = le_iso v (le_now v)"
    "ls_expires l = le_iso v (le_now v + le_ttl v)"
  using assms by (auto simp: acquire_def Let_def split: if_splits)

lemma acquire_ok:
  assumes "acquire v free fresh owner n a f = Inr (l, a1, f1)" "registry_ok f"
  shows "registry_ok f1"
proof -
  note c = acquire_cases [OF assms(1)]
  let ?st = "reclaim_state v (registry f)"
  have st: "distinct (dict_keys ?st)" "no_shared_port ?st"
    using reclaim_ok [OF assms(2), of v] by (simp_all add: registry_ok_def)
  have "ports_of raw \<inter> set (ls_ports l) = {}" if m: "(i, raw) \<in> set ?st" for i raw
  proof -
    obtain l0 where l0: "live_lease v i raw = Some l0" "(i, raw) \<in> set (registry f)"
      using m by (auto simp: reclaim_state_def)
    then have "l0 \<in> set (live_leases v (registry f))" by (auto simp: set_live_leases)
    from pool.granted_elsewhere [OF c(1) this] show ?thesis using live_lease_ports [OF l0(1)] by auto
  qed
  then have "no_shared_port (dict_put fresh (lease_as_dict l) ?st)"
    by (intro no_shared_port_put [OF st(2) _ st(1)]) simp
  then show ?thesis
    unfolding registry_ok_def c(2) registry_JsonFile using distinct_dict_put [OF st(1)] by blast
qed

lemma renew_ok:
  assumes "renew v i f = Inr (l, f1)" "registry_ok f"
  shows "registry_ok f1"
proof -
  let ?st = "reclaim_state v (registry f)"
  have st: "distinct (dict_keys ?st)" "no_shared_port ?st"
    using reclaim_ok [OF assms(2), of v] by (simp_all add: registry_ok_def)
  obtain raw l0 where r: "dict_get ?st i = Some raw" "live_lease v i raw = Some l0"
    "l = l0\<lparr>ls_expires := le_iso v (le_now v + le_ttl v)\<rparr>" "f1 = JsonFile (JObj (dict_put i (lease_as_dict l) ?st))"
    using assms(1) by (auto simp: renew_def Let_def split: option.splits bind_splits)
  have "ports_of (lease_as_dict l) = ports_of raw" using live_lease_ports [OF r(2)] r(3) by simp
  moreover have "(i, raw) \<in> set ?st" using r(1) by (rule map_of_SomeD)
  ultimately have "no_shared_port (dict_put i (lease_as_dict l) ?st)"
    using st by (intro no_shared_port_put) (auto simp: no_shared_port_def)
  then show ?thesis unfolding registry_ok_def r(4) registry_JsonFile using st(1) by (simp add: distinct_dict_put)
qed

lemma release_ok:
  assumes "release_lease i a f = Inr (ps, a1, f1)" "registry_ok f"
  shows "registry_ok f1"
proof -
  have "f1 = JsonFile (JObj (registry f)) \<or> f1 = JsonFile (JObj (dict_pop i (registry f)))"
    using assms(1) by (auto simp: release_lease_def split: option.splits)
  then show ?thesis
    using assms(2) no_shared_port_subset [OF _ set_dict_pop]
    by (auto simp: registry_ok_def dict_keys_pop distinct_removeAll)
qed

section \<open>Leases in use\<close>

text \<open>The registries that any number of processes, each with its own clock, allocator and view of the
  living, reach from a missing file.\<close>

inductive registry_reach :: "json_file \<Rightarrow> bool" where
  no_registry: "registry_reach NoFile"
| acquired: "registry_reach f \<Longrightarrow> acquire v free fresh owner n a f = Inr (l, a1, f1) \<Longrightarrow> registry_reach f1"
| renewed: "registry_reach f \<Longrightarrow> renew v i f = Inr (l, f1) \<Longrightarrow> registry_reach f1"
| released: "registry_reach f \<Longrightarrow> release_lease i a f = Inr (ps, a1, f1) \<Longrightarrow> registry_reach f1"
| listed: "registry_reach f \<Longrightarrow> registry_reach (snd (active_leases v f))"
| reclaimed: "registry_reach f \<Longrightarrow> registry_reach (snd (reclaim v f))"

lemma registry_reach_ok: "registry_reach f \<Longrightarrow> registry_ok f"
proof (induction rule: registry_reach.induct)
  case no_registry
  show ?case by (simp add: registry_ok_def registry_def no_shared_port_def)
qed (use acquire_ok renew_ok release_ok reclaim_ok in \<open>auto simp: active_leases_def reclaim_def\<close>)

text \<open>C33. Two leases never hold the same port, whatever the clocks, the processes and the operating
  system answer in between and however the operations interleave.\<close>

theorem leases_never_share_ports:
  assumes "registry_reach f"
  shows "\<forall>k l. k \<in> set (live_leases v (registry f)) \<longrightarrow> l \<in> set (live_leases v (registry f)) \<longrightarrow>
    ls_lease_id k \<noteq> ls_lease_id l \<longrightarrow> set (ls_ports k) \<inter> set (ls_ports l) = {}"
proof (intro allI impI)
  fix k l assume m: "k \<in> set (live_leases v (registry f))" "l \<in> set (live_leases v (registry f))"
    "ls_lease_id k \<noteq> ls_lease_id l"
  then obtain i raw j raw' where r: "(i, raw) \<in> set (registry f)" "live_lease v i raw = Some k"
    "(j, raw') \<in> set (registry f)" "live_lease v j raw' = Some l" by (auto simp: set_live_leases)
  note p = live_lease_ports [OF r(2)] live_lease_ports [OF r(4)]
  have "ports_of raw \<inter> ports_of raw' = {}"
    using registry_reach_ok [OF assms] r(1,3) p m(3) by (auto simp: registry_ok_def no_shared_port_def)
  then show "set (ls_ports k) \<inter> set (ls_ports l) = {}" using p by simp
qed

text \<open>An acquired lease is what was asked for: that many distinct ports of the pool, each free, none
  reserved before; and it is at once a live lease of the registry.\<close>

theorem acquired_lease_live:
  assumes "acquire v free fresh owner n a f = Inr (l, a1, f1)"
    and "le_instant v (le_iso v (le_now v + le_ttl v)) = AwareTime (le_now v + le_ttl v)" "0 < le_ttl v" "process_alive v (le_pid v)"
  shows "int (length (ls_ports l)) = n \<and> distinct (ls_ports l) \<and> ls_owner l = owner
    \<and> (\<forall>p. p \<in> set (ls_ports l) \<longrightarrow> al_start a \<le> p \<and> p \<le> al_end a \<and> free p \<and> p \<notin> al_reserved a)
    \<and> live_lease v fresh (lease_as_dict l) = Some l \<and> dict_get (registry f1) fresh = Some (lease_as_dict l)"
proof -
  note c = acquire_cases [OF assms(1)]
  have "live_lease v fresh (lease_as_dict l) = Some l"
    using assms(2-4) c(3,5-7)
    by (simp add: live_lease_def lease_as_dict_def entry_field_def json_get_def py_int_def py_str_def)
  then show ?thesis
    using allocate_cases [OF c(1)] c(2,4) by (auto simp: dict.get_put)
qed

text \<open>A lease that has run out is lost for the process that holds its ports: once any process has
  cleared it from the registry, releasing it gives nothing back, and the allocator of its
  process keeps the ports reserved and never grants them again.\<close>

theorem expired_lease_keeps_ports:
  assumes "acquire v free fresh owner n a f = Inr (l, a1, f1)" "fresh \<in> set (fst (reclaim v' f2))"
  shows "release_lease fresh a1 (snd (reclaim v' f2)) = Inr ([], a1, snd (reclaim v' f2))
    \<and> (\<forall>free' m held ps a2. allocate free' m held a1 = Inr (ps, a2) \<longrightarrow> set ps \<inter> set (ls_ports l) = {})"
proof -
  have "fresh \<notin> set (dict_keys (reclaim_state v' (registry f2)))"
    using assms(2) by (auto simp: reclaim_def)
  then have "release_lease fresh a1 (snd (reclaim v' f2)) = Inr ([], a1, snd (reclaim v' f2))"
    by (simp add: release_lease_def reclaim_def map_of_eq_None_iff [symmetric])
  moreover have "set ps \<inter> set (ls_ports l) = {}" if "allocate free' m held a1 = Inr (ps, a2)" for free' m held ps a2
    using allocate_cases(4) [OF that] pool.grant_taken [OF acquire_cases(1) [OF assms(1)]] by blast
  ultimately show ?thesis by blast
qed

section \<open>Witnesses\<close>

text \<open>Times are rendered in unary; two processes live.\<close>

definition port_env :: "int \<Rightarrow> int \<Rightarrow> lease_env" where
  "port_env now pid = \<lparr>le_now = now, le_ttl = 60, le_iso = (\<lambda>t. replicate (nat t) (CHR ''i'')),
     le_instant = (\<lambda>s. AwareTime (int (length s))), le_alive = (\<lambda>p. p = 7 \<or> p = 8), le_pid = pid\<rparr>"

definition port_pool_0 :: allocator where
  "port_pool_0 = projr (mk_allocator 8100 8103 ''auto'')"

definition first_lease :: "port_lease \<times> allocator \<times> json_file" where
  "first_lease = projr (acquire (port_env 0 7) (\<lambda>p. p \<noteq> 8100) ''a'' ''app'' 1 port_pool_0 NoFile)"

definition second_lease :: "port_lease \<times> allocator \<times> json_file" where
  "second_lease = projr (acquire (port_env 1 8) (\<lambda>p. p \<noteq> 8100) ''b'' ''web'' 2 port_pool_0 (snd (snd first_lease)))"

lemma first_lease_eq: "acquire (port_env 0 7) (\<lambda>p. p \<noteq> 8100) ''a'' ''app'' 1 port_pool_0 NoFile
    = Inr (fst first_lease, fst (snd first_lease), snd (snd first_lease))"
proof -
  have "\<not> isl (acquire (port_env 0 7) (\<lambda>p. p \<noteq> 8100) ''a'' ''app'' 1 port_pool_0 NoFile)" by code_simp
  then show ?thesis by (simp add: first_lease_def)
qed

lemma second_lease_eq: "acquire (port_env 1 8) (\<lambda>p. p \<noteq> 8100) ''b'' ''web'' 2 port_pool_0 (snd (snd first_lease))
    = Inr (fst second_lease, fst (snd second_lease), snd (snd second_lease))"
proof -
  have "\<not> isl (acquire (port_env 1 8) (\<lambda>p. p \<noteq> 8100) ''b'' ''web'' 2 port_pool_0 (snd (snd first_lease)))" by code_simp
  then show ?thesis by (simp add: second_lease_def)
qed

lemma leases_never_share_ports_witness:
  "length (live_leases (port_env 2 7) (registry (snd (snd second_lease)))) = 2
   \<and> set (ls_ports (fst first_lease)) \<inter> set (ls_ports (fst second_lease)) = {}"
proof -
  have "registry_reach (snd (snd second_lease))"
    using registry_reach.acquired [OF registry_reach.acquired [OF no_registry first_lease_eq] second_lease_eq] .
  moreover have "live_leases (port_env 2 7) (registry (snd (snd second_lease))) = [fst first_lease, fst second_lease]"
    "ls_lease_id (fst first_lease) \<noteq> ls_lease_id (fst second_lease)" by code_simp+
  ultimately show ?thesis using leases_never_share_ports [of "snd (snd second_lease)" "port_env 2 7"] by simp
qed

lemma acquired_lease_live_witness: "ls_owner (fst first_lease) = ''app'' \<and> length (ls_ports (fst first_lease)) = 1"
proof -
  have "le_instant (port_env 0 7) (le_iso (port_env 0 7) (le_now (port_env 0 7) + le_ttl (port_env 0 7)))
      = AwareTime (le_now (port_env 0 7) + le_ttl (port_env 0 7))" "0 < le_ttl (port_env 0 7)"
    "process_alive (port_env 0 7) (le_pid (port_env 0 7))"
    by (simp_all add: port_env_def process_alive_def)
  from acquired_lease_live [OF first_lease_eq this] show ?thesis by simp
qed

lemma expired_lease_keeps_ports_witness:
  "release_lease ''a'' (fst (snd first_lease)) (snd (reclaim (port_env 100 8) (snd (snd first_lease))))
     = Inr ([], fst (snd first_lease), snd (reclaim (port_env 100 8) (snd (snd first_lease))))"
proof -
  have "list_ex (\<lambda>i. i = ''a'') (fst (reclaim (port_env 100 8) (snd (snd first_lease))))" by code_simp
  then have "''a'' \<in> set (fst (reclaim (port_env 100 8) (snd (snd first_lease))))" by (simp only: list_ex_iff) blast
  from expired_lease_keeps_ports [OF first_lease_eq this] show ?thesis by blast
qed

end
