(* ===== verification/Worker_Lease.thy ===== *)
theory Worker_Lease
  imports Json
begin

text \<open>
  The lease a worker process takes on a trace before it runs it: \<^verbatim>\<open>claim_worker\<close>,
  \<^verbatim>\<open>release_worker\<close> and \<^verbatim>\<open>worker_active\<close> of \<^verbatim>\<open>app/orchestration/progress.py\<close>. First as
  operations that run alone, then as the steps between which the file system lets other
  processes run: the lease is no file lock, so several processes may be inside a claim.
\<close>

section \<open>Undisturbed operations\<close>

text \<open>What \<open>os.kill(pid, 0)\<close> says of a process.\<close>

datatype signal_answer = Delivered | NoProcess | NotPermitted

definition lease_text :: "string \<Rightarrow> int \<Rightarrow> string \<Rightarrow> json_file" where
  "lease_text trace pid now = JsonFile (JObj
     [(''trace_id'', JStr trace), (''pid'', JInt pid), (''claimed_at'', JStr now)])"

definition lease_pid :: "json \<Rightarrow> int result" where
  "lease_pid j = (if \<not> is_obj j then Inl (AttributeError ''get'')
     else py_int (case json_get j ''pid'' of None \<Rightarrow> JInt 0 | Some v \<Rightarrow> v))"

text \<open>
  Whether an existing lease refuses a claim: a readable one of a process that takes a signal. Every
  other failure but a lease that is no object counts as a stale lease.
\<close>

definition lease_refuses :: "(int \<Rightarrow> signal_answer) \<Rightarrow> json_file \<Rightarrow> bool result" where
  "lease_refuses kill f = (case f of
      JsonFile j \<Rightarrow> (case lease_pid j of
          Inl (AttributeError e) \<Rightarrow> Inl (AttributeError e)
        | Inl _ \<Rightarrow> Inr False
        | Inr pid \<Rightarrow> Inr (0 < pid \<and> kill pid = Delivered))
    | _ \<Rightarrow> Inr False)"

definition claim_worker ::
  "(int \<Rightarrow> signal_answer) \<Rightarrow> string \<Rightarrow> int \<Rightarrow> string \<Rightarrow> json_file \<Rightarrow> (bool \<times> json_file) result" where
  "claim_worker kill trace pid now f =
     (if f = NoFile then Inr (True, lease_text trace pid now)
      else bindE (lease_refuses kill f) (\<lambda>b.
        Inr (if b then (False, f) else (True, lease_text trace pid now))))"

definition release_worker :: "int \<Rightarrow> json_file \<Rightarrow> json_file result" where
  "release_worker pid f = (case f of
      JsonFile j \<Rightarrow> (case lease_pid j of
          Inl (AttributeError e) \<Rightarrow> Inl (AttributeError e)
        | Inl _ \<Rightarrow> Inr f
        | Inr p \<Rightarrow> Inr (if p \<noteq> pid then f else NoFile))
    | _ \<Rightarrow> Inr f)"

definition worker_active :: "(int \<Rightarrow> signal_answer) \<Rightarrow> json_file \<Rightarrow> bool result" where
  "worker_active kill f = (case f of
      JsonFile j \<Rightarrow> (case lease_pid j of
          Inl (AttributeError e) \<Rightarrow> Inl (AttributeError e)
        | Inl _ \<Rightarrow> Inr False
        | Inr pid \<Rightarrow> Inr (kill pid = Delivered \<and> 0 < pid))
    | _ \<Rightarrow> Inr False)"

section \<open>Interleaved claims\<close>

text \<open>
  The steps of a claim: the exclusive creation of the file, the writing of its text (it is empty until
  then), the reading of another's lease, and the removal of a stale one followed by a new attempt.
  A writer holds its own file, which may have lost its name.
\<close>

datatype claim_phase = Opening | Writing nat | Reading | Removing | Claimed | Refused

record lease_world =
  lw_name :: "nat option"
  lw_text :: "nat \<Rightarrow> json_file"
  lw_next :: nat
  lw_phase :: "int \<Rightarrow> claim_phase"

definition claim_start :: lease_world where
  "claim_start = \<lparr>lw_name = None, lw_text = (\<lambda>_. NotJson), lw_next = 0, lw_phase = (\<lambda>_. Opening)\<rparr>"

definition set_phase :: "int \<Rightarrow> claim_phase \<Rightarrow> lease_world \<Rightarrow> lease_world" where
  "set_phase pid ph w = w\<lparr>lw_phase := (lw_phase w)(pid := ph)\<rparr>"

inductive claim_step :: "(int \<Rightarrow> signal_answer) \<Rightarrow> string \<Rightarrow> string \<Rightarrow> int \<Rightarrow> lease_world \<Rightarrow> lease_world \<Rightarrow> bool"
  for kill trace now where
  opens_new: "lw_phase w pid = Opening \<Longrightarrow> lw_name w = None \<Longrightarrow>
    claim_step kill trace now pid w (set_phase pid (Writing (lw_next w))
      (w\<lparr>lw_name := Some (lw_next w), lw_next := lw_next w + 1\<rparr>))"
| opens_held: "lw_phase w pid = Opening \<Longrightarrow> lw_name w = Some i \<Longrightarrow>
    claim_step kill trace now pid w (set_phase pid Reading w)"
| writes: "lw_phase w pid = Writing i \<Longrightarrow>
    claim_step kill trace now pid w (set_phase pid Claimed
      (w\<lparr>lw_text := (lw_text w)(i := lease_text trace pid now)\<rparr>))"
| reads_live: "lw_phase w pid = Reading \<Longrightarrow> lw_name w = Some i \<Longrightarrow> lease_refuses kill (lw_text w i) = Inr True \<Longrightarrow>
    claim_step kill trace now pid w (set_phase pid Refused w)"
| reads_stale: "lw_phase w pid = Reading \<Longrightarrow> lw_name w = Some i \<Longrightarrow> lease_refuses kill (lw_text w i) = Inr False \<Longrightarrow>
    claim_step kill trace now pid w (set_phase pid Removing w)"
| reads_nothing: "lw_phase w pid = Reading \<Longrightarrow> lw_name w = None \<Longrightarrow>
    claim_step kill trace now pid w (set_phase pid Removing w)"
| removes: "lw_phase w pid = Removing \<Longrightarrow> lw_name w = Some i \<Longrightarrow>
    claim_step kill trace now pid w (set_phase pid Opening (w\<lparr>lw_name := None\<rparr>))"
| removes_nothing: "lw_phase w pid = Removing \<Longrightarrow> lw_name w = None \<Longrightarrow>
    claim_step kill trace now pid w (set_phase pid Refused w)"

inductive_cases claim_stepE: "claim_step kill trace now pid w w'"

inductive claims_reach :: "(int \<Rightarrow> signal_answer) \<Rightarrow> string \<Rightarrow> string \<Rightarrow> lease_world \<Rightarrow> bool"
  for kill trace now where
  nobody: "claims_reach kill trace now claim_start"
| somebody: "claims_reach kill trace now w \<Longrightarrow> 0 < pid \<Longrightarrow> claim_step kill trace now pid w w' \<Longrightarrow>
    claims_reach kill trace now w'"

section \<open>Laws\<close>

lemma lease_text_refuses [simp]:
  "lease_refuses kill (lease_text trace pid now) = Inr (0 < pid \<and> kill pid = Delivered)"
  by (simp add: lease_refuses_def lease_text_def lease_pid_def json_get_def py_int_def)

lemma lease_text_active [simp]:
  "worker_active kill (lease_text trace pid now) = Inr (0 < pid \<and> kill pid = Delivered)"
  by (simp add: worker_active_def lease_text_def lease_pid_def json_get_def py_int_def conj_commute)

text \<open>Claims that run alone exclude each other: a worker that claimed an unclaimed trace keeps it against
  every other process as long as it can be signalled, is reported active, and its release, and
  nobody else's, opens the trace again.\<close>

theorem undisturbed_claims_exclude:
  assumes "claim_worker kill trace pid now NoFile = Inr (b, f)" "0 < pid" "kill pid = Delivered"
  shows "b \<and> claim_worker kill trace' pid' now' f = Inr (False, f) \<and> worker_active kill f = Inr True
    \<and> release_worker pid f = Inr NoFile \<and> (pid' \<noteq> pid \<longrightarrow> release_worker pid' f = Inr f)"
proof -
  have f: "b" "f = lease_text trace pid now" using assms(1) by (simp_all add: claim_worker_def)
  have "f \<noteq> NoFile" by (simp add: f(2) lease_text_def)
  then have "claim_worker kill trace' pid' now' f = Inr (False, f)"
    using assms(2,3) by (simp add: claim_worker_def f(2))
  moreover have "release_worker q f = Inr (if pid \<noteq> q then f else NoFile)" for q
    by (simp add: release_worker_def f(2) lease_text_def lease_pid_def json_get_def py_int_def)
  ultimately show ?thesis using f assms(2,3) by simp
qed

text \<open>A lease of a live process of another user protects nothing: the refused signal is taken for a dead
  process, the claim succeeds and the owner's lease is replaced.\<close>

theorem foreign_lease_is_stolen:
  assumes "kill owner = NotPermitted"
  shows "claim_worker kill trace pid now (lease_text trace owner since) = Inr (True, lease_text trace pid now)
    \<and> worker_active kill (lease_text trace owner since) = Inr False"
proof -
  have "lease_text trace owner since \<noteq> NoFile" by (simp add: lease_text_def)
  then show ?thesis using assms by (simp add: claim_worker_def)
qed

text \<open>C34. Interleaved claims do not exclude each other: from an unclaimed trace any two live processes can
  both end up with their claim granted, the second one having removed the file the first had
  created and not yet written; the first is then not even named in the lease.\<close>

theorem interleaved_claims_both_granted:
  assumes "0 < p" "0 < q" "p \<noteq> q"
  shows "\<exists>w. claims_reach kill trace now w \<and> lw_phase w p = Claimed \<and> lw_phase w q = Claimed
    \<and> (\<exists>i. lw_name w = Some i \<and> lw_text w i = lease_text trace q now)"
proof -
  let ?w1 = "set_phase p (Writing 0) (claim_start\<lparr>lw_name := Some 0, lw_next := 1\<rparr>)"
  let ?w2 = "set_phase q Reading ?w1"
  let ?w3 = "set_phase q Removing ?w2"
  let ?w4 = "set_phase q Opening (?w3\<lparr>lw_name := None\<rparr>)"
  let ?w5 = "set_phase q (Writing 1) (?w4\<lparr>lw_name := Some 1, lw_next := Suc 1\<rparr>)"
  let ?w6 = "set_phase q Claimed (?w5\<lparr>lw_text := (lw_text ?w5)(1 := lease_text trace q now)\<rparr>)"
  let ?w7 = "set_phase p Claimed (?w6\<lparr>lw_text := (lw_text ?w6)(0 := lease_text trace p now)\<rparr>)"
  note d = set_phase_def claim_start_def
  have "claim_step kill trace now p claim_start ?w1"
    using opens_new [of claim_start p kill trace now] by (simp add: d)
  then have 1: "claims_reach kill trace now ?w1" by (rule somebody [OF nobody assms(1)])
  have "claim_step kill trace now q ?w1 ?w2" by (rule opens_held [of _ _ 0]) (use assms(3) in \<open>simp_all add: d\<close>)
  then have 2: "claims_reach kill trace now ?w2" by (rule somebody [OF 1 assms(2)])
  have "claim_step kill trace now q ?w2 ?w3" by (rule reads_stale [of _ _ 0]) (simp_all add: d lease_refuses_def)
  then have 3: "claims_reach kill trace now ?w3" by (rule somebody [OF 2 assms(2)])
  have "claim_step kill trace now q ?w3 ?w4" by (rule removes [of _ _ 0]) (simp_all add: d)
  then have 4: "claims_reach kill trace now ?w4" by (rule somebody [OF 3 assms(2)])
  have "claim_step kill trace now q ?w4 ?w5" using opens_new [of ?w4 q kill trace now] by (simp add: d)
  then have 5: "claims_reach kill trace now ?w5" by (rule somebody [OF 4 assms(2)])
  have "claim_step kill trace now q ?w5 ?w6" by (rule writes) (simp add: d)
  then have 6: "claims_reach kill trace now ?w6" by (rule somebody [OF 5 assms(2)])
  have "claim_step kill trace now p ?w6 ?w7" by (rule writes) (use assms(3) in \<open>simp add: d\<close>)
  then have "claims_reach kill trace now ?w7" by (rule somebody [OF 6 assms(1)])
  then show ?thesis using assms(3) by (intro exI [of _ ?w7]) (simp add: d)
qed

section \<open>Witnesses\<close>

lemma undisturbed_claims_exclude_witness:
  "claim_worker (\<lambda>_. Delivered) ''t1'' 8 ''later'' (lease_text ''t1'' 7 ''now'') = Inr (False, lease_text ''t1'' 7 ''now'')"
proof -
  have "claim_worker (\<lambda>_. Delivered) ''t1'' 7 ''now'' NoFile = Inr (True, lease_text ''t1'' 7 ''now'')" by code_simp
  from undisturbed_claims_exclude [OF this] show ?thesis by simp
qed

lemma foreign_lease_is_stolen_witness:
  "claim_worker (\<lambda>_. NotPermitted) ''t1'' 8 ''later'' (lease_text ''t1'' 7 ''now'') = Inr (True, lease_text ''t1'' 8 ''later'')"
  using foreign_lease_is_stolen [of "\<lambda>_. NotPermitted" 7] by simp

lemma interleaved_claims_both_granted_witness:
  "\<exists>w. claims_reach (\<lambda>_. Delivered) ''t1'' ''now'' w \<and> lw_phase w 7 = Claimed \<and> lw_phase w 8 = Claimed"
  using interleaved_claims_both_granted [of 7 8 "\<lambda>_. Delivered" "''t1''" "''now''"] by auto

end
