(* ===== verification/Workflow.thy ===== *)
theory Workflow
  imports Plan_Laws
begin

text \<open>
  The controlled workflow templates: \<^verbatim>\<open>app/workflow/template.py\<close> (blueprints, templates and their
  registry), \<^verbatim>\<open>app/orchestration/delivery_contract.py\<close> (who owns which deliverable and who waits for
  it) and the \<open>TemplateCompiler\<close> of \<^verbatim>\<open>app/workflow/compiler.py\<close>, which turns a template into an
  execution plan. The objectives and criteria of a template are data of the caller.
\<close>

section \<open>Blueprints and templates\<close>

record blueprint =
  bp_id :: string
  bp_agent_id :: string
  bp_objective :: string
  bp_output_key :: string
  bp_stage_id :: "string option"
  bp_depends_on :: "string list"
  bp_execution_mode :: execution_mode
  bp_artifact_key :: "string option"
  bp_input_refs :: "string list"
  bp_input_from :: "string list"
  bp_slot :: "string option"
  bp_publish_target :: "string option"
  bp_candidate_from :: "string option"
  bp_acceptance_criteria :: "string list"
  bp_constraints :: "string list"
  bp_non_goals :: "string list"
  bp_unit :: "string option"
  bp_allowed_paths :: "string list"
  bp_forbidden_paths :: "string list"
  bp_required_paths :: "string list"
  bp_owned_files :: "string list"
  bp_policy_refs :: "string list"
  bp_skill_refs :: "string list"

text \<open>\<open>TaskBlueprint(id=..., agent_id=..., objective=..., output_key=...)\<close> before its checks.\<close>

definition blank_blueprint :: "string \<Rightarrow> string \<Rightarrow> string \<Rightarrow> string \<Rightarrow> blueprint" where
  "blank_blueprint i agent objective output =
     \<lparr>bp_id = i, bp_agent_id = agent, bp_objective = objective, bp_output_key = output, bp_stage_id = None,
      bp_depends_on = [], bp_execution_mode = EXCLUSIVE, bp_artifact_key = None, bp_input_refs = [],
      bp_input_from = [], bp_slot = None, bp_publish_target = None, bp_candidate_from = None,
      bp_acceptance_criteria = [], bp_constraints = [], bp_non_goals = [], bp_unit = None,
      bp_allowed_paths = [], bp_forbidden_paths = [], bp_required_paths = [], bp_owned_files = [],
      bp_policy_refs = [], bp_skill_refs = []\<rparr>"

definition directory_or_glob :: "string \<Rightarrow> bool" where
  "directory_or_glob p = (let n = py_strip (unix_slashes p) in suffix ''/'' n \<or> has_glob n)"

definition blueprint_grant :: "blueprint \<Rightarrow> err + unit" where
  "blueprint_grant b = (case bp_execution_mode b of
      PARTITIONED \<Rightarrow> raises
        [(falsy_opt (bp_slot b), ValueError ''PARTITIONED slot''),
         (\<not> falsy_opt (bp_publish_target b) \<or> \<not> falsy_opt (bp_candidate_from b), ValueError ''PARTITIONED grant'')]
    | INTEGRATION \<Rightarrow> raises
        [(falsy_opt (bp_publish_target b), ValueError ''INTEGRATION publish_target''),
         (\<not> falsy_opt (bp_slot b) \<or> \<not> falsy_opt (bp_candidate_from b), ValueError ''INTEGRATION grant'')]
    | QUALITY_GATE \<Rightarrow> raises
        [(falsy_opt (bp_publish_target b) \<or> falsy_opt (bp_candidate_from b), ValueError ''QUALITY_GATE source''),
         (\<not> falsy_opt (bp_slot b) \<or> bp_input_from b \<noteq> [] \<or> bp_input_refs b \<noteq> [], ValueError ''QUALITY_GATE input'')]
    | EXCLUSIVE \<Rightarrow> raises
        [(bp_slot b \<noteq> None \<or> bp_publish_target b \<noteq> None \<or> bp_candidate_from b \<noteq> None,
           ValueError ''EXCLUSIVE grant'')])"

definition mk_blueprint :: "blueprint \<Rightarrow> blueprint result" where
  "mk_blueprint b = bindE (raises
     [(list_ex blank [bp_id b, bp_agent_id b, bp_objective b, bp_output_key b], ValueError ''TaskBlueprint''),
      (list_ex blank_some [bp_artifact_key b, bp_slot b, bp_publish_target b, bp_candidate_from b, bp_stage_id b],
        ValueError ''TaskBlueprint optional name''),
      (blank_some (bp_unit b), ValueError ''implementation_unit_id''),
      (list_ex (list_ex blank) [bp_allowed_paths b, bp_forbidden_paths b, bp_required_paths b, bp_owned_files b,
        bp_policy_refs b, bp_skill_refs b], ValueError ''paths''),
      (bp_agent_id b = ''code_agent'' \<and> list_ex directory_or_glob (bp_owned_files b), ValueError ''owned_files''),
      (list_ex blank (bp_input_refs b), ValueError ''input_refs''),
      (list_ex blank (bp_input_from b), ValueError ''input_from''),
      (list_ex blank (bp_acceptance_criteria b), ValueError ''acceptance_criteria''),
      (list_ex blank (bp_constraints b), ValueError ''constraints''),
      (list_ex blank (bp_non_goals b), ValueError ''non_goals''),
      (bp_agent_id b = ''task_agent'' \<and> bp_execution_mode b = EXCLUSIVE, ValueError ''task_agent EXCLUSIVE'')]) (\<lambda>_.
     bindE (blueprint_grant b) (\<lambda>_. Inr b))"

record template =
  tp_id :: string
  tp_name :: string
  tp_description :: string
  tp_nodes :: "blueprint list"
  tp_process_id :: string

definition mk_template :: "template \<Rightarrow> template result" where
  "mk_template t = (let ids = map bp_id (tp_nodes t) in
     bindE (raises
       [(list_ex blank [tp_id t, tp_name t, tp_description t], ValueError ''WorkflowTemplate''),
        (tp_nodes t = [], ValueError ''no node''),
        (blank (tp_process_id t), ValueError ''process_id''),
        (\<not> distinct ids, ValueError ''duplicate Blueprint id'')]) (\<lambda>_.
     bindE (for_each (\<lambda>b. raises
       [(\<not> set (bp_depends_on b) \<subseteq> set ids, ValueError ''unknown node''),
        (bp_id b \<in> set (bp_depends_on b), ValueError ''self dependency'')]) (tp_nodes t)) (\<lambda>_. Inr t)))"

definition has_controlled_execution :: "template \<Rightarrow> bool" where
  "has_controlled_execution t \<longleftrightarrow> list_ex (\<lambda>b. bp_execution_mode b \<noteq> EXCLUSIVE) (tp_nodes t)"

section \<open>The registry\<close>

datatype template_status = T_ACTIVE | T_DEPRECATED | T_HIDDEN | T_COMPATIBILITY_ONLY

record template_record =
  wr_template :: template
  wr_version :: string
  wr_status :: template_status
  wr_aliases :: "string list"
  wr_is_default :: bool

record template_registry =
  wg_records :: "(string, template_record) dict"
  wg_aliases :: "(string, string) dict"

definition new_templates :: template_registry where
  "new_templates = \<lparr>wg_records = [], wg_aliases = []\<rparr>"

definition register_template ::
  "template \<Rightarrow> string \<Rightarrow> template_status option \<Rightarrow> string list \<Rightarrow> bool \<Rightarrow> template_registry
   \<Rightarrow> template_registry result" where
  "register_template t version status aliases is_default g =
     (let i = tp_id t;
          inferred = (case status of None \<Rightarrow> T_ACTIVE | Some s \<Rightarrow> s) in
      bindE (raises
        [(i \<in> set (dict_keys (wg_records g)), ValueError ''already registered''),
         (i \<in> set (dict_keys (wg_aliases g)), ValueError ''id is an alias''),
         (\<not> distinct aliases, ValueError ''duplicate alias''),
         (i \<in> set aliases, ValueError ''alias of itself''),
         (list_ex (\<lambda>a. a \<in> set (dict_keys (wg_aliases g)) \<or> a \<in> set (dict_keys (wg_records g))) aliases,
           ValueError ''alias already registered''),
         (blank version, ValueError ''version''),
         (list_ex blank aliases, ValueError ''blank alias''),
         (is_default \<and> inferred \<noteq> T_ACTIVE, ValueError ''default not active''),
         (is_default \<and> list_ex (\<lambda>r. wr_is_default r \<and> wr_status r = T_ACTIVE) (map snd (wg_records g)),
           ValueError ''default already registered'')]) (\<lambda>_.
      Inr \<lparr>wg_records = dict_put i \<lparr>wr_template = t, wr_version = version, wr_status = inferred,
                          wr_aliases = aliases, wr_is_default = is_default\<rparr> (wg_records g),
           wg_aliases = foldl (\<lambda>d a. dict_put a i d) (wg_aliases g) aliases\<rparr>))"

definition record_of :: "template_registry \<Rightarrow> string \<Rightarrow> template_record option" where
  "record_of g i = dict_get (wg_records g) (case dict_get (wg_aliases g) i of None \<Rightarrow> i | Some c \<Rightarrow> c)"

definition get_template :: "template_registry \<Rightarrow> string \<Rightarrow> template option" where
  "get_template g i = map_option wr_template (record_of g i)"

definition active_templates :: "template_registry \<Rightarrow> template list" where
  "active_templates g = map wr_template (filter (\<lambda>r. wr_status r = T_ACTIVE) (map snd (wg_records g)))"

definition default_template :: "template_registry \<Rightarrow> template option result" where
  "default_template g = (case filter (\<lambda>r. wr_status r = T_ACTIVE \<and> wr_is_default r) (map snd (wg_records g)) of
      [] \<Rightarrow> Inr None
    | [r] \<Rightarrow> Inr (Some (wr_template r))
    | _ \<Rightarrow> Inl (ValueError ''several defaults''))"

definition all_templates :: "template_registry \<Rightarrow> bool \<Rightarrow> template list" where
  "all_templates g include_compatibility =
     (if include_compatibility then map (wr_template \<circ> snd) (wg_records g) else active_templates g)"

section \<open>Who owns a deliverable\<close>

record deliverable =
  da_path :: string
  da_owner :: string
  da_phase :: string
  da_consumers :: "string list"

record ownership =
  ow_artifacts :: "deliverable list"
  ow_enforce_order :: bool

definition mk_deliverable :: "deliverable \<Rightarrow> deliverable result" where
  "mk_deliverable d = bindE (raises
     [(list_ex blank [da_path d, da_owner d, da_phase d], ValueError ''DeliveryArtifact'')]) (\<lambda>_. Inr d)"

text \<open>The second check of the constructor, for one path with two owners, can only fire for a duplicate path.\<close>

definition mk_ownership :: "ownership \<Rightarrow> ownership result" where
  "mk_ownership o' = bindE (raises
     [(\<not> distinct (map da_path (ow_artifacts o')), ValueError ''duplicate path'')]) (\<lambda>_. Inr o')"

definition project_ownership :: ownership where
  "project_ownership = \<lparr>ow_artifacts =
     [\<lparr>da_path = ''requirement.md'', da_owner = ''project-documents'', da_phase = ''planning'', da_consumers = []\<rparr>,
      \<lparr>da_path = ''architecture.md'', da_owner = ''project-documents'', da_phase = ''planning'', da_consumers = []\<rparr>,
      \<lparr>da_path = ''architecture_contract.md'', da_owner = ''project-documents'', da_phase = ''planning'', da_consumers = []\<rparr>,
      \<lparr>da_path = ''schemas.json'', da_owner = ''project-documents'', da_phase = ''planning'',
        da_consumers = [''code'', ''test'', ''code-integration'']\<rparr>,
      \<lparr>da_path = ''tasks.md'', da_owner = ''project-documents'', da_phase = ''planning'', da_consumers = []\<rparr>,
      \<lparr>da_path = ''environment.md'', da_owner = ''environment'', da_phase = ''environment'',
        da_consumers = [''tests'', ''review'']\<rparr>,
      \<lparr>da_path = ''implementation.md'', da_owner = ''code-integration'', da_phase = ''integration'',
        da_consumers = [''tests'', ''review'']\<rparr>,
      \<lparr>da_path = ''tests.md'', da_owner = ''tests'', da_phase = ''verification'', da_consumers = [''review'']\<rparr>,
      \<lparr>da_path = ''review.md'', da_owner = ''review'', da_phase = ''review'', da_consumers = []\<rparr>],
     ow_enforce_order = False\<rparr>"

definition legacy_bindings :: "(string, string) dict" where
  "legacy_bindings =
     [(''project-documents'', ''wi-project-documents''), (''environment'', ''wi-environment''),
      (''code-integration'', ''wi-code-integration''), (''code'', ''wi-code-integration''),
      (''tests'', ''wi-tests''), (''test'', ''wi-tests''), (''review'', ''wi-review'')]"

definition resolve_role :: "(string, string) dict \<Rightarrow> string list \<Rightarrow> string \<Rightarrow> string option" where
  "resolve_role bindings ids token =
     (let candidate = (case dict_get bindings token of None \<Rightarrow> token | Some c \<Rightarrow> c)
      in if candidate \<in> set ids then Some candidate else None)"

definition resolved_dependencies :: "(string, string) dict \<Rightarrow> work_item list \<Rightarrow> (string, string list) dict" where
  "resolved_dependencies bindings items = dict_of (map (\<lambda>w. (wi_id w, map (\<lambda>d.
     case resolve_role bindings (map wi_id items) d of None \<Rightarrow> d | Some c \<Rightarrow> c) (wi_dependency_ids w))) items)"

text \<open>
  The search for an owner among the transitive dependencies of a consumer. The recursion of the code
  shares one set of visited consumers, so it is the depth-first walk of a stack; the dependencies of a
  consumer are a set there, here they are visited in the order they are declared.
\<close>

definition direct_of :: "(string, string list) dict \<Rightarrow> string \<Rightarrow> string list" where
  "direct_of ds c = (case dict_get ds c of None \<Rightarrow> [] | Some xs \<Rightarrow> xs)"

function awaits :: "(string, string list) dict \<Rightarrow> string \<Rightarrow> string list \<Rightarrow> string list \<Rightarrow> bool" where
  "awaits ds owner seen [] = False"
| "awaits ds owner seen (c # pending) =
     (if c \<in> set seen then awaits ds owner seen pending
      else if owner \<in> set (direct_of ds c) then True
      else awaits ds owner (c # seen) (direct_of ds c @ pending))"
  by pat_completeness auto
termination
proof (relation "measures [\<lambda>(ds, _, seen, _). length (filter (\<lambda>d. fst d \<notin> set seen) ds),
    \<lambda>(_, _, _, pending). length pending]", goal_cases)
  case (3 ds owner seen c pending)
  show ?case
  proof (cases "dict_get ds c")
    case None
    have "length (filter (\<lambda>d. fst d \<notin> set (c # seen)) ds) \<le> length (filter (\<lambda>d. fst d \<notin> set seen) ds)"
      by (induction ds) auto
    then show ?thesis using None by (auto simp: direct_of_def)
  next
    case (Some xs)
    then have "(c, xs) \<in> set ds" by (rule map_of_SomeD)
    then have "length (filter (\<lambda>d. fst d \<notin> set (c # seen)) ds) < length (filter (\<lambda>d. fst d \<notin> set seen) ds)"
      using 3(1) by (intro length_filter_strict [of _ _ "(c, xs)"]) auto
    then show ?thesis by simp
  qed
qed simp_all

definition check_consumer ::
  "ownership \<Rightarrow> (string, string) dict \<Rightarrow> work_item list \<Rightarrow> deliverable \<Rightarrow> string \<Rightarrow> err + unit" where
  "check_consumer o' bindings items d consumer =
     (case (resolve_role bindings (map wi_id items) (da_owner d), resolve_role bindings (map wi_id items) consumer) of
        (Some owner, Some c) \<Rightarrow>
          if ow_enforce_order o' \<and> \<not> awaits (resolved_dependencies bindings items) owner [] [c]
          then Inl (ValueError ''consumer does not wait for the owner'') else Inr ()
      | _ \<Rightarrow> Inl (ValueError ''unknown consumer''))"

definition validate_ownership :: "ownership \<Rightarrow> (string, string) dict \<Rightarrow> work_item list \<Rightarrow> err + unit" where
  "validate_ownership o' given_bindings items =
     (let bindings = (if given_bindings = [] then legacy_bindings else given_bindings) in
      if list_ex (\<lambda>d. resolve_role bindings (map wi_id items) (da_owner d) = None) (ow_artifacts o')
      then Inl (ValueError ''no owner node'')
      else for_each (\<lambda>d. for_each (check_consumer o' bindings items d) (da_consumers d)) (ow_artifacts o'))"

definition owner_for :: "ownership \<Rightarrow> string \<Rightarrow> string option" where
  "owner_for o' path = map_option da_owner (List.find
     (\<lambda>d. da_path d = lstrip_of (CHR ''/'') (removeprefix ''workspace/'' path)) (ow_artifacts o'))"

section \<open>The compiler of templates\<close>

definition node_artifact_key :: "blueprint \<Rightarrow> string" where
  "node_artifact_key b =
     (if \<not> falsy_opt (bp_artifact_key b) then or_empty (bp_artifact_key b)
      else if \<not> falsy_opt (bp_publish_target b) then or_empty (bp_publish_target b)
      else bp_output_key b)"

text \<open>The item of the node at a position (counted from 1).\<close>

definition node_item_id :: "nat \<Rightarrow> string \<Rightarrow> string" where
  "node_item_id index i = ''wi-'' @ pad2 index @ ''-'' @ i"

definition node_ids :: "template \<Rightarrow> (string, string) dict" where
  "node_ids t = dict_of (map (\<lambda>(n, b). (bp_id b, node_item_id (n + 1) (bp_id b))) (enumerate 0 (tp_nodes t)))"

definition id_at :: "(string, string) dict \<Rightarrow> string \<Rightarrow> string result" where
  "id_at ids i = (case dict_get ids i of None \<Rightarrow> Inl (KeyError i) | Some w \<Rightarrow> Inr w)"

definition staged_outputs :: "string \<Rightarrow> (string, string) dict \<Rightarrow> template \<Rightarrow> (string \<times> artifact_ref) list result" where
  "staged_outputs trace ids t = bindE (mapE (\<lambda>b. bindE (id_at ids (bp_id b)) (\<lambda>i.
     bindE (ref_staged (node_artifact_key b) trace i (or_empty (bp_slot b))) (\<lambda>r. Inr (bp_id b, r))))
     (filter (\<lambda>b. bp_execution_mode b = PARTITIONED) (tp_nodes t))) (\<lambda>refs. Inr (dict_of refs))"

definition node_input_refs ::
  "(string, string) dict \<Rightarrow> (string \<times> artifact_ref) list \<Rightarrow> blueprint \<Rightarrow> artifact_ref list result" where
  "node_input_refs ids staged b =
     bindE (mapE (\<lambda>k. ref_published k None) (bp_input_refs b)) (\<lambda>published.
     bindE (mapE (\<lambda>source.
       if dict_get ids source = None then Inl (ValueError ''unknown input_from'')
       else (case dict_get staged source of
           None \<Rightarrow> Inl (ValueError ''input_from is not PARTITIONED'') | Some r \<Rightarrow> Inr r)) (bp_input_from b)) (\<lambda>refs.
     Inr (published @ refs)))"

definition compile_node ::
  "(string \<Rightarrow> string) \<Rightarrow> string \<Rightarrow> (string, string) dict \<Rightarrow> (string \<times> artifact_ref) list \<Rightarrow> blueprint \<Rightarrow> work_item result" where
  "compile_node sha template_id ids staged b =
     bindE (id_at ids (bp_id b)) (\<lambda>i.
     bindE (mapE (\<lambda>p. bindE (id_at ids p) (\<lambda>pi. mk_dependency
       \<lparr>dep_work_item_id = pi, dep_source = TEMPLATE,
        dep_rule_id = Some (''template:'' @ template_id @ '':'' @ p @ ''->'' @ bp_id b)\<rparr>)) (bp_depends_on b)) (\<lambda>deps.
     bindE (node_input_refs ids staged b) (\<lambda>refs.
     bindE (case bp_candidate_from b of
         None \<Rightarrow> Inr None
       | Some c \<Rightarrow> if dict_get ids c = None then Inl (ValueError ''unknown candidate_from'')
                   else bindE (id_at ids c) (\<lambda>ci. Inr (Some ci))) (\<lambda>candidate.
     mk_work_item sha ((blank_work_item i (bp_agent_id b) (bp_objective b) (bp_output_key b))
       \<lparr>wi_stage_id := bp_stage_id b, wi_artifact_key := Some (node_artifact_key b), wi_dependencies := deps,
        wi_acceptance_criteria := bp_acceptance_criteria b, wi_constraints := bp_constraints b,
        wi_non_goals := bp_non_goals b, wi_policy_refs := bp_policy_refs b,
        wi_execution_mode := bp_execution_mode b, wi_input_refs := refs, wi_slot := bp_slot b,
        wi_publish_target := bp_publish_target b, wi_candidate_from := candidate, wi_unit := bp_unit b,
        wi_allowed_paths := bp_allowed_paths b, wi_forbidden_paths := bp_forbidden_paths b,
        wi_required_paths := bp_required_paths b, wi_owned_files := bp_owned_files b,
        wi_skill_refs := bp_skill_refs b\<rparr>)))))"

definition with_integration_alias :: "(string, string) dict \<Rightarrow> (string, string) dict" where
  "with_integration_alias cs =
     (case (dict_get cs ''code_integration_agent'', dict_get cs ''integration_agent'') of
        (None, Some k) \<Rightarrow> dict_put ''code_integration_agent'' k cs
      | _ \<Rightarrow> cs)"

definition project_bindings :: "(string, string) dict \<Rightarrow> (string, string) dict" where
  "project_bindings ids = map (\<lambda>(role, node). (role, or_empty (dict_get ids node)))
     [(''project-documents'', ''project-documents''), (''environment'', ''environment''),
      (''code-integration'', ''code-integration''), (''tests'', ''tests''), (''review'', ''review''),
      (''code'', ''code-integration''), (''test'', ''tests'')]"

definition compile_template ::
  "(string \<Rightarrow> string) \<Rightarrow> template \<Rightarrow> string \<Rightarrow> string \<Rightarrow> trace_context \<Rightarrow> (string, string) dict \<Rightarrow> plan result" where
  "compile_template sha t goal plan_id trace output_keys =
     (if \<not> has_controlled_execution t then Inl (ValueError ''ordinary template'')
      else if \<not> set (map bp_agent_id (tp_nodes t)) \<subseteq> set (dict_keys (with_integration_alias output_keys))
      then Inl (ValueError ''unknown agent'')
      else let ids = node_ids t in
        bindE (staged_outputs (tc_trace_id trace) ids t) (\<lambda>staged.
        bindE (mapE (compile_node sha (tp_id t) ids staged) (tp_nodes t)) (\<lambda>items.
        bindE (mk_plan \<lparr>pl_id = plan_id, pl_goal = goal, pl_work_items = items, pl_template_id = Some (tp_id t),
          pl_process_id = tp_process_id t, pl_trace = trace, pl_validation_scope = ''full_delivery''\<rparr>) (\<lambda>p.
        if tp_id t = ''project_delivery''
           \<and> list_ex (\<lambda>w. wi_unit w = Some ''project-documents'') (pl_work_items p)
        then bindE (validate_ownership project_ownership (project_bindings ids) (pl_work_items p)) (\<lambda>_. Inr p)
        else Inr p))))"

end
