(* ===== verification/Workflow_Laws.thy ===== *)
theory Workflow_Laws
  imports Workflow Run_Laws
begin

text \<open>
  The registry of templates never becomes ambiguous, the compiler gives every item exactly the authority of
  its node, and the ownership check decides the transitive dependencies of the consumers.
\<close>

section \<open>The registry\<close>

text \<open>Every registry the application can build.\<close>

inductive templates_reached :: "template_registry \<Rightarrow> bool" where
  no_template: "templates_reached new_templates"
| one_more: "templates_reached g \<Longrightarrow> register_template t version status aliases is_default g = Inr g'
    \<Longrightarrow> templates_reached g'"

definition is_active_default :: "template_record \<Rightarrow> bool" where
  "is_active_default r \<longleftrightarrow> wr_status r = T_ACTIVE \<and> wr_is_default r"

definition named :: "template_registry \<Rightarrow> string \<times> template_record \<Rightarrow> bool" where
  "named g e \<longleftrightarrow> tp_id (wr_template (snd e)) = fst e
     \<and> (\<forall>a \<in> set (wr_aliases (snd e)). dict_get (wg_aliases g) a = Some (fst e))"

definition registry_ok :: "template_registry \<Rightarrow> bool" where
  "registry_ok g \<longleftrightarrow> distinct (dict_keys (wg_records g))
     \<and> set (dict_keys (wg_records g)) \<inter> set (dict_keys (wg_aliases g)) = {}
     \<and> (\<forall>e \<in> set (wg_records g). named g e)
     \<and> length (filter is_active_default (map snd (wg_records g))) \<le> 1"

lemma foldl_put_aliases:
  "dict_get (foldl (\<lambda>d a. dict_put a i d) d as) k = (if k \<in> set as then Some i else dict_get d k)"
  by (induction as arbitrary: d) (auto simp: dict.get_put)

lemma foldl_aliases_keys:
  "set (dict_keys (foldl (\<lambda>d a. dict_put a i d) d as)) = set as \<union> set (dict_keys d)"
proof -
  have "dom (dict_get (foldl (\<lambda>d a. dict_put a i d) d as)) = set as \<union> dom (dict_get d)"
    by (auto simp: foldl_put_aliases split: if_splits)
  then show ?thesis by (simp add: dom_map_of_conv_image_fst)
qed

lemma disjoint_grow:
  "A' = insert x A \<Longrightarrow> C' = D \<union> C \<Longrightarrow> A \<inter> C = {} \<Longrightarrow> D \<inter> A = {} \<Longrightarrow> x \<notin> C \<Longrightarrow> x \<notin> D \<Longrightarrow> A' \<inter> C' = {}"
  by auto

lemma register_keeps_ok:
  assumes "registry_ok g" "register_template t version status aliases is_default g = Inr g'"
  shows "registry_ok g'"
proof -
  obtain st where st: "st = (case status of None \<Rightarrow> T_ACTIVE | Some s \<Rightarrow> s)" by simp
  define r where "r = \<lparr>wr_template = t, wr_version = version, wr_status = st, wr_aliases = aliases, wr_is_default = is_default\<rparr>"
  from assms(2) have c: "tp_id t \<notin> set (dict_keys (wg_records g))" "tp_id t \<notin> set (dict_keys (wg_aliases g))"
    "tp_id t \<notin> set aliases" "\<not> list_ex (\<lambda>a. a \<in> set (dict_keys (wg_aliases g)) \<or> a \<in> set (dict_keys (wg_records g))) aliases"
    "\<not> (is_default \<and> list_ex (\<lambda>r. wr_is_default r \<and> wr_status r = T_ACTIVE) (map snd (wg_records g)))"
    and g': "g' = \<lparr>wg_records = dict_put (tp_id t) r (wg_records g),
       wg_aliases = foldl (\<lambda>d a. dict_put a (tp_id t) d) (wg_aliases g) aliases\<rparr>"
    unfolding register_template_def Let_def r_def st by simp_all
  have records: "wg_records g' = wg_records g @ [(tp_id t, r)]" using c(1) g' by (simp add: set_dict_put_new)
  have fresh: "a \<notin> set (dict_keys (wg_aliases g)) \<and> a \<notin> set (dict_keys (wg_records g))" if "a \<in> set aliases" for a
    using c(4) that by (auto simp: list_ex_iff)
  have old: "dict_get (wg_aliases g') a = Some i" if "(i, q) \<in> set (wg_records g)" "a \<in> set (wr_aliases q)" for i q a
  proof -
    have "named g (i, q)" using assms(1) that(1) unfolding registry_ok_def by blast
    then have "dict_get (wg_aliases g) a = Some i" using that(2) by (simp add: named_def)
    moreover from this have "a \<notin> set aliases" using fresh [of a] by (metis map_of_eq_None_iff option.distinct(1) list.set_map)
    ultimately show ?thesis using g' by (simp add: foldl_put_aliases)
  qed
  have given: "dict_get (wg_aliases g') a = Some (tp_id t)" if "a \<in> set aliases" for a
    using g' that by (simp add: foldl_put_aliases)
  have "length (filter is_active_default (map snd (wg_records g'))) \<le> 1"
  proof (cases "is_active_default r")
    case True
    then have "filter is_active_default (map snd (wg_records g)) = []"
      using c(5) by (auto simp: is_active_default_def r_def list_ex_iff filter_empty_conv)
    then show ?thesis by (simp add: records)
  next
    case False
    then show ?thesis using assms(1) by (simp add: records registry_ok_def)
  qed
  moreover have "set (dict_keys (wg_records g')) \<inter> set (dict_keys (wg_aliases g')) = {}"
  proof -
    have "set (dict_keys (wg_records g')) = insert (tp_id t) (set (dict_keys (wg_records g)))" unfolding records by auto
    moreover have "set (dict_keys (wg_aliases g')) = set aliases \<union> set (dict_keys (wg_aliases g))"
      using g' foldl_aliases_keys [of "tp_id t" "wg_aliases g" aliases] by simp
    moreover have "set (dict_keys (wg_records g)) \<inter> set (dict_keys (wg_aliases g)) = {}"
      using assms(1) unfolding registry_ok_def by (elim conjE)
    moreover have "set aliases \<inter> set (dict_keys (wg_records g)) = {}" using fresh by blast
    ultimately show ?thesis using c(2,3) by (rule disjoint_grow)
  qed
  moreover have "named g' e" if "e \<in> set (wg_records g')" for e
  proof (cases "e = (tp_id t, r)")
    case False
    then have e: "e \<in> set (wg_records g)" using that unfolding records by simp
    then have "named g e" using assms(1) unfolding registry_ok_def by blast
    then show ?thesis using old [of "fst e" "snd e"] e by (simp add: named_def)
  qed (simp add: named_def r_def given)
  moreover have "distinct (dict_keys (wg_records g'))" using assms(1) c(1) unfolding records registry_ok_def by simp
  ultimately show ?thesis unfolding registry_ok_def by blast
qed

lemma reached_ok: "templates_reached g \<Longrightarrow> registry_ok g"
proof (induction rule: templates_reached.induct)
  case no_template
  show ?case by (simp add: registry_ok_def new_templates_def)
next
  case (one_more g t version status aliases is_default g')
  show ?case by (rule register_keeps_ok [OF one_more.IH one_more.hyps(2)])
qed

text \<open>The registry never becomes ambiguous: whatever has been registered, asking for the default template does
  not fail, and every template is found under its own identifier and under each of its aliases.\<close>

theorem registry_unambiguous:
  assumes "templates_reached g"
  shows "\<not> isl (default_template g)
    \<and> (\<forall>i r. dict_get (wg_records g) i = Some r \<longrightarrow> tp_id (wr_template r) = i \<and> get_template g i = Some (wr_template r)
        \<and> (\<forall>a. a \<in> set (wr_aliases r) \<longrightarrow> get_template g a = Some (wr_template r)))"
proof (intro conjI allI impI)
  note ok = reached_ok [OF assms, unfolded registry_ok_def]
  show "\<not> isl (default_template g)"
  proof -
    have "length (filter (\<lambda>r. wr_status r = T_ACTIVE \<and> wr_is_default r) (map snd (wg_records g))) \<le> 1"
      using ok unfolding is_active_default_def by blast
    then obtain rs where "filter (\<lambda>r. wr_status r = T_ACTIVE \<and> wr_is_default r) (map snd (wg_records g)) = rs" "length rs \<le> 1"
      by blast
    then show ?thesis unfolding default_template_def by (cases rs) auto
  qed
  fix i r assume r: "dict_get (wg_records g) i = Some r"
  then have m: "(i, r) \<in> set (wg_records g)" by (rule map_of_SomeD)
  then have n: "named g (i, r)" using ok by blast
  then show "tp_id (wr_template r) = i" by (simp add: named_def)
  have "i \<notin> set (dict_keys (wg_aliases g))" using ok map_of_Some_key [OF r] by blast
  then have "dict_get (wg_aliases g) i = None" by (simp add: map_of_eq_None_iff)
  then show "get_template g i = Some (wr_template r)" using r by (simp add: get_template_def record_of_def)
  fix a assume "a \<in> set (wr_aliases r)"
  then have "dict_get (wg_aliases g) a = Some i" using n by (simp add: named_def)
  then show "get_template g a = Some (wr_template r)" using r by (simp add: get_template_def record_of_def)
qed

definition demo_blueprints :: "blueprint list" where
  "demo_blueprints =
     [(blank_blueprint ''design'' ''architecture_agent'' ''design'' ''design'')\<lparr>bp_execution_mode := PARTITIONED,
        bp_artifact_key := Some ''architecture'', bp_slot := Some ''module-users''\<rparr>,
      (blank_blueprint ''merge'' ''architecture_agent'' ''merge'' ''merged'')\<lparr>bp_execution_mode := INTEGRATION,
        bp_artifact_key := Some ''architecture'', bp_publish_target := Some ''architecture'', bp_depends_on := [''design''],
        bp_input_from := [''design'']\<rparr>]"

definition demo_template :: template where
  "demo_template = \<lparr>tp_id = ''delivery'', tp_name = ''delivery'', tp_description = ''delivery'',
     tp_nodes = demo_blueprints, tp_process_id = ''software_delivery''\<rparr>"

definition demo_templates :: template_registry where
  "demo_templates = projr (register_template demo_template ''1'' None [''standard''] True new_templates)"

lemma demo_templates_reached: "templates_reached demo_templates"
proof -
  have "\<not> isl (register_template demo_template ''1'' None [''standard''] True new_templates)" by code_simp
  then have "register_template demo_template ''1'' None [''standard''] True new_templates = Inr demo_templates"
    by (simp add: demo_templates_def sum.collapse)
  then show ?thesis by (rule one_more [OF no_template])
qed

theorem registry_unambiguous_witness:
  "\<not> isl (default_template demo_templates) \<and> dict_keys (wg_records demo_templates) = [''delivery'']"
proof
  show "\<not> isl (default_template demo_templates)"
    using registry_unambiguous [OF demo_templates_reached] by (rule conjunct1)
  show "dict_keys (wg_records demo_templates) = [''delivery'']" by code_simp
qed

section \<open>What the compiler grants\<close>

text \<open>The item carries the agent, mode, partition, target and path grants of its node, and waits for the items of the
  nodes its node depends on and for no other.\<close>

definition grants_of :: "(string, string) dict \<Rightarrow> string \<Rightarrow> blueprint \<Rightarrow> work_item \<Rightarrow> bool" where
  "grants_of ids template_id b w \<longleftrightarrow>
     dict_get ids (bp_id b) = Some (wi_id w) \<and> wi_agent_id w = bp_agent_id b \<and> wi_execution_mode w = bp_execution_mode b
     \<and> wi_slot w = bp_slot b \<and> wi_publish_target w = bp_publish_target b \<and> wi_unit w = bp_unit b
     \<and> wi_allowed_paths w = bp_allowed_paths b \<and> wi_forbidden_paths w = bp_forbidden_paths b
     \<and> wi_required_paths w = bp_required_paths b \<and> wi_owned_files w = bp_owned_files b
     \<and> wi_policy_refs w = bp_policy_refs b \<and> wi_skill_refs w = bp_skill_refs b
     \<and> map Some (wi_dependency_ids w) = map (dict_get ids) (bp_depends_on b)
     \<and> (\<forall>d \<in> set (wi_dependencies w). dep_source d = TEMPLATE)
     \<and> wi_candidate_from w = (case bp_candidate_from b of None \<Rightarrow> None | Some c \<Rightarrow> dict_get ids c)"

lemma template_deps:
  assumes "mapE (\<lambda>p. bindE (id_at ids p) (\<lambda>pi. mk_dependency
      \<lparr>dep_work_item_id = pi, dep_source = TEMPLATE, dep_rule_id = Some (rule p)\<rparr>)) ps = Inr deps"
  shows "map Some (map dep_work_item_id deps) = map (dict_get ids) ps \<and> (\<forall>d \<in> set deps. dep_source d = TEMPLATE)"
  using assms
proof (induction ps arbitrary: deps)
  case (Cons p ps)
  then show ?case by (force simp: id_at_def mk_dependency_def split: option.splits)
qed simp

lemma compile_node_grants:
  assumes "compile_node sha template_id ids staged b = Inr w"
  shows "grants_of ids template_id b w" "mk_work_item sha w = Inr w"
proof -
  obtain i deps refs candidate where
    i: "dict_get ids (bp_id b) = Some i"
    and d: "mapE (\<lambda>p. bindE (id_at ids p) (\<lambda>pi. mk_dependency
       \<lparr>dep_work_item_id = pi, dep_source = TEMPLATE,
        dep_rule_id = Some (''template:'' @ template_id @ '':'' @ p @ ''->'' @ bp_id b)\<rparr>)) (bp_depends_on b) = Inr deps"
    and c: "candidate = (case bp_candidate_from b of None \<Rightarrow> None | Some c \<Rightarrow> dict_get ids c)"
    and m: "mk_work_item sha ((blank_work_item i (bp_agent_id b) (bp_objective b) (bp_output_key b))
       \<lparr>wi_stage_id := bp_stage_id b, wi_artifact_key := Some (node_artifact_key b), wi_dependencies := deps,
        wi_acceptance_criteria := bp_acceptance_criteria b, wi_constraints := bp_constraints b,
        wi_non_goals := bp_non_goals b, wi_policy_refs := bp_policy_refs b,
        wi_execution_mode := bp_execution_mode b, wi_input_refs := refs, wi_slot := bp_slot b,
        wi_publish_target := bp_publish_target b, wi_candidate_from := candidate, wi_unit := bp_unit b,
        wi_allowed_paths := bp_allowed_paths b, wi_forbidden_paths := bp_forbidden_paths b,
        wi_required_paths := bp_required_paths b, wi_owned_files := bp_owned_files b,
        wi_skill_refs := bp_skill_refs b\<rparr>) = Inr w" (is "mk_work_item sha ?w0 = _")
    using assms unfolding compile_node_def
    by (force simp: id_at_def simp del: not_None_eq split: option.splits if_splits)
  have "w = ?w0\<lparr>wi_artifact_key := wi_artifact_key w, wi_required_tools := wi_required_tools w,
      wi_output_kind := wi_output_kind w, wi_contract_digest := wi_contract_digest w, wi_legacy_digest := wi_legacy_digest w\<rparr>"
    by (rule mk_work_item_shape(1) [OF m])
  then obtain a t k h l where w: "w = ?w0\<lparr>wi_artifact_key := a, wi_required_tools := t, wi_output_kind := k,
      wi_contract_digest := h, wi_legacy_digest := l\<rparr>" by blast
  show "grants_of ids template_id b w"
    using i c template_deps [OF d] unfolding w grants_of_def wi_dependency_ids_def blank_work_item_def by simp
  show "mk_work_item sha w = Inr w" by (rule mk_work_item_idempotent [OF m])
qed

text \<open>A template grants exactly what its nodes declare: the compiled plan is well formed, its items correspond to the
  nodes in order, each item has the grants of its node and waits exactly for the items of the nodes it depends on.\<close>

theorem compiled_template_grants:
  assumes "compile_template sha t goal plan_id trace keys = Inr p"
  shows "plan_ok sha p \<and> list_all2 (grants_of (node_ids t) (tp_id t)) (tp_nodes t) (pl_work_items p)
    \<and> list_ex (\<lambda>b. bp_execution_mode b \<noteq> EXCLUSIVE) (tp_nodes t)"
proof -
  obtain staged items q where
    n: "mapE (compile_node sha (tp_id t) (node_ids t) staged) (tp_nodes t) = Inr items"
    and q: "mk_plan \<lparr>pl_id = plan_id, pl_goal = goal, pl_work_items = items, pl_template_id = Some (tp_id t),
          pl_process_id = tp_process_id t, pl_trace = trace, pl_validation_scope = ''full_delivery''\<rparr> = Inr q"
    and p: "p = q" and controlled: "has_controlled_execution t"
    using assms unfolding compile_template_def Let_def by (auto split: if_splits)
  have l: "list_all2 (\<lambda>b w. compile_node sha (tp_id t) (node_ids t) staged b = Inr w) (tp_nodes t) items"
    using n by (rule mapE_Inr_iff [THEN iffD1])
  have items: "pl_work_items p = items" using mk_plan_checks(1) [OF q] p by simp
  have "mk_work_item sha w = Inr w" if "w \<in> set items" for w
    using list_all2_member2 [OF l that] compile_node_grants(2) by blast
  moreover have "mk_plan p = Inr p" using q mk_plan_checks(1) [OF q] p by simp
  moreover have "list_all2 (grants_of (node_ids t) (tp_id t)) (tp_nodes t) items"
    using l by (rule list_all2_mono) (rule compile_node_grants(1))
  ultimately show ?thesis using controlled items by (simp add: plan_ok_def has_controlled_execution_def)
qed

definition demo_template_plan :: plan where
  "demo_template_plan = projr (compile_template demo_sha demo_template ''ship'' ''p-1'' demo_trace
     [(''architecture_agent'', ''architecture'')])"

lemma demo_template_plan_eq: "compile_template demo_sha demo_template ''ship'' ''p-1'' demo_trace
    [(''architecture_agent'', ''architecture'')] = Inr demo_template_plan"
proof -
  have "\<not> isl (compile_template demo_sha demo_template ''ship'' ''p-1'' demo_trace
    [(''architecture_agent'', ''architecture'')])" by code_simp
  then show ?thesis by (simp add: demo_template_plan_def sum.collapse)
qed

theorem compiled_template_grants_witness:
  "length (pl_work_items demo_template_plan) = 2 \<and> plan_ok demo_sha demo_template_plan"
  using compiled_template_grants [OF demo_template_plan_eq]
  by (auto dest!: list_all2_lengthD simp: demo_template_def demo_blueprints_def)

section \<open>Who waits for whom\<close>

definition waits :: "(string, string list) dict \<Rightarrow> (string \<times> string) set" where
  "waits ds = {(c, d). d \<in> set (direct_of ds c)}"

text \<open>The invariant of the walk: a visited consumer does not wait for the owner directly, and whatever it waits for
  has been visited or is pending.\<close>

lemma awaits_iff:
  assumes "\<And>x. x \<in> set seen \<Longrightarrow> owner \<notin> set (direct_of ds x) \<and> set (direct_of ds x) \<subseteq> set seen \<union> set pending"
  shows "awaits ds owner seen pending \<longleftrightarrow> (\<exists>c \<in> set seen \<union> set pending. (c, owner) \<in> (waits ds)\<^sup>+)"
  using assms
proof (induction ds owner seen pending rule: awaits.induct)
  case (1 ds owner seen)
  have "y \<in> set seen \<and> y \<noteq> owner" if "(x, y) \<in> (waits ds)\<^sup>+" "x \<in> set seen" for x y
    using that
  proof (induction rule: trancl_induct)
    case (base y)
    then show ?case using 1 [of x] by (auto simp: waits_def)
  next
    case (step y z)
    then show ?case using 1 [of y] by (auto simp: waits_def)
  qed
  then show ?case by auto
next
  case (2 ds owner seen c pending)
  show ?case
  proof (cases "c \<in> set seen")
    case True
    then have "set seen \<union> set (c # pending) = set seen \<union> set pending" by auto
    then show ?thesis using 2(1) [OF True] 2(3) True by simp
  next
    case new: False
    show ?thesis
    proof (cases "owner \<in> set (direct_of ds c)")
      case True
      then have "(c, owner) \<in> (waits ds)\<^sup>+" by (auto simp: waits_def)
      then show ?thesis using new True by auto
    next
      case False
      have "awaits ds owner (c # seen) (direct_of ds c @ pending) \<longleftrightarrow>
          (\<exists>d \<in> set (c # seen) \<union> set (direct_of ds c @ pending). (d, owner) \<in> (waits ds)\<^sup>+)"
      proof (rule 2(2) [OF new False])
        show "owner \<notin> set (direct_of ds x) \<and> set (direct_of ds x) \<subseteq> set (c # seen) \<union> set (direct_of ds c @ pending)"
          if "x \<in> set (c # seen)" for x
          using that False 2(3) [of x] by (cases "x = c") auto
      qed
      moreover have "(c, owner) \<in> (waits ds)\<^sup>+" if "d \<in> set (direct_of ds c)" "(d, owner) \<in> (waits ds)\<^sup>+" for d
        using that by (intro trancl_into_trancl2 [of c d]) (simp_all add: waits_def)
      ultimately show ?thesis using new False by auto
    qed
  qed
qed

lemma awaits_trancl: "awaits ds owner [] [c] \<longleftrightarrow> (c, owner) \<in> (waits ds)\<^sup>+"
  by (subst awaits_iff) simp_all

definition bindings_used :: "(string, string) dict \<Rightarrow> (string, string) dict" where
  "bindings_used bs = (if bs = [] then legacy_bindings else bs)"

text \<open>C35. The ownership check decides its specification: it accepts items exactly if every deliverable has an owner
  among them, every consumer is one of them, and, when the order is enforced, every consumer waits for the owner,
  directly or through other items.\<close>

theorem ownership_check_decides:
  "validate_ownership o' bs items = Inr () \<longleftrightarrow>
     (\<forall>d \<in> set (ow_artifacts o'). resolve_role (bindings_used bs) (map wi_id items) (da_owner d) \<noteq> None
        \<and> (\<forall>c \<in> set (da_consumers d). \<exists>owner i.
             resolve_role (bindings_used bs) (map wi_id items) (da_owner d) = Some owner
             \<and> resolve_role (bindings_used bs) (map wi_id items) c = Some i
             \<and> (ow_enforce_order o' \<longrightarrow> (i, owner) \<in> (waits (resolved_dependencies (bindings_used bs) items))\<^sup>+)))"
proof -
  have "check_consumer o' b items d c = Inr () \<longleftrightarrow> (\<exists>owner i. resolve_role b (map wi_id items) (da_owner d) = Some owner
      \<and> resolve_role b (map wi_id items) c = Some i
      \<and> (ow_enforce_order o' \<longrightarrow> (i, owner) \<in> (waits (resolved_dependencies b items))\<^sup>+))" for b d c
    by (auto simp: check_consumer_def awaits_trancl simp del: not_None_eq awaits.simps split: option.splits)
  then show ?thesis
    unfolding validate_ownership_def bindings_used_def Let_def
    by (auto simp: for_each_Inr_iff list_ex_iff simp del: not_None_eq)
qed

definition demo_ownership :: "bool \<Rightarrow> ownership" where
  "demo_ownership enforced = \<lparr>ow_artifacts = [\<lparr>da_path = ''users.md'', da_owner = ''code'', da_phase = ''code'',
     da_consumers = [''tests'']\<rparr>], ow_enforce_order = enforced\<rparr>"

definition demo_owned_items :: "work_item list" where
  "demo_owned_items = [blank_work_item ''wi-tests'' ''test_agent'' ''test'' ''tests'',
     blank_work_item ''wi-code-integration'' ''code_integration_agent'' ''merge'' ''implementation'']"

text \<open>Tests that do not wait for the code are refused under an enforced order, and accepted under the order of
  \<open>DeliveryContract.project_delivery()\<close>, which does not enforce any.\<close>

theorem ownership_check_decides_witness:
  "(''wi-tests'', ''wi-code-integration'') \<notin> (waits (resolved_dependencies legacy_bindings demo_owned_items))\<^sup>+"
proof -
  have "validate_ownership (demo_ownership True) [] demo_owned_items \<noteq> Inr ()" by code_simp
  moreover have "resolve_role legacy_bindings (map wi_id demo_owned_items) ''code'' = Some ''wi-code-integration''"
    "resolve_role legacy_bindings (map wi_id demo_owned_items) ''tests'' = Some ''wi-tests''" by code_simp+
  ultimately show ?thesis
    using ownership_check_decides [of "demo_ownership True" "[]" demo_owned_items]
    by (simp add: demo_ownership_def bindings_used_def)
qed

lemma order_not_enforced:
  "validate_ownership (demo_ownership False) [] demo_owned_items = Inr ()" "\<not> ow_enforce_order project_ownership"
  by code_simp+

end
