(* ===== verification/Templates.thy ===== *)
theory Templates
  imports Workflow
begin

text \<open>
  The built-in templates, \<^verbatim>\<open>app/workflow/templates.py\<close>, and their registration in
  \<^verbatim>\<open>app/bootstrap/modules.py\<close>. The prose of a template is Chinese and a parameter: \<open>tx t b f n\<close> is
  the text of the template \<open>t\<close> in the field \<open>f\<close> of its node \<open>b\<close>, the \<open>n\<close>-th for a tuple of texts;
  the name and the description of the template have the node \<open>[]\<close>.
\<close>

type_synonym template_prose = "string \<Rightarrow> string \<Rightarrow> nat \<Rightarrow> string"
type_synonym prose = "string \<Rightarrow> template_prose"

text \<open>\<open>WorkflowTemplate(...)\<close> over its nodes, whose constructors run first.\<close>

definition build_template :: "template_prose \<Rightarrow> string \<Rightarrow> blueprint list \<Rightarrow> template result" where
  "build_template p i nodes = bindE (mapE mk_blueprint nodes) (\<lambda>nodes.
     mk_template \<lparr>tp_id = i, tp_name = p [] ''name'' 0, tp_description = p [] ''description'' 0,
       tp_nodes = nodes, tp_process_id = ''software_delivery''\<rparr>)"

section \<open>Architecture templates\<close>

definition architecture_compact_nodes :: "template_prose \<Rightarrow> blueprint list" where
  "architecture_compact_nodes p = [
      (blank_blueprint ''architecture-design'' ''architecture_agent''
        (p ''architecture-design'' ''objective'' 0) ''architecture_design'')
        \<lparr>bp_artifact_key := Some ''architecture'', bp_execution_mode := PARTITIONED,
         bp_slot := Some ''design'', bp_input_refs := [''requirement''],
         bp_acceptance_criteria := map (p ''architecture-design'' ''acceptance_criteria'') [0, 1, 2]\<rparr>,
      (blank_blueprint ''architecture-integration'' ''architecture_agent''
        (p ''architecture-integration'' ''objective'' 0) ''architecture_candidate'')
        \<lparr>bp_artifact_key := Some ''architecture'', bp_depends_on := [''architecture-design''],
         bp_execution_mode := INTEGRATION, bp_stage_id := Some ''architecture_markdown_integration'',
         bp_publish_target := Some ''architecture'', bp_input_from := [''architecture-design''],
         bp_acceptance_criteria := map (p ''architecture-integration'' ''acceptance_criteria'') [0, 1]\<rparr>,
      (blank_blueprint ''architecture-quality-gate'' ''architecture_agent''
        (p ''architecture-quality-gate'' ''objective'' 0) ''architecture_published'')
        \<lparr>bp_artifact_key := Some ''architecture'', bp_depends_on := [''architecture-integration''],
         bp_execution_mode := QUALITY_GATE, bp_publish_target := Some ''architecture'',
         bp_candidate_from := Some ''architecture-integration''\<rparr>]"

definition architecture_compact_template :: "prose \<Rightarrow> template result" where
  "architecture_compact_template tx = build_template (tx ''architecture_compact'') ''architecture_compact'' (architecture_compact_nodes (tx ''architecture_compact''))"

definition architecture_parallel_nodes :: "template_prose \<Rightarrow> blueprint list" where
  "architecture_parallel_nodes p = [
      (blank_blueprint ''architecture-baseline'' ''architecture_agent''
        (p ''architecture-baseline'' ''objective'' 0) ''architecture_baseline'')
        \<lparr>bp_artifact_key := Some ''architecture'', bp_execution_mode := PARTITIONED,
         bp_slot := Some ''baseline'', bp_input_refs := [''requirement''],
         bp_acceptance_criteria := map (p ''architecture-baseline'' ''acceptance_criteria'') [0, 1, 2]\<rparr>,
      (blank_blueprint ''architecture-api'' ''architecture_agent''
        (p ''architecture-api'' ''objective'' 0) ''architecture_api'')
        \<lparr>bp_artifact_key := Some ''architecture'', bp_depends_on := [''architecture-baseline''],
         bp_execution_mode := PARTITIONED, bp_slot := Some ''api'',
         bp_input_from := [''architecture-baseline''],
         bp_acceptance_criteria := map (p ''architecture-api'' ''acceptance_criteria'') [0, 1, 2]\<rparr>,
      (blank_blueprint ''architecture-data'' ''architecture_agent''
        (p ''architecture-data'' ''objective'' 0) ''architecture_data'')
        \<lparr>bp_artifact_key := Some ''architecture'', bp_depends_on := [''architecture-baseline''],
         bp_execution_mode := PARTITIONED, bp_slot := Some ''data'',
         bp_input_from := [''architecture-baseline''],
         bp_acceptance_criteria := map (p ''architecture-data'' ''acceptance_criteria'') [0, 1, 2]\<rparr>,
      (blank_blueprint ''architecture-frontend'' ''architecture_agent''
        (p ''architecture-frontend'' ''objective'' 0) ''architecture_frontend'')
        \<lparr>bp_artifact_key := Some ''architecture'', bp_depends_on := [''architecture-baseline''],
         bp_execution_mode := PARTITIONED, bp_slot := Some ''frontend'',
         bp_input_from := [''architecture-baseline''],
         bp_acceptance_criteria := map (p ''architecture-frontend'' ''acceptance_criteria'') [0, 1, 2]\<rparr>,
      (blank_blueprint ''architecture-integration'' ''architecture_agent''
        (p ''architecture-integration'' ''objective'' 0) ''architecture_candidate'')
        \<lparr>bp_artifact_key := Some ''architecture'',
         bp_depends_on := [''architecture-api'', ''architecture-data'', ''architecture-frontend''],
         bp_execution_mode := INTEGRATION, bp_stage_id := Some ''architecture_markdown_integration'',
         bp_publish_target := Some ''architecture'',
         bp_input_from := [''architecture-api'', ''architecture-data'', ''architecture-frontend''],
         bp_acceptance_criteria := map (p ''architecture-integration'' ''acceptance_criteria'') [0, 1, 2]\<rparr>,
      (blank_blueprint ''architecture-quality-gate'' ''architecture_agent''
        (p ''architecture-quality-gate'' ''objective'' 0) ''architecture_published'')
        \<lparr>bp_artifact_key := Some ''architecture'', bp_depends_on := [''architecture-integration''],
         bp_execution_mode := QUALITY_GATE, bp_publish_target := Some ''architecture'',
         bp_candidate_from := Some ''architecture-integration''\<rparr>]"

definition architecture_parallel_template :: "prose \<Rightarrow> template result" where
  "architecture_parallel_template tx = build_template (tx ''architecture_parallel'') ''architecture_parallel'' (architecture_parallel_nodes (tx ''architecture_parallel''))"

text \<open>The layered template: a blueprint, one design and one preparation node per fixed module, and the
  integration of them all. The modules are given by their identifier and their slot.\<close>

definition layered_modules :: "(string \<times> string) list" where
  "layered_modules = [(''domain'', ''module-domain''), (''api'', ''module-api''), (''runtime'', ''module-runtime'')]"

definition layered_blueprint :: "template_prose \<Rightarrow> blueprint" where
  "layered_blueprint p =
     (blank_blueprint ''architecture-blueprint'' ''architecture_agent''
        (p ''architecture-blueprint'' ''objective'' 0) ''architecture_blueprint'')
        \<lparr>bp_stage_id := Some ''architecture_blueprint'', bp_artifact_key := Some ''architecture'',
         bp_execution_mode := PARTITIONED, bp_slot := Some ''blueprint'',
         bp_input_refs := [''requirement''],
         bp_acceptance_criteria := map (p ''architecture-blueprint'' ''acceptance_criteria'') [0, 1, 2]\<rparr>"

definition layered_module :: "template_prose \<Rightarrow> string \<Rightarrow> blueprint" where
  "layered_module p slot = (let i = ''architecture-'' @ slot in
     (blank_blueprint i ''architecture_agent'' (p i ''objective'' 0) (''architecture_'' @ slot))
        \<lparr>bp_stage_id := Some ''architecture_module'', bp_artifact_key := Some ''architecture'',
         bp_depends_on := [''architecture-blueprint''], bp_execution_mode := PARTITIONED, bp_slot := Some slot,
         bp_input_from := [''architecture-blueprint''],
         bp_acceptance_criteria := map (p i ''acceptance_criteria'') [0, 1]\<rparr>)"

definition layered_implementation :: "template_prose \<Rightarrow> string \<Rightarrow> blueprint" where
  "layered_implementation p slot = (let i = ''architecture-implementation-'' @ slot in
     (blank_blueprint i ''architecture_agent'' (p i ''objective'' 0) (''architecture_implementation_'' @ slot))
        \<lparr>bp_stage_id := Some ''architecture_implementation'', bp_artifact_key := Some ''architecture'',
         bp_depends_on := [''architecture-'' @ slot], bp_execution_mode := PARTITIONED,
         bp_slot := Some (''implementation-'' @ slot), bp_input_from := [''architecture-'' @ slot],
         bp_acceptance_criteria := map (p i ''acceptance_criteria'') [0, 1]\<rparr>)"

definition layered_closing :: "template_prose \<Rightarrow> string list \<Rightarrow> blueprint list" where
  "layered_closing p inputs =
     [(blank_blueprint ''architecture-layered-integration'' ''architecture_agent''
        (p ''architecture-layered-integration'' ''objective'' 0) ''architecture_layered_candidate'')
        \<lparr>bp_stage_id := Some ''architecture_integration'', bp_artifact_key := Some ''architecture'',
         bp_depends_on := inputs, bp_execution_mode := INTEGRATION, bp_publish_target := Some ''architecture'',
         bp_input_from := inputs,
         bp_acceptance_criteria := map (p ''architecture-layered-integration'' ''acceptance_criteria'') [0, 1]\<rparr>,
      (blank_blueprint ''architecture-layered-quality-gate'' ''architecture_agent''
        (p ''architecture-layered-quality-gate'' ''objective'' 0) ''architecture_layered_published'')
        \<lparr>bp_stage_id := Some ''architecture_quality'', bp_artifact_key := Some ''architecture'',
         bp_depends_on := [''architecture-layered-integration''], bp_execution_mode := QUALITY_GATE,
         bp_publish_target := Some ''architecture'',
         bp_candidate_from := Some ''architecture-layered-integration''\<rparr>,
      (blank_blueprint ''architecture-layered-contract'' ''architecture_contract_agent''
        (p ''architecture-layered-contract'' ''objective'' 0) ''architecture_contract'')
        \<lparr>bp_stage_id := Some ''contract'', bp_artifact_key := Some ''architecture_contract'',
         bp_depends_on := [''architecture-layered-quality-gate''], bp_execution_mode := INTEGRATION,
         bp_publish_target := Some ''architecture_contract'', bp_input_from := inputs,
         bp_acceptance_criteria := map (p ''architecture-layered-contract'' ''acceptance_criteria'') [0, 1]\<rparr>]"

definition architecture_layered_nodes :: "template_prose \<Rightarrow> blueprint list" where
  "architecture_layered_nodes p = (let nodes = layered_blueprint p # map (layered_module p \<circ> snd) layered_modules
       @ map (layered_implementation p \<circ> snd) layered_modules in
     nodes @ layered_closing p (map bp_id nodes))"

definition architecture_layered_template :: "prose \<Rightarrow> template result" where
  "architecture_layered_template tx =
     build_template (tx ''architecture_layered'') ''architecture_layered'' (architecture_layered_nodes (tx ''architecture_layered''))"

definition architecture_only_nodes :: "template_prose \<Rightarrow> blueprint list" where
  "architecture_only_nodes p = [
      (blank_blueprint ''requirement'' ''requirement_agent''
        (p ''requirement'' ''objective'' 0) ''requirement'')
        \<lparr>bp_stage_id := Some ''requirement''\<rparr>,
      (blank_blueprint ''architecture-blueprint'' ''architecture_agent''
        (p ''architecture-blueprint'' ''objective'' 0) ''architecture'')
        \<lparr>bp_artifact_key := Some ''architecture'', bp_depends_on := [''requirement''],
         bp_stage_id := Some ''architecture_blueprint'', bp_slot := Some ''blueprint'',
         bp_execution_mode := PARTITIONED,
         bp_acceptance_criteria := map (p ''architecture-blueprint'' ''acceptance_criteria'') [0, 1]\<rparr>,
      (blank_blueprint ''architecture-integration'' ''architecture_agent''
        (p ''architecture-integration'' ''objective'' 0) ''architecture_candidate'')
        \<lparr>bp_artifact_key := Some ''architecture'', bp_depends_on := [''architecture-blueprint''],
         bp_stage_id := Some ''architecture_integration'', bp_execution_mode := INTEGRATION,
         bp_publish_target := Some ''architecture'', bp_input_from := [''architecture-blueprint''],
         bp_acceptance_criteria := map (p ''architecture-integration'' ''acceptance_criteria'') [0]\<rparr>,
      (blank_blueprint ''architecture-quality-gate'' ''architecture_agent''
        (p ''architecture-quality-gate'' ''objective'' 0) ''architecture_quality_gate'')
        \<lparr>bp_artifact_key := Some ''architecture'', bp_depends_on := [''architecture-integration''],
         bp_stage_id := Some ''architecture_quality_gate'', bp_execution_mode := QUALITY_GATE,
         bp_publish_target := Some ''architecture'',
         bp_candidate_from := Some ''architecture-integration'',
         bp_acceptance_criteria := map (p ''architecture-quality-gate'' ''acceptance_criteria'') [0, 1]\<rparr>]"

definition architecture_only_template :: "prose \<Rightarrow> template result" where
  "architecture_only_template tx = build_template (tx ''architecture_only'') ''architecture_only'' (architecture_only_nodes (tx ''architecture_only''))"

text \<open>The nodes of another template with the contract after them.\<close>

definition architecture_l0_contract :: "template_prose \<Rightarrow> blueprint" where
  "architecture_l0_contract p =
      (blank_blueprint ''contract'' ''architecture_contract_agent''
        (p ''contract'' ''objective'' 0) ''architecture_contract'')
        \<lparr>bp_artifact_key := Some ''architecture_contract'',
         bp_depends_on := [''architecture-quality-gate''], bp_stage_id := Some ''contract'',
         bp_execution_mode := INTEGRATION, bp_publish_target := Some ''architecture_contract'',
         bp_acceptance_criteria := map (p ''contract'' ''acceptance_criteria'') [0, 1]\<rparr>"

definition architecture_l0_template :: "prose \<Rightarrow> template result" where
  "architecture_l0_template tx = bindE (architecture_only_template tx) (\<lambda>architecture.
     build_template (tx ''architecture_l0'') ''architecture_l0''
       (tp_nodes architecture @ [architecture_l0_contract (tx ''architecture_l0'')]))"

section \<open>Delivery templates\<close>

definition delivery_default_nodes :: "template_prose \<Rightarrow> blueprint list" where
  "delivery_default_nodes p = [
      (blank_blueprint ''requirement'' ''requirement_agent''
        (p ''requirement'' ''objective'' 0) ''requirement'')
        \<lparr>bp_stage_id := Some ''requirement''\<rparr>,
      (blank_blueprint ''architecture-blueprint'' ''architecture_agent''
        (p ''architecture-blueprint'' ''objective'' 0) ''architecture'')
        \<lparr>bp_artifact_key := Some ''architecture'', bp_depends_on := [''requirement''],
         bp_input_refs := [''requirement''], bp_stage_id := Some ''architecture_blueprint'',
         bp_slot := Some ''blueprint'', bp_execution_mode := PARTITIONED,
         bp_acceptance_criteria := map (p ''architecture-blueprint'' ''acceptance_criteria'') [0, 1]\<rparr>,
      (blank_blueprint ''architecture-integration'' ''architecture_agent''
        (p ''architecture-integration'' ''objective'' 0) ''architecture_integration'')
        \<lparr>bp_stage_id := Some ''architecture_integration'', bp_artifact_key := Some ''architecture'',
         bp_depends_on := [''architecture-blueprint''], bp_execution_mode := INTEGRATION,
         bp_publish_target := Some ''architecture'', bp_input_from := [''architecture-blueprint''],
         bp_acceptance_criteria := map (p ''architecture-integration'' ''acceptance_criteria'') [0, 1]\<rparr>,
      (blank_blueprint ''architecture-quality-gate'' ''architecture_agent''
        (p ''architecture-quality-gate'' ''objective'' 0) ''architecture_quality_gate'')
        \<lparr>bp_artifact_key := Some ''architecture'', bp_depends_on := [''architecture-integration''],
         bp_stage_id := Some ''architecture_quality_gate'', bp_execution_mode := QUALITY_GATE,
         bp_publish_target := Some ''architecture'',
         bp_candidate_from := Some ''architecture-integration'',
         bp_acceptance_criteria := map (p ''architecture-quality-gate'' ''acceptance_criteria'') [0]\<rparr>,
      (blank_blueprint ''contract'' ''architecture_contract_agent''
        (p ''contract'' ''objective'' 0) ''architecture_contract'')
        \<lparr>bp_depends_on := [''architecture-quality-gate''], bp_stage_id := Some ''contract'',
         bp_execution_mode := INTEGRATION, bp_publish_target := Some ''architecture_contract'',
         bp_acceptance_criteria := map (p ''contract'' ''acceptance_criteria'') [0, 1]\<rparr>,
      (blank_blueprint ''tasks-plan'' ''task_agent''
        (p ''tasks-plan'' ''objective'' 0) ''tasks_plan'')
        \<lparr>bp_artifact_key := Some ''tasks'',
         bp_depends_on := [''requirement'', ''architecture-blueprint'', ''contract''],
         bp_execution_mode := PARTITIONED, bp_slot := Some ''plan'', bp_stage_id := Some ''tasks_plan'',
         bp_input_refs := [''requirement'', ''architecture'', ''architecture_contract''],
         bp_acceptance_criteria := map (p ''tasks-plan'' ''acceptance_criteria'') [0, 1]\<rparr>,
      (blank_blueprint ''tasks-integration'' ''task_agent''
        (p ''tasks-integration'' ''objective'' 0) ''tasks_candidate'')
        \<lparr>bp_artifact_key := Some ''tasks'', bp_depends_on := [''tasks-plan''],
         bp_execution_mode := INTEGRATION, bp_publish_target := Some ''tasks'',
         bp_stage_id := Some ''tasks_integration'', bp_input_from := [''tasks-plan''],
         bp_acceptance_criteria := map (p ''tasks-integration'' ''acceptance_criteria'') [0]\<rparr>,
      (blank_blueprint ''tasks-quality-gate'' ''task_agent''
        (p ''tasks-quality-gate'' ''objective'' 0) ''tasks_published'')
        \<lparr>bp_artifact_key := Some ''tasks'', bp_depends_on := [''tasks-integration''],
         bp_execution_mode := QUALITY_GATE, bp_publish_target := Some ''tasks'',
         bp_stage_id := Some ''tasks_quality_gate'', bp_candidate_from := Some ''tasks-integration''\<rparr>,
      (blank_blueprint ''environment'' ''bootstrap_agent''
        (p ''environment'' ''objective'' 0) ''environment'')
        \<lparr>bp_depends_on := [''requirement'', ''architecture-blueprint'', ''contract'', ''tasks-quality-gate''],
         bp_stage_id := Some ''environment'',
         bp_input_refs := [''requirement'', ''architecture'', ''architecture_contract'', ''tasks''],
         bp_acceptance_criteria := map (p ''environment'' ''acceptance_criteria'') [0, 1]\<rparr>,
      (blank_blueprint ''implementation-anchor'' ''code_integration_agent''
        (p ''implementation-anchor'' ''objective'' 0) ''implementation'')
        \<lparr>bp_artifact_key := Some ''implementation'', bp_depends_on := [''contract'', ''environment''],
         bp_stage_id := Some ''implementation'', bp_execution_mode := INTEGRATION,
         bp_publish_target := Some ''implementation'',
         bp_acceptance_criteria := map (p ''implementation-anchor'' ''acceptance_criteria'') [0, 1]\<rparr>,
      (blank_blueprint ''tests'' ''test_agent''
        (p ''tests'' ''objective'' 0) ''tests'')
        \<lparr>bp_artifact_key := Some ''tests'', bp_depends_on := [''implementation-anchor''],
         bp_stage_id := Some ''test'', bp_input_refs := [''architecture_contract'', ''implementation''],
         bp_acceptance_criteria := map (p ''tests'' ''acceptance_criteria'') [0, 1]\<rparr>,
      (blank_blueprint ''review'' ''review_agent''
        (p ''review'' ''objective'' 0) ''review'')
        \<lparr>bp_artifact_key := Some ''review'', bp_depends_on := [''tests''],
         bp_stage_id := Some ''review'',
         bp_input_refs := [''requirement'', ''architecture'', ''tasks'', ''environment'', ''implementation'', ''tests''],
         bp_acceptance_criteria := map (p ''review'' ''acceptance_criteria'') [0, 1]\<rparr>]"

definition delivery_default_template :: "prose \<Rightarrow> template result" where
  "delivery_default_template tx = build_template (tx ''delivery_default'') ''delivery_default'' (delivery_default_nodes (tx ''delivery_default''))"

definition delivery_incremental_nodes :: "template_prose \<Rightarrow> blueprint list" where
  "delivery_incremental_nodes p = [
      (blank_blueprint ''tasks-plan'' ''task_agent''
        (p ''tasks-plan'' ''objective'' 0) ''tasks_plan'')
        \<lparr>bp_artifact_key := Some ''tasks'', bp_execution_mode := PARTITIONED, bp_slot := Some ''plan'',
         bp_stage_id := Some ''tasks_plan'', bp_input_refs := [''architecture_contract''],
         bp_acceptance_criteria := map (p ''tasks-plan'' ''acceptance_criteria'') [0, 1]\<rparr>,
      (blank_blueprint ''tasks-integration'' ''task_agent''
        (p ''tasks-integration'' ''objective'' 0) ''tasks_candidate'')
        \<lparr>bp_artifact_key := Some ''tasks'', bp_depends_on := [''tasks-plan''],
         bp_execution_mode := INTEGRATION, bp_publish_target := Some ''tasks'',
         bp_stage_id := Some ''tasks_integration'', bp_input_from := [''tasks-plan''],
         bp_acceptance_criteria := map (p ''tasks-integration'' ''acceptance_criteria'') [0]\<rparr>,
      (blank_blueprint ''tasks-quality-gate'' ''task_agent''
        (p ''tasks-quality-gate'' ''objective'' 0) ''tasks_published'')
        \<lparr>bp_artifact_key := Some ''tasks'', bp_depends_on := [''tasks-integration''],
         bp_execution_mode := QUALITY_GATE, bp_publish_target := Some ''tasks'',
         bp_stage_id := Some ''tasks_quality_gate'', bp_candidate_from := Some ''tasks-integration''\<rparr>,
      (blank_blueprint ''environment'' ''bootstrap_agent''
        (p ''environment'' ''objective'' 0) ''environment'')
        \<lparr>bp_depends_on := [''tasks-quality-gate''], bp_stage_id := Some ''environment'',
         bp_input_refs := [''architecture_contract'', ''tasks''],
         bp_acceptance_criteria := map (p ''environment'' ''acceptance_criteria'') [0, 1]\<rparr>,
      (blank_blueprint ''implementation-anchor'' ''code_integration_agent''
        (p ''implementation-anchor'' ''objective'' 0) ''implementation'')
        \<lparr>bp_artifact_key := Some ''implementation'', bp_depends_on := [''environment''],
         bp_stage_id := Some ''implementation'', bp_execution_mode := INTEGRATION,
         bp_publish_target := Some ''implementation'',
         bp_acceptance_criteria := map (p ''implementation-anchor'' ''acceptance_criteria'') [0, 1]\<rparr>,
      (blank_blueprint ''tests'' ''test_agent''
        (p ''tests'' ''objective'' 0) ''tests'')
        \<lparr>bp_artifact_key := Some ''tests'', bp_depends_on := [''implementation-anchor''],
         bp_stage_id := Some ''test'', bp_input_refs := [''architecture_contract'', ''implementation''],
         bp_acceptance_criteria := map (p ''tests'' ''acceptance_criteria'') [0, 1]\<rparr>,
      (blank_blueprint ''review'' ''review_agent''
        (p ''review'' ''objective'' 0) ''review'')
        \<lparr>bp_artifact_key := Some ''review'', bp_depends_on := [''tests''],
         bp_stage_id := Some ''review'',
         bp_input_refs := [''tasks'', ''environment'', ''implementation'', ''tests''],
         bp_acceptance_criteria := map (p ''review'' ''acceptance_criteria'') [0, 1]\<rparr>]"

definition delivery_incremental_template :: "prose \<Rightarrow> template result" where
  "delivery_incremental_template tx = build_template (tx ''delivery_incremental'') ''delivery_incremental'' (delivery_incremental_nodes (tx ''delivery_incremental''))"

definition project_delivery_nodes :: "template_prose \<Rightarrow> blueprint list" where
  "project_delivery_nodes p = [
      (blank_blueprint ''requirement'' ''requirement_agent''
        (p ''requirement'' ''objective'' 0) ''requirement''),
      (blank_blueprint ''architecture'' ''architecture_agent''
        (p ''architecture'' ''objective'' 0) ''architecture'')
        \<lparr>bp_depends_on := [''requirement'']\<rparr>,
      (blank_blueprint ''architecture-contract'' ''architecture_contract_agent''
        (p ''architecture-contract'' ''objective'' 0) ''architecture_contract'')
        \<lparr>bp_depends_on := [''architecture''],
         bp_acceptance_criteria := map (p ''architecture-contract'' ''acceptance_criteria'') [0, 1]\<rparr>,
      (blank_blueprint ''tasks-plan'' ''task_agent''
        (p ''tasks-plan'' ''objective'' 0) ''tasks_plan'')
        \<lparr>bp_artifact_key := Some ''tasks'',
         bp_depends_on := [''requirement'', ''architecture'', ''architecture-contract''],
         bp_execution_mode := PARTITIONED, bp_slot := Some ''plan'',
         bp_input_refs := [''requirement'', ''architecture'', ''architecture_contract''],
         bp_acceptance_criteria := map (p ''tasks-plan'' ''acceptance_criteria'') [0, 1]\<rparr>,
      (blank_blueprint ''tasks-integration'' ''task_agent''
        (p ''tasks-integration'' ''objective'' 0) ''tasks_candidate'')
        \<lparr>bp_artifact_key := Some ''tasks'', bp_depends_on := [''tasks-plan''],
         bp_execution_mode := INTEGRATION, bp_publish_target := Some ''tasks'',
         bp_input_from := [''tasks-plan''],
         bp_acceptance_criteria := map (p ''tasks-integration'' ''acceptance_criteria'') [0]\<rparr>,
      (blank_blueprint ''tasks-quality-gate'' ''task_agent''
        (p ''tasks-quality-gate'' ''objective'' 0) ''tasks_published'')
        \<lparr>bp_artifact_key := Some ''tasks'', bp_depends_on := [''tasks-integration''],
         bp_execution_mode := QUALITY_GATE, bp_publish_target := Some ''tasks'',
         bp_candidate_from := Some ''tasks-integration''\<rparr>,
      (blank_blueprint ''environment'' ''bootstrap_agent''
        (p ''environment'' ''objective'' 0) ''environment'')
        \<lparr>bp_depends_on := [''requirement'', ''architecture'', ''architecture-contract'', ''tasks-quality-gate''],
         bp_input_refs := [''requirement'', ''architecture'', ''architecture_contract'', ''tasks'']\<rparr>,
      (blank_blueprint ''code-integration'' ''code_integration_agent''
        (p ''code-integration'' ''objective'' 0) ''implementation_merge'')
        \<lparr>bp_artifact_key := Some ''implementation'',
         bp_depends_on := [''architecture-contract'', ''tasks-quality-gate'', ''environment''],
         bp_execution_mode := INTEGRATION, bp_publish_target := Some ''workspace''\<rparr>,
      (blank_blueprint ''tests'' ''test_agent''
        (p ''tests'' ''objective'' 0) ''tests'')
        \<lparr>bp_depends_on := [''requirement'', ''tasks-quality-gate'', ''environment'', ''code-integration'']\<rparr>,
      (blank_blueprint ''review'' ''review_agent''
        (p ''review'' ''objective'' 0) ''review'')
        \<lparr>bp_depends_on := [''requirement'', ''architecture'', ''architecture-contract'', ''tasks-quality-gate'', ''environment'', ''code-integration'', ''tests'']\<rparr>]"

definition project_delivery_template :: "prose \<Rightarrow> template result" where
  "project_delivery_template tx = build_template (tx ''project_delivery'') ''project_delivery'' (project_delivery_nodes (tx ''project_delivery''))"

definition project_delivery_dynamic_nodes :: "template_prose \<Rightarrow> blueprint list" where
  "project_delivery_dynamic_nodes p = [
      (blank_blueprint ''requirement'' ''requirement_agent''
        (p ''requirement'' ''objective'' 0) ''requirement''),
      (blank_blueprint ''architecture-blueprint'' ''architecture_agent''
        (p ''architecture-blueprint'' ''objective'' 0) ''architecture_blueprint'')
        \<lparr>bp_stage_id := Some ''architecture_blueprint'', bp_artifact_key := Some ''architecture'',
         bp_depends_on := [''requirement''], bp_execution_mode := PARTITIONED,
         bp_slot := Some ''blueprint'', bp_input_refs := [''requirement''],
         bp_acceptance_criteria := map (p ''architecture-blueprint'' ''acceptance_criteria'') [0, 1]\<rparr>,
      (blank_blueprint ''architecture-integration'' ''architecture_agent''
        (p ''architecture-integration'' ''objective'' 0) ''architecture_dynamic_candidate'')
        \<lparr>bp_stage_id := Some ''architecture_integration'', bp_artifact_key := Some ''architecture'',
         bp_depends_on := [''architecture-blueprint''], bp_execution_mode := INTEGRATION,
         bp_publish_target := Some ''architecture'', bp_input_from := [''architecture-blueprint''],
         bp_acceptance_criteria := map (p ''architecture-integration'' ''acceptance_criteria'') [0, 1]\<rparr>,
      (blank_blueprint ''architecture-contract'' ''architecture_contract_agent''
        (p ''architecture-contract'' ''objective'' 0) ''architecture_contract'')
        \<lparr>bp_stage_id := Some ''contract'', bp_artifact_key := Some ''architecture_contract'',
         bp_depends_on := [''architecture-integration''], bp_execution_mode := INTEGRATION,
         bp_publish_target := Some ''architecture_contract'',
         bp_acceptance_criteria := map (p ''architecture-contract'' ''acceptance_criteria'') [0, 1]\<rparr>]"

definition project_delivery_dynamic_template :: "prose \<Rightarrow> template result" where
  "project_delivery_dynamic_template tx = build_template (tx ''project_delivery_dynamic'') ''project_delivery_dynamic'' (project_delivery_dynamic_nodes (tx ''project_delivery_dynamic''))"

definition project_delivery_minimal_nodes :: "template_prose \<Rightarrow> blueprint list" where
  "project_delivery_minimal_nodes p = [
      (blank_blueprint ''tasks-plan'' ''task_agent''
        (p ''tasks-plan'' ''objective'' 0) ''tasks_plan'')
        \<lparr>bp_artifact_key := Some ''tasks'', bp_execution_mode := PARTITIONED, bp_slot := Some ''plan'',
         bp_input_refs := [''requirement'', ''architecture''],
         bp_acceptance_criteria := map (p ''tasks-plan'' ''acceptance_criteria'') [0, 1]\<rparr>,
      (blank_blueprint ''tasks-integration'' ''task_agent''
        (p ''tasks-integration'' ''objective'' 0) ''tasks_candidate'')
        \<lparr>bp_artifact_key := Some ''tasks'', bp_depends_on := [''tasks-plan''],
         bp_execution_mode := INTEGRATION, bp_publish_target := Some ''tasks'',
         bp_input_from := [''tasks-plan''],
         bp_acceptance_criteria := map (p ''tasks-integration'' ''acceptance_criteria'') [0]\<rparr>,
      (blank_blueprint ''tasks-quality-gate'' ''task_agent''
        (p ''tasks-quality-gate'' ''objective'' 0) ''tasks_published'')
        \<lparr>bp_artifact_key := Some ''tasks'', bp_depends_on := [''tasks-integration''],
         bp_execution_mode := QUALITY_GATE, bp_publish_target := Some ''tasks'',
         bp_candidate_from := Some ''tasks-integration''\<rparr>,
      (blank_blueprint ''environment'' ''bootstrap_agent''
        (p ''environment'' ''objective'' 0) ''environment'')
        \<lparr>bp_artifact_key := Some ''environment'', bp_depends_on := [''tasks-quality-gate''],
         bp_input_refs := [''requirement'', ''architecture'', ''tasks''],
         bp_acceptance_criteria := map (p ''environment'' ''acceptance_criteria'') [0, 1],
         bp_skill_refs := [''python.container-runtime.v1'']\<rparr>,
      (blank_blueprint ''code-backend'' ''code_agent''
        (p ''code-backend'' ''objective'' 0) ''implementation_backend'')
        \<lparr>bp_artifact_key := Some ''implementation'', bp_depends_on := [''environment''],
         bp_execution_mode := PARTITIONED, bp_slot := Some ''backend'',
         bp_input_refs := [''architecture'', ''environment''],
         bp_acceptance_criteria := map (p ''code-backend'' ''acceptance_criteria'') [0, 1, 2],
         bp_constraints := map (p ''code-backend'' ''constraints'') [0, 1],
         bp_non_goals := map (p ''code-backend'' ''non_goals'') [0, 1], bp_unit := Some ''backend'',
         bp_allowed_paths := [''workspace/backend/**''], bp_required_paths := [''backend/main.py''],
         bp_owned_files := [''backend/main.py''],
         bp_forbidden_paths := [''workspace/frontend/**'', ''workspace/tests/**'', ''.projectos/**''],
         bp_policy_refs := [''project.layer-boundary.v1''],
         bp_skill_refs := [''python.http-service.v1'']\<rparr>,
      (blank_blueprint ''code-frontend'' ''code_agent''
        (p ''code-frontend'' ''objective'' 0) ''implementation_frontend'')
        \<lparr>bp_artifact_key := Some ''implementation'', bp_depends_on := [''environment''],
         bp_execution_mode := PARTITIONED, bp_slot := Some ''frontend'',
         bp_input_refs := [''architecture'', ''environment''],
         bp_acceptance_criteria := map (p ''code-frontend'' ''acceptance_criteria'') [0, 1, 2],
         bp_constraints := map (p ''code-frontend'' ''constraints'') [0, 1],
         bp_non_goals := map (p ''code-frontend'' ''non_goals'') [0, 1], bp_unit := Some ''frontend'',
         bp_allowed_paths := [''workspace/frontend/**''],
         bp_required_paths := [''frontend/index.html''], bp_owned_files := [''frontend/index.html''],
         bp_forbidden_paths := [''workspace/backend/**'', ''workspace/tests/**'', ''.projectos/**''],
         bp_policy_refs := [''project.layer-boundary.v1''],
         bp_skill_refs := [''web.native-frontend.v1'']\<rparr>,
      (blank_blueprint ''code-integration'' ''code_integration_agent''
        (p ''code-integration'' ''objective'' 0) ''implementation_merge'')
        \<lparr>bp_artifact_key := Some ''implementation'',
         bp_depends_on := [''code-backend'', ''code-frontend''], bp_execution_mode := INTEGRATION,
         bp_publish_target := Some ''workspace'',
         bp_input_from := [''code-backend'', ''code-frontend''],
         bp_acceptance_criteria := map (p ''code-integration'' ''acceptance_criteria'') [0]\<rparr>,
      (blank_blueprint ''tests'' ''test_agent''
        (p ''tests'' ''objective'' 0) ''tests'')
        \<lparr>bp_artifact_key := Some ''tests'', bp_depends_on := [''code-integration''],
         bp_input_refs := [''requirement'', ''tasks'', ''environment'', ''implementation''],
         bp_acceptance_criteria := map (p ''tests'' ''acceptance_criteria'') [0, 1]\<rparr>,
      (blank_blueprint ''review'' ''review_agent''
        (p ''review'' ''objective'' 0) ''review'')
        \<lparr>bp_artifact_key := Some ''review'', bp_depends_on := [''tests''],
         bp_input_refs := [''requirement'', ''architecture'', ''tasks'', ''environment'', ''implementation'', ''tests''],
         bp_acceptance_criteria := map (p ''review'' ''acceptance_criteria'') [0, 1]\<rparr>]"

definition project_delivery_minimal_template :: "prose \<Rightarrow> template result" where
  "project_delivery_minimal_template tx = build_template (tx ''project_delivery_minimal'') ''project_delivery_minimal'' (project_delivery_minimal_nodes (tx ''project_delivery_minimal''))"


text \<open>
  The layered delivery: the nodes of the project delivery with those of the layered architecture in the place of
  its architecture and contract. Both are copied field by field, so the fields that are not copied get their
  defaults: the candidate of the first node, and the unit and path fields of all.
\<close>

definition copied :: "blueprint \<Rightarrow> string list \<Rightarrow> string list \<Rightarrow> string option \<Rightarrow> blueprint" where
  "copied b depends_on input_from candidate_from =
     (blank_blueprint (bp_id b) (bp_agent_id b) (bp_objective b) (bp_output_key b))
       \<lparr>bp_stage_id := bp_stage_id b, bp_artifact_key := bp_artifact_key b, bp_depends_on := depends_on,
        bp_execution_mode := bp_execution_mode b, bp_input_refs := bp_input_refs b, bp_slot := bp_slot b,
        bp_publish_target := bp_publish_target b, bp_candidate_from := candidate_from,
        bp_input_from := input_from, bp_acceptance_criteria := bp_acceptance_criteria b,
        bp_constraints := bp_constraints b, bp_non_goals := bp_non_goals b,
        bp_policy_refs := bp_policy_refs b, bp_skill_refs := bp_skill_refs b\<rparr>"

definition layered_name :: "string \<Rightarrow> string" where
  "layered_name i = (if i = ''architecture'' then ''architecture-layered-quality-gate''
     else if i = ''architecture-contract'' then ''architecture-layered-contract'' else i)"

definition layered_order :: "blueprint \<Rightarrow> string list" where
  "layered_order b =
     (if bp_id b = ''tasks-plan''
      then [''requirement'', ''architecture-layered-quality-gate'', ''architecture-layered-contract'']
      else if bp_id b = ''environment''
      then [''requirement'', ''architecture-layered-quality-gate'', ''architecture-layered-contract'', ''tasks-quality-gate'']
      else if bp_id b = ''code-integration''
      then [''architecture-layered-contract'', ''tasks-quality-gate'', ''environment'']
      else if bp_id b = ''review''
      then [''requirement'', ''architecture-layered-quality-gate'', ''architecture-layered-contract'', ''tasks-quality-gate'',
            ''environment'', ''code-integration'', ''tests'']
      else map layered_name (bp_depends_on b))"

definition layered_downstream :: "blueprint \<Rightarrow> blueprint" where
  "layered_downstream b = copied b (layered_order b) (map layered_name (bp_input_from b))
     (if falsy_opt (bp_candidate_from b) then None else map_option layered_name (bp_candidate_from b))"

definition kept_delivery_nodes :: "blueprint list \<Rightarrow> blueprint list" where
  "kept_delivery_nodes bs = filter (\<lambda>b. bp_id b \<notin> {''requirement'', ''architecture'', ''architecture-contract''}) bs"

definition project_delivery_layered_template :: "prose \<Rightarrow> template result" where
  "project_delivery_layered_template tx = (let p = tx ''project_delivery_layered'' in
     bindE (architecture_layered_template tx) (\<lambda>layered.
     bindE (project_delivery_template tx) (\<lambda>base.
     bindE (case List.find (\<lambda>b. bp_id b = ''requirement'') (tp_nodes base) of
         None \<Rightarrow> Inl (StopIteration ''requirement'') | Some b \<Rightarrow> Inr b) (\<lambda>requirement.
     bindE (case tp_nodes layered of
         [] \<Rightarrow> Inl (IndexError ''layered_nodes'')
       | b # bs \<Rightarrow> bindE (mk_blueprint (copied b [''requirement''] (bp_input_from b) None)) (\<lambda>b. Inr (b # bs))) (\<lambda>layered_nodes.
     bindE (mapE (\<lambda>b. mk_blueprint (layered_downstream b)) (kept_delivery_nodes (tp_nodes base))) (\<lambda>downstream.
     mk_template \<lparr>tp_id = ''project_delivery_layered'', tp_name = p [] ''name'' 0,
       tp_description = p [] ''description'' 0, tp_nodes = requirement # layered_nodes @ downstream,
       tp_process_id = ''software_delivery''\<rparr>))))))"

section \<open>Registration\<close>

text \<open>The registrations of \<open>install_modules\<close>, in their order: the template, its status, whether it is the default.\<close>

definition registrations :: "prose \<Rightarrow> (template result \<times> template_status option \<times> bool) list" where
  "registrations tx =
     [(architecture_compact_template tx, None, False),
      (architecture_parallel_template tx, None, False),
      (architecture_layered_template tx, None, False),
      (delivery_default_template tx, None, True),
      (delivery_incremental_template tx, None, False),
      (architecture_only_template tx, None, False),
      (architecture_l0_template tx, None, False),
      (project_delivery_template tx, Some T_COMPATIBILITY_ONLY, False),
      (project_delivery_layered_template tx, None, False),
      (project_delivery_minimal_template tx, None, False)]"

definition install_templates :: "prose \<Rightarrow> template_registry result" where
  "install_templates tx = foldE (\<lambda>(r, status, is_default) g. bindE r (\<lambda>t.
     register_template t ''v1'' status [] is_default g)) (registrations tx) new_templates"

end
