(* ===== verification/Templates_Laws.thy ===== *)
theory Templates_Laws
  imports Templates Workflow_Laws
begin

text \<open>
  The built-in templates: whatever their prose says, as long as it says something, they are installed, the default
  is the one for new projects, and the order of a delivery template puts its review after everything else.
\<close>

section \<open>Templates without their prose\<close>

text \<open>Only whether a text is blank matters to the constructors.\<close>

definition plain :: "blueprint \<Rightarrow> blueprint" where
  "plain b = b\<lparr>bp_objective := ''x'', bp_acceptance_criteria := [], bp_constraints := [], bp_non_goals := []\<rparr>"

definition prose_ok :: "blueprint \<Rightarrow> bool" where
  "prose_ok b \<longleftrightarrow> \<not> blank (bp_objective b) \<and> \<not> list_ex blank (bp_acceptance_criteria b)
     \<and> \<not> list_ex blank (bp_constraints b) \<and> \<not> list_ex blank (bp_non_goals b)"

lemma plain_simps [simp]:
  "bp_id (plain b) = bp_id b" "bp_depends_on (plain b) = bp_depends_on b"
  by (simp_all add: plain_def)

lemma mk_blueprint_same: "mk_blueprint b = Inr c \<Longrightarrow> c = b"
  by (auto simp: mk_blueprint_def)

lemma mk_blueprints_same: "mapE mk_blueprint bs = Inr cs \<Longrightarrow> cs = bs"
  by (induction bs arbitrary: cs) (auto dest: mk_blueprint_same)

lemma mk_blueprints_iff: "mapE mk_blueprint bs = Inr bs \<longleftrightarrow> list_all (\<lambda>b. mk_blueprint b = Inr b) bs"
  by (induction bs) auto

lemma blueprint_grant_plain: "blueprint_grant (plain b) = blueprint_grant b"
  by (simp add: blueprint_grant_def plain_def split: execution_mode.split)

lemma mk_blueprint_plain:
  assumes "prose_ok b" "\<not> isl (mk_blueprint (plain b))"
  shows "mk_blueprint b = Inr b"
proof -
  have x: "\<not> blank ''x''" by code_simp
  obtain c where "mk_blueprint (plain b) = Inr c" using assms(2) by (cases "mk_blueprint (plain b)") auto
  then have ok: "mk_blueprint (plain b) = Inr (plain b)" using mk_blueprint_same by metis
  have g: "blueprint_grant b = Inr ()"
    using ok unfolding mk_blueprint_def blueprint_grant_plain by (auto split: sum.splits)
  have "raises
     [(list_ex blank [bp_id b, bp_agent_id b, bp_objective b, bp_output_key b], ValueError ''TaskBlueprint''),
      (list_ex blank_some [bp_artifact_key b, bp_slot b, bp_publish_target b, bp_candidate_from b, bp_stage_id b],
        ValueError ''TaskBlueprint optional name''),
      (blank_some (bp_unit b), ValueError ''implementation_unit_id''),
      (list_ex (list_ex blank) [bp_allowed_paths b, bp_forbidden_paths b, bp_required_paths b, bp_owned_files b,
        bp_policy_refs b, bp_skill_refs b], ValueError ''paths''),
      (bp_agent_id b = ''code_agent'' \<and> list_ex directory_or_glob (bp_owned_files b), ValueError ''owned_files''),
      (list_ex blank (bp_input_refs b), ValueError ''input_refs''),
      (list_ex blank (bp_input_from b), ValueError ''input_from''),
      (list_ex blank (bp_acceptance_criteria b), ValueError ''acceptance_criteria''),
      (list_ex blank (bp_constraints b), ValueError ''constraints''),
      (list_ex blank (bp_non_goals b), ValueError ''non_goals''),
      (bp_agent_id b = ''task_agent'' \<and> bp_execution_mode b = EXCLUSIVE, ValueError ''task_agent EXCLUSIVE'')] = Inr ()"
    using ok assms(1) x unfolding mk_blueprint_def prose_ok_def
    by (simp add: plain_def)
  then show ?thesis unfolding mk_blueprint_def g by simp
qed

lemma mk_blueprints_plain:
  assumes "list_all prose_ok bs" "list_all (\<lambda>b. \<not> isl (mk_blueprint b)) (map plain bs)"
  shows "mapE mk_blueprint bs = Inr bs"
  using assms by (induction bs) (simp_all add: mk_blueprint_plain)

definition order_of :: "blueprint list \<Rightarrow> (string \<times> string list) list" where
  "order_of bs = map (\<lambda>b. (bp_id b, bp_depends_on b)) bs"

lemma order_of_plain [simp]: "order_of (map plain bs) = order_of bs"
  by (simp add: order_of_def)

definition order_ok :: "(string \<times> string list) list \<Rightarrow> bool" where
  "order_ok ds \<longleftrightarrow> ds \<noteq> [] \<and> distinct (map fst ds)
     \<and> list_all (\<lambda>(i, ps). list_all (\<lambda>p. p \<in> set (map fst ds)) ps \<and> i \<notin> set ps) ds"

text \<open>What a template is, once its nodes without prose have been accepted.\<close>

definition template_of :: "template_prose \<Rightarrow> string \<Rightarrow> blueprint list \<Rightarrow> template" where
  "template_of p i nodes = \<lparr>tp_id = i, tp_name = p [] ''name'' 0, tp_description = p [] ''description'' 0,
     tp_nodes = nodes, tp_process_id = ''software_delivery''\<rparr>"

lemma mk_template_of:
  assumes "\<not> blank i" "\<And>b f n. \<not> blank (p b f n)" "order_ok (order_of nodes)"
  shows "mk_template (template_of p i nodes) = Inr (template_of p i nodes)"
proof -
  have "\<not> blank ''software_delivery''" by code_simp
  with assms show ?thesis
    by (auto simp: mk_template_def template_of_def order_ok_def order_of_def list_all_iff for_each_Inr_iff comp_def)
qed

definition plain_ok :: "blueprint list \<Rightarrow> bool" where
  "plain_ok bs \<longleftrightarrow> list_all (\<lambda>b. \<not> isl (mk_blueprint b)) bs \<and> order_ok (order_of bs)"

lemma build_template_plain:
  assumes "\<not> blank i" "\<And>b f n. \<not> blank (p b f n)" "list_all prose_ok nodes" "plain_ok (map plain nodes)"
  shows "build_template p i nodes = Inr (template_of p i nodes)"
  using assms mk_template_of [of i p nodes] mk_blueprints_plain [of nodes]
  by (simp add: build_template_def template_of_def plain_ok_def)


section \<open>Every built-in template is accepted\<close>

definition no_prose :: template_prose where
  "no_prose b f n = ''x''"

lemma built:
  assumes "\<not> blank i" "\<And>b f n. \<not> blank (p b f n)"
    and "plain_ok (map plain (nodes no_prose))" "list_all prose_ok (nodes p)"
    and "map plain (nodes p) = map plain (nodes no_prose)"
  shows "build_template p i (nodes p) = Inr (template_of p i (nodes p))"
  by (rule build_template_plain [OF assms(1,2,4)]) (simp_all add: assms(3,5))

lemmas node_texts = prose_ok_def plain_def blank_blueprint_def

lemma architecture_compact_built:
  assumes "\<And>t b f n. \<not> blank (tx t b f n)"
  shows "architecture_compact_template tx
    = Inr (template_of (tx ''architecture_compact'') ''architecture_compact'' (architecture_compact_nodes (tx ''architecture_compact'')))"
  unfolding architecture_compact_template_def
  by (rule built, code_simp, rule assms, code_simp, simp_all add: architecture_compact_nodes_def node_texts assms)

lemma architecture_parallel_built:
  assumes "\<And>t b f n. \<not> blank (tx t b f n)"
  shows "architecture_parallel_template tx
    = Inr (template_of (tx ''architecture_parallel'') ''architecture_parallel'' (architecture_parallel_nodes (tx ''architecture_parallel'')))"
  unfolding architecture_parallel_template_def
  by (rule built, code_simp, rule assms, code_simp, simp_all add: architecture_parallel_nodes_def node_texts assms)

lemma architecture_only_built:
  assumes "\<And>t b f n. \<not> blank (tx t b f n)"
  shows "architecture_only_template tx
    = Inr (template_of (tx ''architecture_only'') ''architecture_only'' (architecture_only_nodes (tx ''architecture_only'')))"
  unfolding architecture_only_template_def
  by (rule built, code_simp, rule assms, code_simp, simp_all add: architecture_only_nodes_def node_texts assms)

lemma delivery_default_built:
  assumes "\<And>t b f n. \<not> blank (tx t b f n)"
  shows "delivery_default_template tx
    = Inr (template_of (tx ''delivery_default'') ''delivery_default'' (delivery_default_nodes (tx ''delivery_default'')))"
  unfolding delivery_default_template_def
  by (rule built, code_simp, rule assms, code_simp, simp_all add: delivery_default_nodes_def node_texts assms)

lemma delivery_incremental_built:
  assumes "\<And>t b f n. \<not> blank (tx t b f n)"
  shows "delivery_incremental_template tx
    = Inr (template_of (tx ''delivery_incremental'') ''delivery_incremental'' (delivery_incremental_nodes (tx ''delivery_incremental'')))"
  unfolding delivery_incremental_template_def
  by (rule built, code_simp, rule assms, code_simp, simp_all add: delivery_incremental_nodes_def node_texts assms)

lemma project_delivery_built:
  assumes "\<And>t b f n. \<not> blank (tx t b f n)"
  shows "project_delivery_template tx
    = Inr (template_of (tx ''project_delivery'') ''project_delivery'' (project_delivery_nodes (tx ''project_delivery'')))"
  unfolding project_delivery_template_def
  by (rule built, code_simp, rule assms, code_simp, simp_all add: project_delivery_nodes_def node_texts assms)

lemma project_delivery_minimal_built:
  assumes "\<And>t b f n. \<not> blank (tx t b f n)"
  shows "project_delivery_minimal_template tx
    = Inr (template_of (tx ''project_delivery_minimal'') ''project_delivery_minimal'' (project_delivery_minimal_nodes (tx ''project_delivery_minimal'')))"
  unfolding project_delivery_minimal_template_def
  by (rule built, code_simp, rule assms, code_simp, simp_all add: project_delivery_minimal_nodes_def node_texts assms)

lemma architecture_layered_built:
  assumes "\<And>t b f n. \<not> blank (tx t b f n)"
  shows "architecture_layered_template tx
    = Inr (template_of (tx ''architecture_layered'') ''architecture_layered'' (architecture_layered_nodes (tx ''architecture_layered'')))"
  unfolding architecture_layered_template_def
  by (rule built, code_simp, rule assms, code_simp, simp_all add: architecture_layered_nodes_def layered_blueprint_def
    layered_module_def layered_implementation_def layered_closing_def layered_modules_def node_texts assms Let_def)

text \<open>The two templates that take their nodes from others.\<close>

definition architecture_l0_nodes :: "prose \<Rightarrow> blueprint list" where
  "architecture_l0_nodes tx =
     architecture_only_nodes (tx ''architecture_only'') @ [architecture_l0_contract (tx ''architecture_l0'')]"

lemma architecture_l0_built:
  assumes "\<And>t b f n. \<not> blank (tx t b f n)"
  shows "architecture_l0_template tx = Inr (template_of (tx ''architecture_l0'') ''architecture_l0'' (architecture_l0_nodes tx))"
proof -
  have "plain_ok (map plain (architecture_l0_nodes (\<lambda>_. no_prose)))" by code_simp
  moreover have "map plain (architecture_l0_nodes tx) = map plain (architecture_l0_nodes (\<lambda>_. no_prose))"
    "list_all prose_ok (architecture_l0_nodes tx)"
    by (simp_all add: architecture_l0_nodes_def architecture_l0_contract_def architecture_only_nodes_def node_texts assms)
  moreover have "\<not> blank ''architecture_l0''" by code_simp
  ultimately have "build_template (tx ''architecture_l0'') ''architecture_l0'' (architecture_l0_nodes tx)
      = Inr (template_of (tx ''architecture_l0'') ''architecture_l0'' (architecture_l0_nodes tx))"
    by (intro build_template_plain) (simp_all add: assms)
  then show ?thesis
    by (simp add: architecture_l0_template_def architecture_only_built [OF assms] architecture_l0_nodes_def template_of_def)
qed

definition project_delivery_layered_nodes :: "prose \<Rightarrow> blueprint list" where
  "project_delivery_layered_nodes tx = (let p = tx ''architecture_layered'' in
     hd (project_delivery_nodes (tx ''project_delivery''))
     # copied (layered_blueprint p) [''requirement''] (bp_input_from (layered_blueprint p)) None
     # tl (architecture_layered_nodes p)
     @ map layered_downstream (kept_delivery_nodes (project_delivery_nodes (tx ''project_delivery''))))"

lemma mapE_comp: "mapE (\<lambda>b. f (g b)) xs = mapE f (map g xs)"
  by (induction xs) simp_all

lemmas layered_defs = architecture_layered_nodes_def layered_blueprint_def layered_module_def layered_implementation_def
  layered_closing_def layered_modules_def Let_def

lemma project_delivery_layered_built:
  assumes "\<And>t b f n. \<not> blank (tx t b f n)"
  shows "project_delivery_layered_template tx
    = Inr (template_of (tx ''project_delivery_layered'') ''project_delivery_layered'' (project_delivery_layered_nodes tx))"
proof -
  let ?ns = "project_delivery_layered_nodes tx"
  have plain: "plain_ok (map plain (project_delivery_layered_nodes (\<lambda>_. no_prose)))" by code_simp
  have kept: "kept_delivery_nodes (project_delivery_nodes p) = drop 3 (project_delivery_nodes p)" for p
    by (simp add: kept_delivery_nodes_def project_delivery_nodes_def blank_blueprint_def)
  have texts: "map plain ?ns = map plain (project_delivery_layered_nodes (\<lambda>_. no_prose))"
    "list_all prose_ok ?ns"
    unfolding project_delivery_layered_nodes_def kept
    by (simp_all add: layered_defs project_delivery_nodes_def copied_def
      layered_downstream_def layered_order_def layered_name_def node_texts assms)
  have all: "mapE mk_blueprint ?ns = Inr ?ns"
    by (rule mk_blueprints_plain [OF texts(2)]) (use plain in \<open>simp add: texts(1) plain_ok_def\<close>)
  have "\<not> blank ''project_delivery_layered''" by code_simp
  then have t: "mk_template (template_of (tx ''project_delivery_layered'') ''project_delivery_layered'' ?ns)
      = Inr (template_of (tx ''project_delivery_layered'') ''project_delivery_layered'' ?ns)"
    using plain texts(1) order_of_plain [of ?ns] by (intro mk_template_of) (simp_all add: assms plain_ok_def)
  obtain r rest b bs where base: "project_delivery_nodes (tx ''project_delivery'') = r # rest" "bp_id r = ''requirement''"
    and layered: "architecture_layered_nodes (tx ''architecture_layered'') = b # bs"
      "b = layered_blueprint (tx ''architecture_layered'')"
    by (simp add: project_delivery_nodes_def layered_defs blank_blueprint_def)
  have ns: "?ns = r # copied b [''requirement''] (bp_input_from b) None # bs
      @ map layered_downstream (kept_delivery_nodes (r # rest))"
    by (simp add: project_delivery_layered_nodes_def base layered Let_def)
  have "mk_blueprint (copied b [''requirement''] (bp_input_from b) None) = Inr (copied b [''requirement''] (bp_input_from b) None)"
    "mapE mk_blueprint (map layered_downstream (kept_delivery_nodes (r # rest)))
      = Inr (map layered_downstream (kept_delivery_nodes (r # rest)))"
    using all unfolding ns mk_blueprints_iff by simp_all
  then show ?thesis
    using t unfolding ns
    by (simp add: project_delivery_layered_template_def architecture_layered_built [OF assms] project_delivery_built [OF assms]
      template_of_def Let_def base layered(1) mapE_comp [of mk_blueprint layered_downstream])
qed


section \<open>The installed registry\<close>

lemma template_of_id [simp]: "tp_id (template_of p i nodes) = i" "tp_nodes (template_of p i nodes) = nodes"
  by (simp_all add: template_of_def)

text \<open>What the installation leaves to new projects: the deprecated deliveries other than \<open>project_delivery\<close> stay active.\<close>

definition installed :: "prose \<Rightarrow> template_registry \<Rightarrow> bool" where
  "installed tx g \<longleftrightarrow> install_templates tx = Inr g
     \<and> dict_keys (wg_records g) = [''architecture_compact'', ''architecture_parallel'', ''architecture_layered'',
         ''delivery_default'', ''delivery_incremental'', ''architecture_only'', ''architecture_l0'',
         ''project_delivery'', ''project_delivery_layered'', ''project_delivery_minimal'']
     \<and> map tp_id (active_templates g) = [''architecture_compact'', ''architecture_parallel'', ''architecture_layered'',
         ''delivery_default'', ''delivery_incremental'', ''architecture_only'', ''architecture_l0'',
         ''project_delivery_layered'', ''project_delivery_minimal'']
     \<and> map_sum id (map_option tp_id) (default_template g) = Inr (Some ''delivery_default'')"

text \<open>Whatever the prose of the templates says, as long as no text is blank, the program can install its built-in
  templates: every constructor accepts its fields, every registration is free of conflicts, and the default of a new
  project is \<open>delivery_default\<close>.\<close>

theorem builtin_templates_install:
  assumes "\<And>t b f n. \<not> blank (tx t b f n)"
  shows "\<exists>g. installed tx g"
proof -
  have v: "\<not> blank ''v1''" by code_simp
  show ?thesis
    unfolding installed_def install_templates_def registrations_def
    by (simp add: architecture_compact_built architecture_parallel_built architecture_layered_built
      delivery_default_built delivery_incremental_built architecture_only_built architecture_l0_built
      project_delivery_built project_delivery_layered_built project_delivery_minimal_built assms v
      register_template_def new_templates_def active_templates_def default_template_def Let_def)
qed

theorem builtin_templates_install_witness:
  "\<exists>g. installed (\<lambda>_. no_prose) g"
proof -
  have "\<not> blank (no_prose b f n)" for b f n unfolding no_prose_def by code_simp
  then show ?thesis by (rule builtin_templates_install)
qed


section \<open>The order of a delivery\<close>

text \<open>Every other node comes, directly or not, before the closing node.\<close>

definition closing :: "(string \<times> string list) list \<Rightarrow> string \<Rightarrow> bool" where
  "closing ds i \<longleftrightarrow> list_all (\<lambda>j. j = i \<or> awaits ds j [] [i]) (map fst ds)"

lemma compiled_order:
  assumes "list_all2 (grants_of ids template_id) bs items"
    and "(c, d) \<in> (waits (order_of bs))\<^sup>+" "dict_get ids c = Some i"
  shows "\<exists>j. dict_get ids d = Some j \<and> (j, i) \<in> (dep_edges items)\<^sup>+"
proof -
  have edge: "\<exists>k. dict_get ids e = Some k \<and> (k, j) \<in> dep_edges items"
    if de: "(d, e) \<in> waits (order_of bs)" and dj: "dict_get ids d = Some j" for d e j
  proof -
    obtain b where b: "b \<in> set bs" "bp_id b = d" "e \<in> set (bp_depends_on b)"
    proof -
      have "e \<in> set (direct_of (order_of bs) d)" using de by (simp add: waits_def)
      then obtain ps where "(d, ps) \<in> set (order_of bs)" "e \<in> set ps"
        by (cases "dict_get (order_of bs) d") (auto simp: direct_of_def dest: map_of_SomeD)
      then show thesis using that by (auto simp: order_of_def)
    qed
    obtain v where v: "v \<in> set items" "grants_of ids template_id b v" using list_all2_member1 [OF assms(1) b(1)] by blast
    have "dict_get ids e \<in> Some ` set (wi_dependency_ids v)"
      using v(2) b(3) unfolding grants_of_def by (metis (no_types, lifting) image_eqI list.set_map)
    moreover have "wi_id v = j" using v(2) b(2) dj by (simp add: grants_of_def)
    ultimately show ?thesis using v(1) by (auto simp: dep_edges_def)
  qed
  from assms(2) show ?thesis
  proof (induction rule: trancl_induct)
    case (base d)
    then show ?case using edge [OF _ assms(3)] by blast
  next
    case (step d e)
    then show ?case using edge by (blast intro: trancl_into_trancl2)
  qed
qed

lemma closing_item_last:
  assumes "compile_template sha t goal plan_id trace keys = Inr p" "closing (order_of (tp_nodes t)) i"
    and "run_from (new_run p) s" "w \<in> set (ready_items s)" "dict_get (node_ids t) i = Some (wi_id w)"
    and "v \<in> set (pl_work_items p)" "v \<noteq> w"
  shows "is_completed (rs_results s) (wi_id v)"
proof -
  have "plan_ok sha p" and l: "list_all2 (grants_of (node_ids t) (tp_id t)) (tp_nodes t) (pl_work_items p)"
    using compiled_template_grants [OF assms(1)] by simp_all
  then have ids: "distinct (map wi_id (pl_work_items p))" by (auto simp: plan_ok_def dest: mk_plan_checks(2))
  have plan: "rs_plan s = p" using run_from_plan [OF assms(3)] by (simp add: new_run_def)
  have ok: "run_ok s" by (rule run_from_ok [OF assms(3) new_run_ok]) (simp add: new_run_def ids)
  from assms(4) plan have w: "w \<in> set (pl_work_items p)" "list_all (is_completed (rs_results s)) (wi_dependency_ids w)"
    by (simp_all add: ready_item_facts)
  obtain b where b: "b \<in> set (tp_nodes t)" "dict_get (node_ids t) (bp_id b) = Some (wi_id v)"
    using list_all2_member2 [OF l assms(6)] by (auto simp: grants_of_def)
  have "bp_id b \<noteq> i" using b(2) assms(5,6,7) w(1) ids by (auto simp: distinct_map dest: inj_onD)
  moreover have "bp_id b \<in> set (map fst (order_of (tp_nodes t)))" using b(1) by (simp add: order_of_def comp_def)
  ultimately have "awaits (order_of (tp_nodes t)) (bp_id b) [] [i]"
    using assms(2) unfolding closing_def list_all_iff by blast
  then have "(i, bp_id b) \<in> (waits (order_of (tp_nodes t)))\<^sup>+" by (rule awaits_trancl [THEN iffD1])
  then have before: "(wi_id v, wi_id w) \<in> (dep_edges (pl_work_items p))\<^sup>+"
    using compiled_order [OF l _ assms(5), of "bp_id b"] b(2) by simp
  show ?thesis
    by (rule deps_closed_trancl [OF _ ids before w(1) refl w(2)]) (use ok plan in \<open>simp add: run_ok_def\<close>)
qed

definition delivery_templates :: "prose \<Rightarrow> template result list" where
  "delivery_templates tx =
     [delivery_default_template tx, delivery_incremental_template tx, project_delivery_template tx,
      project_delivery_layered_template tx, project_delivery_minimal_template tx]"

definition delivery_nodes :: "prose \<Rightarrow> blueprint list list" where
  "delivery_nodes tx =
     [delivery_default_nodes (tx ''delivery_default''), delivery_incremental_nodes (tx ''delivery_incremental''),
      project_delivery_nodes (tx ''project_delivery''), project_delivery_layered_nodes tx,
      project_delivery_minimal_nodes (tx ''project_delivery_minimal'')]"

lemma delivery_orders: "map order_of (delivery_nodes tx) = map order_of (delivery_nodes (\<lambda>_. no_prose))"
proof -
  have kept: "kept_delivery_nodes (project_delivery_nodes p) = drop 3 (project_delivery_nodes p)" for p
    by (simp add: kept_delivery_nodes_def project_delivery_nodes_def blank_blueprint_def)
  show ?thesis
    unfolding delivery_nodes_def project_delivery_layered_nodes_def kept
    by (simp add: delivery_default_nodes_def delivery_incremental_nodes_def project_delivery_nodes_def layered_defs
      project_delivery_minimal_nodes_def layered_downstream_def layered_order_def copied_def order_of_def blank_blueprint_def)
qed

lemma deliveries_close: "bs \<in> set (delivery_nodes tx) \<Longrightarrow> closing (order_of bs) ''review''"
proof -
  have "list_all (\<lambda>ds. closing ds ''review'') (map order_of (delivery_nodes (\<lambda>_. no_prose)))" by code_simp
  then show "bs \<in> set (delivery_nodes tx) \<Longrightarrow> closing (order_of bs) ''review''"
    unfolding delivery_orders [of tx, symmetric] by (simp add: list_all_iff)
qed

text \<open>C36. The review closes every delivery: whatever delivery template a run was compiled from, the review becomes ready
  only when every other item of the plan has completed.\<close>

theorem review_comes_last:
  assumes "\<And>t b f n. \<not> blank (tx t b f n)" "Inr t \<in> set (delivery_templates tx)"
    and "compile_template sha t goal plan_id trace keys = Inr p" "run_from (new_run p) s"
    and "w \<in> set (ready_items s)" "dict_get (node_ids t) ''review'' = Some (wi_id w)"
    and "v \<in> set (pl_work_items p)" "v \<noteq> w"
  shows "is_completed (rs_results s) (wi_id v)"
proof (rule closing_item_last [OF assms(3) _ assms(4-8)])
  have "tp_nodes t \<in> set (delivery_nodes tx)"
    using assms(2) unfolding delivery_templates_def delivery_nodes_def
    by (auto simp: delivery_default_built delivery_incremental_built project_delivery_built
      project_delivery_layered_built project_delivery_minimal_built assms(1))
  then show "closing (order_of (tp_nodes t)) ''review''" by (rule deliveries_close)
qed


definition template_keys :: "template \<Rightarrow> (string, string) dict" where
  "template_keys t = map (\<lambda>b. (bp_agent_id b, bp_agent_id b)) (tp_nodes t)"

definition inc_template :: template where
  "inc_template = template_of no_prose ''delivery_incremental'' (delivery_incremental_nodes no_prose)"

definition inc_plan :: plan where
  "inc_plan = projr (compile_template demo_sha inc_template ''ship'' ''p-1'' demo_trace (template_keys inc_template))"

lemma inc_plan_eq: "compile_template demo_sha inc_template ''ship'' ''p-1'' demo_trace (template_keys inc_template) = Inr inc_plan"
proof -
  have "\<not> isl (compile_template demo_sha inc_template ''ship'' ''p-1'' demo_trace (template_keys inc_template))" by code_simp
  then show ?thesis by (simp add: inc_plan_def sum.collapse)
qed

definition complete_ready :: "work_item \<Rightarrow> run_state \<Rightarrow> run_state" where
  "complete_ready w s = (if w \<in> set (ready_items s) \<and> \<not> blank (wi_id w) then demo_record_done w s else s)"

lemma complete_ready_run: "run_from s0 s \<Longrightarrow> run_from s0 (fold complete_ready ws s)"
proof (induction ws arbitrary: s)
  case (Cons w ws)
  have "run_from s0 (complete_ready w s)"
  proof (cases "w \<in> set (ready_items s) \<and> \<not> blank (wi_id w)")
    case True
    then have "record_result w (demo_done w) s = Inr (demo_record_done w s)"
      by (intro demo_record_ok) (simp_all add: ready_item_facts map_of_None_key)
    then have "exec_step s (demo_record_done w s)" using True by (blast intro: execute)
    then show ?thesis using True Cons.prems by (auto simp: complete_ready_def intro: run_on)
  qed (auto simp: complete_ready_def Cons.prems)
  then show ?case using Cons.IH by simp
qed simp

definition inc_run :: run_state where
  "inc_run = fold complete_ready (butlast (pl_work_items inc_plan)) (new_run inc_plan)"

theorem review_comes_last_witness:
  "is_completed (rs_results inc_run) (wi_id (hd (pl_work_items inc_plan)))"
proof (rule review_comes_last [of "\<lambda>_. no_prose" inc_template demo_sha])
  show "\<not> blank (no_prose b f n)" for b f n unfolding no_prose_def by code_simp
  then show "Inr inc_template \<in> set (delivery_templates (\<lambda>_. no_prose))"
    by (simp add: delivery_templates_def delivery_incremental_built inc_template_def)
  show "compile_template demo_sha inc_template ''ship'' ''p-1'' demo_trace (template_keys inc_template) = Inr inc_plan"
    by (rule inc_plan_eq)
  show "run_from (new_run inc_plan) inc_run" unfolding inc_run_def by (rule complete_ready_run [OF run_here])
  show "last (pl_work_items inc_plan) \<in> set (ready_items inc_run)" by code_simp
  show "dict_get (node_ids inc_template) ''review'' = Some (wi_id (last (pl_work_items inc_plan)))" by code_simp
  show "hd (pl_work_items inc_plan) \<in> set (pl_work_items inc_plan)" by code_simp
  show "hd (pl_work_items inc_plan) \<noteq> last (pl_work_items inc_plan)" by code_simp
qed

text \<open>With a placeholder for every text, the active templates compile. (The layered project delivery, the largest of
  them, is left out: its evaluation takes minutes.)\<close>

definition compiles :: "template result \<Rightarrow> bool" where
  "compiles r \<longleftrightarrow> \<not> isl (bindE r (\<lambda>t. compile_template demo_sha t ''ship'' ''p-1'' demo_trace (template_keys t)))"

lemma architecture_templates_compile:
  "compiles (architecture_compact_template (\<lambda>_. no_prose))"
  "compiles (architecture_parallel_template (\<lambda>_. no_prose))"
  "compiles (architecture_only_template (\<lambda>_. no_prose))"
  "compiles (architecture_l0_template (\<lambda>_. no_prose))"
  by code_simp+

lemma delivery_templates_compile:
  "compiles (delivery_default_template (\<lambda>_. no_prose))"
  "compiles (delivery_incremental_template (\<lambda>_. no_prose))"
  "compiles (project_delivery_minimal_template (\<lambda>_. no_prose))"
  by code_simp+

end
