(* ===== verification/Command_Check.thy ===== *)
theory Command_Check
  imports Artifacts
begin

text \<open>
  \<^verbatim>\<open>app/runtime/command_validator.py\<close>: which start command a project contract may give. The regular expression of
  the validator is matched by reading the command from the left; that is what the backtracking matcher does on a
  stripped command, because every repetition of the pattern is followed by a character outside its class.
\<close>

section \<open>The pattern\<close>

datatype validation = Valid | Invalid string

definition shell_chars :: string where
  "shell_chars = [CHR '';'', CHR ''|'', CHR ''&'', CHR ''$'', CHR 0x60, CHR 0x5C, CHR ''('', CHR '')'', CHR ''{'',
     CHR ''}'', CHR ''['', CHR '']'', CHR ''<'', CHR ''>'', CHR 0x0A, CHR 0x0D]"

definition path_char :: "char \<Rightarrow> bool" where
  "path_char c \<longleftrightarrow> is_alnum c \<or> c \<in> set ''_/.:,-''"

definition module_char :: "char \<Rightarrow> bool" where
  "module_char c \<longleftrightarrow> is_alnum c \<or> c \<in> set ''_.-''"

definition argument_char :: "char \<Rightarrow> bool" where
  "argument_char c \<longleftrightarrow> is_alnum c \<or> c \<in> set ''_.,=:/-'' \<or> is_space c"

text \<open>\<open>\s+\<close>: at least one white space; the rest after all of it.\<close>

definition after_spaces :: "string \<Rightarrow> string option" where
  "after_spaces s = (case s of [] \<Rightarrow> None | c # _ \<Rightarrow> if is_space c then Some (dropWhile is_space s) else None)"

text \<open>\<open>(?:PYTHONPATH=(?P<pythonpath>...)\s+)?\<close>\<close>

definition match_pythonpath :: "string \<Rightarrow> (string option \<times> string) option" where
  "match_pythonpath s =
     (if prefix ''PYTHONPATH='' s
      then let r = drop 11 s; v = takeWhile path_char r in
        (if v = [] then None
         else map_option (\<lambda>rest. (Some v, rest)) (after_spaces (dropWhile path_char r)))
      else Some (None, s))"

text \<open>\<open>python(?:3(?:\.\d+)?)?\<close>\<close>

definition match_python :: "string \<Rightarrow> string option" where
  "match_python s =
     (if \<not> prefix ''python'' s then None
      else let r = drop 6 s in
        (case r of
           c # r1 \<Rightarrow> if c \<noteq> CHR ''3'' then Some r
             else (case r1 of
                 d # e # r2 \<Rightarrow> if d = CHR ''.'' \<and> is_digit e then Some (dropWhile is_digit r2) else Some r1
               | _ \<Rightarrow> Some r1)
         | [] \<Rightarrow> Some r))"

text \<open>\<open>-m\s+(?P<module>...)(?:\s+(?P<args>...))?$\<close>\<close>

definition match_module :: "string \<Rightarrow> (string \<times> string option) option" where
  "match_module s =
     (if \<not> prefix ''-m'' s then None
      else Option.bind (after_spaces (drop 2 s)) (\<lambda>r.
        let module = takeWhile module_char r; rest = dropWhile module_char r in
        if module = [] then None
        else if rest = [] then Some (module, None)
        else Option.bind (after_spaces rest) (\<lambda>args.
          if args \<noteq> [] \<and> list_all argument_char args then Some (module, Some args) else None)))"

definition match_command :: "string \<Rightarrow> (string option \<times> string \<times> string option) option" where
  "match_command s =
     Option.bind (match_pythonpath s) (\<lambda>(pythonpath, r).
     Option.bind (match_python r) (\<lambda>r.
     Option.bind (after_spaces r) (\<lambda>r.
     map_option (\<lambda>(module, args). (pythonpath, module, args)) (match_module r))))"

section \<open>The validator\<close>

definition entry_char :: "char \<Rightarrow> bool" where
  "entry_char c \<longleftrightarrow> is_alnum c \<or> c \<in> set ''_/.-''"

definition validate_pythonpath :: "string \<Rightarrow> bool" where
  "validate_pythonpath v \<longleftrightarrow> v \<noteq> [] \<and> list_all (\<lambda>p. \<not> blank p \<and> \<not> prefix ''/'' p \<and> \<not> sublist ''..'' p
     \<and> p \<noteq> [] \<and> list_all entry_char p) (split_on (CHR '':'') v)"

definition validate_module_name :: "string \<Rightarrow> bool" where
  "validate_module_name m \<longleftrightarrow> (case m of [] \<Rightarrow> False
     | c # r \<Rightarrow> (is_alnum c \<and> \<not> is_digit c \<or> c = CHR ''_'') \<and> list_all (\<lambda>d. is_alnum d \<or> d \<in> set ''_.'') r)
     \<and> \<not> prefix ''.'' m \<and> \<not> suffix ''.'' m \<and> \<not> sublist ''..'' m"

definition validate_args :: "string \<Rightarrow> bool" where
  "validate_args a \<longleftrightarrow> a = [] \<or> list_all argument_char a"

definition validate_command :: "string \<Rightarrow> validation" where
  "validate_command command =
     (if blank command then Invalid ''empty''
      else if list_ex (\<lambda>c. c \<in> set command) shell_chars then Invalid ''unsafe character''
      else (case match_command (py_strip command) of
          None \<Rightarrow> Invalid ''format''
        | Some (pythonpath, module, args) \<Rightarrow>
            if (case pythonpath of None \<Rightarrow> False | Some v \<Rightarrow> \<not> validate_pythonpath v) then Invalid ''PYTHONPATH''
            else if \<not> validate_module_name module then Invalid ''module''
            else if (case args of None \<Rightarrow> False | Some a \<Rightarrow> \<not> validate_args a) then Invalid ''arguments''
            else Valid))"

end
