(* ===== verification/Command_Laws.thy ===== *)
theory Command_Laws
  imports Command_Check
begin

text \<open>
  The validator of start commands decides a grammar: \<open>command_form\<close> reads the regular expression of the code as the
  choice of the pieces of a command, with no order of matching, and the scanner accepts a command exactly when it
  has such pieces.
\<close>

section \<open>The grammar\<close>

definition spaces :: "string \<Rightarrow> bool" where
  "spaces s \<longleftrightarrow> s \<noteq> [] \<and> list_all is_space s"

definition python_word :: "string \<Rightarrow> bool" where
  "python_word p \<longleftrightarrow> p = ''python'' \<or> p = ''python3''
     \<or> (\<exists>ds. ds \<noteq> [] \<and> list_all is_digit ds \<and> p = ''python3.'' @ ds)"

definition pythonpath_form :: "string option \<Rightarrow> string \<Rightarrow> bool" where
  "pythonpath_form v env \<longleftrightarrow> (case v of None \<Rightarrow> env = []
     | Some p \<Rightarrow> \<exists>s. p \<noteq> [] \<and> list_all path_char p \<and> spaces s \<and> env = ''PYTHONPATH='' @ p @ s)"

definition arguments_form :: "string option \<Rightarrow> string \<Rightarrow> bool" where
  "arguments_form v tail \<longleftrightarrow> (case v of None \<Rightarrow> tail = []
     | Some a \<Rightarrow> \<exists>s. a \<noteq> [] \<and> list_all argument_char a \<and> spaces s \<and> tail = s @ a)"

definition command_form :: "string \<Rightarrow> string option \<Rightarrow> string \<Rightarrow> string option \<Rightarrow> bool" where
  "command_form c pythonpath module args \<longleftrightarrow> (\<exists>env py s1 s2 tail.
     c = env @ py @ s1 @ ''-m'' @ s2 @ module @ tail \<and> pythonpath_form pythonpath env \<and> python_word py
     \<and> spaces s1 \<and> spaces s2 \<and> module \<noteq> [] \<and> list_all module_char module \<and> arguments_form args tail)"

section \<open>Pieces of the scanner\<close>

text \<open>A scan ends where the next character is outside the class.\<close>

definition stops :: "(char \<Rightarrow> bool) \<Rightarrow> string \<Rightarrow> bool" where
  "stops P r \<longleftrightarrow> (case r of [] \<Rightarrow> True | c # _ \<Rightarrow> \<not> P c)"

lemma stops_drop [simp]: "stops P (dropWhile P s)"
  by (induction s) (auto simp: stops_def)

lemma take_scan: "list_all P p \<Longrightarrow> stops P r \<Longrightarrow> takeWhile P (p @ r) = p"
  by (cases r) (auto simp: stops_def list_all_iff takeWhile_append)

lemma drop_scan: "list_all P p \<Longrightarrow> stops P r \<Longrightarrow> dropWhile P (p @ r) = r"
  by (cases r) (auto simp: stops_def list_all_iff dropWhile_append)

lemma list_all_takeWhile [simp]: "list_all P (takeWhile P s)"
  by (auto simp: list_all_iff dest: set_takeWhileD)

lemma after_spaces_iff: "after_spaces s = Some r \<longleftrightarrow> (\<exists>sp. spaces sp \<and> s = sp @ r \<and> stops is_space r)"
proof
  assume "after_spaces s = Some r"
  then have "s \<noteq> []" "is_space (hd s)" and r: "r = dropWhile is_space s"
    by (auto simp: after_spaces_def split: list.splits if_splits)
  then have "spaces (takeWhile is_space s)" by (cases s) (auto simp: spaces_def)
  then show "\<exists>sp. spaces sp \<and> s = sp @ r \<and> stops is_space r"
    unfolding r by (metis stops_drop takeWhile_dropWhile_id)
next
  assume "\<exists>sp. spaces sp \<and> s = sp @ r \<and> stops is_space r"
  then obtain sp where sp: "spaces sp" "s = sp @ r" "stops is_space r" by blast
  then obtain c sp' where "sp = c # sp'" by (cases sp) (auto simp: spaces_def)
  with sp show "after_spaces s = Some r"
    by (auto simp: after_spaces_def spaces_def drop_scan)
qed

lemma spaces_stop: "spaces sp \<Longrightarrow> (\<And>c. P c \<Longrightarrow> \<not> is_space c) \<Longrightarrow> stops P (sp @ r)"
  by (cases sp) (auto simp: spaces_def stops_def)

section \<open>The scanner is sound and complete for the grammar\<close>

lemma space_classes:
  assumes "is_space c"
  shows "\<not> path_char c" "\<not> module_char c" "c \<noteq> CHR ''3''" "c \<noteq> CHR ''.''" "\<not> is_digit c" "c \<noteq> CHR ''-''"
proof -
  have n: "(of_char c :: nat) \<in> {9, 10, 11, 12, 13, 28, 29, 30, 31, 32, 133, 160}"
    using assms by (auto simp: is_space_def Let_def)
  then show "\<not> path_char c" "\<not> module_char c" "c \<noteq> CHR ''3''" "c \<noteq> CHR ''.''" "\<not> is_digit c" "c \<noteq> CHR ''-''"
    by (auto simp: path_char_def module_char_def is_alnum_def is_digit_def Let_def)
qed

lemma match_pythonpath_sound:
  assumes "match_pythonpath s = Some (v, r)"
  shows "\<exists>env. s = env @ r \<and> pythonpath_form v env"
proof (cases "prefix ''PYTHONPATH='' s")
  case True
  then obtain t where t: "s = ''PYTHONPATH='' @ t" by (auto elim: prefixE)
  with assms have v: "v = Some (takeWhile path_char t)" "takeWhile path_char t \<noteq> []"
    and "after_spaces (dropWhile path_char t) = Some r"
    by (auto simp: match_pythonpath_def Let_def split: if_splits)
  then obtain sp where "spaces sp" "dropWhile path_char t = sp @ r" by (auto simp: after_spaces_iff)
  then have "s = (''PYTHONPATH='' @ takeWhile path_char t @ sp) @ r"
    using t takeWhile_dropWhile_id [of path_char t] by simp
  with v \<open>spaces sp\<close> show ?thesis by (fastforce simp: pythonpath_form_def)
qed (use assms in \<open>auto simp: match_pythonpath_def pythonpath_form_def\<close>)

lemma python_not_pythonpath: "python_word p \<Longrightarrow> \<not> prefix ''PYTHONPATH='' (p @ r)"
  by (auto simp: python_word_def)

lemma match_pythonpath_complete:
  assumes "pythonpath_form v env" "python_word p"
  shows "match_pythonpath (env @ p @ r) = Some (v, p @ r)"
proof (cases v)
  case None
  with assms show ?thesis by (simp add: pythonpath_form_def match_pythonpath_def python_not_pythonpath)
next
  case (Some q)
  with assms obtain s where s: "q \<noteq> []" "list_all path_char q" "spaces s" "env = ''PYTHONPATH='' @ q @ s"
    by (auto simp: pythonpath_form_def)
  have stop: "stops path_char (s @ p @ r)" using s(3) by (rule spaces_stop) (auto dest: space_classes)
  have "stops is_space (p @ r)" using assms(2) by (auto simp: python_word_def stops_def is_space_def)
  then have "after_spaces (s @ p @ r) = Some (p @ r)" using s(3) by (auto simp: after_spaces_iff)
  with s Some stop show ?thesis by (simp add: match_pythonpath_def take_scan drop_scan Let_def)
qed

lemma match_python_sound:
  assumes "match_python s = Some r"
  shows "\<exists>p. s = p @ r \<and> python_word p"
proof -
  from assms obtain t where t: "s = ''python'' @ t" by (auto simp: match_python_def elim: prefixE split: if_splits)
  show ?thesis
  proof (cases "\<exists>d e u. t = CHR ''3'' # d # e # u \<and> d = CHR ''.'' \<and> is_digit e")
    case True
    then obtain e u where u: "t = CHR ''3'' # CHR ''.'' # e # u" "is_digit e" by blast
    then have r: "r = dropWhile is_digit u" using assms t by (simp add: match_python_def)
    have "s = (''python3.'' @ e # takeWhile is_digit u) @ r" by (simp add: t u r)
    moreover have "python_word (''python3.'' @ e # takeWhile is_digit u)"
      unfolding python_word_def using u by (intro disjI2 exI [of _ "e # takeWhile is_digit u"]) auto
    ultimately show ?thesis by blast
  next
    case False
    then consider "r = t" | "t = CHR ''3'' # r"
      using assms t by (auto simp: match_python_def Let_def split: list.splits if_splits)
    then show ?thesis by cases (use t in \<open>auto simp: python_word_def intro: exI [of _ "''python''"] exI [of _ "''python3''"]\<close>)
  qed
qed

lemma match_python_complete:
  assumes "python_word p" "spaces s"
  shows "match_python (p @ s @ r) = Some (s @ r)"
proof -
  obtain c s' where s: "s = c # s'" "is_space c" using assms(2) by (cases s) (auto simp: spaces_def)
  consider "p = ''python''" | "p = ''python3''" | d ds where "is_digit d" "list_all is_digit ds" "p = ''python3.'' @ d # ds"
    using assms(1) by (auto simp: python_word_def neq_Nil_conv)
  then show ?thesis
  proof cases
    case 3
    have "stops is_digit (s @ r)" using assms(2) by (rule spaces_stop) (auto dest: space_classes)
    with 3 show ?thesis by (simp add: match_python_def drop_scan)
  qed (use s space_classes [of c] in \<open>auto simp: match_python_def split: list.splits\<close>)
qed

lemma match_module_sound:
  assumes "match_module s = Some (m, a)"
  shows "\<exists>s2 tail. s = ''-m'' @ s2 @ m @ tail \<and> spaces s2 \<and> m \<noteq> [] \<and> list_all module_char m \<and> arguments_form a tail"
proof -
  from assms obtain t r where t: "s = ''-m'' @ t" and r: "after_spaces t = Some r"
    by (auto simp: match_module_def bind_eq_Some_conv elim!: prefixE split: if_splits)
  obtain s2 where s2: "spaces s2" "t = s2 @ r" using r by (auto simp: after_spaces_iff)
  define tail where "tail = dropWhile module_char r"
  have m: "m = takeWhile module_char r" "m \<noteq> []"
    and a: "tail = [] \<and> a = None \<or> (\<exists>x. after_spaces tail = Some x \<and> x \<noteq> [] \<and> list_all argument_char x \<and> a = Some x)"
    using assms r t by (auto simp: match_module_def tail_def Let_def bind_eq_Some_conv split: if_splits)
  have "arguments_form a tail" using a by (auto simp: arguments_form_def after_spaces_iff)
  moreover have "s = ''-m'' @ s2 @ m @ tail" by (simp add: t s2 m tail_def)
  ultimately show ?thesis using s2(1) m by (metis list_all_takeWhile)
qed

lemma match_module_complete:
  assumes "spaces s2" "m \<noteq> []" "list_all module_char m" "arguments_form a tail"
    and stripped: "tail = [] \<or> \<not> is_space (last tail)"
  shows "\<exists>a'. match_module (''-m'' @ s2 @ m @ tail) = Some (m, a') \<and> (\<forall>x. a' = Some x \<longrightarrow> list_all argument_char x)"
proof -
  have stop: "stops module_char tail"
    using assms(4) spaces_stop [of _ module_char] space_classes(2)
    by (cases a) (auto simp: arguments_form_def stops_def)
  have "stops is_space (m @ tail)"
    using assms(2,3) space_classes(2) by (cases m) (auto simp: stops_def)
  then have as: "after_spaces (s2 @ m @ tail) = Some (m @ tail)" using assms(1) by (auto simp: after_spaces_iff)
  have scan: "takeWhile module_char (m @ tail) = m" "dropWhile module_char (m @ tail) = tail"
    using assms(3) stop by (auto simp: take_scan drop_scan)
  show ?thesis
  proof (cases a)
    case None
    then have "tail = []" using assms(4) by (simp add: arguments_form_def)
    then have "takeWhile module_char m = m" "dropWhile module_char m = []" using scan by simp_all
    with \<open>tail = []\<close> as assms(2) show ?thesis by (simp only: append_Nil2) (simp add: match_module_def Let_def del: takeWhile_eq_all_conv dropWhile_eq_Nil_conv)
  next
    case (Some x)
    with assms(4) obtain s3 where s3: "x \<noteq> []" "list_all argument_char x" "spaces s3" "tail = s3 @ x"
      by (auto simp: arguments_form_def)
    define y where "y = dropWhile is_space x"
    have tx: "takeWhile is_space x @ y = x" by (simp add: y_def)
    have "after_spaces tail = Some y"
      unfolding after_spaces_iff s3(4)
      by (rule exI [of _ "s3 @ takeWhile is_space x"]) (use s3(3) tx in \<open>auto simp: spaces_def y_def\<close>)
    moreover have "y \<noteq> []"
      using stripped s3 by (auto simp: y_def dropWhile_eq_Nil_conv)
    moreover have "list_all argument_char y"
      using s3(2) by (auto simp: y_def list_all_iff dest: set_dropWhileD)
    ultimately show ?thesis
      using assms(2) as scan s3(3,4) by (auto simp: match_module_def spaces_def Let_def)
  qed
qed

lemma match_command_sound:
  assumes "match_command c = Some (v, m, a)"
  shows "command_form c v m a"
proof -
  from assms obtain r1 r2 r3 where h: "match_pythonpath c = Some (v, r1)" "match_python r1 = Some r2"
      "after_spaces r2 = Some r3" "match_module r3 = Some (m, a)"
    by (auto simp: match_command_def bind_eq_Some_conv)
  obtain env where e: "c = env @ r1" "pythonpath_form v env" using match_pythonpath_sound [OF h(1)] by blast
  obtain p where p: "r1 = p @ r2" "python_word p" using match_python_sound [OF h(2)] by blast
  obtain s1 where s1: "r2 = s1 @ r3" "spaces s1" using h(3) by (auto simp: after_spaces_iff)
  show ?thesis
    using match_module_sound [OF h(4)] e p s1 unfolding command_form_def by (elim exE conjE) (metis append_assoc)
qed

lemma match_command_complete:
  assumes "command_form c v m a" "\<not> is_space (last c)"
  shows "\<exists>a'. match_command c = Some (v, m, a') \<and> (\<forall>x. a' = Some x \<longrightarrow> list_all argument_char x)"
proof -
  from assms(1) obtain env py s1 s2 tail where h: "c = env @ py @ s1 @ ''-m'' @ s2 @ m @ tail"
      "pythonpath_form v env" "python_word py" "spaces s1" "spaces s2" "m \<noteq> []" "list_all module_char m"
      "arguments_form a tail"
    by (auto simp: command_form_def)
  have "tail = [] \<or> \<not> is_space (last tail)" using assms(2) h(1) by (cases tail) auto
  from match_module_complete [OF h(5-8) this] obtain a' where
    a': "match_module (''-m'' @ s2 @ m @ tail) = Some (m, a')" "\<forall>x. a' = Some x \<longrightarrow> list_all argument_char x" by blast
  have "stops is_space (''-m'' @ s2 @ m @ tail)" by (simp add: stops_def is_space_def)
  then have "after_spaces (s1 @ ''-m'' @ s2 @ m @ tail) = Some (''-m'' @ s2 @ m @ tail)"
    using h(4) by (auto simp: after_spaces_iff)
  with a' show ?thesis
    by (simp add: match_command_def h(1) match_pythonpath_complete [OF h(2,3)] match_python_complete [OF h(3,4)])
qed

lemma strip_last: "py_strip c \<noteq> [] \<Longrightarrow> \<not> is_space (last (py_strip c))"
proof -
  assume ne: "py_strip c \<noteq> []"
  define r where "r = dropWhile is_space (rev (dropWhile is_space c))"
  have "py_strip c = rev r" by (simp add: r_def py_strip_def py_rstrip_def py_lstrip_def)
  moreover have "stops is_space r" by (simp add: r_def)
  ultimately show ?thesis using ne by (cases r) (auto simp: stops_def)
qed


text \<open>Arguments may be paths of any file, which the documentation of the validator excludes.\<close>

lemma start_command_any_file: "validate_command ''python -m http.server --directory /etc'' = Valid"
  by code_simp

end
