(* ===== verification/Project_Contract.thy ===== *)
theory Project_Contract
  imports Run_State
begin

text \<open>
  \<^verbatim>\<open>app/domain/architecture/implementation_contract.py\<close>: the project contract between the architecture
  and the code agents (entry points, interfaces, implementation units, layers), the checks of its
  constructors, its JSON form and its store. \<open>parse_*\<close> is the class method \<open>parse\<close>, \<open>mk_*\<close> the constructor,
  \<open>*_as_dict\<close> the method \<open>as_dict\<close>. \<open>coalesce_alias\<close> is from \<^verbatim>\<open>app/orchestration/field_semantics.py\<close>.
\<close>

section \<open>Reading fields\<close>

text \<open>\<open>a == b\<close> on JSON values: a truth value equals its number, and the order of an object's keys is irrelevant.\<close>

fun json_norm :: "json \<Rightarrow> json" where
  "json_norm (JBool b) = JInt (if b then 1 else 0)"
| "json_norm (JList xs) = JList (map json_norm xs)"
| "json_norm (JObj kvs) = JObj (sort_key fst (map (\<lambda>(k, v). (k, json_norm v)) kvs))"
| "json_norm j = j"

definition py_eq :: "json \<Rightarrow> json \<Rightarrow> bool" where
  "py_eq a b \<longleftrightarrow> json_norm a = json_norm b"

definition given_value :: "json \<Rightarrow> string \<Rightarrow> json option" where
  "given_value j k = (case json_get j k of
      None \<Rightarrow> None | Some v \<Rightarrow> if v = JNull \<or> v = JList [] \<or> v = JStr [] then None else Some v)"

definition coalesce_alias :: "json \<Rightarrow> string \<Rightarrow> string list \<Rightarrow> json \<Rightarrow> json result" where
  "coalesce_alias j canonical aliases fallback =
     (case List.map_filter (given_value j) (canonical # aliases) of
        [] \<Rightarrow> Inr fallback
      | v # vs \<Rightarrow> if list_all (py_eq v) vs then Inr v else Inl (ValueError ''conflicting aliases''))"

text \<open>\<open>_strings\<close>: one string stands for a list of one; its parameter \<open>allow_empty\<close> makes no difference.\<close>

definition strings_of :: "json \<Rightarrow> string list result" where
  "strings_of v = (case v of
      JStr s \<Rightarrow> Inr (if blank s then [] else [py_strip s])
    | JList xs \<Rightarrow> if list_all (\<lambda>x. case x of JStr s \<Rightarrow> \<not> blank s | _ \<Rightarrow> False) xs
        then Inr (dict_fromkeys (map (py_strip \<circ> py_str) xs)) else Inl (ValueError ''string list'')
    | _ \<Rightarrow> Inl (ValueError ''string list''))"

definition strings_field :: "json \<Rightarrow> string \<Rightarrow> string list \<Rightarrow> string list result" where
  "strings_field j k d = strings_of (get_default j k (jstrs d))"

definition optional_string :: "json \<Rightarrow> string option result" where
  "optional_string v = (case v of
      JNull \<Rightarrow> Inr None
    | JStr s \<Rightarrow> Inr (if blank s then None else Some (py_strip s))
    | _ \<Rightarrow> Inl (ValueError ''optional string''))"

definition optional_int :: "json \<Rightarrow> int option result" where
  "optional_int v = (case v of
      JNull \<Rightarrow> Inr None
    | JStr [] \<Rightarrow> Inr None
    | JInt i \<Rightarrow> if i < 0 then Inl (ValueError ''wave'') else Inr (Some i)
    | _ \<Rightarrow> Inl (ValueError ''wave''))"

text \<open>\<open>str(raw.get(k, default)).strip()\<close>\<close>

definition stripped_field :: "json \<Rightarrow> string \<Rightarrow> json \<Rightarrow> string" where
  "stripped_field j k d = py_strip (py_str (get_default j k d))"

text \<open>Iterating a JSON value.\<close>

definition iter_items :: "json \<Rightarrow> json list result" where
  "iter_items v = (case v of
      JList xs \<Rightarrow> Inr xs
    | JStr s \<Rightarrow> Inr (map (\<lambda>c. JStr [c]) s)
    | JObj kvs \<Rightarrow> Inr (map (JStr \<circ> fst) kvs)
    | _ \<Rightarrow> Inl (TypeError ''not iterable''))"

definition not_concrete :: "string \<Rightarrow> bool" where
  "not_concrete p = (let n = py_strip (unix_slashes p) in n = [] \<or> suffix ''/'' n \<or> has_glob n)"

section \<open>Entry points\<close>

record entrypoints =
  ep_backend_file :: "string option"
  ep_backend_import :: "string option"
  ep_backend_command :: "string option"
  ep_frontend_file :: "string option"
  ep_health_path :: string

definition default_entrypoints :: entrypoints where
  "default_entrypoints = \<lparr>ep_backend_file = None, ep_backend_import = None, ep_backend_command = None,
     ep_frontend_file = None, ep_health_path = ''/health''\<rparr>"

definition entrypoints_as_dict :: "entrypoints \<Rightarrow> json" where
  "entrypoints_as_dict e = JObj
     [(''backend_file'', jopt (ep_backend_file e)), (''backend_import'', jopt (ep_backend_import e)),
      (''backend_command'', jopt (ep_backend_command e)), (''frontend_file'', jopt (ep_frontend_file e)),
      (''health_path'', JStr (ep_health_path e))]"

definition parse_entrypoints :: "json \<Rightarrow> entrypoints result" where
  "parse_entrypoints j =
     (if j = JNull then Inr default_entrypoints
      else if \<not> is_obj j then Inl (ValueError ''entrypoints'')
      else (case get_default j ''health_path'' (JStr ''/health'') of
          JStr health \<Rightarrow>
            if blank health then Inl (ValueError ''health_path'')
            else
              bindE (optional_string (json_get_null j ''backend_file'')) (\<lambda>bf.
              bindE (optional_string (json_get_null j ''backend_import'')) (\<lambda>bi.
              bindE (optional_string (json_get_null j ''backend_command'')) (\<lambda>bc.
              bindE (optional_string (json_get_null j ''frontend_file'')) (\<lambda>ff.
              Inr \<lparr>ep_backend_file = bf, ep_backend_import = bi, ep_backend_command = bc, ep_frontend_file = ff,
                   ep_health_path = py_strip health\<rparr>))))
        | _ \<Rightarrow> Inl (ValueError ''health_path'')))"

section \<open>HTTP operations\<close>

record http_operation =
  ho_method :: string
  ho_path :: string
  ho_request_schema :: "string option"
  ho_response_schema :: "string option"

text \<open>\<open>str.upper\<close> on the letters the accepted methods are made of.\<close>

definition ascii_upper :: "string \<Rightarrow> string" where
  "ascii_upper s = map (\<lambda>c. let n = (of_char c :: nat) in if 97 \<le> n \<and> n \<le> 122 then char_of (n - 32) else c) s"

definition ident_start :: "char \<Rightarrow> bool" where
  "ident_start c = (let n = (of_char c :: nat) in (65 \<le> n \<and> n \<le> 90) \<or> (97 \<le> n \<and> n \<le> 122) \<or> c = CHR ''_'')"

lemma ident_start_bits [code]:
  "ident_start (Char b0 b1 b2 b3 b4 b5 b6 b7) \<longleftrightarrow>
    \<not> b7 \<and> b6 \<and> (if b4 then (b3 \<longrightarrow> \<not> b2 \<and> (b1 \<longrightarrow> \<not> b0)) \<or> b3 \<and> b2 \<and> b1 \<and> b0 \<and> \<not> b5
       else b3 \<or> b2 \<or> b1 \<or> b0)"
  unfolding ident_start_def Let_def of_char_bits by (cases b5; cases b6; cases b7; cases b4; cases b3; cases b2; cases b1; cases b0) simp_all

definition upper_char :: "char \<Rightarrow> char" where
  "upper_char c = (let n = (of_char c :: nat) in if 97 \<le> n \<and> n \<le> 122 then char_of (n - 32) else c)"

lemma upper_char_bits [code]:
  "upper_char (Char b0 b1 b2 b3 b4 b5 b6 b7) =
    Char b0 b1 b2 b3 b4
      (b5 \<and> \<not> (\<not> b7 \<and> b6 \<and> (if b4 then b3 \<longrightarrow> \<not> b2 \<and> (b1 \<longrightarrow> \<not> b0) else b3 \<or> b2 \<or> b1 \<or> b0))) b6 b7"
  unfolding upper_char_def Let_def of_char_bits
  by (cases b5; cases b6; cases b7; cases b4; cases b3; cases b2; cases b1; cases b0) (simp_all add: char_of_def bit_0)

lemma ascii_upper_bits [code]: "ascii_upper s = map upper_char s"
  by (simp add: ascii_upper_def upper_char_def [abs_def])

definition ident_char :: "char \<Rightarrow> bool" where
  "ident_char c \<longleftrightarrow> ident_start c \<or> is_digit c"

text \<open>
  The matches of \<open>\{([A-Za-z_][A-Za-z0-9_]*)\}\<close>, left to right, and the text with them removed.
\<close>

function path_parameters :: "string \<Rightarrow> string list \<times> string" where
  "path_parameters [] = ([], [])"
| "path_parameters (c # cs) =
     (let name = takeWhile ident_char cs; rest = dropWhile ident_char cs in
      if c = CHR ''{'' \<and> (case name of [] \<Rightarrow> False | d # _ \<Rightarrow> ident_start d) \<and> prefix ''}'' rest
      then (case path_parameters (tl rest) of (ns, r) \<Rightarrow> (name # ns, r))
      else (case path_parameters cs of (ns, r) \<Rightarrow> (ns, c # r)))"
  by pat_completeness auto
termination
  by (relation "measure length") (auto simp: le_imp_less_Suc length_dropWhile_le intro: le_less_trans [OF diff_le_self])

definition mk_http_operation :: "http_operation \<Rightarrow> http_operation result" where
  "mk_http_operation h =
     (let method = ascii_upper (py_strip (ho_method h)); path = py_strip (ho_path h) in
      bindE (raises
        [(method \<notin> set [''GET'', ''POST'', ''PUT'', ''PATCH'', ''DELETE'', ''HEAD'', ''OPTIONS''], ValueError ''method''),
         (\<not> prefix ''/'' path \<or> CHR ''?'' \<in> set path \<or> CHR ''#'' \<in> set path, ValueError ''path''),
         (CHR ''{'' \<in> set (snd (path_parameters path)) \<or> CHR ''}'' \<in> set (snd (path_parameters path)),
           ValueError ''path parameter''),
         (\<not> distinct (fst (path_parameters path)), ValueError ''duplicate path parameter'')]) (\<lambda>_.
      Inr (h\<lparr>ho_method := method,
             ho_path := (if rstrip_of (CHR ''/'') path = [] then ''/'' else rstrip_of (CHR ''/'') path)\<rparr>)))"

definition http_operation_as_dict :: "http_operation \<Rightarrow> json" where
  "http_operation_as_dict h = JObj
     [(''method'', JStr (ho_method h)), (''path'', JStr (ho_path h)),
      (''request_schema'', jopt (ho_request_schema h)), (''response_schema'', jopt (ho_response_schema h))]"

definition parse_http_operation :: "json \<Rightarrow> http_operation result" where
  "parse_http_operation j =
     (if \<not> is_obj j then Inl (ValueError ''operation'')
      else bindE (optional_string (json_get_null j ''request_schema'')) (\<lambda>rq.
           bindE (optional_string (json_get_null j ''response_schema'')) (\<lambda>rs.
           mk_http_operation \<lparr>ho_method = stripped_field j ''method'' (JStr []), ho_path = stripped_field j ''path'' (JStr []),
             ho_request_schema = rq, ho_response_schema = rs\<rparr>)))"

section \<open>Interfaces\<close>

record interface =
  if_id :: string
  if_kind :: string
  if_name :: string
  if_owner_unit :: string
  if_owner_file :: "string option"
  if_signature :: "string option"
  if_input_schema :: "string option"
  if_output_schema :: "string option"
  if_errors :: "string list"
  if_constraints :: "string list"
  if_operations :: "http_operation list"

definition kind_aliases :: "(string, string) dict" where
  "kind_aliases =
     [(''endpoint'', ''api''), (''rest'', ''api''), (''http'', ''api''), (''http_endpoint'', ''api''),
      (''http_api'', ''api''), (''rest_api'', ''api''), (''api_endpoint'', ''api''), (''route'', ''api''),
      (''class'', ''symbol''), (''function'', ''symbol''), (''method'', ''symbol''), (''model'', ''data''),
      (''schema'', ''data''), (''message'', ''event''), (''topic'', ''event''), (''repository'', ''service''),
      (''repo'', ''service''), (''in_process_repository'', ''service''), (''repository_port'', ''service''),
      (''port'', ''service''), (''use_case'', ''service''), (''application_service'', ''service''),
      (''domain'', ''service''), (''service_interface'', ''service''), (''python_service'', ''service''),
      (''python_callable'', ''symbol''), (''python-callable'', ''symbol''), (''internal_service'', ''service''),
      (''worker'', ''service''), (''router'', ''api''), (''route_handler'', ''api''),
      (''http_handler_factory'', ''api''), (''controller'', ''api''), (''dto'', ''data''),
      (''model_schema'', ''data''), (''database'', ''data''), (''storage'', ''data''), (''orm'', ''data''),
      (''queue'', ''event''), (''provided'', ''service''), (''consumed'', ''service''), (''exception'', ''symbol''),
      (''entrypoint'', ''api''), (''process_entrypoint'', ''api''), (''process-entrypoint'', ''api''),
      (''lifecycle'', ''service''), (''dependency'', ''service'')]"

definition interface_kinds :: "string list" where
  "interface_kinds = [''symbol'', ''service'', ''api'', ''data'', ''event'']"

definition normalize_kind :: "string \<Rightarrow> string" where
  "normalize_kind kind = (let raw = py_lower (py_strip kind) in
     case dict_get kind_aliases raw of
       Some k \<Rightarrow> k
     | None \<Rightarrow> (case dict_get kind_aliases (replace_char (CHR ''-'') (CHR ''_'') raw) of Some k \<Rightarrow> k | None \<Rightarrow> raw))"

definition mk_interface :: "interface \<Rightarrow> interface result" where
  "mk_interface i0 =
     bindE (raises [(list_ex blank [if_id i0, if_kind i0, if_name i0, if_owner_unit i0], ValueError ''InterfaceContract'')]) (\<lambda>_.
     let i = i0\<lparr>if_kind := normalize_kind (if_kind i0)\<rparr> in
     bindE (raises
       [(if_kind i \<notin> set interface_kinds, ValueError ''kind''),
        (if_kind i = ''api'' \<and> \<not> distinct (map (\<lambda>h. (ho_method h, ho_path h)) (if_operations i)), ValueError ''operations''),
        (if_kind i \<noteq> ''api'' \<and> if_operations i \<noteq> [], ValueError ''operations of no api'')]) (\<lambda>_. Inr i))"

definition interface_as_dict :: "interface \<Rightarrow> json" where
  "interface_as_dict i = JObj
     [(''interface_id'', JStr (if_id i)), (''kind'', JStr (if_kind i)), (''name'', JStr (if_name i)),
      (''owner_unit'', JStr (if_owner_unit i)), (''owner_file'', jopt (if_owner_file i)),
      (''signature'', jopt (if_signature i)), (''input_schema'', jopt (if_input_schema i)),
      (''output_schema'', jopt (if_output_schema i)), (''errors'', jstrs (if_errors i)),
      (''constraints'', jstrs (if_constraints i)),
      (''operations'', JList (map http_operation_as_dict (if_operations i)))]"

definition parse_interface :: "json \<Rightarrow> interface result" where
  "parse_interface j =
     (if \<not> is_obj j then Inl (ValueError ''interface'')
      else
        bindE (optional_string (json_get_null j ''owner_file'')) (\<lambda>owner_file.
        bindE (optional_string (json_get_null j ''signature'')) (\<lambda>signature.
        bindE (optional_string (json_get_null j ''input_schema'')) (\<lambda>input_schema.
        bindE (optional_string (json_get_null j ''output_schema'')) (\<lambda>output_schema.
        bindE (strings_field j ''errors'' []) (\<lambda>errors.
        bindE (strings_field j ''constraints'' []) (\<lambda>constraints.
        bindE (iter_items (get_default j ''operations'' (get_default j ''http_operations'' (JList [])))) (\<lambda>raw.
        bindE (mapE parse_http_operation raw) (\<lambda>operations.
        mk_interface \<lparr>if_id = stripped_field j ''interface_id'' (get_default j ''id'' (JStr [])),
          if_kind = py_lower (stripped_field j ''kind'' (JStr ''symbol'')), if_name = stripped_field j ''name'' (JStr []),
          if_owner_unit = stripped_field j ''owner_unit'' (get_default j ''provider'' (JStr [])),
          if_owner_file = owner_file, if_signature = signature, if_input_schema = input_schema,
          if_output_schema = output_schema, if_errors = errors, if_constraints = constraints,
          if_operations = operations\<rparr>)))))))))"

section \<open>Implementation units\<close>

record unit_contract =
  uc_id :: string
  uc_layer :: string
  uc_objective :: string
  uc_allowed_paths :: "string list"
  uc_required_paths :: "string list"
  uc_forbidden_paths :: "string list"
  uc_depends_on :: "string list"
  uc_input_refs :: "string list"
  uc_acceptance_criteria :: "string list"
  uc_constraints :: "string list"
  uc_non_goals :: "string list"
  uc_policy_refs :: "string list"
  uc_skill_refs :: "string list"
  uc_parallel_group :: "string option"
  uc_output_key :: "string option"
  uc_slot :: "string option"
  uc_requirement_ids :: "string list"
  uc_wave :: "int option"
  uc_owned_files :: "string list"
  uc_provides :: "string list"
  uc_consumes :: "string list"
  uc_provided_symbols :: "string list"
  uc_required_symbols :: "string list"

definition mk_unit :: "unit_contract \<Rightarrow> unit_contract result" where
  "mk_unit u = bindE (raises
     [(list_ex blank [uc_id u, uc_layer u, uc_objective u], ValueError ''ImplementationUnit''),
      (uc_allowed_paths u = [], ValueError ''allowed_paths''),
      (list_ex (list_ex blank) [uc_allowed_paths u, uc_required_paths u, uc_forbidden_paths u, uc_depends_on u,
         uc_input_refs u, uc_acceptance_criteria u, uc_constraints u, uc_non_goals u, uc_policy_refs u,
         uc_skill_refs u, uc_requirement_ids u, uc_provides u, uc_consumes u, uc_provided_symbols u,
         uc_required_symbols u], ValueError ''empty string''),
      (list_ex not_concrete (uc_owned_files u), ValueError ''owned_files''),
      (list_ex not_concrete (uc_required_paths u), ValueError ''required_paths''),
      (uc_owned_files u \<noteq> [] \<and> \<not> set (uc_required_paths u) \<subseteq> set (uc_owned_files u), ValueError ''required not owned''),
      (case uc_wave u of None \<Rightarrow> False | Some w \<Rightarrow> w < 0, ValueError ''wave'')]) (\<lambda>_. Inr u)"

definition unit_as_dict :: "unit_contract \<Rightarrow> json" where
  "unit_as_dict u = JObj
     [(''unit_id'', JStr (uc_id u)), (''layer'', JStr (uc_layer u)), (''objective'', JStr (uc_objective u)),
      (''allowed_paths'', jstrs (uc_allowed_paths u)), (''required_paths'', jstrs (uc_required_paths u)),
      (''forbidden_paths'', jstrs (uc_forbidden_paths u)), (''depends_on'', jstrs (uc_depends_on u)),
      (''input_refs'', jstrs (uc_input_refs u)), (''acceptance_criteria'', jstrs (uc_acceptance_criteria u)),
      (''constraints'', jstrs (uc_constraints u)), (''non_goals'', jstrs (uc_non_goals u)),
      (''policy_refs'', jstrs (uc_policy_refs u)), (''skill_refs'', jstrs (uc_skill_refs u)),
      (''parallel_group'', jopt (uc_parallel_group u)), (''output_key'', jopt (uc_output_key u)),
      (''slot'', jopt (uc_slot u)), (''requirement_ids'', jstrs (uc_requirement_ids u)),
      (''wave'', (case uc_wave u of None \<Rightarrow> JNull | Some w \<Rightarrow> JInt w)), (''owned_files'', jstrs (uc_owned_files u)),
      (''provides_interfaces'', jstrs (uc_provides u)), (''consumes_interfaces'', jstrs (uc_consumes u)),
      (''provided_symbols'', jstrs (uc_provided_symbols u)), (''required_symbols'', jstrs (uc_required_symbols u))]"

definition parse_unit :: "json \<Rightarrow> unit_contract result" where
  "parse_unit j =
     (if \<not> is_obj j then Inl (ValueError ''unit'')
      else
        bindE (strings_field j ''allowed_paths'' []) (\<lambda>paths.
        bindE (strings_field j ''allowed_roots'' []) (\<lambda>roots.
        bindE (coalesce_alias j ''required_paths'' [''required_files''] (JList [])) (\<lambda>required_value.
        bindE (coalesce_alias j ''slot'' [''output_slot''] JNull) (\<lambda>slot_value.
        bindE (coalesce_alias j ''provides_interfaces'' [''provides''] (JList [])) (\<lambda>provides_value.
        bindE (coalesce_alias j ''consumes_interfaces'' [''consumes''] (JList [])) (\<lambda>consumes_value.
        bindE (strings_of required_value) (\<lambda>required.
        bindE (strings_field j ''forbidden_paths'' []) (\<lambda>forbidden.
        bindE (strings_field j ''depends_on'' []) (\<lambda>depends_on.
        bindE (strings_field j ''input_refs'' [''architecture'', ''environment'']) (\<lambda>input_refs.
        bindE (strings_field j ''acceptance_criteria'' []) (\<lambda>criteria.
        bindE (strings_field j ''constraints'' []) (\<lambda>constraints.
        bindE (strings_field j ''non_goals'' []) (\<lambda>non_goals.
        bindE (strings_field j ''policy_refs'' []) (\<lambda>policy_refs.
        bindE (strings_field j ''skill_refs'' []) (\<lambda>skill_refs.
        bindE (optional_string (json_get_null j ''parallel_group'')) (\<lambda>parallel_group.
        bindE (optional_string (json_get_null j ''output_key'')) (\<lambda>output_key.
        bindE (optional_string slot_value) (\<lambda>slot.
        bindE (strings_field j ''requirement_ids'' []) (\<lambda>requirement_ids.
        bindE (optional_int (json_get_null j ''wave'')) (\<lambda>wave.
        bindE (strings_field j ''owned_files'' []) (\<lambda>owned.
        bindE (strings_of provides_value) (\<lambda>provides.
        bindE (strings_of consumes_value) (\<lambda>consumes.
        bindE (strings_field j ''provided_symbols'' []) (\<lambda>provided_symbols.
        bindE (strings_field j ''required_symbols'' []) (\<lambda>required_symbols.
        mk_unit \<lparr>uc_id = stripped_field j ''unit_id'' (JStr []), uc_layer = stripped_field j ''layer'' (JStr []),
          uc_objective = stripped_field j ''objective'' (JStr []),
          uc_allowed_paths = dict_fromkeys (paths @ map (\<lambda>r. rstrip_of (CHR ''/'') r @ ''/**'') roots),
          uc_required_paths = required, uc_forbidden_paths = forbidden, uc_depends_on = depends_on,
          uc_input_refs = input_refs, uc_acceptance_criteria = criteria, uc_constraints = constraints,
          uc_non_goals = non_goals, uc_policy_refs = policy_refs, uc_skill_refs = skill_refs,
          uc_parallel_group = parallel_group, uc_output_key = output_key, uc_slot = slot,
          uc_requirement_ids = requirement_ids, uc_wave = wave, uc_owned_files = owned, uc_provides = provides,
          uc_consumes = consumes, uc_provided_symbols = provided_symbols,
          uc_required_symbols = required_symbols\<rparr>))))))))))))))))))))))))))"

section \<open>Contracts\<close>

type_synonym layer_map = "(string, string list) dict"

record project_contract =
  kc_schema_version :: int
  kc_units :: "unit_contract list"
  kc_strategy :: string
  kc_entrypoints :: entrypoints
  kc_required_files :: "string list"
  kc_interfaces :: "interface list"
  kc_layers :: "string list"
  kc_allowed :: layer_map
  kc_forbidden :: layer_map
  kc_test_types :: "string list"
  kc_paths :: layer_map

definition paths_overlap :: "string \<Rightarrow> string \<Rightarrow> bool" where
  "paths_overlap a b \<longleftrightarrow> a = b \<or>
     (let p = removesuffix ''*'' (removesuffix ''**'' a); q = removesuffix ''*'' (removesuffix ''**'' b)
      in p \<noteq> [] \<and> q \<noteq> [] \<and> (prefix q p \<or> prefix p q))"

definition find_unit :: "unit_contract list \<Rightarrow> string \<Rightarrow> unit_contract option" where
  "find_unit us i = List.find (\<lambda>u. uc_id u = i) us"

definition file_disjoint :: "unit_contract list \<Rightarrow> unit_contract \<Rightarrow> string \<Rightarrow> bool" where
  "file_disjoint us u other = (case find_unit us other of
      None \<Rightarrow> False
    | Some v \<Rightarrow> uc_owned_files u \<noteq> [] \<and> uc_owned_files v \<noteq> [] \<and> set (uc_owned_files u) \<inter> set (uc_owned_files v) = {})"

definition matches_path :: "string \<Rightarrow> string \<Rightarrow> bool" where
  "matches_path path pattern = (let directory = suffix ''/'' pattern; n = rstrip_of (CHR ''/'') pattern in
     list_ex (\<lambda>candidate. fnmatch candidate n \<or> fnmatch candidate (squash_stars n)
       \<or> (directory \<and> prefix (n @ ''/'') candidate)) [path, ''workspace/'' @ path])"

text \<open>The paths seen so far with their units, and the owners of the files seen so far.\<close>

definition claim_pattern ::
  "unit_contract list \<Rightarrow> unit_contract \<Rightarrow> string \<Rightarrow> (string, string) dict \<Rightarrow> (string, string) dict result" where
  "claim_pattern us u pattern seen =
     (if list_ex (\<lambda>(prev, owner). paths_overlap prev pattern \<and> \<not> file_disjoint us u owner) seen
      then Inl (ValueError ''overlapping allowed paths'') else Inr (dict_put pattern (uc_id u) seen))"

definition claim_file :: "unit_contract \<Rightarrow> string \<Rightarrow> (string, string) dict \<Rightarrow> (string, string) dict result" where
  "claim_file u f owners =
     (if \<not> list_ex (matches_path f) (uc_allowed_paths u) then Inl (ValueError ''owned file not allowed'')
      else if dict_get owners f \<noteq> None \<and> dict_get owners f \<noteq> Some (uc_id u) then Inl (ValueError ''file owned twice'')
      else Inr (dict_put f (uc_id u) owners))"

definition claim_unit ::
  "unit_contract list \<Rightarrow> unit_contract \<Rightarrow> (string, string) dict \<times> (string, string) dict
   \<Rightarrow> ((string, string) dict \<times> (string, string) dict) result" where
  "claim_unit us u st = (case st of (seen, owners) \<Rightarrow>
     bindE (foldE (claim_pattern us u) (uc_allowed_paths u) seen) (\<lambda>seen'.
     bindE (foldE (claim_file u) (uc_owned_files u) owners) (\<lambda>owners'.
     Inr (seen', owners'))))"

definition check_unit_refs :: "string list \<Rightarrow> string list \<Rightarrow> unit_contract \<Rightarrow> err + unit" where
  "check_unit_refs ids interface_ids u = raises
     [(\<not> set (uc_depends_on u) \<subseteq> set ids, ValueError ''unknown unit''),
      (uc_id u \<in> set (uc_depends_on u), ValueError ''self dependency''),
      (\<not> set (uc_provides u @ uc_consumes u) \<subseteq> set interface_ids, ValueError ''unknown interface'')]"

definition normalize_layer_map :: "layer_map \<Rightarrow> string list \<Rightarrow> bool \<Rightarrow> layer_map result" where
  "normalize_layer_map v layers allow_missing =
     (if layers = [] then (if v \<noteq> [] then Inl (ValueError ''layer map without layers'') else Inr [])
      else if \<not> set (dict_keys v) \<subseteq> set layers then Inl (ValueError ''unknown layer'')
      else mapE (\<lambda>l. case dict_get v l of
          Some xs \<Rightarrow> Inr (l, xs)
        | None \<Rightarrow> if allow_missing then Inr (l, []) else Inl (ValueError ''missing layer'')) layers)"

definition mk_contract :: "project_contract \<Rightarrow> project_contract result" where
  "mk_contract c =
     (let us = kc_units c; ids = map uc_id us; interface_ids = map if_id (kc_interfaces c);
          layers = dict_fromkeys (filter (\<lambda>l. l \<noteq> []) (map py_strip (kc_layers c))) in
      bindE (raises
        [(kc_schema_version c \<noteq> 1, ValueError ''schema_version''),
         (kc_strategy c \<noteq> ''file'' \<and> kc_strategy c \<noteq> ''semantic'', ValueError ''compilation_strategy''),
         (us = [], ValueError ''no unit''),
         (\<not> distinct ids, ValueError ''duplicate unit_id''),
         (\<not> distinct interface_ids, ValueError ''duplicate interface_id''),
         (\<not> list_all (\<lambda>i. if_owner_unit i \<in> set ids) (kc_interfaces c), ValueError ''owner_unit'')]) (\<lambda>_.
      bindE (for_each (check_unit_refs ids interface_ids) us) (\<lambda>_.
      bindE (foldE (claim_unit us) us ([], [])) (\<lambda>_.
      bindE (raises
        [(list_ex blank (kc_required_files c), ValueError ''required_files''),
         (list_ex not_concrete (kc_required_files c), ValueError ''required_files''),
         (\<not> distinct (kc_required_files c), ValueError ''required_files'')]) (\<lambda>_.
      bindE (normalize_layer_map (kc_allowed c) layers False) (\<lambda>allowed.
      bindE (normalize_layer_map (kc_forbidden c) layers True) (\<lambda>forbidden.
      bindE (normalize_layer_map (kc_paths c) layers False) (\<lambda>paths.
      bindE (resolve_rounds (map (\<lambda>u. (uc_id u, uc_depends_on u)) us) []) (\<lambda>_.
      Inr (c\<lparr>kc_layers := layers, kc_allowed := allowed, kc_forbidden := forbidden, kc_paths := paths\<rparr>))))))))))"

definition layer_map_as_dict :: "layer_map \<Rightarrow> json" where
  "layer_map_as_dict m = JObj (map (\<lambda>(k, xs). (k, jstrs xs)) m)"

definition layer_summary :: "project_contract \<Rightarrow> json" where
  "layer_summary c = JObj
     [(''schema_version'', JInt (kc_schema_version c)), (''layers'', jstrs (kc_layers c)),
      (''allowed_dependencies'', layer_map_as_dict (kc_allowed c)),
      (''forbidden_imports'', layer_map_as_dict (kc_forbidden c)),
      (''required_test_types'', jstrs (kc_test_types c)), (''path_mapping'', layer_map_as_dict (kc_paths c))]"

definition contract_as_dict :: "project_contract \<Rightarrow> json" where
  "contract_as_dict c = JObj
     [(''schema_version'', JInt (kc_schema_version c)), (''compilation_strategy'', JStr (kc_strategy c)),
      (''entrypoints'', entrypoints_as_dict (kc_entrypoints c)), (''required_files'', jstrs (kc_required_files c)),
      (''interfaces'', JList (map interface_as_dict (kc_interfaces c))), (''layers'', jstrs (kc_layers c)),
      (''allowed_dependencies'', layer_map_as_dict (kc_allowed c)),
      (''forbidden_imports'', layer_map_as_dict (kc_forbidden c)),
      (''required_test_types'', jstrs (kc_test_types c)), (''path_mapping'', layer_map_as_dict (kc_paths c)),
      (''implementation_units'', JList (map unit_as_dict (kc_units c)))]"

definition raw_layer_map :: "json \<Rightarrow> layer_map result" where
  "raw_layer_map v =
     (if v = JNull \<or> v = JObj [] then Inr []
      else if \<not> is_obj v then Inl (ValueError ''layer map'')
      else bindE (mapE (\<lambda>(k, x). bindE (strings_of x) (\<lambda>xs. Inr (py_strip k, xs))) (obj_items v)) (\<lambda>kvs.
           Inr (dict_of kvs)))"

definition parse_contract :: "json \<Rightarrow> project_contract result" where
  "parse_contract j =
     (if \<not> is_obj j \<or> \<not> json_eq_int (json_get j ''schema_version'') 1 then Inl (ValueError ''schema_version'')
      else (case json_get j ''implementation_units'' of
          Some (JList raw_units) \<Rightarrow>
            bindE (mapE parse_unit raw_units) (\<lambda>units.
            bindE (parse_entrypoints (get_default j ''entrypoints'' (json_get_null j ''entrypoint''))) (\<lambda>entry.
            bindE (strings_field j ''required_files'' []) (\<lambda>required_files.
            bindE (iter_items (get_default j ''interfaces'' (JList []))) (\<lambda>raw_interfaces.
            bindE (mapE parse_interface raw_interfaces) (\<lambda>interfaces.
            bindE (strings_field j ''layers'' []) (\<lambda>layers.
            bindE (raw_layer_map (get_default j ''allowed_dependencies'' (JObj []))) (\<lambda>allowed.
            bindE (raw_layer_map (get_default j ''forbidden_imports'' (JObj []))) (\<lambda>forbidden.
            bindE (strings_field j ''required_test_types'' []) (\<lambda>test_types.
            bindE (raw_layer_map (get_default j ''path_mapping'' (JObj []))) (\<lambda>paths.
            mk_contract \<lparr>kc_schema_version = 1, kc_units = units,
              kc_strategy = py_str (get_default j ''compilation_strategy'' (JStr ''file'')),
              kc_entrypoints = entry, kc_required_files = required_files, kc_interfaces = interfaces,
              kc_layers = layers, kc_allowed = allowed, kc_forbidden = forbidden, kc_test_types = test_types,
              kc_paths = paths\<rparr>))))))))))
        | _ \<Rightarrow> Inl (ValueError ''implementation_units'')))"

section \<open>The store\<close>

text \<open>
  The canonical file and the legacy file. The temporary file that a save writes first is replaced
  atomically: either the save fails and the files are unchanged, or the canonical file is the new one.
\<close>

record contract_files =
  cf_canonical :: json_file
  cf_legacy :: json_file

definition contract_exists :: "contract_files \<Rightarrow> bool" where
  "contract_exists f \<longleftrightarrow> cf_canonical f \<noteq> NoFile \<or> cf_legacy f \<noteq> NoFile"

definition parse_file :: "json_file \<Rightarrow> project_contract result" where
  "parse_file f = (case f of
      NoFile \<Rightarrow> Inl (FileNotFoundError ''project-contract.json'')
    | NotJson \<Rightarrow> Inl (ValueError ''not JSON'')
    | JsonFile j \<Rightarrow> parse_contract j)"

definition load_contract :: "contract_files \<Rightarrow> project_contract result" where
  "load_contract f = parse_file (if cf_canonical f = NoFile then cf_legacy f else cf_canonical f)"

definition save_contract :: "json \<Rightarrow> contract_files \<Rightarrow> (project_contract \<times> contract_files) result" where
  "save_contract content f = bindE (parse_contract content) (\<lambda>c.
     Inr (c, f\<lparr>cf_canonical := JsonFile (contract_as_dict c)\<rparr>))"

end
