(* ===== verification/Contract_Compiler.thy ===== *)
theory Contract_Compiler
  imports Project_Contract Workflow
begin

text \<open>
  From the project contract to the code items: \<^verbatim>\<open>app/domain/architecture/bindings.py\<close> (the Python modules
  and symbols a unit exports) and the \<open>ImplementationContractCompiler\<close> of \<^verbatim>\<open>app/workflow/compiler.py\<close>
  (units split by file, dependencies inferred from interfaces, waves, barriers, one work item per unit).
  \<open>prose\<close> is the sentence the compiler puts before the objective of a file: of the role of the file, its
  path and the objective.
\<close>

section \<open>Bindings\<close>

definition is_py_name :: "string \<Rightarrow> bool" where
  "is_py_name s = (case s of [] \<Rightarrow> False | c # cs \<Rightarrow> ident_start c \<and> list_all ident_char cs)"

definition is_py_dotted :: "string \<Rightarrow> bool" where
  "is_py_dotted s = list_all is_py_name (split_on (CHR ''.'') (removesuffix ''()'' s))"

definition normalize_workspace_path :: "string \<Rightarrow> string" where
  "normalize_workspace_path p = lstrip_of (CHR ''/'') (removeprefix ''workspace/'' (unix_slashes p))"

definition python_module_for_path :: "string \<Rightarrow> string option" where
  "python_module_for_path p =
     (let n = normalize_workspace_path p in
      if \<not> suffix ''.py'' n then None
      else
        let relative = removeprefix ''backend/'' n;
            parts = split_on (CHR ''/'') (take (length relative - 3) relative);
            parts = (if parts \<noteq> [] \<and> last parts = ''__init__'' then butlast parts else parts);
            parts = filter (\<lambda>q. q \<noteq> []) parts
        in if parts = [] \<or> \<not> list_all is_py_name parts then None else Some (join ''.'' parts))"

definition upper_start :: "string \<Rightarrow> bool" where
  "upper_start s = (case s of [] \<Rightarrow> False | c # _ \<Rightarrow> (let n = (of_char c :: nat) in 65 \<le> n \<and> n \<le> 90))"

definition is_upper :: "char \<Rightarrow> bool" where
  "is_upper c = (let n = (of_char c :: nat) in 65 \<le> n \<and> n \<le> 90)"

lemma is_upper_bits [code]:
  "is_upper (Char b0 b1 b2 b3 b4 b5 b6 b7) \<longleftrightarrow>
    \<not> b7 \<and> b6 \<and> \<not> b5 \<and> (if b4 then b3 \<longrightarrow> \<not> b2 \<and> (b1 \<longrightarrow> \<not> b0) else b3 \<or> b2 \<or> b1 \<or> b0)"
  unfolding is_upper_def Let_def of_char_bits by (cases b5; cases b6; cases b7; cases b4; cases b3; cases b2; cases b1; cases b0) simp_all

lemma upper_start_code [code]: "upper_start s = (case s of [] \<Rightarrow> False | c # _ \<Rightarrow> is_upper c)"
  by (cases s) (simp_all add: upper_start_def is_upper_def)

text \<open>A dotted symbol is kept only as a member of a class.\<close>

definition concrete_symbol :: "string \<Rightarrow> bool" where
  "concrete_symbol v \<longleftrightarrow> v \<noteq> [] \<and> is_py_dotted v
     \<and> (let parts = split_on (CHR ''.'') (removesuffix ''()'' v) in length parts > 1 \<longrightarrow> upper_start (hd parts))"

definition normalize_python_symbols :: "string list \<Rightarrow> string list" where
  "normalize_python_symbols vs = dict_fromkeys (filter concrete_symbol (map py_strip vs))"

definition normalize_provided_symbols :: "unit_contract \<Rightarrow> string list" where
  "normalize_provided_symbols u = dict_fromkeys (filter
     (\<lambda>v. v \<notin> set (uc_provides u @ uc_consumes u) \<and> concrete_symbol v) (map py_strip (uc_provided_symbols u)))"

record binding =
  bd_unit_id :: string
  bd_owned_file :: string
  bd_module :: string
  bd_symbols :: "string list"

definition canonical_binding :: "string \<Rightarrow> string \<Rightarrow> string list \<Rightarrow> binding option" where
  "canonical_binding unit_id owned symbols = map_option (\<lambda>md.
     \<lparr>bd_unit_id = unit_id, bd_owned_file = normalize_workspace_path owned, bd_module = md,
      bd_symbols = normalize_python_symbols symbols\<rparr>) (python_module_for_path owned)"

definition binding_fields :: "binding \<Rightarrow> (string \<times> json) list" where
  "binding_fields b =
     [(''unit_id'', JStr (bd_unit_id b)), (''owned_file'', JStr (bd_owned_file b)), (''language'', JStr ''python''),
      (''module'', JStr (bd_module b)), (''provided_symbols'', jstrs (bd_symbols b))]"

definition find_interface :: "interface list \<Rightarrow> string \<Rightarrow> interface option" where
  "find_interface is i = List.find (\<lambda>x. if_id x = i) is"

text \<open>The symbols bound to one file of a unit with several Python files come from its interfaces.\<close>

definition file_symbols :: "interface list \<Rightarrow> unit_contract \<Rightarrow> string \<Rightarrow> string list" where
  "file_symbols is u path =
     (let python_files = filter (\<lambda>p. python_module_for_path p \<noteq> None) (uc_owned_files u) in
      if length python_files = 1 then normalize_provided_symbols u
      else if length python_files > 1 then
        foldl (\<lambda>acc i. case find_interface is i of
            None \<Rightarrow> acc
          | Some x \<Rightarrow>
              if falsy_opt (if_owner_file x) then acc
              else if removeprefix ''workspace/'' (or_empty (if_owner_file x)) \<noteq> removeprefix ''workspace/'' path then acc
              else dict_fromkeys (acc @ normalize_python_symbols [if_name x])) [] (uc_provides u)
      else [])"

definition provided_bindings :: "interface list \<Rightarrow> unit_contract \<Rightarrow> binding list" where
  "provided_bindings is u = List.map_filter (\<lambda>p. canonical_binding (uc_id u) p (file_symbols is u p)) (uc_owned_files u)"

definition bindings_of :: "interface list \<Rightarrow> unit_contract list \<Rightarrow> string \<Rightarrow> binding list" where
  "bindings_of is us i = (case find_unit (rev us) i of None \<Rightarrow> [] | Some u \<Rightarrow> provided_bindings is u)"

definition same_binding :: "binding \<Rightarrow> binding \<Rightarrow> bool" where
  "same_binding a b \<longleftrightarrow> bd_unit_id a = bd_unit_id b \<and> bd_owned_file a = bd_owned_file b \<and> bd_module a = bd_module b"

fun first_bindings :: "binding list \<Rightarrow> (binding \<times> 'a) list \<Rightarrow> (binding \<times> 'a) list" where
  "first_bindings seen [] = []"
| "first_bindings seen ((b, x) # bs) =
     (if list_ex (same_binding b) seen then first_bindings seen bs else (b, x) # first_bindings (b # seen) bs)"

text \<open>What a unit imports: from the units it depends on and, if it has Python files, over its interfaces of no API.\<close>

definition required_bindings :: "interface list \<Rightarrow> unit_contract list \<Rightarrow> unit_contract \<Rightarrow> json list" where
  "required_bindings is us u =
     (let by_deps = concat (map (\<lambda>d. map (\<lambda>b. (b, [(''source'', JStr ''depends_on'')])) (bindings_of is us d)) (uc_depends_on u));
          by_interfaces = (if list_ex (\<lambda>p. python_module_for_path p \<noteq> None) (uc_owned_files u)
            then concat (map (\<lambda>i. case find_interface is i of
                None \<Rightarrow> []
              | Some x \<Rightarrow> if if_kind x = ''api'' then []
                  else map (\<lambda>b. (b, [(''source'', JStr ''consumes_interface''), (''consumes_interface'', JStr i)]))
                         (bindings_of is us (if_owner_unit x))) (uc_consumes u))
            else [])
      in map (\<lambda>(b, kvs). JObj (kvs @ [(''consumption'', JStr ''import_code'')] @ binding_fields b))
           (first_bindings [] (by_deps @ by_interfaces)))"

definition required_http_interfaces :: "interface list \<Rightarrow> unit_contract \<Rightarrow> json list" where
  "required_http_interfaces is u = concat (map (\<lambda>i. case find_interface is i of
      None \<Rightarrow> []
    | Some x \<Rightarrow> if if_kind x \<noteq> ''api'' then [] else [JObj
        [(''interface_id'', JStr (if_id x)), (''owner_unit'', JStr (if_owner_unit x)),
         (''owner_file'', jopt (if_owner_file x)),
         (''operations'', JList (map http_operation_as_dict (if_operations x))),
         (''consumption'', JStr ''http_call'')]]) (uc_consumes u))"

section \<open>Units by file\<close>

definition is_review_unit :: "unit_contract \<Rightarrow> bool" where
  "is_review_unit u \<longleftrightarrow>
     (if uc_id u = ''project-documents'' then False
      else replace_char (CHR ''_'') (CHR ''-'') (py_lower (py_strip (uc_id u))) \<in> set [''review'', ''u-review'', ''project-review'']
        \<or> ''review.md'' \<in> set (map (\<lambda>p. py_lower (py_strip (lstrip_of (CHR ''/'') (removeprefix ''workspace/'' p))))
             (uc_owned_files u @ uc_required_paths u)))"

text \<open>\<open>re.sub(r"[^A-Za-z0-9_.-]+", "_", path).strip("_.-")\<close>\<close>

definition suffix_char :: "char \<Rightarrow> bool" where
  "suffix_char c \<longleftrightarrow> is_alnum c \<or> c = CHR ''_'' \<or> c = CHR ''.'' \<or> c = CHR ''-''"

fun squash_unsafe :: "bool \<Rightarrow> string \<Rightarrow> string" where
  "squash_unsafe in_run [] = []"
| "squash_unsafe in_run (c # cs) =
     (if suffix_char c then c # squash_unsafe False cs
      else if in_run then squash_unsafe True cs else CHR ''_'' # squash_unsafe True cs)"

definition strip_marks :: "string \<Rightarrow> string" where
  "strip_marks s = (let mark = (\<lambda>c. c = CHR ''_'' \<or> c = CHR ''.'' \<or> c = CHR ''-'')
     in rev (dropWhile mark (rev (dropWhile mark s))))"

definition file_suffix :: "nat \<Rightarrow> string \<Rightarrow> string" where
  "file_suffix index path = (let s = strip_marks (squash_unsafe False path) in if s = [] then nat_str (index + 1) else s)"

definition child_id :: "unit_contract \<Rightarrow> nat \<Rightarrow> string \<Rightarrow> string" where
  "child_id u index path = uc_id u @ ''-'' @ file_suffix index path"

definition base_name :: "string \<Rightarrow> string" where
  "base_name p = last (split_on (CHR ''/'') p)"

definition file_role :: "string \<Rightarrow> string" where
  "file_role path =
     (let n = lstrip_of (CHR ''/'') (removeprefix ''workspace/'' path); b = base_name n;
          under = contains ''/interfaces/'' (''/'' @ n @ ''/'') in
      if b = ''main.py'' \<and> prefix ''backend/'' n then ''composition root''
      else if under \<and> (b = ''routes.py'' \<or> b = ''router.py'') then ''routes''
      else if under \<and> (b = ''schemas.py'' \<or> b = ''dto.py'') then ''schemas''
      else if under \<and> (b = ''dependencies.py'' \<or> b = ''auth.py'') then ''dependencies''
      else if under \<and> (b = ''errors.py'' \<or> b = ''exceptions.py'') then ''errors''
      else ''file'')"

definition file_objective :: "(string \<Rightarrow> string \<Rightarrow> string \<Rightarrow> string) \<Rightarrow> unit_contract \<Rightarrow> string \<Rightarrow> string" where
  "file_objective prose u path =
     prose (file_role path) (lstrip_of (CHR ''/'') (removeprefix ''workspace/'' path)) (uc_objective u)"

definition child_unit ::
  "(string \<Rightarrow> string \<Rightarrow> string \<Rightarrow> string) \<Rightarrow> unit_contract \<Rightarrow> nat \<times> string \<Rightarrow> unit_contract result" where
  "child_unit prose u np = (case np of (index, path) \<Rightarrow>
     mk_unit (u\<lparr>uc_id := child_id u index path, uc_objective := file_objective prose u path,
       uc_allowed_paths := [path],
       uc_required_paths := (let r = filter (\<lambda>v. v = path) (uc_required_paths u) in if r = [] then [path] else r),
       uc_depends_on := [], uc_owned_files := [path],
       uc_output_key := Some ((if falsy_opt (uc_output_key u) then uc_id u else or_empty (uc_output_key u)) @ ''_''
         @ file_suffix index path),
       uc_provided_symbols := []\<rparr>))"

text \<open>The children of a unit, and the units with the unit each comes from.\<close>

definition expand_unit ::
  "(string \<Rightarrow> string \<Rightarrow> string \<Rightarrow> string) \<Rightarrow> unit_contract \<Rightarrow> unit_contract list result" where
  "expand_unit prose u =
     (if uc_owned_files u = [] \<and> uc_id u \<noteq> ''project-documents'' then Inl (ValueError ''no owned_files'')
      else if length (uc_owned_files u) \<le> 1 then Inr [u]
      else mapE (child_unit prose u) (enumerate 0 (uc_owned_files u)))"

definition rewrite_deps ::
  "(string, string list) dict \<Rightarrow> (string, unit_contract) dict \<Rightarrow> unit_contract \<Rightarrow> unit_contract result" where
  "rewrite_deps children source u =
     (case dict_get source (uc_id u) of
        None \<Rightarrow> Inl (KeyError (uc_id u))
      | Some v \<Rightarrow> bindE (mapE (\<lambda>d. case dict_get children d of None \<Rightarrow> Inl (KeyError d) | Some cs \<Rightarrow> Inr cs) (uc_depends_on v)) (\<lambda>ds.
          mk_unit (u\<lparr>uc_depends_on := concat ds\<rparr>)))"

definition split_file_units ::
  "(string \<Rightarrow> string \<Rightarrow> string \<Rightarrow> string) \<Rightarrow> unit_contract list \<Rightarrow> unit_contract list result" where
  "split_file_units prose us = bindE (mapE (expand_unit prose) us) (\<lambda>groups.
     let children = dict_of (zip (map uc_id us) (map (map uc_id) groups));
         source = dict_of (concat (map (\<lambda>(u, g). map (\<lambda>v. (uc_id v, u)) g) (zip us groups)))
     in mapE (rewrite_deps children source) (concat groups))"

section \<open>Physical partitions\<close>

definition plain_path :: "string \<Rightarrow> string" where
  "plain_path p = lstrip_of (CHR ''/'') (removeprefix ''workspace/'' p)"

definition infer_slot :: "string list \<Rightarrow> string \<Rightarrow> string \<Rightarrow> string" where
  "infer_slot paths layer unit_id =
     (case List.find (\<lambda>p. prefix ''backend/'' (plain_path p) \<or> prefix ''frontend/'' (plain_path p)) paths of
        Some p \<Rightarrow> if prefix ''backend/'' (plain_path p) then ''backend'' else ''frontend''
      | None \<Rightarrow>
          let l = py_lower (py_strip layer); i = py_lower (py_strip unit_id) in
          if l \<in> set [''tests'', ''test'', ''delivery'', ''scripts'', ''config''] then ''root''
          else if list_ex (\<lambda>p. prefix ''app/'' (plain_path p)) paths then ''backend''
          else if list_ex (\<lambda>t. contains t l \<or> contains t i) [''frontend'', ''web''] then ''frontend''
          else ''root'')"

definition normalize_slot_paths :: "string list \<Rightarrow> string \<Rightarrow> string list" where
  "normalize_slot_paths paths slot = dict_fromkeys (map (\<lambda>p. let v = plain_path p in
     if slot = ''backend'' \<and> prefix ''app/'' v then ''backend/'' @ v
     else if slot = ''frontend'' \<and> prefix ''app/'' v then ''frontend/'' @ v else v) paths)"

definition control_plane_path :: "string \<Rightarrow> bool" where
  "control_plane_path p = (rstrip_of (CHR ''/'') (lstrip_of (CHR ''/'') (unix_slashes p)) \<in> set
     [''workspace'', ''workspace/*'', ''workspace/**'', ''.projectos'', ''.projectos/*'', ''.projectos/**''])"

definition project_forbidden_paths :: "string list \<Rightarrow> string \<Rightarrow> string list" where
  "project_forbidden_paths paths slot = normalize_slot_paths (filter (\<lambda>p. \<not> control_plane_path p) paths) slot"

definition unit_slot :: "unit_contract \<Rightarrow> string" where
  "unit_slot u = (if falsy_opt (uc_slot u) then infer_slot (uc_allowed_paths u) (uc_layer u) (uc_id u)
     else or_empty (uc_slot u))"

section \<open>Dependencies and waves\<close>

text \<open>\<open>children\<close> and \<open>origin\<close> go by the name of a unit: a unit belongs to another when its name is the other's,
  or starts with the other's and a dash.\<close>

definition belongs_to :: "string \<Rightarrow> string \<Rightarrow> bool" where
  "belongs_to original i \<longleftrightarrow> i = original \<or> prefix (original @ ''-'') i"

definition children_of :: "string list \<Rightarrow> string list \<Rightarrow> string \<Rightarrow> string list" where
  "children_of originals ids owner =
     (if owner \<notin> set originals then [owner]
      else let matching = filter (belongs_to owner) ids in if matching = [] then [owner] else matching)"

definition origin_of :: "string list \<Rightarrow> string \<Rightarrow> string" where
  "origin_of originals i = (case List.find (\<lambda>x. belongs_to x i) originals of None \<Rightarrow> i | Some x \<Rightarrow> x)"

definition interface_dependencies ::
  "string list \<Rightarrow> interface list \<Rightarrow> string list \<Rightarrow> unit_contract \<Rightarrow> string list" where
  "interface_dependencies originals is ids u = dict_fromkeys (concat (map (\<lambda>i. case find_interface is i of
      None \<Rightarrow> []
    | Some x \<Rightarrow> if if_owner_unit x \<noteq> origin_of originals (uc_id u)
                then children_of originals ids (if_owner_unit x) else []) (uc_consumes u)))"

definition declared_dependencies ::
  "string list \<Rightarrow> interface list \<Rightarrow> string list \<Rightarrow> unit_contract \<Rightarrow> string list" where
  "declared_dependencies originals is ids u =
     dict_fromkeys (uc_depends_on u @ interface_dependencies originals is ids u)"

text \<open>
  The wave of a unit: its hint, but after the waves of its dependencies. \<open>memo\<close> holds the waves known so
  far, \<open>visiting\<close> the units whose wave is being computed.
\<close>

type_synonym wave_table = "(string, int \<times> string list) dict"

function (sequential) wave_for ::
    "wave_table \<Rightarrow> string \<Rightarrow> string list \<Rightarrow> (string, int) dict \<Rightarrow> (int \<times> (string, int) dict) result"
  and dependency_wave ::
    "wave_table \<Rightarrow> string list \<Rightarrow> string list \<Rightarrow> int \<Rightarrow> (string, int) dict \<Rightarrow> (int \<times> (string, int) dict) result" where
  "wave_for t i visiting memo = (case dict_get memo i of
      Some v \<Rightarrow> Inr (v, memo)
    | None \<Rightarrow>
        if i \<in> set visiting then Inl (ValueError ''cyclic waves'')
        else (case dict_get t i of
            None \<Rightarrow> Inl (KeyError i)
          | Some (hint, ds) \<Rightarrow> bindE (dependency_wave t ds (i # visiting) 0 memo) (\<lambda>(w, memo').
              Inr (max hint w, dict_put i (max hint w) memo'))))"
| "dependency_wave t [] visiting acc memo = Inr (acc, memo)"
| "dependency_wave t (d # ds) visiting acc memo = bindE (wave_for t d visiting memo) (\<lambda>(v, memo').
     dependency_wave t ds visiting (max acc (v + 1)) memo')"
  by pat_completeness auto
termination
proof (relation "measures
    [\<lambda>x. case x of Inl (t, i, visiting, memo) \<Rightarrow> length (filter (\<lambda>e. fst e \<notin> set visiting) t)
       | Inr (t, ds, visiting, acc, memo) \<Rightarrow> length (filter (\<lambda>e. fst e \<notin> set visiting) t),
     \<lambda>x. case x of Inl _ \<Rightarrow> 0 | Inr (t, ds, visiting, acc, memo) \<Rightarrow> Suc (length ds)]", goal_cases)
  case (2 t i visiting memo x hint ds)
  then have "(i, hint, ds) \<in> set t" by (auto dest: map_of_SomeD)
  then have "length (filter (\<lambda>e. fst e \<notin> set (i # visiting)) t) < length (filter (\<lambda>e. fst e \<notin> set visiting) t)"
    using 2 by (intro length_filter_strict [of _ _ "(i, hint, ds)"]) auto
  then show ?case by simp
qed simp_all

definition compute_waves :: "wave_table \<Rightarrow> (string, int) dict result" where
  "compute_waves t = foldE (\<lambda>i memo. bindE (wave_for t i [] memo) (\<lambda>(_, memo'). Inr memo')) (dict_keys t) []"

section \<open>The plan of a contract\<close>

text \<open>The references a unit may give: canonical ones, the early names of the architecture, or artifact keys.\<close>

definition contract_ref :: "string \<Rightarrow> artifact_ref result" where
  "contract_ref value =
     (let t = py_strip value in
      case split_on (CHR '':'') t of
        [layer, a, b, c] \<Rightarrow>
          if layer = ''staged'' then ref_staged ''architecture'' a b c
          else if list_ex (\<lambda>p. prefix p (py_lower t)) [''todo-architecture-'', ''architecture-module-'']
          then ref_published ''architecture'' None else ref_published t None
      | [layer, a, b] \<Rightarrow>
          if layer = ''published'' then ref_published a (if b = ''current'' then None else Some b)
          else if list_ex (\<lambda>p. prefix p (py_lower t)) [''todo-architecture-'', ''architecture-module-'']
          then ref_published ''architecture'' None else ref_published t None
      | _ \<Rightarrow>
          if list_ex (\<lambda>p. prefix p (py_lower t)) [''todo-architecture-'', ''architecture-module-'']
          then ref_published ''architecture'' None else ref_published t None)"

definition code_item_id :: "string \<Rightarrow> string" where
  "code_item_id i = ''wi-code-'' @ i"

definition add_path :: "string \<Rightarrow> string list \<Rightarrow> string list" where
  "add_path p ps = (if p \<in> set ps then ps else ps @ [p])"

text \<open>The entry point that the unit owns is added to what it may write and to what it must deliver.\<close>

definition owned_entry :: "unit_contract \<Rightarrow> string option \<Rightarrow> string list \<Rightarrow> string list" where
  "owned_entry u entry ps = (if \<not> falsy_opt entry \<and> or_empty entry \<in> set (uc_owned_files u)
     then add_path (or_empty entry) ps else ps)"

definition backend_oriented :: "unit_contract \<Rightarrow> string list \<Rightarrow> bool" where
  "backend_oriented u allowed \<longleftrightarrow> uc_id u \<in> set [''backend-api'', ''backend-interfaces'']
     \<or> list_ex (\<lambda>p. contains ''backend/'' (removeprefix ''workspace/'' p)) allowed"

definition with_entries :: "entrypoints \<Rightarrow> unit_contract \<Rightarrow> string list \<Rightarrow> string list \<Rightarrow> string list" where
  "with_entries e u allowed ps =
     (let layer = py_lower (py_strip (uc_layer u));
          backend = (if falsy_opt (ep_backend_file e) then Some ''backend/app/main.py'' else ep_backend_file e);
          ps = (if layer \<in> set [''api'', ''interface'', ''interfaces''] \<and> backend_oriented u allowed
                then owned_entry u backend ps else ps)
      in if layer \<in> set [''frontend'', ''web'', ''interface''] \<or> contains ''frontend'' (py_lower (uc_id u))
         then owned_entry u (ep_frontend_file e) ps else ps)"

definition unit_allowed :: "entrypoints \<Rightarrow> unit_contract \<Rightarrow> string list" where
  "unit_allowed e u = (let ps = normalize_slot_paths (uc_allowed_paths u) (unit_slot u) in with_entries e u ps ps)"

definition unit_required :: "entrypoints \<Rightarrow> unit_contract \<Rightarrow> string list" where
  "unit_required e u =
     (let ps = normalize_slot_paths (uc_required_paths u) (unit_slot u);
          ps = (if uc_id u = ''project-documents'' then filter (\<lambda>p. p \<in> set
                  [''requirement.md'', ''architecture.md'', ''architecture_contract.md'', ''tasks.md'']) ps else ps)
      in with_entries e u (normalize_slot_paths (uc_allowed_paths u) (unit_slot u)) ps)"

text \<open>What a unit waits for: the units it depends on, then all units of the waves before its own.\<close>

definition contract_dependencies :: "string list \<Rightarrow> (string \<times> int) list \<Rightarrow> unit_contract \<Rightarrow> int \<Rightarrow> dependency list" where
  "contract_dependencies declared waves u wave =
     (let explicit = map (\<lambda>d. \<lparr>dep_work_item_id = code_item_id d, dep_source = SYSTEM,
                dep_rule_id = Some ''implementation-contract''\<rparr>) declared;
          barrier = map (\<lambda>(i, w). \<lparr>dep_work_item_id = code_item_id i, dep_source = SYSTEM,
                dep_rule_id = Some ''implementation-wave-barrier''\<rparr>)
              (filter (\<lambda>(i, w). w < wave \<and> i \<notin> set (uc_depends_on u)) waves)
      in explicit @ filter (\<lambda>d. dep_work_item_id d \<notin> dep_work_item_id ` set explicit)
           (map snd (dict_of (map (\<lambda>d. (dep_work_item_id d, d)) barrier))))"

definition unit_delivery :: "project_contract \<Rightarrow> unit_contract list \<Rightarrow> unit_contract \<Rightarrow> json" where
  "unit_delivery c us u = JObj
     [(''compilation_strategy'', JStr (kc_strategy c)), (''entrypoints'', entrypoints_as_dict (kc_entrypoints c)),
      (''required_files'', jstrs (kc_required_files c)),
      (''interfaces'', JList (map interface_as_dict
         (List.map_filter (find_interface (kc_interfaces c)) (uc_provides u @ uc_consumes u)))),
      (''provided_symbols'', jstrs (normalize_provided_symbols u)),
      (''required_symbols'', jstrs (uc_required_symbols u)),
      (''provides_interfaces'', jstrs (uc_provides u)), (''consumes_interfaces'', jstrs (uc_consumes u)),
      (''binding_schema_version'', JInt 1),
      (''provided_bindings'', JList (map (JObj \<circ> binding_fields) (bindings_of (kc_interfaces c) us (uc_id u)))),
      (''required_bindings'', JList (required_bindings (kc_interfaces c) us u)),
      (''required_http_interfaces'', JList (required_http_interfaces (kc_interfaces c) u))]"

definition implementation_refs :: "string \<Rightarrow> unit_contract list \<Rightarrow> string list \<Rightarrow> artifact_ref list result" where
  "implementation_refs trace us declared = mapE (\<lambda>d. case find_unit (List.rev us) d of
      None \<Rightarrow> Inl (KeyError d)
    | Some v \<Rightarrow> ref_staged ''implementation'' trace (code_item_id d) (unit_slot v)) declared"

definition unit_item ::
  "(string \<Rightarrow> string) \<Rightarrow> project_contract \<Rightarrow> string \<Rightarrow> unit_contract list \<Rightarrow> (string, int) dict
   \<Rightarrow> unit_contract \<Rightarrow> work_item result" where
  "unit_item sha c trace us waves u =
     (let e = kc_entrypoints c; slot = unit_slot u; ids = map uc_id us;
          declared = declared_dependencies (map uc_id (kc_units c)) (kc_interfaces c) ids u;
          wave = (case dict_get waves (uc_id u) of Some w \<Rightarrow> w | None \<Rightarrow> 0);
          table = map (\<lambda>i. (i, case dict_get waves i of Some w \<Rightarrow> w | None \<Rightarrow> 0)) ids in
      bindE (mapE mk_dependency (contract_dependencies declared table u wave)) (\<lambda>deps.
      bindE (implementation_refs trace us declared) (\<lambda>dependency_refs.
      bindE (mapE contract_ref (uc_input_refs u)) (\<lambda>refs.
      mk_work_item sha ((blank_work_item (code_item_id (uc_id u)) ''code_agent'' (uc_objective u)
          (if falsy_opt (uc_output_key u) then ''implementation_'' @ uc_id u else or_empty (uc_output_key u)))
        \<lparr>wi_artifact_key := Some ''implementation'', wi_dependencies := deps,
         wi_acceptance_criteria := uc_acceptance_criteria u, wi_constraints := uc_constraints u,
         wi_non_goals := uc_non_goals u, wi_execution_mode := PARTITIONED, wi_input_refs := refs @ dependency_refs,
         wi_slot := Some slot, wi_unit := Some (uc_id u), wi_allowed_paths := unit_allowed e u,
         wi_forbidden_paths := project_forbidden_paths (uc_forbidden_paths u) slot,
         wi_required_paths := unit_required e u, wi_policy_refs := uc_policy_refs u,
         wi_skill_refs := uc_skill_refs u, wi_requirement_ids := uc_requirement_ids u, wi_wave := wave,
         wi_owned_files := uc_owned_files u, wi_delivery_contract := unit_delivery c us u\<rparr>)))))"

definition implementation_units ::
  "(string \<Rightarrow> string \<Rightarrow> string \<Rightarrow> string) \<Rightarrow> bool option \<Rightarrow> project_contract \<Rightarrow> unit_contract list result" where
  "implementation_units prose semantic c =
     (let us = filter (\<lambda>u. \<not> is_review_unit u) (kc_units c);
          keep = (case semantic of None \<Rightarrow> kc_strategy c = ''semantic'' | Some b \<Rightarrow> b)
      in if keep then Inr us else split_file_units prose us)"

definition wave_table_of :: "project_contract \<Rightarrow> unit_contract list \<Rightarrow> wave_table" where
  "wave_table_of c us = dict_of (map (\<lambda>u. (uc_id u,
     (case uc_wave u of None \<Rightarrow> 0 | Some w \<Rightarrow> w,
      declared_dependencies (map uc_id (kc_units c)) (kc_interfaces c) (map uc_id us) u))) us)"

definition compile_contract ::
  "(string \<Rightarrow> string) \<Rightarrow> (string \<Rightarrow> string \<Rightarrow> string \<Rightarrow> string) \<Rightarrow> project_contract \<Rightarrow> string \<Rightarrow> string \<Rightarrow> trace_context
   \<Rightarrow> bool option \<Rightarrow> plan result" where
  "compile_contract sha prose c goal plan_id trace semantic =
     bindE (implementation_units prose semantic c) (\<lambda>us.
     bindE (compute_waves (wave_table_of c us)) (\<lambda>waves.
     bindE (mapE (unit_item sha c (tc_trace_id trace) us waves) us) (\<lambda>items.
     mk_plan \<lparr>pl_id = plan_id, pl_goal = goal, pl_work_items = items,
       pl_template_id = Some ''implementation-contract'', pl_process_id = ''software_delivery'', pl_trace = trace,
       pl_validation_scope = ''full_delivery''\<rparr>)))"

end
