(* ===== verification/Blueprint.thy ===== *)
theory Blueprint
  imports Contract_Compiler Run_State
begin

text \<open>
  The expansion of a dynamic architecture plan, \<^verbatim>\<open>app/planner/dynamic_builder.py\<close>: from the accepted blueprint one
  design item for every module, then from the module designs one implementation design for each, both awaited by the
  integration of the architecture; and the two steps of \<^verbatim>\<open>app/orchestration/runner.py\<close> that apply it to a run. The
  parsed designs are records of the fields that are read; \<open>bl_dump\<close> is the canonical JSON of a blueprint. The prose of
  the items is a parameter: \<open>tx module name\<close> is the text that \<open>name\<close> stands for.
\<close>

section \<open>Designs\<close>

record blueprint_module =
  bm_id :: string
  bm_purpose :: "string option"
  bm_depends :: "string list"
  bm_requirement_ids :: "string list"

record architecture_blueprint =
  bl_design_id :: string
  bl_depth :: int
  bl_layers :: "string list"
  bl_modules :: "blueprint_module list"
  bl_dump :: string

record module_design =
  md_id :: string
  md_depth :: int
  md_parent :: string
  md_module :: string
  md_purpose :: "string option"
  md_depends :: "string list"

text \<open>What \<open>parse_design\<close> makes of a stored design.\<close>

datatype design = Blueprint_Design architecture_blueprint | Module_Design module_design | Other_Design

section \<open>The check of a blueprint\<close>

text \<open>\<open>SemanticRegistry.validate_blueprint\<close>: whether it finds no error.\<close>

definition semantic_module :: "string list \<Rightarrow> blueprint_module \<Rightarrow> bool" where
  "semantic_module known m \<longleftrightarrow> \<not> blank (or_empty (bm_purpose m)) \<and> set (bm_depends m) \<subseteq> set known
     \<and> py_strip (bm_id m) \<notin> set (bm_depends m)"

definition semantic_blueprint :: "architecture_blueprint \<Rightarrow> bool" where
  "semantic_blueprint b \<longleftrightarrow> (let ids = map (\<lambda>m. py_strip (bm_id m)) (bl_modules b) in
     [] \<notin> set ids \<and> distinct ids \<and> list_all (semantic_module ids) (bl_modules b)
     \<and> distinct (map py_strip (bl_layers b)))"

definition max_modules :: nat where
  "max_modules = 32"

definition module_ids :: "architecture_blueprint \<Rightarrow> string list" where
  "module_ids b = map bm_id (bl_modules b)"

definition check_module :: "string list \<Rightarrow> blueprint_module \<Rightarrow> err + unit" where
  "check_module known m = raises
     [(blank (or_empty (bm_purpose m)), ValueError ''purpose''),
      (\<not> set (bm_depends m) \<subseteq> set known, ValueError ''unknown module''),
      (bm_id m \<in> set (bm_depends m), ValueError ''self dependency'')]"

definition validate_blueprint :: "architecture_blueprint \<Rightarrow> err + unit" where
  "validate_blueprint b =
     bindE (raises
       [(\<not> semantic_blueprint b, ValueError ''blueprint semantics''),
        (bl_depth b \<noteq> 0, ValueError ''depth''),
        (length (bl_modules b) > max_modules, ValueError ''too many modules''),
        (\<not> distinct (module_ids b), ValueError ''module_id'')]) (\<lambda>_.
     bindE (for_each (check_module (module_ids b)) (bl_modules b)) (\<lambda>_.
     resolve_rounds (map (\<lambda>m. (bm_id m, bm_depends m)) (bl_modules b)) []))"

section \<open>Names\<close>

text \<open>\<open>re.sub("[^A-Za-z0-9_.-]+", "-", s)\<close>\<close>

fun dash_unsafe :: "bool \<Rightarrow> string \<Rightarrow> string" where
  "dash_unsafe in_run [] = []"
| "dash_unsafe in_run (c # cs) =
     (if suffix_char c then c # dash_unsafe False cs
      else if in_run then dash_unsafe True cs else CHR ''-'' # dash_unsafe True cs)"

definition safe_component :: "string \<Rightarrow> string" where
  "safe_component s = take 80 (strip_marks (dash_unsafe False (py_strip s)))"

definition add_safe_id :: "string \<Rightarrow> (string, string) dict \<Rightarrow> (string, string) dict result" where
  "add_safe_id i safe = bindE (raises
     [(safe_component i = [], ValueError ''no safe id''),
      (safe_component i \<in> snd ` set safe, ValueError ''safe id conflict'')]) (\<lambda>_.
     Inr (dict_put i (safe_component i) safe))"

definition safe_ids :: "architecture_blueprint \<Rightarrow> (string, string) dict result" where
  "safe_ids b = foldE add_safe_id (module_ids b) []"

definition module_slot :: "string \<Rightarrow> string" where
  "module_slot i = ''module-'' @ safe_component i"

definition module_item_id :: "string \<Rightarrow> string" where
  "module_item_id i = ''wi-architecture-module-'' @ safe_component i"

definition implementation_slot :: "string \<Rightarrow> string" where
  "implementation_slot i = ''implementation-'' @ safe_component i"

definition implementation_item_id :: "string \<Rightarrow> string" where
  "implementation_item_id i = ''wi-architecture-implementation-'' @ safe_component i"

text \<open>The waves of the modules: after the waves of the modules they depend on.\<close>

definition module_waves :: "architecture_blueprint \<Rightarrow> (string, int) dict result" where
  "module_waves b = compute_waves (map (\<lambda>m. (bm_id m, 0, bm_depends m)) (bl_modules b))"

definition blueprint_digest :: "(string \<Rightarrow> string) \<Rightarrow> architecture_blueprint \<Rightarrow> string" where
  "blueprint_digest sha b = sha (bl_dump b)"

section \<open>Merging\<close>

text \<open>The first dependency on an item counts; a reference that is known is not added again.\<close>

fun first_dependencies :: "string list \<Rightarrow> dependency list \<Rightarrow> dependency list" where
  "first_dependencies seen [] = []"
| "first_dependencies seen (d # ds) =
     (if dep_work_item_id d \<in> set seen then first_dependencies seen ds
      else d # first_dependencies (dep_work_item_id d # seen) ds)"

definition add_refs :: "artifact_ref list \<Rightarrow> artifact_ref list \<Rightarrow> artifact_ref list" where
  "add_refs known new = foldl (\<lambda>rs r. if ref_id r \<in> set (map ref_id rs) then rs else rs @ [r]) known new"

definition system_dependency :: "string \<Rightarrow> string \<Rightarrow> dependency result" where
  "system_dependency rule i = mk_dependency \<lparr>dep_work_item_id = i, dep_source = SYSTEM, dep_rule_id = Some rule\<rparr>"

text \<open>\<open>replace(integration, dependencies=..., input_refs=..., contract_digest=None)\<close>\<close>

definition integration_awaits ::
  "(string \<Rightarrow> string) \<Rightarrow> string \<Rightarrow> string list \<Rightarrow> artifact_ref list \<Rightarrow> work_item \<Rightarrow> work_item result" where
  "integration_awaits sha rule awaited refs w =
     bindE (mapE (system_dependency rule) awaited) (\<lambda>deps.
     mk_work_item sha (w\<lparr>wi_dependencies := first_dependencies [] (wi_dependencies w @ deps),
       wi_input_refs := add_refs (wi_input_refs w) refs, wi_contract_digest := None\<rparr>))"

definition check_integration :: "plan \<Rightarrow> string \<Rightarrow> work_item result" where
  "check_integration p i = (case plan_item p i of
      None \<Rightarrow> Inl (ValueError ''no integration item'')
    | Some w \<Rightarrow> if wi_execution_mode w \<noteq> INTEGRATION then Inl (ValueError ''integration mode'') else Inr w)"

definition given_or :: "string option \<Rightarrow> string \<Rightarrow> string" where
  "given_or v d = (if falsy_opt v then d else or_empty v)"

definition design_ref :: "plan \<Rightarrow> work_item \<Rightarrow> string \<Rightarrow> artifact_ref result" where
  "design_ref p w slot = ref_staged (given_or (wi_artifact_key w) ''architecture'') (tc_trace_id (pl_trace p)) (wi_id w) slot"

definition blueprint_ref :: "plan \<Rightarrow> work_item \<Rightarrow> artifact_ref result" where
  "blueprint_ref p w = design_ref p w (given_or (wi_slot w) ''blueprint'')"

definition architecture_ref :: "plan \<Rightarrow> string \<Rightarrow> string \<Rightarrow> artifact_ref result" where
  "architecture_ref p item slot = ref_staged ''architecture'' (tc_trace_id (pl_trace p)) item slot"

definition design_delivery :: "int \<Rightarrow> string \<Rightarrow> string \<Rightarrow> blueprint_module \<Rightarrow> json" where
  "design_delivery depth i parent m = JObj [(''architecture'', JObj
     [(''depth'', JInt depth), (''design_id'', JStr i), (''parent_design_id'', JStr parent),
      (''module_id'', JStr (bm_id m)), (''purpose'', JStr (or_empty (bm_purpose m))),
      (''depends_on_modules'', jstrs (bm_depends m))])]"

definition wave_of :: "(string, int) dict \<Rightarrow> string \<Rightarrow> int result" where
  "wave_of waves i = (case dict_get waves i of None \<Rightarrow> Inl (KeyError i) | Some w \<Rightarrow> Inr w)"

section \<open>Modules\<close>

definition is_module_item :: "work_item \<Rightarrow> bool" where
  "is_module_item w \<longleftrightarrow> wi_stage_id w = Some ''architecture_module'' \<or> prefix ''module-'' (or_empty (wi_slot w))"

definition module_item ::
  "(string \<Rightarrow> string) \<Rightarrow> (string \<Rightarrow> string \<Rightarrow> string) \<Rightarrow> plan \<Rightarrow> architecture_blueprint \<Rightarrow> string \<Rightarrow> artifact_ref
   \<Rightarrow> (string, int) dict \<Rightarrow> blueprint_module \<Rightarrow> work_item result" where
  "module_item sha tx p b parent ref waves m =
     bindE (system_dependency ''architecture_blueprint:module'' parent) (\<lambda>first.
     bindE (mapE (\<lambda>d. system_dependency ''architecture_module:depends_on_modules'' (module_item_id d)) (bm_depends m)) (\<lambda>deps.
     bindE (mapE (\<lambda>d. architecture_ref p (module_item_id d) (module_slot d)) (bm_depends m)) (\<lambda>refs.
     bindE (wave_of waves (bm_id m)) (\<lambda>wave.
     mk_work_item sha ((blank_work_item (module_item_id (bm_id m)) ''architecture_agent'' (tx (bm_id m) ''objective'')
         (''architecture_module_'' @ safe_component (bm_id m)))
       \<lparr>wi_stage_id := Some ''architecture_module'', wi_artifact_key := Some ''architecture'',
        wi_dependencies := first # deps,
        wi_acceptance_criteria := map (tx (bm_id m)) [''criterion-1'', ''criterion-2'', ''criterion-3''],
        wi_constraints := map (tx (bm_id m)) [''constraint-1'', ''constraint-2''],
        wi_execution_mode := PARTITIONED, wi_input_refs := ref # refs, wi_slot := Some (module_slot (bm_id m)),
        wi_output_kind := Some ''ModuleDesign'', wi_requirement_ids := bm_requirement_ids m, wi_wave := wave,
        wi_delivery_contract := design_delivery 1 (module_slot (bm_id m)) (bl_design_id b) m\<rparr>)))))"

text \<open>The items of the plan, with the integration waiting for every module.\<close>

definition modules_awaited ::
  "(string \<Rightarrow> string) \<Rightarrow> plan \<Rightarrow> architecture_blueprint \<Rightarrow> artifact_ref \<Rightarrow> string option \<Rightarrow> work_item list result" where
  "modules_awaited sha p b ref integration = (case integration of
      None \<Rightarrow> Inr (pl_work_items p)
    | Some i \<Rightarrow> bindE (check_integration p i) (\<lambda>w.
        bindE (mapE (\<lambda>m. architecture_ref p (module_item_id m) (module_slot m)) (module_ids b)) (\<lambda>refs.
        bindE (integration_awaits sha ''architecture_blueprint:all_modules'' (map module_item_id (module_ids b)) (ref # refs) w) (\<lambda>w'.
        Inr (map (\<lambda>v. if wi_id v = i then w' else v) (pl_work_items p))))))"

record expansion =
  ex_plan :: plan
  ex_design_id :: string
  ex_blueprint_item :: string
  ex_added :: "string list"
  ex_integration :: "string option"
  ex_waves :: "(string, int) dict"
  ex_digest :: string
  ex_revision :: "int option"
  ex_module_designs :: "string list"  \<comment> \<open>of an expansion of implementations\<close>
  ex_module_items :: "(string, string) dict"

text \<open>\<open>ExecutionPlan(id=..., goal=..., work_items=..., template_id=..., process_id=..., trace=...)\<close>: the validation
  scope is not passed on.\<close>

definition expanded_plan :: "plan \<Rightarrow> work_item list \<Rightarrow> plan result" where
  "expanded_plan p items = mk_plan (p\<lparr>pl_work_items := items, pl_validation_scope := ''full_delivery''\<rparr>)"

definition check_blueprint_item :: "plan \<Rightarrow> string \<Rightarrow> work_item result" where
  "check_blueprint_item p i = (case plan_item p i of
      None \<Rightarrow> Inl (ValueError ''no blueprint item'')
    | Some w \<Rightarrow> if wi_agent_id w \<noteq> ''architecture_agent'' then Inl (ValueError ''blueprint agent'') else Inr w)"

definition expand_modules ::
  "(string \<Rightarrow> string) \<Rightarrow> (string \<Rightarrow> string \<Rightarrow> string) \<Rightarrow> plan \<Rightarrow> architecture_blueprint \<Rightarrow> string \<Rightarrow> string option \<Rightarrow> int option
   \<Rightarrow> expansion result" where
  "expand_modules sha tx p b blueprint_id integration revision =
     bindE (validate_blueprint b) (\<lambda>_.
     bindE (check_blueprint_item p blueprint_id) (\<lambda>w.
     bindE (raises
       [(wi_execution_mode w \<noteq> PARTITIONED, ValueError ''blueprint mode''),
        (list_ex is_module_item (pl_work_items p), ValueError ''already expanded'')]) (\<lambda>_.
     bindE (safe_ids b) (\<lambda>_.
     bindE (module_waves b) (\<lambda>waves.
     bindE (blueprint_ref p w) (\<lambda>ref.
     bindE (raises [(set (map wi_id (pl_work_items p)) \<inter> set (map module_item_id (module_ids b)) \<noteq> {},
       ValueError ''id conflict'')]) (\<lambda>_.
     bindE (mapE (module_item sha tx p b (wi_id w) ref waves) (bl_modules b)) (\<lambda>added.
     bindE (modules_awaited sha p b ref integration) (\<lambda>items.
     bindE (expanded_plan p (items @ added)) (\<lambda>q.
     Inr \<lparr>ex_plan = q, ex_design_id = bl_design_id b, ex_blueprint_item = blueprint_id, ex_added = map wi_id added,
       ex_integration = integration, ex_waves = waves, ex_digest = blueprint_digest sha b, ex_revision = revision,
       ex_module_designs = [], ex_module_items = []\<rparr>))))))))))"

section \<open>Implementations\<close>

definition find_module :: "architecture_blueprint \<Rightarrow> string \<Rightarrow> blueprint_module option" where
  "find_module b i = List.find (\<lambda>m. bm_id m = i) (bl_modules b)"

text \<open>An early design that names no dependency inherits those of the blueprint.\<close>

definition effective_depends :: "blueprint_module \<Rightarrow> module_design \<Rightarrow> string list" where
  "effective_depends m d = (if md_depends d = [] \<and> bm_depends m \<noteq> [] then bm_depends m else md_depends d)"

definition add_design :: "architecture_blueprint \<Rightarrow> module_design \<Rightarrow> (string, module_design) dict \<Rightarrow> (string, module_design) dict result" where
  "add_design b d designs =
     bindE (raises
       [(md_depth d \<noteq> 1, ValueError ''design depth''),
        (md_parent d \<noteq> bl_design_id b, ValueError ''design parent''),
        (find_module b (md_module d) = None, ValueError ''undeclared module''),
        (dict_get designs (md_module d) \<noteq> None, ValueError ''two designs'')]) (\<lambda>_.
     case find_module b (md_module d) of
       None \<Rightarrow> Inl (ValueError ''undeclared module'')
     | Some m \<Rightarrow> bindE (raises
         [(falsy_opt (md_purpose d) \<or> md_purpose d \<noteq> bm_purpose m, ValueError ''design purpose''),
          (set (effective_depends m d) \<noteq> set (bm_depends m), ValueError ''design dependencies'')]) (\<lambda>_.
         Inr (dict_put (md_module d) (d\<lparr>md_depends := effective_depends m d\<rparr>) designs)))"

definition collect_designs :: "architecture_blueprint \<Rightarrow> module_design list \<Rightarrow> (string, module_design) dict result" where
  "collect_designs b ds = bindE (foldE (add_design b) ds []) (\<lambda>designs.
     bindE (raises [(\<not> set (module_ids b) \<subseteq> set (dict_keys designs), ValueError ''missing design''),
       (\<not> set (dict_keys designs) \<subseteq> set (module_ids b), ValueError ''undeclared module'')]) (\<lambda>_. Inr designs))"

definition declared_module :: "work_item \<Rightarrow> json option" where
  "declared_module w = (case wi_delivery_contract w of
      JObj kvs \<Rightarrow> (case dict_get kvs ''architecture'' of Some (JObj a) \<Rightarrow> dict_get a ''module_id'' | _ \<Rightarrow> None)
    | _ \<Rightarrow> None)"

definition produces_module :: "string \<Rightarrow> work_item \<Rightarrow> bool" where
  "produces_module i w \<longleftrightarrow> wi_stage_id w = Some ''architecture_module'' \<and> wi_agent_id w = ''architecture_agent''
     \<and> (declared_module w = Some (JStr i) \<or> or_empty (wi_slot w) = module_slot i)"

definition module_producer :: "plan \<Rightarrow> (string, string) dict \<Rightarrow> string \<Rightarrow> string result" where
  "module_producer p supplied i =
     (let candidate = (case dict_get supplied i of
            Some c \<Rightarrow> Some c
          | None \<Rightarrow> (case filter (produces_module i) (pl_work_items p) of [w] \<Rightarrow> Some (wi_id w) | _ \<Rightarrow> None)) in
      case (if falsy_opt candidate then None else plan_item p (or_empty candidate)) of
        None \<Rightarrow> Inl (ValueError ''no module item'')
      | Some w \<Rightarrow> if wi_agent_id w \<noteq> ''architecture_agent'' \<or> wi_execution_mode w \<noteq> PARTITIONED
          then Inl (ValueError ''module item'') else Inr (wi_id w))"

definition module_producers :: "plan \<Rightarrow> (string, string) dict \<Rightarrow> architecture_blueprint \<Rightarrow> (string, string) dict result" where
  "module_producers p supplied b = mapE (\<lambda>i. bindE (module_producer p supplied i) (\<lambda>w. Inr (i, w))) (module_ids b)"

definition producer_of :: "(string, string) dict \<Rightarrow> string \<Rightarrow> string result" where
  "producer_of producers i = (case dict_get producers i of None \<Rightarrow> Inl (KeyError i) | Some w \<Rightarrow> Inr w)"

definition is_implementation_item :: "work_item \<Rightarrow> bool" where
  "is_implementation_item w \<longleftrightarrow> wi_stage_id w = Some ''architecture_implementation''
     \<or> prefix ''implementation-'' (or_empty (wi_slot w))"

definition module_ref :: "plan \<Rightarrow> (string, string) dict \<Rightarrow> string \<Rightarrow> artifact_ref result" where
  "module_ref p producers i = bindE (producer_of producers i) (\<lambda>w. architecture_ref p w (module_slot i))"

definition implementation_item ::
  "(string \<Rightarrow> string) \<Rightarrow> (string \<Rightarrow> string \<Rightarrow> string) \<Rightarrow> plan \<Rightarrow> (string, string) dict \<Rightarrow> (string, module_design) dict
   \<Rightarrow> artifact_ref \<Rightarrow> (string, int) dict \<Rightarrow> blueprint_module \<Rightarrow> work_item result" where
  "implementation_item sha tx p producers designs ref waves m =
     bindE (producer_of producers (bm_id m)) (\<lambda>producer.
     bindE (case dict_get designs (bm_id m) of None \<Rightarrow> Inl (KeyError (bm_id m)) | Some d \<Rightarrow> Inr d) (\<lambda>d.
     bindE (mapE (module_ref p producers) (bm_id m # bm_depends m)) (\<lambda>refs.
     bindE (system_dependency ''architecture_module:implementation'' producer) (\<lambda>dep.
     bindE (wave_of waves (bm_id m)) (\<lambda>wave.
     mk_work_item sha ((blank_work_item (implementation_item_id (bm_id m)) ''architecture_agent'' (tx (bm_id m) ''objective'')
         (''architecture_implementation_'' @ safe_component (bm_id m)))
       \<lparr>wi_stage_id := Some ''architecture_implementation'', wi_artifact_key := Some ''architecture'',
        wi_dependencies := [dep],
        wi_acceptance_criteria := map (tx (bm_id m)) [''criterion-1'', ''criterion-2'', ''criterion-3'', ''criterion-4'', ''criterion-5''],
        wi_constraints := map (tx (bm_id m)) [''constraint-1'', ''constraint-2'', ''constraint-3''],
        wi_execution_mode := PARTITIONED, wi_input_refs := ref # refs, wi_slot := Some (implementation_slot (bm_id m)),
        wi_output_kind := Some ''ImplementationDesign'', wi_requirement_ids := bm_requirement_ids m, wi_wave := wave,
        wi_delivery_contract := design_delivery 2 (implementation_slot (bm_id m)) (md_id d) m\<rparr>))))))"

text \<open>The integration waits for the implementations; the items of the contract stage read what it reads.\<close>

definition implementations_awaited ::
  "(string \<Rightarrow> string) \<Rightarrow> plan \<Rightarrow> architecture_blueprint \<Rightarrow> work_item list \<Rightarrow> work_item option \<Rightarrow> work_item list result" where
  "implementations_awaited sha p b added integration = (case integration of
      None \<Rightarrow> Inr (pl_work_items p)
    | Some w \<Rightarrow>
        bindE (mapE (\<lambda>v. architecture_ref p (wi_id v) (or_empty (wi_slot v))) added) (\<lambda>refs.
        bindE (integration_awaits sha ''architecture_implementation:all_modules''
            (map implementation_item_id (module_ids b)) refs w) (\<lambda>w'.
        mapE (\<lambda>v. if wi_id v = wi_id w then Inr w'
                  else if wi_stage_id v = Some ''contract''
                  then mk_work_item sha (v\<lparr>wi_input_refs := add_refs (wi_input_refs w) refs, wi_contract_digest := None\<rparr>)
                  else Inr v) (pl_work_items p))))"

definition expand_implementations ::
  "(string \<Rightarrow> string) \<Rightarrow> (string \<Rightarrow> string \<Rightarrow> string) \<Rightarrow> plan \<Rightarrow> architecture_blueprint \<Rightarrow> module_design list \<Rightarrow> string
   \<Rightarrow> (string, string) dict \<Rightarrow> string option \<Rightarrow> int option \<Rightarrow> expansion result" where
  "expand_implementations sha tx p b ds blueprint_id supplied integration revision =
     bindE (validate_blueprint b) (\<lambda>_.
     bindE (check_blueprint_item p blueprint_id) (\<lambda>w.
     bindE (case integration of None \<Rightarrow> Inr None | Some i \<Rightarrow> bindE (check_integration p i) (\<lambda>v. Inr (Some v))) (\<lambda>target.
     bindE (raises [(list_ex is_implementation_item (pl_work_items p), ValueError ''already expanded'')]) (\<lambda>_.
     bindE (collect_designs b ds) (\<lambda>designs.
     bindE (module_producers p supplied b) (\<lambda>producers.
     bindE (safe_ids b) (\<lambda>_.
     bindE (module_waves b) (\<lambda>waves.
     bindE (raises [(set (map wi_id (pl_work_items p)) \<inter> set (map implementation_item_id (module_ids b)) \<noteq> {},
       ValueError ''id conflict'')]) (\<lambda>_.
     bindE (blueprint_ref p w) (\<lambda>ref.
     bindE (mapE (implementation_item sha tx p producers designs ref waves) (bl_modules b)) (\<lambda>added.
     bindE (implementations_awaited sha p b added target) (\<lambda>items.
     bindE (expanded_plan p (items @ added)) (\<lambda>q.
     Inr \<lparr>ex_plan = q, ex_design_id = bl_design_id b, ex_blueprint_item = blueprint_id, ex_added = map wi_id added,
       ex_integration = integration, ex_waves = waves, ex_digest = blueprint_digest sha b, ex_revision = revision,
       ex_module_designs = map (\<lambda>i. case dict_get designs i of None \<Rightarrow> [] | Some d \<Rightarrow> md_id d) (module_ids b),
       ex_module_items = producers\<rparr>)))))))))))))"

section \<open>The steps of the runner\<close>

text \<open>
  \<open>_expand_architecture_modules_if_ready\<close> and \<open>_expand_architecture_implementations_if_ready\<close>: an exception that is
  not caught, or the reported error if any, and the new state. \<open>load\<close> reads and parses a staged design, \<open>revision\<close>
  is the revision of the recorded baseline; the trace records are functions of the new state.
\<close>

definition blueprint_node :: "plan \<Rightarrow> work_item option" where
  "blueprint_node p = List.find (\<lambda>w. wi_stage_id w = Some ''architecture_blueprint''
     \<or> wi_agent_id w = ''architecture_agent'' \<and> wi_slot w = Some ''blueprint''
       \<and> wi_output_kind w = Some ''ArchitectureBlueprint'') (pl_work_items p)"

definition integration_node :: "plan \<Rightarrow> work_item option" where
  "integration_node p = List.find (\<lambda>w. wi_stage_id w = Some ''architecture_integration''
     \<or> wi_agent_id w = ''architecture_agent'' \<and> wi_execution_mode w = INTEGRATION
       \<and> wi_publish_target w = Some ''architecture'') (pl_work_items p)"

definition expansion_caught :: "err \<Rightarrow> bool" where
  "expansion_caught e \<longleftrightarrow> (case e of FileNotFoundError _ \<Rightarrow> True | RuntimeError _ \<Rightarrow> True | TypeError _ \<Rightarrow> True
     | ValueError _ \<Rightarrow> True | _ \<Rightarrow> False)"

definition apply_expansion :: "run_state \<Rightarrow> expansion result \<Rightarrow> err option result \<times> run_state" where
  "apply_expansion s r = (case r of
      Inr x \<Rightarrow> (Inr None, s\<lparr>rs_plan := ex_plan x\<rparr>)
    | Inl e \<Rightarrow> (if expansion_caught e then Inr (Some e) else Inl e, s))"

definition load_blueprint :: "(artifact_ref \<Rightarrow> design result) \<Rightarrow> artifact_ref \<Rightarrow> architecture_blueprint result" where
  "load_blueprint load r = bindE (load r) (\<lambda>d. case d of
      Blueprint_Design b \<Rightarrow> Inr b | _ \<Rightarrow> Inl (ValueError ''no blueprint''))"

definition expand_modules_if_ready ::
  "(string \<Rightarrow> string) \<Rightarrow> (string \<Rightarrow> string \<Rightarrow> string) \<Rightarrow> (artifact_ref \<Rightarrow> design result) \<Rightarrow> int option result \<Rightarrow> bool
   \<Rightarrow> run_state \<Rightarrow> err option result \<times> run_state" where
  "expand_modules_if_ready sha tx load revision traces s = (let p = rs_plan s in
     case blueprint_node p of
       None \<Rightarrow> (Inr None, s)
     | Some w \<Rightarrow>
         if \<not> traces \<or> list_ex is_module_item (pl_work_items p) \<or> \<not> is_completed (rs_results s) (wi_id w)
         then (Inr None, s)
         else (case bindE (blueprint_ref p w) (\<lambda>r. bindE revision (\<lambda>n. Inr (r, n))) of
             Inl e \<Rightarrow> (Inl e, s)
           | Inr (r, n) \<Rightarrow> apply_expansion s (bindE (load_blueprint load r) (\<lambda>b.
               expand_modules sha tx p b (wi_id w) (map_option wi_id (integration_node p)) n))))"

definition load_module ::
  "(artifact_ref \<Rightarrow> design result) \<Rightarrow> plan \<Rightarrow> work_item \<Rightarrow> (module_design \<times> string) result" where
  "load_module load p w = bindE (design_ref p w (or_empty (wi_slot w))) (\<lambda>r. bindE (load r) (\<lambda>d. case d of
      Module_Design m \<Rightarrow> Inr (m, wi_id w) | _ \<Rightarrow> Inl (ValueError ''no module design'')))"

definition module_items :: "plan \<Rightarrow> work_item list" where
  "module_items p = filter (\<lambda>w. wi_agent_id w = ''architecture_agent'' \<and> wi_stage_id w = Some ''architecture_module'')
     (pl_work_items p)"

definition expand_implementations_if_ready ::
  "(string \<Rightarrow> string) \<Rightarrow> (string \<Rightarrow> string \<Rightarrow> string) \<Rightarrow> (artifact_ref \<Rightarrow> design result) \<Rightarrow> int option result \<Rightarrow> bool
   \<Rightarrow> run_state \<Rightarrow> err option result \<times> run_state" where
  "expand_implementations_if_ready sha tx load revision traces s = (let p = rs_plan s in
     case (blueprint_node p, integration_node p) of
       (Some w, Some target) \<Rightarrow>
         if \<not> traces \<or> module_items p = [] \<or> list_ex is_implementation_item (pl_work_items p)
           \<or> \<not> list_all (\<lambda>v. is_completed (rs_results s) (wi_id v)) (module_items p)
           \<or> \<not> is_completed (rs_results s) (wi_id w)
         then (Inr None, s)
         else (case bindE (blueprint_ref p w) (\<lambda>r. bindE revision (\<lambda>n. Inr (r, n))) of
             Inl e \<Rightarrow> (Inl e, s)
           | Inr (r, n) \<Rightarrow> apply_expansion s (bindE (load_blueprint load r) (\<lambda>b.
               bindE (mapE (load_module load p) (module_items p)) (\<lambda>ds.
               expand_implementations sha tx p b (map fst ds) (wi_id w)
                 (dict_of (map (\<lambda>(d, i). (md_module d, i)) ds)) (Some (wi_id target)) n))))
     | _ \<Rightarrow> (Inr None, s))"

end
