(* ===== verification/Project_Contract_Laws.thy ===== *)
theory Project_Contract_Laws
  imports Project_Contract Plan_Laws
begin

text \<open>
  What the constructor of a project contract guarantees (every file has one owner, every reference a target, the
  dependencies no cycle), and when a saved contract is read back unchanged.
\<close>

section \<open>One owner for every file\<close>

lemma claim_file_cases:
  assumes "claim_file u f owners = Inr owners'"
  shows "list_ex (matches_path f) (uc_allowed_paths u)" "dict_get owners f \<in> {None, Some (uc_id u)}"
    "owners' = dict_put f (uc_id u) owners"
  using assms by (auto simp: claim_file_def simp del: not_None_eq split: if_splits)

lemma claim_unit_owners:
  assumes "claim_unit us u st = Inr st'"
  shows "foldE (claim_file u) (uc_owned_files u) (snd st) = Inr (snd st')"
  using assms by (cases st) (auto simp: claim_unit_def)

text \<open>A claimed file keeps its owner.\<close>

lemma claim_file_keeps:
  assumes "claim_file u g owners = Inr owners'" "dict_get owners f = Some i"
  shows "dict_get owners' f = Some i"
  using claim_file_cases [OF assms(1)] assms(2) by (auto simp: dict.get_put)

lemma claim_unit_keeps:
  assumes "claim_unit us u st = Inr st'" "dict_get (snd st) f = Some i"
  shows "dict_get (snd st') f = Some i"
  by (rule foldE_invariant [where P = "\<lambda>owners. dict_get owners f = Some i", OF claim_unit_owners [OF assms(1)] assms(2)])
    (rule claim_file_keeps)

lemma claim_unit_claims:
  assumes "claim_unit us u st = Inr st'" "f \<in> set (uc_owned_files u)"
  shows "dict_get (snd st') f = Some (uc_id u)" "list_ex (matches_path f) (uc_allowed_paths u)"
proof -
  have "dict_get (snd st') f = Some (uc_id u) \<and> list_ex (matches_path f) (uc_allowed_paths u)"
  proof (rule foldE_establishes [where P = "\<lambda>owners. dict_get owners f = Some (uc_id u)
        \<and> list_ex (matches_path f) (uc_allowed_paths u)", OF claim_unit_owners [OF assms(1)] assms(2)])
    show "dict_get t f = Some (uc_id u) \<and> list_ex (matches_path f) (uc_allowed_paths u)"
      if "claim_file u f s = Inr t" for s t
      using claim_file_cases [OF that] by (simp add: dict.get_put)
    show "dict_get t f = Some (uc_id u) \<and> list_ex (matches_path f) (uc_allowed_paths u)"
      if "claim_file u y s = Inr t" "dict_get s f = Some (uc_id u) \<and> list_ex (matches_path f) (uc_allowed_paths u)" for y s t
      using claim_file_keeps [OF that(1)] that(2) by simp
  qed
  then show "dict_get (snd st') f = Some (uc_id u)" "list_ex (matches_path f) (uc_allowed_paths u)" by simp_all
qed

lemma claims_owned:
  assumes "foldE (claim_unit us) vs st = Inr st'" "u \<in> set vs" "f \<in> set (uc_owned_files u)"
  shows "dict_get (snd st') f = Some (uc_id u)" "list_ex (matches_path f) (uc_allowed_paths u)"
proof -
  show "dict_get (snd st') f = Some (uc_id u)"
  proof (rule foldE_establishes [where P = "\<lambda>st. dict_get (snd st) f = Some (uc_id u)", OF assms(1,2)])
    show "dict_get (snd t) f = Some (uc_id u)" if "claim_unit us u s = Inr t" for s t
      using claim_unit_claims [OF that assms(3)] by simp
    show "dict_get (snd t) f = Some (uc_id u)"
      if "claim_unit us y s = Inr t" "dict_get (snd s) f = Some (uc_id u)" for y s t
      using claim_unit_keeps [OF that] .
  qed
  have "\<exists>s t. claim_unit us u s = Inr t" using assms(1,2) by (induction vs arbitrary: st) auto
  then show "list_ex (matches_path f) (uc_allowed_paths u)" using claim_unit_claims(2) assms(3) by blast
qed

lemma distinct_concat_map:
  assumes "distinct xs" "\<And>x. x \<in> set xs \<Longrightarrow> distinct (f x)"
    and "\<And>x y. x \<in> set xs \<Longrightarrow> y \<in> set xs \<Longrightarrow> x \<noteq> y \<Longrightarrow> set (f x) \<inter> set (f y) = {}"
  shows "distinct (concat (map f xs))"
  using assms
proof (induction xs)
  case (Cons x xs)
  have "set (f x) \<inter> set (f y) = {}" if "y \<in> set xs" for y
    using Cons.prems(1) Cons.prems(3) [of x y] that by auto
  moreover have "distinct (concat (map f xs))" using Cons by simp
  ultimately show ?case using Cons.prems(2) [of x] by auto
qed simp

section \<open>The constructor\<close>

text \<open>The unit dependencies of a contract.\<close>

definition unit_edges :: "unit_contract list \<Rightarrow> (string \<times> string) set" where
  "unit_edges us = {(uc_id u, d) | u d. u \<in> set us \<and> d \<in> set (uc_depends_on u)}"

definition layer_maps_ok :: "project_contract \<Rightarrow> bool" where
  "layer_maps_ok c \<longleftrightarrow> (\<forall>m \<in> {kc_allowed c, kc_forbidden c, kc_paths c}. dict_keys m = kc_layers c)"

lemma normalize_layer_map_keys:
  assumes "normalize_layer_map v layers b = Inr m" "distinct layers"
  shows "dict_keys m = layers \<and> normalize_layer_map m layers b = Inr m"
proof (cases "layers = []")
  case True
  then show ?thesis using assms by (auto simp: normalize_layer_map_def split: if_splits)
next
  case False
  let ?f = "\<lambda>v l. case dict_get v l of Some xs \<Rightarrow> Inr (l, xs) | None \<Rightarrow> if b then Inr (l, []) else Inl (ValueError ''missing layer'')"
  have l: "list_all2 (\<lambda>l e. ?f v l = Inr e) layers m"
    using assms(1) False by (auto simp: normalize_layer_map_def mapE_Inr_iff split: if_splits)
  have keys: "dict_keys m = layers"
    using l by (induction rule: list_all2_induct) (auto split: option.splits if_splits)
  have "?f m (fst e) = Inr e" if "e \<in> set m" for e
  proof -
    have "dict_get m (fst e) = Some (snd e)" by (rule map_of_is_SomeI) (use that keys assms(2) in auto)
    then show ?thesis by simp
  qed
  then have "mapE (?f m) (map fst m) = Inr (map id m)" by (intro mapE_map) simp
  then have "mapE (?f m) layers = Inr m" using keys by simp
  then show ?thesis using False keys by (simp add: normalize_layer_map_def)
qed

lemma mk_contract_cases:
  assumes "mk_contract c0 = Inr c"
  shows "distinct (map uc_id (kc_units c))" "kc_units c = kc_units c0" "kc_interfaces c = kc_interfaces c0"
    "\<exists>st. foldE (claim_unit (kc_units c)) (kc_units c) ([], []) = Inr st"
    "u \<in> set (kc_units c) \<Longrightarrow> check_unit_refs (map uc_id (kc_units c)) (map if_id (kc_interfaces c)) u = Inr ()"
    "resolve_rounds (map (\<lambda>u. (uc_id u, uc_depends_on u)) (kc_units c)) [] = Inr ()"
    "i \<in> set (kc_interfaces c) \<Longrightarrow> if_owner_unit i \<in> uc_id ` set (kc_units c)"
    "distinct (map if_id (kc_interfaces c))"
  using assms unfolding mk_contract_def Let_def by (auto simp: for_each_Inr_iff list_all_iff)

lemma mk_contract_again:
  assumes "mk_contract c0 = Inr c" "\<And>l. l \<in> set (kc_layers c0) \<Longrightarrow> py_strip (py_strip l) = py_strip l"
  shows "mk_contract c = Inr c" "dict_keys (kc_allowed c) = kc_layers c" "dict_keys (kc_forbidden c) = kc_layers c"
    "dict_keys (kc_paths c) = kc_layers c"
proof -
  let ?layers = "dict_fromkeys (filter (\<lambda>l. l \<noteq> []) (map py_strip (kc_layers c0)))"
  obtain a f p where n: "normalize_layer_map (kc_allowed c0) ?layers False = Inr a"
    "normalize_layer_map (kc_forbidden c0) ?layers True = Inr f"
    "normalize_layer_map (kc_paths c0) ?layers False = Inr p"
    and c: "c = c0\<lparr>kc_layers := ?layers, kc_allowed := a, kc_forbidden := f, kc_paths := p\<rparr>"
    using assms(1) unfolding mk_contract_def Let_def by auto
  have same: "dict_fromkeys (filter (\<lambda>l. l \<noteq> []) (map py_strip ?layers)) = ?layers"
  proof -
    have "map py_strip ?layers = ?layers" by (rule map_idI) (use assms(2) in auto)
    moreover have "filter (\<lambda>l. l \<noteq> []) ?layers = ?layers" by (rule filter_True) auto
    ultimately show ?thesis by (simp add: dict_fromkeys_id)
  qed
  note k = normalize_layer_map_keys [OF n(1)] normalize_layer_map_keys [OF n(2)] normalize_layer_map_keys [OF n(3)]
  show "dict_keys (kc_allowed c) = kc_layers c" "dict_keys (kc_forbidden c) = kc_layers c" "dict_keys (kc_paths c) = kc_layers c"
    using k c by simp_all
  have "mk_contract c0 = Inr c \<Longrightarrow> mk_contract c = Inr c"
    unfolding mk_contract_def Let_def using k c same by auto
  then show "mk_contract c = Inr c" using assms(1) by blast
qed

section \<open>Fields read back\<close>

definition stripped :: "string \<Rightarrow> bool" where
  "stripped s \<longleftrightarrow> py_strip s = s"

definition clean :: "string list \<Rightarrow> bool" where
  "clean xs \<longleftrightarrow> distinct xs \<and> list_all (\<lambda>x. stripped x \<and> \<not> blank x) xs"

definition clean_opt :: "string option \<Rightarrow> bool" where
  "clean_opt v \<longleftrightarrow> (case v of None \<Rightarrow> True | Some s \<Rightarrow> stripped s \<and> \<not> blank s)"

lemma rstrip_rstrip: "py_rstrip (py_rstrip s) = py_rstrip s"
  by (simp add: py_rstrip_def dropWhile_idem)

lemma dropWhile_all: "\<forall>x \<in> set xs. P x \<Longrightarrow> dropWhile P xs = []"
  by simp

lemma lstrip_rstrip: "py_lstrip (py_rstrip s) = py_rstrip (py_lstrip s)"
proof (induction s)
  case (Cons c cs)
  show ?case
  proof (cases "is_space c")
    case True
    have "py_lstrip (py_rstrip (c # cs)) = py_lstrip (py_rstrip cs)"
      using True by (auto simp: py_lstrip_def py_rstrip_def dropWhile_append dropWhile_all)
    then show ?thesis using Cons True by (simp add: py_lstrip_def)
  next
    case False
    then show ?thesis by (simp add: py_lstrip_def py_rstrip_def dropWhile_append)
  qed
qed (simp add: py_lstrip_def py_rstrip_def)

lemma stripped_strip [simp]: "stripped (py_strip s)"
proof -
  have "py_lstrip (py_lstrip s) = py_lstrip s" for s by (simp add: py_lstrip_def dropWhile_idem)
  then show ?thesis by (simp add: stripped_def py_strip_def lstrip_rstrip rstrip_rstrip)
qed

lemma blank_strip [simp]: "blank (py_strip s) = blank s"
  using stripped_strip [of s] by (simp add: blank_iff_strip stripped_def)

lemma strings_of_clean: "strings_of v = Inr xs \<Longrightarrow> clean xs"
  by (auto simp: strings_of_def clean_def list_all_iff py_str_def split: json.splits if_splits)

lemma strings_of_jstrs: "clean xs \<Longrightarrow> strings_of (jstrs xs) = Inr xs"
proof -
  assume c: "clean xs"
  then have "map (py_strip \<circ> py_str) (map JStr xs) = xs"
    by (intro nth_equalityI) (auto simp: clean_def stripped_def list_all_iff)
  then show "strings_of (jstrs xs) = Inr xs"
    using c by (auto simp: strings_of_def jstrs_def clean_def list_all_iff dict_fromkeys_id)
qed

lemma strings_field_jstrs: "json_get j k = Some (jstrs xs) \<Longrightarrow> clean xs \<Longrightarrow> strings_field j k d = Inr xs"
  by (simp add: strings_field_def get_default_def strings_of_jstrs)

lemma optional_string_clean: "optional_string v = Inr s \<Longrightarrow> clean_opt s"
  by (auto simp: optional_string_def clean_opt_def split: json.splits if_splits)

lemma optional_string_jopt: "clean_opt s \<Longrightarrow> optional_string (jopt s) = Inr s"
  by (auto simp: optional_string_def clean_opt_def jopt_def stripped_def split: option.splits)

lemma optional_int_read:
  "optional_int v = Inr w \<Longrightarrow> optional_int (case w of None \<Rightarrow> JNull | Some i \<Rightarrow> JInt i) = Inr w"
  by (auto simp: optional_int_def split: json.splits if_splits list.splits)

lemma coalesce_one:
  assumes "json_get j k = Some v" "\<And>a. a \<in> set as \<Longrightarrow> json_get j a = None"
  shows "coalesce_alias j k as d = Inr (if v = JNull \<or> v = JList [] \<or> v = JStr [] then d else v)"
proof -
  have "List.map_filter (given_value j) as = []"
    using assms(2) by (induction as) (auto simp: given_value_def List.map_filter_simps)
  then show ?thesis using assms(1) by (auto simp: coalesce_alias_def given_value_def List.map_filter_simps)
qed

section \<open>Entry points, operations and interfaces read back\<close>

lemma jopt_field:
  assumes "json_get j k = Some (jopt v)" "clean_opt v"
  shows "optional_string (json_get_null j k) = Inr v"
  using assms by (simp add: json_get_null_def optional_string_jopt)

lemma parse_entrypoints_again:
  assumes "parse_entrypoints j = Inr e"
  shows "parse_entrypoints (entrypoints_as_dict e) = Inr e"
proof (cases "j = JNull")
  case True
  then have "e = default_entrypoints" using assms by (simp add: parse_entrypoints_def)
  moreover have "parse_entrypoints (entrypoints_as_dict default_entrypoints) = Inr default_entrypoints" by code_simp
  ultimately show ?thesis by simp
next
  case False
  then obtain health where h: "\<not> blank health" "ep_health_path e = py_strip health"
    and o': "clean_opt (ep_backend_file e)" "clean_opt (ep_backend_import e)" "clean_opt (ep_backend_command e)"
      "clean_opt (ep_frontend_file e)"
    using assms unfolding parse_entrypoints_def
    by (auto dest!: optional_string_clean split: if_splits json.splits)
  let ?d = "entrypoints_as_dict e"
  have g: "json_get ?d ''backend_file'' = Some (jopt (ep_backend_file e))"
    "json_get ?d ''backend_import'' = Some (jopt (ep_backend_import e))"
    "json_get ?d ''backend_command'' = Some (jopt (ep_backend_command e))"
    "json_get ?d ''frontend_file'' = Some (jopt (ep_frontend_file e))"
    "get_default ?d ''health_path'' (JStr ''/health'') = JStr (ep_health_path e)" "is_obj ?d" "?d \<noteq> JNull"
    by (simp_all add: entrypoints_as_dict_def get_default_def)
  have "py_strip (ep_health_path e) = ep_health_path e" using h(2) stripped_strip by (simp add: stripped_def)
  then show ?thesis
    using h jopt_field [OF g(1) o'(1)] jopt_field [OF g(2) o'(2)] jopt_field [OF g(3) o'(3)] jopt_field [OF g(4) o'(4)] g(5-)
    by (simp add: parse_entrypoints_def)
qed

text \<open>An operation is read back if its path does not end in white space.\<close>

definition operation_ok :: "http_operation \<Rightarrow> bool" where
  "operation_ok h \<longleftrightarrow> mk_http_operation h = Inr h \<and> clean_opt (ho_request_schema h) \<and> clean_opt (ho_response_schema h)
     \<and> stripped (ho_method h) \<and> stripped (ho_path h)"

lemma stripped_field_JStr: "json_get j k = Some (JStr s) \<Longrightarrow> stripped s \<Longrightarrow> stripped_field j k d = s"
  by (simp add: stripped_field_def get_default_def stripped_def)

lemma http_operation_eta:
  "\<lparr>ho_method = ho_method h, ho_path = ho_path h, ho_request_schema = ho_request_schema h,
    ho_response_schema = ho_response_schema h\<rparr> = h"
  by (cases h) simp

lemma parse_operation_again:
  assumes "operation_ok h"
  shows "parse_http_operation (http_operation_as_dict h) = Inr h"
proof -
  let ?d = "http_operation_as_dict h"
  have g: "json_get ?d ''method'' = Some (JStr (ho_method h))" "json_get ?d ''path'' = Some (JStr (ho_path h))"
    "json_get ?d ''request_schema'' = Some (jopt (ho_request_schema h))"
    "json_get ?d ''response_schema'' = Some (jopt (ho_response_schema h))" "is_obj ?d"
    by (simp_all add: http_operation_as_dict_def)
  have o': "mk_http_operation h = Inr h" "clean_opt (ho_request_schema h)" "clean_opt (ho_response_schema h)"
    "stripped (ho_method h)" "stripped (ho_path h)"
    using assms by (simp_all add: operation_ok_def)
  show ?thesis
    using o'(1) jopt_field [OF g(3) o'(2)] jopt_field [OF g(4) o'(3)] stripped_field_JStr [OF g(1) o'(4)]
      stripped_field_JStr [OF g(2) o'(5)] g(5)
    by (simp add: parse_http_operation_def http_operation_eta)
qed

lemma ascii_upper_props:
  "ascii_upper (ascii_upper s) = ascii_upper s" "py_strip (ascii_upper (py_strip s)) = ascii_upper (py_strip s)"
proof -
  let ?up = "\<lambda>c. let n = (of_char c :: nat) in if 97 \<le> n \<and> n \<le> 122 then char_of (n - 32) else c"
  have up: "?up (?up c) = ?up c \<and> is_space (?up c) = is_space c" for c
    by (cases "97 \<le> (of_char c :: nat) \<and> (of_char c :: nat) \<le> 122") (auto simp: Let_def is_space_def)
  then show "ascii_upper (ascii_upper s) = ascii_upper s" by (simp add: ascii_upper_def)
  have space: "is_space \<circ> ?up = is_space" using up by auto
  have "py_strip (map ?up t) = map ?up (py_strip t)" for t
    using space by (simp add: py_strip_def py_lstrip_def py_rstrip_def dropWhile_map rev_map)
  then show "py_strip (ascii_upper (py_strip s)) = ascii_upper (py_strip s)"
    using stripped_strip [of s] by (simp add: ascii_upper_def stripped_def)
qed

lemma takeWhile_end: "\<not> P z \<Longrightarrow> takeWhile P (xs @ [z]) = takeWhile P xs"
  by (induction xs) auto

lemma dropWhile_end: "\<not> P z \<Longrightarrow> dropWhile P (xs @ [z]) = dropWhile P xs @ [z]"
  by (induction xs) auto

lemma path_parameters_slash:
  "path_parameters (s @ ''/'') = (fst (path_parameters s), snd (path_parameters s) @ ''/'')"
proof (induction s rule: path_parameters.induct)
  case 1
  show ?case by (simp add: Let_def)
next
  case (2 c cs)
  let ?rest = "dropWhile ident_char cs" and ?name = "takeWhile ident_char cs"
  have slash: "\<not> ident_char (CHR ''/'')" by (simp add: ident_char_def ident_start_def is_digit_def)
  have "takeWhile ident_char (cs @ ''/'') = ?name" "dropWhile ident_char (cs @ ''/'') = ?rest @ ''/''"
    using slash by (simp_all add: takeWhile_end dropWhile_end)
  moreover have "prefix ''}'' (?rest @ ''/'') = prefix ''}'' ?rest" by (cases ?rest) auto
  ultimately show ?case
  proof (cases "c = CHR ''{'' \<and> (case ?name of [] \<Rightarrow> False | d # _ \<Rightarrow> ident_start d) \<and> prefix ''}'' ?rest")
    case True
    then have "tl (?rest @ ''/'') = tl ?rest @ ''/''" by (cases ?rest) auto
    then show ?thesis
      using True 2(1) [OF refl refl True] \<open>takeWhile ident_char (cs @ ''/'') = ?name\<close>
        \<open>dropWhile ident_char (cs @ ''/'') = ?rest @ ''/''\<close> \<open>prefix ''}'' (?rest @ ''/'') = prefix ''}'' ?rest\<close>
      by (simp add: Let_def case_prod_beta)
  next
    case False
    then show ?thesis
      using 2(2) [OF refl refl False] \<open>takeWhile ident_char (cs @ ''/'') = ?name\<close>
        \<open>dropWhile ident_char (cs @ ''/'') = ?rest @ ''/''\<close> \<open>prefix ''}'' (?rest @ ''/'') = prefix ''}'' ?rest\<close>
      by (simp only: append_Cons path_parameters.simps Let_def if_False) (simp add: case_prod_beta)
  qed
qed

lemma path_parameters_rstrip:
  "fst (path_parameters (rstrip_of (CHR ''/'') s)) = fst (path_parameters s)"
  "set (snd (path_parameters (rstrip_of (CHR ''/'') s))) \<subseteq> set (snd (path_parameters s))"
proof -
  have "fst (path_parameters (rstrip_of (CHR ''/'') s)) = fst (path_parameters s)
      \<and> set (snd (path_parameters (rstrip_of (CHR ''/'') s))) \<subseteq> set (snd (path_parameters s))"
  proof (induction s rule: rev_induct)
    case (snoc c s)
    then show ?case using path_parameters_slash [of s] by (cases "c = CHR ''/''") (auto simp: rstrip_of_def)
  qed (simp add: rstrip_of_def)
  then show "fst (path_parameters (rstrip_of (CHR ''/'') s)) = fst (path_parameters s)"
    "set (snd (path_parameters (rstrip_of (CHR ''/'') s))) \<subseteq> set (snd (path_parameters s))" by blast+
qed

lemma rstrip_of_prefix: "prefix (rstrip_of c s) s"
proof -
  have "s = rstrip_of c s @ rev (takeWhile ((=) c) (rev s))"
    unfolding rstrip_of_def rev_append [symmetric] takeWhile_dropWhile_id by simp
  then show ?thesis by (rule prefixI)
qed

lemma prefix_nonempty: "prefix [a] s \<Longrightarrow> prefix q s \<Longrightarrow> q \<noteq> [] \<Longrightarrow> prefix [a] q"
  by (cases s; cases q) auto

lemma rstrip_of_again: "rstrip_of c (rstrip_of c s) = rstrip_of c s"
  by (simp add: rstrip_of_def dropWhile_idem)

lemma mk_http_operation_again:
  assumes "mk_http_operation h0 = Inr h" "stripped (ho_path h)"
  shows "mk_http_operation h = Inr h" "stripped (ho_method h)"
proof -
  let ?m = "ascii_upper (py_strip (ho_method h0))" and ?p = "py_strip (ho_path h0)"
  let ?q = "if rstrip_of (CHR ''/'') ?p = [] then ''/'' else rstrip_of (CHR ''/'') ?p"
  have c: "?m \<in> set [''GET'', ''POST'', ''PUT'', ''PATCH'', ''DELETE'', ''HEAD'', ''OPTIONS'']"
    "prefix ''/'' ?p" "CHR ''?'' \<notin> set ?p" "CHR ''#'' \<notin> set ?p"
    "CHR ''{'' \<notin> set (snd (path_parameters ?p))" "CHR ''}'' \<notin> set (snd (path_parameters ?p))"
    "distinct (fst (path_parameters ?p))" and h: "h = h0\<lparr>ho_method := ?m, ho_path := ?q\<rparr>"
    using assms(1) unfolding mk_http_operation_def Let_def bindE_Inr_unit raises_Inr_simps by (argo | simp)+
  have m: "ascii_upper (py_strip ?m) = ?m" "stripped ?m" using ascii_upper_props by (simp_all add: stripped_def)
  have q: "py_strip ?q = ?q" using assms(2) h by (simp add: stripped_def)
  have one: "rstrip_of (CHR ''/'') ''/'' = []" "path_parameters ''/'' = ([], ''/'')" by code_simp+
  have again: "(if rstrip_of (CHR ''/'') ?q = [] then ''/'' else rstrip_of (CHR ''/'') ?q) = ?q"
    using one(1) by (simp add: rstrip_of_again)
  have f: "prefix ''/'' ?q" "CHR ''?'' \<notin> set ?q" "CHR ''#'' \<notin> set ?q"
    "CHR ''{'' \<notin> set (snd (path_parameters ?q))" "CHR ''}'' \<notin> set (snd (path_parameters ?q))"
    "distinct (fst (path_parameters ?q))"
  proof -
    have pre: "prefix (rstrip_of (CHR ''/'') ?p) ?p" by (rule rstrip_of_prefix)
    show "prefix ''/'' ?q" using prefix_nonempty [OF c(2) pre] by simp
    have "set ?q \<subseteq> insert (CHR ''/'') (set ?p)" using set_mono_prefix [OF pre] by auto
    then show "CHR ''?'' \<notin> set ?q" "CHR ''#'' \<notin> set ?q" using c(3,4) by auto
    show "CHR ''{'' \<notin> set (snd (path_parameters ?q))" "CHR ''}'' \<notin> set (snd (path_parameters ?q))"
      "distinct (fst (path_parameters ?q))"
      using c(5-7) path_parameters_rstrip [of ?p] one(2) by auto
  qed
  show "stripped (ho_method h)" using m(2) h by simp
  have hm: "ho_method h = ?m" and hp: "ho_path h = ?q" using h by simp_all
  have "mk_http_operation h = Inr (h\<lparr>ho_method := ?m, ho_path := ?q\<rparr>)"
    unfolding mk_http_operation_def Let_def hm hp m(1) q again bindE_Inr_unit using c(1) f
    by (simp only: raises_Inr_simps bindE_Inr_unit) simp
  then show "mk_http_operation h = Inr h" using h by simp
qed

lemma parse_operation_ok:
  assumes "parse_http_operation j = Inr h" "stripped (ho_path h)"
  shows "operation_ok h"
proof -
  obtain h0 where h: "mk_http_operation h0 = Inr h" "clean_opt (ho_request_schema h0)" "clean_opt (ho_response_schema h0)"
    using assms(1) unfolding parse_http_operation_def by (auto dest!: optional_string_clean split: if_splits)
  have "ho_request_schema h = ho_request_schema h0" "ho_response_schema h = ho_response_schema h0"
    using h(1) unfolding mk_http_operation_def Let_def by auto
  then show ?thesis using mk_http_operation_again [OF h(1) assms(2)] h(2,3) assms(2) by (simp add: operation_ok_def)
qed

text \<open>Interfaces.\<close>

definition interface_ok :: "interface \<Rightarrow> bool" where
  "interface_ok i \<longleftrightarrow> mk_interface i = Inr i \<and> stripped (if_id i) \<and> if_kind i \<in> set interface_kinds \<and> stripped (if_name i)
     \<and> stripped (if_owner_unit i) \<and> list_all clean_opt [if_owner_file i, if_signature i, if_input_schema i, if_output_schema i]
     \<and> clean (if_errors i) \<and> clean (if_constraints i) \<and> list_all operation_ok (if_operations i)"

lemma stripped_stripped_field [simp]: "stripped (stripped_field j k d)"
  by (simp add: stripped_field_def)

lemma kind_fixed:
  assumes "k \<in> set interface_kinds"
  shows "normalize_kind k = k" "py_lower k = k" "stripped k"
proof -
  have "list_all (\<lambda>k. normalize_kind k = k \<and> py_lower k = k \<and> py_strip k = k) interface_kinds" by code_simp
  then show "normalize_kind k = k" "py_lower k = k" "stripped k"
    using assms by (auto simp: list_all_iff stripped_def)
qed

lemma mk_interface_again:
  assumes "mk_interface i0 = Inr i"
  shows "mk_interface i = Inr i" "if_kind i \<in> set interface_kinds" "i = i0\<lparr>if_kind := if_kind i\<rparr>"
proof -
  have k: "if_kind i \<in> set interface_kinds" and i: "i = i0\<lparr>if_kind := normalize_kind (if_kind i0)\<rparr>"
    and c: "\<not> list_ex blank [if_id i0, if_kind i0, if_name i0, if_owner_unit i0]"
      "\<not> (if_kind i = ''api'' \<and> \<not> distinct (map (\<lambda>h. (ho_method h, ho_path h)) (if_operations i)))"
      "\<not> (if_kind i \<noteq> ''api'' \<and> if_operations i \<noteq> [])"
    using assms unfolding mk_interface_def Let_def bindE_Inr_unit by (auto simp del: list.set)
  show "if_kind i \<in> set interface_kinds" by (rule k)
  show "i = i0\<lparr>if_kind := if_kind i\<rparr>" using i by simp
  have "list_all (\<lambda>k. \<not> blank k) interface_kinds" by code_simp
  then have nb: "\<not> blank (if_kind i)" using k by (auto simp: list_all_iff)
  have same: "i\<lparr>if_kind := normalize_kind (if_kind i)\<rparr> = i" using kind_fixed(1) [OF k] by simp
  have "\<not> list_ex blank [if_id i, if_kind i, if_name i, if_owner_unit i]" using c(1) nb i by simp
  then show "mk_interface i = Inr i"
    unfolding mk_interface_def Let_def same bindE_Inr_unit using k c(2,3) by (simp only: raises_Inr_simps) simp
qed

lemma interface_eta:
  "\<lparr>if_id = if_id i, if_kind = if_kind i, if_name = if_name i, if_owner_unit = if_owner_unit i,
    if_owner_file = if_owner_file i, if_signature = if_signature i, if_input_schema = if_input_schema i,
    if_output_schema = if_output_schema i, if_errors = if_errors i, if_constraints = if_constraints i,
    if_operations = if_operations i\<rparr> = i"
  by (cases i) simp

lemma parse_interface_again:
  assumes "interface_ok i"
  shows "parse_interface (interface_as_dict i) = Inr i"
proof -
  let ?d = "interface_as_dict i"
  have g: "json_get ?d ''interface_id'' = Some (JStr (if_id i))" "json_get ?d ''kind'' = Some (JStr (if_kind i))"
    "json_get ?d ''name'' = Some (JStr (if_name i))" "json_get ?d ''owner_unit'' = Some (JStr (if_owner_unit i))"
    "json_get ?d ''owner_file'' = Some (jopt (if_owner_file i))" "json_get ?d ''signature'' = Some (jopt (if_signature i))"
    "json_get ?d ''input_schema'' = Some (jopt (if_input_schema i))"
    "json_get ?d ''output_schema'' = Some (jopt (if_output_schema i))"
    "json_get ?d ''errors'' = Some (jstrs (if_errors i))" "json_get ?d ''constraints'' = Some (jstrs (if_constraints i))"
    "json_get ?d ''operations'' = Some (JList (map http_operation_as_dict (if_operations i)))" "is_obj ?d"
    by (simp_all add: interface_as_dict_def)
  have o': "mk_interface i = Inr i" "stripped (if_id i)" "if_kind i \<in> set interface_kinds" "stripped (if_name i)"
    "stripped (if_owner_unit i)" "clean_opt (if_owner_file i)" "clean_opt (if_signature i)" "clean_opt (if_input_schema i)"
    "clean_opt (if_output_schema i)" "clean (if_errors i)" "clean (if_constraints i)" "list_all operation_ok (if_operations i)"
    using assms by (simp_all add: interface_ok_def)
  have ops: "mapE parse_http_operation (map http_operation_as_dict (if_operations i)) = Inr (if_operations i)"
    using mapE_map [of "if_operations i" parse_http_operation http_operation_as_dict id] parse_operation_again o'(12)
    by (simp add: list_all_iff)
  have raw: "get_default ?d ''operations'' x = JList (map http_operation_as_dict (if_operations i))" for x
    using g(11) by (simp add: get_default_def)
  show ?thesis
    unfolding parse_interface_def
    using g(12) jopt_field [OF g(5) o'(6)] jopt_field [OF g(6) o'(7)] jopt_field [OF g(7) o'(8)] jopt_field [OF g(8) o'(9)]
      strings_field_jstrs [OF g(9) o'(10)] strings_field_jstrs [OF g(10) o'(11)] ops
      stripped_field_JStr [OF g(1) o'(2)] stripped_field_JStr [OF g(2) kind_fixed(3) [OF o'(3)]]
      stripped_field_JStr [OF g(3) o'(4)] stripped_field_JStr [OF g(4) o'(5)] kind_fixed(2) [OF o'(3)] o'(1)
    by (simp add: raw iter_items_def interface_eta)
qed

lemma parse_interface_ok:
  assumes "parse_interface j = Inr i" "list_all (\<lambda>h. stripped (ho_path h)) (if_operations i)"
  shows "interface_ok i"
proof -
  obtain raw ops i0 where m: "mapE parse_http_operation raw = Inr ops" "mk_interface i0 = Inr i" "if_operations i0 = ops"
    and f: "stripped (if_id i0)" "stripped (if_name i0)" "stripped (if_owner_unit i0)"
      "list_all clean_opt [if_owner_file i0, if_signature i0, if_input_schema i0, if_output_schema i0]"
      "clean (if_errors i0)" "clean (if_constraints i0)"
    using assms(1) unfolding parse_interface_def strings_field_def
    by (auto dest!: optional_string_clean strings_of_clean split: if_splits)
  note k = mk_interface_again [OF m(2)]
  have same: "if_id i = if_id i0" "if_name i = if_name i0" "if_owner_unit i = if_owner_unit i0"
    "if_owner_file i = if_owner_file i0" "if_signature i = if_signature i0" "if_input_schema i = if_input_schema i0"
    "if_output_schema i = if_output_schema i0" "if_errors i = if_errors i0" "if_constraints i = if_constraints i0"
    "if_operations i = ops"
    by (subst k(3), simp add: m(3))+
  have "operation_ok h" if h: "h \<in> set ops" for h
  proof -
    obtain r where "parse_http_operation r = Inr h" using mapE_set [OF m(1) h] by blast
    then show ?thesis using assms(2) h same(10) by (intro parse_operation_ok) (auto simp: list_all_iff)
  qed
  then show ?thesis using k f same by (simp add: interface_ok_def list_all_iff)
qed

section \<open>Units read back\<close>

definition unit_ok :: "unit_contract \<Rightarrow> bool" where
  "unit_ok u \<longleftrightarrow> mk_unit u = Inr u \<and> list_all stripped [uc_id u, uc_layer u, uc_objective u]
     \<and> list_all clean [uc_allowed_paths u, uc_required_paths u, uc_forbidden_paths u, uc_depends_on u, uc_input_refs u,
         uc_acceptance_criteria u, uc_constraints u, uc_non_goals u, uc_policy_refs u, uc_skill_refs u,
         uc_requirement_ids u, uc_owned_files u, uc_provides u, uc_consumes u, uc_provided_symbols u, uc_required_symbols u]
     \<and> list_all clean_opt [uc_parallel_group u, uc_output_key u, uc_slot u]
     \<and> optional_int (case uc_wave u of None \<Rightarrow> JNull | Some i \<Rightarrow> JInt i) = Inr (uc_wave u)"

lemma mk_unit_same: "mk_unit u = Inr v \<Longrightarrow> v = u"
  unfolding mk_unit_def by simp

lemma strings_alias:
  assumes "json_get j k = Some (jstrs xs)" "\<And>a. a \<in> set as \<Longrightarrow> json_get j a = None" "clean xs"
  shows "\<exists>v. coalesce_alias j k as (JList []) = Inr v \<and> strings_of v = Inr xs"
proof -
  have "coalesce_alias j k as (JList []) = Inr (jstrs xs)"
    using coalesce_one [OF assms(1,2)] by (auto simp: jstrs_def)
  then show ?thesis using strings_of_jstrs [OF assms(3)] by blast
qed

lemma slot_alias:
  assumes "json_get j k = Some (jopt s)" "\<And>a. a \<in> set as \<Longrightarrow> json_get j a = None" "clean_opt s"
  shows "\<exists>v. coalesce_alias j k as JNull = Inr v \<and> optional_string v = Inr s"
proof -
  have "coalesce_alias j k as JNull = Inr (jopt s)"
    using coalesce_one [OF assms(1,2)] assms(3) by (auto simp: jopt_def clean_opt_def split: option.splits)
  then show ?thesis using optional_string_jopt [OF assms(3)] by blast
qed

lemma unit_eta:
  "\<lparr>uc_id = uc_id u, uc_layer = uc_layer u, uc_objective = uc_objective u, uc_allowed_paths = uc_allowed_paths u,
    uc_required_paths = uc_required_paths u, uc_forbidden_paths = uc_forbidden_paths u, uc_depends_on = uc_depends_on u,
    uc_input_refs = uc_input_refs u, uc_acceptance_criteria = uc_acceptance_criteria u, uc_constraints = uc_constraints u,
    uc_non_goals = uc_non_goals u, uc_policy_refs = uc_policy_refs u, uc_skill_refs = uc_skill_refs u,
    uc_parallel_group = uc_parallel_group u, uc_output_key = uc_output_key u, uc_slot = uc_slot u,
    uc_requirement_ids = uc_requirement_ids u, uc_wave = uc_wave u, uc_owned_files = uc_owned_files u,
    uc_provides = uc_provides u, uc_consumes = uc_consumes u, uc_provided_symbols = uc_provided_symbols u,
    uc_required_symbols = uc_required_symbols u\<rparr> = u"
  by (cases u) simp

lemma parse_unit_again:
  assumes "unit_ok u"
  shows "parse_unit (unit_as_dict u) = Inr u"
proof -
  let ?d = "unit_as_dict u"
  have cl: "clean (uc_allowed_paths u)" "clean (uc_required_paths u)" "clean (uc_forbidden_paths u)" "clean (uc_depends_on u)"
    "clean (uc_input_refs u)" "clean (uc_acceptance_criteria u)" "clean (uc_constraints u)" "clean (uc_non_goals u)"
    "clean (uc_policy_refs u)" "clean (uc_skill_refs u)" "clean (uc_requirement_ids u)" "clean (uc_owned_files u)"
    "clean (uc_provides u)" "clean (uc_consumes u)" "clean (uc_provided_symbols u)" "clean (uc_required_symbols u)"
    and co: "clean_opt (uc_parallel_group u)" "clean_opt (uc_output_key u)" "clean_opt (uc_slot u)"
    and st: "stripped (uc_id u)" "stripped (uc_layer u)" "stripped (uc_objective u)"
    and mk: "mk_unit u = Inr u"
    and wave: "optional_int (case uc_wave u of None \<Rightarrow> JNull | Some i \<Rightarrow> JInt i) = Inr (uc_wave u)"
    using assms by (simp_all add: unit_ok_def)
  have strs: "strings_field ?d ''allowed_paths'' d = Inr (uc_allowed_paths u)" "strings_field ?d ''forbidden_paths'' d = Inr (uc_forbidden_paths u)"
    "strings_field ?d ''depends_on'' d = Inr (uc_depends_on u)" "strings_field ?d ''input_refs'' d = Inr (uc_input_refs u)"
    "strings_field ?d ''acceptance_criteria'' d = Inr (uc_acceptance_criteria u)"
    "strings_field ?d ''constraints'' d = Inr (uc_constraints u)" "strings_field ?d ''non_goals'' d = Inr (uc_non_goals u)"
    "strings_field ?d ''policy_refs'' d = Inr (uc_policy_refs u)" "strings_field ?d ''skill_refs'' d = Inr (uc_skill_refs u)"
    "strings_field ?d ''requirement_ids'' d = Inr (uc_requirement_ids u)" "strings_field ?d ''owned_files'' d = Inr (uc_owned_files u)"
    "strings_field ?d ''provided_symbols'' d = Inr (uc_provided_symbols u)"
    "strings_field ?d ''required_symbols'' d = Inr (uc_required_symbols u)" for d
    by (rule strings_field_jstrs; simp add: unit_as_dict_def cl)+
  have roots: "strings_field ?d ''allowed_roots'' [] = Inr []" by (simp add: strings_field_def get_default_def unit_as_dict_def jstrs_def strings_of_def dict_fromkeys_def)
  obtain rv where rv: "coalesce_alias ?d ''required_paths'' [''required_files''] (JList []) = Inr rv" "strings_of rv = Inr (uc_required_paths u)"
    using strings_alias [of ?d "''required_paths''" "uc_required_paths u" "[''required_files'']"] cl(2) by (auto simp: unit_as_dict_def)
  obtain pv where pv: "coalesce_alias ?d ''provides_interfaces'' [''provides''] (JList []) = Inr pv" "strings_of pv = Inr (uc_provides u)"
    using strings_alias [of ?d "''provides_interfaces''" "uc_provides u" "[''provides'']"] cl(13) by (auto simp: unit_as_dict_def)
  obtain cv where cv: "coalesce_alias ?d ''consumes_interfaces'' [''consumes''] (JList []) = Inr cv" "strings_of cv = Inr (uc_consumes u)"
    using strings_alias [of ?d "''consumes_interfaces''" "uc_consumes u" "[''consumes'']"] cl(14) by (auto simp: unit_as_dict_def)
  obtain sv where sv: "coalesce_alias ?d ''slot'' [''output_slot''] JNull = Inr sv" "optional_string sv = Inr (uc_slot u)"
    using slot_alias [of ?d "''slot''" "uc_slot u" "[''output_slot'']"] co(3) by (auto simp: unit_as_dict_def)
  have opt: "optional_string (json_get_null ?d ''parallel_group'') = Inr (uc_parallel_group u)"
    "optional_string (json_get_null ?d ''output_key'') = Inr (uc_output_key u)"
    by (rule jopt_field; simp add: unit_as_dict_def co)+
  have "json_get_null ?d ''wave'' = (case uc_wave u of None \<Rightarrow> JNull | Some i \<Rightarrow> JInt i)"
    by (simp add: json_get_null_def unit_as_dict_def)
  then have w: "optional_int (json_get_null ?d ''wave'') = Inr (uc_wave u)" using wave by simp
  have names: "stripped_field ?d ''unit_id'' e = uc_id u" "stripped_field ?d ''layer'' e = uc_layer u"
    "stripped_field ?d ''objective'' e = uc_objective u" for e
    by (rule stripped_field_JStr; simp add: unit_as_dict_def st)+
  have "is_obj ?d" by (simp add: unit_as_dict_def)
  moreover have "dict_fromkeys (uc_allowed_paths u) = uc_allowed_paths u" using cl(1) by (simp add: clean_def dict_fromkeys_id)
  ultimately show ?thesis
    by (simp add: parse_unit_def strs roots rv pv cv sv opt w names unit_eta mk)
qed

lemma stripped_ends: "s \<noteq> [] \<Longrightarrow> \<not> is_space (hd s) \<Longrightarrow> \<not> is_space (last s) \<Longrightarrow> stripped s"
proof -
  assume s: "s \<noteq> []" "\<not> is_space (hd s)" "\<not> is_space (last s)"
  have "py_lstrip s = s" using s(1,2) by (cases s) (simp_all add: py_lstrip_def)
  moreover have "py_rstrip s = s" using s(1,3) by (cases s rule: rev_cases) (simp_all add: py_rstrip_def)
  ultimately show ?thesis by (simp add: stripped_def py_strip_def)
qed

lemma stripped_hd:
  assumes "stripped s" "s \<noteq> []"
  shows "\<not> is_space (hd s)"
proof
  assume h: "is_space (hd s)"
  have "length (py_strip s) \<le> length (py_lstrip s)"
    by (simp add: py_strip_def py_rstrip_def length_dropWhile_le [of is_space "rev (py_lstrip s)", simplified])
  moreover have "length (py_lstrip s) < length s"
    using h assms(2) length_dropWhile_le [of is_space "tl s"] by (cases s) (auto simp: py_lstrip_def)
  ultimately show False using assms(1) by (simp add: stripped_def)
qed

lemma root_pattern_clean:
  assumes "stripped r" "\<not> blank r"
  shows "stripped (rstrip_of (CHR ''/'') r @ ''/**'')" "\<not> blank (rstrip_of (CHR ''/'') r @ ''/**'')"
proof -
  have "r \<noteq> []" using assms(2) by auto
  have "\<not> is_space (hd (rstrip_of (CHR ''/'') r @ ''/**''))"
  proof (cases "rstrip_of (CHR ''/'') r = []")
    case True
    then show ?thesis by (simp add: is_space_def)
  next
    case False
    then have "hd (rstrip_of (CHR ''/'') r) = hd r"
      using rstrip_of_prefix [of "CHR ''/''" r] by (metis hd_append2 prefixE)
    then show ?thesis using stripped_hd [OF assms(1) \<open>r \<noteq> []\<close>] False by simp
  qed
  then show s: "stripped (rstrip_of (CHR ''/'') r @ ''/**'')"
    by (intro stripped_ends) (simp_all add: is_space_def)
  show "\<not> blank (rstrip_of (CHR ''/'') r @ ''/**'')" using s by (simp add: blank_iff_strip stripped_def)
qed

lemma clean_paths:
  assumes "clean ps" "clean rs"
  shows "clean (dict_fromkeys (ps @ map (\<lambda>r. rstrip_of (CHR ''/'') r @ ''/**'') rs))"
  using assms root_pattern_clean by (auto simp: clean_def list_all_iff)

lemma parse_unit_ok:
  assumes "parse_unit j = Inr u"
  shows "unit_ok u"
proof -
  have "is_obj j" using assms by (simp add: parse_unit_def split: if_splits)
  obtain paths roots required depends forbidden refs criteria constraints non_goals policy skill grp key slot req_ids
      wave_value wave owned provides consumes provided required_syms i l ob where
    mk: "mk_unit \<lparr>uc_id = i, uc_layer = l, uc_objective = ob,
          uc_allowed_paths = dict_fromkeys (paths @ map (\<lambda>r. rstrip_of (CHR ''/'') r @ ''/**'') roots),
          uc_required_paths = required, uc_forbidden_paths = forbidden, uc_depends_on = depends,
          uc_input_refs = refs, uc_acceptance_criteria = criteria, uc_constraints = constraints,
          uc_non_goals = non_goals, uc_policy_refs = policy, uc_skill_refs = skill,
          uc_parallel_group = grp, uc_output_key = key, uc_slot = slot,
          uc_requirement_ids = req_ids, uc_wave = wave, uc_owned_files = owned, uc_provides = provides,
          uc_consumes = consumes, uc_provided_symbols = provided, uc_required_symbols = required_syms\<rparr> = Inr u"
      (is "mk_unit ?u = _")
    and cl: "clean paths" "clean roots" "clean required" "clean forbidden" "clean depends" "clean refs" "clean criteria" "clean constraints"
      "clean non_goals" "clean policy" "clean skill" "clean req_ids" "clean owned" "clean provides" "clean consumes"
      "clean provided" "clean required_syms"
    and co: "clean_opt grp" "clean_opt key" "clean_opt slot"
    and st: "stripped i" "stripped l" "stripped ob"
    and wave: "optional_int wave_value = Inr wave"
    using assms \<open>is_obj j\<close> unfolding parse_unit_def strings_field_def
    by (simp only: if_False simp_thms bindE_Inr_iff)
      (elim exE conjE, rule that, assumption,
        (erule strings_of_clean optional_string_clean | rule stripped_stripped_field | assumption)+)
  have "u = ?u" using mk by (rule mk_unit_same)
  moreover have "clean (uc_allowed_paths ?u)" using clean_paths [OF cl(1,2)] by simp
  ultimately show ?thesis
    using mk cl(3-) co st optional_int_read [OF wave] by (simp add: unit_ok_def)
qed

section \<open>Contracts read back\<close>

definition layer_map_ok :: "layer_map \<Rightarrow> bool" where
  "layer_map_ok m \<longleftrightarrow> distinct (dict_keys m) \<and> list_all stripped (dict_keys m) \<and> list_all (clean \<circ> snd) m"

lemma clean_Nil [simp]: "clean []"
  by (simp add: clean_def)

lemma raw_layer_map_again:
  assumes "layer_map_ok m"
  shows "raw_layer_map (layer_map_as_dict m) = Inr m"
proof (cases "m = []")
  case False
  have "mapE (\<lambda>(k, x). bindE (strings_of x) (\<lambda>xs. Inr (py_strip k, xs))) (map (\<lambda>(k, xs). (k, jstrs xs)) m) = Inr (map id m)"
    using assms by (intro mapE_map) (auto simp: layer_map_ok_def list_all_iff strings_of_jstrs stripped_def split: prod.splits)
  then show ?thesis
    using False assms by (simp add: raw_layer_map_def layer_map_as_dict_def obj_items_def layer_map_ok_def dict_of_distinct)
qed (simp add: raw_layer_map_def layer_map_as_dict_def)

lemma dict_of_values:
  assumes "list_all (P \<circ> snd) kvs"
  shows "list_all (P \<circ> snd) (dict_of kvs)"
proof -
  have "list_all (P \<circ> snd) (foldl (\<lambda>d (k, v). dict_put k v d) d kvs)" if "list_all (P \<circ> snd) d" for d
    using assms that
  proof (induction kvs arbitrary: d)
    case (Cons kv kvs)
    obtain k v where kv: "kv = (k, v)" by (cases kv)
    have "list_all (P \<circ> snd) (dict_put k v d)"
      using Cons.prems kv set_dict_put [of k v d] by (auto simp: list_all_iff)
    then show ?case using Cons.IH [of "dict_put k v d"] Cons.prems by (simp add: kv comp_def)
  qed simp
  then show ?thesis by (simp add: dict_of_def)
qed

lemma raw_layer_map_values:
  assumes "raw_layer_map v = Inr m"
  shows "list_all (clean \<circ> snd) m"
proof (cases "v = JNull \<or> v = JObj []")
  case True
  then show ?thesis using assms by (simp add: raw_layer_map_def)
next
  case False
  then obtain kvs where k: "mapE (\<lambda>(k, x). bindE (strings_of x) (\<lambda>xs. Inr (py_strip k, xs))) (obj_items v) = Inr kvs"
    and m: "m = dict_of kvs"
    using assms unfolding raw_layer_map_def by (auto split: if_splits)
  have "clean (snd e)" if "e \<in> set kvs" for e
    using mapE_set [OF k that] by auto (erule strings_of_clean)
  then show ?thesis unfolding m by (intro dict_of_values) (simp add: list_all_iff)
qed

lemma normalized_values:
  assumes "normalize_layer_map v layers b = Inr m" "list_all (clean \<circ> snd) v"
  shows "list_all (clean \<circ> snd) m"
proof (cases "layers = []")
  case True
  then show ?thesis using assms by (auto simp: normalize_layer_map_def split: if_splits)
next
  case False
  let ?f = "\<lambda>l. case dict_get v l of Some xs \<Rightarrow> Inr (l, xs) | None \<Rightarrow> if b then Inr (l, []) else Inl (ValueError ''missing layer'')"
  have f: "mapE ?f layers = Inr m" using assms(1) False by (auto simp: normalize_layer_map_def split: if_splits)
  have "clean (snd e)" if e: "e \<in> set m" for e
  proof -
    obtain l where "?f l = Inr e" using mapE_set [OF f e] by blast
    then show ?thesis
      using assms(2) by (auto simp: list_all_iff simp del: not_None_eq dest!: map_of_SomeD split: option.splits if_splits)
  qed
  then show ?thesis by (simp add: list_all_iff)
qed

text \<open>What parsing a contract yields.\<close>

lemma parse_contract_cases:
  assumes "parse_contract j = Inr c"
  obtains e where "mk_contract c = Inr c" "kc_schema_version c = 1" "list_all unit_ok (kc_units c)"
    "parse_entrypoints e = Inr (kc_entrypoints c)" "clean (kc_required_files c)" "clean (kc_layers c)" "clean (kc_test_types c)"
    "layer_map_ok (kc_allowed c)" "layer_map_ok (kc_forbidden c)" "layer_map_ok (kc_paths c)"
    "\<exists>raws. mapE parse_interface raws = Inr (kc_interfaces c)"
proof -
  obtain raw_units where ru: "json_get j ''implementation_units'' = Some (JList raw_units)"
    and sv: "\<not> (\<not> is_obj j \<or> \<not> json_eq_int (json_get j ''schema_version'') 1)"
    using assms unfolding parse_contract_def by (auto split: if_splits option.splits json.splits)
  obtain units entry files raws interfaces layers allowed forbidden tests paths where
    u: "mapE parse_unit raw_units = Inr units"
    and e: "parse_entrypoints (get_default j ''entrypoints'' (json_get_null j ''entrypoint'')) = Inr entry"
    and cl: "clean files" "clean layers" "clean tests"
    and m: "raw_layer_map (get_default j ''allowed_dependencies'' (JObj [])) = Inr allowed"
      "raw_layer_map (get_default j ''forbidden_imports'' (JObj [])) = Inr forbidden"
      "raw_layer_map (get_default j ''path_mapping'' (JObj [])) = Inr paths"
    and i: "mapE parse_interface raws = Inr interfaces"
    and mk: "mk_contract \<lparr>kc_schema_version = 1, kc_units = units,
        kc_strategy = py_str (get_default j ''compilation_strategy'' (JStr ''file'')),
        kc_entrypoints = entry, kc_required_files = files, kc_interfaces = interfaces,
        kc_layers = layers, kc_allowed = allowed, kc_forbidden = forbidden, kc_test_types = tests,
        kc_paths = paths\<rparr> = Inr c" (is "mk_contract ?c = _")
    using assms sv unfolding parse_contract_def strings_field_def
    by (simp only: ru option.case json.case if_False bindE_Inr_iff) (blast intro: strings_of_clean)
  have strip: "py_strip (py_strip l) = py_strip l" for l using stripped_strip [of l] by (simp add: stripped_def)
  note again = mk_contract_again [OF mk strip]
  have f: "kc_schema_version c = 1" "kc_units c = units" "kc_entrypoints c = entry" "kc_required_files c = files"
    "kc_interfaces c = interfaces" "kc_test_types c = tests"
    "kc_layers c = dict_fromkeys (filter (\<lambda>l. l \<noteq> []) (map py_strip layers))"
    "normalize_layer_map allowed (kc_layers c) False = Inr (kc_allowed c)"
    "normalize_layer_map forbidden (kc_layers c) True = Inr (kc_forbidden c)"
    "normalize_layer_map paths (kc_layers c) False = Inr (kc_paths c)"
    using mk unfolding mk_contract_def Let_def by auto
  have "map py_strip layers = layers" by (rule map_idI) (use cl(2) in \<open>auto simp: clean_def list_all_iff stripped_def\<close>)
  moreover have "filter (\<lambda>l. l \<noteq> []) layers = layers" by (rule filter_True) (use cl(2) in \<open>auto simp: clean_def list_all_iff\<close>)
  ultimately have lay: "kc_layers c = layers" using f(7) cl(2) by (simp add: clean_def dict_fromkeys_id)
  have keys: "distinct (kc_layers c)" "list_all stripped (kc_layers c)" using cl(2) lay by (auto simp: clean_def list_all_iff)
  have "list_all unit_ok units" using mapE_set [OF u] parse_unit_ok by (auto simp: list_all_iff)
  moreover have "layer_map_ok (kc_allowed c)" "layer_map_ok (kc_forbidden c)" "layer_map_ok (kc_paths c)"
    using keys again(2-4) normalized_values [OF f(8) raw_layer_map_values [OF m(1)]]
      normalized_values [OF f(9) raw_layer_map_values [OF m(2)]] normalized_values [OF f(10) raw_layer_map_values [OF m(3)]]
    by (simp_all add: layer_map_ok_def)
  ultimately show thesis
    using that again(1) f(1-6) e cl i lay by metis
qed

lemma unit_dependencies_acyclic:
  assumes "mk_contract c0 = Inr c"
  shows "acyclic (unit_edges (kc_units c))"
proof -
  let ?deps = "map (\<lambda>u. (uc_id u, uc_depends_on u)) (kc_units c)"
  have d: "distinct (map fst ?deps)" using mk_contract_cases(1) [OF assms] by (simp add: comp_def)
  from resolve_rounds_rank [OF mk_contract_cases(6) [OF assms] d]
  obtain rank :: "string \<Rightarrow> nat" where r: "\<And>i ds d. (i, ds) \<in> set ?deps \<Longrightarrow> d \<in> set ds \<Longrightarrow> d \<in> set [] \<or> rank d < rank i"
    by auto
  have "acyclic ((unit_edges (kc_units c))\<inverse>)"
  proof (rule acyclic_of_rank)
    show "rank d < rank i" if "(d, i) \<in> (unit_edges (kc_units c))\<inverse>" for d i
      using that r by (fastforce simp: unit_edges_def)
  qed
  then show ?thesis by (simp add: acyclic_converse)
qed

lemma distinct_files:
  assumes "mk_contract c = Inr c" "list_all unit_ok (kc_units c)"
  shows "distinct (concat (map uc_owned_files (kc_units c)))"
proof (rule distinct_concat_map)
  note k = mk_contract_cases [OF assms(1)]
  obtain st where st: "foldE (claim_unit (kc_units c)) (kc_units c) ([], []) = Inr st" using k(4) by blast
  note owned = claims_owned [OF st]
  show "distinct (kc_units c)" using k(1) by (simp add: distinct_map)
  show "distinct (uc_owned_files u)" if "u \<in> set (kc_units c)" for u
    using assms(2) that by (auto simp: list_all_iff unit_ok_def clean_def)
  show "set (uc_owned_files u) \<inter> set (uc_owned_files v) = {}"
    if u: "u \<in> set (kc_units c)" and v: "v \<in> set (kc_units c)" and ne: "u \<noteq> v" for u v
  proof (rule ccontr)
    assume "set (uc_owned_files u) \<inter> set (uc_owned_files v) \<noteq> {}"
    then obtain f where "f \<in> set (uc_owned_files u)" "f \<in> set (uc_owned_files v)" by blast
    then have "uc_id u = uc_id v" using owned(1) [OF u] owned(1) [OF v] by (metis option.inject)
    then show False using k(1) u v ne by (metis distinct_map inj_onD)
  qed
qed

text \<open>C18. Every contract the parser accepts is sound: no file belongs to two units or twice to one, every owned file is
  matched by an allowed path of its unit, every dependency, interface and interface owner exists, and the
  dependencies form no cycle.\<close>

theorem parsed_contract_sound:
  assumes "parse_contract j = Inr c"
  shows "distinct (map uc_id (kc_units c)) \<and> distinct (concat (map uc_owned_files (kc_units c)))
    \<and> (\<forall>u \<in> set (kc_units c). (\<forall>f \<in> set (uc_owned_files u). list_ex (matches_path f) (uc_allowed_paths u))
        \<and> set (uc_depends_on u) \<subseteq> uc_id ` set (kc_units c)
        \<and> set (uc_provides u @ uc_consumes u) \<subseteq> if_id ` set (kc_interfaces c))
    \<and> if_owner_unit ` set (kc_interfaces c) \<subseteq> uc_id ` set (kc_units c)
    \<and> acyclic (unit_edges (kc_units c))"
  using assms
proof (rule parse_contract_cases)
  fix e
  assume mk: "mk_contract c = Inr c" and units: "list_all unit_ok (kc_units c)"
  note k = mk_contract_cases [OF mk]
  obtain st where st: "foldE (claim_unit (kc_units c)) (kc_units c) ([], []) = Inr st" using k(4) by blast
  note owned = claims_owned [OF st]
  have "distinct (concat (map uc_owned_files (kc_units c)))" using distinct_files [OF mk units] .
  moreover have "set (uc_depends_on u) \<subseteq> uc_id ` set (kc_units c)
      \<and> set (uc_provides u @ uc_consumes u) \<subseteq> if_id ` set (kc_interfaces c)" if "u \<in> set (kc_units c)" for u
    using k(5) [OF that] by (simp add: check_unit_refs_def)
  moreover have "list_ex (matches_path f) (uc_allowed_paths u)" if "u \<in> set (kc_units c)" "f \<in> set (uc_owned_files u)" for u f
    using owned(2) that by blast
  ultimately show ?thesis using k(1,7) unit_dependencies_acyclic [OF mk] by blast
qed

lemma contract_eta:
  "\<lparr>kc_schema_version = kc_schema_version c, kc_units = kc_units c, kc_strategy = kc_strategy c,
    kc_entrypoints = kc_entrypoints c, kc_required_files = kc_required_files c, kc_interfaces = kc_interfaces c,
    kc_layers = kc_layers c, kc_allowed = kc_allowed c, kc_forbidden = kc_forbidden c, kc_test_types = kc_test_types c,
    kc_paths = kc_paths c\<rparr> = c"
  by (cases c) simp

lemma parse_contract_again:
  assumes "parse_contract j = Inr c"
    and "list_all (\<lambda>i. list_all (\<lambda>h. stripped (ho_path h)) (if_operations i)) (kc_interfaces c)"
  shows "parse_contract (contract_as_dict c) = Inr c"
  using assms(1)
proof (rule parse_contract_cases)
  fix e
  assume mk: "mk_contract c = Inr c" and sv: "kc_schema_version c = 1" and units: "list_all unit_ok (kc_units c)"
    and entry: "parse_entrypoints e = Inr (kc_entrypoints c)"
    and cl: "clean (kc_required_files c)" "clean (kc_layers c)" "clean (kc_test_types c)"
    and maps: "layer_map_ok (kc_allowed c)" "layer_map_ok (kc_forbidden c)" "layer_map_ok (kc_paths c)"
    and "\<exists>raws. mapE parse_interface raws = Inr (kc_interfaces c)"
  then obtain raws where raws: "mapE parse_interface raws = Inr (kc_interfaces c)" by blast
  let ?d = "contract_as_dict c"
  have g: "is_obj ?d" "json_eq_int (json_get ?d ''schema_version'') 1"
    "json_get ?d ''implementation_units'' = Some (JList (map unit_as_dict (kc_units c)))"
    "get_default ?d ''entrypoints'' x = entrypoints_as_dict (kc_entrypoints c)"
    "get_default ?d ''interfaces'' x = JList (map interface_as_dict (kc_interfaces c))"
    "get_default ?d ''compilation_strategy'' x = JStr (kc_strategy c)"
    "get_default ?d ''allowed_dependencies'' x = layer_map_as_dict (kc_allowed c)"
    "get_default ?d ''forbidden_imports'' x = layer_map_as_dict (kc_forbidden c)"
    "get_default ?d ''path_mapping'' x = layer_map_as_dict (kc_paths c)" for x
    by (simp_all add: contract_as_dict_def get_default_def sv json_eq_int_def)
  have s: "strings_field ?d ''required_files'' d = Inr (kc_required_files c)" "strings_field ?d ''layers'' d = Inr (kc_layers c)"
    "strings_field ?d ''required_test_types'' d = Inr (kc_test_types c)" for d
    by (rule strings_field_jstrs; simp add: contract_as_dict_def cl)+
  have u: "mapE parse_unit (map unit_as_dict (kc_units c)) = Inr (kc_units c)"
    using mapE_map [of "kc_units c" parse_unit unit_as_dict id] parse_unit_again units by (simp add: list_all_iff)
  have "parse_interface (interface_as_dict i) = Inr i" if i: "i \<in> set (kc_interfaces c)" for i
  proof -
    obtain r where "parse_interface r = Inr i" using mapE_set [OF raws i] by blast
    then show ?thesis using assms(2) i by (intro parse_interface_again parse_interface_ok) (auto simp: list_all_iff)
  qed
  then have i: "mapE parse_interface (map interface_as_dict (kc_interfaces c)) = Inr (kc_interfaces c)"
    using mapE_map [of "kc_interfaces c" parse_interface interface_as_dict id] by simp
  show ?thesis
    using g(1,2) mk sv unfolding parse_contract_def g(3)
    by (simp add: g(4-) s u i iter_items_def parse_entrypoints_again [OF entry] raw_layer_map_again maps)
      (metis contract_eta sv)
qed

text \<open>C9. A saved contract is the contract that is loaded: whatever the store accepts it reads back unchanged, provided no
  path of an HTTP operation ends in white space.\<close>

theorem saved_contract_loads:
  assumes "save_contract content f = Inr (c, f')"
    and "list_all (\<lambda>i. list_all (\<lambda>h. stripped (ho_path h)) (if_operations i)) (kc_interfaces c)"
  shows "load_contract f' = Inr c \<and> contract_exists f'"
  using assms parse_contract_again by (auto simp: save_contract_def load_contract_def parse_file_def contract_exists_def)

section \<open>Examples\<close>

definition demo_unit_json :: "string \<Rightarrow> string \<Rightarrow> string list \<Rightarrow> string list \<Rightarrow> json" where
  "demo_unit_json i path depends consumes = JObj
     [(''unit_id'', JStr i), (''layer'', JStr ''domain''), (''objective'', JStr ''build it''),
      (''allowed_roots'', jstrs [path]), (''owned_files'', jstrs [path @ ''/a.py'', path @ ''/b.py'']),
      (''depends_on'', jstrs depends), (''consumes'', jstrs consumes)]"

definition demo_interface_json :: "string \<Rightarrow> json" where
  "demo_interface_json path = JObj
     [(''interface_id'', JStr ''users-api''), (''kind'', JStr ''REST''), (''name'', JStr ''users''), (''provider'', JStr ''api''),
      (''operations'', JList [JObj [(''method'', JStr ''get''), (''path'', JStr path)]])]"

definition demo_contract_json :: "string \<Rightarrow> json" where
  "demo_contract_json path = JObj
     [(''schema_version'', JInt 1), (''interfaces'', JList [demo_interface_json path]),
      (''implementation_units'', JList [demo_unit_json ''web'' ''frontend/src'' [] [''users-api''],
         demo_unit_json ''api'' ''backend/api'' [''core''] [], demo_unit_json ''core'' ''backend/core'' [] []])]"

definition demo_contract :: project_contract where
  "demo_contract = projr (parse_contract (demo_contract_json ''/users/{id}/''))"

lemma demo_contract_eq: "parse_contract (demo_contract_json ''/users/{id}/'') = Inr demo_contract"
proof -
  have "\<not> isl (parse_contract (demo_contract_json ''/users/{id}/''))" by code_simp
  then show ?thesis by (simp add: demo_contract_def sum.collapse)
qed

theorem parsed_contract_sound_witness: "acyclic (unit_edges (kc_units demo_contract)) \<and> length (kc_units demo_contract) = 3"
proof
  show "acyclic (unit_edges (kc_units demo_contract))" using parsed_contract_sound [OF demo_contract_eq] by blast
  show "length (kc_units demo_contract) = 3" by code_simp
qed

definition no_files :: contract_files where
  "no_files = \<lparr>cf_canonical = NoFile, cf_legacy = NoFile\<rparr>"

theorem saved_contract_loads_witness:
  "load_contract (no_files\<lparr>cf_canonical := JsonFile (contract_as_dict demo_contract)\<rparr>) = Inr demo_contract"
proof -
  have "save_contract (demo_contract_json ''/users/{id}/'') no_files =
      Inr (demo_contract, no_files\<lparr>cf_canonical := JsonFile (contract_as_dict demo_contract)\<rparr>)"
    by (simp add: save_contract_def demo_contract_eq)
  moreover have "list_all (\<lambda>i. list_all (\<lambda>h. py_strip (ho_path h) = ho_path h) (if_operations i)) (kc_interfaces demo_contract)"
    by code_simp
  ultimately show ?thesis using saved_contract_loads unfolding stripped_def by blast
qed

text \<open>Without that condition it is not: the slash at the end of a path is removed after the white space around it, so the
  path \<^verbatim>\<open>/users /\<close> is stored with a blank at its end and read back without it.\<close>

lemma trailing_blank_lost:
  "parse_contract (demo_contract_json ''/users /'') \<noteq> parse_contract (contract_as_dict (projr (parse_contract (demo_contract_json ''/users /''))))"
proof -
  have "map (map ho_path \<circ> if_operations) (kc_interfaces (projr (parse_contract (demo_contract_json ''/users /'')))) = [[''/users '']]"
    "map (map ho_path \<circ> if_operations) (kc_interfaces (projr (parse_contract (contract_as_dict (projr
        (parse_contract (demo_contract_json ''/users /''))))))) = [[''/users'']]"
    by code_simp+
  then show ?thesis by auto
qed

text \<open>\<open>coalesce_alias\<close> drops an empty list and an empty string that were given under the canonical name.\<close>

lemma empty_value_dropped:
  "coalesce_alias (JObj [(''provides_interfaces'', JList []), (''provides'', jstrs [''x''])]) ''provides_interfaces'' [''provides''] (JList [])
     = Inr (jstrs [''x''])"
  by code_simp

text \<open>The empty prefix of the pattern \<^verbatim>\<open>**\<close> overlaps with nothing, so a unit that may write everywhere is accepted
  beside any other, even if the other owns no files.\<close>

lemma everything_overlaps_nothing: "\<not> paths_overlap ''**'' ''backend/api/**''" "paths_overlap ''backend/**'' ''backend/api/**''"
  by code_simp+

end
