(* ===== verification/Contract_Compiler_Laws.thy ===== *)
theory Contract_Compiler_Laws
  imports Contract_Compiler Run_Laws Project_Contract_Laws
begin

text \<open>
  The waves of a contract: they exist exactly if the dependencies are known and acyclic, they are the least waves after
  the dependencies, and they are barriers of every run of the compiled plan.
\<close>

section \<open>Waves\<close>

definition wave_edges :: "wave_table \<Rightarrow> (string \<times> string) set" where
  "wave_edges t = {(i, d). \<exists>hint ds. dict_get t i = Some (hint, ds) \<and> d \<in> set ds}"

text \<open>A wave is at least the hint and after the dependencies, and no later than one of them demands.\<close>

definition is_wave :: "wave_table \<Rightarrow> (string, int) dict \<Rightarrow> string \<Rightarrow> int \<Rightarrow> bool" where
  "is_wave t memo i w \<longleftrightarrow> (\<exists>hint ds. dict_get t i = Some (hint, ds) \<and> hint \<le> w \<and> 0 \<le> w
     \<and> (\<forall>d \<in> set ds. \<exists>v. dict_get memo d = Some v \<and> v < w)
     \<and> (w = hint \<or> w = 0 \<or> (\<exists>d \<in> set ds. dict_get memo d = Some (w - 1))))"

definition waves_ok :: "wave_table \<Rightarrow> (string, int) dict \<Rightarrow> bool" where
  "waves_ok t memo \<longleftrightarrow> (\<forall>i w. dict_get memo i = Some w \<longrightarrow> is_wave t memo i w)"

definition extends :: "(string, int) dict \<Rightarrow> (string, int) dict \<Rightarrow> bool" where
  "extends memo memo' \<longleftrightarrow> (\<forall>i w. dict_get memo i = Some w \<longrightarrow> dict_get memo' i = Some w)"

lemma extends_refl [simp]: "extends memo memo"
  by (simp add: extends_def)

lemma extends_trans [trans]: "extends m m' \<Longrightarrow> extends m' m'' \<Longrightarrow> extends m m''"
  by (simp add: extends_def)

lemma extendsD: "extends m m' \<Longrightarrow> dict_get m i = Some w \<Longrightarrow> dict_get m' i = Some w"
  by (simp add: extends_def)

lemma is_wave_extends:
  assumes "is_wave t memo i w" "extends memo memo'"
  shows "is_wave t memo' i w"
proof -
  obtain hint ds where w: "dict_get t i = Some (hint, ds)" "hint \<le> w" "0 \<le> w"
    "\<forall>d \<in> set ds. \<exists>v. dict_get memo d = Some v \<and> v < w"
    "w = hint \<or> w = 0 \<or> (\<exists>d \<in> set ds. dict_get memo d = Some (w - 1))"
    using assms(1) unfolding is_wave_def by blast
  have "\<forall>d \<in> set ds. \<exists>v. dict_get memo' d = Some v \<and> v < w" using w(4) extendsD [OF assms(2)] by blast
  moreover have "w = hint \<or> w = 0 \<or> (\<exists>d \<in> set ds. dict_get memo' d = Some (w - 1))"
    using w(5) extendsD [OF assms(2)] by blast
  ultimately show ?thesis using w(1-3) unfolding is_wave_def by blast
qed

lemma extends_put:
  assumes "dict_get memo i = None"
  shows "extends memo (dict_put i w memo)"
  using assms by (auto simp: extends_def dict.get_put)

lemma waves_ok_put:
  assumes "waves_ok t memo" "dict_get memo i = None" "is_wave t memo i w"
  shows "waves_ok t (dict_put i w memo)"
proof -
  note e = extends_put [OF assms(2), of w]
  show ?thesis
    unfolding waves_ok_def
  proof (intro allI impI)
    fix j v assume "dict_get (dict_put i w memo) j = Some v"
    then have "is_wave t memo j v"
      using assms(1,3) unfolding waves_ok_def by (cases "j = i") (auto simp: dict.get_put)
    then show "is_wave t (dict_put i w memo) j v" by (rule is_wave_extends) (rule e)
  qed
qed

text \<open>What the two functions establish; the units being visited get no wave meanwhile.\<close>

lemma waves_computed:
  "wave_for t i visiting memo = Inr (v, memo') \<Longrightarrow> waves_ok t memo \<Longrightarrow>
     waves_ok t memo' \<and> extends memo memo' \<and> dict_get memo' i = Some v
     \<and> (\<forall>x \<in> set visiting. dict_get memo' x = dict_get memo x)"
  "dependency_wave t ds visiting acc memo = Inr (v, memo') \<Longrightarrow> waves_ok t memo \<Longrightarrow>
     waves_ok t memo' \<and> extends memo memo' \<and> acc \<le> v \<and> (\<forall>d \<in> set ds. \<exists>w. dict_get memo' d = Some w \<and> w < v)
     \<and> (v = acc \<or> (\<exists>d \<in> set ds. dict_get memo' d = Some (v - 1)))
     \<and> (\<forall>x \<in> set visiting. dict_get memo' x = dict_get memo x)"
proof (induction t i visiting memo and t ds visiting acc memo arbitrary: v memo' and v memo'
    rule: wave_for_dependency_wave.induct)
  case (1 t i visiting memo)
  show ?case
  proof (cases "dict_get memo i")
    case (Some w)
    then show ?thesis using 1(2,3) by simp
  next
    case None
    then obtain hint ds w memo1 where new: "i \<notin> set visiting" "dict_get t i = Some (hint, ds)"
      and d: "dependency_wave t ds (i # visiting) 0 memo = Inr (w, memo1)"
      and v: "v = max hint w" "memo' = dict_put i (max hint w) memo1"
      using 1(2) by (auto split: if_splits option.splits)
    note ih = 1(1) [OF None new(1,2) refl d 1(3)]
    have none: "dict_get memo1 i = None" using ih None by simp
    have "is_wave t memo1 i v"
      unfolding is_wave_def using new(2) ih v(1) by (intro exI conjI) (auto simp: max_def split: if_splits)
    then have "waves_ok t memo'" using ih none v by (simp add: waves_ok_put)
    moreover have "extends memo memo'" using ih extends_put [OF none] v(2) extends_trans by blast
    ultimately show ?thesis using ih new(1) v by (auto simp: dict.get_put)
  qed
next
  case (2 t visiting acc memo)
  then show ?case by simp
next
  case (3 t d ds visiting acc memo)
  from 3(3) obtain w memo1 where d: "wave_for t d visiting memo = Inr (w, memo1)"
    "dependency_wave t ds visiting (max acc (w + 1)) memo1 = Inr (v, memo')" by auto
  note h = 3(1) [OF d(1) 3(4)]
  have ok: "waves_ok t memo1" using h by blast
  note r = 3(2) [OF d(2) ok]
  have hd: "dict_get memo' d = Some w" using h r by (blast intro: extendsD)
  have "v = acc \<or> (\<exists>e \<in> set (d # ds). dict_get memo' e = Some (v - 1))"
    using r hd by (auto simp: max_def split: if_splits)
  moreover have "extends memo memo'" using h r extends_trans by blast
  ultimately show ?case using h r hd by auto
qed

lemma compute_waves_ok:
  assumes "compute_waves t = Inr memo"
  shows "waves_ok t memo" "i \<in> set (dict_keys t) \<Longrightarrow> \<exists>w. dict_get memo i = Some w \<and> is_wave t memo i w"
proof -
  let ?step = "\<lambda>i memo. bindE (wave_for t i [] memo) (\<lambda>(_, memo'). Inr memo')"
  have f: "foldE ?step (dict_keys t) [] = Inr memo" using assms by (simp add: compute_waves_def)
  show ok: "waves_ok t memo"
  proof (rule foldE_invariant [where P = "waves_ok t", OF f])
    show "waves_ok t []" by (simp add: waves_ok_def)
    show "waves_ok t m'" if ok: "waves_ok t m" and st: "?step x m = Inr m'" for x m m'
    proof -
      obtain v where "wave_for t x [] m = Inr (v, m')" using st by auto
      from waves_computed(1) [OF this ok] show ?thesis by blast
    qed
  qed
  have "waves_ok t memo \<and> dict_get memo i \<noteq> None" if i: "i \<in> set (dict_keys t)" for i
  proof -
    have "foldE ?step xs m = Inr m' \<Longrightarrow> waves_ok t m \<Longrightarrow> i \<in> set xs \<or> dict_get m i \<noteq> None \<Longrightarrow> dict_get m' i \<noteq> None"
      for xs m m'
    proof (induction xs arbitrary: m)
      case (Cons x xs)
      then obtain v m1 where s: "wave_for t x [] m = Inr (v, m1)" "foldE ?step xs m1 = Inr m'" by auto
      note h = waves_computed(1) [OF s(1) Cons.prems(2)]
      have "i \<in> set xs \<or> dict_get m1 i \<noteq> None" using Cons.prems(3) h extendsD [of m m1 i] by auto
      then show ?case using Cons.IH [OF s(2)] h by blast
    qed simp
    from this [OF f] i ok show ?thesis by (simp add: waves_ok_def)
  qed
  then show "\<exists>w. dict_get memo i = Some w \<and> is_wave t memo i w" if "i \<in> set (dict_keys t)"
    using ok that unfolding waves_ok_def by blast
qed

text \<open>When the dependencies are known and form no cycle, every wave is found: no unit that is being visited is reached again.\<close>

definition table_closed :: "wave_table \<Rightarrow> bool" where
  "table_closed t \<longleftrightarrow> (\<forall>(i, d) \<in> wave_edges t. d \<in> set (dict_keys t))"

lemma wave_edgesI: "dict_get t i = Some (hint, ds) \<Longrightarrow> d \<in> set ds \<Longrightarrow> (i, d) \<in> wave_edges t"
  by (auto simp: wave_edges_def)

lemma key_entry: "i \<in> set (dict_keys t) \<Longrightarrow> \<exists>hint ds. dict_get t i = Some (hint, ds)"
  by (metis list.set_map map_of_eq_None_iff not_None_eq surj_pair)

lemma waves_found:
  assumes "table_closed t" "acyclic (wave_edges t)"
  shows "i \<in> set (dict_keys t) \<Longrightarrow> (\<forall>x \<in> set visiting. (i, x) \<notin> (wave_edges t)\<^sup>*) \<Longrightarrow>
      \<exists>r. wave_for t i visiting memo = Inr r"
    and "set ds \<subseteq> set (dict_keys t) \<Longrightarrow> (\<forall>d \<in> set ds. \<forall>x \<in> set visiting. (d, x) \<notin> (wave_edges t)\<^sup>*) \<Longrightarrow>
      \<exists>r. dependency_wave t ds visiting acc memo = Inr r"
  using assms
proof (induction t i visiting memo and t ds visiting acc memo rule: wave_for_dependency_wave.induct)
  case (1 t i visiting memo)
  show ?case
  proof (cases "dict_get memo i")
    case None
    obtain hint ds where t: "dict_get t i = Some (hint, ds)" using key_entry [OF 1(2)] by blast
    have new: "i \<notin> set visiting" using 1(3) by auto
    have "set ds \<subseteq> set (dict_keys t)" using 1(4) wave_edgesI [OF t] unfolding table_closed_def by blast
    moreover have "\<forall>d \<in> set ds. \<forall>x \<in> set (i # visiting). (d, x) \<notin> (wave_edges t)\<^sup>*"
    proof (intro ballI notI)
      fix d x assume d: "d \<in> set ds" and x: "x \<in> set (i # visiting)" and p: "(d, x) \<in> (wave_edges t)\<^sup>*"
      have e: "(i, d) \<in> wave_edges t" using wave_edgesI [OF t d] .
      then have ix: "(i, x) \<in> (wave_edges t)\<^sup>+" using p by (rule rtrancl_into_trancl2)
      then have "x \<noteq> i" using 1(5) by (auto simp: acyclic_def)
      then show False using ix x 1(3) by (auto dest: trancl_into_rtrancl)
    qed
    ultimately obtain r where "dependency_wave t ds (i # visiting) 0 memo = Inr r"
      using 1(1) [OF None new t refl _ _ 1(4,5)] by blast
    then show ?thesis using None new t by (cases r) simp
  qed simp
next
  case (2 t visiting acc memo)
  then show ?case by simp
next
  case (3 t d ds visiting acc memo)
  obtain v m where r: "wave_for t d visiting memo = Inr (v, m)" using 3(1,3-) by auto
  have "\<exists>q. dependency_wave t ds visiting (max acc (v + 1)) m = Inr q"
    by (rule 3(2)) (use 3(3-) in auto)
  then show ?case using r by simp
qed

lemma compute_waves_total:
  assumes "table_closed t" "acyclic (wave_edges t)"
  shows "\<exists>memo. compute_waves t = Inr memo"
proof -
  have "\<exists>m'. foldE (\<lambda>i memo. bindE (wave_for t i [] memo) (\<lambda>(_, memo'). Inr memo')) xs m = Inr m'"
    if "set xs \<subseteq> set (dict_keys t)" for xs m
    using that
  proof (induction xs arbitrary: m)
    case (Cons x xs)
    obtain r where "wave_for t x [] m = Inr r" using waves_found(1) [OF assms, of x "[]" m] Cons.prems by auto
    then show ?case using Cons.IH [of "snd r"] Cons.prems by (cases r) simp
  qed simp
  then show ?thesis by (simp add: compute_waves_def)
qed

text \<open>C20. The waves exist exactly when every dependency is a unit of the table and no dependency leads back to its unit.\<close>

theorem waves_decide:
  "(\<exists>memo. compute_waves t = Inr memo) \<longleftrightarrow> table_closed t \<and> acyclic (wave_edges t)"
proof
  assume "\<exists>memo. compute_waves t = Inr memo"
  then obtain memo where c: "compute_waves t = Inr memo" by blast
  have edge: "\<exists>v w. dict_get memo d = Some v \<and> dict_get memo i = Some w \<and> v < w" if e: "(i, d) \<in> wave_edges t" for i d
  proof -
    obtain hint ds where t: "dict_get t i = Some (hint, ds)" "d \<in> set ds" using e unfolding wave_edges_def by blast
    then have "i \<in> set (dict_keys t)" using map_of_Some_key by metis
    from compute_waves_ok(2) [OF c this] t show ?thesis unfolding is_wave_def by auto
  qed
  have "table_closed t"
    unfolding table_closed_def
  proof (clarify, goal_cases)
    case (1 i d)
    then obtain v where "dict_get memo d = Some v" using edge by blast
    then have "is_wave t memo d v" using compute_waves_ok(1) [OF c] by (simp add: waves_ok_def)
    then show ?case unfolding is_wave_def by (metis map_of_Some_key)
  qed
  moreover have "acyclic ((wave_edges t)\<inverse>)"
  proof (rule acyclic_of_rank)
    show "nat (the (dict_get memo d)) < nat (the (dict_get memo i))" if "(d, i) \<in> (wave_edges t)\<inverse>" for i d
      using edge [of i d] that compute_waves_ok(1) [OF c] by (fastforce simp: waves_ok_def is_wave_def)
  qed
  then have "acyclic (wave_edges t)" by (simp add: acyclic_converse)
  ultimately show "table_closed t \<and> acyclic (wave_edges t)" ..
next
  assume "table_closed t \<and> acyclic (wave_edges t)"
  then show "\<exists>memo. compute_waves t = Inr memo" using compute_waves_total by blast
qed

definition demo_waves :: wave_table where
  "demo_waves = [(''web'', 0, [''api'']), (''api'', 1, [''domain'']), (''domain'', 0, [])]"

lemma waves_of_demo: "compute_waves demo_waves = Inr [(''domain'', 0), (''api'', 1), (''web'', 2)]"
  by code_simp

theorem waves_decide_witness: "acyclic (wave_edges demo_waves)"
  using waves_decide [of demo_waves] waves_of_demo by blast

text \<open>Each unit gets the least wave that respects its hint and its dependencies: not below the hint, after the wave of
  everything it depends on, and, unless it is the hint or the first wave, right after one of them.\<close>

theorem waves_least:
  assumes "compute_waves t = Inr memo" "dict_get t i = Some (hint, ds)"
  shows "\<exists>w. dict_get memo i = Some w \<and> max hint 0 \<le> w \<and> (\<forall>d \<in> set ds. \<exists>v. dict_get memo d = Some v \<and> v < w)
    \<and> (w = max hint 0 \<or> (\<exists>d \<in> set ds. dict_get memo d = Some (w - 1)))"
proof -
  have "i \<in> set (dict_keys t)" using assms(2) map_of_Some_key by metis
  from compute_waves_ok(2) [OF assms(1) this] obtain w where w: "dict_get memo i = Some w" "is_wave t memo i w" by blast
  then have "hint \<le> w" "0 \<le> w" "\<forall>d \<in> set ds. \<exists>v. dict_get memo d = Some v \<and> v < w"
    "w = hint \<or> w = 0 \<or> (\<exists>d \<in> set ds. dict_get memo d = Some (w - 1))"
    using assms(2) unfolding is_wave_def by auto
  then show ?thesis using w(1) by (intro exI [of _ w]) auto
qed

theorem waves_least_witness:
  "\<exists>w. dict_get [(''domain'', 0), (''api'', 1), (''web'', 2)] ''web'' = Some w \<and> (0 :: int) \<le> w"
  using waves_least [OF waves_of_demo, of "''web''" 0 "[''api'']"] by (simp add: demo_waves_def)

section \<open>The compiled items\<close>

lemma dict_of_keys: "set (dict_keys (dict_of kvs)) = fst ` set kvs"
proof -
  have "set (dict_keys (foldl (\<lambda>d (k, v). dict_put k v d) d kvs)) = fst ` set kvs \<union> set (dict_keys d)"
    for d :: "('a, 'b) dict"
    by (induction kvs arbitrary: d) (auto simp: dict_keys_put simp del: set_map split: if_splits)
  from this [of "[]"] show ?thesis by (simp add: dict_of_def)
qed

lemma set_dict_of: "set (dict_of kvs) \<subseteq> set kvs"
proof -
  have "set (foldl (\<lambda>d (k, v). dict_put k v d) d kvs) \<subseteq> set kvs \<union> set d" for d :: "('a, 'b) dict"
  proof (induction kvs arbitrary: d)
    case (Cons kv kvs)
    obtain k v where kv: "kv = (k, v)" by (cases kv)
    show ?case using Cons.IH [of "dict_put k v d"] set_dict_put [of k v d] unfolding kv by auto
  qed simp
  from this [of "[]"] show ?thesis by (simp add: dict_of_def)
qed

lemma mk_dependencies_same: "mapE mk_dependency ds = Inr deps \<Longrightarrow> deps = ds"
proof (induction ds arbitrary: deps)
  case (Cons d ds)
  then show ?case by (auto simp: mk_dependency_def)
qed simp

lemma image_appended: "f ` set (es @ filter (\<lambda>d. f d \<notin> f ` set es) bs) = f ` set es \<union> f ` set bs"
  by auto

text \<open>Whom a unit waits for: what it declares, and every unit of an earlier wave.\<close>

lemma contract_dependency_ids:
  "dep_work_item_id ` set (contract_dependencies declared waves u wave) =
     code_item_id ` (set declared \<union> {i. \<exists>w. (i, w) \<in> set waves \<and> w < wave \<and> i \<notin> set (uc_depends_on u)})"
proof -
  let ?explicit = "map (\<lambda>d. \<lparr>dep_work_item_id = code_item_id d, dep_source = SYSTEM,
      dep_rule_id = Some ''implementation-contract''\<rparr>) declared"
  let ?barrier = "map (\<lambda>(i, w). \<lparr>dep_work_item_id = code_item_id i, dep_source = SYSTEM,
      dep_rule_id = Some ''implementation-wave-barrier''\<rparr>) (filter (\<lambda>(i, w). w < wave \<and> i \<notin> set (uc_depends_on u)) waves)"
  let ?kvs = "map (\<lambda>d. (dep_work_item_id d, d)) ?barrier"
  have "dep_work_item_id ` snd ` set (dict_of ?kvs) = fst ` set (dict_of ?kvs)"
    using set_dict_of [of ?kvs] by (force simp: image_iff)
  also have "\<dots> = fst ` set ?kvs" using dict_of_keys [of ?kvs] by simp
  also have "\<dots> = code_item_id ` {i. \<exists>w. (i, w) \<in> set waves \<and> w < wave \<and> i \<notin> set (uc_depends_on u)}"
    by (force simp: image_iff)
  finally have b: "dep_work_item_id ` snd ` set (dict_of ?kvs) =
      code_item_id ` {i. \<exists>w. (i, w) \<in> set waves \<and> w < wave \<and> i \<notin> set (uc_depends_on u)}" .
  have e: "dep_work_item_id ` set ?explicit = code_item_id ` set declared" by force
  have "dep_work_item_id ` set (contract_dependencies declared waves u wave) =
      dep_work_item_id ` set ?explicit \<union> dep_work_item_id ` snd ` set (dict_of ?kvs)"
    unfolding contract_dependencies_def Let_def by (subst image_appended) (simp only: set_map)
  then show ?thesis unfolding b e by blast
qed

text \<open>The item of a unit.\<close>

definition unit_wave :: "(string, int) dict \<Rightarrow> string \<Rightarrow> int" where
  "unit_wave waves i = (case dict_get waves i of Some w \<Rightarrow> w | None \<Rightarrow> 0)"

definition unit_built :: "(string \<Rightarrow> string) \<Rightarrow> project_contract \<Rightarrow> unit_contract list \<Rightarrow> (string, int) dict
    \<Rightarrow> unit_contract \<Rightarrow> work_item \<Rightarrow> bool" where
  "unit_built sha c us waves u w \<longleftrightarrow> wi_id w = code_item_id (uc_id u) \<and> wi_wave w = unit_wave waves (uc_id u)
     \<and> wi_owned_files w = uc_owned_files u \<and> wi_unit w = Some (uc_id u) \<and> wi_agent_id w = ''code_agent''
     \<and> wi_allowed_paths w = unit_allowed (kc_entrypoints c) u \<and> wi_execution_mode w = PARTITIONED
     \<and> set (wi_dependency_ids w) = code_item_id ` (set (declared_dependencies (map uc_id (kc_units c)) (kc_interfaces c) (map uc_id us) u)
         \<union> {i. i \<in> uc_id ` set us \<and> unit_wave waves i < unit_wave waves (uc_id u) \<and> i \<notin> set (uc_depends_on u)})
     \<and> mk_work_item sha w = Inr w"

lemma unit_item_built:
  assumes "unit_item sha c trace us waves u = Inr w"
  shows "unit_built sha c us waves u w"
proof -
  let ?declared = "declared_dependencies (map uc_id (kc_units c)) (kc_interfaces c) (map uc_id us) u"
  let ?table = "map (\<lambda>i. (i, unit_wave waves i)) (map uc_id us)"
  let ?wave = "unit_wave waves (uc_id u)"
  obtain deps refs objective key where
    d: "mapE mk_dependency (contract_dependencies ?declared ?table u ?wave) = Inr deps"
    and m: "mk_work_item sha ((blank_work_item (code_item_id (uc_id u)) ''code_agent'' objective key)
        \<lparr>wi_artifact_key := Some ''implementation'', wi_dependencies := deps,
         wi_acceptance_criteria := uc_acceptance_criteria u, wi_constraints := uc_constraints u,
         wi_non_goals := uc_non_goals u, wi_execution_mode := PARTITIONED, wi_input_refs := refs,
         wi_slot := Some (unit_slot u), wi_unit := Some (uc_id u), wi_allowed_paths := unit_allowed (kc_entrypoints c) u,
         wi_forbidden_paths := project_forbidden_paths (uc_forbidden_paths u) (unit_slot u),
         wi_required_paths := unit_required (kc_entrypoints c) u, wi_policy_refs := uc_policy_refs u,
         wi_skill_refs := uc_skill_refs u, wi_requirement_ids := uc_requirement_ids u, wi_wave := ?wave,
         wi_owned_files := uc_owned_files u, wi_delivery_contract := unit_delivery c us u\<rparr>) = Inr w"
      (is "mk_work_item sha ?w0 = _")
    using assms unfolding unit_item_def Let_def unit_wave_def by (simp only: bindE_Inr_iff) blast
  have "w = ?w0\<lparr>wi_artifact_key := wi_artifact_key w, wi_required_tools := wi_required_tools w,
      wi_output_kind := wi_output_kind w, wi_contract_digest := wi_contract_digest w, wi_legacy_digest := wi_legacy_digest w\<rparr>"
    by (rule mk_work_item_shape(1) [OF m])
  then obtain a k o' h l where w: "w = ?w0\<lparr>wi_artifact_key := a, wi_required_tools := k, wi_output_kind := o',
      wi_contract_digest := h, wi_legacy_digest := l\<rparr>" by blast
  have f: "wi_id w = code_item_id (uc_id u)" "wi_wave w = ?wave" "wi_owned_files w = uc_owned_files u"
    "wi_unit w = Some (uc_id u)" "wi_agent_id w = ''code_agent''" "wi_execution_mode w = PARTITIONED"
    "wi_allowed_paths w = unit_allowed (kc_entrypoints c) u" "wi_dependencies w = deps"
    unfolding w by (simp_all add: blank_work_item_def)
  have "set (wi_dependency_ids w) = dep_work_item_id ` set (contract_dependencies ?declared ?table u ?wave)"
    using mk_dependencies_same [OF d] f(8) by (simp add: wi_dependency_ids_def)
  also have "\<dots> = code_item_id ` (set ?declared \<union>
      {i. i \<in> uc_id ` set us \<and> unit_wave waves i < ?wave \<and> i \<notin> set (uc_depends_on u)})"
    unfolding contract_dependency_ids by (rule arg_cong [of _ _ "\<lambda>X. code_item_id ` (set ?declared \<union> X)"]) auto
  finally show ?thesis using f mk_work_item_idempotent [OF m] by (simp add: unit_built_def)
qed

lemma compiled_cases:
  assumes "compile_contract sha prose c goal plan_id trace semantic = Inr p"
  obtains us waves where "implementation_units prose semantic c = Inr us"
    "compute_waves (wave_table_of c us) = Inr waves"
    "list_all2 (unit_built sha c us waves) us (pl_work_items p)" "plan_ok sha p"
proof -
  obtain us waves items where us: "implementation_units prose semantic c = Inr us"
    and w: "compute_waves (wave_table_of c us) = Inr waves"
    and i: "mapE (unit_item sha c (tc_trace_id trace) us waves) us = Inr items"
    and p: "mk_plan \<lparr>pl_id = plan_id, pl_goal = goal, pl_work_items = items,
       pl_template_id = Some ''implementation-contract'', pl_process_id = ''software_delivery'', pl_trace = trace,
       pl_validation_scope = ''full_delivery''\<rparr> = Inr p"
    using assms unfolding compile_contract_def by auto
  have l: "list_all2 (unit_built sha c us waves) us items"
    using i [THEN mapE_Inr_iff [THEN iffD1]] by (rule list_all2_mono) (rule unit_item_built)
  have items: "pl_work_items p = items" "mk_plan p = Inr p" using mk_plan_checks(1) [OF p] p by simp_all
  have "mk_work_item sha v = Inr v" if "v \<in> set items" for v
    using list_all2_member2 [OF l that] by (auto simp: unit_built_def)
  then have "plan_ok sha p" using items by (simp add: plan_ok_def)
  then show thesis using that [OF us w] l items(1) by simp
qed

text \<open>C3. Waves are barriers of every run: in a compiled plan an item waits for every item of an earlier wave, so in a
  consistent run an item becomes ready only when all items of the earlier waves have completed.\<close>

theorem waves_are_barriers:
  assumes "compile_contract sha prose c goal plan_id trace semantic = Inr p"
    and "rs_plan s = p" "w \<in> set (ready_items s)" "v \<in> set (pl_work_items p)" "wi_wave v < wi_wave w"
  shows "wi_id v \<in> set (wi_dependency_ids w) \<and> is_completed (rs_results s) (wi_id v)"
proof -
  from assms(1) obtain us waves where l: "list_all2 (unit_built sha c us waves) us (pl_work_items p)"
    by (rule compiled_cases)
  have w: "w \<in> set (pl_work_items p)" "list_all (is_completed (rs_results s)) (wi_dependency_ids w)"
    using assms(2,3) by (simp_all add: ready_item_facts)
  obtain x where x: "x \<in> set us" "unit_built sha c us waves x w" using list_all2_member2 [OF l w(1)] by blast
  obtain y where y: "y \<in> set us" "unit_built sha c us waves y v" using list_all2_member2 [OF l assms(4)] by blast
  have "uc_id y \<in> set (declared_dependencies (map uc_id (kc_units c)) (kc_interfaces c) (map uc_id us) x)
      \<or> uc_id y \<notin> set (uc_depends_on x)"
    by (auto simp: declared_dependencies_def)
  then have "wi_id v \<in> set (wi_dependency_ids w)" using x y assms(5) by (auto simp: unit_built_def)
  then show ?thesis using w(2) by (auto simp: list_all_iff)
qed

section \<open>Who writes which file\<close>

lemma child_unit_owned: "child_unit prose u np = Inr v \<Longrightarrow> uc_owned_files v = [snd np]"
  by (cases np) (auto simp: child_unit_def dest: mk_unit_same)

lemma expand_unit_owned:
  assumes "expand_unit prose u = Inr vs"
  shows "concat (map uc_owned_files vs) = uc_owned_files u"
proof (cases "vs = [u]")
  case False
  then have m: "mapE (child_unit prose u) (enumerate 0 (uc_owned_files u)) = Inr vs"
    using assms by (auto simp: expand_unit_def split: if_splits)
  have "list_all2 (\<lambda>np v. uc_owned_files v = [snd np]) (enumerate 0 (uc_owned_files u)) vs"
    using m [THEN mapE_Inr_iff [THEN iffD1]] by (rule list_all2_mono) (rule child_unit_owned)
  then have "concat (map uc_owned_files vs) = map snd (enumerate 0 (uc_owned_files u))"
    by (induction rule: list_all2_induct) auto
  then show ?thesis by simp
qed simp

lemma rewrite_deps_owned: "rewrite_deps children source u = Inr v \<Longrightarrow> uc_owned_files v = uc_owned_files u"
  by (auto simp: rewrite_deps_def dest!: mk_unit_same split: option.splits)

lemma split_owned:
  assumes "split_file_units prose us = Inr vs"
  shows "concat (map uc_owned_files vs) = concat (map uc_owned_files us)"
proof -
  obtain groups children source where g: "mapE (expand_unit prose) us = Inr groups"
    and r: "mapE (rewrite_deps children source) (concat groups) = Inr vs"
    using assms by (auto simp: split_file_units_def Let_def)
  have "list_all2 (\<lambda>u v. uc_owned_files v = uc_owned_files u) (concat groups) vs"
    using r [THEN mapE_Inr_iff [THEN iffD1]] by (rule list_all2_mono) (rule rewrite_deps_owned)
  then have v: "map uc_owned_files vs = map uc_owned_files (concat groups)" by (induction rule: list_all2_induct) auto
  have "list_all2 (\<lambda>u vs. concat (map uc_owned_files vs) = uc_owned_files u) us groups"
    using g [THEN mapE_Inr_iff [THEN iffD1]] by (rule list_all2_mono) (rule expand_unit_owned)
  then have "concat (map uc_owned_files (concat groups)) = concat (map uc_owned_files us)"
    by (induction rule: list_all2_induct) auto
  then show ?thesis by (simp only: v)
qed

lemma compiled_owned:
  assumes "implementation_units prose semantic c = Inr us"
  shows "concat (map uc_owned_files us) = concat (map uc_owned_files (filter (\<lambda>u. \<not> is_review_unit u) (kc_units c)))"
  using assms split_owned by (auto simp: implementation_units_def Let_def split: if_splits)

lemma distinct_concat_filter: "distinct (concat (map f xs)) \<Longrightarrow> distinct (concat (map f (filter P xs)))"
  by (induction xs) auto

text \<open>In \<open>file\<close> mode every unit is left with one file at most.\<close>

definition keeps_units :: "bool option \<Rightarrow> project_contract \<Rightarrow> bool" where
  "keeps_units semantic c = (case semantic of None \<Rightarrow> kc_strategy c = ''semantic'' | Some b \<Rightarrow> b)"

lemma expand_unit_single:
  assumes "expand_unit prose u = Inr vs" "v \<in> set vs"
  shows "length (uc_owned_files v) \<le> 1"
proof (cases "length (uc_owned_files u) \<le> 1")
  case True
  then show ?thesis using assms by (auto simp: expand_unit_def split: if_splits)
next
  case False
  then have "mapE (child_unit prose u) (enumerate 0 (uc_owned_files u)) = Inr vs"
    using assms(1) by (auto simp: expand_unit_def split: if_splits)
  from mapE_set [OF this assms(2)] show ?thesis using child_unit_owned by fastforce
qed

lemma split_single:
  assumes "split_file_units prose us = Inr vs" "v \<in> set vs"
  shows "length (uc_owned_files v) \<le> 1"
proof -
  obtain groups children source where g: "mapE (expand_unit prose) us = Inr groups"
    and r: "mapE (rewrite_deps children source) (concat groups) = Inr vs"
    using assms(1) by (auto simp: split_file_units_def Let_def)
  obtain x where x: "x \<in> set (concat groups)" "rewrite_deps children source x = Inr v" using mapE_set [OF r assms(2)] by blast
  then obtain g' where g': "g' \<in> set groups" "x \<in> set g'" by auto
  moreover obtain u where "expand_unit prose u = Inr g'" using mapE_set [OF g g'(1)] by blast
  ultimately show ?thesis using expand_unit_single rewrite_deps_owned [OF x(2)] by metis
qed

text \<open>C8. The compiled items partition the files of the contract: no file is owned by two items or twice by one, and
  every file a unit owns, other than a review unit, is owned by an item. Unless units are kept whole,
  an item owns one file at most.\<close>

theorem code_items_partition_files:
  assumes "parse_contract j = Inr c" "compile_contract sha prose c goal plan_id trace semantic = Inr p"
  shows "distinct (concat (map wi_owned_files (pl_work_items p)))
    \<and> set (concat (map wi_owned_files (pl_work_items p))) =
        (\<Union>u \<in> {u \<in> set (kc_units c). \<not> is_review_unit u}. set (uc_owned_files u))
    \<and> (keeps_units semantic c \<or> list_all (\<lambda>w. length (wi_owned_files w) \<le> 1) (pl_work_items p))"
  using assms(2)
proof (rule compiled_cases)
  fix us waves
  assume us: "implementation_units prose semantic c = Inr us" and l: "list_all2 (unit_built sha c us waves) us (pl_work_items p)"
  have "map wi_owned_files (pl_work_items p) = map uc_owned_files us"
    using l by (induction rule: list_all2_induct) (auto simp: unit_built_def)
  then have f: "concat (map wi_owned_files (pl_work_items p)) =
      concat (map uc_owned_files (filter (\<lambda>u. \<not> is_review_unit u) (kc_units c)))"
    using compiled_owned [OF us] by simp
  obtain e where mk: "mk_contract c = Inr c" and units: "list_all unit_ok (kc_units c)"
    using assms(1) by (rule parse_contract_cases)
  have "distinct (concat (map uc_owned_files (kc_units c)))" using distinct_files [OF mk units] .
  then have "distinct (concat (map uc_owned_files (filter (\<lambda>u. \<not> is_review_unit u) (kc_units c))))"
    by (rule distinct_concat_filter)
  moreover have "list_all (\<lambda>w. length (wi_owned_files w) \<le> 1) (pl_work_items p)" if "\<not> keeps_units semantic c"
  proof -
    have s: "split_file_units prose (filter (\<lambda>u. \<not> is_review_unit u) (kc_units c)) = Inr us"
      using us that by (simp add: implementation_units_def keeps_units_def Let_def split: option.splits)
    have "length (wi_owned_files w) \<le> 1" if w: "w \<in> set (pl_work_items p)" for w
    proof -
      obtain u where "u \<in> set us" "unit_built sha c us waves u w" using list_all2_member2 [OF l w] by blast
      then show ?thesis using split_single [OF s] by (simp add: unit_built_def)
    qed
    then show ?thesis by (simp add: list_all_iff)
  qed
  ultimately show ?thesis unfolding f by auto
qed

section \<open>An example\<close>

definition keep_objective :: "string \<Rightarrow> string \<Rightarrow> string \<Rightarrow> string" where
  "keep_objective role path objective = objective"

definition small_unit :: "string \<Rightarrow> string list \<Rightarrow> string list \<Rightarrow> json" where
  "small_unit i files depends = JObj
     [(''unit_id'', JStr i), (''layer'', JStr ''d''), (''objective'', JStr ''o''), (''allowed_paths'', jstrs files),
      (''owned_files'', jstrs files), (''depends_on'', jstrs depends), (''input_refs'', JList [])]"

definition small_json :: json where
  "small_json = JObj [(''schema_version'', JInt 1),
     (''implementation_units'', JList [small_unit ''u'' [''a'', ''b''] [], small_unit ''v'' [''c''] [''u'']])]"

definition small_contract :: project_contract where
  "small_contract = projr (parse_contract small_json)"

lemma small_contract_eq: "parse_contract small_json = Inr small_contract"
proof -
  have "\<not> isl (parse_contract small_json)" by code_simp
  then show ?thesis by (simp add: small_contract_def sum.collapse)
qed

definition small_plan :: plan where
  "small_plan = projr (compile_contract demo_sha keep_objective small_contract ''ship'' ''p-1'' demo_trace None)"

lemma small_plan_eq: "compile_contract demo_sha keep_objective small_contract ''ship'' ''p-1'' demo_trace None = Inr small_plan"
proof -
  have "\<not> isl (compile_contract demo_sha keep_objective small_contract ''ship'' ''p-1'' demo_trace None)" by code_simp
  then show ?thesis by (simp add: small_plan_def sum.collapse)
qed

theorem code_items_partition_files_witness: "distinct (concat (map wi_owned_files (pl_work_items small_plan)))"
  using code_items_partition_files [OF small_contract_eq small_plan_eq] by blast

definition small_run :: run_state where
  "small_run = (new_run small_plan)\<lparr>rs_results := map (\<lambda>w. (wi_id w, demo_done w)) (take 2 (pl_work_items small_plan))\<rparr>"

lemma small_items:
  "map (\<lambda>w. (wi_id w, wi_wave w, wi_dependency_ids w)) (pl_work_items small_plan) =
     [(''wi-code-u-a'', 0, []), (''wi-code-u-b'', 0, []), (''wi-code-v'', 1, [''wi-code-u-a'', ''wi-code-u-b''])]"
  by code_simp

lemma small_ready: "map wi_id (ready_items small_run) = [''wi-code-v'']"
  by code_simp

theorem waves_are_barriers_witness:
  "is_completed (rs_results small_run) ''wi-code-u-a'' \<and> is_completed (rs_results small_run) ''wi-code-u-b''"
proof -
  obtain a b w where items: "pl_work_items small_plan = [a, b, w]" "wi_id a = ''wi-code-u-a''" "wi_id b = ''wi-code-u-b''"
    "wi_id w = ''wi-code-v''" "wi_wave a = 0" "wi_wave b = 0" "wi_wave w = 1"
    using small_items by (auto simp: map_eq_Cons_conv)
  have s: "rs_plan small_run = small_plan" by (simp add: small_run_def new_run_def)
  obtain r where r: "r \<in> set (ready_items small_run)" "wi_id r = ''wi-code-v''" using small_ready by (auto simp: map_eq_Cons_conv)
  then have "r \<in> set (pl_work_items small_plan)" using s by (simp add: ready_items_def)
  then have "r = w" using items r(2) by auto
  then have "w \<in> set (ready_items small_run)" using r(1) by simp
  note barrier = waves_are_barriers [OF small_plan_eq s this]
  show ?thesis using barrier [of a] barrier [of b] items by simp
qed

end
