(* ===== verification/Blueprint_Laws.thy ===== *)
theory Blueprint_Laws
  imports Blueprint Contract_Compiler_Laws
begin

text \<open>
  What an expansion promises: the waves of a checked blueprint exist, the expanded plan is well formed and keeps the
  items of the plan, and its order binds every run; and what the steps of the runner keep.
\<close>

section \<open>Waves\<close>

definition module_table :: "architecture_blueprint \<Rightarrow> wave_table" where
  "module_table b = map (\<lambda>m. (bm_id m, 0, bm_depends m)) (bl_modules b)"

lemma module_table_get:
  "distinct (module_ids b) \<Longrightarrow> m \<in> set (bl_modules b) \<Longrightarrow> dict_get (module_table b) (bm_id m) = Some (0, bm_depends m)"
  unfolding module_table_def module_ids_def by (rule map_of_is_SomeI) (auto simp: comp_def)

lemma module_table_keys: "dict_keys (module_table b) = module_ids b"
  by (simp add: module_table_def module_ids_def)

lemma module_table_entry:
  "dict_get (module_table b) i = Some (hint, ds) \<Longrightarrow> \<exists>m \<in> set (bl_modules b). bm_id m = i \<and> bm_depends m = ds"
  unfolding module_table_def by (drule map_of_SomeD) auto

lemma validated_modules:
  assumes "validate_blueprint b = Inr ()"
  shows "distinct (module_ids b)" "length (bl_modules b) \<le> max_modules"
    "\<And>m. m \<in> set (bl_modules b) \<Longrightarrow> set (bm_depends m) \<subseteq> set (module_ids b) \<and> bm_id m \<notin> set (bm_depends m)
       \<and> \<not> blank (or_empty (bm_purpose m))"
    "resolve_rounds (map (\<lambda>m. (bm_id m, bm_depends m)) (bl_modules b)) [] = Inr ()"
  using assms by (auto simp: validate_blueprint_def for_each_Inr_iff check_module_def bindE_Inr_unit)

lemma checked_table:
  assumes "validate_blueprint b = Inr ()"
  shows "table_closed (module_table b)" "acyclic (wave_edges (module_table b))"
proof -
  note v = validated_modules [OF assms]
  have edge: "\<exists>m \<in> set (bl_modules b). bm_id m = i \<and> d \<in> set (bm_depends m)" if "(i, d) \<in> wave_edges (module_table b)" for i d
    using that by (auto simp: wave_edges_def dest!: module_table_entry)
  show "table_closed (module_table b)"
    unfolding table_closed_def using edge v(3) by (fastforce simp: module_table_keys)
  have "distinct (map fst (map (\<lambda>m. (bm_id m, bm_depends m)) (bl_modules b)))" using v(1) by (simp add: module_ids_def comp_def)
  from resolve_rounds_rank [OF v(4) this] obtain f :: "string \<Rightarrow> nat" where
    f: "\<forall>m \<in> set (bl_modules b). \<forall>d \<in> set (bm_depends m). f d < f (bm_id m)" by auto
  have "acyclic ((wave_edges (module_table b))\<inverse>)"
    by (rule acyclic_of_rank [of _ f]) (use f edge in blast)
  then show "acyclic (wave_edges (module_table b))" by (simp add: acyclic_converse)
qed

text \<open>
  The check of a blueprint suffices for its waves: of a blueprint that passes it, the waves exist (the error for a
  cycle that their computation can raise is never raised), and every module comes after those it depends on.
\<close>

theorem checked_blueprint_has_waves:
  assumes "validate_blueprint b = Inr ()"
  shows "\<exists>waves. module_waves b = Inr waves \<and> list_all (\<lambda>m. list_all (\<lambda>d.
     (case (dict_get waves d, dict_get waves (bm_id m)) of (Some v, Some w) \<Rightarrow> 0 \<le> v \<and> v < w | _ \<Rightarrow> False)) (bm_depends m))
     (bl_modules b)"
proof -
  obtain waves where w: "compute_waves (module_table b) = Inr waves" using compute_waves_total [OF checked_table [OF assms]] by blast
  have "\<exists>v u. dict_get waves d = Some v \<and> dict_get waves (bm_id m) = Some u \<and> 0 \<le> v \<and> v < u"
    if m: "m \<in> set (bl_modules b)" and d: "d \<in> set (bm_depends m)" for m d
  proof -
    have "bm_id m \<in> set (dict_keys (module_table b))" using m by (simp add: module_table_keys module_ids_def)
    from compute_waves_ok(2) [OF w this] obtain u where u: "dict_get waves (bm_id m) = Some u"
        "is_wave (module_table b) waves (bm_id m) u" by blast
    then obtain v where v: "dict_get waves d = Some v" "v < u"
      using module_table_get [OF validated_modules(1) [OF assms] m] d unfolding is_wave_def by auto
    have "0 \<le> v" using compute_waves_ok(1) [OF w] v(1) by (auto simp: waves_ok_def is_wave_def)
    with u v show ?thesis by blast
  qed
  then have "list_all (\<lambda>m. list_all (\<lambda>d.
     (case (dict_get waves d, dict_get waves (bm_id m)) of (Some v, Some w) \<Rightarrow> 0 \<le> v \<and> v < w | _ \<Rightarrow> False)) (bm_depends m))
     (bl_modules b)"
    by (fastforce simp: list_all_iff)
  with w show ?thesis by (simp add: module_waves_def module_table_def)
qed

section \<open>Built items\<close>

lemma system_dependencies:
  "mapE (\<lambda>d. system_dependency rule (f d)) xs = Inr ds \<Longrightarrow> map dep_work_item_id ds = map f xs"
proof (induction xs arbitrary: ds)
  case (Cons x xs)
  then show ?case by (auto simp: system_dependency_def mk_dependency_def)
qed simp

lemma system_dependency_id: "system_dependency rule i = Inr d \<Longrightarrow> dep_work_item_id d = i"
  by (auto simp: system_dependency_def mk_dependency_def)

lemma first_dependencies_ids:
  "dep_work_item_id ` set (first_dependencies seen ds) = dep_work_item_id ` set ds - set seen"
  by (induction seen ds rule: first_dependencies.induct) auto

lemma module_item_built:
  assumes "module_item sha tx p b parent ref waves m = Inr w"
  shows "wi_id w = module_item_id (bm_id m) \<and> wi_agent_id w = ''architecture_agent'' \<and> is_module_item w
    \<and> wi_dependency_ids w = parent # map module_item_id (bm_depends m) \<and> dict_get waves (bm_id m) = Some (wi_wave w)
    \<and> mk_work_item sha w = Inr w"
proof -
  from assms obtain first deps refs wave where d: "system_dependency ''architecture_blueprint:module'' parent = Inr first"
      "mapE (\<lambda>d. system_dependency ''architecture_module:depends_on_modules'' (module_item_id d)) (bm_depends m) = Inr deps"
      "wave_of waves (bm_id m) = Inr wave"
    and w: "mk_work_item sha ((blank_work_item (module_item_id (bm_id m)) ''architecture_agent'' (tx (bm_id m) ''objective'')
         (''architecture_module_'' @ safe_component (bm_id m)))
       \<lparr>wi_stage_id := Some ''architecture_module'', wi_artifact_key := Some ''architecture'',
        wi_dependencies := first # deps,
        wi_acceptance_criteria := map (tx (bm_id m)) [''criterion-1'', ''criterion-2'', ''criterion-3''],
        wi_constraints := map (tx (bm_id m)) [''constraint-1'', ''constraint-2''],
        wi_execution_mode := PARTITIONED, wi_input_refs := ref # refs, wi_slot := Some (module_slot (bm_id m)),
        wi_output_kind := Some ''ModuleDesign'', wi_requirement_ids := bm_requirement_ids m, wi_wave := wave,
        wi_delivery_contract := design_delivery 1 (module_slot (bm_id m)) (bl_design_id b) m\<rparr>) = Inr w"
    by (auto simp: module_item_def)
  have "wi_id w = module_item_id (bm_id m)" "wi_agent_id w = ''architecture_agent''" "wi_dependencies w = first # deps"
      "wi_stage_id w = Some ''architecture_module''" "wi_wave w = wave"
    by (subst mk_work_item_shape(1) [OF w], simp add: blank_work_item_def)+
  then show ?thesis
    using system_dependency_id [OF d(1)] system_dependencies [OF d(2)] d(3) mk_work_item_idempotent [OF w]
    by (auto simp: wi_dependency_ids_def is_module_item_def wave_of_def split: option.splits)
qed

lemma implementation_item_built:
  assumes "implementation_item sha tx p producers designs ref waves m = Inr w"
  shows "wi_id w = implementation_item_id (bm_id m) \<and> wi_agent_id w = ''architecture_agent'' \<and> is_implementation_item w
    \<and> (\<exists>i. dict_get producers (bm_id m) = Some i \<and> wi_dependency_ids w = [i]) \<and> mk_work_item sha w = Inr w"
proof -
  from assms obtain i refs dep wave and d :: module_design where d: "producer_of producers (bm_id m) = Inr i"
      "system_dependency ''architecture_module:implementation'' i = Inr dep"
    and w: "mk_work_item sha ((blank_work_item (implementation_item_id (bm_id m)) ''architecture_agent'' (tx (bm_id m) ''objective'')
         (''architecture_implementation_'' @ safe_component (bm_id m)))
       \<lparr>wi_stage_id := Some ''architecture_implementation'', wi_artifact_key := Some ''architecture'',
        wi_dependencies := [dep],
        wi_acceptance_criteria := map (tx (bm_id m)) [''criterion-1'', ''criterion-2'', ''criterion-3'', ''criterion-4'', ''criterion-5''],
        wi_constraints := map (tx (bm_id m)) [''constraint-1'', ''constraint-2'', ''constraint-3''],
        wi_execution_mode := PARTITIONED, wi_input_refs := ref # refs, wi_slot := Some (implementation_slot (bm_id m)),
        wi_output_kind := Some ''ImplementationDesign'', wi_requirement_ids := bm_requirement_ids m, wi_wave := wave,
        wi_delivery_contract := design_delivery 2 (implementation_slot (bm_id m)) (md_id d) m\<rparr>) = Inr w"
    unfolding implementation_item_def bindE_Inr_iff by (elim exE conjE) (rule that, assumption+)
  have "wi_id w = implementation_item_id (bm_id m)" "wi_agent_id w = ''architecture_agent''" "wi_dependencies w = [dep]"
      "wi_stage_id w = Some ''architecture_implementation''"
    by (subst mk_work_item_shape(1) [OF w], simp add: blank_work_item_def)+
  then show ?thesis
    using system_dependency_id [OF d(2)] d(1) mk_work_item_idempotent [OF w]
    by (auto simp: wi_dependency_ids_def is_implementation_item_def producer_of_def split: option.splits)
qed

lemma integration_awaits_built:
  assumes "integration_awaits sha rule awaited refs w = Inr w'"
  shows "wi_id w' = wi_id w \<and> set (wi_dependency_ids w') = set (wi_dependency_ids w) \<union> set awaited
    \<and> wi_agent_id w' = wi_agent_id w \<and> wi_slot w' = wi_slot w \<and> wi_stage_id w' = wi_stage_id w \<and> mk_work_item sha w' = Inr w'"
proof -
  from assms obtain deps where d: "mapE (system_dependency rule) awaited = Inr deps"
    and m: "mk_work_item sha (w\<lparr>wi_dependencies := first_dependencies [] (wi_dependencies w @ deps),
       wi_input_refs := add_refs (wi_input_refs w) refs, wi_contract_digest := None\<rparr>) = Inr w'"
    by (auto simp: integration_awaits_def)
  have f: "wi_id w' = wi_id w" "wi_dependencies w' = first_dependencies [] (wi_dependencies w @ deps)"
      "wi_agent_id w' = wi_agent_id w" "wi_slot w' = wi_slot w" "wi_stage_id w' = wi_stage_id w"
    by (subst mk_work_item_shape(1) [OF m], simp)+
  have "dep_work_item_id ` set deps = set awaited"
    using arg_cong [OF system_dependencies [of rule "\<lambda>x. x", OF d], of set] by simp
  then show ?thesis
    using f mk_work_item_idempotent [OF m] by (simp add: wi_dependency_ids_def first_dependencies_ids image_Un)
qed

section \<open>Expanded plans\<close>

lemma check_integration_item: "check_integration p i = Inr w \<Longrightarrow> w \<in> set (pl_work_items p) \<and> wi_id w = i"
  by (auto simp: check_integration_def plan_item_def split: option.splits if_splits dest: find_item_Some)

lemma check_blueprint_item_id: "check_blueprint_item p i = Inr w \<Longrightarrow> w \<in> set (pl_work_items p) \<and> wi_id w = i"
  by (auto simp: check_blueprint_item_def plan_item_def split: option.splits if_splits dest: find_item_Some)

text \<open>
  \<open>extended sha p target awaited added q\<close>: \<open>q\<close> is \<open>p\<close> with the items \<open>added\<close> behind it; an item of \<open>p\<close> is as it was,
  except that the item \<open>target\<close>, if any, also waits for \<open>awaited\<close>, and that items of the contract stage read more.
\<close>

definition kept_item :: "string option \<Rightarrow> string list \<Rightarrow> work_item \<Rightarrow> work_item \<Rightarrow> bool" where
  "kept_item target awaited v w \<longleftrightarrow> wi_id w = wi_id v \<and> wi_agent_id w = wi_agent_id v \<and> wi_slot w = wi_slot v
     \<and> wi_stage_id w = wi_stage_id v \<and> (if target = Some (wi_id v)
       then set (wi_dependency_ids w) = set (wi_dependency_ids v) \<union> set awaited
       else wi_dependency_ids w = wi_dependency_ids v \<and> (wi_stage_id v = Some ''contract'' \<or> w = v))"

definition extended ::
  "(string \<Rightarrow> string) \<Rightarrow> plan \<Rightarrow> string option \<Rightarrow> string list \<Rightarrow> work_item list \<Rightarrow> plan \<Rightarrow> bool" where
  "extended sha p target awaited added q \<longleftrightarrow> (\<exists>items. pl_work_items q = items @ added
       \<and> list_all2 (kept_item target awaited) (pl_work_items p) items
       \<and> (plan_ok sha p \<longrightarrow> list_all (\<lambda>w. mk_work_item sha w = Inr w) items))
     \<and> list_all (\<lambda>w. mk_work_item sha w = Inr w) added \<and> mk_plan q = Inr q
     \<and> pl_trace q = pl_trace p \<and> pl_id q = pl_id p \<and> pl_template_id q = pl_template_id p
     \<and> pl_validation_scope q = ''full_delivery''"

lemma kept_item_refl [simp]: "target \<noteq> Some (wi_id v) \<Longrightarrow> kept_item target awaited v v"
  by (simp add: kept_item_def)

lemma expanded_plan_facts:
  assumes "expanded_plan p items = Inr q"
  shows "mk_plan q = Inr q \<and> pl_work_items q = items \<and> pl_trace q = pl_trace p
     \<and> pl_id q = pl_id p \<and> pl_template_id q = pl_template_id p \<and> pl_validation_scope q = ''full_delivery''"
proof -
  have m: "mk_plan (p\<lparr>pl_work_items := items, pl_validation_scope := ''full_delivery''\<rparr>) = Inr q"
    using assms by (simp add: expanded_plan_def)
  then have "q = p\<lparr>pl_work_items := items, pl_validation_scope := ''full_delivery''\<rparr>" by (rule mk_plan_checks(1))
  with m show ?thesis by simp
qed

lemma same_item:
  assumes "distinct (map wi_id items)" "v \<in> set items" "w \<in> set items" "wi_id v = wi_id w"
  shows "v = w"
  using assms by (auto simp: distinct_map inj_on_def)

lemma modules_awaited_ids: "modules_awaited sha p b ref target = Inr items \<Longrightarrow> map wi_id items = map wi_id (pl_work_items p)"
  by (auto simp: modules_awaited_def dest!: check_integration_item integration_awaits_built split: option.splits)

lemma modules_awaited_kept:
  assumes "modules_awaited sha p b ref target = Inr items" "distinct (map wi_id (pl_work_items p))"
  shows "list_all2 (kept_item target (map module_item_id (module_ids b))) (pl_work_items p) items
    \<and> (plan_ok sha p \<longrightarrow> list_all (\<lambda>w. mk_work_item sha w = Inr w) items)"
proof (cases target)
  case None
  then show ?thesis using assms by (auto simp: modules_awaited_def list_all2_same plan_ok_def list_all_iff)
next
  case (Some i)
  then obtain w refs w' where w: "check_integration p i = Inr w"
      "integration_awaits sha ''architecture_blueprint:all_modules'' (map module_item_id (module_ids b)) refs w = Inr w'"
      "items = map (\<lambda>v. if wi_id v = i then w' else v) (pl_work_items p)"
    using assms by (auto simp: modules_awaited_def)
  note c = check_integration_item [OF w(1)] and k = integration_awaits_built [OF w(2)]
  have "kept_item target (map module_item_id (module_ids b)) v (if wi_id v = i then w' else v)"
    if "v \<in> set (pl_work_items p)" for v
    using same_item [OF assms(2) that, of w] c k Some by (auto simp: kept_item_def)
  then have "list_all2 (kept_item target (map module_item_id (module_ids b))) (pl_work_items p) items"
    unfolding w(3) list_all2_map2 by (simp add: list_all2_same)
  moreover have "plan_ok sha p \<longrightarrow> list_all (\<lambda>w. mk_work_item sha w = Inr w) items"
    using k unfolding w(3) by (auto simp: plan_ok_def list_all_iff)
  ultimately show ?thesis ..
qed

lemma contract_item_rebuilt:
  assumes "mk_work_item sha (v\<lparr>wi_input_refs := refs, wi_contract_digest := None\<rparr>) = Inr w"
  shows "wi_id w = wi_id v \<and> wi_agent_id w = wi_agent_id v \<and> wi_slot w = wi_slot v \<and> wi_stage_id w = wi_stage_id v
    \<and> wi_dependency_ids w = wi_dependency_ids v \<and> mk_work_item sha w = Inr w"
proof -
  have "wi_id w = wi_id v" "wi_agent_id w = wi_agent_id v" "wi_slot w = wi_slot v" "wi_stage_id w = wi_stage_id v"
      "wi_dependencies w = wi_dependencies v"
    by (subst mk_work_item_shape(1) [OF assms], simp)+
  then show ?thesis using mk_work_item_idempotent [OF assms] by (simp add: wi_dependency_ids_def)
qed

lemma list_all2_mapE: "mapE f xs = Inr ys \<Longrightarrow> (\<And>x y. x \<in> set xs \<Longrightarrow> f x = Inr y \<Longrightarrow> R x y) \<Longrightarrow> list_all2 R xs ys"
  unfolding mapE_Inr_iff by (auto elim: list.rel_mono_strong)

lemma implementations_awaited_ids:
  assumes "implementations_awaited sha p b added target = Inr items"
  shows "map wi_id items = map wi_id (pl_work_items p)"
proof (cases target)
  case (Some w)
  then obtain refs w' where w: "integration_awaits sha ''architecture_implementation:all_modules''
            (map implementation_item_id (module_ids b)) refs w = Inr w'"
    and m: "mapE (\<lambda>v. if wi_id v = wi_id w then Inr w'
                  else if wi_stage_id v = Some ''contract''
                  then mk_work_item sha (v\<lparr>wi_input_refs := add_refs (wi_input_refs w) refs, wi_contract_digest := None\<rparr>)
                  else Inr v) (pl_work_items p) = Inr items"
    using assms by (auto simp: implementations_awaited_def)
  have "list_all2 (\<lambda>v x. wi_id x = wi_id v) (pl_work_items p) items"
    using m by (rule list_all2_mapE)
      (use integration_awaits_built [OF w] in \<open>auto split: if_splits dest: contract_item_rebuilt\<close>)
  then show ?thesis by (induction rule: list_all2_induct) auto
qed (use assms in \<open>simp add: implementations_awaited_def\<close>)

lemma implementations_awaited_kept:
  assumes "implementations_awaited sha p b added target = Inr items" "distinct (map wi_id (pl_work_items p))"
    and "\<And>w. target = Some w \<Longrightarrow> w \<in> set (pl_work_items p)"
  shows "list_all2 (kept_item (map_option wi_id target) (map implementation_item_id (module_ids b))) (pl_work_items p) items
    \<and> (plan_ok sha p \<longrightarrow> list_all (\<lambda>w. mk_work_item sha w = Inr w) items)"
proof (cases target)
  case None
  then show ?thesis using assms by (auto simp: implementations_awaited_def list_all2_same plan_ok_def list_all_iff)
next
  case (Some w)
  then obtain refs w' where w: "integration_awaits sha ''architecture_implementation:all_modules''
            (map implementation_item_id (module_ids b)) refs w = Inr w'"
    and m: "mapE (\<lambda>v. if wi_id v = wi_id w then Inr w'
                  else if wi_stage_id v = Some ''contract''
                  then mk_work_item sha (v\<lparr>wi_input_refs := add_refs (wi_input_refs w) refs, wi_contract_digest := None\<rparr>)
                  else Inr v) (pl_work_items p) = Inr items"
    using assms by (auto simp: implementations_awaited_def)
  note k = integration_awaits_built [OF w]
  have l: "list_all2 (\<lambda>v x. kept_item (map_option wi_id target) (map implementation_item_id (module_ids b)) v x
      \<and> (mk_work_item sha v = Inr v \<longrightarrow> mk_work_item sha x = Inr x)) (pl_work_items p) items"
    using m
  proof (rule list_all2_mapE)
    fix v x
    assume v: "v \<in> set (pl_work_items p)"
      and x: "(if wi_id v = wi_id w then Inr w' else if wi_stage_id v = Some ''contract''
                  then mk_work_item sha (v\<lparr>wi_input_refs := add_refs (wi_input_refs w) refs, wi_contract_digest := None\<rparr>)
                  else Inr v) = Inr x"
    show "kept_item (map_option wi_id target) (map implementation_item_id (module_ids b)) v x
      \<and> (mk_work_item sha v = Inr v \<longrightarrow> mk_work_item sha x = Inr x)"
    proof (cases "wi_id v = wi_id w")
      case True
      then have "v = w" using same_item [OF assms(2) v] assms(3) [OF Some] by blast
      with x k Some show ?thesis by (simp add: kept_item_def)
    next
      case False
      with x show ?thesis
        using contract_item_rebuilt Some by (auto simp: kept_item_def split: if_splits)
    qed
  qed
  have "mk_work_item sha x = Inr x" if "plan_ok sha p" "x \<in> set items" for x
    using list_all2_member2 [OF l that(2)] that(1) by (auto simp: plan_ok_def)
  moreover have "list_all2 (kept_item (map_option wi_id target) (map implementation_item_id (module_ids b))) (pl_work_items p) items"
    using l by (rule list_all2_mono) simp
  ultimately show ?thesis by (simp add: list_all_iff)
qed

lemma expand_modules_cases:
  assumes "expand_modules sha tx p b bid target revision = Inr x"
  obtains w added ref waves where "validate_blueprint b = Inr ()" "check_blueprint_item p bid = Inr w"
    "list_all2 (\<lambda>m v. module_item sha tx p b bid ref waves m = Inr v) (bl_modules b) added"
    "extended sha p target (map module_item_id (module_ids b)) added (ex_plan x)" "ex_added x = map wi_id added"
    "set (map wi_id (pl_work_items p)) \<inter> set (map module_item_id (module_ids b)) = {}"
proof -
  obtain w waves ref added items q where h: "validate_blueprint b = Inr ()" "check_blueprint_item p bid = Inr w"
      "mapE (module_item sha tx p b (wi_id w) ref waves) (bl_modules b) = Inr added"
      "modules_awaited sha p b ref target = Inr items" "expanded_plan p (items @ added) = Inr q"
      "ex_plan x = q" "ex_added x = map wi_id added"
      "set (map wi_id (pl_work_items p)) \<inter> set (map module_item_id (module_ids b)) = {}"
    using assms unfolding expand_modules_def bindE_Inr_unit unfolding bindE_Inr_iff
    by (elim exE conjE) (rule that, assumption+, auto)
  note q = expanded_plan_facts [OF h(5)] and bid = check_blueprint_item_id [OF h(2)]
  have l: "list_all2 (\<lambda>m v. module_item sha tx p b bid ref waves m = Inr v) (bl_modules b) added"
    using h(3) bid by (simp add: mapE_Inr_iff)
  have "distinct (map wi_id (items @ added))" using q mk_plan_checks(2) by metis
  then have "distinct (map wi_id (pl_work_items p))" using modules_awaited_ids [OF h(4)] by simp
  from modules_awaited_kept [OF h(4) this] have k: "list_all2 (kept_item target (map module_item_id (module_ids b))) (pl_work_items p) items"
      "plan_ok sha p \<longrightarrow> list_all (\<lambda>w. mk_work_item sha w = Inr w) items" by auto
  have "list_all (\<lambda>w. mk_work_item sha w = Inr w) added"
    using module_item_built list_all2_member2 [OF l] by (fastforce simp: list_all_iff)
  then have "extended sha p target (map module_item_id (module_ids b)) added (ex_plan x)"
    unfolding extended_def using q k h(6) by auto
  then show thesis using that h l by blast
qed

lemma expand_implementations_cases:
  assumes "expand_implementations sha tx p b ds bid supplied target revision = Inr x"
  obtains w designs producers added ref waves where "validate_blueprint b = Inr ()" "check_blueprint_item p bid = Inr w"
    "collect_designs b ds = Inr designs" "module_producers p supplied b = Inr producers"
    "list_all2 (\<lambda>m v. implementation_item sha tx p producers designs ref waves m = Inr v) (bl_modules b) added"
    "extended sha p target (map implementation_item_id (module_ids b)) added (ex_plan x)" "ex_added x = map wi_id added"
    "set (map wi_id (pl_work_items p)) \<inter> set (map implementation_item_id (module_ids b)) = {}"
proof -
  obtain w t designs producers waves ref added items q where h: "validate_blueprint b = Inr ()" "check_blueprint_item p bid = Inr w"
      "(case target of None \<Rightarrow> Inr None | Some i \<Rightarrow> bindE (check_integration p i) (\<lambda>v. Inr (Some v))) = Inr t"
      "collect_designs b ds = Inr designs" "module_producers p supplied b = Inr producers"
      "mapE (implementation_item sha tx p producers designs ref waves) (bl_modules b) = Inr added"
      "implementations_awaited sha p b added t = Inr items" "expanded_plan p (items @ added) = Inr q"
      "ex_plan x = q" "ex_added x = map wi_id added"
      "set (map wi_id (pl_work_items p)) \<inter> set (map implementation_item_id (module_ids b)) = {}"
    using assms unfolding expand_implementations_def bindE_Inr_unit unfolding bindE_Inr_iff
    by (elim exE conjE) (rule that, assumption+, auto)
  have t: "map_option wi_id t = target" "\<And>v. t = Some v \<Longrightarrow> v \<in> set (pl_work_items p)"
    using h(3) check_integration_item by (auto split: option.splits)
  note q = expanded_plan_facts [OF h(8)]
  have l: "list_all2 (\<lambda>m v. implementation_item sha tx p producers designs ref waves m = Inr v) (bl_modules b) added"
    using h(6) by (simp add: mapE_Inr_iff)
  have "distinct (map wi_id (items @ added))" using q mk_plan_checks(2) by metis
  then have "distinct (map wi_id (pl_work_items p))" using implementations_awaited_ids [OF h(7)] by simp
  from implementations_awaited_kept [OF h(7) this t(2)]
  have k: "list_all2 (kept_item target (map implementation_item_id (module_ids b))) (pl_work_items p) items"
      "plan_ok sha p \<longrightarrow> list_all (\<lambda>w. mk_work_item sha w = Inr w) items" by (auto simp: t(1))
  have "list_all (\<lambda>w. mk_work_item sha w = Inr w) added"
    using implementation_item_built list_all2_member2 [OF l] by (fastforce simp: list_all_iff)
  then have "extended sha p target (map implementation_item_id (module_ids b)) added (ex_plan x)"
    unfolding extended_def using q k h(9) by auto
  then show thesis using that h l by blast
qed

lemma extended_plan_ok: "extended sha p target awaited added q \<Longrightarrow> plan_ok sha p \<Longrightarrow> plan_ok sha q"
  by (auto simp: extended_def plan_ok_def list_all_iff)

lemma extended_target:
  assumes "extended sha p (Some i) awaited added q" "w \<in> set (pl_work_items q)" "wi_id w = i" "i \<in> set (map wi_id (pl_work_items p))"
  shows "set awaited \<subseteq> set (wi_dependency_ids w)"
proof -
  obtain items where q: "pl_work_items q = items @ added" "list_all2 (kept_item (Some i) awaited) (pl_work_items p) items" "mk_plan q = Inr q"
    using assms(1) by (auto simp: extended_def)
  obtain v where v: "v \<in> set (pl_work_items p)" "wi_id v = i" using assms(4) by auto
  obtain w' where w': "w' \<in> set items" "kept_item (Some i) awaited v w'" using list_all2_member1 [OF q(2) v(1)] by blast
  then have "w' = w"
    using same_item [OF mk_plan_checks(2) [OF q(3)], of w' w] q(1) assms(2,3) v(2) by (auto simp: kept_item_def)
  with w'(2) v(2) show ?thesis by (auto simp: kept_item_def)
qed

lemma completed_dependencies:
  assumes "w \<in> set (ready_items s)" "set ds \<subseteq> set (wi_dependency_ids w)"
  shows "list_all (is_completed (rs_results s)) ds"
  using assms by (auto simp: ready_item_facts list_all_iff)

text \<open>
  C11. An expansion by modules orders every run of the expanded plan: the item of a module is ready only when the blueprint and
  the modules it depends on have completed, and the integration of the architecture only when every module has.
\<close>

theorem module_expansion_orders_runs:
  assumes "expand_modules sha tx p b bid target revision = Inr x"
    and "rs_plan s = ex_plan x" "w \<in> set (ready_items s)"
  shows "(target = Some (wi_id w) \<longrightarrow> list_all (\<lambda>i. is_completed (rs_results s) (module_item_id i)) (module_ids b))
    \<and> (wi_id w \<in> set (ex_added x) \<longrightarrow> is_completed (rs_results s) bid \<and> (\<exists>m \<in> set (bl_modules b).
         wi_id w = module_item_id (bm_id m) \<and> list_all (\<lambda>i. is_completed (rs_results s) (module_item_id i)) (bm_depends m)))"
  using assms(1)
proof (cases rule: expand_modules_cases)
  case (1 v added ref waves)
  obtain items where q: "pl_work_items (ex_plan x) = items @ added" "mk_plan (ex_plan x) = Inr (ex_plan x)"
    using 1(4) by (auto simp: extended_def)
  have w: "w \<in> set (pl_work_items (ex_plan x))" using assms(2,3) by (simp add: ready_item_facts)
  have "list_all (\<lambda>i. is_completed (rs_results s) (module_item_id i)) (module_ids b)" if t: "target = Some (wi_id w)"
  proof -
    have "wi_id w \<in> set (map wi_id (pl_work_items p))"
    proof -
      obtain u where "check_integration p (wi_id w) = Inr u"
        using assms(1) t by (auto simp: expand_modules_def modules_awaited_def)
      from check_integration_item [OF this] show ?thesis by (metis imageI list.set_map)
    qed
    from extended_target [OF 1(4) [unfolded t] w refl this] completed_dependencies [OF assms(3)]
    show ?thesis by (fastforce simp: list_all_iff)
  qed
  moreover have "is_completed (rs_results s) bid \<and> (\<exists>m \<in> set (bl_modules b).
         wi_id w = module_item_id (bm_id m) \<and> list_all (\<lambda>i. is_completed (rs_results s) (module_item_id i)) (bm_depends m))"
    if a: "wi_id w \<in> set (ex_added x)"
  proof -
    from a 1(5) obtain u where u: "u \<in> set added" "wi_id u = wi_id w" by auto
    then have "u = w" using same_item [OF mk_plan_checks(2) [OF q(2)], of u w] q(1) w by auto
    with u list_all2_member2 [OF 1(3)] obtain m where m: "m \<in> set (bl_modules b)" "module_item sha tx p b bid ref waves m = Inr w"
      by blast
    note k = module_item_built [OF m(2)]
    have "list_all (is_completed (rs_results s)) (bid # map module_item_id (bm_depends m))"
      by (rule completed_dependencies [OF assms(3)]) (use k in simp)
    with k m(1) show ?thesis by (auto simp: list_all_iff)
  qed
  ultimately show ?thesis by blast
qed


text \<open>Both expansions forget the validation scope of the plan.\<close>

lemma expansion_resets_scope:
  "expand_modules sha tx p b bid target revision = Inr x \<Longrightarrow> pl_validation_scope (ex_plan x) = ''full_delivery''"
  "expand_implementations sha tx p b ds bid supplied target revision = Inr x \<Longrightarrow> pl_validation_scope (ex_plan x) = ''full_delivery''"
  by (auto elim!: expand_modules_cases expand_implementations_cases simp: extended_def)

section \<open>The steps of the runner\<close>

lemma extended_keeps_run:
  assumes "extended sha p target awaited added q" "rs_plan s = p" "run_ok s"
    and fresh: "set (map wi_id added) \<inter> set (map wi_id (pl_work_items p)) = {}"
    and open': "\<And>i. target = Some i \<Longrightarrow> i \<notin> set (dict_keys (rs_results s))"
  shows "run_ok (s\<lparr>rs_plan := q\<rparr>)"
proof -
  obtain items where q: "pl_work_items q = items @ added" "list_all2 (kept_item target awaited) (pl_work_items p) items"
    using assms(1) by (auto simp: extended_def)
  have ok: "results_ok p (rs_results s)" "deps_closed p (rs_results s)" "forced_ok s"
    using assms(2,3) by (simp_all add: run_ok_def)
  have image: "\<exists>w \<in> set (pl_work_items q). wi_id w = wi_id v \<and> wi_agent_id w = wi_agent_id v" if "v \<in> set (pl_work_items p)" for v
    using list_all2_member1 [OF q(2) that] q(1) by (auto simp: kept_item_def)
  have "results_ok q (rs_results s)"
    unfolding results_ok_def
  proof (intro conjI ballI, goal_cases)
    case (2 x)
    then have "case x of (i, r) \<Rightarrow> \<exists>v \<in> set (pl_work_items p). wi_id v = i \<and> nr_work_item_id r = i \<and> nr_agent_id r = wi_agent_id v"
      using ok(1) unfolding results_ok_def by blast
    then obtain i r v where v: "x = (i, r)" "v \<in> set (pl_work_items p)" "wi_id v = i" "nr_work_item_id r = i" "nr_agent_id r = wi_agent_id v"
      by (cases x) auto
    from image [OF v(2)] v show ?case by auto
  qed (use ok(1) in \<open>simp add: results_ok_def\<close>)
  moreover have "deps_closed q (rs_results s)"
    unfolding deps_closed_def
  proof (intro ballI impI)
    fix w assume w: "w \<in> set (pl_work_items q)" and recorded: "wi_id w \<in> set (dict_keys (rs_results s))"
    obtain r where "(wi_id w, r) \<in> set (rs_results s)" using recorded by auto
    then have "case (wi_id w, r) of (i, r) \<Rightarrow> \<exists>v \<in> set (pl_work_items p). wi_id v = i \<and> nr_work_item_id r = i \<and> nr_agent_id r = wi_agent_id v"
      using ok(1) unfolding results_ok_def by blast
    then have "wi_id w \<in> set (map wi_id (pl_work_items p))" by auto (metis imageI)
    then have "w \<in> set items" using w q(1) fresh by auto
    from list_all2_member2 [OF q(2) this] obtain v where v: "v \<in> set (pl_work_items p)" "kept_item target awaited v w" by blast
    then have "wi_dependency_ids w = wi_dependency_ids v" "wi_id w = wi_id v"
      using open' recorded by (auto simp: kept_item_def split: if_splits)
    then show "list_all (is_completed (rs_results s)) (wi_dependency_ids w)"
      using ok(2) v(1) recorded by (simp add: deps_closed_def)
  qed
  moreover have "wi_id ` set (pl_work_items p) \<subseteq> wi_id ` set (pl_work_items q)"
  proof
    fix i assume "i \<in> wi_id ` set (pl_work_items p)"
    then obtain v where "v \<in> set (pl_work_items p)" "i = wi_id v" by blast
    then show "i \<in> wi_id ` set (pl_work_items q)" using image [of v] by (metis imageI)
  qed
  then have "forced_ok (s\<lparr>rs_plan := q\<rparr>)" using ok(3) assms(2) by (auto simp: forced_ok_def)
  ultimately show ?thesis by (simp add: run_ok_def)
qed

lemma expand_modules_fresh:
  assumes "expand_modules sha tx p b bid target revision = Inr x"
  shows "set (ex_added x) \<inter> set (map wi_id (pl_work_items p)) = {}" "ex_added x = map module_item_id (module_ids b)"
proof -
  from assms obtain w added ref waves where l: "list_all2 (\<lambda>m v. module_item sha tx p b bid ref waves m = Inr v) (bl_modules b) added"
    and a: "ex_added x = map wi_id added" "set (map wi_id (pl_work_items p)) \<inter> set (map module_item_id (module_ids b)) = {}"
    by (rule expand_modules_cases)
  have ids: "map wi_id added = map module_item_id (module_ids b)"
    using l unfolding module_ids_def by (induction rule: list_all2_induct) (auto dest: module_item_built)
  show "set (ex_added x) \<inter> set (map wi_id (pl_work_items p)) = {}" using ids a by auto
  show "ex_added x = map module_item_id (module_ids b)" using ids a(1) by simp
qed

lemma apply_expansion_cases:
  assumes "apply_expansion s r = (res, s')"
  shows "(\<exists>x. r = Inr x \<and> res = Inr None \<and> s' = s\<lparr>rs_plan := ex_plan x\<rparr>) \<or> s' = s \<and> res \<noteq> Inr None"
  using assms by (auto simp: apply_expansion_def split: sum.splits if_splits)

lemma expand_modules_if_ready_cases:
  assumes "expand_modules_if_ready sha tx load revision traces s = (res, s')"
  shows "s' = s \<or> (\<exists>bid b target n x r. load r = Inr (Blueprint_Design b) \<and> is_completed (rs_results s) bid
    \<and> target = map_option wi_id (integration_node (rs_plan s)) \<and> res = Inr None
    \<and> expand_modules sha tx (rs_plan s) b bid target n = Inr x \<and> s' = s\<lparr>rs_plan := ex_plan x\<rparr>)"
proof (cases "blueprint_node (rs_plan s)")
  case None
  then show ?thesis using assms by (simp add: expand_modules_if_ready_def Let_def)
next
  case (Some w)
  show ?thesis
  proof (cases "\<not> traces \<or> list_ex is_module_item (pl_work_items (rs_plan s)) \<or> \<not> is_completed (rs_results s) (wi_id w)")
    case True
    then show ?thesis using assms Some by (simp add: expand_modules_if_ready_def Let_def split: if_splits)
  next
    case go: False
    show ?thesis
    proof (cases "bindE (blueprint_ref (rs_plan s) w) (\<lambda>r. bindE revision (\<lambda>n. Inr (r, n)))")
      case (Inl e)
      then show ?thesis using assms Some go by (simp add: expand_modules_if_ready_def Let_def)
    next
      case (Inr rn)
      obtain r n where rn: "rn = (r, n)" by force
      have "apply_expansion s (bindE (load_blueprint load r) (\<lambda>b.
               expand_modules sha tx (rs_plan s) b (wi_id w) (map_option wi_id (integration_node (rs_plan s))) n)) = (res, s')"
        using assms Some go Inr rn by (simp add: expand_modules_if_ready_def Let_def)
      from apply_expansion_cases [OF this] show ?thesis
      proof
        assume "\<exists>x. bindE (load_blueprint load r) (\<lambda>b.
               expand_modules sha tx (rs_plan s) b (wi_id w) (map_option wi_id (integration_node (rs_plan s))) n) = Inr x
             \<and> res = Inr None \<and> s' = s\<lparr>rs_plan := ex_plan x\<rparr>"
        then obtain x b where x: "load_blueprint load r = Inr b"
            "expand_modules sha tx (rs_plan s) b (wi_id w) (map_option wi_id (integration_node (rs_plan s))) n = Inr x"
            "res = Inr None" "s' = s\<lparr>rs_plan := ex_plan x\<rparr>" by auto
        obtain d where "load r = Inr d" "(case d of Blueprint_Design b \<Rightarrow> Inr b | _ \<Rightarrow> Inl (ValueError ''no blueprint'')) = Inr b"
          using x(1) by (auto simp: load_blueprint_def)
        then have "load r = Inr (Blueprint_Design b)" by (cases d) auto
        with x go show ?thesis by blast
      qed simp
    qed
  qed
qed

lemma expand_implementations_fresh:
  assumes "expand_implementations sha tx p b ds bid supplied target revision = Inr x"
  shows "set (ex_added x) \<inter> set (map wi_id (pl_work_items p)) = {}" "ex_added x = map implementation_item_id (module_ids b)"
proof -
  from assms obtain w designs producers added ref waves where
      l: "list_all2 (\<lambda>m v. implementation_item sha tx p producers designs ref waves m = Inr v) (bl_modules b) added"
    and a: "ex_added x = map wi_id added" "set (map wi_id (pl_work_items p)) \<inter> set (map implementation_item_id (module_ids b)) = {}"
    by (rule expand_implementations_cases)
  have ids: "map wi_id added = map implementation_item_id (module_ids b)"
    using l unfolding module_ids_def by (induction rule: list_all2_induct) (auto dest: implementation_item_built)
  show "set (ex_added x) \<inter> set (map wi_id (pl_work_items p)) = {}" using ids a by auto
  show "ex_added x = map implementation_item_id (module_ids b)" using ids a(1) by simp
qed

lemma expand_implementations_if_ready_cases:
  assumes "expand_implementations_if_ready sha tx load revision traces s = (res, s')"
  shows "s' = s \<or> (\<exists>b ds bid supplied n x.
     expand_implementations sha tx (rs_plan s) b ds bid supplied (map_option wi_id (integration_node (rs_plan s))) n = Inr x
     \<and> s' = s\<lparr>rs_plan := ex_plan x\<rparr>)"
proof (cases "blueprint_node (rs_plan s)")
  case None
  then show ?thesis using assms by (simp add: expand_implementations_if_ready_def Let_def)
next
  case w: (Some w)
  show ?thesis
  proof (cases "integration_node (rs_plan s)")
    case None
    then show ?thesis using assms w by (simp add: expand_implementations_if_ready_def Let_def)
  next
    case target: (Some target)
    show ?thesis
    proof (cases "s' = s")
      case changed: False
      define stop where "stop \<longleftrightarrow> \<not> traces \<or> module_items (rs_plan s) = [] \<or> list_ex is_implementation_item (pl_work_items (rs_plan s))
        \<or> \<not> list_all (\<lambda>v. is_completed (rs_results s) (wi_id v)) (module_items (rs_plan s)) \<or> \<not> is_completed (rs_results s) (wi_id w)"
      define start where "start = bindE (blueprint_ref (rs_plan s) w) (\<lambda>r. bindE revision (\<lambda>n. Inr (r, n)))"
      define build where "build = (\<lambda>(r, n). bindE (load_blueprint load r) (\<lambda>b.
               bindE (mapE (load_module load (rs_plan s)) (module_items (rs_plan s))) (\<lambda>ds.
               expand_implementations sha tx (rs_plan s) b (map fst ds) (wi_id w)
                 (dict_of (map (\<lambda>(d, i). (md_module d, i)) ds)) (Some (wi_id target)) n)))"
      have "(if stop then (Inr None, s) else (case start of Inl e \<Rightarrow> (Inl e, s) | Inr rn \<Rightarrow> apply_expansion s (build rn))) = (res, s')"
        using assms unfolding expand_implementations_if_ready_def Let_def stop_def start_def build_def w target
          split_def fst_conv snd_conv option.case by assumption
      then obtain rn where "apply_expansion s (build rn) = (res, s')" using changed by (auto split: if_splits sum.splits)
      with apply_expansion_cases [of s "build rn"] changed obtain x where x: "build rn = Inr x" "s' = s\<lparr>rs_plan := ex_plan x\<rparr>" by blast
      obtain r n where rn: "rn = (r, n)" by force
      from x(1) obtain b ds where "expand_implementations sha tx (rs_plan s) b (map fst ds) (wi_id w)
          (dict_of (map (\<lambda>(d, i). (md_module d, i)) ds)) (Some (wi_id target)) n = Inr x"
        unfolding build_def rn by auto
      then have "expand_implementations sha tx (rs_plan s) b (map fst ds) (wi_id w)
          (dict_of (map (\<lambda>(d, i). (md_module d, i)) ds)) (map_option wi_id (integration_node (rs_plan s))) n = Inr x"
        using target by simp
      with x(2) show ?thesis by blast
    qed simp
  qed
qed

text \<open>The integration of the architecture has not been recorded.\<close>

definition integration_open :: "run_state \<Rightarrow> bool" where
  "integration_open s \<longleftrightarrow> (case integration_node (rs_plan s) of
     None \<Rightarrow> True | Some w \<Rightarrow> wi_id w \<notin> set (dict_keys (rs_results s)))"

lemma expansion_keeps_run:
  assumes "extended sha (rs_plan s) (map_option wi_id (integration_node (rs_plan s))) awaited added (ex_plan x)"
    and "ex_added x = map wi_id added" "set (ex_added x) \<inter> set (map wi_id (pl_work_items (rs_plan s))) = {}"
    and "run_ok s" "plan_ok sha (rs_plan s)" "integration_open s" "s' = s\<lparr>rs_plan := ex_plan x\<rparr>"
  shows "run_ok s' \<and> plan_ok sha (rs_plan s') \<and> s' = s\<lparr>rs_plan := rs_plan s'\<rparr>"
proof -
  have "run_ok s'" unfolding assms(7)
    by (rule extended_keeps_run [OF assms(1) refl assms(4)]) (use assms(2,3,6) in \<open>auto simp: integration_open_def split: option.splits\<close>)
  moreover have "plan_ok sha (rs_plan s')" using extended_plan_ok [OF assms(1,5)] by (simp add: assms(7))
  ultimately show ?thesis by (simp add: assms(7))
qed

lemma module_step:
  assumes "expand_modules_if_ready sha tx load revision traces s = (res, s')" "run_ok s" "plan_ok sha (rs_plan s)" "integration_open s"
  shows "run_ok s' \<and> plan_ok sha (rs_plan s') \<and> s' = s\<lparr>rs_plan := rs_plan s'\<rparr>"
proof (cases "s' = s")
  case False
  with expand_modules_if_ready_cases [OF assms(1)] obtain bid b n x where
      x: "expand_modules sha tx (rs_plan s) b bid (map_option wi_id (integration_node (rs_plan s))) n = Inr x"
      "s' = s\<lparr>rs_plan := ex_plan x\<rparr>" by blast
  from x(1) show ?thesis
    by (rule expand_modules_cases) (rule expansion_keeps_run [OF _ _ expand_modules_fresh(1) [OF x(1)] assms(2-4) x(2)])
qed (use assms in simp)

lemma implementation_step:
  assumes "expand_implementations_if_ready sha tx load revision traces s = (res, s')" "run_ok s" "plan_ok sha (rs_plan s)" "integration_open s"
  shows "run_ok s' \<and> plan_ok sha (rs_plan s') \<and> s' = s\<lparr>rs_plan := rs_plan s'\<rparr>"
proof (cases "s' = s")
  case False
  with expand_implementations_if_ready_cases [OF assms(1)] obtain b ds bid supplied n x where
      x: "expand_implementations sha tx (rs_plan s) b ds bid supplied (map_option wi_id (integration_node (rs_plan s))) n = Inr x"
      "s' = s\<lparr>rs_plan := ex_plan x\<rparr>" by blast
  from x(1) show ?thesis
    by (rule expand_implementations_cases)
      (rule expansion_keeps_run [OF _ _ expand_implementations_fresh(1) [OF x(1)] assms(2-4) x(2)])
qed (use assms in simp)


section \<open>Examples\<close>

definition seed_texts :: "string \<Rightarrow> string \<Rightarrow> string" where
  "seed_texts i k = k"

definition seed_blueprint :: architecture_blueprint where
  "seed_blueprint = \<lparr>bl_design_id = ''d'', bl_depth = 0, bl_layers = [''l''],
     bl_modules = [\<lparr>bm_id = ''a'', bm_purpose = Some ''p'', bm_depends = [''b''], bm_requirement_ids = []\<rparr>,
       \<lparr>bm_id = ''b'', bm_purpose = Some ''p'', bm_depends = [], bm_requirement_ids = []\<rparr>], bl_dump = []\<rparr>"

definition seed_merge :: work_item where
  "seed_merge = projr (mk_work_item demo_sha
     ((blank_work_item ''wi-3'' ''architecture_agent'' ''merge'' ''architecture_candidate'')
       \<lparr>wi_artifact_key := Some ''architecture'', wi_execution_mode := INTEGRATION,
        wi_publish_target := Some ''architecture'', wi_stage_id := Some ''architecture_integration'',
        wi_input_refs := [projr (ref_staged ''architecture'' ''tr-1'' ''wi-1'' ''blueprint'')],
        wi_dependencies := [\<lparr>dep_work_item_id = ''wi-1'', dep_source = SYSTEM, dep_rule_id = None\<rparr>]\<rparr>))"

definition seed_plan :: plan where
  "seed_plan = \<lparr>pl_id = ''plan-1'', pl_goal = ''goal'', pl_work_items = [demo_blueprint, seed_merge], pl_template_id = None,
     pl_process_id = ''software_delivery'', pl_trace = demo_trace, pl_validation_scope = ''architecture''\<rparr>"

definition seed_expansion :: expansion where
  "seed_expansion = projr (expand_modules demo_sha seed_texts seed_plan seed_blueprint ''wi-1'' (Some ''wi-3'') None)"

lemma seed_blueprint_valid: "validate_blueprint seed_blueprint = Inr ()"
  by code_simp

lemma seed_expansion_eq:
  "expand_modules demo_sha seed_texts seed_plan seed_blueprint ''wi-1'' (Some ''wi-3'') None = Inr seed_expansion"
proof -
  have "\<not> isl (expand_modules demo_sha seed_texts seed_plan seed_blueprint ''wi-1'' (Some ''wi-3'') None)" by code_simp
  then show ?thesis by (simp add: seed_expansion_def sum.collapse)
qed

lemma checked_blueprint_has_waves_witness: "\<exists>waves. module_waves seed_blueprint = Inr waves"
  using checked_blueprint_has_waves [OF seed_blueprint_valid] by blast

definition seed_run :: run_state where
  "seed_run = (new_run (ex_plan seed_expansion))\<lparr>rs_results := [(''wi-1'', demo_done demo_blueprint)]\<rparr>"

definition seed_ready :: work_item where
  "seed_ready = hd (ready_items seed_run)"

lemma seed_ready_facts: "ready_items seed_run \<noteq> []" "wi_id seed_ready \<in> set (ex_added seed_expansion)"
  by code_simp+

theorem module_expansion_orders_runs_witness: "is_completed (rs_results seed_run) ''wi-1''"
proof -
  have "rs_plan seed_run = ex_plan seed_expansion" by (simp add: seed_run_def new_run_def)
  moreover have "seed_ready \<in> set (ready_items seed_run)" using seed_ready_facts(1) by (simp add: seed_ready_def)
  ultimately show ?thesis
    using module_expansion_orders_runs [OF seed_expansion_eq, of seed_run seed_ready] seed_ready_facts(2) by blast
qed

definition seed_designs :: "module_design list" where
  "seed_designs = [\<lparr>md_id = ''da'', md_depth = 1, md_parent = ''d'', md_module = ''a'', md_purpose = Some ''p'', md_depends = []\<rparr>,
     \<lparr>md_id = ''db'', md_depth = 1, md_parent = ''d'', md_module = ''b'', md_purpose = Some ''p'', md_depends = []\<rparr>]"

definition seed_implementations :: expansion where
  "seed_implementations = projr (expand_implementations demo_sha seed_texts (ex_plan seed_expansion) seed_blueprint seed_designs
     ''wi-1'' [] (Some ''wi-3'') None)"

lemma seed_implementations_eq:
  "expand_implementations demo_sha seed_texts (ex_plan seed_expansion) seed_blueprint seed_designs
     ''wi-1'' [] (Some ''wi-3'') None = Inr seed_implementations"
proof -
  have "\<not> isl (expand_implementations demo_sha seed_texts (ex_plan seed_expansion) seed_blueprint seed_designs
     ''wi-1'' [] (Some ''wi-3'') None)" by code_simp
  then show ?thesis by (simp add: seed_implementations_def sum.collapse)
qed

lemma built_idempotent:
  "\<not> isl (mk_work_item demo_sha v) \<Longrightarrow> mk_work_item demo_sha (projr (mk_work_item demo_sha v)) = Inr (projr (mk_work_item demo_sha v))"
  by (rule mk_work_item_idempotent) (simp add: sum.collapse)

lemma seed_plan_ok: "plan_ok demo_sha seed_plan"
proof -
  have "\<not> isl (mk_plan seed_plan)" by code_simp
  then have "mk_plan seed_plan = Inr seed_plan" using mk_plan_checks(1) by (cases "mk_plan seed_plan") auto
  moreover have "mk_work_item demo_sha demo_blueprint = Inr demo_blueprint"
    unfolding demo_blueprint_def by (rule built_idempotent) code_simp
  moreover have "mk_work_item demo_sha seed_merge = Inr seed_merge"
    unfolding seed_merge_def by (rule built_idempotent) code_simp
  ultimately show ?thesis by (simp add: plan_ok_def seed_plan_def)
qed

lemma seed_expansion_ok: "plan_ok demo_sha (ex_plan seed_expansion)"
  using seed_expansion_eq by (rule expand_modules_cases) (rule extended_plan_ok [OF _ seed_plan_ok])


definition seed_started :: run_state where
  "seed_started = demo_record_done demo_blueprint (new_run seed_plan)"

definition seed_load :: "artifact_ref \<Rightarrow> design result" where
  "seed_load r = Inr (Blueprint_Design seed_blueprint)"

lemma seed_started_facts: "run_ok seed_started" "rs_plan seed_started = seed_plan"
proof -
  have st: "record_result demo_blueprint (demo_done demo_blueprint) (new_run seed_plan) = Inr seed_started"
    unfolding seed_started_def by (rule demo_record_ok; code_simp)
  have "demo_blueprint \<in> set (ready_items (new_run seed_plan))" by code_simp
  moreover have "distinct (map wi_id (pl_work_items seed_plan))" by code_simp
  ultimately show "run_ok seed_started" using record_ready_ok [OF new_run_ok _ st] by (simp add: new_run_def)
  show "rs_plan seed_started = seed_plan" using record_result_cases(4) [OF st] by (simp add: new_run_def)
qed


end
