(* ===== verification/App_Catalog.thy ===== *)
theory App_Catalog
  imports Node_Result Write_Guard
begin

text \<open>
  The applications the control plane may run, \<^verbatim>\<open>app/runtime/application.py\<close>: the fixed container services of
  each profile and the choice of a profile from the shape of a project. A project directory is modelled by the
  paths of its files and directories, relative to its root, and by the contents the control plane reads.
\<close>

section \<open>Profiles\<close>

record app_service =
  as_id :: string
  as_workspace_dir :: string
  as_container_port :: int
  as_host_port :: int  \<comment> \<open>0: a port of the pool\<close>
  as_command :: "string list"
  as_environment :: "(string \<times> string) list"
  as_data_volume :: "string option"
  as_mount_dir :: "string option"
  as_container_workdir :: string
  as_image :: "string option"
  as_mount_workspace :: bool
  as_publish_port :: bool
  as_user :: string
  as_network_alias :: "string option"
  as_readiness :: "string list option"
  as_volume_owner :: "string option"
  as_read_only :: bool
  as_volume_mount_dir :: string

definition blank_service :: "string \<Rightarrow> string \<Rightarrow> int \<Rightarrow> int \<Rightarrow> string list \<Rightarrow> app_service" where
  "blank_service i dir container_port host_port command =
     \<lparr>as_id = i, as_workspace_dir = dir, as_container_port = container_port, as_host_port = host_port,
      as_command = command, as_environment = [], as_data_volume = None, as_mount_dir = None,
      as_container_workdir = ''/workspace'', as_image = None, as_mount_workspace = True, as_publish_port = True,
      as_user = ''65532:65532'', as_network_alias = None, as_readiness = None, as_volume_owner = None,
      as_read_only = True, as_volume_mount_dir = ''/data''\<rparr>"

record app_profile =
  ap_id :: string
  ap_services :: "app_service list"

section \<open>The catalog\<close>

definition python_backend_profile :: app_profile where
  "python_backend_profile = \<lparr>ap_id = ''python-backend'', ap_services = [
      (blank_service ''backend'' ''backend'' 8000 0 [''python'', ''main.py''])
        \<lparr>as_image := Some ''python:3.12-slim'',
         as_readiness := Some [''python'', ''-c'', ''import socket; socket.create_connection(('127.0.0.1', 8000), timeout=2).close()'']\<rparr>]\<rparr>"

definition todo_web_profile :: app_profile where
  "todo_web_profile = \<lparr>ap_id = ''todo-web'', ap_services = [
      (blank_service ''backend'' ''backend'' 8000 0 [''python'', ''-m'', ''backend'', ''--host'', ''0.0.0.0'', ''--port'', ''8000''])
        \<lparr>as_environment := [(''TODO_DB_PATH'', ''/data/todo.db'')], as_data_volume := Some ''todo-data'',
         as_readiness := Some [''python'', ''-c'', ''import socket; socket.create_connection(('127.0.0.1', 8000), timeout=2).close()'']\<rparr>,
      (blank_service ''frontend'' ''frontend'' 8080 0 [''python'', ''-m'', ''http.server'', ''8080'', ''--bind'', ''0.0.0.0''])
        \<lparr>as_mount_dir := Some ''frontend'',
         as_readiness := Some [''python'', ''-c'', ''import urllib.request; urllib.request.urlopen('http://127.0.0.1:8080/', timeout=2).read()'']\<rparr>]\<rparr>"

definition fastapi_postgres_profile :: app_profile where
  "fastapi_postgres_profile = \<lparr>ap_id = ''fastapi-postgres'', ap_services = [
      (blank_service ''database'' '''' 5432 0 [''postgres''])
        \<lparr>as_environment := [(''POSTGRES_USER'', ''postgres''), (''POSTGRES_PASSWORD'', ''postgres''), (''POSTGRES_DB'', ''taskmgmt'')],
         as_image := Some ''postgres:16'', as_mount_workspace := False, as_publish_port := False,
         as_user := ''999:999'', as_network_alias := Some ''db'',
         as_readiness := Some [''pg_isready'', ''-U'', ''postgres'', ''-d'', ''taskmgmt''],
         as_data_volume := Some ''postgres-data'', as_volume_owner := Some ''999:999'',
         as_volume_mount_dir := ''/var/lib/postgresql/data'', as_container_workdir := ''/'',
         as_read_only := False\<rparr>,
      (blank_service ''backend'' ''backend'' 8000 0 [''sh'', ''-ec'', ''if [ ! -f \"$PROJECTOS_DEPENDENCY_DIR/.projectos-ready\" ]; then mkdir -p \"$PROJECTOS_DEPENDENCY_DIR\" && python -m pip install --no-cache-dir --disable-pip-version-check --no-index --find-links=/wheels --target \"$PROJECTOS_DEPENDENCY_DIR\" -r /input/requirements.in && touch \"$PROJECTOS_DEPENDENCY_DIR/.projectos-ready\"; fi && if [ -f migrate.py ]; then python migrate.py; elif [ -f init_db.py ]; then python init_db.py; fi && if [ -f seed.py ]; then python seed.py; fi && exec python -m uvicorn app.main:app --host 0.0.0.0 --port 8000''])
        \<lparr>as_environment := [(''DATABASE_URL'', ''postgresql://postgres:postgres@db:5432/taskmgmt''), (''JWT_SECRET'', ''projectos-local-demo-secret''), (''HOME'', ''/tmp''), (''PIP_CACHE_DIR'', ''/tmp/pip-cache'')],
         as_image := Some ''python:3.12-slim'', as_data_volume := Some ''python-packages'',
         as_volume_mount_dir := ''/site-packages'',
         as_readiness := Some [''python'', ''-c'', ''import urllib.request; urllib.request.urlopen('http://127.0.0.1:8000/health', timeout=2).read()'']\<rparr>]\<rparr>"

definition fastapi_postgres_web_profile :: app_profile where
  "fastapi_postgres_web_profile = \<lparr>ap_id = ''fastapi-postgres-web'', ap_services = [
      (blank_service ''database'' '''' 5432 0 [''postgres''])
        \<lparr>as_environment := [(''POSTGRES_USER'', ''postgres''), (''POSTGRES_PASSWORD'', ''postgres''), (''POSTGRES_DB'', ''taskmgmt'')],
         as_image := Some ''postgres:16'', as_mount_workspace := False, as_publish_port := False,
         as_user := ''999:999'', as_network_alias := Some ''db'',
         as_readiness := Some [''pg_isready'', ''-U'', ''postgres'', ''-d'', ''taskmgmt''],
         as_data_volume := Some ''postgres-data'', as_volume_owner := Some ''999:999'',
         as_volume_mount_dir := ''/var/lib/postgresql/data'', as_container_workdir := ''/'',
         as_read_only := False\<rparr>,
      (blank_service ''backend'' '''' 8000 0 [''sh'', ''-ec'', ''if [ ! -f \"$PROJECTOS_DEPENDENCY_DIR/.projectos-ready\" ]; then mkdir -p \"$PROJECTOS_DEPENDENCY_DIR\" && python -m pip install --no-cache-dir --disable-pip-version-check --no-index --find-links=/wheels --target \"$PROJECTOS_DEPENDENCY_DIR\" -r /input/requirements.in && touch \"$PROJECTOS_DEPENDENCY_DIR/.projectos-ready\"; fi && if [ -f migrate.py ]; then python migrate.py; elif [ -f init_db.py ]; then python init_db.py; fi && if [ -f seed.py ]; then python seed.py; fi && exec python -m uvicorn app.main:app --host 0.0.0.0 --port 8000''])
        \<lparr>as_environment := [(''DATABASE_URL'', ''postgresql://postgres:postgres@db:5432/taskmgmt''), (''JWT_SECRET'', ''projectos-local-demo-secret''), (''HOME'', ''/tmp''), (''PIP_CACHE_DIR'', ''/tmp/pip-cache'')],
         as_image := Some ''python:3.12-slim'', as_data_volume := Some ''python-packages'',
         as_volume_mount_dir := ''/site-packages'', as_container_workdir := ''/workspace/backend'',
         as_readiness := Some [''python'', ''-c'', ''import urllib.request; urllib.request.urlopen('http://127.0.0.1:8000/api/health', timeout=2).read()'']\<rparr>]\<rparr>"

definition static_web_profile :: app_profile where
  "static_web_profile = \<lparr>ap_id = ''static-web'', ap_services = [
      (blank_service ''web'' '''' 8081 0 [''python'', ''-m'', ''http.server'', ''8081'', ''--bind'', ''0.0.0.0''])
        \<lparr>as_readiness := Some [''python'', ''-c'', ''import urllib.request; urllib.request.urlopen('http://127.0.0.1:8081/', timeout=2).read()'']\<rparr>]\<rparr>"

definition python_dynamic_profile :: app_profile where
  "python_dynamic_profile = \<lparr>ap_id = ''python-dynamic'', ap_services = [
      (blank_service ''backend'' ''backend'' 8000 0 [''python'', ''-m'', ''placeholder''])
        \<lparr>as_publish_port := False, as_mount_workspace := True, as_read_only := True\<rparr>]\<rparr>"

definition app_profiles :: "(string, app_profile) dict" where
  "app_profiles = [(''python-backend'', python_backend_profile), (''todo-web'', todo_web_profile),
     (''fastapi-postgres'', fastapi_postgres_profile),
     (''fastapi-postgres-web'', fastapi_postgres_web_profile),
     (''static-web'', static_web_profile), (''python-dynamic'', python_dynamic_profile)]"

definition get_application :: "string \<Rightarrow> app_profile result" where
  "get_application i = (case dict_get app_profiles i of
      None \<Rightarrow> Inl (ValueError ''unknown application'') | Some p \<Rightarrow> Inr p)"

section \<open>The shape of a project\<close>

record project_dir =
  pj_files :: "string list"
  pj_dirs :: "string list"
  pj_requirements :: "string option"  \<comment> \<open>the text of \<open>requirements.in\<close>\<close>

definition is_file :: "project_dir \<Rightarrow> string \<Rightarrow> bool" where
  "is_file d p \<longleftrightarrow> p \<in> set (pj_files d)"

definition is_dir :: "project_dir \<Rightarrow> string \<Rightarrow> bool" where
  "is_dir d p \<longleftrightarrow> p \<in> set (pj_dirs d)"

definition declares_fastapi :: "project_dir \<Rightarrow> bool" where
  "declares_fastapi d \<longleftrightarrow> is_file d ''workspace/backend/app/main.py'' \<and> (case pj_requirements d of
      None \<Rightarrow> False
    | Some t \<Rightarrow> contains ''fastapi'' (py_lower t) \<and> contains ''psycopg'' (py_lower t))"

definition detect_application :: "project_dir \<Rightarrow> string option" where
  "detect_application d =
     (if declares_fastapi d
      then Some (if is_dir d ''workspace/frontend'' then ''fastapi-postgres-web'' else ''fastapi-postgres'')
      else if is_file d ''workspace/backend/http_adapter.py'' then Some ''python-backend''
      else if is_dir d ''workspace/backend'' \<and> is_dir d ''workspace/frontend'' then Some ''todo-web''
      else if is_file d ''workspace/index.html'' then Some ''static-web''
      else None)"

text \<open>A declared application decides, unless it is empty.\<close>

definition resolve_application :: "project_dir \<Rightarrow> string option \<Rightarrow> string option result" where
  "resolve_application d declared =
     (case (if falsy_opt declared then detect_application d else declared) of
        None \<Rightarrow> Inr None
      | Some i \<Rightarrow> bindE (get_application i) (\<lambda>_. Inr (Some i)))"

text \<open>Detection never names an application outside the catalog.\<close>

lemma detected_known: "detect_application d = Some i \<Longrightarrow> \<not> isl (get_application i)"
  by (auto simp: detect_application_def get_application_def app_profiles_def split: if_splits)

lemma resolved_known: "resolve_application d declared = Inr (Some i) \<Longrightarrow> \<exists>p. get_application i = Inr p"
  by (auto simp: resolve_application_def split: option.splits)

end
