(* ===== verification/Runtime_Manifest.thy ===== *)
theory Runtime_Manifest
  imports App_Catalog Project_Contract
begin

text \<open>
  The run-time declaration of a project, \<^verbatim>\<open>app/runtime/manifest.py\<close>, with the white list of profiles it may name,
  and the summary \<^verbatim>\<open>app/runtime/state.py\<close> gives the planner. \<open>runtime.yaml\<close> is the value the YAML library reads
  from it; \<open>sha\<close> is the hexadecimal SHA-256.
\<close>

section \<open>Profiles\<close>

record runtime_check =
  rc_command :: "string list"
  rc_image :: "string option"
  rc_install :: bool

record runtime_profile =
  rp_id :: string
  rp_image :: string
  rp_checks :: "(string, runtime_check) dict"
  rp_dependencies :: bool

definition unit_check :: runtime_check where
  "unit_check = \<lparr>rc_command = [''python'', ''-m'', ''unittest'', ''discover'', ''-s'', ''tests'', ''-v''],
     rc_image = None, rc_install = True\<rparr>"

definition web_unit_check :: runtime_check where
  "web_unit_check = \<lparr>rc_command = [''node'', ''--test''], rc_image = Some ''node:22-alpine'', rc_install = False\<rparr>"

definition runtime_smoke_check :: runtime_check where
  "runtime_smoke_check = \<lparr>rc_command = [''python'', ''-c'', ''raise SystemExit('runtime smoke command missing')''],
     rc_image = None, rc_install = True\<rparr>"

definition runtime_checks :: "(string, runtime_check) dict" where
  "runtime_checks = [(''unit'', unit_check), (''web-unit'', web_unit_check), (''runtime-smoke'', runtime_smoke_check)]"

definition runtime_profiles :: "(string, runtime_profile) dict" where
  "runtime_profiles =
     [(''python-stdlib'', \<lparr>rp_id = ''python-stdlib'', rp_image = ''python:3.12-slim'', rp_checks = runtime_checks,
        rp_dependencies = False\<rparr>),
      (''python-pip'', \<lparr>rp_id = ''python-pip'', rp_image = ''python:3.12-slim'', rp_checks = runtime_checks,
        rp_dependencies = True\<rparr>)]"

definition get_runtime :: "string \<Rightarrow> runtime_profile result" where
  "get_runtime i = (case dict_get runtime_profiles i of
      None \<Rightarrow> Inl (ValueError ''unknown profile'') | Some p \<Rightarrow> Inr p)"

section \<open>The manifest\<close>

record runtime_manifest =
  rm_version :: json
  rm_profile :: string
  rm_dependencies :: "string option"
  rm_application :: "string option"
  rm_mode :: string

definition manifest_fields :: "string list" where
  "manifest_fields = [''version'', ''profile'', ''dependencies_file'', ''application'', ''mode'']"

text \<open>\<open>version != 1\<close>: \<open>True\<close> equals 1. A mode that is a list or an object cannot be looked up in a set.\<close>

definition is_one :: "json \<Rightarrow> bool" where
  "is_one j \<longleftrightarrow> j = JInt 1 \<or> j = JBool True"

definition blank_json :: "json \<Rightarrow> bool" where
  "blank_json j \<longleftrightarrow> (case j of JStr s \<Rightarrow> blank s | _ \<Rightarrow> True)"

definition check_mode :: "json \<Rightarrow> err + unit" where
  "check_mode j = (case j of
      JList _ \<Rightarrow> Inl (TypeError ''mode'')
    | JObj _ \<Rightarrow> Inl (TypeError ''mode'')
    | JStr s \<Rightarrow> if s = ''development'' \<or> s = ''production'' then Inr () else Inl (ValueError ''mode'')
    | _ \<Rightarrow> Inl (ValueError ''mode''))"

definition obj_keys :: "json \<Rightarrow> string list" where
  "obj_keys j = (case j of JObj kvs \<Rightarrow> map fst kvs | _ \<Rightarrow> [])"

definition str_or_empty :: "json \<Rightarrow> string" where
  "str_or_empty j = (case j of JStr s \<Rightarrow> s | _ \<Rightarrow> [])"

definition given_str :: "json \<Rightarrow> string option" where
  "given_str j = (case j of JStr s \<Rightarrow> Some s | _ \<Rightarrow> None)"

text \<open>The checks against the white lists, once the fields have been read.\<close>

definition known_manifest :: "runtime_manifest \<Rightarrow> runtime_manifest result" where
  "known_manifest m =
     bindE (get_runtime (rm_profile m)) (\<lambda>p.
     bindE (raises [(rm_dependencies m \<noteq> None \<and> \<not> rp_dependencies p, ValueError ''no dependencies'')]) (\<lambda>_.
     bindE (case rm_application m of None \<Rightarrow> Inr ()
       | Some a \<Rightarrow> bindE (get_application a) (\<lambda>_. Inr ())) (\<lambda>_. Inr m)))"

definition manifest_mode :: "json \<Rightarrow> json" where
  "manifest_mode j = (case json_get j ''mode'' of None \<Rightarrow> JStr ''production'' | Some v \<Rightarrow> v)"

definition manifest_from_dict :: "json \<Rightarrow> runtime_manifest result" where
  "manifest_from_dict j =
     (if \<not> is_obj j then Inl (ValueError ''runtime.yaml'')
      else
        bindE (raises
          [(\<not> set (obj_keys j) \<subseteq> set manifest_fields, ValueError ''unknown field''),
           (\<not> is_one (json_get_null j ''version''), ValueError ''version''),
           (blank_json (json_get_null j ''profile''), ValueError ''profile''),
           (json_get_null j ''dependencies_file'' \<notin> {JNull, JStr ''requirements.in''}, ValueError ''dependencies_file''),
           (json_get_null j ''application'' \<noteq> JNull \<and> blank_json (json_get_null j ''application''),
             ValueError ''application'')]) (\<lambda>_.
        bindE (check_mode (manifest_mode j)) (\<lambda>_.
        known_manifest \<lparr>rm_version = json_get_null j ''version'',
          rm_profile = py_strip (str_or_empty (json_get_null j ''profile'')),
          rm_dependencies = given_str (json_get_null j ''dependencies_file''),
          rm_application = map_option py_strip (given_str (json_get_null j ''application'')),
          rm_mode = str_or_empty (manifest_mode j)\<rparr>)))"

definition load_manifest :: "json_file \<Rightarrow> runtime_manifest result" where
  "load_manifest f = (case f of
      NoFile \<Rightarrow> Inl (FileNotFoundError ''runtime.yaml'')
    | NotJson \<Rightarrow> Inl (ValueError ''YAML'')
    | JsonFile j \<Rightarrow> manifest_from_dict j)"

definition manifest_as_dict :: "runtime_manifest \<Rightarrow> json" where
  "manifest_as_dict m = JObj
     ([(''version'', rm_version m), (''profile'', JStr (rm_profile m))]
      @ (case rm_dependencies m of None \<Rightarrow> [] | Some d \<Rightarrow> [(''dependencies_file'', JStr d)])
      @ (case rm_application m of None \<Rightarrow> [] | Some a \<Rightarrow> [(''application'', JStr a)])
      @ (if rm_mode m \<noteq> ''production'' then [(''mode'', JStr (rm_mode m))] else []))"

definition save_manifest :: "runtime_manifest \<Rightarrow> json_file" where
  "save_manifest m = JsonFile (manifest_as_dict m)"

section \<open>The project\<close>

text \<open>
  What the control plane reads and writes of a project: the directory, the manifest, the wheel caches by the digest
  of the requirements they were built from (the entries of each with their contents), the approval of the
  dependencies, the project contract, the last preparation, and the Docker commands that have been run.
\<close>

definition ready_marker :: string where
  "ready_marker = ''.projectos-ready''"

record preparation =
  pr_status :: string
  pr_profile :: "string option"
  pr_image :: "string option"
  pr_application :: "string option"
  pr_dependencies :: string
  pr_failure :: "string option"
  pr_attempts :: int
  pr_actions :: "string list"

record project =
  po_root :: string
  po_dir :: project_dir
  po_manifest :: json_file
  po_cache :: "(string, (string \<times> string) list) dict"
  po_approval :: json_file
  po_contract :: "project_contract result"
  po_preparation :: "preparation option"
  po_log :: "string list list"

definition dependency_digest :: "(string \<Rightarrow> string) \<Rightarrow> project \<Rightarrow> string option" where
  "dependency_digest sha w = map_option sha (pj_requirements (po_dir w))"

definition marker_of :: "project \<Rightarrow> string \<Rightarrow> string option" where
  "marker_of w digest = Option.bind (dict_get (po_cache w) digest) (\<lambda>c. map_of c ready_marker)"

definition cache_ready :: "(string \<Rightarrow> string) \<Rightarrow> runtime_manifest \<Rightarrow> project \<Rightarrow> bool" where
  "cache_ready sha m w \<longleftrightarrow> (if rm_dependencies m = None then True
     else (case dependency_digest sha w of None \<Rightarrow> False
       | Some d \<Rightarrow> (case marker_of w d of None \<Rightarrow> False | Some t \<Rightarrow> py_strip t = d)))"

section \<open>The summary for the planner\<close>

record runtime_snapshot =
  rn_manifest_exists :: bool
  rn_profile :: "string option"
  rn_dependencies :: bool
  rn_cache_ready :: bool
  rn_failed :: bool
  rn_scripts_ready :: bool

definition startup_scripts_ready :: "project \<Rightarrow> bool" where
  "startup_scripts_ready w \<longleftrightarrow> list_all (is_file (po_dir w))
     [''start.sh'', ''start.ps1'', ''start-managed.sh'', ''docker-compose.yml'']"

text \<open>Only the two listed exceptions are caught.\<close>

definition snapshot :: "(string \<Rightarrow> string) \<Rightarrow> project \<Rightarrow> runtime_snapshot result" where
  "snapshot sha w = (case load_manifest (po_manifest w) of
      Inl (FileNotFoundError _) \<Rightarrow> Inr \<lparr>rn_manifest_exists = False, rn_profile = None, rn_dependencies = False,
        rn_cache_ready = False, rn_failed = True, rn_scripts_ready = False\<rparr>
    | Inl (ValueError _) \<Rightarrow> Inr \<lparr>rn_manifest_exists = False, rn_profile = None, rn_dependencies = False,
        rn_cache_ready = False, rn_failed = True, rn_scripts_ready = False\<rparr>
    | Inl e \<Rightarrow> Inl e
    | Inr m \<Rightarrow> Inr \<lparr>rn_manifest_exists = True, rn_profile = Some (rm_profile m),
        rn_dependencies = (rm_dependencies m \<noteq> None), rn_cache_ready = cache_ready sha m w,
        rn_failed = (rm_dependencies m \<noteq> None \<and> pj_requirements (po_dir w) = None),
        rn_scripts_ready = startup_scripts_ready w\<rparr>)"

end
