(* ===== verification/Sandbox.thy ===== *)
theory Sandbox
  imports Runtime_Manifest
begin

text \<open>
  The checks of a project in containers: \<^verbatim>\<open>app/sandbox/policy.py\<close> (from an untrusted declaration to a trusted
  specification), \<^verbatim>\<open>app/sandbox/resolver.py\<close> (the download of dependencies into a private wheel cache),
  \<^verbatim>\<open>app/sandbox/docker_provider.py\<close> (the container that runs a check), \<^verbatim>\<open>app/application/environment.py\<close> (the
  preparation of a project) and \<^verbatim>\<open>app/sandbox/controller.py\<close>. Docker is a parameter: \<open>docker n c\<close> is the result of
  the command \<open>c\<close> when it is the \<open>n\<close>-th one. The durations and messages of the results are not modelled.
\<close>

section \<open>Text files\<close>

text \<open>\<open>str.splitlines\<close> on the characters below 256.\<close>

definition line_break :: "char \<Rightarrow> bool" where
  "line_break c \<longleftrightarrow> c \<in> set [CHR 0x0A, CHR 0x0B, CHR 0x0C, CHR 0x0D, CHR 0x1C, CHR 0x1D, CHR 0x1E, CHR 0x85]"

fun split_lines :: "string \<Rightarrow> string \<Rightarrow> string list" where
  "split_lines acc [] = (if acc = [] then [] else [rev acc])"
| "split_lines acc [c] = (if line_break c then [rev acc] else [rev (c # acc)])"
| "split_lines acc (c # d # r) =
     (if c = CHR 0x0D \<and> d = CHR 0x0A then rev acc # split_lines [] r
      else if line_break c then rev acc # split_lines [] (d # r)
      else split_lines (c # acc) (d # r))"

definition lines_of :: "string \<Rightarrow> string list" where
  "lines_of s = split_lines [] s"

text \<open>\<open>s.split(sep, 1)[0]\<close>\<close>

fun before :: "string \<Rightarrow> string \<Rightarrow> string" where
  "before sep [] = []"
| "before sep (c # r) = (if prefix sep (c # r) then [] else c # before sep r)"

section \<open>The requirements file\<close>

definition forbidden_tokens :: "string list" where
  "forbidden_tokens = [''--'', ''://'', ''/'', [CHR 0x5C], ''@'', '';'', ''-e '']"

definition requirement_lines :: "string \<Rightarrow> string list" where
  "requirement_lines t = filter (\<lambda>l. l \<noteq> [] \<and> \<not> prefix ''#'' l) (map py_strip (lines_of t))"

definition validate_requirements :: "string \<Rightarrow> err + unit" where
  "validate_requirements t = for_each (\<lambda>l. raises
     [(list_ex (\<lambda>token. sublist token l) forbidden_tokens, ValueError ''requirements.in'')]) (requirement_lines t)"

definition requirement_package :: "string \<Rightarrow> string" where
  "requirement_package l = py_strip (foldl (\<lambda>p sep. before sep p) l [''['', ''=='', ''>='', ''<='', ''~='', ''!=''])"

definition declares_pytest :: "string \<Rightarrow> bool" where
  "declares_pytest t \<longleftrightarrow> list_ex (\<lambda>l. requirement_package (py_lower l) = ''pytest'') (requirement_lines t)"

section \<open>The commands of the checks\<close>

definition pytest_unit_command :: "project_dir \<Rightarrow> string list" where
  "pytest_unit_command d =
     (if is_dir d ''workspace/tests/unit'' \<and> list_ex (prefix ''workspace/tests/unit/'') (pj_files d)
      then [''python'', ''-m'', ''pytest'', ''-q'', ''tests/unit'']
      else [''python'', ''-m'', ''pytest'', ''-q''])"

definition path_name :: "string \<Rightarrow> string" where
  "path_name p = last (split_on (CHR ''/'') p)"

text \<open>\<open>Path.suffix\<close>: from the last dot of the name, unless it is the first or the last character.\<close>

definition path_suffix :: "string \<Rightarrow> string" where
  "path_suffix p = (let n = path_name p; tail = takeWhile (\<lambda>c. c \<noteq> CHR ''.'') (rev n) in
     if length tail + 1 < length n \<and> tail \<noteq> [] \<and> CHR ''.'' \<in> set n then CHR ''.'' # rev tail else [])"

definition web_test_name :: "string \<Rightarrow> bool" where
  "web_test_name n \<longleftrightarrow> prefix ''test-'' n \<or> prefix ''test_'' n \<or> suffix ''.test.js'' n \<or> suffix ''.test.mjs'' n
     \<or> suffix ''_test.js'' n"

text \<open>Paths are sorted by their components.\<close>

definition discover_web_tests :: "project_dir \<Rightarrow> string list" where
  "discover_web_tests d =
     (if \<not> is_dir d ''workspace'' then []
      else filter (\<lambda>p. path_suffix p \<in> {''.js'', ''.mjs''} \<and> web_test_name (path_name p))
        (sort_key (split_on (CHR ''/'')) (map (drop 10) (filter (prefix ''workspace/'') (pj_files d)))))"

text \<open>\<open>\w\<close> below 256.\<close>

definition word_char :: "char \<Rightarrow> bool" where
  "word_char c \<longleftrightarrow> ident_char c \<or> (let n = (of_char c :: nat) in
     n \<in> {170, 178, 179, 181, 185, 186, 188, 189, 190} \<or> 192 \<le> n \<and> n \<noteq> 215 \<and> n \<noteq> 247)"

definition module_path :: "string \<Rightarrow> bool" where
  "module_path m \<longleftrightarrow> list_all (\<lambda>p. case p of [] \<Rightarrow> False | c # r \<Rightarrow> ident_start c \<and> list_all word_char r)
     (split_on (CHR ''.'') m)"

definition smoke_module :: "entrypoints \<Rightarrow> string option" where
  "smoke_module e =
     (if \<not> falsy_opt (ep_backend_import e) then ep_backend_import e
      else if \<not> falsy_opt (ep_backend_file e) \<and> suffix ''.py'' (or_empty (ep_backend_file e))
      then Some (replace_char (CHR ''/'') (CHR ''.'')
        (removesuffix ''.py'' (removeprefix ''/'' (removeprefix ''workspace/'' (or_empty (ep_backend_file e))))))
      else ep_backend_import e)"

text \<open>The probe; its two messages are prose, given by \<open>tx\<close>.\<close>

definition smoke_script :: "(nat \<Rightarrow> string) \<Rightarrow> string \<Rightarrow> string" where
  "smoke_script tx m = concat (map (\<lambda>l. l @ [CHR 0x0A])
     [''import importlib'',
      ''module = importlib.import_module('' @ py_repr_str m @ '')'',
      ''if hasattr(module, 'create_server'):'',
      ''    server = module.create_server('127.0.0.1', 0)'',
      ''    server.server_close()'',
      ''elif hasattr(module, 'create_application'):'',
      ''    application = module.create_application()'',
      ''    if not callable(application):'',
      ''        raise RuntimeError('' @ tx 0 @ '')'',
      ''elif hasattr(module, 'app'):'',
      ''    app = getattr(module, 'app')'',
      ''    if app is None or not callable(app):'',
      ''        raise RuntimeError('' @ tx 1 @ '')'',
      ''elif hasattr(module, '_load_application'):'',
      ''    module._load_application()''])"

definition runtime_smoke_command :: "(nat \<Rightarrow> string) \<Rightarrow> project_contract result \<Rightarrow> string list result" where
  "runtime_smoke_command tx contract =
     bindE contract (\<lambda>c. case smoke_module (kc_entrypoints c) of
         None \<Rightarrow> Inl (ValueError ''backend_import'')
       | Some m \<Rightarrow> if m = [] \<or> \<not> module_path m then Inl (ValueError ''backend_import'')
           else Inr [''python'', ''-c'', smoke_script tx m])"

end
