(* ===== verification/Sandbox_Run.thy ===== *)
theory Sandbox_Run
  imports Sandbox
begin

text \<open>
  The second half of the sandbox: the specification of a check, its container, the dependency resolver, the
  provisioner and the controller. Every operation takes the project and returns it with its result or exception;
  what has been written before an exception stays.
\<close>

section \<open>Specifications\<close>

record sandbox_limits =
  sl_timeout :: int
  sl_memory :: string
  sl_cpus :: string
  sl_pids :: int
  sl_tmpfs :: string
  sl_output :: nat

definition default_sandbox_limits :: sandbox_limits where
  "default_sandbox_limits = \<lparr>sl_timeout = 60, sl_memory = ''512m'', sl_cpus = ''1'', sl_pids = 128, sl_tmpfs = ''256m'',
     sl_output = 12000\<rparr>"

record sandbox_spec =
  sp_check_id :: string
  sp_profile :: runtime_profile
  sp_dependencies :: bool
  sp_cache :: "string option"  \<comment> \<open>the digest that names the wheel cache\<close>
  sp_limits :: sandbox_limits
  sp_image :: string
  sp_override :: "string list option"

text \<open>The dependencies of a specification, with the digest of the cache.\<close>

definition spec_dependencies :: "(string \<Rightarrow> string) \<Rightarrow> runtime_manifest \<Rightarrow> project \<Rightarrow> string option result" where
  "spec_dependencies sha m w =
     (if falsy_opt (rm_dependencies m) then Inr None
      else (case pj_requirements (po_dir w) of
          None \<Rightarrow> Inl (FileNotFoundError ''requirements.in'')
        | Some t \<Rightarrow> bindE (validate_requirements t) (\<lambda>_.
            (case marker_of w (sha t) of
               None \<Rightarrow> Inl (FileNotFoundError ''dependency cache'')
             | Some text \<Rightarrow> if py_strip text \<noteq> sha t then Inl (ValueError ''dependency cache'') else Inr (Some (sha t))))))"

definition check_override ::
  "(nat \<Rightarrow> string) \<Rightarrow> project \<Rightarrow> string \<Rightarrow> bool \<Rightarrow> string list option result" where
  "check_override tx w check_id dependencies =
     (if check_id = ''unit'' \<and> dependencies \<and> declares_pytest (or_empty (pj_requirements (po_dir w)))
      then Inr (Some (pytest_unit_command (po_dir w)))
      else if check_id = ''web-unit''
      then (case discover_web_tests (po_dir w) of
          [] \<Rightarrow> Inr None | tests \<Rightarrow> Inr (Some (''node'' # ''--test'' # tests)))
      else if check_id = ''runtime-smoke''
      then bindE (runtime_smoke_command tx (po_contract w)) (\<lambda>c. Inr (Some c))
      else Inr None)"

definition create_spec ::
  "(string \<Rightarrow> string) \<Rightarrow> (nat \<Rightarrow> string) \<Rightarrow> sandbox_limits \<Rightarrow> project \<Rightarrow> runtime_manifest \<Rightarrow> string \<Rightarrow> sandbox_spec result" where
  "create_spec sha tx limits w m check_id =
     bindE (get_runtime (rm_profile m)) (\<lambda>p.
     case dict_get (rp_checks p) check_id of
       None \<Rightarrow> Inl (PermissionError ''check'')
     | Some check \<Rightarrow>
         if \<not> is_dir (po_dir w) ''workspace'' then Inl (FileNotFoundError ''workspace'')
         else bindE (spec_dependencies sha m w) (\<lambda>cache.
           bindE (check_override tx w check_id (cache \<noteq> None)) (\<lambda>override.
           Inr \<lparr>sp_check_id = check_id, sp_profile = p, sp_dependencies = (cache \<noteq> None), sp_cache = cache,
             sp_limits = limits, sp_image = (if falsy_opt (rc_image check) then rp_image p else or_empty (rc_image check)),
             sp_override = override\<rparr>)))"

section \<open>Docker\<close>

record cmd_result =
  cr_exit :: int
  cr_stdout :: string
  cr_stderr :: string
  cr_timed_out :: bool
  cr_wheels :: "(string \<times> string) list"  \<comment> \<open>what a download has put into the mounted cache\<close>

type_synonym docker = "nat \<Rightarrow> string list \<Rightarrow> cmd_result"

definition run_docker :: "docker \<Rightarrow> string list \<Rightarrow> project \<Rightarrow> cmd_result \<times> project" where
  "run_docker docker cmd w = (docker (length (po_log w)) cmd, w\<lparr>po_log := po_log w @ [cmd]\<rparr>)"

definition image_available :: "docker \<Rightarrow> string \<Rightarrow> project \<Rightarrow> cmd_result \<times> project" where
  "image_available docker img w =
     (let (inspected, w) = run_docker docker [''docker'', ''image'', ''inspect'', img] w in
      if cr_exit inspected = 0 then (inspected, w)
      else let (listed, w) = run_docker docker
             [''docker'', ''image'', ''ls'', ''--format={{.Repository}}:{{.Tag}}'', img] w in
        if cr_exit listed = 0 \<and> img \<in> set (lines_of (cr_stdout listed))
        then (\<lparr>cr_exit = 0, cr_stdout = cr_stdout listed, cr_stderr = [], cr_timed_out = False, cr_wheels = []\<rparr>, w)
        else (if cr_exit listed \<noteq> 0 then listed else inspected, w))"

definition workspace_path :: "project \<Rightarrow> string" where
  "workspace_path w = po_root w @ ''/workspace''"

definition cache_path :: "project \<Rightarrow> string \<Rightarrow> string" where
  "cache_path w digest = po_root w @ ''/.sandbox/wheels/'' @ digest"

definition isolation :: "sandbox_limits \<Rightarrow> string list" where
  "isolation l = [''docker'', ''run'', ''--rm'', ''--network'', ''none'', ''--read-only'', ''--user'', ''65532:65532'',
     ''--cap-drop'', ''ALL'', ''--security-opt'', ''no-new-privileges'', ''--pids-limit'', int_str (sl_pids l),
     ''--memory'', sl_memory l, ''--cpus'', sl_cpus l,
     ''--tmpfs'', ''/tmp:rw,noexec,nosuid,size='' @ sl_tmpfs l,
     ''--tmpfs'', ''/site-packages:rw,exec,nosuid,nodev,size='' @ sl_tmpfs l]"

definition readonly_bind :: "string \<Rightarrow> string \<Rightarrow> string list" where
  "readonly_bind src dst = [''--mount'', ''type=bind,src='' @ src @ '',dst='' @ dst @ '',readonly'']"

definition install_command :: string where
  "install_command = ''python -m pip install --no-index --find-links=/wheels --target /site-packages -r /input/requirements.in''"

definition fixed_command :: "sandbox_spec \<Rightarrow> string list result" where
  "fixed_command s = (case dict_get (rp_checks (sp_profile s)) (sp_check_id s) of
      None \<Rightarrow> Inl (KeyError (sp_check_id s))
    | Some c \<Rightarrow>
        let check = (case sp_override s of None \<Rightarrow> rc_command c | Some [] \<Rightarrow> rc_command c | Some o' \<Rightarrow> o') in
        if \<not> sp_dependencies s \<or> \<not> rc_install c then Inr check
        else Inr [''sh'', ''-ec'', install_command @ '' && exec '' @ join '' '' check])"

definition run_command :: "project \<Rightarrow> sandbox_spec \<Rightarrow> string list result" where
  "run_command w s = bindE (fixed_command s) (\<lambda>cmd. Inr
     (isolation (sp_limits s)
      @ readonly_bind (workspace_path w) ''/workspace''
      @ [''--workdir'', ''/workspace'', ''--env'', ''PYTHONDONTWRITEBYTECODE=1'']
      @ (case sp_cache s of None \<Rightarrow> []
         | Some d \<Rightarrow> readonly_bind (po_root w @ ''/requirements.in'') ''/input/requirements.in''
             @ readonly_bind (cache_path w d) ''/wheels'')
      @ [''--env'', ''PYTHONPATH=/workspace/backend:/site-packages'', sp_image s] @ cmd))"

datatype check_status = SB_PASSED | SB_FAILED | SB_SETUP_FAILED | SB_TIMED_OUT

record sandbox_result =
  sr_status :: check_status
  sr_check_id :: string
  sr_profile :: "string option"
  sr_exit :: "int option"
  sr_stdout :: string
  sr_stderr :: string

definition run_spec :: "docker \<Rightarrow> sandbox_spec \<Rightarrow> project \<Rightarrow> sandbox_result result \<times> project" where
  "run_spec docker s w =
     (let (found, w) = image_available docker (sp_image s) w; limit = sl_output (sp_limits s) in
      if cr_exit found \<noteq> 0
      then (Inr \<lparr>sr_status = SB_SETUP_FAILED, sr_check_id = sp_check_id s, sr_profile = Some (rp_id (sp_profile s)),
              sr_exit = Some (cr_exit found), sr_stdout = [], sr_stderr = take limit (cr_stderr found)\<rparr>, w)
      else (case run_command w s of
          Inl e \<Rightarrow> (Inl e, w)
        | Inr cmd \<Rightarrow>
            let (r, w) = run_docker docker cmd w in
            (Inr \<lparr>sr_status = (if cr_timed_out r then SB_TIMED_OUT else if cr_exit r = 0 then SB_PASSED else SB_FAILED),
                sr_check_id = sp_check_id s, sr_profile = Some (rp_id (sp_profile s)), sr_exit = Some (cr_exit r),
                sr_stdout = take limit (cr_stdout r), sr_stderr = take limit (cr_stderr r)\<rparr>, w)))"


section \<open>The dependency resolver\<close>

datatype dependency_failure = DF_STORAGE | DF_NETWORK | DF_INCOMPATIBLE | DF_TIMEOUT | DF_UNKNOWN

fun dependency_failure_value :: "dependency_failure \<Rightarrow> string" where
  "dependency_failure_value DF_STORAGE = ''storage''"
| "dependency_failure_value DF_NETWORK = ''network''"
| "dependency_failure_value DF_INCOMPATIBLE = ''incompatible''"
| "dependency_failure_value DF_TIMEOUT = ''timeout''"
| "dependency_failure_value DF_UNKNOWN = ''unknown''"

definition mentions :: "string list \<Rightarrow> string \<Rightarrow> bool" where
  "mentions tokens s \<longleftrightarrow> list_ex (\<lambda>t. sublist t s) tokens"

definition classify_failure :: "cmd_result \<Rightarrow> dependency_failure" where
  "classify_failure r = (let stderr = py_lower (cr_stderr r) in
     if mentions [''no space left'', ''disk quota exceeded''] stderr then DF_STORAGE
     else if mentions [''ssleof'', ''remote disconnected'', ''connection aborted'', ''temporary failure'',
         ''name or service not known'', ''connection reset''] stderr then DF_NETWORK
     else if mentions [''no matching distribution'', ''could not find a version'', ''resolutionimpossible'',
         ''conflicting dependencies'', ''invalid metadata''] stderr then DF_INCOMPATIBLE
     else if cr_timed_out r \<or> cr_exit r = 124 then DF_TIMEOUT
     else DF_UNKNOWN)"

fun recovery_of :: "dependency_failure \<Rightarrow> string" where
  "recovery_of DF_STORAGE = ''clear_partial_cache_and_use_host_temp''"
| "recovery_of DF_NETWORK = ''fresh_container_with_extended_network_retry''"
| "recovery_of DF_INCOMPATIBLE = ''binary_first_then_source_fallback''"
| "recovery_of DF_TIMEOUT = ''fresh_container_after_timeout''"
| "recovery_of DF_UNKNOWN = ''fresh_container_retry''"

definition dependency_recovery :: "dependency_failure \<Rightarrow> nat \<Rightarrow> string" where
  "dependency_recovery kind attempt = ''attempt_'' @ nat_str (attempt + 1) @ '':'' @ recovery_of kind"

definition bounded_output :: "string \<Rightarrow> nat \<Rightarrow> string" where
  "bounded_output v limit = (if length v \<le> limit then v
     else take 6000 v @ [CHR 0x0A] @ ''... stderr truncated by ProjectOS ...'' @ [CHR 0x0A] @ drop (length v - 6000) v)"

text \<open>What the resolver reads of its environment: variables, \<open>urlparse\<close>, the user, temporary directories, and which
  entries of a cache the operating system refuses to delete.\<close>

record url_parts =
  ur_scheme :: string
  ur_netloc :: string
  ur_username :: "string option"
  ur_password :: "string option"

record resolver_env =
  re_retries :: string
  re_timeout :: string
  re_tmpfs :: string
  re_index :: string
  re_urlparse :: "string \<Rightarrow> url_parts"
  re_user :: string
  re_input :: string
  re_temp :: "nat \<Rightarrow> string"
  re_stuck :: "string \<Rightarrow> bool"

definition trusted_index_url :: "resolver_env \<Rightarrow> string option result" where
  "trusted_index_url v =
     (let url = py_strip (re_index v); p = re_urlparse v url in
      if url = [] then Inr None
      else if ur_scheme p \<noteq> ''https'' \<or> ur_netloc p = [] \<or> \<not> falsy_opt (ur_username p) \<or> \<not> falsy_opt (ur_password p)
      then Inl (ValueError ''PROJECTOS_PYPI_INDEX_URL'')
      else Inr (Some url))"

definition download_command ::
  "resolver_env \<Rightarrow> string \<Rightarrow> string \<Rightarrow> bool \<Rightarrow> string option \<Rightarrow> bool \<Rightarrow> string list result" where
  "download_command v img cache binary_only host_tmp network_retry =
     bindE (trusted_index_url v) (\<lambda>index. Inr
       ([''docker'', ''run'', ''--rm'', ''--network'', ''bridge'', ''--read-only'', ''--user'', re_user v, ''--cap-drop'', ''ALL'',
         ''--security-opt'', ''no-new-privileges'']
        @ (case host_tmp of
             None \<Rightarrow> [''--tmpfs'', ''/tmp:rw,noexec,nosuid,size='' @ re_tmpfs v]
           | Some d \<Rightarrow> [''--mount'', ''type=bind,src='' @ d @ '',dst=/tmp''])
        @ [''--mount'', ''type=bind,src='' @ re_input v @ '',dst=/input,readonly'',
           ''--mount'', ''type=bind,src='' @ cache @ '',dst=/wheels'',
           img, ''python'', ''-m'', ''pip'', ''download'', ''--no-cache-dir'', ''--disable-pip-version-check'', ''--retries'',
           if network_retry then ''8'' else ''5'', ''--timeout'', if network_retry then ''60'' else ''30'', ''--prefer-binary'']
        @ (case index of None \<Rightarrow> [] | Some url \<Rightarrow> if url = [] then [] else [''--index-url'', url])
        @ (if binary_only then [''--only-binary'', '':all:''] else [])
        @ [''-r'', ''/input/requirements.in'', ''-d'', ''/wheels'']))"

definition cache_entries :: "project \<Rightarrow> string \<Rightarrow> (string \<times> string) list" where
  "cache_entries w digest = (case dict_get (po_cache w) digest of None \<Rightarrow> [] | Some c \<Rightarrow> c)"

definition set_cache :: "string \<Rightarrow> (string \<times> string) list \<Rightarrow> project \<Rightarrow> project" where
  "set_cache digest c w = w\<lparr>po_cache := dict_put digest c (po_cache w)\<rparr>"

definition clear_partial_cache :: "resolver_env \<Rightarrow> string \<Rightarrow> project \<Rightarrow> project" where
  "clear_partial_cache v digest w =
     set_cache digest (filter (\<lambda>(n, _). n \<noteq> ready_marker \<and> re_stuck v n) (cache_entries w digest)) w"

definition add_wheels :: "string \<Rightarrow> (string \<times> string) list \<Rightarrow> project \<Rightarrow> project" where
  "add_wheels digest wheels w = set_cache digest (foldl (\<lambda>c (n, t). dict_put n t c) (cache_entries w digest) wheels) w"

text \<open>The attempts from the \<open>k\<close>-th on, \<open>later\<close> of them after it.\<close>

fun download_attempts ::
  "resolver_env \<Rightarrow> docker \<Rightarrow> string \<Rightarrow> string \<Rightarrow> nat \<Rightarrow> nat \<Rightarrow> dependency_failure option \<Rightarrow> string list \<Rightarrow> project
   \<Rightarrow> (cmd_result \<times> nat \<times> string list) result \<times> project" where
  "download_attempts v docker img digest k later kind actions w =
     (let w = (if k = 0 then w else clear_partial_cache v digest w);
          host = (kind = Some DF_STORAGE \<or> kind = Some DF_INCOMPATIBLE \<or> later = 0);
          actions = actions @ (if host then [''host_backed_temp''] else []) in
      case download_command v img (cache_path w digest) (0 < later) (if host then Some (re_temp v k) else None) (0 < k) of
        Inl e \<Rightarrow> (Inl e, w)
      | Inr cmd \<Rightarrow>
          let (r, w) = run_docker docker cmd w; w = add_wheels digest (cr_wheels r) w in
          if cr_exit r = 0 then (Inr (r, k, actions), w)
          else let kind = classify_failure r; actions = actions @ [dependency_recovery kind k] in
            (case later of
               0 \<Rightarrow> (Inr (r, k, actions), w)
             | Suc later \<Rightarrow> download_attempts v docker img digest (Suc k) later (Some kind) actions w))"

declare download_attempts.simps [simp del]

record resolution =
  rl_ok :: bool
  rl_cache :: "string option"
  rl_failure :: "dependency_failure option"
  rl_attempts :: nat
  rl_actions :: "string list"
  rl_stdout :: string
  rl_stderr :: string

definition unresolved :: resolution where
  "unresolved = \<lparr>rl_ok = False, rl_cache = None, rl_failure = None, rl_attempts = 0, rl_actions = [], rl_stdout = [],
     rl_stderr = []\<rparr>"

text \<open>A successful download marks the cache with the digest; a failed one leaves no marker.\<close>

definition finish_download ::
  "resolver_env \<Rightarrow> string \<Rightarrow> cmd_result \<times> nat \<times> string list \<Rightarrow> project \<Rightarrow> resolution \<times> project" where
  "finish_download v digest = (\<lambda>(r, k, actions) w.
     (\<lparr>rl_ok = (cr_exit r = 0), rl_cache = (if cr_exit r = 0 then Some digest else None),
       rl_failure = (if cr_exit r = 0 then None else Some (classify_failure r)), rl_attempts = k + 1,
       rl_actions = dict_fromkeys actions, rl_stdout = cr_stdout r, rl_stderr = bounded_output (cr_stderr r) 12000\<rparr>,
      if cr_exit r = 0 then set_cache digest (dict_put ready_marker digest (cache_entries w digest)) w
      else clear_partial_cache v digest w))"

definition attempt_limit :: "resolver_env \<Rightarrow> nat result" where
  "attempt_limit v = bindE (py_int_of_str (re_retries v)) (\<lambda>n.
     bindE (py_int_of_str (re_timeout v)) (\<lambda>_. Inr (nat (max 1 n))))"

definition resolve_wheels ::
  "(string \<Rightarrow> string) \<Rightarrow> resolver_env \<Rightarrow> docker \<Rightarrow> bool \<Rightarrow> project \<Rightarrow> resolution result \<times> project" where
  "resolve_wheels sha v docker approved w =
     (if \<not> approved then (Inl (PermissionError ''not approved''), w)
      else (case bindE (load_manifest (po_manifest w)) (\<lambda>m. bindE (get_runtime (rm_profile m)) (\<lambda>p. Inr (m, p))) of
          Inl e \<Rightarrow> (Inl e, w)
        | Inr (m, p) \<Rightarrow>
            if falsy_opt (rm_dependencies m) then (Inr (unresolved\<lparr>rl_ok := True\<rparr>), w)
            else (case pj_requirements (po_dir w) of
                None \<Rightarrow> (Inr unresolved, w)
              | Some t \<Rightarrow>
                  let digest = sha t; w = set_cache digest (cache_entries w digest) w;
                      (found, w) = image_available docker (rp_image p) w in
                  if cr_exit found \<noteq> 0 then (Inr (unresolved\<lparr>rl_stderr := cr_stderr found\<rparr>), w)
                  else (case attempt_limit v of
                      Inl e \<Rightarrow> (Inl e, w)
                    | Inr n \<Rightarrow>
                        (case download_attempts v docker (rp_image p) digest 0 (n - 1) None [] w of
                           (Inl e, w) \<Rightarrow> (Inl e, w)
                         | (Inr done', w) \<Rightarrow> (case finish_download v digest done' w of (r, w) \<Rightarrow> (Inr r, w)))))))"


section \<open>The provisioner\<close>

definition prepared_as ::
  "string \<Rightarrow> string option \<Rightarrow> string option \<Rightarrow> string option \<Rightarrow> string \<Rightarrow> preparation" where
  "prepared_as status profile img app dependencies =
     \<lparr>pr_status = status, pr_profile = profile, pr_image = img, pr_application = app, pr_dependencies = dependencies,
      pr_failure = None, pr_attempts = 0, pr_actions = []\<rparr>"

definition prepared_ok :: "preparation \<Rightarrow> bool" where
  "prepared_ok r \<longleftrightarrow> pr_status r = ''ready''"

definition persist :: "preparation \<Rightarrow> project \<Rightarrow> preparation result \<times> project" where
  "persist r w = (Inr r, w\<lparr>po_preparation := Some r\<rparr>)"

text \<open>The approval names the digest of the requirements it was given for.\<close>

definition approved_dependencies :: "(string \<Rightarrow> string) \<Rightarrow> runtime_manifest \<Rightarrow> project \<Rightarrow> bool result" where
  "approved_dependencies sha m w =
     (if falsy_opt (rm_dependencies m) then Inr True
      else (case (pj_requirements (po_dir w), po_approval w) of
          (Some t, JsonFile j) \<Rightarrow>
            if \<not> is_obj j then Inl (AttributeError ''dependency-approval.json'')
            else Inr (truthy (json_get_null j ''approved'') \<and> json_get_null j ''digest'' = JStr (sha t))
        | _ \<Rightarrow> Inr False))"

definition profile_images :: "runtime_profile \<Rightarrow> string list" where
  "profile_images p = sort (dict_fromkeys (rp_image p # map or_empty
     (filter (\<lambda>i. \<not> falsy_opt i) (map (rc_image \<circ> snd) (rp_checks p)))))"

fun prepare_images :: "docker \<Rightarrow> bool \<Rightarrow> string list \<Rightarrow> project \<Rightarrow> (string \<times> cmd_result) option \<times> project" where
  "prepare_images docker pull [] w = (None, w)"
| "prepare_images docker pull (i # is) w =
     (let (found, w) = image_available docker i w;
          (found, w) = (if cr_exit found \<noteq> 0 \<and> pull
            then (let (pulled, w) = run_docker docker [''docker'', ''pull'', i] w in
                  if cr_exit pulled = 0 then image_available docker i w else (pulled, w))
            else (found, w)) in
      if cr_exit found \<noteq> 0 then (Some (i, found), w) else prepare_images docker pull is w)"

definition startup_files :: "string list" where
  "startup_files = [''start.sh'', ''start.ps1'', ''start-managed.sh'', ''start-managed.ps1'', ''start.command'',
     ''.projectos/local_runtime.py'', ''docker-compose.yml'']"

definition add_startup_scripts :: "project \<Rightarrow> project" where
  "add_startup_scripts w = w\<lparr>po_dir := (po_dir w)\<lparr>pj_files := pj_files (po_dir w)
     @ filter (\<lambda>f. f \<notin> set (pj_files (po_dir w))) startup_files\<rparr>\<rparr>"

definition declared_application :: "runtime_manifest \<Rightarrow> string option \<Rightarrow> project \<Rightarrow> runtime_manifest \<times> project" where
  "declared_application m app w =
     (if \<not> falsy_opt app \<and> rm_application m \<noteq> app
      then (let m = m\<lparr>rm_application := app\<rparr> in (m, w\<lparr>po_manifest := save_manifest m\<rparr>))
      else (m, w))"

definition prepare_dependencies ::
  "(string \<Rightarrow> string) \<Rightarrow> resolver_env \<Rightarrow> docker \<Rightarrow> bool \<Rightarrow> runtime_profile \<Rightarrow> runtime_manifest \<Rightarrow> string option \<Rightarrow> project
   \<Rightarrow> preparation result \<times> project" where
  "prepare_dependencies sha v docker approved p m app w =
     (let report = (\<lambda>status. prepared_as status (Some (rp_id p)) (Some (rp_image p)) app ''required'') in
      case (if approved then Inr True else approved_dependencies sha m w) of
        Inl e \<Rightarrow> (Inl e, w)
      | Inr ok \<Rightarrow>
          if \<not> ok then persist (report ''dependency_approval_required'') w
          else if cache_ready sha m w then persist (report ''ready'') w
          else (case resolve_wheels sha v docker True w of
              (Inl e, w) \<Rightarrow> (Inl e, w)
            | (Inr r, w) \<Rightarrow> persist ((report (if rl_ok r then ''ready'' else ''dependency_failed''))
                \<lparr>pr_failure := map_option dependency_failure_value (rl_failure r),
                 pr_attempts := int (rl_attempts r), pr_actions := rl_actions r\<rparr>) w))"

definition invalid_runtime :: preparation where
  "invalid_runtime = prepared_as ''invalid_runtime'' None None None ''none''"

definition prepare ::
  "(string \<Rightarrow> string) \<Rightarrow> resolver_env \<Rightarrow> docker \<Rightarrow> bool \<Rightarrow> bool \<Rightarrow> project \<Rightarrow> preparation result \<times> project" where
  "prepare sha v docker pull approved w =
     (case bindE (load_manifest (po_manifest w)) (\<lambda>m. bindE (get_runtime (rm_profile m)) (\<lambda>p. Inr (m, p))) of
        Inl (FileNotFoundError _) \<Rightarrow> persist invalid_runtime w
      | Inl (PermissionError _) \<Rightarrow> persist invalid_runtime w
      | Inl (ValueError _) \<Rightarrow> persist invalid_runtime w
      | Inl e \<Rightarrow> (Inl e, w)
      | Inr (m, p) \<Rightarrow>
          (case resolve_application (po_dir w) (rm_application m) of
             Inl e \<Rightarrow> (Inl e, w)
           | Inr app \<Rightarrow>
               let (m, w) = declared_application m app w; w = add_startup_scripts w;
                   (missing, w) = prepare_images docker pull (profile_images p) w in
               (case missing of
                  Some (i, _) \<Rightarrow> persist (prepared_as ''image_unavailable'' (Some (rp_id p)) (Some i) None ''none'') w
                | None \<Rightarrow>
                    if falsy_opt (rm_dependencies m)
                    then persist (prepared_as ''ready'' (Some (rp_id p)) (Some (rp_image p)) app ''none'') w
                    else prepare_dependencies sha v docker approved p m app w)))"

text \<open>The approval of the owner, and its status.\<close>

datatype approval_status = AP_INVALID_RUNTIME | AP_NOT_REQUIRED | AP_INVALID_DEPENDENCIES | AP_APPROVED | AP_PENDING

definition dependency_approval :: "(string \<Rightarrow> string) \<Rightarrow> project \<Rightarrow> approval_status result" where
  "dependency_approval sha w = (case load_manifest (po_manifest w) of
      Inl (FileNotFoundError _) \<Rightarrow> Inr AP_INVALID_RUNTIME
    | Inl (PermissionError _) \<Rightarrow> Inr AP_INVALID_RUNTIME
    | Inl (ValueError _) \<Rightarrow> Inr AP_INVALID_RUNTIME
    | Inl e \<Rightarrow> Inl e
    | Inr m \<Rightarrow>
        if falsy_opt (rm_dependencies m) then Inr AP_NOT_REQUIRED
        else if pj_requirements (po_dir w) = None then Inr AP_INVALID_DEPENDENCIES
        else bindE (approved_dependencies sha m w) (\<lambda>ok. Inr (if ok then AP_APPROVED else AP_PENDING)))"

definition approval_record :: "string \<Rightarrow> string \<Rightarrow> json" where
  "approval_record digest now =
     JObj [(''approved'', JBool True), (''digest'', JStr digest), (''approved_at'', JStr now)]"

definition approve_dependencies ::
  "(string \<Rightarrow> string) \<Rightarrow> resolver_env \<Rightarrow> docker \<Rightarrow> bool \<Rightarrow> string \<Rightarrow> project
   \<Rightarrow> (preparation option \<times> approval_status) result \<times> project" where
  "approve_dependencies sha v docker pull now w = (case load_manifest (po_manifest w) of
      Inl e \<Rightarrow> (Inl e, w)
    | Inr m \<Rightarrow>
        (case (falsy_opt (rm_dependencies m), pj_requirements (po_dir w)) of
           (False, Some t) \<Rightarrow>
             let w = w\<lparr>po_approval := JsonFile (approval_record (sha t) now)\<rparr> in
             (case prepare sha v docker pull True w of
                (Inl e, w) \<Rightarrow> (Inl e, w)
              | (Inr r, w) \<Rightarrow> (bindE (dependency_approval sha w) (\<lambda>a. Inr (Some r, a)), w))
         | _ \<Rightarrow> (bindE (dependency_approval sha w) (\<lambda>a. Inr (None, a)), w)))"

section \<open>The controller\<close>

definition setup_failed :: "string \<Rightarrow> string option \<Rightarrow> sandbox_result" where
  "setup_failed check_id profile = \<lparr>sr_status = SB_SETUP_FAILED, sr_check_id = check_id, sr_profile = profile,
     sr_exit = None, sr_stdout = [], sr_stderr = []\<rparr>"

definition no_web_tests :: sandbox_result where
  "no_web_tests = \<lparr>sr_status = SB_FAILED, sr_check_id = ''web-unit'', sr_profile = None, sr_exit = Some 1, sr_stdout = [],
     sr_stderr = []\<rparr>"

definition checked_spec ::
  "(string \<Rightarrow> string) \<Rightarrow> (nat \<Rightarrow> string) \<Rightarrow> sandbox_limits \<Rightarrow> string \<Rightarrow> project \<Rightarrow> sandbox_spec result" where
  "checked_spec sha tx limits check_id w =
     bindE (load_manifest (po_manifest w)) (\<lambda>m.
     bindE (resolve_application (po_dir w) (rm_application m)) (\<lambda>_.
     create_spec sha tx limits w m check_id))"

definition run_check ::
  "(string \<Rightarrow> string) \<Rightarrow> (nat \<Rightarrow> string) \<Rightarrow> resolver_env \<Rightarrow> docker \<Rightarrow> sandbox_limits \<Rightarrow> string \<Rightarrow> project
   \<Rightarrow> sandbox_result result \<times> project" where
  "run_check sha tx v docker limits check_id w =
     (if check_id = ''web-unit'' \<and> discover_web_tests (po_dir w) = [] then (Inr no_web_tests, w)
      else (case prepare sha v docker True False w of
          (Inl e, w) \<Rightarrow> (Inl e, w)
        | (Inr r, w) \<Rightarrow>
            if \<not> prepared_ok r then (Inr (setup_failed check_id (pr_profile r)), w)
            else (case checked_spec sha tx limits check_id w of
                Inl (FileNotFoundError _) \<Rightarrow> (Inr (setup_failed check_id None), w)
              | Inl (PermissionError _) \<Rightarrow> (Inr (setup_failed check_id None), w)
              | Inl (ValueError _) \<Rightarrow> (Inr (setup_failed check_id None), w)
              | Inl e \<Rightarrow> (Inl e, w)
              | Inr s \<Rightarrow> run_spec docker s w)))"

definition sandbox_preflight ::
  "(string \<Rightarrow> string) \<Rightarrow> (nat \<Rightarrow> string) \<Rightarrow> docker \<Rightarrow> sandbox_limits \<Rightarrow> string \<Rightarrow> project \<Rightarrow> string result \<times> project" where
  "sandbox_preflight sha tx docker limits check_id w = (case checked_spec sha tx limits check_id w of
      Inl (FileNotFoundError _) \<Rightarrow> (Inr ''invalid_runtime'', w)
    | Inl (PermissionError _) \<Rightarrow> (Inr ''invalid_runtime'', w)
    | Inl (ValueError _) \<Rightarrow> (Inr ''invalid_runtime'', w)
    | Inl e \<Rightarrow> (Inl e, w)
    | Inr s \<Rightarrow> (let (found, w) = image_available docker (sp_image s) w in
        (Inr (if cr_exit found \<noteq> 0 then ''image_missing'' else ''ready''), w)))"

end
