(* ===== verification/Sandbox_Laws.thy ===== *)
theory Sandbox_Laws
  imports Sandbox_Run Project_Contract_Laws
begin

text \<open>
  What the sandbox promises: a check runs trusted images only, its own container has no network and sees the project
  read only, dependencies are downloaded only with the approval of the owner; a prepared project has the cache its
  manifest asks for; and the manifest survives being written.
\<close>

section \<open>The Docker commands of an operation\<close>

text \<open>
  \<open>runs P w w'\<close>: from \<open>w\<close> to \<open>w'\<close> only commands with \<open>P\<close> have been run, and the root, the requirements, the
  approval and the contract are those of \<open>w\<close>.
\<close>

definition keeps :: "project \<Rightarrow> project \<Rightarrow> bool" where
  "keeps w w' \<longleftrightarrow> po_root w' = po_root w \<and> pj_requirements (po_dir w') = pj_requirements (po_dir w)
     \<and> po_approval w' = po_approval w \<and> po_contract w' = po_contract w"

definition runs :: "(string list \<Rightarrow> bool) \<Rightarrow> project \<Rightarrow> project \<Rightarrow> bool" where
  "runs P w w' \<longleftrightarrow> keeps w w' \<and> (\<exists>log. po_log w' = po_log w @ log \<and> list_all P log)"

lemma keeps_refl [simp]: "keeps w w"
  by (simp add: keeps_def)

lemma keeps_trans: "keeps w w' \<Longrightarrow> keeps w' w'' \<Longrightarrow> keeps w w''"
  by (simp add: keeps_def)

lemma runs_refl [simp]: "runs P w w"
  by (auto simp: runs_def)

lemma runs_trans: "runs P w w' \<Longrightarrow> runs P w' w'' \<Longrightarrow> runs P w w''"
  unfolding runs_def by (elim conjE exE) (auto intro: keeps_trans)

lemma runs_mono: "runs P w w' \<Longrightarrow> (\<And>c. P c \<Longrightarrow> Q c) \<Longrightarrow> runs Q w w'"
  unfolding runs_def by (auto simp: list_all_iff)

lemma runs_keeps: "runs P w w' \<Longrightarrow> keeps w w'"
  by (simp add: runs_def)

lemma runs_silent: "keeps w w' \<Longrightarrow> po_log w' = po_log w \<Longrightarrow> runs P w w'"
  by (simp add: runs_def)

lemma runs_one: "P c \<Longrightarrow> runs P w (w\<lparr>po_log := po_log w @ [c]\<rparr>)"
  by (auto simp: runs_def keeps_def)

lemma run_docker_runs: "P c \<Longrightarrow> run_docker docker c w = (r, w') \<Longrightarrow> runs P w w'"
  by (auto simp: run_docker_def intro: runs_one)

section \<open>Trusted images\<close>

definition trusted_images :: "string list" where
  "trusted_images = [''python:3.12-slim'', ''node:22-alpine'']"

definition image_command :: "string list \<Rightarrow> bool" where
  "image_command c \<longleftrightarrow> list_ex (\<lambda>i. c = [''docker'', ''image'', ''inspect'', i]
     \<or> c = [''docker'', ''image'', ''ls'', ''--format={{.Repository}}:{{.Tag}}'', i] \<or> c = [''docker'', ''pull'', i])
     trusted_images"

lemma image_commandI:
  assumes "i \<in> set trusted_images"
  shows "image_command [''docker'', ''image'', ''inspect'', i]"
    "image_command [''docker'', ''image'', ''ls'', ''--format={{.Repository}}:{{.Tag}}'', i]"
    "image_command [''docker'', ''pull'', i]"
  using assms by (auto simp: image_command_def list_ex_iff)

lemma get_runtime_cases:
  assumes "get_runtime i = Inr p"
  shows "rp_id p = i \<and> rp_image p = ''python:3.12-slim'' \<and> rp_checks p = runtime_checks
    \<and> i \<in> {''python-stdlib'', ''python-pip''} \<and> (rp_dependencies p \<longleftrightarrow> i = ''python-pip'')"
  using assms by (auto simp: get_runtime_def runtime_profiles_def split: if_splits)

lemma check_images: "map (rc_image \<circ> snd) runtime_checks = [None, Some ''node:22-alpine'', None]"
  by (simp add: runtime_checks_def unit_check_def web_unit_check_def runtime_smoke_check_def)

lemma profile_images_trusted:
  assumes "get_runtime i = Inr p"
  shows "set (profile_images p) \<subseteq> set trusted_images"
proof -
  have "rp_image p = ''python:3.12-slim''" "rp_checks p = runtime_checks" using get_runtime_cases [OF assms] by auto
  then show ?thesis
    unfolding profile_images_def by (simp only: check_images) (simp add: trusted_images_def or_empty_def falsy_opt_def)
qed

lemma check_image_trusted:
  assumes "get_runtime i = Inr p" "dict_get (rp_checks p) k = Some c"
  shows "(if falsy_opt (rc_image c) then rp_image p else or_empty (rc_image c)) \<in> set trusted_images"
proof -
  have p: "rp_image p = ''python:3.12-slim''" "rp_checks p = runtime_checks" using get_runtime_cases [OF assms(1)] by auto
  have "(k, c) \<in> set runtime_checks" using assms(2) unfolding p(2) by (rule map_of_SomeD)
  then have "rc_image c \<in> set (map (rc_image \<circ> snd) runtime_checks)" by force
  then have "rc_image c = None \<or> rc_image c = Some ''node:22-alpine''" unfolding check_images by auto
  then show ?thesis by (auto simp: p(1) trusted_images_def or_empty_def falsy_opt_def)
qed

lemma image_available_runs:
  assumes "i \<in> set trusted_images" "image_available docker i w = (r, w')"
  shows "runs image_command w w'"
  using assms(2) image_commandI [OF assms(1)]
  by (auto simp: image_available_def Let_def split: prod.splits if_splits
      intro: run_docker_runs runs_trans [OF run_docker_runs run_docker_runs])

lemma prepare_images_invariant:
  assumes "prepare_images docker pull is w = (r, w')" "P w"
    and look: "\<And>i w f w'. i \<in> set is \<Longrightarrow> P w \<Longrightarrow> image_available docker i w = (f, w') \<Longrightarrow> P w'"
    and pull: "\<And>i w f w'. i \<in> set is \<Longrightarrow> P w \<Longrightarrow> run_docker docker [''docker'', ''pull'', i] w = (f, w') \<Longrightarrow> P w'"
  shows "P w'"
  using assms
proof (induction "is" arbitrary: w)
  case (Cons i "is")
  note look = Cons.prems(3) [of i] and pull = Cons.prems(4) [of i]
  obtain f1 w1 where a: "image_available docker i w = (f1, w1)" by force
  have w1: "P w1" using look [OF _ Cons.prems(2) a] by simp
  have rest: "P w'" if "(if cr_exit f \<noteq> 0 then (Some (i, f), u) else prepare_images docker pull is u) = (r, w')" "P u" for f u
  proof (cases "cr_exit f = 0")
    case True
    show ?thesis
    proof (rule Cons.IH [OF _ that(2)])
      show "prepare_images docker pull is u = (r, w')" using that(1) True by simp
    qed (erule Cons.prems(3,4) [OF list.set_intros(2)], assumption+)+
  qed (use that in simp)
  show ?case
  proof (cases "cr_exit f1 \<noteq> 0 \<and> pull")
    case True
    obtain f2 w2 where p: "run_docker docker [''docker'', ''pull'', i] w1 = (f2, w2)" by force
    have w2: "P w2" using pull [OF _ w1 p] by simp
    obtain f3 w3 where q: "(if cr_exit f2 = 0 then image_available docker i w2 else (f2, w2)) = (f3, w3)" by force
    have "(if cr_exit f3 \<noteq> 0 then (Some (i, f3), w3) else prepare_images docker pull is w3) = (r, w')"
      using Cons.prems(1) True a p q by (auto simp: Let_def split: if_splits)
    then show ?thesis by (rule rest) (use q w2 look [OF _ w2, of f3 w3] in \<open>auto split: if_splits\<close>)
  next
    case False
    then show ?thesis using Cons.prems(1) a w1 rest [of f1 w1] by (auto simp: Let_def)
  qed
qed simp

lemma prepare_images_runs:
  assumes "set is \<subseteq> set trusted_images" "prepare_images docker pull is w = (r, w')"
  shows "runs image_command w w'"
  using assms(2)
proof (rule prepare_images_invariant [where P = "runs image_command w"])
  show "runs image_command w u'" if "i \<in> set is" "runs image_command w u" "image_available docker i u = (f, u')" for i u f u'
    using that(2) by (rule runs_trans) (use that(1,3) assms(1) image_available_runs in blast)
  show "runs image_command w u'"
    if "i \<in> set is" "runs image_command w u" "run_docker docker [''docker'', ''pull'', i] u = (f, u')" for i u f u'
    using that(2) by (rule runs_trans) (rule run_docker_runs [OF _ that(3)], use that(1) assms(1) image_commandI(3) in blast)
qed simp

section \<open>The commands of a check\<close>

definition owner_approved :: "(string \<Rightarrow> string) \<Rightarrow> project \<Rightarrow> bool" where
  "owner_approved sha w \<longleftrightarrow> (case (pj_requirements (po_dir w), po_approval w) of
      (Some t, JsonFile j) \<Rightarrow> truthy (json_get_null j ''approved'') \<and> json_get_null j ''digest'' = JStr (sha t)
    | _ \<Rightarrow> False)"

text \<open>A download: the container with a network, whose only other mounts are the requirements and a cache.\<close>

definition wheel_download :: "resolver_env \<Rightarrow> project \<Rightarrow> string list \<Rightarrow> bool" where
  "wheel_download v w c \<longleftrightarrow> (\<exists>img digest b tmp n. img \<in> set trusted_images
     \<and> download_command v img (cache_path w digest) b tmp n = Inr c)"

text \<open>A check: no network, a read-only root, no capability, and read-only mounts of the workspace and the cache.\<close>

definition confined :: "sandbox_limits \<Rightarrow> project \<Rightarrow> string list \<Rightarrow> bool" where
  "confined l w c \<longleftrightarrow> (\<exists>mounts img rest. c = isolation l @ readonly_bind (workspace_path w) ''/workspace''
       @ [''--workdir'', ''/workspace'', ''--env'', ''PYTHONDONTWRITEBYTECODE=1''] @ mounts
       @ [''--env'', ''PYTHONPATH=/workspace/backend:/site-packages'', img] @ rest
     \<and> img \<in> set trusted_images
     \<and> (mounts = [] \<or> (\<exists>digest. mounts = readonly_bind (po_root w @ ''/requirements.in'') ''/input/requirements.in''
           @ readonly_bind (cache_path w digest) ''/wheels'')))"

lemma wheel_download_keeps: "keeps w w' \<Longrightarrow> wheel_download v w' c \<longleftrightarrow> wheel_download v w c"
  by (simp add: wheel_download_def cache_path_def keeps_def)

lemma confined_keeps: "keeps w w' \<Longrightarrow> confined l w' c \<longleftrightarrow> confined l w c"
  by (simp add: confined_def cache_path_def workspace_path_def keeps_def)

lemma set_cache_runs [simp]: "runs P w (set_cache d c w)"
  by (simp add: runs_silent keeps_def set_cache_def)

lemma clear_add_runs [simp]: "runs P w (clear_partial_cache v d w)" "runs P w (add_wheels d ws w)"
  by (simp_all add: clear_partial_cache_def add_wheels_def)

text \<open>One attempt: nothing but the cache changes before and after its download.\<close>

lemma attempt_runs:
  assumes "img \<in> set trusted_images" "runs (wheel_download v w0) w0 w"
    and "download_command v img (cache_path w d) b tmp n = Inr cmd" "run_docker docker cmd w = (r, w')"
  shows "runs (wheel_download v w0) w0 (add_wheels d ws w')"
proof -
  have "wheel_download v w cmd" using assms(1,3) unfolding wheel_download_def by blast
  then have "wheel_download v w0 cmd" using wheel_download_keeps [OF runs_keeps [OF assms(2)]] by simp
  then have "runs (wheel_download v w0) w w'" by (rule run_docker_runs) (rule assms(4))
  with assms(2) have "runs (wheel_download v w0) w0 w'" by (rule runs_trans)
  then show ?thesis by (rule runs_trans) simp
qed

lemma download_attempts_cases:
  assumes "download_attempts v docker img d k later kind actions w = (res, w')"
    and "w1 = (if k = 0 then w else clear_partial_cache v d w)"
  obtains (bad) e where "res = Inl e" "w' = w1"
  | (last) b tmp n cmd r w2 where
      "download_command v img (cache_path w1 d) b tmp n = Inr cmd" "run_docker docker cmd w1 = (r, w2)"
      "w' = add_wheels d (cr_wheels r) w2" "\<exists>acts. res = Inr (r, k, acts)" "cr_exit r = 0 \<or> later = 0"
  | (again) b tmp n cmd r w2 kind' acts later' where
      "download_command v img (cache_path w1 d) b tmp n = Inr cmd" "run_docker docker cmd w1 = (r, w2)"
      "later = Suc later'" "cr_exit r \<noteq> 0"
      "download_attempts v docker img d (Suc k) later' kind' acts (add_wheels d (cr_wheels r) w2) = (res, w')"
proof -
  define host where "host = (kind = Some DF_STORAGE \<or> kind = Some DF_INCOMPATIBLE \<or> later = 0)"
  define tmp where "tmp = (if host then Some (re_temp v k) else None)"
  note unfolded = assms(1) [unfolded download_attempts.simps [of v docker img d k] Let_def, folded assms(2) host_def,
      folded tmp_def]
  show thesis
  proof (cases "download_command v img (cache_path w1 d) (0 < later) tmp (0 < k)")
    case (Inl e)
    with unfolded show thesis by (intro bad) auto
  next
    case (Inr cmd)
    obtain r w2 where r: "run_docker docker cmd w1 = (r, w2)" by force
    show thesis
    proof (cases "cr_exit r = 0 \<or> later = 0")
      case True
      with unfolded Inr r show thesis by (intro last [OF Inr r]) (auto split: if_splits)
    next
      case False
      then obtain later' where "later = Suc later'" by (cases later) auto
      with False unfolded Inr r show thesis by (intro again [OF Inr r]) (auto split: if_splits)
    qed
  qed
qed

lemma download_attempts_runs:
  assumes "img \<in> set trusted_images" "runs (wheel_download v w0) w0 w"
    and "download_attempts v docker img d k later kind actions w = (r, w')"
  shows "runs (wheel_download v w0) w0 w'"
  using assms(2,3)
proof (induction later arbitrary: k kind actions w rule: less_induct)
  case (less later)
  define w1 where "w1 = (if k = 0 then w else clear_partial_cache v d w)"
  have start: "runs (wheel_download v w0) w0 w1" using less.prems(1) by (auto simp: w1_def intro: runs_trans)
  from less.prems(2) w1_def show ?case
  proof (cases rule: download_attempts_cases)
    case (last b tmp n cmd r w2)
    then show ?thesis using attempt_runs [OF assms(1) start] by blast
  next
    case (again b tmp n cmd r w2 kind' acts later')
    have "later' < later" using again(3) by simp
    from this attempt_runs [OF assms(1) start again(1,2)] again(5) show ?thesis by (rule less.IH)
  qed (use start in simp)
qed

lemma finish_runs: "finish_download v d x w = (r, w') \<Longrightarrow> runs P w w'"
  by (auto simp: finish_download_def split: prod.splits if_splits)

lemma resolve_wheels_runs:
  assumes "resolve_wheels sha v docker approved w = (r, w')"
  shows "runs (\<lambda>c. image_command c \<or> approved \<and> wheel_download v w c) w w'"
proof (cases "bindE (load_manifest (po_manifest w)) (\<lambda>m. bindE (get_runtime (rm_profile m)) (\<lambda>p. Inr (m, p)))")
  case (Inr mp)
  then obtain m p where mp: "mp = (m, p)" "get_runtime (rm_profile m) = Inr p" by auto
  have img: "rp_image p \<in> set trusted_images" using get_runtime_cases [OF mp(2)] by (simp add: trusted_images_def)
  show ?thesis
  proof (cases "approved \<and> \<not> falsy_opt (rm_dependencies m) \<and> pj_requirements (po_dir w) \<noteq> None")
    case True
    then obtain t where t: "pj_requirements (po_dir w) = Some t" by blast
    define w1 where "w1 = set_cache (sha t) (cache_entries w (sha t)) w"
    have r1: "runs P w w1" for P by (simp add: w1_def)
    obtain f w2 where f: "image_available docker (rp_image p) w1 = (f, w2)" by force
    have r2: "runs (\<lambda>c. image_command c \<or> approved \<and> wheel_download v w c) w w2"
      using runs_trans [OF r1 image_available_runs [OF img f]] by (rule runs_mono) simp
    have eq: "(if cr_exit f \<noteq> 0 then (Inr (unresolved\<lparr>rl_stderr := cr_stderr f\<rparr>), w2)
        else (case attempt_limit v of Inl e \<Rightarrow> (Inl e, w2)
          | Inr n \<Rightarrow> (case download_attempts v docker (rp_image p) (sha t) 0 (n - 1) None [] w2 of
               (Inl e, w) \<Rightarrow> (Inl e, w)
             | (Inr x, w) \<Rightarrow> (case finish_download v (sha t) x w of (r, w) \<Rightarrow> (Inr r, w))))) = (r, w')"
      using assms True t f unfolding resolve_wheels_def Inr mp(1) w1_def by (simp add: Let_def)
    show ?thesis
    proof (cases "cr_exit f = 0 \<and> (\<exists>n. attempt_limit v = Inr n)")
      case True
      then obtain n where n: "attempt_limit v = Inr n" by blast
      obtain x w3 where a: "download_attempts v docker (rp_image p) (sha t) 0 (n - 1) None [] w2 = (x, w3)" by force
      have "runs (wheel_download v w2) w2 w3" by (rule download_attempts_runs [OF img _ a]) simp
      then have "runs (\<lambda>c. image_command c \<or> approved \<and> wheel_download v w c) w2 w3"
        by (rule runs_mono) (use \<open>approved \<and> _\<close> wheel_download_keeps [OF runs_keeps [OF r2]] in simp)
      with r2 have r3: "runs (\<lambda>c. image_command c \<or> approved \<and> wheel_download v w c) w w3" by (rule runs_trans)
      show ?thesis
        using eq True n a r3 finish_runs
        by (auto split: sum.splits prod.splits intro: runs_trans)
    qed (use eq r2 in \<open>auto split: sum.splits if_splits\<close>)
  next
    case False
    then have "w' = w" using assms Inr mp(1)
      by (auto simp: resolve_wheels_def Let_def split: if_splits option.splits)
    then show ?thesis by simp
  qed
qed (use assms in \<open>auto simp: resolve_wheels_def split: if_splits\<close>)

section \<open>Preparation and checks\<close>

lemma owner_approved_keeps: "keeps w w' \<Longrightarrow> owner_approved sha w' \<longleftrightarrow> owner_approved sha w"
  by (simp add: owner_approved_def keeps_def)

lemma approved_dependencies_owner:
  "approved_dependencies sha m w = Inr True \<Longrightarrow> \<not> falsy_opt (rm_dependencies m) \<Longrightarrow> owner_approved sha w"
  by (auto simp: approved_dependencies_def owner_approved_def split: option.splits json_file.splits if_splits)

lemma persist_runs: "persist x w = (r, w') \<Longrightarrow> runs P w w'"
  by (auto simp: persist_def runs_silent keeps_def)

lemma declared_application_runs: "declared_application m a w = (m', w') \<Longrightarrow> runs P w w'"
  by (auto simp: declared_application_def Let_def runs_silent keeps_def split: if_splits)

lemma add_startup_scripts_runs [simp]: "runs P w (add_startup_scripts w)"
  by (simp add: add_startup_scripts_def runs_silent keeps_def)

lemma prepare_dependencies_runs:
  assumes "prepare_dependencies sha v docker approved p m a w = (r, w')" "\<not> falsy_opt (rm_dependencies m)"
  shows "runs (\<lambda>c. image_command c \<or> (approved \<or> owner_approved sha w) \<and> wheel_download v w c) w w'"
proof (cases "(if approved then Inr True else approved_dependencies sha m w) = Inr True \<and> \<not> cache_ready sha m w")
  case True
  then have ok: "approved \<or> owner_approved sha w"
    using assms(2) approved_dependencies_owner by (auto split: if_splits)
  obtain x w1 where x: "resolve_wheels sha v docker True w = (x, w1)" by force
  have "runs (\<lambda>c. image_command c \<or> (approved \<or> owner_approved sha w) \<and> wheel_download v w c) w w1"
    using resolve_wheels_runs [OF x] by (rule runs_mono) (use ok in auto)
  then show ?thesis
    using assms(1) True x persist_runs unfolding prepare_dependencies_def
    by (auto simp: Let_def split: sum.splits if_splits intro: runs_trans)
next
  case False
  then have "(\<exists>e. (r, w') = (Inl e, w)) \<or> (\<exists>x. persist x w = (r, w'))"
    using assms(1) unfolding prepare_dependencies_def
    by (cases "if approved then Inr True else approved_dependencies sha m w") (auto simp: Let_def split: if_splits)
  then show ?thesis using persist_runs by auto
qed

lemma prepare_cases:
  assumes "prepare sha v docker pull approved w = (r, w')"
  obtains (error) e where "r = Inl e" "w' = w"
  | (invalid) "persist invalid_runtime w = (r, w')"
  | (images) m p a m1 w1 missing w2 where "load_manifest (po_manifest w) = Inr m" "get_runtime (rm_profile m) = Inr p"
      "resolve_application (po_dir w) (rm_application m) = Inr a" "declared_application m a w = (m1, w1)"
      "prepare_images docker pull (profile_images p) (add_startup_scripts w1) = (Some missing, w2)"
      "persist (prepared_as ''image_unavailable'' (Some (rp_id p)) (Some (fst missing)) None ''none'') w2 = (r, w')"
  | (plain) m p a m1 w1 w2 where "load_manifest (po_manifest w) = Inr m" "get_runtime (rm_profile m) = Inr p"
      "resolve_application (po_dir w) (rm_application m) = Inr a" "declared_application m a w = (m1, w1)"
      "prepare_images docker pull (profile_images p) (add_startup_scripts w1) = (None, w2)"
      "falsy_opt (rm_dependencies m1)"
      "persist (prepared_as ''ready'' (Some (rp_id p)) (Some (rp_image p)) a ''none'') w2 = (r, w')"
  | (dependent) m p a m1 w1 w2 where "load_manifest (po_manifest w) = Inr m" "get_runtime (rm_profile m) = Inr p"
      "resolve_application (po_dir w) (rm_application m) = Inr a" "declared_application m a w = (m1, w1)"
      "prepare_images docker pull (profile_images p) (add_startup_scripts w1) = (None, w2)"
      "\<not> falsy_opt (rm_dependencies m1)" "prepare_dependencies sha v docker approved p m1 a w2 = (r, w')"
proof (cases "bindE (load_manifest (po_manifest w)) (\<lambda>m. bindE (get_runtime (rm_profile m)) (\<lambda>p. Inr (m, p)))")
  case (Inl e)
  with assms have "(r, w') = (Inl e, w) \<or> persist invalid_runtime w = (r, w')"
    by (cases e) (auto simp: prepare_def)
  then show thesis using error invalid by auto
next
  case (Inr mp)
  then obtain m p where mp: "mp = (m, p)" "load_manifest (po_manifest w) = Inr m" "get_runtime (rm_profile m) = Inr p"
    by auto
  show thesis
  proof (cases "resolve_application (po_dir w) (rm_application m)")
    case (Inl e)
    with assms Inr mp show thesis by (intro error [of e]) (auto simp: prepare_def)
  next
    case a: (Inr a)
    obtain m1 w1 where d: "declared_application m a w = (m1, w1)" by force
    obtain x w2 where i: "prepare_images docker pull (profile_images p) (add_startup_scripts w1) = (x, w2)" by force
    show thesis
    proof (cases x)
      case (Some missing)
      with assms Inr mp a d i show thesis
        by (intro images [OF mp(2,3) a d i [unfolded Some]]) (auto simp: prepare_def split: prod.splits)
    next
      case None
      show thesis
      proof (cases "falsy_opt (rm_dependencies m1)")
        case True
        with assms Inr mp a d i None show thesis
          by (intro plain [OF mp(2,3) a d i [unfolded None]]) (auto simp: prepare_def)
      next
        case False
        with assms Inr mp a d i None show thesis
          by (intro dependent [OF mp(2,3) a d i [unfolded None]]) (auto simp: prepare_def)
      qed
    qed
  qed
qed

lemma prepare_runs:
  assumes "prepare sha v docker pull approved w = (r, w')"
  shows "runs (\<lambda>c. image_command c \<or> (approved \<or> owner_approved sha w) \<and> wheel_download v w c) w w'" (is "runs ?P w w'")
proof -
  have start: "runs ?P w w2"
    if "get_runtime i = Inr p" "declared_application m a w = (m1, w1)"
      "prepare_images docker pull (profile_images p) (add_startup_scripts w1) = (x, w2)" for i p m a m1 w1 x w2
  proof -
    have "runs ?P w (add_startup_scripts w1)"
      by (rule runs_trans [OF declared_application_runs [OF that(2)]]) simp
    moreover have "runs ?P (add_startup_scripts w1) w2"
      by (rule runs_mono [OF prepare_images_runs [OF profile_images_trusted [OF that(1)] that(3)]]) simp
    ultimately show ?thesis by (rule runs_trans)
  qed
  show ?thesis using assms
  proof (cases rule: prepare_cases)
    case (invalid)
    then show ?thesis by (rule persist_runs)
  next
    case (images m p a m1 w1 missing w2)
    show ?thesis using start [OF images(2,4,5)] persist_runs [OF images(6)] by (rule runs_trans)
  next
    case (plain m p a m1 w1 w2)
    show ?thesis using start [OF plain(2,4,5)] persist_runs [OF plain(7)] by (rule runs_trans)
  next
    case (dependent m p a m1 w1 w2)
    have s: "runs ?P w w2" by (rule start [OF dependent(2,4,5)])
    have "runs ?P w2 w'"
      by (rule runs_mono [OF prepare_dependencies_runs [OF dependent(7,6)]])
        (use wheel_download_keeps [OF runs_keeps [OF s]] owner_approved_keeps [OF runs_keeps [OF s]] in auto)
    with s show ?thesis by (rule runs_trans)
  qed simp
qed

lemma run_command_confined:
  assumes "run_command w s = Inr c" "sp_image s \<in> set trusted_images"
  shows "confined (sp_limits s) w c"
proof -
  define mounts where "mounts = (case sp_cache s of None \<Rightarrow> []
     | Some d \<Rightarrow> readonly_bind (po_root w @ ''/requirements.in'') ''/input/requirements.in''
         @ readonly_bind (cache_path w d) ''/wheels'')"
  from assms(1) obtain rest where "c = isolation (sp_limits s) @ readonly_bind (workspace_path w) ''/workspace''
       @ [''--workdir'', ''/workspace'', ''--env'', ''PYTHONDONTWRITEBYTECODE=1''] @ mounts
       @ [''--env'', ''PYTHONPATH=/workspace/backend:/site-packages'', sp_image s] @ rest"
    by (auto simp: run_command_def mounts_def)
  moreover have "mounts = [] \<or> (\<exists>digest. mounts = readonly_bind (po_root w @ ''/requirements.in'') ''/input/requirements.in''
           @ readonly_bind (cache_path w digest) ''/wheels'')"
    by (auto simp: mounts_def split: option.splits)
  ultimately show ?thesis using assms(2) unfolding confined_def by blast
qed

lemma run_spec_runs:
  assumes "run_spec docker s w = (r, w')" "sp_image s \<in> set trusted_images"
  shows "runs (\<lambda>c. image_command c \<or> confined (sp_limits s) w c) w w'"
proof -
  obtain f w1 where f: "image_available docker (sp_image s) w = (f, w1)" by force
  have r1: "runs (\<lambda>c. image_command c \<or> confined (sp_limits s) w c) w w1"
    by (rule runs_mono [OF image_available_runs [OF assms(2) f]]) simp
  show ?thesis
  proof (cases "cr_exit f = 0 \<and> (\<exists>c. run_command w1 s = Inr c)")
    case True
    then obtain c where c: "run_command w1 s = Inr c" by blast
    obtain x w2 where x: "run_docker docker c w1 = (x, w2)" by force
    have "confined (sp_limits s) w c"
      using run_command_confined [OF c assms(2)] confined_keeps [OF runs_keeps [OF r1]] by simp
    then have "runs (\<lambda>c. image_command c \<or> confined (sp_limits s) w c) w1 w2"
      by (intro run_docker_runs [OF _ x]) simp
    moreover have "w' = w2" using assms(1) f True c x by (auto simp: run_spec_def Let_def)
    ultimately show ?thesis using r1 runs_trans by blast
  next
    case False
    then have "w' = w1" using assms(1) f by (auto simp: run_spec_def Let_def split: sum.splits if_splits)
    with r1 show ?thesis by simp
  qed
qed

lemma create_spec_trusted:
  assumes "create_spec sha tx limits w m i = Inr s"
  shows "sp_image s \<in> set trusted_images \<and> sp_limits s = limits"
proof -
  from assms obtain p c where "get_runtime (rm_profile m) = Inr p" "dict_get (rp_checks p) i = Some c"
    and s: "sp_image s = (if falsy_opt (rc_image c) then rp_image p else or_empty (rc_image c))" "sp_limits s = limits"
    by (auto simp: create_spec_def split: option.splits if_splits)
  then show ?thesis using check_image_trusted by metis
qed


section \<open>The manifest\<close>

definition manifest_ok :: "runtime_manifest \<Rightarrow> bool" where
  "manifest_ok m \<longleftrightarrow> is_one (rm_version m) \<and> stripped (rm_profile m) \<and> \<not> blank (rm_profile m)
     \<and> (rm_dependencies m = None \<or> rm_dependencies m = Some ''requirements.in'')
     \<and> (case rm_application m of None \<Rightarrow> True | Some a \<Rightarrow> stripped a \<and> \<not> blank a)
     \<and> (rm_mode m = ''development'' \<or> rm_mode m = ''production'') \<and> known_manifest m = Inr m"

lemma known_manifest_same: "known_manifest m = Inr m' \<Longrightarrow> m' = m"
  by (auto simp: known_manifest_def)

lemma manifest_from_dict_ok:
  assumes "manifest_from_dict j = Inr m"
  shows "manifest_ok m"
proof -
  let ?f = "json_get_null j"
  have h: "is_one (?f ''version'')" "\<not> blank_json (?f ''profile'')"
      "?f ''dependencies_file'' = JNull \<or> ?f ''dependencies_file'' = JStr ''requirements.in''"
      "?f ''application'' = JNull \<or> \<not> blank_json (?f ''application'')"
      "check_mode (manifest_mode j) = Inr ()"
    and k: "known_manifest \<lparr>rm_version = ?f ''version'', rm_profile = py_strip (str_or_empty (?f ''profile'')),
          rm_dependencies = given_str (?f ''dependencies_file''),
          rm_application = map_option py_strip (given_str (?f ''application'')),
          rm_mode = str_or_empty (manifest_mode j)\<rparr> = Inr m"
    using assms unfolding manifest_from_dict_def by (auto split: if_splits)
  note m = known_manifest_same [OF k]
  have "rm_mode m = ''development'' \<or> rm_mode m = ''production''"
    using h(5) unfolding m check_mode_def by (auto simp: str_or_empty_def split: json.splits if_splits)
  moreover have "\<not> blank (rm_profile m)"
    using h(2) unfolding m by (auto simp: blank_json_def str_or_empty_def split: json.splits)
  moreover have "case rm_application m of None \<Rightarrow> True | Some a \<Rightarrow> stripped a \<and> \<not> blank a"
    using h(4) unfolding m by (cases "?f ''application''") (auto simp: blank_json_def given_str_def)
  moreover have "rm_dependencies m = None \<or> rm_dependencies m = Some ''requirements.in''"
    using h(3) unfolding m by (auto simp: given_str_def)
  ultimately show ?thesis using h(1) k m by (simp add: manifest_ok_def)
qed

lemma manifest_ok_loads:
  assumes "manifest_ok m"
  shows "manifest_from_dict (manifest_as_dict m) = Inr m"
proof -
  define j where "j = manifest_as_dict m"
  have fields: "json_get_null j ''version'' = rm_version m" "json_get_null j ''profile'' = JStr (rm_profile m)"
      "json_get_null j ''dependencies_file'' = (case rm_dependencies m of None \<Rightarrow> JNull | Some d \<Rightarrow> JStr d)"
      "json_get_null j ''application'' = (case rm_application m of None \<Rightarrow> JNull | Some a \<Rightarrow> JStr a)"
      "manifest_mode j = JStr (rm_mode m)" "is_obj j" "set (obj_keys j) \<subseteq> set manifest_fields"
    by (auto simp: j_def manifest_as_dict_def json_get_null_def json_get_def manifest_mode_def obj_keys_def
        manifest_fields_def split: option.splits)
  have checks: "check_mode (manifest_mode j) = Inr ()" "\<not> blank_json (json_get_null j ''profile'')"
      "json_get_null j ''dependencies_file'' \<in> {JNull, JStr ''requirements.in''}"
      "json_get_null j ''application'' = JNull \<or> \<not> blank_json (json_get_null j ''application'')"
    using assms unfolding fields manifest_ok_def
    by (auto simp: check_mode_def blank_json_def split: option.splits)
  have same: "\<lparr>rm_version = json_get_null j ''version'', rm_profile = py_strip (str_or_empty (json_get_null j ''profile'')),
          rm_dependencies = given_str (json_get_null j ''dependencies_file''),
          rm_application = map_option py_strip (given_str (json_get_null j ''application'')),
          rm_mode = str_or_empty (manifest_mode j)\<rparr> = m"
    using assms unfolding fields manifest_ok_def
    by (cases "rm_dependencies m"; cases "rm_application m") (simp_all add: given_str_def str_or_empty_def stripped_def)
  show ?thesis
    using assms checks fields(1,6,7) unfolding j_def [symmetric] manifest_from_dict_def same manifest_ok_def
    by (auto simp: fields(1))
qed

text \<open>C37. A run-time manifest that was accepted is read back as it was after it has been written.\<close>

theorem manifest_round_trip:
  "manifest_from_dict j = Inr m \<Longrightarrow> load_manifest (save_manifest m) = Inr m"
  by (simp add: load_manifest_def save_manifest_def manifest_ok_loads manifest_from_dict_ok)

definition sample_manifest :: json where
  "sample_manifest = JObj [(''version'', JInt 1), (''profile'', JStr '' python-pip ''),
     (''dependencies_file'', JStr ''requirements.in''), (''mode'', JStr ''development'')]"

lemma sample_manifest_eq: "manifest_from_dict sample_manifest = Inr \<lparr>rm_version = JInt 1, rm_profile = ''python-pip'',
    rm_dependencies = Some ''requirements.in'', rm_application = None, rm_mode = ''development''\<rparr>"
  by code_simp

lemma manifest_round_trip_witness:
  "load_manifest (save_manifest \<lparr>rm_version = JInt 1, rm_profile = ''python-pip'',
     rm_dependencies = Some ''requirements.in'', rm_application = None, rm_mode = ''development''\<rparr>)
   = Inr \<lparr>rm_version = JInt 1, rm_profile = ''python-pip'',
     rm_dependencies = Some ''requirements.in'', rm_application = None, rm_mode = ''development''\<rparr>"
  by (rule manifest_round_trip [OF sample_manifest_eq])

text \<open>A mode that is a list is not refused with a message but raises from the lookup in a set.\<close>

lemma unhashable_mode:
  "load_manifest (JsonFile (JObj [(''version'', JInt 1), (''profile'', JStr ''python-stdlib''), (''mode'', JList [])]))
   = Inl (TypeError ''mode'')"
  by code_simp

section \<open>The dependency cache\<close>

text \<open>Image commands change the log only; a resolution changes the log and the caches only.\<close>

definition same_files :: "project \<Rightarrow> project \<Rightarrow> bool" where
  "same_files w w' \<longleftrightarrow> po_manifest w' = po_manifest w \<and> po_dir w' = po_dir w"

lemma same_files_refl [simp]: "same_files w w"
  by (simp add: same_files_def)

lemma same_files_trans: "same_files w w' \<Longrightarrow> same_files w' w'' \<Longrightarrow> same_files w w''"
  by (simp add: same_files_def)

lemma same_files_cache [simp]: "same_files w (set_cache d c w)" "same_files w (clear_partial_cache v d w)"
    "same_files w (add_wheels d ws w)"
  by (simp_all add: same_files_def set_cache_def clear_partial_cache_def add_wheels_def)

definition logs_only :: "project \<Rightarrow> project \<Rightarrow> nat \<Rightarrow> bool" where
  "logs_only w w' n \<longleftrightarrow> same_files w w' \<and> po_cache w' = po_cache w
     \<and> (\<exists>log. po_log w' = po_log w @ log \<and> length log \<le> n)"

lemma logs_only_trans: "logs_only w w' m \<Longrightarrow> logs_only w' w'' n \<Longrightarrow> logs_only w w'' (m + n)"
  unfolding logs_only_def same_files_def by (elim conjE exE) auto

lemma logs_only_refl [simp]: "logs_only w w n"
  by (simp add: logs_only_def)

lemma run_docker_logs: "run_docker docker c w = (r, w') \<Longrightarrow> logs_only w w' 1"
  by (auto simp: run_docker_def logs_only_def same_files_def)

lemma image_available_logs: "image_available docker i w = (r, w') \<Longrightarrow> logs_only w w' 2"
  by (auto simp: image_available_def run_docker_def logs_only_def same_files_def Let_def split: if_splits)

lemma prepare_images_same:
  assumes "prepare_images docker pull is w = (r, w')"
  shows "same_files w w' \<and> po_cache w' = po_cache w"
  using assms
proof (rule prepare_images_invariant [where P = "\<lambda>u. same_files w u \<and> po_cache u = po_cache w"])
qed (auto simp: logs_only_def dest!: image_available_logs run_docker_logs intro: same_files_trans)

lemma download_attempts_bounded:
  assumes "download_attempts v docker img d k later kind actions w = (Inr (x, k', acts), w')"
  shows "k \<le> k' \<and> k' \<le> k + later \<and> same_files w w' \<and> (\<exists>log. po_log w' = po_log w @ log \<and> length log = Suc k' - k)"
  using assms
proof (induction later arbitrary: k kind actions w rule: less_induct)
  case (less later)
  define w1 where "w1 = (if k = 0 then w else clear_partial_cache v d w)"
  have w1: "same_files w w1" "po_log w1 = po_log w"
    by (simp_all add: w1_def clear_partial_cache_def set_cache_def same_files_def)
  have step: "same_files w (add_wheels d ws w2) \<and> (\<exists>c. po_log (add_wheels d ws w2) = po_log w @ [c])"
    if "run_docker docker cmd w1 = (r, w2)" for cmd r w2 ws
    using that w1 by (auto simp: run_docker_def same_files_def add_wheels_def set_cache_def)
  from less.prems w1_def show ?case
  proof (cases rule: download_attempts_cases)
    case (last b tmp n cmd r w2)
    then show ?thesis using step [OF last(2), of "cr_wheels r"] by auto
  next
    case (again b tmp n cmd r w2 kind' acts' later')
    have "later' < later" using again(3) by simp
    from less.IH [OF this again(5)] step [OF again(2), of "cr_wheels r"] again(3)
    show ?thesis by (auto intro: same_files_trans)
  qed simp
qed

lemma marker_put [simp]: "marker_of (set_cache d c w) d = map_of c ready_marker"
  by (simp add: marker_of_def set_cache_def dict.get_put)

lemma marker_cleared [simp]: "marker_of (clear_partial_cache v d w) d = None"
  by (auto simp: clear_partial_cache_def map_of_eq_None_iff)

lemma finish_download_marks:
  assumes "finish_download v d (x, k, acts) w = (r, w')"
  shows "rl_ok r = (cr_exit x = 0) \<and> rl_attempts r = Suc k \<and> marker_of w' d = (if rl_ok r then Some d else None)
    \<and> rl_cache r = (if rl_ok r then Some d else None) \<and> (rl_failure r = None \<longleftrightarrow> rl_ok r) \<and> po_log w' = po_log w
    \<and> same_files w w'"
  using assms
  by (auto simp: finish_download_def dict.get_put clear_partial_cache_def set_cache_def same_files_def
      marker_of_def map_of_eq_None_iff)

lemma resolve_wheels_cases:
  assumes "resolve_wheels sha v docker True w = (Inr r, w')"
  obtains (untried) "rl_attempts r = 0" "rl_ok r \<Longrightarrow> \<exists>m. load_manifest (po_manifest w) = Inr m \<and> falsy_opt (rm_dependencies m)"
    "same_files w w'"
  | (tried) t n f w1 w2 x k acts w3 where "pj_requirements (po_dir w) = Some t" "attempt_limit v = Inr n"
      "w1 = set_cache (sha t) (cache_entries w (sha t)) w" "\<exists>i. image_available docker i w1 = (f, w2)"
      "\<exists>i kind acts0. download_attempts v docker i (sha t) 0 (n - 1) kind acts0 w2 = (Inr (x, k, acts), w3)"
      "finish_download v (sha t) (x, k, acts) w3 = (r, w')"
proof (cases "bindE (load_manifest (po_manifest w)) (\<lambda>m. bindE (get_runtime (rm_profile m)) (\<lambda>p. Inr (m, p)))")
  case (Inl e)
  with assms show thesis by (simp add: resolve_wheels_def)
next
  case (Inr mp)
  then obtain m p where mp: "mp = (m, p)" "load_manifest (po_manifest w) = Inr m" by auto
  show thesis
  proof (cases "falsy_opt (rm_dependencies m) \<or> pj_requirements (po_dir w) = None")
    case True
    with assms Inr mp show thesis
      by (intro untried) (auto simp: resolve_wheels_def unresolved_def split: if_splits)
  next
    case False
    then obtain t where t: "pj_requirements (po_dir w) = Some t" by blast
    define w1 where "w1 = set_cache (sha t) (cache_entries w (sha t)) w"
    obtain f w2 where f: "image_available docker (rp_image p) w1 = (f, w2)" by force
    have eq: "(if cr_exit f \<noteq> 0 then (Inr (unresolved\<lparr>rl_stderr := cr_stderr f\<rparr>), w2)
        else (case attempt_limit v of Inl e \<Rightarrow> (Inl e, w2)
          | Inr n \<Rightarrow> (case download_attempts v docker (rp_image p) (sha t) 0 (n - 1) None [] w2 of
               (Inl e, w) \<Rightarrow> (Inl e, w)
             | (Inr x, w) \<Rightarrow> (case finish_download v (sha t) x w of (r, w) \<Rightarrow> (Inr r, w))))) = (Inr r, w')"
      using assms False t f unfolding resolve_wheels_def Inr mp(1) w1_def by (simp add: Let_def)
    show thesis
    proof (cases "cr_exit f = 0")
      case False
      then have "same_files w w'"
        using eq image_available_logs [OF f] by (auto simp: logs_only_def w1_def intro: same_files_trans [OF same_files_cache(1)])
      with False eq show thesis by (intro untried) (auto simp: unresolved_def)
    next
      case True
      with eq obtain n x w3 r' where "attempt_limit v = Inr n"
          "download_attempts v docker (rp_image p) (sha t) 0 (n - 1) None [] w2 = (Inr x, w3)"
          "finish_download v (sha t) x w3 = (r, w')"
        by (auto split: sum.splits prod.splits)
      with f t show thesis by (cases x) (intro tried [OF t _ w1_def]; blast)
    qed
  qed
qed

lemma attempt_limit_pos: "attempt_limit v = Inr n \<Longrightarrow> 1 \<le> n"
  by (auto simp: attempt_limit_def)

text \<open>
  C22. When the resolver has downloaded, the cache of these requirements carries the marker exactly if it succeeded,
  so the product of a failed download is never taken for a cache; it made at most the configured number of attempts,
  and never more Docker commands than that and the two that look for the image.
\<close>

theorem resolve_marks_success:
  assumes "resolve_wheels sha v docker True w = (Inr r, w')" and "0 < rl_attempts r"
  shows "\<exists>t n log. pj_requirements (po_dir w) = Some t \<and> attempt_limit v = Inr n \<and> rl_attempts r \<le> n
     \<and> marker_of w' (sha t) = (if rl_ok r then Some (sha t) else None) \<and> (rl_failure r = None \<longleftrightarrow> rl_ok r)
     \<and> po_log w' = po_log w @ log \<and> length log \<le> rl_attempts r + 2"
  using assms(1)
proof (cases rule: resolve_wheels_cases)
  case untried
  with assms(2) show ?thesis by simp
next
  case (tried t n f w1 w2 x k acts w3)
  obtain i where i: "image_available docker i w1 = (f, w2)" using tried(4) by blast
  obtain l1 where l1: "po_log w2 = po_log w @ l1" "length l1 \<le> 2"
    using image_available_logs [OF i] tried(3) by (auto simp: logs_only_def set_cache_def)
  obtain l2 where l2: "po_log w3 = po_log w2 @ l2" "length l2 = Suc k" "k \<le> n - 1"
    using tried(5) download_attempts_bounded by fastforce
  note m = finish_download_marks [OF tried(6)]
  have "po_log w' = po_log w @ (l1 @ l2)" "length (l1 @ l2) \<le> rl_attempts r + 2" "rl_attempts r \<le> n"
    using l1 l2 m attempt_limit_pos [OF tried(2)] by auto
  then show ?thesis using tried(1,2) m by (intro exI [of _ t] exI [of _ n] exI [of _ "l1 @ l2"]) simp
qed

section \<open>Prepared projects\<close>

lemma load_manifest_ok: "load_manifest f = Inr m \<Longrightarrow> manifest_ok m"
  by (auto simp: load_manifest_def manifest_from_dict_ok split: json_file.splits)

lemma application_names: "list_all (\<lambda>i. py_strip i = i \<and> i \<noteq> []) (dict_keys app_profiles)"
proof -
  have "dict_keys app_profiles = [''python-backend'', ''todo-web'', ''fastapi-postgres'', ''fastapi-postgres-web'',
      ''static-web'', ''python-dynamic'']"
    by (simp add: app_profiles_def)
  moreover have "list_all (\<lambda>i. py_strip i = i \<and> i \<noteq> []) [''python-backend'', ''todo-web'', ''fastapi-postgres'',
      ''fastapi-postgres-web'', ''static-web'', ''python-dynamic'']"
    by code_simp
  ultimately show ?thesis by simp
qed

lemma known_application_name: "get_application i = Inr p \<Longrightarrow> stripped i \<and> \<not> blank i"
  using application_names
  by (force simp: get_application_def stripped_def blank_iff_strip list_all_iff dest: map_of_SomeD split: option.splits)

lemma declared_loads:
  assumes "load_manifest (po_manifest w) = Inr m" "resolve_application (po_dir w) (rm_application m) = Inr a"
    and "declared_application m a w = (m1, w1)"
  shows "load_manifest (po_manifest w1) = Inr m1 \<and> rm_profile m1 = rm_profile m"
proof (cases "\<not> falsy_opt a \<and> rm_application m \<noteq> a")
  case True
  then obtain i where i: "a = Some i" by (cases a) (auto simp: falsy_opt_def)
  then obtain p where p: "get_application i = Inr p" using assms(2) resolved_known by blast
  have m1: "m1 = m\<lparr>rm_application := Some i\<rparr>" "po_manifest w1 = save_manifest m1"
    using assms(3) True i by (auto simp: declared_application_def Let_def)
  have "manifest_ok m1"
    using load_manifest_ok [OF assms(1)] known_application_name [OF p] p
    by (auto simp: manifest_ok_def m1(1) known_manifest_def)
  then show ?thesis using m1 by (simp add: load_manifest_def save_manifest_def manifest_ok_loads)
qed (use assms in \<open>auto simp: declared_application_def\<close>)

lemma persist_cases: "persist x w = (Inr r, w') \<longleftrightarrow> r = x \<and> w' = w\<lparr>po_preparation := Some x\<rparr>"
  by (auto simp: persist_def)

lemma cache_ready_reported [simp]: "cache_ready sha m (w\<lparr>po_preparation := x\<rparr>) = cache_ready sha m w"
proof -
  have "marker_of (w\<lparr>po_preparation := x\<rparr>) = marker_of w" by (rule ext) (simp add: marker_of_def)
  then show ?thesis unfolding cache_ready_def dependency_digest_def by (simp only: project.simps) simp
qed

lemma prepared_dependencies_ready:
  assumes "prepare_dependencies sha v docker approved p m a w = (Inr r, w')" "prepared_ok r"
    and "load_manifest (po_manifest w) = Inr m" "\<not> falsy_opt (rm_dependencies m)" "\<And>t. py_strip (sha t) = sha t"
  shows "cache_ready sha m w' \<and> same_files w w' \<and> po_preparation w' = Some r \<and> pr_profile r = Some (rp_id p)"
proof (cases "cache_ready sha m w")
  case True
  then have "(if approved then Inr True else approved_dependencies sha m w) = Inr True"
    "r = prepared_as ''ready'' (Some (rp_id p)) (Some (rp_image p)) a ''required''" "w' = w\<lparr>po_preparation := Some r\<rparr>"
    using assms(1,2) unfolding prepare_dependencies_def
    by (auto simp: Let_def persist_cases prepared_ok_def prepared_as_def split: sum.splits if_splits)
  with True show ?thesis
    by (simp add: same_files_def prepared_as_def)
next
  case False
  then obtain x w1 where x: "resolve_wheels sha v docker True w = (Inr x, w1)" "rl_ok x" "w' = w1\<lparr>po_preparation := Some r\<rparr>"
      "pr_profile r = Some (rp_id p)"
    using assms(1,2) unfolding prepare_dependencies_def
    by (auto simp: Let_def persist_cases prepared_ok_def prepared_as_def split: sum.splits prod.splits if_splits)
  have "same_files w w1 \<and> cache_ready sha m w1"
    using x(1)
  proof (cases rule: resolve_wheels_cases)
    case untried
    then show ?thesis using x(2) assms(3,4) by auto
  next
    case (tried t n f w2 w3 y k acts w4)
    obtain i where i: "image_available docker i w2 = (f, w3)" using tried(4) by blast
    have "same_files w w3" using image_available_logs [OF i] by (auto simp: tried(3) logs_only_def intro: same_files_trans [OF same_files_cache(1)])
    moreover have "same_files w3 w4" using tried(5) download_attempts_bounded by blast
    moreover note m = finish_download_marks [OF tried(6)]
    ultimately have s: "same_files w w1" using same_files_trans by blast
    then have "pj_requirements (po_dir w1) = Some t" using tried(1) by (simp add: same_files_def)
    with m x(2) assms(5) s show ?thesis by (simp add: cache_ready_def dependency_digest_def)
  qed
  then show ?thesis
    using x(3,4) by (simp add: same_files_def)
qed

text \<open>
  C6. A project that the preparation reports as ready has, on disk, a manifest that loads, and the specification of
  its checks finds the cache the manifest asks for: the only thing that can still refuse it is the content of the
  requirements. The hypothesis on \<open>sha\<close> holds of hexadecimal digests.
\<close>

theorem prepared_project_specifiable:
  assumes "prepare sha v docker pull approved w = (Inr r, w')" and "prepared_ok r"
    and "\<And>t. py_strip (sha t) = sha t"
  shows "\<exists>m. load_manifest (po_manifest w') = Inr m \<and> pr_profile r = Some (rm_profile m) \<and> po_preparation w' = Some r
     \<and> (case rm_dependencies m of
          None \<Rightarrow> spec_dependencies sha m w' = Inr None
        | Some _ \<Rightarrow> \<exists>t. pj_requirements (po_dir w') = Some t
            \<and> spec_dependencies sha m w' = bindE (validate_requirements t) (\<lambda>_. Inr (Some (sha t))))"
proof -
  have spec: "case rm_dependencies m of
          None \<Rightarrow> spec_dependencies sha m u = Inr None
        | Some _ \<Rightarrow> \<exists>t. pj_requirements (po_dir u) = Some t
            \<and> spec_dependencies sha m u = bindE (validate_requirements t) (\<lambda>_. Inr (Some (sha t)))"
    if "manifest_ok m" "cache_ready sha m u" for m u
    using that
    by (auto simp: manifest_ok_def cache_ready_def spec_dependencies_def dependency_digest_def falsy_opt_def
        split: option.splits)
  show ?thesis using assms(1)
  proof (cases rule: prepare_cases)
    case (plain m p a m1 w1 w2)
    have l: "load_manifest (po_manifest w1) = Inr m1" "rm_profile m1 = rm_profile m"
      using declared_loads [OF plain(1,3,4)] by auto
    have "po_manifest w' = po_manifest w1"
      using prepare_images_same [OF plain(5)] plain(7) by (auto simp: persist_cases same_files_def add_startup_scripts_def)
    moreover have "rm_dependencies m1 = None"
      using plain(6) load_manifest_ok [OF l(1)] by (auto simp: manifest_ok_def falsy_opt_def)
    ultimately show ?thesis
      using l plain(7) get_runtime_cases [OF plain(2)]
      by (auto simp: persist_cases prepared_as_def spec_dependencies_def falsy_opt_def)
  next
    case (dependent m p a m1 w1 w2)
    have l: "load_manifest (po_manifest w1) = Inr m1" "rm_profile m1 = rm_profile m"
      using declared_loads [OF dependent(1,3,4)] by auto
    have w2: "po_manifest w2 = po_manifest w1"
      using prepare_images_same [OF dependent(5)] by (simp add: same_files_def add_startup_scripts_def)
    with l have "load_manifest (po_manifest w2) = Inr m1" by simp
    note d = prepared_dependencies_ready [OF dependent(7) assms(2) this dependent(6) assms(3)]
    have "load_manifest (po_manifest w') = Inr m1" using d l(1) w2 by (simp add: same_files_def)
    moreover have "pr_profile r = Some (rm_profile m1)" using d l(2) get_runtime_cases [OF dependent(2)] by simp
    ultimately show ?thesis using d spec [OF load_manifest_ok [OF l(1)]] by blast
  qed (use assms(2) in \<open>auto simp: persist_cases prepared_ok_def prepared_as_def invalid_runtime_def\<close>)
qed

section \<open>Examples\<close>

definition sample_env :: resolver_env where
  "sample_env = \<lparr>re_retries = ''2'', re_timeout = ''9'', re_tmpfs = ''1g'', re_index = [],
     re_urlparse = (\<lambda>_. \<lparr>ur_scheme = [], ur_netloc = [], ur_username = None, ur_password = None\<rparr>),
     re_user = ''u'', re_input = ''i'', re_temp = (\<lambda>_. ''t''), re_stuck = (\<lambda>_. False)\<rparr>"

definition sample_docker :: docker where
  "sample_docker = (\<lambda>_ _. \<lparr>cr_exit = 0, cr_stdout = [], cr_stderr = [], cr_timed_out = False, cr_wheels = [(''x.whl'', ''x'')]\<rparr>)"

definition sample_project :: "string \<Rightarrow> project" where
  "sample_project requirements = \<lparr>po_root = ''p'', po_dir = \<lparr>pj_files = [], pj_dirs = [''workspace''],
     pj_requirements = Some requirements\<rparr>, po_manifest = JsonFile sample_manifest, po_cache = [], po_approval = NoFile,
     po_contract = Inl (ValueError []), po_preparation = None, po_log = []\<rparr>"

definition sample_resolution :: "resolution result \<times> project" where
  "sample_resolution = resolve_wheels (\<lambda>_. ''d'') sample_env sample_docker True (sample_project ''a'')"

definition sample_preparation :: "preparation result \<times> project" where
  "sample_preparation = prepare (\<lambda>_. ''d'') sample_env sample_docker False True (sample_project ''a'')"

lemma sample_resolution_ok: "(case fst sample_resolution of Inl _ \<Rightarrow> False | Inr r \<Rightarrow> rl_ok r \<and> rl_attempts r = 1)"
  by code_simp

lemma sample_preparation_ok: "(case fst sample_preparation of Inl _ \<Rightarrow> False | Inr r \<Rightarrow> prepared_ok r)"
  by code_simp

lemma resolve_marks_success_witness: "marker_of (snd sample_resolution) ''d'' = Some ''d''"
proof -
  obtain r w' where r: "sample_resolution = (Inr r, w')" "rl_ok r" "0 < rl_attempts r"
    using sample_resolution_ok by (metis (mono_tags, lifting) prod.collapse sum.case_eq_if sum.collapse(2) zero_less_one)
  have "snd sample_resolution = w'" unfolding r(1) by simp
  then show ?thesis using resolve_marks_success [OF r(1) [unfolded sample_resolution_def] r(3)] r(2) by auto
qed

lemma prepared_project_specifiable_witness:
  "\<exists>m. load_manifest (po_manifest (snd sample_preparation)) = Inr m"
proof -
  obtain r w' where r: "sample_preparation = (Inr r, w')" "prepared_ok r"
    using sample_preparation_ok by (metis (mono_tags, lifting) prod.collapse sum.case_eq_if sum.collapse(2))
  have "snd sample_preparation = w'" unfolding r(1) by simp
  moreover have "py_strip ''d'' = ''d''" by code_simp
  ultimately show ?thesis using prepared_project_specifiable [OF r(1) [unfolded sample_preparation_def] r(2)] by auto
qed

text \<open>The requirements are checked only when a check is specified, after the download has read them.\<close>

lemma downloaded_before_validation:
  "rl_ok (case fst (resolve_wheels (\<lambda>_. ''d'') sample_env sample_docker True (sample_project ''--pre'')) of Inr r \<Rightarrow> r | _ \<Rightarrow> unresolved)"
  "validate_requirements ''--pre'' = Inl (ValueError ''requirements.in'')"
  by code_simp+

text \<open>The short options of pip are not among the forbidden tokens.\<close>

lemma short_options_accepted: "validate_requirements ''-r other.in'' = Inr ()" "validate_requirements ''-c limits.in'' = Inr ()"
  by code_simp+

text \<open>With dependencies, the script of the smoke check becomes part of a shell command without quotation.\<close>

lemma smoke_script_unquoted:
  assumes "sp_dependencies s" "dict_get (rp_checks (sp_profile s)) (sp_check_id s) = Some c" "rc_install c"
    and "sp_override s = Some [''python'', ''-c'', script]"
  shows "fixed_command s = Inr [''sh'', ''-ec'', install_command @ '' && exec python -c '' @ script]"
  using assms by (simp add: fixed_command_def)

end
