(* ===== verification/App_Runner.thy ===== *)
theory App_Runner
  imports Sandbox_Run Port_Lease Blueprint
begin

text \<open>
  The runner of finished applications, \<^verbatim>\<open>app/sandbox/application_runner.py\<close>: it starts the services of a profile as
  containers in a network of their own, on leased host ports, and stops them again. The state is what the runs of one
  project see: the project with the Docker commands that have been run for it, the port registry and the pool of the
  process, and the table of runs. No other process changes the registry during an operation. The clock that ends the
  wait for a service is the number of rounds it admits; prose of messages is not modelled.
\<close>

section \<open>State\<close>

datatype run_status = RUN_RUNNING | RUN_STOPPED | RUN_FAILED

record service_run =
  sv_service :: string
  sv_container :: string
  sv_url :: "string option"

record app_run =
  hr_id :: string
  hr_path :: string
  hr_application :: string
  hr_services :: "service_run list"
  hr_status :: run_status
  hr_error :: "string list option"  \<comment> \<open>the containers named in the error\<close>
  hr_containers :: "string list"
  hr_network :: "string option"
  hr_ports :: "int list"
  hr_lease :: "string option"

record hosting =
  ho_project :: project
  ho_registry :: json_file
  ho_pool :: allocator
  ho_runs :: "(string, app_run) dict"

text \<open>What an operation sees of its surroundings; \<open>he_lease\<close> and \<open>he_run\<close> are the identifiers it draws.\<close>

record host_env =
  he_sha :: "string \<Rightarrow> string"
  he_resolver :: resolver_env
  he_docker :: docker
  he_process :: lease_env
  he_free :: "int \<Rightarrow> bool"
  he_lease :: string
  he_run :: string
  he_rounds :: "string \<Rightarrow> nat"

definition run_id :: "host_env \<Rightarrow> string" where
  "run_id v = ''app-'' @ he_run v"

type_synonym 'a action = "hosting \<Rightarrow> 'a result \<times> hosting"

definition chain :: "'a action \<Rightarrow> ('a \<Rightarrow> 'b action) \<Rightarrow> 'b action" where
  "chain m f s = (case m s of (Inl e, s) \<Rightarrow> (Inl e, s) | (Inr x, s) \<Rightarrow> f x s)"

definition reading :: "(hosting \<Rightarrow> 'a result) \<Rightarrow> 'a action" where
  "reading f s = (f s, s)"

definition run_for :: "host_env \<Rightarrow> string list \<Rightarrow> cmd_result action" where
  "run_for v cmd s = (let (r, w) = run_docker (he_docker v) cmd (ho_project s) in (Inr r, s\<lparr>ho_project := w\<rparr>))"

fun each :: "('a \<Rightarrow> unit action) \<Rightarrow> 'a list \<Rightarrow> unit action" where
  "each f [] = reading (\<lambda>_. Inr ())"
| "each f (x # xs) = chain (f x) (\<lambda>_. each f xs)"

section \<open>Names\<close>

text \<open>\<open>re.sub(r"[^a-zA-Z0-9_.-]+", "-", value).strip("-.")\<close>\<close>

definition strip_ends :: "string \<Rightarrow> string" where
  "strip_ends s = (let mark = (\<lambda>c. c = CHR ''-'' \<or> c = CHR ''.'') in rev (dropWhile mark (rev (dropWhile mark s))))"

definition safe_name :: "string \<Rightarrow> string" where
  "safe_name s = (let n = take 96 (strip_ends (dash_unsafe False s)) in if n = [] then ''projectos-runtime'' else n)"

definition container_name :: "string \<Rightarrow> string \<Rightarrow> string \<Rightarrow> string" where
  "container_name project run service = safe_name (''projectos-'' @ project @ ''-'' @ run @ ''-'' @ service)"

definition volume_name :: "string \<Rightarrow> string \<Rightarrow> string \<Rightarrow> string" where
  "volume_name project app volume = safe_name (''projectos-'' @ project @ ''-'' @ app @ ''-'' @ volume)"

definition network_name :: "string \<Rightarrow> string \<Rightarrow> string" where
  "network_name project run = safe_name (''projectos-'' @ project @ ''-'' @ run @ ''-net'')"

section \<open>The commands\<close>

text \<open>\<open>s.replace(old, new, 1)\<close>\<close>

fun replace_once :: "string \<Rightarrow> string \<Rightarrow> string \<Rightarrow> string" where
  "replace_once old new [] = []"
| "replace_once old new (c # r) =
     (if prefix old (c # r) then new @ drop (length old) (c # r) else c # replace_once old new r)"

text \<open>\<open>--reload\<close> is added for a development profile only: in the script of a shell command, before \<open>--port\<close>, or at the end.\<close>

definition runtime_command :: "string list \<Rightarrow> string \<Rightarrow> string list" where
  "runtime_command cmd mode =
     (if mode \<noteq> ''development'' \<or> \<not> list_ex (contains ''uvicorn'') cmd then cmd
      else if length cmd = 3 \<and> take 2 cmd = [''sh'', ''-ec'']
      then (if contains ''--reload'' (cmd ! 2) then cmd
            else [''sh'', ''-ec'', replace_once ''--port 8000'' ''--port 8000 --reload'' (cmd ! 2)])
      else if ''--reload'' \<in> set cmd then cmd
      else takeWhile (\<lambda>x. x \<noteq> ''--port'') cmd @ [''--reload''] @ dropWhile (\<lambda>x. x \<noteq> ''--port'') cmd)"

definition workspace_dir :: "string \<Rightarrow> string" where
  "workspace_dir d = (if d = [] then ''workspace'' else ''workspace/'' @ d)"

definition hardening :: "string list" where
  "hardening = [''--cap-drop'', ''ALL'', ''--security-opt'', ''no-new-privileges'', ''--pids-limit'', ''128'', ''--memory'', ''1g'',
     ''--cpus'', ''1'', ''--tmpfs'', ''/tmp:rw,noexec,nosuid,size=512m'']"

text \<open>The mounts of the dependencies, whose cache must be marked.\<close>

definition dependency_mounts :: "(string \<Rightarrow> string) \<Rightarrow> app_service \<Rightarrow> runtime_manifest \<Rightarrow> project \<Rightarrow> string list result" where
  "dependency_mounts sha svc m w =
     (if falsy_opt (rm_dependencies m) \<or> \<not> as_mount_workspace svc then Inr []
      else (case pj_requirements (po_dir w) of
          None \<Rightarrow> Inl (FileNotFoundError ''requirements.in'')
        | Some t \<Rightarrow> if marker_of w (sha t) = None then Inl (RuntimeError ''no dependency cache'')
            else Inr ([''--tmpfs'', ''/site-packages:rw,exec,nosuid,nodev,size=1g'']
              @ readonly_bind (po_root w @ ''/requirements.in'') ''/input/requirements.in''
              @ readonly_bind (cache_path w (sha t)) ''/wheels''
              @ [''--env'', ''PROJECTOS_DEPENDENCY_DIR=/site-packages/'' @ sha t,
                 ''--env'', ''PYTHONPATH=/site-packages/'' @ sha t])))"

definition docker_run_command ::
  "(string \<Rightarrow> string) \<Rightarrow> string \<Rightarrow> app_service \<Rightarrow> string \<Rightarrow> string \<Rightarrow> string option \<Rightarrow> string \<Rightarrow> runtime_manifest \<Rightarrow> int
   \<Rightarrow> project \<Rightarrow> string list result" where
  "docker_run_command sha img svc source name volume network m port w =
     bindE (dependency_mounts sha svc m w) (\<lambda>dependencies. Inr
       ([''docker'', ''run'', ''--detach'', ''--name'', name, ''--network'', network]
        @ (if as_read_only svc then [''--read-only''] else [])
        @ [''--user'', as_user svc] @ hardening
        @ [''--workdir'', as_container_workdir svc, ''--env'', ''PYTHONDONTWRITEBYTECODE=1'']
        @ (if as_publish_port svc \<and> port \<noteq> 0
           then [''--publish'', ''127.0.0.1:'' @ int_str port @ '':'' @ int_str (as_container_port svc)] else [])
        @ (if falsy_opt (as_network_alias svc) then [] else [''--network-alias'', or_empty (as_network_alias svc)])
        @ (if as_mount_workspace svc then readonly_bind (po_root w @ ''/'' @ source) ''/workspace'' else [])
        @ dependencies
        @ concat (map (\<lambda>(k, x). [''--env'', k @ ''='' @ x]) (as_environment svc))
        @ (if falsy_opt volume then []
           else [''--mount'', ''type=volume,src='' @ or_empty volume @ '',dst='' @ as_volume_mount_dir svc])
        @ img # runtime_command (as_command svc) (rm_mode m)))"

definition volume_command :: "string \<Rightarrow> string \<Rightarrow> string option \<Rightarrow> string list" where
  "volume_command volume img owner =
     [''docker'', ''run'', ''--rm'', ''--network'', ''none'', ''--read-only'', ''--user'', ''0:0'', ''--cap-drop'', ''ALL'',
      ''--cap-add'', ''CHOWN'', ''--cap-add'', ''FOWNER'', ''--security-opt'', ''no-new-privileges'',
      ''--mount'', ''type=volume,src='' @ volume @ '',dst=/data'', img, ''sh'', ''-ec'',
      ''chown '' @ given_or owner ''65532:65532'' @ '' /data && chmod 700 /data'']"

section \<open>Steps\<close>

definition ensure_running :: "host_env \<Rightarrow> string \<Rightarrow> unit action" where
  "ensure_running v name = chain (run_for v [''docker'', ''inspect'', ''--format={{.State.Running}}'', name]) (\<lambda>r.
     reading (\<lambda>_. raises [(cr_exit r \<noteq> 0 \<or> py_lower (py_strip (cr_stdout r)) \<noteq> ''true'', RuntimeError ''not running'')]))"

definition ensure_image :: "host_env \<Rightarrow> string \<Rightarrow> unit action" where
  "ensure_image v img s = (let (found, w) = image_available (he_docker v) img (ho_project s); s = s\<lparr>ho_project := w\<rparr> in
     if cr_exit found = 0 then (Inr (), s)
     else chain (run_for v [''docker'', ''pull'', img]) (\<lambda>r.
       reading (\<lambda>_. raises [(cr_exit r \<noteq> 0, RuntimeError ''no image'')])) s)"

text \<open>The wait for a service: \<open>n\<close> rounds until the clock ends it.\<close>

fun wait_for_readiness :: "host_env \<Rightarrow> string \<Rightarrow> string list \<Rightarrow> nat \<Rightarrow> unit action" where
  "wait_for_readiness v name ready 0 = reading (\<lambda>_. Inl (RuntimeError ''not ready''))"
| "wait_for_readiness v name ready (Suc n) = chain (run_for v ([''docker'', ''exec'', name] @ ready)) (\<lambda>r.
     if cr_exit r = 0 then reading (\<lambda>_. Inr ())
     else chain (ensure_running v name) (\<lambda>_. wait_for_readiness v name ready n))"

definition prepare_data_volume :: "host_env \<Rightarrow> string \<Rightarrow> string \<Rightarrow> string option \<Rightarrow> unit action" where
  "prepare_data_volume v volume img owner =
     chain (run_for v [''docker'', ''volume'', ''create'', volume]) (\<lambda>r.
     chain (reading (\<lambda>_. raises [(cr_exit r \<noteq> 0, RuntimeError ''volume'')])) (\<lambda>_.
     chain (run_for v (volume_command volume img owner)) (\<lambda>r.
     reading (\<lambda>_. raises [(cr_exit r \<noteq> 0, RuntimeError ''volume'')]))))"

definition release_lease_of :: "string \<Rightarrow> unit action" where
  "release_lease_of i s = (case release_lease i (ho_pool s) (ho_registry s) of
      Inl e \<Rightarrow> (Inl e, s)
    | Inr (_, a, f) \<Rightarrow> (Inr (), s\<lparr>ho_pool := a, ho_registry := f\<rparr>))"

section \<open>Starting\<close>

definition publishable :: "app_profile \<Rightarrow> app_service list" where
  "publishable p = filter (\<lambda>x. as_publish_port x \<and> as_host_port x = 0) (ap_services p)"

text \<open>The lease of the dynamic ports, if there are any to publish.\<close>

definition lease_ports :: "host_env \<Rightarrow> app_profile \<Rightarrow> port_lease option action" where
  "lease_ports v p s = (if publishable p = [] then (Inr None, s)
     else (case acquire (he_process v) (he_free v) (he_lease v) (run_id v) (int (length (publishable p)))
               (ho_pool s) (ho_registry s) of
         Inl (PortAllocationError e) \<Rightarrow> (Inl (RuntimeError e), s)
       | Inl e \<Rightarrow> (Inl e, s)
       | Inr (l, a, f) \<Rightarrow> (Inr (Some l), s\<lparr>ho_pool := a, ho_registry := f\<rparr>)))"

definition leased :: "port_lease option \<Rightarrow> int list" where
  "leased l = (case l of None \<Rightarrow> [] | Some l \<Rightarrow> ls_ports l)"

text \<open>The host port of every service: a leased one in the order of the services, or its fixed one.\<close>

definition resolved_ports :: "app_profile \<Rightarrow> int list \<Rightarrow> (string, int) dict" where
  "resolved_ports p ports =
     foldl (\<lambda>d x. if as_host_port x = 0 then d else dict_put (as_id x) (as_host_port x) d)
       (dict_of (zip (map as_id (publishable p)) ports)) (ap_services p)"

definition port_of :: "(string, int) dict \<Rightarrow> app_service \<Rightarrow> int" where
  "port_of ports x = (case dict_get ports (as_id x) of None \<Rightarrow> 0 | Some n \<Rightarrow> n)"

definition service_image :: "runtime_profile \<Rightarrow> app_service \<Rightarrow> string" where
  "service_image p x = given_or (as_image x) (rp_image p)"

definition project_name :: "hosting \<Rightarrow> string" where
  "project_name s = path_name (po_root (ho_project s))"

definition create_network :: "host_env \<Rightarrow> string \<Rightarrow> unit action" where
  "create_network v network = chain (run_for v [''docker'', ''network'', ''create'', network]) (\<lambda>r.
     reading (\<lambda>_. raises [(cr_exit r \<noteq> 0, RuntimeError ''network'')]))"

text \<open>The directories a service needs, relative to the project: what it runs in and what is mounted.\<close>

definition mount_source :: "app_service \<Rightarrow> string" where
  "mount_source x = (if \<not> falsy_opt (as_mount_dir x) then workspace_dir (or_empty (as_mount_dir x))
     else if as_mount_workspace x then workspace_dir (as_workspace_dir x) else ''workspace'')"

definition check_directories :: "app_service \<Rightarrow> project_dir \<Rightarrow> err + unit" where
  "check_directories x d = raises
     [(as_mount_workspace x \<and> \<not> is_dir d (workspace_dir (as_workspace_dir x)), RuntimeError ''no service directory''),
      (as_mount_workspace x \<and> \<not> is_dir d (mount_source x), RuntimeError ''no mounted directory'')]"

definition service_volume :: "host_env \<Rightarrow> string \<Rightarrow> string \<Rightarrow> app_service \<Rightarrow> string option action" where
  "service_volume v app img x = (if falsy_opt (as_data_volume x) then reading (\<lambda>_. Inr None)
     else (\<lambda>s. let volume = volume_name (project_name s) app (or_empty (as_data_volume x)) in
       chain (prepare_data_volume v volume img (as_volume_owner x)) (\<lambda>_. reading (\<lambda>_. Inr (Some volume))) s))"

text \<open>The container of a service, until \<open>docker run\<close> has answered with its identifier.\<close>

definition create_container ::
  "host_env \<Rightarrow> runtime_manifest \<Rightarrow> runtime_profile \<Rightarrow> string \<Rightarrow> string \<Rightarrow> (string, int) dict \<Rightarrow> string \<Rightarrow> app_service
   \<Rightarrow> string action" where
  "create_container v m rt app network ports name x =
     chain (reading (\<lambda>s. check_directories x (po_dir (ho_project s)))) (\<lambda>_.
     chain (service_volume v app (service_image rt x) x) (\<lambda>volume.
     chain (reading (\<lambda>s. docker_run_command (he_sha v) (service_image rt x) x (mount_source x) name volume network m
       (port_of ports x) (ho_project s))) (\<lambda>cmd.
     chain (run_for v cmd) (\<lambda>r.
     reading (\<lambda>_. if cr_exit r \<noteq> 0 \<or> blank (cr_stdout r) then Inl (RuntimeError ''start of a service'')
       else Inr (last (lines_of (py_strip (cr_stdout r)))))))))"

definition settle :: "host_env \<Rightarrow> string \<Rightarrow> app_service \<Rightarrow> unit action" where
  "settle v name x = chain (ensure_running v name) (\<lambda>_. case as_readiness x of
      None \<Rightarrow> reading (\<lambda>_. Inr ())
    | Some [] \<Rightarrow> reading (\<lambda>_. Inr ())
    | Some ready \<Rightarrow> wait_for_readiness v name ready (he_rounds v name))"

text \<open>The services one after the other; those started are known also when one fails.\<close>

fun start_services ::
  "host_env \<Rightarrow> runtime_manifest \<Rightarrow> runtime_profile \<Rightarrow> string \<Rightarrow> string \<Rightarrow> (string, int) dict \<Rightarrow> app_service list
   \<Rightarrow> (app_service \<times> string \<times> string) list \<Rightarrow> hosting
   \<Rightarrow> (err option \<times> (app_service \<times> string \<times> string) list) \<times> hosting" where
  "start_services v m rt app network ports [] started s = ((None, started), s)"
| "start_services v m rt app network ports (x # xs) started s =
     (let name = container_name (project_name s) (run_id v) (as_id x) in
      case create_container v m rt app network ports name x s of
        (Inl e, s) \<Rightarrow> ((Some e, started), s)
      | (Inr i, s) \<Rightarrow>
          let started = started @ [(x, i, name)] in
          (case settle v name x s of
             (Inl e, s) \<Rightarrow> ((Some e, started), s)
           | (Inr _, s) \<Rightarrow> start_services v m rt app network ports xs started s))"

text \<open>What happens when the start fails: the ports go back, the started containers and the network are removed.\<close>

definition discard :: "host_env \<Rightarrow> string \<Rightarrow> unit action" where
  "discard v name = chain (run_for v [''docker'', ''logs'', name]) (\<lambda>_.
     chain (run_for v [''docker'', ''stop'', name]) (\<lambda>_.
     chain (run_for v [''docker'', ''rm'', ''-f'', name]) (\<lambda>_. reading (\<lambda>_. Inr ()))))"

definition return_lease :: "port_lease option \<Rightarrow> unit action" where
  "return_lease l = (case l of
      None \<Rightarrow> reading (\<lambda>_. Inr ())
    | Some l \<Rightarrow> if ls_ports l = [] then reading (\<lambda>_. Inr ()) else release_lease_of (ls_lease_id l))"

definition abandon :: "host_env \<Rightarrow> port_lease option \<Rightarrow> string list \<Rightarrow> string \<Rightarrow> err \<Rightarrow> app_run action" where
  "abandon v l names network e =
     chain (return_lease l) (\<lambda>_.
     chain (each (discard v) (rev names)) (\<lambda>_.
     chain (run_for v [''docker'', ''network'', ''rm'', network]) (\<lambda>_. reading (\<lambda>_. Inl e))))"

definition new_app_run ::
  "host_env \<Rightarrow> string \<Rightarrow> string \<Rightarrow> port_lease option \<Rightarrow> (string, int) dict \<Rightarrow> string
   \<Rightarrow> (app_service \<times> string \<times> string) list \<Rightarrow> app_run" where
  "new_app_run v root app l ports network started =
     \<lparr>hr_id = run_id v, hr_path = root, hr_application = app,
      hr_services = map (\<lambda>(x, i, _). \<lparr>sv_service = as_id x, sv_container = i,
        sv_url = (if as_publish_port x \<and> port_of ports x \<noteq> 0
          then Some (''http://127.0.0.1:'' @ int_str (port_of ports x)) else None)\<rparr>) started,
      hr_status = RUN_RUNNING, hr_error = None, hr_containers = map (snd \<circ> snd) started, hr_network = Some network,
      hr_ports = leased l, hr_lease = map_option ls_lease_id l\<rparr>"

definition launch :: "host_env \<Rightarrow> runtime_manifest \<Rightarrow> runtime_profile \<Rightarrow> app_profile \<Rightarrow> app_run action" where
  "launch v m rt p s =
     (let network = network_name (project_name s) (run_id v) in
      case lease_ports v p s of
        (Inl e, s) \<Rightarrow> abandon v None [] network e s
      | (Inr l, s) \<Rightarrow>
          let ports = resolved_ports p (leased l) in
          (case chain (each (ensure_image v) (rp_image rt # map (service_image rt) (ap_services p)))
                  (\<lambda>_. create_network v network) s of
             (Inl e, s) \<Rightarrow> abandon v l [] network e s
           | (Inr _, s) \<Rightarrow>
               (case start_services v m rt (ap_id p) network ports (ap_services p) [] s of
                  ((Some e, started), s) \<Rightarrow> abandon v l (map (snd \<circ> snd) started) network e s
                | ((None, started), s) \<Rightarrow>
                    let r = new_app_run v (po_root (ho_project s)) (ap_id p) l ports network started in
                    (Inr r, s\<lparr>ho_runs := dict_put (hr_id r) r (ho_runs s)\<rparr>))))"

text \<open>What a project must have before it is prepared.\<close>

definition startable_application :: "project \<Rightarrow> string result" where
  "startable_application w =
     bindE (load_manifest (po_manifest w)) (\<lambda>m.
     bindE (resolve_application (po_dir w) (rm_application m)) (\<lambda>app.
     bindE (raises
       [(falsy_opt app, RuntimeError ''no application''),
        (or_empty app \<in> {''fastapi-postgres'', ''fastapi-postgres-web''} \<and> \<not> is_file (po_dir w) ''workspace/backend/app/main.py'',
          RuntimeError ''no entry point'')]) (\<lambda>_. Inr (or_empty app))))"

definition prepare_project :: "host_env \<Rightarrow> preparation action" where
  "prepare_project v s = (let (r, w) = prepare (he_sha v) (he_resolver v) (he_docker v) True False (ho_project s) in
     (r, s\<lparr>ho_project := w\<rparr>))"

definition start_application :: "host_env \<Rightarrow> app_run action" where
  "start_application v =
     chain (reading (\<lambda>s. startable_application (ho_project s))) (\<lambda>app.
     chain (prepare_project v) (\<lambda>r.
     chain (reading (\<lambda>s. bindE (raises [(\<not> prepared_ok r, RuntimeError ''not prepared'')]) (\<lambda>_.
       bindE (load_manifest (po_manifest (ho_project s))) (\<lambda>m.
       bindE (get_runtime (rm_profile m)) (\<lambda>rt.
       bindE (get_application app) (\<lambda>p.
       bindE (raises [(\<not> is_dir (po_dir (ho_project s)) ''workspace'', RuntimeError ''no workspace'')]) (\<lambda>_.
       Inr (m, rt, p)))))))) (\<lambda>(m, rt, p).
     launch v m rt p)))"


section \<open>Status and stop\<close>

text \<open>The runs of the table are shared objects: what an operation writes to one is seen by the next.\<close>

definition set_run :: "app_run \<Rightarrow> hosting \<Rightarrow> hosting" where
  "set_run r s = s\<lparr>ho_runs := dict_put (hr_id r) r (ho_runs s)\<rparr>"

definition lookup_run :: "string \<Rightarrow> app_run action" where
  "lookup_run i = reading (\<lambda>s. case dict_get (ho_runs s) i of None \<Rightarrow> Inl (RuntimeError ''no run'') | Some r \<Rightarrow> Inr r)"

definition release_run_ports :: "app_run \<Rightarrow> app_run action" where
  "release_run_ports r =
     (if \<not> falsy_opt (hr_lease r)
      then chain (release_lease_of (or_empty (hr_lease r)))
        (\<lambda>_ s. let r = r\<lparr>hr_lease := None, hr_ports := []\<rparr> in (Inr r, set_run r s))
      else if hr_ports r \<noteq> []
      then (\<lambda>s. let r' = r\<lparr>hr_ports := []\<rparr> in (Inr r', set_run r' (s\<lparr>ho_pool := give_back (hr_ports r) (ho_pool s)\<rparr>)))
      else reading (\<lambda>_. Inr r))"

definition container_runs :: "host_env \<Rightarrow> string \<Rightarrow> hosting \<Rightarrow> bool \<times> hosting" where
  "container_runs v name s =
     (let (r, w) = run_docker (he_docker v) [''docker'', ''inspect'', ''--format={{.State.Running}}'', name] (ho_project s) in
      (cr_exit r = 0 \<and> py_lower (py_strip (cr_stdout r)) = ''true'', s\<lparr>ho_project := w\<rparr>))"

fun all_run :: "host_env \<Rightarrow> string list \<Rightarrow> hosting \<Rightarrow> bool \<times> hosting" where
  "all_run v [] s = (True, s)"
| "all_run v (n # ns) s = (let (ok, s) = container_runs v n s in if ok then all_run v ns s else (False, s))"

definition run_status_of :: "host_env \<Rightarrow> string \<Rightarrow> app_run action" where
  "run_status_of v i = chain (lookup_run i) (\<lambda>r s.
     if hr_status r \<noteq> RUN_RUNNING then (Inr r, s)
     else (let (ok, s) = all_run v (hr_containers r) s; r' = r\<lparr>hr_status := RUN_STOPPED\<rparr> in
       if ok then (Inr r, s) else release_run_ports r' (set_run r' s)))"

text \<open>The containers in the reverse of their order, with those that did not stop.\<close>

fun stop_containers :: "host_env \<Rightarrow> string list \<Rightarrow> string list \<Rightarrow> string list action" where
  "stop_containers v failed [] = reading (\<lambda>_. Inr failed)"
| "stop_containers v failed (n # ns) = chain (run_for v [''docker'', ''stop'', n]) (\<lambda>r.
     chain (run_for v [''docker'', ''rm'', ''-f'', n]) (\<lambda>_.
     stop_containers v (if cr_exit r \<noteq> 0 then failed @ [n] else failed) ns))"

definition stop_running :: "host_env \<Rightarrow> app_run \<Rightarrow> app_run action" where
  "stop_running v r = chain (stop_containers v [] (rev (hr_containers r))) (\<lambda>failed s.
     let r = (if failed \<noteq> [] then r\<lparr>hr_status := RUN_FAILED, hr_error := Some failed\<rparr> else r\<lparr>hr_status := RUN_STOPPED\<rparr>);
         s = set_run r s in
     if falsy_opt (hr_network r) then (Inr r, s)
     else chain (run_for v [''docker'', ''network'', ''rm'', or_empty (hr_network r)]) (\<lambda>_. reading (\<lambda>_. Inr r)) s)"

definition stop_application :: "host_env \<Rightarrow> string \<Rightarrow> app_run action" where
  "stop_application v i = chain (lookup_run i) (\<lambda>r.
     chain (if hr_status r = RUN_RUNNING then stop_running v r else reading (\<lambda>_. Inr r)) release_run_ports)"

text \<open>Only an \<open>ApplicationRunError\<close> is caught.\<close>

definition stop_or_skip :: "host_env \<Rightarrow> string \<Rightarrow> unit action" where
  "stop_or_skip v i s = (case stop_application v i s of
      (Inl (RuntimeError _), s) \<Rightarrow> (Inr (), s) | (Inl e, s) \<Rightarrow> (Inl e, s) | (Inr _, s) \<Rightarrow> (Inr (), s))"

definition shutdown_runs :: "host_env \<Rightarrow> unit action" where
  "shutdown_runs v s = each (stop_or_skip v) (dict_keys (ho_runs s)) s"

end
