(* ===== verification/App_Runner_Laws.thy ===== *)
theory App_Runner_Laws
  imports App_Runner Port_Laws Sandbox_Laws
begin

text \<open>
  What the runner of applications gives back: a failed start leaves no lease, no port and no started container behind,
  a run that is stopped gives back what its start took; and what it forgets: the containers of a run that a query of
  its status has marked as stopped.
\<close>

section \<open>Steps that only run commands\<close>

definition quiet :: "(string list \<Rightarrow> bool) \<Rightarrow> hosting \<Rightarrow> hosting \<Rightarrow> bool" where
  "quiet P s s' \<longleftrightarrow> runs P (ho_project s) (ho_project s') \<and> ho_registry s' = ho_registry s \<and> ho_pool s' = ho_pool s
     \<and> ho_runs s' = ho_runs s"

definition quiet_by :: "(string list \<Rightarrow> bool) \<Rightarrow> 'a action \<Rightarrow> bool" where
  "quiet_by P m \<longleftrightarrow> (\<forall>s. quiet P s (snd (m s)))"

lemma quiet_refl [simp]: "quiet P s s"
  by (simp add: quiet_def)

lemma quiet_trans: "quiet P s s' \<Longrightarrow> quiet P s' s'' \<Longrightarrow> quiet P s s''"
  unfolding quiet_def by (auto intro: runs_trans)

lemma quiet_mono: "quiet P s s' \<Longrightarrow> (\<And>c. P c \<Longrightarrow> Q c) \<Longrightarrow> quiet Q s s'"
  unfolding quiet_def by (auto intro: runs_mono)

lemma quietD: "quiet_by P m \<Longrightarrow> m s = (r, s') \<Longrightarrow> quiet P s s'"
  by (metis quiet_by_def snd_conv)

lemma chain_cases [consumes 1, case_names failed passed]:
  assumes "chain m f s = (r, s')"
  obtains e where "m s = (Inl e, s')" "r = Inl e" | x s1 where "m s = (Inr x, s1)" "f x s1 = (r, s')"
  using assms by (auto simp: chain_def split: prod.splits sum.splits)

lemma quiet_reading [intro]: "quiet_by P (reading f)"
  by (simp add: quiet_by_def reading_def)

lemma quiet_run [intro]: "P c \<Longrightarrow> quiet_by P (run_for v c)"
  by (auto simp: quiet_by_def run_for_def run_docker_def Let_def quiet_def intro: runs_one)

lemma quiet_chain [intro]:
  assumes "quiet_by P m" "\<And>x. quiet_by P (f x)"
  shows "quiet_by P (chain m f)"
  unfolding quiet_by_def
proof
  fix s
  obtain r s1 where m: "m s = (r, s1)" by force
  show "quiet P s (snd (chain m f s))"
  proof (cases r)
    case (Inr x)
    obtain q s2 where f: "f x s1 = (q, s2)" by force
    then show ?thesis using quiet_trans [OF quietD [OF assms(1) m] quietD [OF assms(2) f]] m Inr by (simp add: chain_def)
  qed (use quietD [OF assms(1) m] m in \<open>simp add: chain_def\<close>)
qed

lemma quiet_each [intro]: "(\<And>x. x \<in> set xs \<Longrightarrow> quiet_by P (f x)) \<Longrightarrow> quiet_by P (each f xs)"
  by (induction xs) auto

text \<open>A command that creates a container of a service, and the containers that have been created.\<close>

definition detached :: "string list \<Rightarrow> bool" where
  "detached c \<longleftrightarrow> take 3 c = [''docker'', ''run'', ''--detach'']"

definition creates :: "docker \<Rightarrow> project \<Rightarrow> nat \<Rightarrow> string \<Rightarrow> bool" where
  "creates docker w k n \<longleftrightarrow> k < length (po_log w)
     \<and> take 5 (po_log w ! k) = [''docker'', ''run'', ''--detach'', ''--name'', n]
     \<and> cr_exit (docker k (po_log w ! k)) = 0 \<and> \<not> blank (cr_stdout (docker k (po_log w ! k)))"

text \<open>The containers created between two states are among \<open>names\<close>.\<close>

definition created_in :: "host_env \<Rightarrow> hosting \<Rightarrow> hosting \<Rightarrow> string set \<Rightarrow> bool" where
  "created_in v s s' names \<longleftrightarrow> (\<forall>k n. length (po_log (ho_project s)) \<le> k \<longrightarrow> creates (he_docker v) (ho_project s') k n \<longrightarrow> n \<in> names)"

lemma creates_extends:
  assumes "po_log w' = po_log w @ log" "k < length (po_log w)"
  shows "creates d w' k n \<longleftrightarrow> creates d w k n"
  using assms by (simp add: creates_def nth_append)

lemma detached_take: "take 5 c = [''docker'', ''run'', ''--detach'', ''--name'', n] \<Longrightarrow> detached c"
proof -
  assume a: "take 5 c = [''docker'', ''run'', ''--detach'', ''--name'', n]"
  have "take 3 c = take 3 (take 5 c)" by simp
  then show ?thesis by (simp add: a detached_def)
qed

lemma created_quiet:
  assumes "quiet (\<lambda>c. \<not> detached c) s s'"
  shows "created_in v s s' {}"
proof -
  obtain log where log: "po_log (ho_project s') = po_log (ho_project s) @ log" "list_all (\<lambda>c. \<not> detached c) log"
    using assms by (auto simp: quiet_def runs_def)
  have "False" if k: "length (po_log (ho_project s)) \<le> k" and c: "creates (he_docker v) (ho_project s') k n" for k n
  proof -
    have "po_log (ho_project s') ! k \<in> set log" using c log(1) k by (auto simp: creates_def nth_append)
    then have "\<not> detached (po_log (ho_project s') ! k)" using log(2) by (simp add: list_all_iff)
    then show False using c detached_take by (auto simp: creates_def)
  qed
  then show ?thesis by (auto simp: created_in_def)
qed

lemma created_trans:
  assumes "created_in v s s1 A" "created_in v s1 s2 B" "quiet P s s1" "quiet Q s1 s2"
  shows "created_in v s s2 (A \<union> B)"
proof -
  obtain log where log: "po_log (ho_project s2) = po_log (ho_project s1) @ log" using assms(4) by (auto simp: quiet_def runs_def)
  have "n \<in> A \<union> B" if k: "length (po_log (ho_project s)) \<le> k" and c: "creates (he_docker v) (ho_project s2) k n" for k n
  proof (cases "k < length (po_log (ho_project s1))")
    case True
    then have "creates (he_docker v) (ho_project s1) k n" using creates_extends [OF log True] c by simp
    then show ?thesis using assms(1) k by (auto simp: created_in_def)
  next
    case False
    then show ?thesis using assms(2) c unfolding created_in_def by (meson UnI2 not_less)
  qed
  then show ?thesis by (auto simp: created_in_def)
qed

lemma created_mono: "created_in v s s' A \<Longrightarrow> A \<subseteq> B \<Longrightarrow> created_in v s s' B"
  by (auto simp: created_in_def)

section \<open>The steps of a start\<close>

abbreviation ordinary :: "string list \<Rightarrow> bool" where
  "ordinary c \<equiv> \<not> detached c"

lemma ordinary_commands [simp]:
  "ordinary (''docker'' # ''inspect'' # c)" "ordinary (''docker'' # ''pull'' # c)" "ordinary (''docker'' # ''exec'' # c)"
  "ordinary (''docker'' # ''logs'' # c)" "ordinary (''docker'' # ''stop'' # c)" "ordinary (''docker'' # ''rm'' # c)"
  "ordinary (''docker'' # ''network'' # c)" "ordinary (''docker'' # ''volume'' # c)" "ordinary (''docker'' # ''image'' # c)"
  "ordinary (''docker'' # ''run'' # ''--rm'' # c)"
  by (simp_all add: detached_def)

lemma ensure_running_quiet [intro]: "quiet_by ordinary (ensure_running v n)"
  unfolding ensure_running_def by (intro quiet_chain quiet_run quiet_reading) simp

lemma ensure_image_quiet [intro]: "quiet_by ordinary (ensure_image v i)"
  unfolding quiet_by_def
proof
  fix s :: hosting
  obtain r w where f: "image_available (he_docker v) i (ho_project s) = (r, w)" by force
  then have "runs ordinary (ho_project s) w"
    by (auto simp: image_available_def run_docker_def Let_def runs_def keeps_def split: if_splits)
  then have q: "quiet ordinary s (s\<lparr>ho_project := w\<rparr>)" by (simp add: quiet_def)
  have "quiet_by ordinary (chain (run_for v [''docker'', ''pull'', i]) (\<lambda>r.
       reading (\<lambda>_. raises [(cr_exit r \<noteq> 0, RuntimeError ''no image'')])))" (is "quiet_by _ ?m")
    by (intro quiet_chain quiet_run quiet_reading) simp
  then have "quiet ordinary (s\<lparr>ho_project := w\<rparr>) (snd (?m (s\<lparr>ho_project := w\<rparr>)))" by (simp add: quiet_by_def)
  from quiet_trans [OF q this] show "quiet ordinary s (snd (ensure_image v i s))"
    using q f by (simp add: ensure_image_def Let_def)
qed

lemma wait_quiet [intro]: "quiet_by ordinary (wait_for_readiness v n ready k)"
proof (induction k)
  case (Suc k)
  have "quiet_by ordinary (if cr_exit r = 0 then reading (\<lambda>_. Inr ()) else chain (ensure_running v n) (\<lambda>_. wait_for_readiness v n ready k))"
    for r :: cmd_result using Suc by auto
  then show ?case by (simp only: wait_for_readiness.simps) (rule quiet_chain [OF quiet_run], simp_all)
qed auto

lemma volume_quiet [intro]: "quiet_by ordinary (service_volume v app img x)"
proof -
  have "quiet_by ordinary (prepare_data_volume v n img o')" for n o'
    unfolding prepare_data_volume_def volume_command_def by (intro quiet_chain quiet_run quiet_reading) simp_all
  then have "quiet_by ordinary (chain (prepare_data_volume v n img o') (\<lambda>_. reading (\<lambda>_. Inr (Some n))))" for n o' by blast
  then show ?thesis by (auto simp: service_volume_def quiet_by_def Let_def reading_def)
qed

lemma network_quiet [intro]: "quiet_by ordinary (create_network v n)"
  unfolding create_network_def by (intro quiet_chain quiet_run quiet_reading) simp

lemma settle_quiet [intro]: "quiet_by ordinary (settle v n x)"
  unfolding settle_def by (intro quiet_chain) (auto split: option.split list.split)

lemma discard_quiet [intro]: "quiet_by ordinary (discard v n)"
  unfolding discard_def by (intro quiet_chain quiet_run quiet_reading) simp_all

text \<open>The command of a container, and the step that creates it.\<close>

lemma docker_run_command_name:
  "docker_run_command sha img x source name volume network m port w = Inr c
   \<Longrightarrow> take 5 c = [''docker'', ''run'', ''--detach'', ''--name'', name]"
  by (auto simp: docker_run_command_def)

lemma run_for_eq: "run_for v c s = (Inr (he_docker v (length (po_log (ho_project s))) c),
    s\<lparr>ho_project := (ho_project s)\<lparr>po_log := po_log (ho_project s) @ [c]\<rparr>\<rparr>)"
  by (simp add: run_for_def run_docker_def)

lemma created_by_run:
  assumes "run_for v c s = (Inr r, s')" "take 5 c = [''docker'', ''run'', ''--detach'', ''--name'', name]"
  shows "created_in v s s' (if cr_exit r \<noteq> 0 \<or> blank (cr_stdout r) then {} else {name})"
  using assms by (auto simp: run_for_eq created_in_def creates_def nth_append le_less_Suc_eq)

lemma chain_reading: "chain (reading f) g s = (case f s of Inl e \<Rightarrow> (Inl e, s) | Inr x \<Rightarrow> g x s)"
  by (simp add: chain_def reading_def split: sum.split)

lemma chain_after: "m s = (Inr x, s1) \<Longrightarrow> chain m f s = f x s1"
  by (simp add: chain_def)

lemma create_container_cases [consumes 1, case_names idle run]:
  assumes "create_container v m rt app network ports name x s = (r, s')"
  obtains "isl r" "quiet ordinary s s'"
  | s1 c q where "quiet ordinary s s1" "run_for v c s1 = (Inr q, s')"
      "take 5 c = [''docker'', ''run'', ''--detach'', ''--name'', name]" "isl r \<longleftrightarrow> cr_exit q \<noteq> 0 \<or> blank (cr_stdout q)"
proof (cases "check_directories x (po_dir (ho_project s))")
  case (Inl e)
  then show thesis using assms that(1) by (auto simp: create_container_def chain_reading)
next
  case checked: (Inr u)
  obtain q1 s1 where vol: "service_volume v app (service_image rt x) x s = (q1, s1)" by force
  have q: "quiet ordinary s s1" using quietD [OF volume_quiet vol] .
  show thesis
  proof (cases q1)
    case (Inl e)
    then show thesis using assms that(1) q checked vol by (auto simp: create_container_def chain_reading) (auto simp: chain_def)
  next
    case (Inr volume)
    define build where "build = docker_run_command (he_sha v) (service_image rt x) x (mount_source x) name volume network m
       (port_of ports x) (ho_project s1)"
    have rest: "chain (reading (\<lambda>s. docker_run_command (he_sha v) (service_image rt x) x (mount_source x) name volume network m
       (port_of ports x) (ho_project s))) (\<lambda>cmd. chain (run_for v cmd) (\<lambda>r.
       reading (\<lambda>_. if cr_exit r \<noteq> 0 \<or> blank (cr_stdout r) then Inl (RuntimeError ''start of a service'')
         else Inr (last (lines_of (py_strip (cr_stdout r))))))) s1 = (r, s')"
      using assms checked vol Inr unfolding create_container_def chain_reading by (simp add: chain_def)
    show thesis
    proof (cases build)
      case (Inl e)
      then show thesis using rest that(1) q unfolding chain_reading build_def [symmetric] by auto
    next
      case c: (Inr c)
      define q' where "q' = he_docker v (length (po_log (ho_project s1))) c"
      have "run_for v c s1 = (Inr q', s') \<and> (isl r \<longleftrightarrow> cr_exit q' \<noteq> 0 \<or> blank (cr_stdout q'))"
        using rest c unfolding chain_reading build_def [symmetric]
        by (auto simp: chain_def run_for_eq reading_def q'_def [symmetric] split: if_splits)
      then show thesis using that(2) [OF q] docker_run_command_name [OF c [unfolded build_def]] by blast
    qed
  qed
qed

lemma create_container_created:
  assumes "create_container v m rt app network ports name x s = (r, s')"
  shows "quiet (\<lambda>_. True) s s' \<and> created_in v s s' (if isl r then {} else {name})"
  using assms
proof (cases rule: create_container_cases)
  case idle
  then show ?thesis using quiet_mono [OF idle(2)] created_quiet [OF idle(2)] by simp
next
  case (run s1 c q)
  have t1: "quiet (\<lambda>_. True) s s1" by (rule quiet_mono [OF run(1)]) simp
  have t2: "quiet (\<lambda>_. True) s1 s'" by (rule quietD [OF quiet_run run(2)]) simp
  have "created_in v s s' ({} \<union> (if isl r then {} else {name}))"
    unfolding run(4) by (rule created_trans [OF created_quiet [OF run(1)] created_by_run [OF run(2,3)] t1 t2])
  with quiet_trans [OF t1 t2] show ?thesis by (simp only: Un_empty_left)
qed

lemma start_services_created:
  assumes "start_services v m rt app network ports xs started s = ((e, started'), s')"
  shows "quiet (\<lambda>_. True) s s' \<and> (\<exists>more. started' = started @ more \<and> created_in v s s' ((snd \<circ> snd) ` set more)
    \<and> (e = None \<longrightarrow> map (\<lambda>(x, i, n). (x, n)) more
         = map (\<lambda>x. (x, container_name (project_name s) (run_id v) (as_id x))) xs))"
  using assms
proof (induction xs arbitrary: started s)
  case Nil
  then show ?case using created_quiet [OF quiet_refl] by auto
next
  case (Cons x xs)
  define name where "name = container_name (project_name s) (run_id v) (as_id x)"
  obtain q s1 where c: "create_container v m rt app network ports name x s = (q, s1)" by force
  note c1 = create_container_created [OF c]
  have root: "project_name t = project_name s" if "quiet P s t" for P t
    using that by (simp add: project_name_def quiet_def runs_def keeps_def)
  show ?case
  proof (cases q)
    case (Inl err)
    then have "((e, started'), s') = ((Some err, started), s1)"
      using Cons.prems c by (simp add: Let_def name_def [symmetric])
    then show ?thesis using c1 Inl by auto
  next
    case (Inr i)
    obtain q2 s2 where d: "settle v name x s1 = (q2, s2)" by force
    have s2: "quiet ordinary s1 s2" using quietD [OF settle_quiet d] .
    have t2: "quiet (\<lambda>_. True) s s2" using quiet_trans [OF conjunct1 [OF c1] quiet_mono [OF s2]] by simp
    have n2: "created_in v s s2 {name}"
      using created_trans [OF conjunct2 [OF c1] created_quiet [OF s2] conjunct1 [OF c1] s2] Inr by simp
    show ?thesis
    proof (cases q2)
      case (Inl err)
      then have "((e, started'), s') = ((Some err, started @ [(x, i, name)]), s2)"
        using Cons.prems c d Inr by (simp add: Let_def name_def [symmetric])
      then show ?thesis using t2 n2 by auto
    next
      case r: (Inr u)
      have "start_services v m rt app network ports xs (started @ [(x, i, name)]) s2 = ((e, started'), s')"
        using Cons.prems c d Inr r by (simp add: Let_def name_def [symmetric])
      from Cons.IH [OF this] obtain more where more: "quiet (\<lambda>_. True) s2 s'" "started' = (started @ [(x, i, name)]) @ more"
          "created_in v s2 s' ((snd \<circ> snd) ` set more)"
          "e = None \<longrightarrow> map (\<lambda>(x, i, n). (x, n)) more
             = map (\<lambda>x. (x, container_name (project_name s2) (run_id v) (as_id x))) xs" by blast
      have "created_in v s s' ((snd \<circ> snd) ` set ((x, i, name) # more))"
        using created_trans [OF n2 more(3) t2 more(1)] by simp
      then show ?thesis using quiet_trans [OF t2 more(1)] more(2,4) root [OF t2] by (intro conjI exI [of _ "(x, i, name) # more"]) (auto simp: name_def)
    qed
  qed
qed

section \<open>Leases and removals\<close>

lemma release_acquired:
  assumes "acquire v free fresh owner n a f = Inr (l, a1, f1)"
  shows "release_lease (ls_lease_id l) a1 f1 = Inr (ls_ports l, a, JsonFile (JObj (dict_pop fresh (registry f1))))"
    "set (dict_pop fresh (registry f1)) \<subseteq> set (registry f)" "1 \<le> n \<Longrightarrow> ls_ports l \<noteq> []"
proof -
  note c = acquire_cases [OF assms]
  have ports: "entry_field (lease_as_dict l) ''ports'' = Inr (JList (map JInt (ls_ports l)))"
    by (simp add: entry_field_def lease_as_dict_def json_get_def)
  have list: "port_list (JList (map JInt (ls_ports l))) = Inr (ls_ports l)"
    using mapE_map [of "ls_ports l" py_int JInt id] by (simp add: port_list_def py_int_def)
  have "give_back (ls_ports l) a1 = a"
  proof -
    have "al_reserved a1 - set (ls_ports l) = al_reserved a"
      using allocate_cases(3,4) [OF c(1)] by auto
    then show ?thesis using allocate_cases(3) [OF c(1)] by (simp add: give_back_def)
  qed
  moreover have "dict_get (registry f1) fresh = Some (lease_as_dict l)"
    by (simp add: c(2) registry_def dict.get_put)
  ultimately show "release_lease (ls_lease_id l) a1 f1 = Inr (ls_ports l, a, JsonFile (JObj (dict_pop fresh (registry f1))))"
    by (simp add: release_lease_def c(3) ports list)
  have "set (dict_pop fresh (dict_put fresh x d)) \<subseteq> set d" for x :: json and d
    by (induction d) (auto simp: AList.delete_eq)
  then show "set (dict_pop fresh (registry f1)) \<subseteq> set (registry f)"
    by (force simp: c(2) registry_def reclaim_state_def)
  show "ls_ports l \<noteq> []" if "1 \<le> n" using allocate_cases(2) [OF c(1)] that by auto
qed

definition logged :: "string list list \<Rightarrow> hosting \<Rightarrow> hosting" where
  "logged cs s = s\<lparr>ho_project := (ho_project s)\<lparr>po_log := po_log (ho_project s) @ cs\<rparr>\<rparr>"

lemma logged_simps [simp]:
  "logged as (logged bs s) = logged (bs @ as) s" "logged [] s = s"
  "ho_pool (logged as s) = ho_pool s" "ho_registry (logged as s) = ho_registry s" "ho_runs (logged as s) = ho_runs s"
  "po_log (ho_project (logged as s)) = po_log (ho_project s) @ as"
  by (simp_all add: logged_def)

lemma quiet_logged: "list_all P cs \<Longrightarrow> quiet P s (logged cs s)"
  by (auto simp: quiet_def logged_def runs_def keeps_def)

lemma run_for_logged: "run_for v c s = (Inr (he_docker v (length (po_log (ho_project s))) c), logged [c] s)"
  by (simp add: run_for_eq logged_def)

definition discarding :: "string \<Rightarrow> string list list" where
  "discarding n = [[''docker'', ''logs'', n], [''docker'', ''stop'', n], [''docker'', ''rm'', ''-f'', n]]"

lemma each_discard: "each (discard v) ns s = (Inr (), logged (concat (map discarding ns)) s)"
  by (induction ns arbitrary: s) (simp_all add: discard_def chain_def run_for_logged reading_def discarding_def)

lemma abandon_eq:
  assumes "return_lease l s = (Inr (), s1)"
  shows "abandon v l names network e s = (Inl e,
     logged (concat (map discarding (rev names)) @ [[''docker'', ''network'', ''rm'', network]]) s1)"
  using assms by (simp add: abandon_def chain_def each_discard run_for_logged reading_def)

lemma lease_ports_cases [consumes 1, case_names refused none leased]:
  assumes "lease_ports v p s = (q, s1)"
  obtains e where "q = Inl e" "s1 = s"
  | "q = Inr None" "s1 = s"
  | l a f where "q = Inr (Some l)" "s1 = s\<lparr>ho_pool := a, ho_registry := f\<rparr>"
      "acquire (he_process v) (he_free v) (he_lease v) (run_id v) (int (length (publishable p))) (ho_pool s) (ho_registry s) = Inr (l, a, f)"
      "publishable p \<noteq> []"
proof (cases "publishable p = []")
  case False
  show thesis
  proof (cases "acquire (he_process v) (he_free v) (he_lease v) (run_id v) (int (length (publishable p))) (ho_pool s) (ho_registry s)")
    case (Inl e)
    then show thesis using assms False that(1) by (cases e) (auto simp: lease_ports_def)
  next
    case (Inr x)
    obtain l a f where "x = (l, a, f)" by (cases x)
    then show thesis using assms False Inr that(3) by (auto simp: lease_ports_def)
  qed
qed (use assms that(2) in \<open>simp add: lease_ports_def\<close>)

text \<open>What a launch leaves of the leases when it is undone: the pool of before, and no new entry in the registry.\<close>

definition undone :: "hosting \<Rightarrow> hosting \<Rightarrow> bool" where
  "undone s s' \<longleftrightarrow> ho_pool s' = ho_pool s \<and> set (registry (ho_registry s')) \<subseteq> set (registry (ho_registry s))"

lemma return_lease_undone:
  assumes "lease_ports v p s = (Inr l, s1)" "ho_pool s2 = ho_pool s1" "ho_registry s2 = ho_registry s1"
  shows "\<exists>s3. return_lease l s2 = (Inr (), s3) \<and> undone s s3 \<and> ho_runs s3 = ho_runs s2 \<and> ho_project s3 = ho_project s2"
  using assms(1)
proof (cases rule: lease_ports_cases)
  case none
  then show ?thesis using assms(2,3) by (auto simp: return_lease_def reading_def undone_def)
next
  case (leased l' a f)
  note c = release_acquired [OF leased(3)]
  have "ls_ports l' \<noteq> []" using c(3) leased(4) by (simp add: Suc_leI)
  then have "return_lease l s2 = (Inr (), s2\<lparr>ho_pool := ho_pool s,
      ho_registry := JsonFile (JObj (dict_pop (he_lease v) (registry f)))\<rparr>)"
    using leased(1,2) assms(2,3) c(1) by (simp add: return_lease_def release_lease_of_def)
  then show ?thesis using c(2) by (auto simp: undone_def registry_def)
qed simp


section \<open>A start\<close>

abbreviation names_of :: "(app_service \<times> string \<times> string) list \<Rightarrow> string list" where
  "names_of started \<equiv> map (snd \<circ> snd) started"

abbreviation run_network :: "host_env \<Rightarrow> hosting \<Rightarrow> string" where
  "run_network v s \<equiv> network_name (project_name s) (run_id v)"

lemma launch_cases [consumes 1, case_names unleased failed launched]:
  assumes "launch v m rt p s = (r, s')"
  obtains e where "lease_ports v p s = (Inl e, s)" "abandon v None [] (run_network v s) e s = (r, s')"
  | l s1 s2 started e where "lease_ports v p s = (Inr l, s1)" "quiet (\<lambda>_. True) s1 s2" "created_in v s1 s2 (set (names_of started))"
      "abandon v l (names_of started) (run_network v s) e s2 = (r, s')"
  | l s1 s2 started x where "lease_ports v p s = (Inr l, s1)" "quiet (\<lambda>_. True) s1 s2" "created_in v s1 s2 (set (names_of started))"
      "map (\<lambda>(x, i, n). (x, n)) started = map (\<lambda>x. (x, container_name (project_name s) (run_id v) (as_id x))) (ap_services p)"
      "x = new_app_run v (po_root (ho_project s2)) (ap_id p) l (resolved_ports p (leased l)) (run_network v s) started"
      "r = Inr x" "s' = set_run x s2"
proof -
  obtain q s1 where lease: "lease_ports v p s = (q, s1)" by force
  have project: "ho_project s1 = ho_project s" using lease by (cases rule: lease_ports_cases) auto
  show thesis
  proof (cases q)
    case (Inl e)
    have "s1 = s" using lease Inl by (cases rule: lease_ports_cases) auto
    then show thesis using assms lease Inl that(1) by (simp add: launch_def Let_def)
  next
    case (Inr l)
    let ?staging = "chain (each (ensure_image v) (rp_image rt # map (service_image rt) (ap_services p)))
      (\<lambda>_. create_network v (run_network v s))"
    obtain q1 s2 where staging: "?staging s1 = (q1, s2)" by force
    have "quiet_by ordinary ?staging" by blast
    from quietD [OF this staging] have quiet: "quiet ordinary s1 s2" .
    have any: "quiet (\<lambda>_. True) s1 s2" by (rule quiet_mono [OF quiet]) simp
    show thesis
    proof (cases q1)
      case e: (Inl e)
      have "abandon v l (names_of []) (run_network v s) e s2 = (r, s')"
        using assms lease Inr staging e by (simp add: launch_def Let_def)
      moreover have "created_in v s1 s2 (set (names_of []))" using created_quiet [OF quiet] by simp
      ultimately show thesis using that(2) [of l s1 s2 "[]"] lease Inr any by simp
    next
      case u: (Inr u)
      obtain e started s3 where services: "start_services v m rt (ap_id p) (run_network v s) (resolved_ports p (leased l)) (ap_services p) [] s2
          = ((e, started), s3)" by (metis prod.exhaust)
      have same: "project_name s2 = project_name s" using quiet project by (simp add: project_name_def quiet_def runs_def keeps_def)
      from start_services_created [OF services] have st: "quiet (\<lambda>_. True) s2 s3" "created_in v s2 s3 (set (names_of started))"
        "e = None \<longrightarrow> map (\<lambda>(x, i, n). (x, n)) started
           = map (\<lambda>x. (x, container_name (project_name s) (run_id v) (as_id x))) (ap_services p)" by (auto simp: same)
      have q3: "quiet (\<lambda>_. True) s1 s3" by (rule quiet_trans [OF any st(1)])
      have c3: "created_in v s1 s3 (set (names_of started))" using created_trans [OF created_quiet [OF quiet] st(2) quiet st(1)] by simp
      show thesis
      proof (cases e)
        case (Some err)
        have "abandon v l (names_of started) (run_network v s) err s3 = (r, s')"
          using assms lease Inr staging u services Some by (simp add: launch_def Let_def)
        then show thesis using that(2) [OF _ q3 c3] lease Inr by blast
      next
        case None
        let ?x = "new_app_run v (po_root (ho_project s3)) (ap_id p) l (resolved_ports p (leased l)) (run_network v s) started"
        have "r = Inr ?x \<and> s' = set_run ?x s3"
          using assms lease Inr staging u services None by (simp add: launch_def Let_def set_run_def)
        then show thesis using that(3) [OF _ q3 c3, of l ?x] st(3) None lease Inr by blast
      qed
    qed
  qed
qed

lemma prepare_project_quiet: "quiet_by ordinary (prepare_project v)"
  unfolding quiet_by_def
proof
  fix s :: hosting
  obtain r w where p: "prepare (he_sha v) (he_resolver v) (he_docker v) True False (ho_project s) = (r, w)" by force
  have "runs ordinary (ho_project s) w"
    by (rule runs_mono [OF prepare_runs [OF p]])
      (auto simp: image_command_def list_ex_iff wheel_download_def download_command_def)
  then show "quiet ordinary s (snd (prepare_project v s))" using p by (simp add: prepare_project_def quiet_def)
qed

lemma start_cases [consumes 1, case_names early launched]:
  assumes "start_application v s = (r, s')"
  obtains e where "r = Inl e" "quiet ordinary s s'"
  | s1 m rt p where "quiet ordinary s s1" "launch v m rt p s1 = (r, s')"
proof (cases "startable_application (ho_project s)")
  case (Inl e)
  then show thesis using assms that(1) by (auto simp: start_application_def chain_reading)
next
  case (Inr app)
  obtain q s1 where prep: "prepare_project v s = (q, s1)" by force
  note quiet = quietD [OF prepare_project_quiet prep]
  show thesis
  proof (cases q)
    case e: (Inl e)
    then show thesis using assms that(1) quiet Inr prep by (auto simp: start_application_def chain_reading) (auto simp: chain_def)
  next
    case x: (Inr x)
    define check where "check = bindE (raises [(\<not> prepared_ok x, RuntimeError ''not prepared'')]) (\<lambda>_.
       bindE (load_manifest (po_manifest (ho_project s1))) (\<lambda>m.
       bindE (get_runtime (rm_profile m)) (\<lambda>rt.
       bindE (get_application app) (\<lambda>p.
       bindE (raises [(\<not> is_dir (po_dir (ho_project s1)) ''workspace'', RuntimeError ''no workspace'')]) (\<lambda>_.
       Inr (m, rt, p))))))"
    have "(case check of Inl e \<Rightarrow> (Inl e, s1) | Inr y \<Rightarrow> (case y of (m, rt, p) \<Rightarrow> launch v m rt p) s1) = (r, s')"
      using assms Inr unfolding start_application_def chain_reading check_def
      by (simp only: chain_after [where m = "prepare_project v", OF prep [unfolded x]] chain_reading sum.case)
    then show thesis using that(1) [of _] that(2) [OF quiet] quiet by (cases check) auto
  qed
qed

text \<open>Every container created from \<open>s\<close> on has been removed after its creation.\<close>

definition containers_removed :: "host_env \<Rightarrow> hosting \<Rightarrow> hosting \<Rightarrow> bool" where
  "containers_removed v s s' \<longleftrightarrow> (\<forall>k n. length (po_log (ho_project s)) \<le> k \<longrightarrow> creates (he_docker v) (ho_project s') k n
     \<longrightarrow> [''docker'', ''rm'', ''-f'', n] \<in> set (drop k (po_log (ho_project s'))))"

lemma removed_none: "created_in v s s' {} \<Longrightarrow> containers_removed v s s'"
  by (auto simp: created_in_def containers_removed_def)

lemma removed_later:
  assumes "created_in v s s1 names" "po_log (ho_project s2) = po_log (ho_project s1) @ cs" "list_all ordinary cs"
    and "\<forall>n \<in> names. [''docker'', ''rm'', ''-f'', n] \<in> set cs"
  shows "containers_removed v s s2"
  unfolding containers_removed_def
proof (intro allI impI)
  fix k n assume k: "length (po_log (ho_project s)) \<le> k" and c: "creates (he_docker v) (ho_project s2) k n"
  have "k < length (po_log (ho_project s1))"
  proof (rule ccontr)
    assume "\<not> ?thesis"
    then have "po_log (ho_project s2) ! k \<in> set cs" using c assms(2) by (auto simp: creates_def nth_append)
    then show False using assms(3) c detached_take by (fastforce simp: creates_def list_all_iff)
  qed
  then have "n \<in> names" using creates_extends [OF assms(2)] c k assms(1) by (auto simp: created_in_def)
  then have "[''docker'', ''rm'', ''-f'', n] \<in> set cs" using assms(4) by blast
  then show "[''docker'', ''rm'', ''-f'', n] \<in> set (drop k (po_log (ho_project s2)))"
    using \<open>k < _\<close> by (simp add: assms(2))
qed

lemma removed_before: "containers_removed v s1 s2 \<Longrightarrow> quiet ordinary s s1 \<Longrightarrow> po_log (ho_project s2) = po_log (ho_project s1) @ cs
    \<Longrightarrow> containers_removed v s s2"
  using created_quiet [of s s1 v] creates_extends [of "ho_project s2" "ho_project s1"]
  unfolding containers_removed_def created_in_def by (metis empty_iff not_less)

lemma discarding_ordinary: "list_all ordinary (concat (map discarding ns) @ [[''docker'', ''network'', ''rm'', n]])"
  by (auto simp: list_all_iff discarding_def)

lemma discarding_removes: "n \<in> set ns \<Longrightarrow> [''docker'', ''rm'', ''-f'', n] \<in> set (concat (map discarding (rev ns)) @ cs)"
  by (auto simp: discarding_def)

lemma launch_failed:
  assumes "launch v m rt p s = (Inl e, s')"
  shows "undone s s' \<and> ho_runs s' = ho_runs s \<and> containers_removed v s s' \<and> quiet (\<lambda>_. True) s (s\<lparr>ho_project := ho_project s'\<rparr>)"
  using assms
proof (cases rule: launch_cases)
  case (unleased e')
  have "s' = logged (concat (map discarding []) @ [[''docker'', ''network'', ''rm'', run_network v s]]) s"
    using unleased(2) abandon_eq [of None s s v "[]"] by (simp add: return_lease_def reading_def)
  moreover have "created_in v s (logged (concat (map discarding []) @ [[''docker'', ''network'', ''rm'', run_network v s]]) s) {}"
    by (rule created_quiet [OF quiet_logged [OF discarding_ordinary]])
  ultimately show ?thesis using removed_none by (auto simp: undone_def quiet_def logged_def runs_def keeps_def)
next
  case (failed l s1 s2 started e')
  have same: "ho_project s1 = ho_project s" "ho_runs s1 = ho_runs s" using failed(1) by (cases rule: lease_ports_cases; auto)+
  have "ho_pool s2 = ho_pool s1" "ho_registry s2 = ho_registry s1" using failed(2) by (simp_all add: quiet_def)
  from return_lease_undone [OF failed(1) this] obtain s3 where s3: "return_lease l s2 = (Inr (), s3)" "undone s s3"
      "ho_runs s3 = ho_runs s2" "ho_project s3 = ho_project s2" by blast
  let ?cs = "concat (map discarding (rev (names_of started))) @ [[''docker'', ''network'', ''rm'', run_network v s]]"
  have s': "s' = logged ?cs s3" using failed(4) abandon_eq [OF s3(1)] by auto
  have "created_in v s s2 (set (names_of started))" using failed(3) same(1) by (simp add: created_in_def)
  moreover have "po_log (ho_project s') = po_log (ho_project s2) @ ?cs" by (simp add: s' s3(4))
  ultimately have "containers_removed v s s'"
    by (rule removed_later [OF _ _ discarding_ordinary]) (use discarding_removes in blast)
  moreover have "runs (\<lambda>_. True) (ho_project s) (ho_project s')"
    using failed(2) runs_trans [of _ "ho_project s1" "ho_project s2" "ho_project s'"] quiet_logged [of "\<lambda>_. True" ?cs s3]
    by (auto simp: quiet_def same(1) s' s3(4) list_all_iff)
  ultimately show ?thesis using s3(2,3) failed(2) same by (simp add: s' undone_def quiet_def)
qed auto

text \<open>
  C13. A start that fails, wherever it fails, leaves nothing behind: the pool of ports is as it was, the registry has no
  new entry, no run is recorded, and every container that Docker has reported as started has been removed after that.
\<close>

theorem failed_start_leaves_nothing:
  assumes "start_application v s = (Inl e, s')"
  shows "ho_pool s' = ho_pool s \<and> set (registry (ho_registry s')) \<subseteq> set (registry (ho_registry s)) \<and> ho_runs s' = ho_runs s
    \<and> containers_removed v s s'"
  using assms
proof (cases rule: start_cases)
  case (early e')
  then show ?thesis using removed_none [OF created_quiet] by (auto simp: quiet_def)
next
  case (launched s1 m rt p)
  note f = launch_failed [OF launched(2)]
  obtain cs where "po_log (ho_project s') = po_log (ho_project s1) @ cs" using f by (auto simp: quiet_def runs_def)
  from removed_before [OF _ launched(1) this] f launched(1) show ?thesis by (auto simp: undone_def quiet_def)
qed

section \<open>Stopping\<close>

definition stopping :: "string \<Rightarrow> string list list" where
  "stopping n = [[''docker'', ''stop'', n], [''docker'', ''rm'', ''-f'', n]]"

lemma stop_containers_eq:
  "\<exists>bad. stop_containers v failed ns s = (Inr (failed @ bad), logged (concat (map stopping ns)) s) \<and> set bad \<subseteq> set ns"
proof (induction ns arbitrary: failed s)
  case (Cons n ns)
  define r where "r = he_docker v (length (po_log (ho_project s))) [''docker'', ''stop'', n]"
  define failed' where "failed' = (if cr_exit r \<noteq> 0 then failed @ [n] else failed)"
  from Cons.IH obtain bad where bad: "stop_containers v failed' ns (logged (stopping n) s)
      = (Inr (failed' @ bad), logged (concat (map stopping ns)) (logged (stopping n) s))" "set bad \<subseteq> set ns" by blast
  have "stop_containers v failed (n # ns) s = stop_containers v failed' ns (logged (stopping n) s)"
    by (simp add: chain_def run_for_logged r_def failed'_def stopping_def)
  with bad show ?case by (auto simp: failed'_def)
qed (simp add: reading_def)

text \<open>What a stop does to a running run.\<close>

definition stop_log :: "app_run \<Rightarrow> string list list" where
  "stop_log r = concat (map stopping (rev (hr_containers r)))
     @ (if falsy_opt (hr_network r) then [] else [[''docker'', ''network'', ''rm'', or_empty (hr_network r)]])"

lemma stop_running_eq:
  "\<exists>r'. stop_running v r s = (Inr r', logged (stop_log r) (set_run r' s)) \<and> hr_status r' \<in> {RUN_STOPPED, RUN_FAILED}
     \<and> hr_lease r' = hr_lease r \<and> hr_ports r' = hr_ports r \<and> hr_id r' = hr_id r
     \<and> (hr_status r' = RUN_STOPPED \<longleftrightarrow> hr_error r' = hr_error r)" if "hr_error r = None"
proof -
  obtain bad where bad: "stop_containers v [] (rev (hr_containers r)) s
      = (Inr ([] @ bad), logged (concat (map stopping (rev (hr_containers r)))) s)" using stop_containers_eq by blast
  define r' where "r' = (if bad \<noteq> [] then r\<lparr>hr_status := RUN_FAILED, hr_error := Some bad\<rparr> else r\<lparr>hr_status := RUN_STOPPED\<rparr>)"
  have network: "hr_network r' = hr_network r" by (simp add: r'_def)
  have swap: "set_run q (logged cs u) = logged cs (set_run q u)" for q cs u by (simp add: set_run_def logged_def)
  have "stop_running v r s = (Inr r', logged (stop_log r) (set_run r' s))"
    using bad by (simp add: stop_running_def chain_def r'_def [symmetric] Let_def swap stop_log_def run_for_logged reading_def network)
  moreover have "hr_status r' \<in> {RUN_STOPPED, RUN_FAILED}" "hr_lease r' = hr_lease r" "hr_ports r' = hr_ports r" "hr_id r' = hr_id r"
    "hr_status r' = RUN_STOPPED \<longleftrightarrow> hr_error r' = hr_error r" using that by (simp_all add: r'_def)
  ultimately show ?thesis by blast
qed

lemma stop_log_ordinary: "list_all ordinary (stop_log r)"
  by (auto simp: list_all_iff stop_log_def stopping_def)

lemma stop_log_removes: "n \<in> set (hr_containers r) \<Longrightarrow> [''docker'', ''rm'', ''-f'', n] \<in> set (stop_log r)"
  by (auto simp: stop_log_def stopping_def)

lemma safe_name_nonempty: "safe_name s \<noteq> []"
  unfolding safe_name_def Let_def by (split if_split) (simp only: list.distinct not_False_eq_True HOL.simp_thms)

text \<open>
  C14. Starting and stopping an application is neutral: what is stopped right after its start, whatever the containers
  answer, gives back its lease and its ports, every container of it has been removed, its network too, and the run is
  no longer running. The started run has one container for every service of a profile of the catalog.
\<close>

theorem start_then_stop:
  assumes "start_application v s = (Inr r, s1)" "stop_application u (hr_id r) s1 = (q, s2)" "he_docker u = he_docker v" "he_lease v \<noteq> []"
  shows "\<exists>r'. q = Inr r' \<and> hr_status r' \<in> {RUN_STOPPED, RUN_FAILED} \<and> hr_lease r' = None \<and> hr_ports r' = []
    \<and> hr_status r = RUN_RUNNING \<and> length (hr_containers r) = length (hr_services r)
    \<and> ho_pool s2 = ho_pool s \<and> set (registry (ho_registry s2)) \<subseteq> set (registry (ho_registry s))
    \<and> containers_removed v s s2
    \<and> [''docker'', ''network'', ''rm'', or_empty (hr_network r)] \<in> set (drop (length (po_log (ho_project s))) (po_log (ho_project s2)))"
  using assms(1)
proof (cases rule: start_cases)
  case (launched t m rt p)
  from launched(2) show ?thesis
  proof (cases rule: launch_cases)
    case (unleased e)
    then show ?thesis by (simp add: abandon_eq [of None] return_lease_def reading_def)
  next
    case (failed l t1 t2 started e)
    from return_lease_undone [OF failed(1)] failed(2) obtain t3 where "return_lease l t2 = (Inr (), t3)"
      unfolding quiet_def by metis
    then show ?thesis using failed(4) abandon_eq by simp
  next
    case run: (launched l t1 t2 started x)
    have x: "x = r" "s1 = set_run r t2" using run(6,7) by auto
    have r: "hr_status r = RUN_RUNNING" "hr_error r = None" "hr_lease r = map_option ls_lease_id l" "hr_ports r = leased l"
      "hr_containers r = names_of started" "hr_network r = Some (run_network v t)" "length (hr_services r) = length started"
      using run(5) x(1) by (simp_all add: new_app_run_def)
    have net: "\<not> falsy_opt (hr_network r)" using safe_name_nonempty by (simp add: r(6) network_name_def falsy_opt_def)
    have look: "lookup_run (hr_id r) s1 = (Inr r, s1)" by (simp add: lookup_run_def reading_def x(2) set_run_def dict.get_put)
    obtain r1 where r1: "stop_running u r s1 = (Inr r1, logged (stop_log r) (set_run r1 s1))"
      "hr_status r1 \<in> {RUN_STOPPED, RUN_FAILED}" "hr_lease r1 = hr_lease r" "hr_ports r1 = hr_ports r" "hr_id r1 = hr_id r"
      using stop_running_eq [OF r(2)] by metis
    define s3 where "s3 = logged (stop_log r) (set_run r1 s1)"
    have stop: "release_run_ports r1 s3 = (q, s2)"
      using assms(2) look r(1) r1(1) by (simp add: stop_application_def chain_def s3_def)
    have s3: "ho_pool s3 = ho_pool t2" "ho_registry s3 = ho_registry t2" by (simp_all add: s3_def x(2) set_run_def)
    have same: "ho_project t1 = ho_project t" using run(1) by (cases rule: lease_ports_cases) auto
    have t: "ho_pool t = ho_pool s" "ho_registry t = ho_registry s" "ho_pool t2 = ho_pool t1" "ho_registry t2 = ho_registry t1"
      using launched(1) run(2) by (simp_all add: quiet_def)
    have given: "\<exists>r'. q = Inr r' \<and> hr_status r' = hr_status r1 \<and> hr_lease r' = None \<and> hr_ports r' = []
      \<and> undone t s2 \<and> ho_project s2 = ho_project s3"
      using run(1)
    proof (cases rule: lease_ports_cases)
      case none
      then have "release_run_ports r1 s3 = (Inr r1, s3)"
        using r(3,4) r1(3,4) by (simp add: release_run_ports_def falsy_opt_def leased_def reading_def)
      then show ?thesis using stop none r(3,4) r1(3,4) s3 t by (auto simp: undone_def leased_def)
    next
      case (leased l' a f)
      note c = release_acquired [OF leased(3)]
      have id: "ls_lease_id l' = he_lease v" using acquire_cases(3) [OF leased(3)] .
      have "hr_lease r1 = Some (he_lease v)" using leased(1) r(3) r1(3) id by simp
      then have "release_run_ports r1 s3 = (Inr (r1\<lparr>hr_lease := None, hr_ports := []\<rparr>),
          set_run (r1\<lparr>hr_lease := None, hr_ports := []\<rparr>)
            (s3\<lparr>ho_pool := ho_pool t, ho_registry := JsonFile (JObj (dict_pop (he_lease v) (registry f)))\<rparr>))"
        using assms(4) c(1) leased(2) s3 t id
        by (simp add: release_run_ports_def falsy_opt_def or_empty_def chain_def release_lease_of_def Let_def)
      then show ?thesis using stop c(2) by (auto simp: undone_def registry_def set_run_def)
    qed simp
    have log: "po_log (ho_project s2) = po_log (ho_project t2) @ stop_log r"
      using given by (auto simp: s3_def x(2) set_run_def)
    have "created_in v t t2 (set (hr_containers r))" using run(3) by (simp add: created_in_def same r(5))
    from removed_later [OF this log stop_log_ordinary] stop_log_removes have gone: "containers_removed v t s2" by blast
    obtain cs where cs: "po_log (ho_project t2) = po_log (ho_project t) @ cs" using run(2) same by (auto simp: quiet_def runs_def)
    obtain ds where ds: "po_log (ho_project t) = po_log (ho_project s) @ ds" using launched(1) by (auto simp: quiet_def runs_def)
    have "containers_removed v s s2" by (rule removed_before [OF gone launched(1)]) (simp add: log cs)
    moreover have "[''docker'', ''network'', ''rm'', or_empty (hr_network r)]
        \<in> set (drop (length (po_log (ho_project s))) (po_log (ho_project s2)))"
      using net by (simp add: log cs ds stop_log_def)
    ultimately show ?thesis using given r1(2) r(1,5,7) t(1,2) by (auto simp: undone_def)
  qed
qed simp


section \<open>Status\<close>

definition inspecting :: "string \<Rightarrow> string list" where
  "inspecting n = [''docker'', ''inspect'', ''--format={{.State.Running}}'', n]"

lemma all_run_log:
  "\<exists>ms. all_run v ns s = (b, logged (map inspecting ms) s) \<and> prefix ms ns" if "fst (all_run v ns s) = b"
  using that
proof (induction ns arbitrary: s)
  case (Cons n ns)
  obtain ok where one: "container_runs v n s = (ok, logged [inspecting n] s)"
    by (simp add: container_runs_def run_docker_def logged_def inspecting_def)
  show ?case
  proof (cases ok)
    case True
    then have "fst (all_run v ns (logged [inspecting n] s)) = b" using Cons.prems one by simp
    from Cons.IH [OF this] obtain ms where "all_run v ns (logged [inspecting n] s) = (b, logged (map inspecting ms) (logged [inspecting n] s))"
      "prefix ms ns" by blast
    with one True show ?thesis by (intro exI [of _ "n # ms"]) simp
  qed (use Cons.prems one in \<open>auto intro: exI [of _ "[n]"]\<close>)
qed (auto simp: intro: exI [of _ "[]"])

text \<open>Releasing the ports of a run, which the table holds.\<close>

lemma release_run_ports_facts:
  assumes "release_run_ports r s = (q, s')" "dict_get (ho_runs s) (hr_id r) = Some r"
  shows "ho_project s' = ho_project s" "q = Inr r' \<Longrightarrow> hr_status r' = hr_status r \<and> hr_id r' = hr_id r
    \<and> hr_containers r' = hr_containers r \<and> dict_get (ho_runs s') (hr_id r) = Some r'"
  using assms
  by (auto simp: release_run_ports_def chain_def release_lease_of_def reading_def set_run_def dict.get_put Let_def
      split: if_splits sum.splits prod.splits)

lemma stop_not_running:
  assumes "dict_get (ho_runs s) i = Some r" "hr_id r = i" "hr_status r \<noteq> RUN_RUNNING"
  shows "ho_project (snd (stop_application u i s)) = ho_project s"
proof -
  have "stop_application u i s = release_run_ports r s"
    using assms by (simp add: stop_application_def lookup_run_def chain_reading)
  then show ?thesis using release_run_ports_facts(1) [of r s] assms by (metis prod.collapse)
qed

text \<open>
  C40. A query of the status that finds a run no longer running forgets its containers: whatever has been asked before, the
  query and every later stop only inspect containers, the first ones up to one that does not run. No container is stopped
  or removed any more, those that still run and the network included, while the ports have been given back.
\<close>

theorem status_forgets_containers:
  assumes "run_status_of v i s = (Inr r, s1)" "hr_id r = i" "hr_status r \<noteq> RUN_RUNNING"
    and "case dict_get (ho_runs s) i of None \<Rightarrow> True | Some r0 \<Rightarrow> hr_id r0 = i"
  shows "\<exists>ms. prefix ms (hr_containers r)
    \<and> po_log (ho_project (snd (stop_application u i s1))) = po_log (ho_project s) @ map inspecting ms"
proof -
  obtain r0 where r0: "dict_get (ho_runs s) i = Some r0" "hr_id r0 = i"
    using assms(1,4) by (auto simp: run_status_of_def lookup_run_def chain_reading split: option.splits)
  have status: "(if hr_status r0 \<noteq> RUN_RUNNING then (Inr r0, s)
     else (let (ok, s) = all_run v (hr_containers r0) s; r' = r0\<lparr>hr_status := RUN_STOPPED\<rparr> in
       if ok then (Inr r0, s) else release_run_ports r' (set_run r' s))) = (Inr r, s1)"
    using assms(1) r0 by (simp add: run_status_of_def lookup_run_def chain_reading)
  show ?thesis
  proof (cases "hr_status r0 = RUN_RUNNING")
    case False
    then have "r = r0" "s1 = s" using status by auto
    then show ?thesis using stop_not_running [OF r0(1,2) False, of u] by (intro exI [of _ "[]"]) simp
  next
    case True
    obtain ok s2 where ok: "all_run v (hr_containers r0) s = (ok, s2)" by force
    obtain ms where ms: "s2 = logged (map inspecting ms) s" "prefix ms (hr_containers r0)"
      using all_run_log [of v "hr_containers r0" s ok] ok by auto
    have "\<not> ok" using status ok True assms(3) by auto
    define r' where "r' = r0\<lparr>hr_status := RUN_STOPPED\<rparr>"
    have rel: "release_run_ports r' (set_run r' s2) = (Inr r, s1)" using status ok True \<open>\<not> ok\<close> by (simp add: r'_def Let_def)
    have known: "dict_get (ho_runs (set_run r' s2)) (hr_id r') = Some r'" by (simp add: set_run_def dict.get_put)
    note f = release_run_ports_facts [OF rel known]
    have "dict_get (ho_runs s1) i = Some r" "hr_containers r = hr_containers r0" using f(2) [OF refl] r0(2) by (auto simp: r'_def)
    from stop_not_running [OF this(1) assms(2,3), of u] ms f(1) this(2)
    show ?thesis by (auto simp: set_run_def)
  qed
qed

section \<open>Examples\<close>

text \<open>A static site, in a Docker that answers every command; only \<open>docker exec\<close> may fail.\<close>

definition site_docker :: "int \<Rightarrow> docker" where
  "site_docker code n c = \<lparr>cr_exit = (if take 2 c = [''docker'', ''exec''] then code else 0), cr_stdout = ''true'', cr_stderr = [],
     cr_timed_out = False, cr_wheels = []\<rparr>"

definition site_env :: "int \<Rightarrow> host_env" where
  "site_env code = \<lparr>he_sha = demo_sha, he_resolver = sample_env, he_docker = site_docker code, he_process = port_env 0 7,
     he_free = (\<lambda>p. p \<noteq> 8100), he_lease = ''l'', he_run = ''r'', he_rounds = (\<lambda>_. 1)\<rparr>"

definition site_state :: hosting where
  "site_state = \<lparr>ho_project = \<lparr>po_root = ''p'', po_dir = \<lparr>pj_files = [''workspace/index.html''], pj_dirs = [''workspace''],
       pj_requirements = None\<rparr>, po_manifest = JsonFile (JObj [(''version'', JInt 1), (''profile'', JStr ''python-stdlib''),
       (''application'', JStr ''static-web'')]), po_cache = [], po_approval = NoFile,
       po_contract = Inl (ValueError []), po_preparation = None, po_log = []\<rparr>,
     ho_registry = NoFile, ho_pool = port_pool_0, ho_runs = []\<rparr>"

definition site_failed :: "app_run result \<times> hosting" where
  "site_failed = start_application (site_env 1) site_state"

definition site_started :: "app_run result \<times> hosting" where
  "site_started = start_application (site_env 0) site_state"

lemma site_state_facts: "ho_runs site_state = []" "po_log (ho_project site_state) = []"
  by (simp_all add: site_state_def)

lemma site_failed_isl: "isl (fst site_failed)"
  by code_simp

lemma site_started_isl: "\<not> isl (fst site_started)"
  by code_simp

theorem failed_start_leaves_nothing_witness: "ho_pool (snd site_failed) = ho_pool site_state \<and> ho_runs (snd site_failed) = []"
proof -
  obtain e s' where s: "site_failed = (Inl e, s')" using site_failed_isl by (metis prod.collapse sum.collapse(1))
  from failed_start_leaves_nothing [OF s [unfolded site_failed_def]] have "ho_pool s' = ho_pool site_state" "ho_runs s' = ho_runs site_state"
    by blast+
  then show ?thesis by (simp only: s snd_conv site_state_facts simp_thms)
qed

theorem start_then_stop_witness:
  "ho_pool (snd (stop_application (site_env 0) (hr_id (projr (fst site_started))) (snd site_started))) = ho_pool site_state"
proof -
  obtain r s1 where s: "site_started = (Inr r, s1)" using site_started_isl by (metis prod.collapse sum.collapse(2))
  obtain q s2 where t: "stop_application (site_env 0) (hr_id r) s1 = (q, s2)" by force
  have "he_lease (site_env 0) \<noteq> []" by (simp add: site_env_def)
  moreover have "he_docker (site_env 0) = he_docker (site_env 0)" ..
  ultimately have "ho_pool s2 = ho_pool site_state" using start_then_stop [OF s [unfolded site_started_def] t] by blast
  then show ?thesis by (simp only: s t fst_conv snd_conv sum.sel)
qed

text \<open>Two containers, the second of which has ended.\<close>

definition pair_docker :: docker where
  "pair_docker n c = \<lparr>cr_exit = 0, cr_stdout = (if last c = ''b'' then ''false'' else ''true''), cr_stderr = [],
     cr_timed_out = False, cr_wheels = []\<rparr>"

definition pair_env :: host_env where
  "pair_env = (site_env 0)\<lparr>he_docker := pair_docker\<rparr>"

definition pair_state :: hosting where
  "pair_state = site_state\<lparr>ho_runs := [(''r'', \<lparr>hr_id = ''r'', hr_path = ''p'', hr_application = ''todo-web'', hr_services = [],
     hr_status = RUN_RUNNING, hr_error = None, hr_containers = [''a'', ''b''], hr_network = Some ''n'', hr_ports = [],
     hr_lease = None\<rparr>)]\<rparr>"

definition pair_status :: "app_run result \<times> hosting" where
  "pair_status = run_status_of pair_env ''r'' pair_state"

lemma pair_status_stopped: "case fst pair_status of Inl _ \<Rightarrow> False | Inr r \<Rightarrow> hr_id r = ''r'' \<and> hr_status r \<noteq> RUN_RUNNING"
  by code_simp

theorem status_forgets_containers_witness:
  "\<exists>ms. po_log (ho_project (snd (stop_application pair_env ''r'' (snd pair_status)))) = map inspecting ms"
proof -
  obtain q s1 where p: "pair_status = (q, s1)" by (rule prod.exhaust)
  obtain r where q: "q = Inr r" "hr_id r = ''r''" "hr_status r \<noteq> RUN_RUNNING"
    using pair_status_stopped unfolding p fst_conv by (cases q) (simp_all only: sum.case, blast)
  note s = p [unfolded q(1)] q(2,3)
  have "case dict_get (ho_runs pair_state) ''r'' of None \<Rightarrow> True | Some r0 \<Rightarrow> hr_id r0 = ''r''"
    "po_log (ho_project pair_state) = []" by (simp_all add: pair_state_def site_state_facts)
  with status_forgets_containers [OF s(1) [unfolded pair_status_def] s(2,3), of pair_env] show ?thesis
    by (simp only: s(1) snd_conv append_Nil) blast
qed

text \<open>
  A container whose \<open>docker run\<close> has not succeeded (it has run into its timeout, say, after the container was created)
  is never removed when the start is abandoned.
\<close>

definition late_docker :: docker where
  "late_docker n c = (site_docker 0 n c)\<lparr>cr_exit := (if detached c then 124 else 0)\<rparr>"

lemma unconfirmed_container_kept:
  "let log = po_log (ho_project (snd (start_application ((site_env 0)\<lparr>he_docker := late_docker\<rparr>) site_state))) in
     list_ex detached log \<and> list_all (\<lambda>c. take 2 c \<noteq> [''docker'', ''rm'']) log"
  by code_simp

end
