(* ===== verification/Planning.thy ===== *)
theory Planning
  imports Workflow
begin

text \<open>
  From a draft to a plan: \<^verbatim>\<open>app/process/definition.py\<close> (the stages of the delivery process),
  \<^verbatim>\<open>app/planner/draft.py\<close> and \<^verbatim>\<open>app/planner/context.py\<close> (what the planner proposes and what it sees),
  \<^verbatim>\<open>app/planner/dependency_policy.py\<close> (which dependencies the items get) and
  \<^verbatim>\<open>app/planner/validator.py\<close>. A set of the code that is only iterated is a list of its elements in the
  order they first occur.
\<close>

section \<open>The process\<close>

record stage =
  sg_id :: string
  sg_agent_id :: string
  sg_input_kinds :: "string list"
  sg_output_kind :: string
  sg_parallelizable :: bool
  sg_quality_gate :: "string option"

record process =
  pr_id :: string
  pr_name :: string
  pr_stages :: "stage list"
  pr_transitions :: "(string \<times> string) list"
  pr_limits :: "int \<times> int \<times> int"  \<comment> \<open>architecture depth, modules, implementation units\<close>

definition mk_stage :: "string \<Rightarrow> string \<Rightarrow> string list \<Rightarrow> string \<Rightarrow> bool \<Rightarrow> string option \<Rightarrow> stage" where
  "mk_stage i agent inputs output par gate = \<lparr>sg_id = i, sg_agent_id = agent, sg_input_kinds = inputs,
     sg_output_kind = output, sg_parallelizable = par, sg_quality_gate = gate\<rparr>"

definition check_process :: "process \<Rightarrow> err + unit" where
  "check_process pr = bindE (raises
     [(list_ex (\<lambda>s. blank (sg_id s) \<or> blank (sg_agent_id s) \<or> blank (sg_output_kind s)) (pr_stages pr), ValueError ''stage''),
      (list_ex (\<lambda>(a, b). blank a \<or> blank b) (pr_transitions pr), ValueError ''transition''),
      (case pr_limits pr of (depth, modules, units) \<Rightarrow> depth < 1 \<or> modules < 1 \<or> units < 1, ValueError ''limits''),
      (blank (pr_id pr) \<or> blank (pr_name pr), ValueError ''id''),
      (pr_stages pr = [], ValueError ''no stage''),
      (\<not> distinct (map sg_id (pr_stages pr)), ValueError ''duplicate stage''),
      (\<not> list_all (\<lambda>(a, b). a \<in> set (map sg_id (pr_stages pr)) \<and> b \<in> set (map sg_id (pr_stages pr))) (pr_transitions pr),
        ValueError ''unknown stage'')]) (\<lambda>_. Inr ())"

definition find_stage :: "process \<Rightarrow> string \<Rightarrow> stage option" where
  "find_stage pr i = List.find (\<lambda>s. sg_id s = i) (pr_stages pr)"

definition transition_allowed :: "process \<Rightarrow> string \<Rightarrow> string \<Rightarrow> bool" where
  "transition_allowed pr a b \<longleftrightarrow> list_ex (\<lambda>t. t = (a, b)) (pr_transitions pr)"

text \<open>The process of the registry; its display name is prose.\<close>

definition software_delivery :: process where
  "software_delivery = \<lparr>pr_id = ''software_delivery'', pr_name = ''software delivery'',
     pr_stages =
       [mk_stage ''requirement'' ''requirement_agent'' [] ''RequirementObject'' False None,
        mk_stage ''architecture_blueprint'' ''architecture_agent'' [''RequirementObject''] ''ArchitectureBlueprint'' False None,
        mk_stage ''architecture_module'' ''architecture_agent'' [''ArchitectureBlueprint''] ''ModuleDesign'' True None,
        mk_stage ''architecture_implementation'' ''architecture_agent'' [''ModuleDesign''] ''ImplementationDesign'' True None,
        mk_stage ''architecture_integration'' ''architecture_agent''
          [''ArchitectureBlueprint'', ''ModuleDesign'', ''ImplementationDesign''] ''ArchitectureDesignBundle'' False
          (Some ''architecture_quality''),
        mk_stage ''contract'' ''architecture_contract_agent'' [''ArchitectureDesignBundle''] ''ImplementationContract'' False None,
        mk_stage ''task'' ''task_agent'' [''RequirementObject'', ''ImplementationContract''] ''TaskObject'' False None,
        mk_stage ''environment'' ''bootstrap_agent'' [''ImplementationContract''] ''EnvironmentReport'' False None,
        mk_stage ''implementation'' ''code_agent''
          [''ImplementationContract'', ''TaskObject'', ''EnvironmentReport''] ''ChangeSet'' True None,
        mk_stage ''integration'' ''code_integration_agent'' [''ChangeSet''] ''WorkspaceSnapshot'' False None,
        mk_stage ''test'' ''test_agent'' [''WorkspaceSnapshot''] ''TestEvidence'' False None,
        mk_stage ''review'' ''review_agent'' [''RequirementObject'', ''WorkspaceSnapshot'', ''TestEvidence''] ''ReviewReport'' False None],
     pr_transitions =
       [(''requirement'', ''architecture_blueprint''), (''architecture_blueprint'', ''architecture_module''),
        (''architecture_module'', ''architecture_implementation''),
        (''architecture_implementation'', ''architecture_integration''), (''architecture_integration'', ''contract''),
        (''contract'', ''task''), (''task'', ''environment''), (''environment'', ''implementation''),
        (''implementation'', ''integration''), (''integration'', ''test''), (''test'', ''review'')],
     pr_limits = (3, 32, 512)\<rparr>"

section \<open>Drafts and what the planner sees\<close>

record planned_step =
  ps_ref :: string
  ps_agent_id :: string
  ps_objective :: string
  ps_stage_id :: "string option"
  ps_depends_on :: "string list"
  ps_acceptance_criteria :: "string list"
  ps_constraints :: "string list"
  ps_non_goals :: "string list"

record plan_draft =
  pd_steps :: "planned_step list"
  pd_template_hint_id :: "string option"
  pd_process_id :: "string option"
  pd_overrides :: "(string \<times> string) list"  \<comment> \<open>predecessor and successor agent\<close>

record available_agent =
  av_id :: string
  av_output_key :: string
  av_artifact_key :: "string option"

record node_hint =
  nh_agent_id :: string
  nh_depends_on :: "string list"

record template_hint =
  th_id :: string
  th_nodes :: "node_hint list"

record contract_snapshot =
  cs_exists :: bool
  cs_layers :: "string list"
  cs_required_test_types :: "string list"

record planning_context =
  pc_goal :: string
  pc_artifacts :: "(string \<times> bool) list"  \<comment> \<open>key, exists\<close>
  pc_agents :: "available_agent list"
  pc_templates :: "template_hint list"
  pc_implementation_files :: nat
  pc_contract :: contract_snapshot
  pc_default_template_id :: "string option"
  pc_source_templates :: "template list"

text \<open>\<open>_template_hint\<close>: the agents of a template and the agents they wait for.\<close>

definition hint_of_template :: "template \<Rightarrow> template_hint result" where
  "hint_of_template t = bindE (mapE (\<lambda>b.
     bindE (mapE (\<lambda>d. case List.find (\<lambda>n. bp_id n = d) (rev (tp_nodes t)) of
         None \<Rightarrow> Inl (KeyError d) | Some n \<Rightarrow> Inr (bp_agent_id n)) (bp_depends_on b)) (\<lambda>ds.
     Inr \<lparr>nh_agent_id = bp_agent_id b, nh_depends_on = ds\<rparr>)) (tp_nodes t)) (\<lambda>ns.
     Inr \<lparr>th_id = tp_id t, th_nodes = ns\<rparr>)"

text \<open>\<open>PlanningContext.build\<close> on what the registries and the stores answer.\<close>

definition build_context ::
  "string \<Rightarrow> available_agent list \<Rightarrow> template_registry \<Rightarrow> (string \<Rightarrow> bool result) \<Rightarrow> contract_snapshot \<Rightarrow> nat
   \<Rightarrow> planning_context result" where
  "build_context goal agents templates artifact_exists contract files =
     (if blank goal then Inl (ValueError ''goal'')
      else bindE (mapE (\<lambda>k. bindE (artifact_exists k) (\<lambda>b. Inr (k, b)))
             (dict_fromkeys (map (\<lambda>a. if falsy_opt (av_artifact_key a) then av_output_key a
                                       else or_empty (av_artifact_key a)) agents))) (\<lambda>artifacts.
           bindE (mapE hint_of_template (active_templates templates)) (\<lambda>hints.
           bindE (default_template templates) (\<lambda>d.
           Inr \<lparr>pc_goal = py_strip goal, pc_artifacts = artifacts, pc_agents = agents, pc_templates = hints,
                pc_implementation_files = files, pc_contract = contract,
                pc_default_template_id = map_option tp_id d,
                pc_source_templates = all_templates templates True\<rparr>))))"

definition template_source :: "planning_context \<Rightarrow> string option \<Rightarrow> template option" where
  "template_source c i = (case i of None \<Rightarrow> None
     | Some k \<Rightarrow> List.find (\<lambda>t. tp_id t = k) (pc_source_templates c))"

section \<open>The dependency policy\<close>

text \<open>The dependencies of every item, by the item they name.\<close>

type_synonym dependency_table = "(string, (string, dependency) dict) dict"

definition table_at :: "dependency_table \<Rightarrow> string \<Rightarrow> (string, dependency) dict result" where
  "table_at ds i = (case dict_get ds i of None \<Rightarrow> Inl (KeyError i) | Some d \<Rightarrow> Inr d)"

definition add_dependency ::
  "bool \<Rightarrow> string \<Rightarrow> dependency \<Rightarrow> dependency_table \<Rightarrow> dependency_table result" where
  "add_dependency overwrite target d ds =
     (if overwrite then bindE (table_at ds target) (\<lambda>own.
        Inr (dict_put target (dict_put (dep_work_item_id d) d own) ds))
      else bindE (table_at ds target) (\<lambda>own.
        if dict_get own (dep_work_item_id d) = None
        then Inr (dict_put target (dict_put (dep_work_item_id d) d own) ds) else Inr ds))"

definition add_single ::
  "string \<Rightarrow> dependency_source \<Rightarrow> string \<Rightarrow> bool \<Rightarrow> dependency_table \<Rightarrow> string \<Rightarrow> dependency_table result" where
  "add_single target source rule overwrite ds i =
     bindE (mk_dependency \<lparr>dep_work_item_id = i, dep_source = source, dep_rule_id = Some rule\<rparr>) (\<lambda>d.
     add_dependency overwrite target d ds)"

definition add_planner_dependencies ::
  "(string, string) dict \<Rightarrow> planned_step \<Rightarrow> dependency_table \<Rightarrow> dependency_table result" where
  "add_planner_dependencies by_ref st ds = bindE (id_at by_ref (ps_ref st)) (\<lambda>target.
     foldE (\<lambda>r ds. bindE (id_at by_ref r) (\<lambda>i.
       add_single target PLANNER (''planner:'' @ r @ ''->'' @ ps_ref st) False ds i)) (ps_depends_on st) ds)"

text \<open>
  One rule names one item: the only candidate, or the only candidate the target already depends on
  or names in its own references.
\<close>

definition explicit_ids ::
  "(string, string) dict \<Rightarrow> string list \<Rightarrow> string list \<Rightarrow> string \<Rightarrow> dependency_table \<Rightarrow> string list result" where
  "explicit_ids by_ref refs candidates target ds =
     bindE (mapE (id_at by_ref) refs) (\<lambda>named.
     bindE (table_at ds target) (\<lambda>own.
     Inr (dict_fromkeys (filter (\<lambda>i. i \<in> set candidates) (named @ dict_keys own)))))"

definition add_unambiguous ::
  "(string, string) dict \<Rightarrow> string \<Rightarrow> string list \<Rightarrow> string list \<Rightarrow> dependency_source \<Rightarrow> string \<Rightarrow> bool
   \<Rightarrow> dependency_table \<Rightarrow> dependency_table result" where
  "add_unambiguous by_ref target candidates refs source rule overwrite ds =
     (case candidates of
        [i] \<Rightarrow> add_single target source rule overwrite ds i
      | _ \<Rightarrow> bindE (explicit_ids by_ref refs candidates target ds) (\<lambda>named.
          case named of
            [i] \<Rightarrow> add_single target source rule overwrite ds i
          | _ \<Rightarrow> Inl (PlanValidationError ''ambiguous dependency'')))"

definition template_edges :: "template_hint \<Rightarrow> (string \<times> string) list" where
  "template_edges t = concat (map (\<lambda>n. map (\<lambda>p. (p, nh_agent_id n)) (nh_depends_on n)) (th_nodes t))"

definition validate_overrides :: "(string \<times> string) list \<Rightarrow> template_hint \<Rightarrow> string list \<Rightarrow> err + unit" where
  "validate_overrides overrides t selected = for_each (\<lambda>(a, b). raises
     [((a, b) \<notin> set (template_edges t), PlanValidationError ''unknown override''),
      (a \<notin> set selected \<or> b \<notin> set selected, PlanValidationError ''override of an agent not selected'')])
     (dict_fromkeys overrides)"

definition add_template_dependencies ::
  "template_hint \<Rightarrow> (string \<times> string) list \<Rightarrow> (string, string list) dict \<Rightarrow> (string, string) dict \<Rightarrow> planned_step
   \<Rightarrow> dependency_table \<Rightarrow> dependency_table result" where
  "add_template_dependencies t overrides by_agent by_ref st ds =
     (case List.find (\<lambda>n. nh_agent_id n = ps_agent_id st) (th_nodes t) of
        None \<Rightarrow> Inr ds
      | Some n \<Rightarrow> foldE (\<lambda>p ds.
          (case dict_get by_agent p of
             None \<Rightarrow> Inr ds
           | Some ids \<Rightarrow>
               if ids = [] then Inr ds
               else if (p, ps_agent_id st) \<in> set overrides then Inr ds
               else bindE (id_at by_ref (ps_ref st)) (\<lambda>target.
                 add_unambiguous by_ref target ids (ps_depends_on st) TEMPLATE
                   (''template:'' @ th_id t @ '':'' @ p @ ''->'' @ ps_agent_id st) False ds))) (nh_depends_on n) ds)"

definition require_agent :: "string list \<Rightarrow> string \<Rightarrow> err + unit" where
  "require_agent selected p =
     (if p \<notin> set selected then Inl (PlanValidationError ''predecessor not selected'') else Inr ())"

definition ids_of_agent :: "(string, string list) dict \<Rightarrow> string \<Rightarrow> string list result" where
  "ids_of_agent by_agent a = (case dict_get by_agent a of None \<Rightarrow> Inl (KeyError a) | Some ids \<Rightarrow> Inr ids)"

text \<open>A rule: the agent that waits, the agent it waits for, and the identifier recorded.\<close>

definition apply_rule ::
  "(string, string list) dict \<Rightarrow> (string, string) dict \<Rightarrow> string \<times> string \<times> string
   \<Rightarrow> dependency_table \<Rightarrow> dependency_table result" where
  "apply_rule by_agent by_ref rl ds = (case rl of (successor, predecessor, rule) \<Rightarrow>
     if successor \<notin> set (dict_keys by_agent) then Inr ds
     else bindE (require_agent (dict_keys by_agent) predecessor) (\<lambda>_.
       bindE (ids_of_agent by_agent successor) (\<lambda>targets.
       bindE (ids_of_agent by_agent predecessor) (\<lambda>ids.
       foldE (\<lambda>target ds. add_unambiguous by_ref target ids [] SYSTEM rule True ds) targets ds))))"

definition system_rules :: "planning_context \<Rightarrow> (string \<times> string \<times> string) list" where
  "system_rules c =
     (if pc_implementation_files c = 0 then
        [(''test_agent'', ''code_agent'', ''test_requires_code''),
         (''review_agent'', ''code_agent'', ''review_requires_code''),
         (''review_agent'', ''test_agent'', ''review_requires_test'')] else [])
     @ (if (case List.find (\<lambda>(k, _). k = ''environment'') (pc_artifacts c) of None \<Rightarrow> False | Some (_, b) \<Rightarrow> b) then []
        else [(''code_agent'', ''bootstrap_agent'', ''code_requires_bootstrap''),
              (''test_agent'', ''bootstrap_agent'', ''test_requires_bootstrap'')])"

definition template_for :: "plan_draft \<Rightarrow> planning_context \<Rightarrow> template_hint option result" where
  "template_for dr c = (case pd_template_hint_id dr of
      None \<Rightarrow> Inr None
    | Some i \<Rightarrow> (case List.find (\<lambda>t. th_id t = i) (pc_templates c) of
        None \<Rightarrow> Inl (StopIteration ''template'') | Some t \<Rightarrow> Inr (Some t)))"

definition resolve_dependencies ::
  "plan_draft \<Rightarrow> planning_context \<Rightarrow> (string, string list) dict \<Rightarrow> (string, string) dict
   \<Rightarrow> (string \<times> dependency list) list result" where
  "resolve_dependencies dr c by_agent by_ref =
     bindE (foldE (add_planner_dependencies by_ref) (pd_steps dr)
       (dict_of (map (\<lambda>i. (i, [])) (concat (map snd by_agent))))) (\<lambda>ds1.
     bindE (template_for dr c) (\<lambda>th.
     bindE (case th of
         None \<Rightarrow> Inr ds1
       | Some t \<Rightarrow> bindE (validate_overrides (pd_overrides dr) t (dict_keys by_agent)) (\<lambda>_.
           foldE (add_template_dependencies t (pd_overrides dr) by_agent by_ref) (pd_steps dr) ds1)) (\<lambda>ds2.
     bindE (foldE (apply_rule by_agent by_ref) (system_rules c) ds2) (\<lambda>ds3.
     Inr (map (\<lambda>(i, own). (i, map snd own)) ds3)))))"

section \<open>The validator\<close>

text \<open>\<open>_duplicates\<close>: the values seen before, each once.\<close>

fun duplicates_from :: "string list \<Rightarrow> string list \<Rightarrow> string list \<Rightarrow> string list" where
  "duplicates_from seen found [] = found"
| "duplicates_from seen found (v # vs) =
     duplicates_from (v # seen) (if v \<in> set seen \<and> v \<notin> set found then found @ [v] else found) vs"

definition duplicates :: "string list \<Rightarrow> string list" where
  "duplicates vs = duplicates_from [] [] vs"

definition baseline_keys :: "string list" where
  "baseline_keys = [''requirement'', ''architecture'', ''tasks'', ''environment'']"

definition missing_baseline :: "planning_context \<Rightarrow> string list" where
  "missing_baseline c = map fst (filter (\<lambda>(k, b). k \<in> set baseline_keys \<and> \<not> b) (pc_artifacts c))"

text \<open>The goal's vocabulary (partly not ASCII) is the predicate \<open>asks\<close>.\<close>

definition preflight_controlled_template :: "(string \<Rightarrow> bool) \<Rightarrow> planning_context \<Rightarrow> string option" where
  "preflight_controlled_template asks c =
     (if pc_implementation_files c \<noteq> 0 then None
      else if missing_baseline c = [] \<or> \<not> asks (pc_goal c) then None
      else (case template_source c (pc_default_template_id c) of
          Some t \<Rightarrow> if has_controlled_execution t then Some (tp_id t) else None
        | None \<Rightarrow> None))"

definition requires_full_delivery :: "plan_draft \<Rightarrow> planning_context \<Rightarrow> bool" where
  "requires_full_delivery dr c \<longleftrightarrow>
     pc_implementation_files c = 0
     \<and> list_ex (\<lambda>s. ps_agent_id s = ''test_agent'' \<or> ps_agent_id s = ''review_agent'') (pd_steps dr)
     \<and> missing_baseline c \<noteq> []
     \<and> \<not> list_ex (\<lambda>s. ps_stage_id s = Some ''architecture_blueprint'') (pd_steps dr)
     \<and> pc_default_template_id c \<noteq> None"

definition check_stage :: "process \<Rightarrow> planned_step \<Rightarrow> err + unit" where
  "check_stage pr s =
     (if falsy_opt (ps_stage_id s) then Inr ()
      else (case find_stage pr (or_empty (ps_stage_id s)) of
          None \<Rightarrow> Inl (PlanValidationError ''unknown stage'')
        | Some g \<Rightarrow> raises
            [(sg_agent_id g \<noteq> ps_agent_id s, PlanValidationError ''agent of the stage''),
             (ps_stage_id s = Some ''architecture_module'' \<or> ps_stage_id s = Some ''architecture_implementation'',
               PlanValidationError ''dynamic stage'')]))"

definition check_step_dependencies :: "string list \<Rightarrow> planned_step \<Rightarrow> err + unit" where
  "check_step_dependencies refs s = raises
     [(duplicates (ps_depends_on s) \<noteq> [], PlanValidationError ''duplicate dependency''),
      (ps_ref s \<in> set (ps_depends_on s), PlanValidationError ''self dependency''),
      (\<not> set (ps_depends_on s) \<subseteq> set refs, PlanValidationError ''unknown ref'')]"

definition stage_mode :: "string option \<Rightarrow> execution_mode" where
  "stage_mode s = (if s = Some ''architecture_blueprint'' then PARTITIONED
     else if s = Some ''architecture_integration'' \<or> s = Some ''contract'' then INTEGRATION else EXCLUSIVE)"

definition stage_output_kind :: "string option \<Rightarrow> string option" where
  "stage_output_kind s =
     (if s = Some ''architecture_blueprint'' then Some ''ArchitectureBlueprint''
      else if s = Some ''architecture_integration'' then Some ''ArchitectureDesignBundle''
      else if s = Some ''contract'' then Some ''ImplementationContract'' else None)"

definition stage_target :: "string option \<Rightarrow> string option" where
  "stage_target s = (if s = Some ''architecture_integration'' then Some ''architecture''
     else if s = Some ''contract'' then Some ''architecture_contract'' else None)"

definition agent_output_key :: "planning_context \<Rightarrow> string \<Rightarrow> string result" where
  "agent_output_key c a = (case List.find (\<lambda>v. av_id v = a) (rev (pc_agents c)) of
      None \<Rightarrow> Inl (KeyError a) | Some v \<Rightarrow> Inr (av_output_key v))"

definition result_key :: "nat \<Rightarrow> string \<Rightarrow> bool \<Rightarrow> string" where
  "result_key index base repeated = (if \<not> repeated then base else base @ ''_'' @ pad2 index)"

definition step_ids :: "planning_context \<Rightarrow> planned_step list \<Rightarrow> (string, string) dict result" where
  "step_ids c steps = bindE (mapE (\<lambda>(n, s). bindE (agent_output_key c (ps_agent_id s)) (\<lambda>k.
     Inr (ps_ref s, node_item_id (n + 1) k))) (enumerate 0 steps)) (\<lambda>kvs. Inr (dict_of kvs))"

definition ids_by_agent :: "(string, string) dict \<Rightarrow> planned_step list \<Rightarrow> (string, string list) dict result" where
  "ids_by_agent by_ref steps = mapE (\<lambda>a. bindE (mapE (\<lambda>s. id_at by_ref (ps_ref s))
     (filter (\<lambda>s. ps_agent_id s = a) steps)) (\<lambda>ids. Inr (a, ids))) (dict_fromkeys (map ps_agent_id steps))"

text \<open>
  \<open>note\<close> is the sentence that states the layers and the test coverage of the project contract.
  The agents of the steps are counted to see which result keys need a number.
\<close>

definition step_item ::
  "(string \<Rightarrow> string) \<Rightarrow> (string list \<Rightarrow> string list \<Rightarrow> string) \<Rightarrow> planning_context \<Rightarrow> planned_step list
   \<Rightarrow> (string, string) dict \<Rightarrow> (string \<times> dependency list) list \<Rightarrow> nat \<times> planned_step \<Rightarrow> work_item result" where
  "step_item sha note c steps by_ref deps ns = (case ns of (n, s) \<Rightarrow>
     bindE (id_at by_ref (ps_ref s)) (\<lambda>i.
     bindE (agent_output_key c (ps_agent_id s)) (\<lambda>key.
     bindE (case dict_get deps i of None \<Rightarrow> Inl (KeyError i) | Some ds \<Rightarrow> Inr ds) (\<lambda>ds.
     bindE (if ps_stage_id s = Some ''architecture_blueprint''
            then bindE (ref_published ''requirement'' None) (\<lambda>r. Inr [r]) else Inr []) (\<lambda>refs.
     mk_work_item sha ((blank_work_item i (ps_agent_id s) (ps_objective s)
         (result_key (n + 1) key (length (filter (\<lambda>t. ps_agent_id t = ps_agent_id s) steps) > 1)))
       \<lparr>wi_artifact_key := Some key, wi_dependencies := ds,
        wi_acceptance_criteria := ps_acceptance_criteria s,
        wi_constraints := dict_fromkeys (ps_constraints s @
          (if cs_exists (pc_contract c)
           then [note (cs_layers (pc_contract c)) (cs_required_test_types (pc_contract c))] else [])),
        wi_non_goals := ps_non_goals s, wi_stage_id := ps_stage_id s,
        wi_execution_mode := stage_mode (ps_stage_id s),
        wi_slot := (if ps_stage_id s = Some ''architecture_blueprint'' then Some ''blueprint'' else None),
        wi_publish_target := stage_target (ps_stage_id s),
        wi_output_kind := stage_output_kind (ps_stage_id s), wi_input_refs := refs\<rparr>))))))"

definition as_plan_error :: "'a result \<Rightarrow> 'a result" where
  "as_plan_error r = (case r of Inl (ValueError m) \<Rightarrow> Inl (PlanValidationError m) | _ \<Rightarrow> r)"

definition compile_draft ::
  "(string \<Rightarrow> string) \<Rightarrow> (string list \<Rightarrow> string list \<Rightarrow> string) \<Rightarrow> planning_context \<Rightarrow> string \<Rightarrow> trace_context
   \<Rightarrow> process \<Rightarrow> plan_draft \<Rightarrow> plan result" where
  "compile_draft sha note c plan_id trace pr dr =
     (let steps = pd_steps dr in
      if steps = [] then Inl (PlanValidationError ''no step'')
      else bindE (for_each (check_step_dependencies (map ps_ref steps)) steps) (\<lambda>_.
        bindE (step_ids c steps) (\<lambda>by_ref.
        bindE (ids_by_agent by_ref steps) (\<lambda>by_agent.
        bindE (resolve_dependencies dr c by_agent by_ref) (\<lambda>deps.
        bindE (mapE (step_item sha note c steps by_ref deps) (enumerate 0 steps)) (\<lambda>items.
        as_plan_error (mk_plan \<lparr>pl_id = plan_id, pl_goal = pc_goal c, pl_work_items = items,
          pl_template_id = pd_template_hint_id dr, pl_process_id = pr_id pr, pl_trace = trace,
          pl_validation_scope = ''full_delivery''\<rparr>)))))))"

definition validate_draft ::
  "(string \<Rightarrow> string) \<Rightarrow> (string list \<Rightarrow> string list \<Rightarrow> string) \<Rightarrow> planning_context \<Rightarrow> string \<Rightarrow> trace_context
   \<Rightarrow> plan_draft \<Rightarrow> plan result" where
  "validate_draft sha note c plan_id trace dr =
     (let steps = pd_steps dr;
          process_id = (if falsy_opt (pd_process_id dr) then ''software_delivery'' else or_empty (pd_process_id dr));
          t = template_source c (pd_template_hint_id dr) in
      bindE (raises
        [(duplicates (map ps_ref steps) \<noteq> [], PlanValidationError ''duplicate ref''),
         (\<not> set (map ps_agent_id steps) \<subseteq> set (map av_id (pc_agents c)), PlanValidationError ''unknown agent''),
         (case pd_template_hint_id dr of None \<Rightarrow> False | Some i \<Rightarrow> i \<notin> set (map th_id (pc_templates c)),
           PlanValidationError ''unknown template''),
         (process_id \<noteq> ''software_delivery'', PlanValidationError ''unknown process'')]) (\<lambda>_.
      bindE (for_each (check_stage software_delivery) steps) (\<lambda>_.
      bindE (raises
        [(requires_full_delivery dr c \<and> pd_template_hint_id dr \<notin> Some ` {''project_delivery'',
            ''project_delivery_dynamic'', ''project_delivery_layered''}, PlanValidationError ''controlled template required''),
         (''task_agent'' \<in> set (map ps_agent_id steps)
            \<and> (case t of None \<Rightarrow> True | Some u \<Rightarrow> \<not> has_controlled_execution u),
           PlanValidationError ''task_agent outside a controlled template'')]) (\<lambda>_.
      case t of
        Some u \<Rightarrow>
          if has_controlled_execution u
          then bindE (as_plan_error (compile_template sha u (pc_goal c) plan_id trace
                 (dict_of (map (\<lambda>v. (av_id v, av_output_key v)) (pc_agents c))))) (\<lambda>p.
               if pl_process_id p \<noteq> ''software_delivery'' then Inl (PlanValidationError ''process of the template'')
               else Inr p)
          else compile_draft sha note c plan_id trace software_delivery dr
      | None \<Rightarrow> compile_draft sha note c plan_id trace software_delivery dr))))"

end
