(* ===== verification/Planning_Laws.thy ===== *)
theory Planning_Laws
  imports Planning Run_Laws
begin

text \<open>
  What the dependency policy promises: every dependency it records is justified by the draft, by the
  template or by a rule of the system, no declared one is lost, and the rules cannot be removed; and what
  a plan accepted from a draft may do.
\<close>

section \<open>Entries of the table\<close>

definition entry :: "dependency_table \<Rightarrow> string \<Rightarrow> string \<Rightarrow> dependency option" where
  "entry ds t i = Option.bind (dict_get ds t) (\<lambda>own. dict_get own i)"

definition new_entry :: "dependency_source \<Rightarrow> string \<Rightarrow> string \<Rightarrow> dependency" where
  "new_entry source rule i = \<lparr>dep_work_item_id = i, dep_source = source, dep_rule_id = Some rule\<rparr>"

definition table_inv :: "(string \<Rightarrow> dependency \<Rightarrow> bool) \<Rightarrow> dependency_table \<Rightarrow> bool" where
  "table_inv J ds \<longleftrightarrow> (\<forall>t own. dict_get ds t = Some own \<longrightarrow> distinct (dict_keys own)
     \<and> (\<forall>i d. dict_get own i = Some d \<longrightarrow> dep_work_item_id d = i \<and> J t d))"

lemma add_single_cases:
  assumes "add_single t source rule ow ds i = Inr ds'"
  obtains own where "dict_get ds t = Some own"
    "ds' = (if ow \<or> dict_get own i = None then dict_put t (dict_put i (new_entry source rule i) own) ds else ds)"
  using assms by (auto simp: add_single_def mk_dependency_def add_dependency_def table_at_def new_entry_def
      split: option.splits if_splits)

lemma add_single_entry:
  assumes "add_single t source rule ow ds i = Inr ds'"
  shows "entry ds' t' i' = (if t' = t \<and> i' = i \<and> (ow \<or> entry ds t i = None)
    then Some (new_entry source rule i) else entry ds t' i')"
  using assms by (rule add_single_cases) (auto simp: entry_def dict.get_put)

lemma add_single_inv:
  assumes "add_single t source rule ow ds i = Inr ds'" "table_inv J ds" "J t (new_entry source rule i)"
  shows "table_inv J ds'"
proof (rule add_single_cases [OF assms(1)])
  fix own assume own: "dict_get ds t = Some own"
    "ds' = (if ow \<or> dict_get own i = None then dict_put t (dict_put i (new_entry source rule i) own) ds else ds)"
  then have "distinct (dict_keys own)" "\<And>j d. dict_get own j = Some d \<Longrightarrow> dep_work_item_id d = j \<and> J t d"
    using assms(2) by (auto simp: table_inv_def)
  then show ?thesis using assms(2,3) unfolding own(2)
    by (auto simp: table_inv_def dict.get_put distinct_dict_put new_entry_def split: if_splits)
qed

lemma add_unambiguous_many:
  "length candidates \<noteq> 1 \<Longrightarrow> add_unambiguous by_ref t candidates refs source rule ow ds =
     bindE (explicit_ids by_ref refs candidates t ds) (\<lambda>named. case named of
       [i] \<Rightarrow> add_single t source rule ow ds i | _ \<Rightarrow> Inl (PlanValidationError ''ambiguous dependency''))"
  by (cases candidates; cases "tl candidates") (simp_all add: add_unambiguous_def)

lemma add_unambiguous_single:
  assumes "add_unambiguous by_ref t candidates refs source rule ow ds = Inr ds'"
  obtains i where "i \<in> set candidates" "add_single t source rule ow ds i = Inr ds'"
proof (cases "length candidates = 1")
  case True
  then obtain i where "candidates = [i]" by (auto simp: length_Suc_conv)
  then show thesis using that assms by (simp add: add_unambiguous_def)
next
  case False
  then obtain named where n: "explicit_ids by_ref refs candidates t ds = Inr named"
    and k: "(case named of [i] \<Rightarrow> add_single t source rule ow ds i
      | _ \<Rightarrow> Inl (PlanValidationError ''ambiguous dependency'')) = Inr ds'"
    using assms by (auto simp: add_unambiguous_many)
  have "set named \<subseteq> set candidates" using n by (auto simp: explicit_ids_def)
  then show thesis using k that by (auto split: list.splits)
qed

section \<open>What a step keeps\<close>

text \<open>A fold of steps each of which is an \<open>add_single\<close>: entries are only added, and stay justified.\<close>

definition grows :: "dependency_table \<Rightarrow> dependency_table \<Rightarrow> bool" where
  "grows ds ds' \<longleftrightarrow> (\<forall>t i. entry ds t i \<noteq> None \<longrightarrow> entry ds' t i \<noteq> None)"

lemma grows_refl [simp]: "grows ds ds"
  by (simp add: grows_def)

lemma grows_trans: "grows a b \<Longrightarrow> grows b c \<Longrightarrow> grows a c"
  by (simp add: grows_def)

lemma add_single_grows: "add_single t source rule ow ds i = Inr ds' \<Longrightarrow> grows ds ds'"
  by (simp add: grows_def add_single_entry)

lemma add_single_present: "add_single t source rule ow ds i = Inr ds' \<Longrightarrow> entry ds' t i \<noteq> None"
  by (simp add: add_single_entry)

lemma foldE_grows:
  assumes "foldE f xs ds = Inr ds'" "\<And>x s t. x \<in> set xs \<Longrightarrow> f x s = Inr t \<Longrightarrow> grows s t"
  shows "grows ds ds'"
  using foldE_invariant [OF assms(1), of "grows ds"] assms(2) grows_trans by (metis grows_refl)

lemma foldE_present:
  assumes "foldE f xs ds = Inr ds'" "x \<in> set xs"
    and "\<And>s u. f x s = Inr u \<Longrightarrow> entry u t i \<noteq> None" and "\<And>y s u. y \<in> set xs \<Longrightarrow> f y s = Inr u \<Longrightarrow> grows s u"
  shows "entry ds' t i \<noteq> None"
proof (rule foldE_establishes [where P = "\<lambda>ds. entry ds t i \<noteq> None", OF assms(1,2)])
  show "entry u t i \<noteq> None" if "f x s = Inr u" for s u using that by (rule assms(3))
  show "entry u t i \<noteq> None" if "y \<in> set xs" "f y s = Inr u" "entry s t i \<noteq> None" for y s u
    using assms(4) [OF that(1,2)] that(3) unfolding grows_def by blast
qed

section \<open>The policy\<close>

text \<open>Why a dependency may be recorded.\<close>

definition declared :: "plan_draft \<Rightarrow> (string, string) dict \<Rightarrow> string \<Rightarrow> dependency \<Rightarrow> bool" where
  "declared dr by_ref t d \<longleftrightarrow> dep_source d = PLANNER \<and> (\<exists>s \<in> set (pd_steps dr). \<exists>r \<in> set (ps_depends_on s).
     dict_get by_ref (ps_ref s) = Some t \<and> dict_get by_ref r = Some (dep_work_item_id d))"

definition suggested ::
  "plan_draft \<Rightarrow> planning_context \<Rightarrow> (string, string list) dict \<Rightarrow> (string, string) dict \<Rightarrow> string \<Rightarrow> dependency \<Rightarrow> bool" where
  "suggested dr c by_agent by_ref t d \<longleftrightarrow> dep_source d = TEMPLATE \<and> (\<exists>th s p ids. template_for dr c = Inr (Some th)
     \<and> s \<in> set (pd_steps dr) \<and> (p, ps_agent_id s) \<in> set (template_edges th)
     \<and> (p, ps_agent_id s) \<notin> set (pd_overrides dr) \<and> dict_get by_ref (ps_ref s) = Some t
     \<and> dict_get by_agent p = Some ids \<and> dep_work_item_id d \<in> set ids)"

definition imposed ::
  "planning_context \<Rightarrow> (string, string list) dict \<Rightarrow> string \<Rightarrow> dependency \<Rightarrow> bool" where
  "imposed c by_agent t d \<longleftrightarrow> dep_source d = SYSTEM \<and> (\<exists>a p rule ts ids. (a, p, rule) \<in> set (system_rules c)
     \<and> dep_rule_id d = Some rule \<and> dict_get by_agent a = Some ts \<and> t \<in> set ts
     \<and> dict_get by_agent p = Some ids \<and> dep_work_item_id d \<in> set ids)"

lemma id_at_Inr [simp]: "id_at ids i = Inr w \<longleftrightarrow> dict_get ids i = Some w"
  by (auto simp: id_at_def split: option.splits)

lemma ids_of_agent_Inr [simp]: "ids_of_agent by_agent a = Inr ids \<longleftrightarrow> dict_get by_agent a = Some ids"
  by (auto simp: ids_of_agent_def split: option.splits)

lemma new_entry_sel [simp]:
  "dep_work_item_id (new_entry source rule i) = i" "dep_source (new_entry source rule i) = source"
  "dep_rule_id (new_entry source rule i) = Some rule"
  by (simp_all add: new_entry_def)

lemma planner_step:
  assumes "add_planner_dependencies by_ref s ds = Inr ds'" "s \<in> set (pd_steps dr)"
  shows "(table_inv (\<lambda>t d. declared dr by_ref t d \<or> Q t d) ds \<longrightarrow> table_inv (\<lambda>t d. declared dr by_ref t d \<or> Q t d) ds')
    \<and> grows ds ds'
    \<and> (\<forall>t r i. r \<in> set (ps_depends_on s) \<longrightarrow> dict_get by_ref (ps_ref s) = Some t \<longrightarrow> dict_get by_ref r = Some i \<longrightarrow>
         entry ds' t i \<noteq> None)"
proof -
  let ?J = "\<lambda>t d. declared dr by_ref t d \<or> Q t d"
  obtain t where t: "dict_get by_ref (ps_ref s) = Some t"
    and f: "foldE (\<lambda>r ds. bindE (id_at by_ref r) (\<lambda>i.
       add_single t PLANNER (''planner:'' @ r @ ''->'' @ ps_ref s) False ds i)) (ps_depends_on s) ds = Inr ds'"
    using assms(1) by (auto simp: add_planner_dependencies_def)
  have "table_inv ?J ds'" if "table_inv ?J ds"
  proof (rule foldE_invariant [where P = "table_inv ?J", OF f that])
    fix r u v assume r: "r \<in> set (ps_depends_on s)" "table_inv ?J u"
      "bindE (id_at by_ref r) (\<lambda>i. add_single t PLANNER (''planner:'' @ r @ ''->'' @ ps_ref s) False u i) = Inr v"
    then show "table_inv ?J v"
      using t assms(2) by (fastforce simp: declared_def intro: add_single_inv)
  qed
  moreover have "grows ds ds'"
    by (rule foldE_grows [OF f]) (auto dest: add_single_grows)
  moreover have "entry ds' t i \<noteq> None" if "r \<in> set (ps_depends_on s)" "dict_get by_ref r = Some i" for r i
  proof (rule foldE_present [OF f that(1)])
    show "entry v t i \<noteq> None"
      if "bindE (id_at by_ref r) (\<lambda>i. add_single t PLANNER (''planner:'' @ r @ ''->'' @ ps_ref s) False u i) = Inr v" for u v
      using that \<open>dict_get by_ref r = Some i\<close> by (auto dest: add_single_present simp del: not_None_eq)
  qed (auto dest: add_single_grows)
  ultimately show ?thesis using t by auto
qed

lemma template_step:
  assumes "add_template_dependencies th (pd_overrides dr) by_agent by_ref s ds = Inr ds'"
    and "s \<in> set (pd_steps dr)" "template_for dr c = Inr (Some th)"
  shows "(table_inv (\<lambda>t d. suggested dr c by_agent by_ref t d \<or> Q t d) ds \<longrightarrow>
      table_inv (\<lambda>t d. suggested dr c by_agent by_ref t d \<or> Q t d) ds') \<and> grows ds ds'"
proof (cases "List.find (\<lambda>n. nh_agent_id n = ps_agent_id s) (th_nodes th)")
  case None
  then show ?thesis using assms(1) by (simp add: add_template_dependencies_def)
next
  case (Some n)
  let ?J = "\<lambda>t d. suggested dr c by_agent by_ref t d \<or> Q t d"
  have n: "n \<in> set (th_nodes th)" "nh_agent_id n = ps_agent_id s" using find_Some_in [OF Some] by auto
  from assms(1) Some have f: "foldE (\<lambda>p ds.
      (case dict_get by_agent p of
         None \<Rightarrow> Inr ds
       | Some ids \<Rightarrow>
           if ids = [] then Inr ds
           else if (p, ps_agent_id s) \<in> set (pd_overrides dr) then Inr ds
           else bindE (id_at by_ref (ps_ref s)) (\<lambda>target.
             add_unambiguous by_ref target ids (ps_depends_on s) TEMPLATE
               (''template:'' @ th_id th @ '':'' @ p @ ''->'' @ ps_agent_id s) False ds))) (nh_depends_on n) ds = Inr ds'"
    (is "foldE ?f _ _ = _") by (simp add: add_template_dependencies_def)
  have step: "(table_inv ?J u \<longrightarrow> table_inv ?J v) \<and> grows u v" if p: "p \<in> set (nh_depends_on n)" "?f p u = Inr v" for p u v
  proof -
    consider "u = v" | ids t where "dict_get by_agent p = Some ids" "(p, ps_agent_id s) \<notin> set (pd_overrides dr)"
        "dict_get by_ref (ps_ref s) = Some t"
        "add_unambiguous by_ref t ids (ps_depends_on s) TEMPLATE
           (''template:'' @ th_id th @ '':'' @ p @ ''->'' @ ps_agent_id s) False u = Inr v"
      using p(2) by (auto split: option.splits if_splits)
    then show ?thesis
    proof cases
      case (2 ids t)
      have e: "(p, ps_agent_id s) \<in> set (template_edges th)" using n(1) p(1) unfolding template_edges_def n(2) [symmetric] by auto
      from 2(4) obtain i where i: "i \<in> set ids"
        "add_single t TEMPLATE (''template:'' @ th_id th @ '':'' @ p @ ''->'' @ ps_agent_id s) False u i = Inr v"
        by (rule add_unambiguous_single)
      have "suggested dr c by_agent by_ref t (new_entry TEMPLATE (''template:'' @ th_id th @ '':'' @ p @ ''->'' @ ps_agent_id s) i)"
        unfolding suggested_def using assms(2,3) e 2(1-3) i(1) by auto
      then show ?thesis using add_single_inv [OF i(2)] add_single_grows [OF i(2)] by auto
    qed auto
  qed
  have "table_inv ?J ds'" if "table_inv ?J ds"
    by (rule foldE_invariant [where P = "table_inv ?J", OF f that]) (use step in blast)
  moreover have "grows ds ds'" by (rule foldE_grows [OF f]) (use step in blast)
  ultimately show ?thesis by blast
qed

text \<open>A rule of the system, applied to all items of the waiting agent.\<close>

definition ruled :: "dependency_table \<Rightarrow> string \<Rightarrow> string list \<Rightarrow> bool" where
  "ruled ds t ids \<longleftrightarrow> (\<exists>i d. i \<in> set ids \<and> entry ds t i = Some d \<and> dep_source d = SYSTEM)"

lemma rule_step:
  assumes "apply_rule by_agent by_ref rl ds = Inr ds'" "rl \<in> set (system_rules c)"
  shows "(table_inv (\<lambda>t d. imposed c by_agent t d \<or> Q t d) ds \<longrightarrow>
      table_inv (\<lambda>t d. imposed c by_agent t d \<or> Q t d) ds') \<and> grows ds ds'
    \<and> (\<forall>t ids. ruled ds t ids \<longrightarrow> ruled ds' t ids)
    \<and> (\<forall>a p rule ts t. rl = (a, p, rule) \<longrightarrow> dict_get by_agent a = Some ts \<longrightarrow> t \<in> set ts \<longrightarrow>
         (\<exists>ids. dict_get by_agent p = Some ids \<and> ruled ds' t ids))"
proof -
  obtain a p rule where rl: "rl = (a, p, rule)" by (cases rl)
  show ?thesis
  proof (cases "a \<in> set (dict_keys by_agent)")
    case False
    then have "dict_get by_agent a = None" by (simp add: map_of_eq_None_iff)
    then show ?thesis using False assms(1) rl by (simp add: apply_rule_def)
  next
    case True
    let ?J = "\<lambda>t d. imposed c by_agent t d \<or> Q t d"
    from True assms(1) rl obtain ts ids where ts: "dict_get by_agent a = Some ts" "dict_get by_agent p = Some ids"
      and f: "foldE (\<lambda>t ds. add_unambiguous by_ref t ids [] SYSTEM rule True ds) ts ds = Inr ds'"
      by (auto simp: apply_rule_def)
    have step: "(table_inv ?J u \<longrightarrow> table_inv ?J v) \<and> grows u v \<and> (\<forall>t ks. ruled u t ks \<longrightarrow> ruled v t ks) \<and> ruled v t ids"
      if t: "t \<in> set ts" "add_unambiguous by_ref t ids [] SYSTEM rule True u = Inr v" for t u v
    proof -
      from t(2) obtain i where i: "i \<in> set ids" "add_single t SYSTEM rule True u i = Inr v"
        by (rule add_unambiguous_single)
      have "imposed c by_agent t (new_entry SYSTEM rule i)"
        unfolding imposed_def using assms(2) rl ts t(1) i(1) by auto
      moreover have "ruled v t' ks" if r: "ruled u t' ks" for t' ks
      proof -
        obtain j d where "j \<in> set ks" "entry u t' j = Some d" "dep_source d = SYSTEM"
          using r by (auto simp: ruled_def)
        then show ?thesis unfolding ruled_def
          by (intro exI [of _ j]) (auto simp: add_single_entry [OF i(2)])
      qed
      moreover have "ruled v t ids" using i(1) by (auto simp: ruled_def add_single_entry [OF i(2)])
      ultimately show ?thesis using add_single_inv [OF i(2)] add_single_grows [OF i(2)] by auto
    qed
    have "table_inv ?J ds'" if "table_inv ?J ds"
      by (rule foldE_invariant [where P = "table_inv ?J", OF f that]) (use step in blast)
    moreover have "grows ds ds'" by (rule foldE_grows [OF f]) (use step in blast)
    moreover have "ruled ds' t ks" if "ruled ds t ks" for t ks
      by (rule foldE_invariant [where P = "\<lambda>ds. ruled ds t ks", OF f that]) (use step in blast)
    moreover have "ruled ds' t ids" if "t \<in> set ts" for t
      by (rule foldE_establishes [where P = "\<lambda>ds. ruled ds t ids", OF f that]) (use step that in blast)+
    ultimately show ?thesis using ts rl by auto
  qed
qed

text \<open>The table the policy ends with.\<close>

lemma resolve_table:
  assumes "resolve_dependencies dr c by_agent by_ref = Inr deps"
  obtains ds where "deps = map (\<lambda>(i, own). (i, map snd own)) ds"
    "table_inv (\<lambda>t d. imposed c by_agent t d \<or> suggested dr c by_agent by_ref t d \<or> declared dr by_ref t d) ds"
    "\<And>s r t i. s \<in> set (pd_steps dr) \<Longrightarrow> r \<in> set (ps_depends_on s) \<Longrightarrow> dict_get by_ref (ps_ref s) = Some t \<Longrightarrow>
       dict_get by_ref r = Some i \<Longrightarrow> entry ds t i \<noteq> None"
    "\<And>a p rule ts t. (a, p, rule) \<in> set (system_rules c) \<Longrightarrow> dict_get by_agent a = Some ts \<Longrightarrow> t \<in> set ts \<Longrightarrow>
       \<exists>ids. dict_get by_agent p = Some ids \<and> ruled ds t ids"
proof -
  let ?D = "declared dr by_ref" and ?S = "suggested dr c by_agent by_ref" and ?I = "imposed c by_agent"
  let ?ds0 = "dict_of (map (\<lambda>i. (i, [])) (concat (map snd by_agent))) :: dependency_table"
  obtain ds1 th ds2 ds3 where f1: "foldE (add_planner_dependencies by_ref) (pd_steps dr) ?ds0 = Inr ds1"
    and th: "template_for dr c = Inr th"
    and f2: "(case th of None \<Rightarrow> Inr ds1
       | Some t \<Rightarrow> bindE (validate_overrides (pd_overrides dr) t (dict_keys by_agent)) (\<lambda>_.
           foldE (add_template_dependencies t (pd_overrides dr) by_agent by_ref) (pd_steps dr) ds1)) = Inr ds2"
    and f3: "foldE (apply_rule by_agent by_ref) (system_rules c) ds2 = Inr ds3"
    and deps: "deps = map (\<lambda>(i, own). (i, map snd own)) ds3"
    using assms by (auto simp: resolve_dependencies_def)
  have "set (foldl (\<lambda>d (k, v). dict_put k v d) acc (map (\<lambda>i. (i, [])) xs)) \<subseteq> set acc \<union> UNIV \<times> {[]}"
    for acc :: dependency_table and xs
  proof (induction xs arbitrary: acc)
    case (Cons x xs)
    then show ?case using Cons.IH [of "dict_put x [] acc"] set_dict_put [of x "[]" acc] by auto
  qed simp
  from this [of "[]"] have "own = []" if "dict_get ?ds0 t = Some own" for t own
    using map_of_SomeD [OF that] unfolding dict_of_def by (auto dest: subsetD)
  then have "table_inv ?D ?ds0" by (fastforce simp: table_inv_def)
  then have i1: "table_inv ?D ds1"
    using foldE_invariant [where P = "table_inv ?D", OF f1] planner_step [where Q = "\<lambda>_ _. False", simplified] by blast
  have e1: "entry ds1 t i \<noteq> None" if "s \<in> set (pd_steps dr)" "r \<in> set (ps_depends_on s)"
      "dict_get by_ref (ps_ref s) = Some t" "dict_get by_ref r = Some i" for s r t i
    by (rule foldE_present [OF f1 that(1)]) (use planner_step that in blast)+
  have i2: "table_inv (\<lambda>t d. ?S t d \<or> ?D t d) ds2 \<and> grows ds1 ds2"
  proof (cases th)
    case None
    then show ?thesis using f2 i1 by (auto simp: table_inv_def)
  next
    case (Some t)
    then have g: "foldE (add_template_dependencies t (pd_overrides dr) by_agent by_ref) (pd_steps dr) ds1 = Inr ds2"
      using f2 by auto
    have step: "(table_inv (\<lambda>t d. ?S t d \<or> ?D t d) u \<longrightarrow> table_inv (\<lambda>t d. ?S t d \<or> ?D t d) v) \<and> grows u v"
      if "s \<in> set (pd_steps dr)" "add_template_dependencies t (pd_overrides dr) by_agent by_ref s u = Inr v" for s u v
      using template_step [OF that(2,1)] th Some by blast
    have "table_inv (\<lambda>t d. ?S t d \<or> ?D t d) ds1" using i1 by (auto simp: table_inv_def)
    then have "table_inv (\<lambda>t d. ?S t d \<or> ?D t d) ds2"
      by (rule foldE_invariant [where P = "table_inv (\<lambda>t d. ?S t d \<or> ?D t d)", OF g]) (use step in blast)
    moreover have "grows ds1 ds2" by (rule foldE_grows [OF g]) (use step in blast)
    ultimately show ?thesis ..
  qed
  have i3: "table_inv (\<lambda>t d. ?I t d \<or> ?S t d \<or> ?D t d) ds3"
  proof (rule foldE_invariant [where P = "table_inv (\<lambda>t d. ?I t d \<or> ?S t d \<or> ?D t d)", OF f3])
    show "table_inv (\<lambda>t d. ?I t d \<or> ?S t d \<or> ?D t d) ds2" using i2 by (auto simp: table_inv_def)
  qed (use rule_step [where Q = "\<lambda>t d. ?S t d \<or> ?D t d" and c = c] in blast)
  have g3: "grows ds2 ds3" by (rule foldE_grows [OF f3]) (use rule_step in blast)
  have e3: "entry ds3 t i \<noteq> None" if "s \<in> set (pd_steps dr)" "r \<in> set (ps_depends_on s)"
      "dict_get by_ref (ps_ref s) = Some t" "dict_get by_ref r = Some i" for s r t i
    using e1 [OF that] i2 g3 unfolding grows_def by blast
  have r3: "\<exists>ids. dict_get by_agent p = Some ids \<and> ruled ds3 t ids"
    if "(a, p, rule) \<in> set (system_rules c)" "dict_get by_agent a = Some ts" "t \<in> set ts" for a p rule ts t
    by (rule foldE_establishes [where P = "\<lambda>ds. \<exists>ids. dict_get by_agent p = Some ids \<and> ruled ds t ids", OF f3 that(1)])
      (use rule_step that in blast)+
  show thesis by (rule that [OF deps i3 e3 r3])
qed

text \<open>The dependency policy is exact: every dependency it records was declared by the draft, or
  suggested by the template and not overridden, or imposed by a rule of the system; no item lists a
  predecessor twice; and every dependency the draft declares is recorded.\<close>

theorem dependencies_justified:
  assumes "resolve_dependencies dr c by_agent by_ref = Inr deps"
  shows "(\<forall>t ds. dict_get deps t = Some ds \<longrightarrow> distinct (map dep_work_item_id ds)
      \<and> (\<forall>d. d \<in> set ds \<longrightarrow> imposed c by_agent t d \<or> suggested dr c by_agent by_ref t d \<or> declared dr by_ref t d))
    \<and> (\<forall>s r t i. s \<in> set (pd_steps dr) \<longrightarrow> r \<in> set (ps_depends_on s) \<longrightarrow> dict_get by_ref (ps_ref s) = Some t \<longrightarrow>
        dict_get by_ref r = Some i \<longrightarrow> (\<exists>ds d. dict_get deps t = Some ds \<and> d \<in> set ds \<and> dep_work_item_id d = i))"
proof -
  obtain ds where ds: "deps = map (\<lambda>(i, own). (i, map snd own)) ds"
    and ok: "table_inv (\<lambda>t d. imposed c by_agent t d \<or> suggested dr c by_agent by_ref t d \<or> declared dr by_ref t d) ds"
    and e: "\<And>s r t i. s \<in> set (pd_steps dr) \<Longrightarrow> r \<in> set (ps_depends_on s) \<Longrightarrow> dict_get by_ref (ps_ref s) = Some t \<Longrightarrow>
       dict_get by_ref r = Some i \<Longrightarrow> entry ds t i \<noteq> None"
    by (rule resolve_table [OF assms]) blast
  have g: "dict_get deps t = map_option (map snd) (dict_get ds t)" for t by (simp add: ds map_of_map)
  have own: "distinct (map dep_work_item_id (map snd o')) \<and>
      (\<forall>d. d \<in> set (map snd o') \<longrightarrow> imposed c by_agent t d \<or> suggested dr c by_agent by_ref t d \<or> declared dr by_ref t d)"
    if o': "dict_get ds t = Some o'" for t o'
  proof -
    have k: "distinct (dict_keys o')" and v: "\<And>i d. dict_get o' i = Some d \<Longrightarrow> dep_work_item_id d = i \<and>
        (imposed c by_agent t d \<or> suggested dr c by_agent by_ref t d \<or> declared dr by_ref t d)"
      using ok o' unfolding table_inv_def by blast+
    then have m: "\<And>i d. (i, d) \<in> set o' \<Longrightarrow> dep_work_item_id d = i \<and>
        (imposed c by_agent t d \<or> suggested dr c by_agent by_ref t d \<or> declared dr by_ref t d)" by simp
    then have "map dep_work_item_id (map snd o') = dict_keys o'" by (auto intro!: map_cong)
    then have "distinct (map dep_work_item_id (map snd o'))" using k by (simp only:)
    then show ?thesis using m by (metis (no_types, lifting) imageE list.set_map prod.collapse)
  qed
  have "\<exists>ls d. dict_get deps t = Some ls \<and> d \<in> set ls \<and> dep_work_item_id d = i" if "entry ds t i \<noteq> None" for t i
  proof -
    from that obtain o' d where o': "dict_get ds t = Some o'" "dict_get o' i = Some d"
      by (auto simp: entry_def split: Option.bind_splits)
    then have "d \<in> set (map snd o')" "dep_work_item_id d = i"
      using ok by (auto simp: table_inv_def dest!: map_of_SomeD intro: rev_image_eqI)
    then show ?thesis using g [of t] o'(1) by auto
  qed
  note present = this
  have "distinct (map dep_work_item_id ls) \<and>
      (\<forall>d. d \<in> set ls \<longrightarrow> imposed c by_agent t d \<or> suggested dr c by_agent by_ref t d \<or> declared dr by_ref t d)"
    if ls: "dict_get deps t = Some ls" for t ls
  proof -
    obtain o' where "dict_get ds t = Some o'" "ls = map snd o'" using ls g [of t] by auto
    then show ?thesis using own [of t o'] by simp
  qed
  then show ?thesis using present e by meson
qed

lemma rule_dependency:
  assumes "resolve_dependencies dr c by_agent by_ref = Inr deps" "(a, p, rule) \<in> set (system_rules c)"
    and "dict_get by_agent a = Some ts" "t \<in> set ts"
  obtains ids ds d where "dict_get by_agent p = Some ids" "dict_get deps t = Some ds" "d \<in> set ds"
    "dep_source d = SYSTEM" "dep_work_item_id d \<in> set ids"
proof -
  obtain ds where ds: "deps = map (\<lambda>(i, own). (i, map snd own)) ds"
    and ok: "table_inv (\<lambda>t d. imposed c by_agent t d \<or> suggested dr c by_agent by_ref t d \<or> declared dr by_ref t d) ds"
    and r: "\<exists>ids. dict_get by_agent p = Some ids \<and> ruled ds t ids"
    by (rule resolve_table [OF assms(1)]) (use assms(2-4) in blast)
  then obtain ids i d where i: "dict_get by_agent p = Some ids" "i \<in> set ids" "entry ds t i = Some d" "dep_source d = SYSTEM"
    by (auto simp: ruled_def)
  then obtain o' where o': "dict_get ds t = Some o'" "dict_get o' i = Some d"
    by (auto simp: entry_def split: Option.bind_splits)
  then have "dep_work_item_id d = i" "d \<in> set (map snd o')"
    using ok by (auto simp: table_inv_def dest!: map_of_SomeD intro: rev_image_eqI)
  then show thesis using that [OF i(1), of "map snd o'" d] i o'(1) by (auto simp: ds map_of_map)
qed

text \<open>The rules of the system cannot be removed: whatever the draft declares or overrides, every item of
  an agent a rule makes wait has a dependency, recorded as the system's, on an item of the agent it
  must wait for.\<close>

theorem system_rules_cannot_be_removed:
  assumes "resolve_dependencies dr c by_agent by_ref = Inr deps" "(a, p, rule) \<in> set (system_rules c)"
    and "dict_get by_agent a = Some ts" "t \<in> set ts"
  shows "\<exists>ids ds d. dict_get by_agent p = Some ids \<and> dict_get deps t = Some ds \<and> d \<in> set ds
    \<and> dep_source d = SYSTEM \<and> dep_work_item_id d \<in> set ids"
  by (rule rule_dependency [OF assms]) blast

section \<open>Plans accepted from a draft\<close>

lemma duplicates_from_keeps: "set found \<subseteq> set (duplicates_from seen found vs)"
proof (induction vs arbitrary: seen found)
  case (Cons v vs)
  show ?case
    using Cons.IH [of "if v \<in> set seen \<and> v \<notin> set found then found @ [v] else found" "v # seen"]
    by (auto split: if_splits)
qed simp

lemma duplicates_from_empty: "duplicates_from seen [] vs = [] \<longleftrightarrow> distinct vs \<and> set vs \<inter> set seen = {}"
proof (induction vs arbitrary: seen)
  case (Cons v vs)
  have "duplicates_from (v # seen) [v] vs \<noteq> []"
    using duplicates_from_keeps [of "[v]" "v # seen" vs] by auto
  then show ?case using Cons.IH [of "v # seen"] by auto
qed simp

lemma duplicates_empty: "duplicates vs = [] \<longleftrightarrow> distinct vs"
  by (simp add: duplicates_def duplicates_from_empty)

text \<open>What the item of a step is given.\<close>

definition built_from ::
  "planning_context \<Rightarrow> (string, string) dict \<Rightarrow> (string \<times> dependency list) list \<Rightarrow> planned_step \<Rightarrow> work_item \<Rightarrow> bool" where
  "built_from c by_ref deps s w \<longleftrightarrow> dict_get by_ref (ps_ref s) = Some (wi_id w) \<and> wi_agent_id w = ps_agent_id s
     \<and> dict_get deps (wi_id w) = Some (wi_dependencies w) \<and> wi_stage_id w = ps_stage_id s
     \<and> wi_execution_mode w = stage_mode (ps_stage_id s) \<and> wi_publish_target w = stage_target (ps_stage_id s)
     \<and> wi_candidate_from w = None \<and> wi_allowed_paths w = [] \<and> wi_required_paths w = [] \<and> wi_owned_files w = []"

lemma step_item_built:
  assumes "step_item sha note c steps by_ref deps (n, s) = Inr w"
  shows "built_from c by_ref deps s w \<and> mk_work_item sha w = Inr w"
proof -
  from assms obtain w0 where w0: "mk_work_item sha w0 = Inr w" and b: "built_from c by_ref deps s w0"
    by (auto simp: step_item_def built_from_def blank_work_item_def split: option.splits)
  have "built_from c by_ref deps s w"
    using b by (subst mk_work_item_shape(1) [OF w0]) (simp add: built_from_def)
  then show ?thesis using mk_work_item_idempotent [OF w0] by blast
qed

definition uncontrolled :: "planning_context \<Rightarrow> plan_draft \<Rightarrow> bool" where
  "uncontrolled c dr \<longleftrightarrow> (case template_source c (pd_template_hint_id dr) of
     None \<Rightarrow> True | Some t \<Rightarrow> \<not> has_controlled_execution t)"

lemma as_plan_error_Inr [simp]: "as_plan_error r = Inr x \<longleftrightarrow> r = Inr x"
  by (auto simp: as_plan_error_def split: sum.splits err.splits)

lemma validate_draft_uncontrolled:
  assumes "validate_draft sha note c plan_id trace dr = Inr p" "uncontrolled c dr"
  shows "compile_draft sha note c plan_id trace software_delivery dr = Inr p"
    "distinct (map ps_ref (pd_steps dr))"
    "s \<in> set (pd_steps dr) \<Longrightarrow> check_stage software_delivery s = Inr () \<and> ps_agent_id s \<noteq> ''task_agent''"
proof -
  have d: "duplicates (map ps_ref (pd_steps dr)) = []"
    and g: "for_each (check_stage software_delivery) (pd_steps dr) = Inr ()"
    and ta: "''task_agent'' \<notin> set (map ps_agent_id (pd_steps dr))"
    and r: "compile_draft sha note c plan_id trace software_delivery dr = Inr p"
    using assms unfolding validate_draft_def Let_def uncontrolled_def
    by (auto simp: bindE_Inr_unit simp del: set_map split: option.splits)
  show "compile_draft sha note c plan_id trace software_delivery dr = Inr p" by fact
  show "distinct (map ps_ref (pd_steps dr))" using d by (simp add: duplicates_empty)
  show "check_stage software_delivery s = Inr () \<and> ps_agent_id s \<noteq> ''task_agent''" if "s \<in> set (pd_steps dr)"
  proof -
    have "ps_agent_id s \<in> set (map ps_agent_id (pd_steps dr))" using that by simp
    then have "ps_agent_id s \<noteq> ''task_agent''" using ta by metis
    then show ?thesis using g that by (simp add: for_each_Inr_iff)
  qed
qed

lemma compile_draft_built:
  assumes "compile_draft sha note c plan_id trace pr dr = Inr p"
  obtains by_ref by_agent deps where "step_ids c (pd_steps dr) = Inr by_ref"
    "ids_by_agent by_ref (pd_steps dr) = Inr by_agent" "resolve_dependencies dr c by_agent by_ref = Inr deps"
    "list_all2 (built_from c by_ref deps) (pd_steps dr) (pl_work_items p)" "plan_ok sha p"
proof -
  let ?steps = "pd_steps dr"
  obtain by_ref by_agent deps items where r: "step_ids c ?steps = Inr by_ref"
    "ids_by_agent by_ref ?steps = Inr by_agent" "resolve_dependencies dr c by_agent by_ref = Inr deps"
    and m: "mapE (step_item sha note c ?steps by_ref deps) (enumerate 0 ?steps) = Inr items"
    and pl: "mk_plan \<lparr>pl_id = plan_id, pl_goal = pc_goal c, pl_work_items = items,
          pl_template_id = pd_template_hint_id dr, pl_process_id = pr_id pr, pl_trace = trace,
          pl_validation_scope = ''full_delivery''\<rparr> = Inr p"
    using assms by (auto simp: compile_draft_def Let_def split: if_splits)
  have items: "pl_work_items p = items" using mk_plan_checks(1) [OF pl] by simp
  have "list_all2 (\<lambda>ns w. built_from c by_ref deps (snd ns) w \<and> mk_work_item sha w = Inr w) (enumerate 0 ?steps) items"
    using m unfolding mapE_Inr_iff by (rule list_all2_mono) (auto dest: step_item_built)
  then have b: "list_all2 (\<lambda>s w. built_from c by_ref deps s w \<and> mk_work_item sha w = Inr w) ?steps items"
    using list_all2_map1 [of "\<lambda>s w. built_from c by_ref deps s w \<and> mk_work_item sha w = Inr w" snd "enumerate 0 ?steps" items]
    by simp
  then have "\<forall>w \<in> set items. mk_work_item sha w = Inr w" by (auto simp: list_all2_conv_all_nth in_set_conv_nth)
  then have "plan_ok sha p" using mk_plan_checks(1) [OF pl] pl items by (auto simp: plan_ok_def)
  moreover have "list_all2 (built_from c by_ref deps) ?steps (pl_work_items p)"
    using b items by (auto elim: list_all2_mono)
  ultimately show thesis using that r by blast
qed

lemma ids_by_agent_get:
  assumes "ids_by_agent by_ref steps = Inr by_agent"
  shows "dict_get by_agent a = Some ids \<Longrightarrow> i \<in> set ids \<Longrightarrow>
      \<exists>s \<in> set steps. ps_agent_id s = a \<and> dict_get by_ref (ps_ref s) = Some i"
    and "s \<in> set steps \<Longrightarrow> ps_agent_id s = a \<Longrightarrow> \<exists>ids. dict_get by_agent a = Some ids \<and>
      (\<forall>i. dict_get by_ref (ps_ref s) = Some i \<longrightarrow> i \<in> set ids)"
proof -
  have l: "list_all2 (\<lambda>a kv. fst kv = a \<and> mapE (\<lambda>s. id_at by_ref (ps_ref s)) (filter (\<lambda>s. ps_agent_id s = a) steps) = Inr (snd kv))
      (dict_fromkeys (map ps_agent_id steps)) by_agent"
    using mapE_Inr_iff [THEN iffD1, OF assms [unfolded ids_by_agent_def]] by (rule list_all2_mono) auto
  show "\<exists>s \<in> set steps. ps_agent_id s = a \<and> dict_get by_ref (ps_ref s) = Some i"
    if "dict_get by_agent a = Some ids" "i \<in> set ids"
  proof -
    have "mapE (\<lambda>s. id_at by_ref (ps_ref s)) (filter (\<lambda>s. ps_agent_id s = a) steps) = Inr ids"
      using list_all2_member2 [OF l map_of_SomeD [OF that(1)]] by auto
    from mapE_set [OF this that(2)] show ?thesis by auto
  qed
  show "\<exists>ids. dict_get by_agent a = Some ids \<and> (\<forall>i. dict_get by_ref (ps_ref s) = Some i \<longrightarrow> i \<in> set ids)"
    if s: "s \<in> set steps" "ps_agent_id s = a"
  proof -
    have "dict_keys by_agent = dict_fromkeys (map ps_agent_id steps)"
      using l by (auto simp: list_all2_conv_all_nth intro!: nth_equalityI)
    then have "a \<in> set (dict_keys by_agent)" using s by auto
    then obtain ids where ids: "dict_get by_agent a = Some ids" by (metis map_of_eq_None_iff not_None_eq list.set_map)
    from list_all2_member2 [OF l map_of_SomeD [OF ids]]
    have "mapE (\<lambda>s. id_at by_ref (ps_ref s)) (filter (\<lambda>s. ps_agent_id s = a) steps) = Inr ids" by auto
    then have "list_all2 (\<lambda>s i. id_at by_ref (ps_ref s) = Inr i) (filter (\<lambda>s. ps_agent_id s = a) steps) ids"
      unfolding mapE_Inr_iff .
    then have "\<forall>i. dict_get by_ref (ps_ref s) = Some i \<longrightarrow> i \<in> set ids"
      using s by (auto dest!: list_all2_member1 [where x = s])
    with ids show ?thesis by blast
  qed
qed

text \<open>C10. A rule of the system orders every run: in whatever state a run of a plan accepted from a draft is,
  an item of an agent that a rule makes wait becomes ready only when some item of the agent it waits for
  has completed. So no code is written before the environment was prepared when there is none, and no
  test or review starts before the code when the project is empty.\<close>

theorem rules_order_runs:
  assumes "validate_draft sha note c plan_id trace dr = Inr p" "uncontrolled c dr"
    and "(a, b, rule) \<in> set (system_rules c)" "rs_plan s = p" "w \<in> set (ready_items s)" "wi_agent_id w = a"
  shows "\<exists>v. v \<in> set (pl_work_items p) \<and> wi_agent_id v = b \<and> wi_id v \<in> set (wi_dependency_ids w)
    \<and> is_completed (rs_results s) (wi_id v)"
proof -
  note d = validate_draft_uncontrolled [OF assms(1,2)]
  obtain by_ref by_agent deps where r: "ids_by_agent by_ref (pd_steps dr) = Inr by_agent"
    "resolve_dependencies dr c by_agent by_ref = Inr deps"
    and l: "list_all2 (built_from c by_ref deps) (pd_steps dr) (pl_work_items p)"
    by (rule compile_draft_built [OF d(1)])
  have w: "w \<in> set (pl_work_items p)" "list_all (is_completed (rs_results s)) (wi_dependency_ids w)"
    using assms(4,5) by (auto simp: ready_items_def)
  from list_all2_member2 [OF l w(1)] obtain st where st: "st \<in> set (pd_steps dr)" "built_from c by_ref deps st w" by blast
  then have "ps_agent_id st = a" "dict_get by_ref (ps_ref st) = Some (wi_id w)"
    and deps: "dict_get deps (wi_id w) = Some (wi_dependencies w)"
    using assms(6) by (auto simp: built_from_def)
  then obtain ts where ts: "dict_get by_agent a = Some ts" "wi_id w \<in> set ts"
    using ids_by_agent_get(2) [OF r(1) st(1)] by blast
  obtain ids ds e where e: "dict_get by_agent b = Some ids" "dict_get deps (wi_id w) = Some ds" "e \<in> set ds"
    "dep_work_item_id e \<in> set ids" by (rule rule_dependency [OF r(2) assms(3) ts])
  from ids_by_agent_get(1) [OF r(1) e(1,4)] obtain st' where
    st': "st' \<in> set (pd_steps dr)" "ps_agent_id st' = b" "dict_get by_ref (ps_ref st') = Some (dep_work_item_id e)" by blast
  from list_all2_member1 [OF l st'(1)] obtain v where "v \<in> set (pl_work_items p)" "built_from c by_ref deps st' v" by blast
  moreover have "dep_work_item_id e \<in> set (wi_dependency_ids w)" using e(2,3) deps by (simp add: wi_dependency_ids_def)
  ultimately show ?thesis using st' w(2) by (intro exI [of _ v]) (auto simp: built_from_def list_all_iff)
qed

definition stage_agent :: "string \<Rightarrow> string option" where
  "stage_agent i = map_option sg_agent_id (find_stage software_delivery i)"

lemma stage_agents:
  "stage_agent ''architecture_blueprint'' = Some ''architecture_agent''"
  "stage_agent ''architecture_integration'' = Some ''architecture_agent''"
  "stage_agent ''contract'' = Some ''architecture_contract_agent''"
  by code_simp+

text \<open>A draft grants itself nothing: outside the controlled templates every item of an accepted plan runs with
  the rights of its registered stage. It has no file paths, never releases a candidate, and stages or
  publishes only as the architecture agent or the contract agent, to the targets of those stages; and
  no item belongs to the task agent.\<close>

theorem draft_grants_nothing:
  assumes "validate_draft sha note c plan_id trace dr = Inr p" "uncontrolled c dr" "w \<in> set (pl_work_items p)"
  shows "wi_allowed_paths w = [] \<and> wi_required_paths w = [] \<and> wi_owned_files w = [] \<and> wi_candidate_from w = None
    \<and> wi_execution_mode w \<noteq> QUALITY_GATE \<and> wi_agent_id w \<noteq> ''task_agent''
    \<and> wi_publish_target w \<in> {None, Some ''architecture'', Some ''architecture_contract''}
    \<and> (wi_execution_mode w \<noteq> EXCLUSIVE \<longrightarrow>
         wi_agent_id w = (if wi_stage_id w = Some ''contract'' then ''architecture_contract_agent'' else ''architecture_agent''))"
proof -
  note d = validate_draft_uncontrolled [OF assms(1,2)]
  obtain by_ref by_agent deps where l: "list_all2 (built_from c by_ref deps) (pd_steps dr) (pl_work_items p)"
    by (rule compile_draft_built [OF d(1)])
  from list_all2_member2 [OF l assms(3)] obtain s where s: "s \<in> set (pd_steps dr)" "built_from c by_ref deps s w" by blast
  have "wi_agent_id w = (if wi_stage_id w = Some ''contract'' then ''architecture_contract_agent'' else ''architecture_agent'')"
    if "wi_execution_mode w \<noteq> EXCLUSIVE"
  proof -
    have "stage_mode (ps_stage_id s) \<noteq> EXCLUSIVE" using that s(2) by (simp add: built_from_def)
    then consider "ps_stage_id s = Some ''architecture_blueprint''" | "ps_stage_id s = Some ''architecture_integration''"
      | "ps_stage_id s = Some ''contract''" unfolding stage_mode_def by argo
    moreover have "ps_agent_id s = a" if "ps_stage_id s = Some i" "i \<noteq> []" "stage_agent i = Some a" for i a
      using d(3) [OF s(1)] that by (auto simp: check_stage_def falsy_opt_def or_empty_def stage_agent_def)
    ultimately have "ps_agent_id s = (if ps_stage_id s = Some ''contract'' then ''architecture_contract_agent'' else ''architecture_agent'')"
      using stage_agents by cases auto
    then show ?thesis using s(2) by (simp add: built_from_def)
  qed
  moreover have "stage_mode (ps_stage_id s) \<noteq> QUALITY_GATE" by (simp add: stage_mode_def)
  moreover have "stage_target (ps_stage_id s) \<in> {None, Some ''architecture'', Some ''architecture_contract''}"
    by (cases "ps_stage_id s = Some ''architecture_integration''"; cases "ps_stage_id s = Some ''contract''")
      (simp_all add: stage_target_def)
  ultimately show ?thesis using s(2) d(3) [OF s(1)] by (simp only: built_from_def) blast
qed

section \<open>Witnesses\<close>

definition demo_step :: "string \<Rightarrow> string \<Rightarrow> planned_step" where
  "demo_step r a = \<lparr>ps_ref = r, ps_agent_id = a, ps_objective = ''do it'', ps_stage_id = None, ps_depends_on = [],
     ps_acceptance_criteria = [], ps_constraints = [], ps_non_goals = []\<rparr>"

definition demo_context :: planning_context where
  "demo_context = \<lparr>pc_goal = ''tool'', pc_artifacts = [(''environment'', False)],
     pc_agents = [\<lparr>av_id = ''code_agent'', av_output_key = ''implementation'', av_artifact_key = None\<rparr>,
       \<lparr>av_id = ''bootstrap_agent'', av_output_key = ''environment'', av_artifact_key = None\<rparr>],
     pc_templates = [], pc_implementation_files = 0,
     pc_contract = \<lparr>cs_exists = False, cs_layers = [], cs_required_test_types = []\<rparr>,
     pc_default_template_id = None, pc_source_templates = []\<rparr>"

text \<open>The draft forgets that the code waits for the environment.\<close>

definition demo_draft :: plan_draft where
  "demo_draft = \<lparr>pd_steps = [demo_step ''b'' ''bootstrap_agent'', demo_step ''c'' ''code_agent''],
     pd_template_hint_id = None, pd_process_id = None, pd_overrides = []\<rparr>"

definition demo_trace_context :: trace_context where
  "demo_trace_context = \<lparr>tc_requirement_id = ''r'', tc_trace_id = ''t'', tc_parent_trace_id = None\<rparr>"

definition demo_drafted :: plan where
  "demo_drafted = projr (validate_draft demo_sha (\<lambda>_ _. []) demo_context ''p-1'' demo_trace_context demo_draft)"

lemma demo_drafted_eq:
  "validate_draft demo_sha (\<lambda>_ _. []) demo_context ''p-1'' demo_trace_context demo_draft = Inr demo_drafted"
proof -
  have "\<not> isl (validate_draft demo_sha (\<lambda>_ _. []) demo_context ''p-1'' demo_trace_context demo_draft)" by code_simp
  then show ?thesis by (auto simp: demo_drafted_def isl_def dest: sum.exhaust_sel)
qed

lemma demo_uncontrolled: "uncontrolled demo_context demo_draft" by code_simp

lemma demo_rule: "(''code_agent'', ''bootstrap_agent'', ''code_requires_bootstrap'') \<in> set (system_rules demo_context)"
  by code_simp

definition demo_half_run :: run_state where
  "demo_half_run = demo_record_done (hd (pl_work_items demo_drafted)) (new_run demo_drafted)"

definition demo_code_item :: work_item where
  "demo_code_item = hd (ready_items demo_half_run)"

lemma demo_code_item:
  "rs_plan demo_half_run = demo_drafted" "demo_code_item \<in> set (ready_items demo_half_run)"
  "wi_agent_id demo_code_item = ''code_agent''" "demo_code_item \<in> set (pl_work_items demo_drafted)"
proof -
  have ne: "ready_items demo_half_run \<noteq> []" by code_simp
  then show r: "demo_code_item \<in> set (ready_items demo_half_run)" by (simp add: demo_code_item_def)
  have "\<not> blank (wi_id (hd (pl_work_items demo_drafted)))" by code_simp
  then have "record_result (hd (pl_work_items demo_drafted)) (demo_done (hd (pl_work_items demo_drafted))) (new_run demo_drafted)
      = Inr demo_half_run"
    unfolding demo_half_run_def by (intro demo_record_ok) (simp_all add: new_run_def)
  then show p: "rs_plan demo_half_run = demo_drafted" by (auto dest: record_result_cases(4) simp: new_run_def)
  show "wi_agent_id demo_code_item = ''code_agent''" by code_simp
  show "demo_code_item \<in> set (pl_work_items demo_drafted)" using r p by (simp add: ready_items_def)
qed

theorem rules_order_runs_witness:
  "\<exists>v. v \<in> set (pl_work_items demo_drafted) \<and> wi_agent_id v = ''bootstrap_agent''
    \<and> wi_id v \<in> set (wi_dependency_ids demo_code_item) \<and> is_completed (rs_results demo_half_run) (wi_id v)"
  by (rule rules_order_runs [OF demo_drafted_eq demo_uncontrolled demo_rule demo_code_item(1,2,3)])

theorem draft_grants_nothing_witness:
  "wi_allowed_paths demo_code_item = [] \<and> wi_required_paths demo_code_item = [] \<and> wi_owned_files demo_code_item = []
    \<and> wi_candidate_from demo_code_item = None \<and> wi_execution_mode demo_code_item \<noteq> QUALITY_GATE
    \<and> wi_agent_id demo_code_item \<noteq> ''task_agent''"
  using draft_grants_nothing [OF demo_drafted_eq demo_uncontrolled demo_code_item(4)] by blast

definition demo_by_ref :: "(string, string) dict" where
  "demo_by_ref = [(''b'', ''wi-01-environment''), (''c'', ''wi-02-implementation'')]"

definition demo_by_agent :: "(string, string list) dict" where
  "demo_by_agent = [(''bootstrap_agent'', [''wi-01-environment'']), (''code_agent'', [''wi-02-implementation''])]"

definition demo_dependencies :: "(string \<times> dependency list) list" where
  "demo_dependencies = projr (resolve_dependencies demo_draft demo_context demo_by_agent demo_by_ref)"

lemma demo_dependencies_eq:
  "resolve_dependencies demo_draft demo_context demo_by_agent demo_by_ref = Inr demo_dependencies"
proof -
  have "\<not> isl (resolve_dependencies demo_draft demo_context demo_by_agent demo_by_ref)" by code_simp
  then show ?thesis by (auto simp: demo_dependencies_def isl_def dest: sum.exhaust_sel)
qed

theorem system_rules_cannot_be_removed_witness:
  "\<exists>ids ds d. dict_get demo_by_agent ''bootstrap_agent'' = Some ids
    \<and> dict_get demo_dependencies ''wi-02-implementation'' = Some ds \<and> d \<in> set ds
    \<and> dep_source d = SYSTEM \<and> dep_work_item_id d \<in> set ids"
proof (rule system_rules_cannot_be_removed [OF demo_dependencies_eq demo_rule])
  show "dict_get demo_by_agent ''code_agent'' = Some [''wi-02-implementation'']" by code_simp
qed simp

theorem dependencies_justified_witness:
  "distinct (map dep_work_item_id (the (dict_get demo_dependencies ''wi-02-implementation'')))"
proof -
  have "dict_get demo_dependencies ''wi-02-implementation'' \<noteq> None" by code_simp
  then show ?thesis using dependencies_justified [OF demo_dependencies_eq] by auto
qed

section \<open>Several candidates\<close>

definition demo_split_context :: planning_context where
  "demo_split_context = demo_context\<lparr>pc_artifacts := [(''environment'', True)],
     pc_agents := \<lparr>av_id = ''test_agent'', av_output_key = ''tests'', av_artifact_key = None\<rparr> # pc_agents demo_context\<rparr>"

definition demo_split_draft :: "string list \<Rightarrow> plan_draft" where
  "demo_split_draft awaited = demo_draft\<lparr>pd_steps := [demo_step ''c1'' ''code_agent'', demo_step ''c2'' ''code_agent'',
     (demo_step ''t'' ''test_agent'')\<lparr>ps_depends_on := awaited\<rparr>]\<rparr>"

text \<open>When two steps write code, the rule that tests wait for code asks for exactly one of them: a draft whose
  test waits for both is refused, the same draft with a test that waits for one of them is accepted, and
  in its plan the test does not wait for the other.\<close>

theorem test_of_all_code_refused:
  "validate_draft demo_sha (\<lambda>_ _. []) demo_split_context ''p-1'' demo_trace_context (demo_split_draft [''c1'', ''c2''])
     = Inl (PlanValidationError ''ambiguous dependency'')"
  "map wi_dependency_ids (pl_work_items (projr (validate_draft demo_sha (\<lambda>_ _. []) demo_split_context ''p-1''
     demo_trace_context (demo_split_draft [''c1''])))) = [[], [], [''wi-01-implementation'']]"
  by code_simp+

end
