(* ===== verification/Delivery_Tail.thy ===== *)
theory Delivery_Tail
  imports Workflow Run_Laws
begin

text \<open>
  \<^verbatim>\<open>app/planner/delivery_tail.py\<close>: the life-cycle items (tasks, environment, integration, test,
  review) appended to a dynamic architecture plan. The prose of the items is a parameter: \<open>tx name\<close> is
  the text of the module that \<open>name\<close> stands for.
\<close>

definition tail_prefix :: string where
  "tail_prefix = ''wi-dynamic-tail-''"

definition replaced_agents :: "string list" where
  "replaced_agents = [''task_agent'', ''bootstrap_agent'', ''code_agent'', ''code_integration_agent'',
     ''test_agent'', ''review_agent'']"

text \<open>An explicit item must exist; otherwise the item is the only one the predicate accepts, or none.\<close>

definition resolve_item :: "plan \<Rightarrow> string option \<Rightarrow> (work_item \<Rightarrow> bool) \<Rightarrow> work_item option result" where
  "resolve_item p i pred = (case i of
      Some k \<Rightarrow> (case plan_item p k of None \<Rightarrow> Inl (ValueError ''unknown node'') | Some w \<Rightarrow> Inr (Some w))
    | None \<Rightarrow> (case filter pred (pl_work_items p) of
        [] \<Rightarrow> Inr None
      | [w] \<Rightarrow> Inr (Some w)
      | _ \<Rightarrow> Inl (ValueError ''not unique'')))"

definition tail_dep :: "string \<times> string \<Rightarrow> dependency result" where
  "tail_dep ir = mk_dependency \<lparr>dep_work_item_id = fst ir, dep_source = SYSTEM,
     dep_rule_id = Some (''dynamic-tail:'' @ snd ir)\<rparr>"

text \<open>What one appended item is given beside its name, agent and prose.\<close>

record tail_item =
  ti_name :: string
  ti_agent :: string
  ti_stage :: string
  ti_output :: string
  ti_key :: string
  ti_mode :: execution_mode
  ti_slot :: "string option"
  ti_target :: "string option"
  ti_candidate :: "string option"
  ti_inputs :: "string list"  \<comment> \<open>published artifacts\<close>
  ti_deps :: "(string \<times> string) list"  \<comment> \<open>item and rule\<close>
  ti_criteria :: "string list"
  ti_constraints :: "string list"
  ti_kind :: string

definition tail_id :: "string \<Rightarrow> string" where
  "tail_id name = tail_prefix @ name"

definition opt_dep :: "work_item option \<Rightarrow> string \<Rightarrow> (string \<times> string) list" where
  "opt_dep w rule = (case w of None \<Rightarrow> [] | Some v \<Rightarrow> [(wi_id v, rule)])"

text \<open>
  The seven items, in the order of the code. \<open>list.insert(0, requirement)\<close> and
  \<open>list.insert(-1, architecture)\<close> leave requirement, architecture, contract.
\<close>

definition tail_items :: "work_item \<Rightarrow> work_item option \<Rightarrow> work_item option \<Rightarrow> tail_item list" where
  "tail_items contract requirement architecture =
    (let c = wi_id contract; tq = tail_id ''tasks-quality''; env = tail_id ''environment'' in
     [\<lparr>ti_name = ''tasks-plan'', ti_agent = ''task_agent'', ti_stage = ''task'', ti_output = ''dynamic_tasks_plan'',
       ti_key = ''tasks'', ti_mode = PARTITIONED, ti_slot = Some ''plan'', ti_target = None, ti_candidate = None,
       ti_inputs = [''requirement'', ''architecture'', ''architecture_contract''],
       ti_deps = opt_dep requirement ''requirement'' @ opt_dep architecture ''architecture'' @ [(c, ''contract'')],
       ti_criteria = [''criterion-1'', ''criterion-2''], ti_constraints = [''constraint-1''], ti_kind = ''TaskObject''\<rparr>,
      \<lparr>ti_name = ''tasks-integration'', ti_agent = ''task_agent'', ti_stage = ''task'', ti_output = ''dynamic_tasks_candidate'',
       ti_key = ''tasks'', ti_mode = INTEGRATION, ti_slot = None, ti_target = Some ''tasks'', ti_candidate = None,
       ti_inputs = [], ti_deps = [(tail_id ''tasks-plan'', ''tasks'')],
       ti_criteria = [''criterion-1''], ti_constraints = [], ti_kind = ''TaskCandidate''\<rparr>,
      \<lparr>ti_name = ''tasks-quality'', ti_agent = ''task_agent'', ti_stage = ''task'', ti_output = ''dynamic_tasks_published'',
       ti_key = ''tasks'', ti_mode = QUALITY_GATE, ti_slot = None, ti_target = Some ''tasks'',
       ti_candidate = Some (tail_id ''tasks-integration''), ti_inputs = [],
       ti_deps = [(tail_id ''tasks-integration'', ''tasks-quality'')],
       ti_criteria = [], ti_constraints = [], ti_kind = ''TaskObject''\<rparr>,
      \<lparr>ti_name = ''environment'', ti_agent = ''bootstrap_agent'', ti_stage = ''environment'', ti_output = ''dynamic_environment'',
       ti_key = ''environment'', ti_mode = EXCLUSIVE, ti_slot = None, ti_target = None, ti_candidate = None,
       ti_inputs = [''requirement'', ''architecture'', ''architecture_contract'', ''tasks''],
       ti_deps = [(c, ''environment-contract''), (tq, ''environment-tasks'')],
       ti_criteria = [], ti_constraints = [], ti_kind = ''EnvironmentReport''\<rparr>,
      \<lparr>ti_name = ''code-integration'', ti_agent = ''code_integration_agent'', ti_stage = ''integration'',
       ti_output = ''dynamic_implementation_merge'', ti_key = ''implementation'', ti_mode = INTEGRATION, ti_slot = None,
       ti_target = Some ''workspace'', ti_candidate = None, ti_inputs = [],
       ti_deps = [(c, ''integration-contract''), (tq, ''integration-tasks''), (env, ''integration-environment'')],
       ti_criteria = [], ti_constraints = [], ti_kind = ''WorkspaceSnapshot''\<rparr>,
      \<lparr>ti_name = ''test'', ti_agent = ''test_agent'', ti_stage = ''test'', ti_output = ''dynamic_tests'',
       ti_key = ''tests'', ti_mode = EXCLUSIVE, ti_slot = None, ti_target = None, ti_candidate = None,
       ti_inputs = [''requirement'', ''tasks'', ''environment'', ''implementation''],
       ti_deps = [(tail_id ''code-integration'', ''test-integration''), (tq, ''test-tasks''), (env, ''test-environment'')],
       ti_criteria = [], ti_constraints = [], ti_kind = ''TestEvidence''\<rparr>,
      \<lparr>ti_name = ''review'', ti_agent = ''review_agent'', ti_stage = ''review'', ti_output = ''dynamic_review'',
       ti_key = ''review'', ti_mode = EXCLUSIVE, ti_slot = None, ti_target = None, ti_candidate = None,
       ti_inputs = [''requirement'', ''architecture'', ''architecture_contract'', ''tasks'', ''environment'',
         ''implementation'', ''tests''],
       ti_deps = opt_dep requirement ''review-requirement'' @ opt_dep architecture ''review-architecture'' @
         [(c, ''review-contract''), (tq, ''review-tasks''), (env, ''review-environment''),
          (tail_id ''code-integration'', ''review-integration''), (tail_id ''test'', ''review-test'')],
       ti_criteria = [], ti_constraints = [], ti_kind = ''ReviewReport''\<rparr>])"

text \<open>The one staged input: the integration of the tasks reads the plan of the tasks.\<close>

definition tail_refs :: "string \<Rightarrow> tail_item \<Rightarrow> artifact_ref list result" where
  "tail_refs trace t =
     (if ti_name t = ''tasks-integration''
      then bindE (ref_staged ''tasks'' trace (tail_id ''tasks-plan'') ''plan'') (\<lambda>r. Inr [r])
      else mapE (\<lambda>k. ref_published k None) (ti_inputs t))"

definition build_tail_item ::
  "(string \<Rightarrow> string) \<Rightarrow> (string \<Rightarrow> string \<Rightarrow> string) \<Rightarrow> string \<Rightarrow> tail_item \<Rightarrow> work_item result" where
  "build_tail_item sha tx trace t =
     bindE (tail_refs trace t) (\<lambda>refs.
     bindE (mapE tail_dep (ti_deps t)) (\<lambda>deps.
     mk_work_item sha ((blank_work_item (tail_id (ti_name t)) (ti_agent t) (tx (ti_name t) ''objective'') (ti_output t))
       \<lparr>wi_stage_id := Some (ti_stage t), wi_artifact_key := Some (ti_key t), wi_execution_mode := ti_mode t,
        wi_slot := ti_slot t, wi_publish_target := ti_target t, wi_candidate_from := ti_candidate t,
        wi_input_refs := refs, wi_dependencies := deps,
        wi_acceptance_criteria := map (tx (ti_name t)) (ti_criteria t),
        wi_constraints := map (tx (ti_name t)) (ti_constraints t), wi_output_kind := Some (ti_kind t)\<rparr>)))"

definition append_tail ::
  "(string \<Rightarrow> string) \<Rightarrow> (string \<Rightarrow> string \<Rightarrow> string) \<Rightarrow> plan \<Rightarrow> string \<Rightarrow> string option \<Rightarrow> string option
   \<Rightarrow> (plan \<times> string list) result" where
  "append_tail sha tx p contract_id requirement_id architecture_id = (case plan_item p contract_id of
      None \<Rightarrow> Inl (ValueError ''no contract node'')
    | Some contract \<Rightarrow>
        if list_ex (\<lambda>w. prefix tail_prefix (wi_id w)) (pl_work_items p) then Inr (p, [])
        else bindE (resolve_item p requirement_id (\<lambda>w. wi_agent_id w = ''requirement_agent'')) (\<lambda>requirement.
          bindE (resolve_item p architecture_id (\<lambda>w. wi_agent_id w = ''architecture_agent''
                   \<and> wi_publish_target w = Some ''architecture'')) (\<lambda>architecture.
          bindE (mapE (build_tail_item sha tx (tc_trace_id (pl_trace p))) (tail_items contract requirement architecture)) (\<lambda>added.
          let kept = filter (\<lambda>w. wi_agent_id w \<notin> set replaced_agents) (pl_work_items p) in
          if set (map wi_id kept) \<inter> set (map wi_id added) \<noteq> {} then Inl (ValueError ''duplicate id'')
          else bindE (mk_plan (p\<lparr>pl_work_items := kept @ added, pl_validation_scope := ''full_delivery''\<rparr>)) (\<lambda>q.
            Inr (q, map wi_id added))))))"

section \<open>The step of the runner\<close>

text \<open>
  \<open>_append_dynamic_delivery_tail_if_ready\<close> of \<^verbatim>\<open>app/orchestration/runner.py\<close>: the error, if any, and the
  new state; the trace records and the checkpoint it writes are functions of that state. Errors other
  than \<open>TypeError\<close>, \<open>ValueError\<close> and \<open>RuntimeError\<close> cannot arise here.
\<close>

definition contract_milestone :: "plan \<Rightarrow> work_item option" where
  "contract_milestone p = List.find (\<lambda>w. wi_output_key w = ''architecture_contract''
     \<or> wi_stage_id w = Some ''contract'' \<or> wi_agent_id w = ''architecture_contract_agent'') (pl_work_items p)"

definition tail_if_ready ::
  "(string \<Rightarrow> string) \<Rightarrow> (string \<Rightarrow> string \<Rightarrow> string) \<Rightarrow> bool \<Rightarrow> run_state \<Rightarrow> err option \<times> run_state" where
  "tail_if_ready sha tx traces s = (let p = rs_plan s in
     if \<not> traces \<or> pl_template_id p \<notin> {None, Some ''project_delivery_dynamic''} then (None, s)
     else if \<not> list_ex (\<lambda>w. wi_agent_id w \<in> set replaced_agents) (pl_work_items p) then (None, s)
     else if list_ex (\<lambda>w. prefix tail_prefix (wi_id w)) (pl_work_items p) then (None, s)
     else (case contract_milestone p of
         None \<Rightarrow> (None, s)
       | Some c \<Rightarrow>
           if \<not> is_completed (rs_results s) (wi_id c) then (None, s)
           else (case append_tail sha tx p (wi_id c)
                    (map_option wi_id (List.find (\<lambda>w. wi_agent_id w = ''requirement_agent'') (pl_work_items p)))
                    (map_option wi_id (List.find (\<lambda>w. wi_agent_id w = ''architecture_agent''
                       \<and> wi_publish_target w = Some ''architecture'') (pl_work_items p))) of
               Inl e \<Rightarrow> (Some e, s)
             | Inr (q, _) \<Rightarrow> (None, s\<lparr>rs_plan := q\<rparr>))))"

end
