(* ===== verification/Delivery_Tail_Laws.thy ===== *)
theory Delivery_Tail_Laws
  imports Delivery_Tail
begin

text \<open>
  The appended life cycle: the plan stays well formed, only the tail may deliver, and its order binds every
  run; what the step of the runner keeps of a run, and what it breaks.
\<close>

definition tail_built :: "(string \<Rightarrow> string) \<Rightarrow> tail_item \<Rightarrow> work_item \<Rightarrow> bool" where
  "tail_built sha t w \<longleftrightarrow> wi_id w = tail_id (ti_name t) \<and> wi_agent_id w = ti_agent t
     \<and> wi_dependency_ids w = map fst (ti_deps t) \<and> mk_work_item sha w = Inr w"

lemma tail_deps: "mapE tail_dep irs = Inr ds \<Longrightarrow> map dep_work_item_id ds = map fst irs"
proof (induction irs arbitrary: ds)
  case (Cons x xs)
  then show ?case by (auto simp: tail_dep_def mk_dependency_def)
qed simp

lemma build_tail_item_built:
  assumes "build_tail_item sha tx trace t = Inr w"
  shows "tail_built sha t w"
proof -
  obtain refs deps where d: "mapE tail_dep (ti_deps t) = Inr deps"
    and m: "mk_work_item sha ((blank_work_item (tail_id (ti_name t)) (ti_agent t) (tx (ti_name t) ''objective'') (ti_output t))
       \<lparr>wi_stage_id := Some (ti_stage t), wi_artifact_key := Some (ti_key t), wi_execution_mode := ti_mode t,
        wi_slot := ti_slot t, wi_publish_target := ti_target t, wi_candidate_from := ti_candidate t,
        wi_input_refs := refs, wi_dependencies := deps,
        wi_acceptance_criteria := map (tx (ti_name t)) (ti_criteria t),
        wi_constraints := map (tx (ti_name t)) (ti_constraints t), wi_output_kind := Some (ti_kind t)\<rparr>) = Inr w"
    (is "mk_work_item sha ?w0 = _")
    using assms by (auto simp: build_tail_item_def)
  have "wi_id w = tail_id (ti_name t)" "wi_agent_id w = ti_agent t" "wi_dependencies w = deps"
    by (subst mk_work_item_shape(1) [OF m], simp add: blank_work_item_def)+
  then show ?thesis
    using tail_deps [OF d] mk_work_item_idempotent [OF m] by (simp add: tail_built_def wi_dependency_ids_def)
qed

text \<open>An append that added items.\<close>

lemma append_tail_cases:
  assumes "append_tail sha tx p cid rid aid = Inr (q, added)"
  obtains (again) "q = p" "added = []" "plan_item p cid \<noteq> None" "list_ex (\<lambda>w. prefix tail_prefix (wi_id w)) (pl_work_items p)"
  | (fresh) contract requirement architecture items where "plan_item p cid = Some contract"
    "\<not> list_ex (\<lambda>w. prefix tail_prefix (wi_id w)) (pl_work_items p)"
    "list_all2 (tail_built sha) (tail_items contract requirement architecture) items" "added = map wi_id items"
    "q = p\<lparr>pl_work_items := filter (\<lambda>w. wi_agent_id w \<notin> set replaced_agents) (pl_work_items p) @ items,
       pl_validation_scope := ''full_delivery''\<rparr>" "mk_plan q = Inr q"
proof -
  obtain contract where c: "plan_item p cid = Some contract"
    using assms by (auto simp: append_tail_def split: option.splits)
  show thesis
  proof (cases "list_ex (\<lambda>w. prefix tail_prefix (wi_id w)) (pl_work_items p)")
    case True
    then show ?thesis using assms c by (intro again) (simp_all add: append_tail_def)
  next
    case False
    then obtain requirement architecture items where
      i: "mapE (build_tail_item sha tx (tc_trace_id (pl_trace p))) (tail_items contract requirement architecture) = Inr items"
      and a: "added = map wi_id items"
      and q: "mk_plan (p\<lparr>pl_work_items := filter (\<lambda>w. wi_agent_id w \<notin> set replaced_agents) (pl_work_items p) @ items,
        pl_validation_scope := ''full_delivery''\<rparr>) = Inr q"
      using assms c by (auto simp: append_tail_def Let_def split: if_splits)
    have "list_all2 (tail_built sha) (tail_items contract requirement architecture) items"
      using i unfolding mapE_Inr_iff by (rule list_all2_mono) (rule build_tail_item_built)
    moreover note mk_plan_checks(1) [OF q]
    ultimately show ?thesis using c False a q by (intro fresh) auto
  qed
qed

definition tail_names :: "string list" where
  "tail_names = [''tasks-plan'', ''tasks-integration'', ''tasks-quality'', ''environment'', ''code-integration'', ''test'', ''review'']"

lemma tail_items_names: "map ti_name (tail_items c r a) = tail_names"
  by (simp add: tail_items_def Let_def tail_names_def)

lemma tail_ids:
  assumes "list_all2 (tail_built sha) (tail_items c r a) items"
  shows "map wi_id items = map tail_id tail_names"
proof -
  have "map wi_id items = map (\<lambda>t. tail_id (ti_name t)) (tail_items c r a)"
    using assms by (induction rule: list_all2_induct) (auto simp: tail_built_def)
  then show ?thesis using arg_cong [OF tail_items_names, of "map tail_id" c r a] by (simp add: comp_def)
qed

text \<open>The items each item of the tail waits for.\<close>

lemma tail_id_eq [simp]: "tail_id a = tail_id b \<longleftrightarrow> a = b"
  by (simp add: tail_id_def)

lemma tail_items_waits:
  "list_all (\<lambda>t. (ti_name t = ''review'' \<longrightarrow> {wi_id c, tail_id ''tasks-quality'', tail_id ''environment'',
        tail_id ''code-integration'', tail_id ''test''} \<subseteq> set (map fst (ti_deps t)))
     \<and> (ti_name t = ''tasks-quality'' \<longrightarrow> tail_id ''tasks-integration'' \<in> set (map fst (ti_deps t)))
     \<and> (ti_name t = ''tasks-integration'' \<longrightarrow> tail_id ''tasks-plan'' \<in> set (map fst (ti_deps t)))) (tail_items c r a)"
  unfolding tail_items_def Let_def by simp

lemma tail_waits:
  assumes "list_all2 (tail_built sha) (tail_items c r a) items" "w \<in> set items"
  shows "wi_id w = tail_id ''review'' \<Longrightarrow> {wi_id c, tail_id ''tasks-quality'', tail_id ''environment'',
      tail_id ''code-integration'', tail_id ''test''} \<subseteq> set (wi_dependency_ids w)"
    and "wi_id w = tail_id ''tasks-quality'' \<Longrightarrow> tail_id ''tasks-integration'' \<in> set (wi_dependency_ids w)"
    and "wi_id w = tail_id ''tasks-integration'' \<Longrightarrow> tail_id ''tasks-plan'' \<in> set (wi_dependency_ids w)"
proof -
  have "\<exists>t \<in> set (tail_items c r a). tail_built sha t w"
    using assms by (induction rule: list_all2_induct) auto
  then obtain t where t: "t \<in> set (tail_items c r a)" "wi_id w = tail_id (ti_name t)" "wi_dependency_ids w = map fst (ti_deps t)"
    unfolding tail_built_def by blast
  note k = tail_items_waits [unfolded list_all_iff, rule_format, OF t(1)]
  show "wi_id w = tail_id ''review'' \<Longrightarrow> {wi_id c, tail_id ''tasks-quality'', tail_id ''environment'',
      tail_id ''code-integration'', tail_id ''test''} \<subseteq> set (wi_dependency_ids w)"
    using k t(2,3) by (simp only: tail_id_eq)
  show "wi_id w = tail_id ''tasks-quality'' \<Longrightarrow> tail_id ''tasks-integration'' \<in> set (wi_dependency_ids w)"
    using k t(2,3) by (simp only: tail_id_eq)
  show "wi_id w = tail_id ''tasks-integration'' \<Longrightarrow> tail_id ''tasks-plan'' \<in> set (wi_dependency_ids w)"
    using k t(2,3) by (simp only: tail_id_eq)
qed

text \<open>The appended life cycle is a well-formed plan: from a well-formed plan the result is well formed; it keeps
  every item of no delivery agent as it was; once there is a tail, only its items belong to delivery agents;
  and appending again changes nothing.\<close>

theorem tail_plan_well_formed:
  assumes "plan_ok sha p" "append_tail sha tx p cid rid aid = Inr (q, added)"
  shows "plan_ok sha q \<and> append_tail sha tx q cid rid' aid' = Inr (q, [])
    \<and> (\<forall>w. w \<in> set (pl_work_items p) \<longrightarrow> wi_agent_id w \<notin> set replaced_agents \<longrightarrow> w \<in> set (pl_work_items q))
    \<and> (added \<noteq> [] \<longrightarrow> (\<forall>w. w \<in> set (pl_work_items q) \<longrightarrow> wi_agent_id w \<in> set replaced_agents \<longrightarrow> wi_id w \<in> set added))"
  using assms(2)
proof (cases rule: append_tail_cases)
  case again
  then show ?thesis using assms(1) by (auto simp: append_tail_def)
next
  case (fresh contract requirement architecture items)
  have ok: "mk_work_item sha w = Inr w" if "w \<in> set items" for w
    using list_all2_member2 [OF fresh(3) that] by (auto simp: tail_built_def)
  have q: "pl_work_items q = filter (\<lambda>w. wi_agent_id w \<notin> set replaced_agents) (pl_work_items p) @ items"
    using fresh(5) by simp
  then have "plan_ok sha q" using assms(1) fresh(6) ok by (auto simp: plan_ok_def)
  moreover have "\<exists>w. w \<in> set items \<and> wi_id w = tail_id ''review'' \<and> wi_id contract \<in> set (wi_dependency_ids w)"
  proof -
    have "tail_id ''review'' \<in> set (map wi_id items)" unfolding tail_ids [OF fresh(3)] by (simp add: tail_names_def)
    then obtain w where "w \<in> set items" "wi_id w = tail_id ''review''" by auto
    then show ?thesis using tail_waits(1) [OF fresh(3)] by blast
  qed
  then obtain w where w: "w \<in> set items" "wi_id w = tail_id ''review''" "wi_id contract \<in> set (wi_dependency_ids w)" by blast
  have "wi_id contract = cid" using fresh(1) by (auto simp: plan_item_def dest: find_item_Some)
  then have "plan_item q cid \<noteq> None"
    using mk_plan_checks(4) [OF fresh(6)] w(1,3) unfolding deps_known_def plan_item_def find_item_None q by auto
  moreover have "list_ex (\<lambda>w. prefix tail_prefix (wi_id w)) (pl_work_items q)"
  proof -
    have "prefix tail_prefix (wi_id w)" unfolding w(2) tail_id_def by (rule prefixI) (rule refl)
    then show ?thesis using w(1) q unfolding list_ex_iff by auto
  qed
  ultimately show ?thesis using q fresh(4) by (auto simp: append_tail_def)
qed

text \<open>C19. The order of the life cycle binds every run: in a consistent state of a run of an extended plan, the review
  has been recorded only if every other item of the tail and the project contract have completed.\<close>

theorem tail_orders_delivery:
  assumes "append_tail sha tx p cid rid aid = Inr (q, added)" "added \<noteq> []"
    and "rs_plan s = q" "run_ok s" "tail_id ''review'' \<in> set (dict_keys (rs_results s))"
  shows "is_completed (rs_results s) cid \<and> (\<forall>i. i \<in> set added \<longrightarrow> i \<noteq> tail_id ''review'' \<longrightarrow> is_completed (rs_results s) i)"
  using assms(1)
proof (cases rule: append_tail_cases)
  case again
  then show ?thesis using assms(2) by simp
next
  case (fresh contract requirement architecture items)
  have cid: "wi_id contract = cid" using fresh(1) by (auto simp: plan_item_def dest: find_item_Some)
  have awaited: "is_completed (rs_results s) d"
    if "w \<in> set items" "wi_id w \<in> set (dict_keys (rs_results s))" "d \<in> set (wi_dependency_ids w)" for w d
    using assms(3,4) fresh(5) that unfolding run_ok_def deps_closed_def by (auto simp: list_all_iff)
  have recorded: "i \<in> set (dict_keys (rs_results s))" if "is_completed (rs_results s) i" for i
    using that unfolding is_completed_def by (auto split: option.splits intro: map_of_Some_key simp del: set_map)
  have item: "\<exists>w. w \<in> set items \<and> wi_id w = tail_id n" if "n \<in> set tail_names" for n
  proof -
    have "tail_id n \<in> set (map wi_id items)" using that unfolding tail_ids [OF fresh(3)] by simp
    then show ?thesis by auto
  qed
  obtain wr wq wi where w: "wr \<in> set items" "wi_id wr = tail_id ''review''" "wq \<in> set items"
    "wi_id wq = tail_id ''tasks-quality''" "wi \<in> set items" "wi_id wi = tail_id ''tasks-integration''"
    using item [of "''review''"] item [of "''tasks-quality''"] item [of "''tasks-integration''"]
    by (auto simp: tail_names_def)
  have r: "is_completed (rs_results s) d" if "d \<in> {wi_id contract, tail_id ''tasks-quality'', tail_id ''environment'',
      tail_id ''code-integration'', tail_id ''test''}" for d
    using awaited [OF w(1), of d] tail_waits(1) [OF fresh(3) w(1,2)] assms(5) w(2) that by auto
  have i: "is_completed (rs_results s) (tail_id ''tasks-integration'')"
    using awaited [OF w(3)] tail_waits(2) [OF fresh(3) w(3,4)] recorded [OF r [of "tail_id ''tasks-quality''"]] w(4) by simp
  have p: "is_completed (rs_results s) (tail_id ''tasks-plan'')"
    using awaited [OF w(5)] tail_waits(3) [OF fresh(3) w(5,6)] recorded [OF i] w(6) by simp
  show ?thesis unfolding fresh(4) tail_ids [OF fresh(3)] tail_names_def using r i p cid by auto
qed

section \<open>What the step keeps of a run\<close>

lemma tail_if_ready_cases:
  assumes "tail_if_ready sha tx traces s = (e, s')"
  obtains "s' = s" | q added c rid aid where "append_tail sha tx (rs_plan s) c rid aid = Inr (q, added)"
    "s' = s\<lparr>rs_plan := q\<rparr>" "e = None" "\<not> list_ex (\<lambda>w. prefix tail_prefix (wi_id w)) (pl_work_items (rs_plan s))"
proof (cases "s' = s")
  case False
  let ?p = "rs_plan s"
  have prefixes: "\<not> list_ex (\<lambda>w. prefix tail_prefix (wi_id w)) (pl_work_items ?p)"
    using assms False unfolding tail_if_ready_def Let_def by (auto split: if_splits)
  obtain c where c: "contract_milestone ?p = Some c" "is_completed (rs_results s) (wi_id c)"
    using assms False unfolding tail_if_ready_def Let_def by (auto split: if_splits option.splits)
  let ?r = "append_tail sha tx ?p (wi_id c)
      (map_option wi_id (List.find (\<lambda>w. wi_agent_id w = ''requirement_agent'') (pl_work_items ?p)))
      (map_option wi_id (List.find (\<lambda>w. wi_agent_id w = ''architecture_agent''
         \<and> wi_publish_target w = Some ''architecture'') (pl_work_items ?p)))"
  have "(case ?r of Inl e \<Rightarrow> (Some e, s) | Inr (q, _) \<Rightarrow> (None, s\<lparr>rs_plan := q\<rparr>)) = (e, s')"
    using assms False c prefixes unfolding tail_if_ready_def Let_def by (simp split: if_splits)
  then obtain q added where "?r = Inr (q, added)" "s' = s\<lparr>rs_plan := q\<rparr>" "e = None"
    using False by (cases ?r) auto
  then show ?thesis by (rule that(2)) (rule prefixes)
qed (rule that(1))

lemma fresh_ids:
  assumes "list_all2 (tail_built sha) (tail_items c r a) items" "w \<in> set items"
  shows "prefix tail_prefix (wi_id w)"
proof -
  have "wi_id w \<in> set (map wi_id items)" using assms(2) by simp
  then show ?thesis unfolding tail_ids [OF assms(1)] by (auto simp: tail_id_def)
qed

text \<open>The step of the runner keeps a run consistent as long as no item that it replaces has been recorded or forced.\<close>

theorem tail_step_keeps_run:
  assumes "run_ok s" "plan_ok sha (rs_plan s)" "tail_if_ready sha tx traces s = (e, s')"
    and untouched: "\<And>w. w \<in> set (pl_work_items (rs_plan s)) \<Longrightarrow> wi_agent_id w \<in> set replaced_agents \<Longrightarrow>
      wi_id w \<notin> set (dict_keys (rs_results s)) \<and> wi_id w \<notin> rs_forced s"
  shows "run_ok s' \<and> plan_ok sha (rs_plan s') \<and> rs_results s' = rs_results s"
  using assms(3)
proof (cases rule: tail_if_ready_cases)
  case 1
  then show ?thesis using assms(1,2) by simp
next
  case (2 q added cid rid aid)
  from 2(1) show ?thesis
  proof (cases rule: append_tail_cases)
    case again
    then show ?thesis using 2(4) by simp
  next
    case (fresh contract requirement architecture items)
    let ?old = "pl_work_items (rs_plan s)"
    have q: "pl_work_items q = filter (\<lambda>w. wi_agent_id w \<notin> set replaced_agents) ?old @ items" using fresh(5) by simp
    have ok: "mk_work_item sha w = Inr w" if "w \<in> set items" for w
      using list_all2_member2 [OF fresh(3) that] by (auto simp: tail_built_def)
    have kept: "w \<in> set (pl_work_items q)" if "w \<in> set ?old" "wi_id w \<in> set (dict_keys (rs_results s)) \<union> rs_forced s" for w
      using untouched [OF that(1)] that q by auto
    have in_old: "i \<in> wi_id ` set ?old" if "i \<in> set (dict_keys (rs_results s))" for i
      using that assms(1) by (auto simp: run_ok_def results_ok_def)
    have new: "wi_id w \<notin> set (dict_keys (rs_results s))" if "w \<in> set items" for w
    proof
      assume "wi_id w \<in> set (dict_keys (rs_results s))"
      then obtain v where "v \<in> set ?old" "wi_id v = wi_id w" using in_old [of "wi_id w"] by (metis imageE)
      then show False using fresh_ids [OF fresh(3) that] fresh(2) by (auto simp: list_ex_iff)
    qed
    have "results_ok q (rs_results s)"
      unfolding results_ok_def
    proof (intro conjI ballI, goal_cases)
      case 1
      then show ?case using assms(1) by (simp add: run_ok_def results_ok_def)
    next
      case (2 x)
      then obtain w where w: "w \<in> set ?old" "wi_id w = fst x" "nr_work_item_id (snd x) = fst x" "nr_agent_id (snd x) = wi_agent_id w"
        using assms(1) by (cases x) (auto simp: run_ok_def results_ok_def)
      moreover have "fst x \<in> set (dict_keys (rs_results s))" using 2 by simp
      ultimately show ?case using kept [OF w(1)] by (cases x) auto
    qed
    moreover have "deps_closed q (rs_results s)"
      using assms(1) new q by (auto simp: run_ok_def deps_closed_def)
    moreover have "forced_ok (s\<lparr>rs_plan := q\<rparr>)"
    proof -
      have f: "forced_ok s" using assms(1) by (simp add: run_ok_def)
      have "i \<in> wi_id ` set (pl_work_items q)" if i: "i \<in> rs_forced s" for i
      proof -
        obtain w where w: "w \<in> set ?old" "wi_id w = i" using f i unfolding forced_ok_def by (metis imageE subsetD)
        then have "w \<in> set (pl_work_items q)" using i by (intro kept) simp_all
        then show ?thesis using w(2) by (metis imageI)
      qed
      then show ?thesis using f by (simp add: forced_ok_def subset_iff)
    qed
    moreover have "plan_ok sha q" using assms(2) fresh(6) ok q by (auto simp: plan_ok_def)
    ultimately show ?thesis using 2(2) by (simp add: run_ok_def)
  qed
qed

section \<open>A plan with a placeholder\<close>

definition tail_texts :: "string \<Rightarrow> string \<Rightarrow> string" where
  "tail_texts i k = i @ '' '' @ k"

definition placed :: "string \<Rightarrow> string \<Rightarrow> string \<Rightarrow> work_item" where
  "placed i agent out = projr (mk_work_item demo_sha (blank_work_item i agent ''deliver'' out))"

lemma placed_built:
  assumes "\<not> isl (mk_work_item demo_sha (blank_work_item i agent ''deliver'' out))"
  shows "mk_work_item demo_sha (placed i agent out) = Inr (placed i agent out)"
proof -
  have "mk_work_item demo_sha (blank_work_item i agent ''deliver'' out) = Inr (placed i agent out)"
    using assms by (simp add: placed_def sum.collapse)
  then show ?thesis by (rule mk_work_item_idempotent)
qed

definition placed_contract :: work_item where
  "placed_contract = placed ''wi-contract'' ''architecture_contract_agent'' ''architecture_contract''"

definition placed_bootstrap :: work_item where
  "placed_bootstrap = placed ''wi-bootstrap'' ''bootstrap_agent'' ''environment''"

definition placed_plan :: plan where
  "placed_plan = demo_plan\<lparr>pl_work_items := [placed_contract,
     placed_bootstrap]\<rparr>"

definition placed_run :: run_state where
  "placed_run = demo_record_done placed_contract (new_run placed_plan)"

definition placed_full_run :: run_state where
  "placed_full_run = demo_record_done placed_bootstrap placed_run"

text \<open>A checkpoint with a result of an item that the plan does not have cannot be read.\<close>

lemma foldE_member: "foldE f xs s = Inr t \<Longrightarrow> x \<in> set xs \<Longrightarrow> \<exists>u v. f x u = Inr v"
  by (induction xs arbitrary: s) auto

lemma unknown_result_unreadable:
  assumes "(i, r) \<in> set (rs_results s)" "plan_item p (nr_work_item_id r) = None"
  shows "isl (from_checkpoint p (as_checkpoint sha s))"
proof -
  let ?raws = "map (checkpoint_result sha \<circ> snd) (rs_results s)"
  have "\<exists>e. foldE (load_result p) ?raws ([], []) = Inl e"
  proof (cases "foldE (load_result p) ?raws ([], [])")
    case (Inr u)
    from foldE_member [OF this, of "checkpoint_result sha r"] assms(1)
    obtain u v where "load_result p (checkpoint_result sha r) u = Inr v" by force
    then show ?thesis using assms(2)
      by (cases u) (auto simp: load_result_def checkpoint_result_from bodiless_def split: if_splits)
  qed simp
  then obtain e where e: "foldE (load_result p) ?raws ([], []) = Inl e" by blast
  have "get_default (as_checkpoint sha s) ''node_results'' (JList []) = JList ?raws"
    by (simp add: as_checkpoint_def get_default_def Let_def)
  then show ?thesis
    unfolding from_checkpoint_def Let_def by (simp only: list_items_def json.case e bindE_simps) (simp add: bindE_def split: sum.split)
qed

text \<open>The limit of that: when an item of a delivery agent has already completed, the extension drops the item and
  keeps its result, and the checkpoint of the extended run can no longer be read with its plan.\<close>

theorem tail_drops_recorded_item:
  assumes "plan_ok sha (rs_plan s)" "tail_if_ready sha tx traces s = (e, s')" "s' \<noteq> s"
    and "w \<in> set (pl_work_items (rs_plan s))" "wi_agent_id w \<in> set replaced_agents"
    and "dict_get (rs_results s) (wi_id w) = Some r" "nr_work_item_id r = wi_id w"
  shows "isl (from_checkpoint (rs_plan s') (as_checkpoint sha s'))"
  using assms(2)
proof (cases rule: tail_if_ready_cases)
  case 1
  then show ?thesis using assms(3) by simp
next
  case (2 q added cid rid aid)
  have ids: "distinct (map wi_id (pl_work_items (rs_plan s)))"
    using assms(1) by (auto simp: plan_ok_def dest: mk_plan_checks(2))
  from 2(1) have "plan_item q (wi_id w) = None"
  proof (cases rule: append_tail_cases)
    case again
    then show ?thesis using 2(4) by simp
  next
    case (fresh contract requirement architecture items)
    have "wi_id v \<noteq> wi_id w" if "v \<in> set (pl_work_items q)" for v
    proof (cases "v \<in> set items")
      case True
      then show ?thesis using fresh_ids [OF fresh(3) True] fresh(2) assms(4) by (auto simp: list_ex_iff)
    next
      case False
      then have "v \<in> set (pl_work_items (rs_plan s))" "wi_agent_id v \<notin> set replaced_agents"
        using that fresh(5) by auto
      then show ?thesis using ids assms(4,5) by (metis distinct_map inj_onD)
    qed
    then show ?thesis unfolding plan_item_def find_item_None by (metis imageE)
  qed
  moreover have "(wi_id w, r) \<in> set (rs_results s')" using assms(6) 2(2) by (auto dest: map_of_SomeD)
  ultimately show ?thesis using unknown_result_unreadable [of "wi_id w" r s' q] 2(2) assms(7) by simp
qed

section \<open>Examples\<close>

definition placed_tailed :: "plan \<times> string list" where
  "placed_tailed = projr (append_tail demo_sha tail_texts placed_plan ''wi-contract'' None None)"

lemma placed_tailed_eq:
  "append_tail demo_sha tail_texts placed_plan ''wi-contract'' None None = Inr placed_tailed"
proof -
  have "\<not> isl (append_tail demo_sha tail_texts placed_plan ''wi-contract'' None None)" by code_simp
  then show ?thesis by (auto simp: placed_tailed_def isl_def dest: sum.exhaust_sel)
qed

lemma placed_sealed: "plan_ok demo_sha placed_plan"
proof -
  have "\<not> isl (mk_plan placed_plan)" by code_simp
  then have "mk_plan placed_plan = Inr placed_plan" using mk_plan_checks(1) by (cases "mk_plan placed_plan") auto
  moreover have "mk_work_item demo_sha placed_contract = Inr placed_contract"
    unfolding placed_contract_def by (rule placed_built) code_simp
  moreover have "mk_work_item demo_sha placed_bootstrap = Inr placed_bootstrap"
    unfolding placed_bootstrap_def by (rule placed_built) code_simp
  ultimately show ?thesis by (simp add: plan_ok_def placed_plan_def)
qed

theorem tail_plan_well_formed_witness:
  "plan_ok demo_sha (fst placed_tailed)"
  using tail_plan_well_formed [OF placed_sealed, of tail_texts "''wi-contract''" None None "fst placed_tailed" "snd placed_tailed"]
    placed_tailed_eq by simp

lemma placed_steps:
  "record_result placed_contract
     (demo_done placed_contract) (new_run placed_plan) = Inr placed_run"
  "record_result placed_bootstrap
     (demo_done placed_bootstrap) placed_run = Inr placed_full_run"
  unfolding placed_run_def placed_full_run_def by (rule demo_record_ok; code_simp)+

lemma placed_runs: "run_ok placed_run" "rs_plan placed_run = placed_plan" "rs_plan placed_full_run = placed_plan"
proof -
  have ids: "distinct (map wi_id (pl_work_items placed_plan))" by code_simp
  have "placed_contract \<in> set (ready_items (new_run placed_plan))" by code_simp
  from record_ready_ok [OF new_run_ok this placed_steps(1)] ids show "run_ok placed_run" by (simp add: new_run_def)
  show p: "rs_plan placed_run = placed_plan" using record_result_cases(4) [OF placed_steps(1)] by (simp add: new_run_def)
  show "rs_plan placed_full_run = placed_plan" using record_result_cases(4) [OF placed_steps(2)] p by simp
qed

text \<open>A run of a plan in which every item has completed.\<close>

definition all_done :: "plan \<Rightarrow> run_state" where
  "all_done p = (new_run p)\<lparr>rs_results := map (\<lambda>w. (wi_id w, demo_done w)) (pl_work_items p)\<rparr>"

lemma all_done_ok:
  assumes "mk_plan p = Inr p" "list_all (\<lambda>w. \<not> blank (wi_id w)) (pl_work_items p)"
  shows "run_ok (all_done p)"
proof -
  note c = mk_plan_checks [OF assms(1)]
  have d: "nr_status (demo_done w) = COMPLETED \<and> nr_work_item_id (demo_done w) = wi_id w \<and> nr_agent_id (demo_done w) = wi_agent_id w"
    if "w \<in> set (pl_work_items p)" for w
    using assms(2) that by (simp add: demo_done_def node_completed_def validate_node_id_def list_all_iff)
  let ?r = "map (\<lambda>w. (wi_id w, demo_done w)) (pl_work_items p)"
  have ids: "dict_keys ?r = map wi_id (pl_work_items p)" by simp
  have "is_completed ?r (wi_id w)" if "w \<in> set (pl_work_items p)" for w
  proof -
    have "dict_get ?r (wi_id w) = Some (demo_done w)"
      by (rule map_of_is_SomeI) (use c(2) that in \<open>auto simp: comp_def\<close>)
    then show ?thesis using d [OF that] by (simp add: is_completed_def)
  qed
  then have "deps_closed p ?r" using c(4) unfolding deps_closed_def deps_known_def list_all_iff by blast
  moreover have "results_ok p ?r" using c(2) d unfolding results_ok_def ids by fastforce
  ultimately show ?thesis by (simp add: all_done_def new_run_def run_ok_def forced_ok_def)
qed

theorem tail_orders_delivery_witness:
  "is_completed (rs_results (all_done (fst placed_tailed))) ''wi-contract''"
proof -
  have eq: "append_tail demo_sha tail_texts placed_plan ''wi-contract'' None None = Inr (fst placed_tailed, snd placed_tailed)"
    using placed_tailed_eq by simp
  have "snd placed_tailed \<noteq> []" by code_simp
  note facts = tail_orders_delivery [OF eq this, of "all_done (fst placed_tailed)"]
  have "run_ok (all_done (fst placed_tailed))"
  proof (rule all_done_ok)
    show "list_all (\<lambda>w. \<not> blank (wi_id w)) (pl_work_items (fst placed_tailed))" by code_simp
    show "mk_plan (fst placed_tailed) = Inr (fst placed_tailed)"
      using eq by (rule append_tail_cases) (use placed_sealed in \<open>simp_all add: plan_ok_def\<close>)
  qed
  moreover have "tail_id ''review'' \<in> set (map wi_id (pl_work_items (fst placed_tailed)))" by code_simp
  then have "tail_id ''review'' \<in> set (dict_keys (rs_results (all_done (fst placed_tailed))))"
    by (auto simp: all_done_def)
  ultimately show ?thesis using facts by (simp add: all_done_def new_run_def)
qed

lemma placed_tail_ready:
  "tail_if_ready demo_sha tail_texts True placed_run = (None, placed_run\<lparr>rs_plan := fst placed_tailed\<rparr>)"
  "tail_if_ready demo_sha tail_texts True placed_full_run = (None, placed_full_run\<lparr>rs_plan := fst placed_tailed\<rparr>)"
proof -
  have f: "pl_template_id placed_plan \<in> {None, Some ''project_delivery_dynamic''}"
    "list_ex (\<lambda>w. wi_agent_id w \<in> set replaced_agents) (pl_work_items placed_plan)"
    "\<not> list_ex (\<lambda>w. prefix tail_prefix (wi_id w)) (pl_work_items placed_plan)"
    "contract_milestone placed_plan = Some placed_contract"
    "wi_id placed_contract = ''wi-contract''"
    "map_option wi_id (List.find (\<lambda>w. wi_agent_id w = ''requirement_agent'') (pl_work_items placed_plan)) = None"
    "map_option wi_id (List.find (\<lambda>w. wi_agent_id w = ''architecture_agent''
        \<and> wi_publish_target w = Some ''architecture'') (pl_work_items placed_plan)) = None"
    by code_simp+
  have d: "is_completed (rs_results placed_run) ''wi-contract''" "is_completed (rs_results placed_full_run) ''wi-contract''"
    by code_simp+
  show "tail_if_ready demo_sha tail_texts True placed_run = (None, placed_run\<lparr>rs_plan := fst placed_tailed\<rparr>)"
    using f(1) by (simp only: tail_if_ready_def Let_def placed_runs f(2-) d placed_tailed_eq option.case) (simp add: f(5) d placed_tailed_eq case_prod_beta)
  show "tail_if_ready demo_sha tail_texts True placed_full_run = (None, placed_full_run\<lparr>rs_plan := fst placed_tailed\<rparr>)"
    using f(1) by (simp only: tail_if_ready_def Let_def placed_runs f(2-) d placed_tailed_eq option.case) (simp add: f(5) d placed_tailed_eq case_prod_beta)
qed

theorem tail_step_keeps_run_witness: "run_ok (placed_run\<lparr>rs_plan := fst placed_tailed\<rparr>)"
proof -
  have keys: "dict_keys (rs_results placed_run) = [''wi-contract'']" "rs_forced placed_run = {}" by code_simp+
  have "wi_id w \<notin> set (dict_keys (rs_results placed_run)) \<and> wi_id w \<notin> rs_forced placed_run"
    if "w \<in> set (pl_work_items (rs_plan placed_run))" "wi_agent_id w \<in> set replaced_agents" for w
  proof -
    have "list_all (\<lambda>w. wi_agent_id w \<in> set replaced_agents \<longrightarrow> wi_id w \<noteq> ''wi-contract'') (pl_work_items placed_plan)"
      by code_simp
    then show ?thesis using that keys by (simp add: placed_runs(2) list_all_iff)
  qed
  moreover have "plan_ok demo_sha (rs_plan placed_run)" using placed_sealed by (simp add: placed_runs(2))
  ultimately show ?thesis using tail_step_keeps_run [OF placed_runs(1) _ placed_tail_ready(1)] by blast
qed

theorem tail_drops_recorded_item_witness:
  "isl (from_checkpoint (fst placed_tailed) (as_checkpoint demo_sha (placed_full_run\<lparr>rs_plan := fst placed_tailed\<rparr>)))"
proof -
  have "length (pl_work_items (fst placed_tailed)) \<noteq> length (pl_work_items placed_plan)" by code_simp
  then have ne: "placed_full_run\<lparr>rs_plan := fst placed_tailed\<rparr> \<noteq> placed_full_run"
    using placed_runs(3) by (auto dest!: arg_cong [of _ _ rs_plan])
  have w: "placed_bootstrap \<in> set (pl_work_items (rs_plan placed_full_run))" by (simp add: placed_runs(3) placed_plan_def)
  have a: "wi_agent_id placed_bootstrap \<in> set replaced_agents" by code_simp
  have r: "dict_get (rs_results placed_full_run) (wi_id placed_bootstrap) = Some (demo_done placed_bootstrap)"
    "nr_work_item_id (demo_done placed_bootstrap) = wi_id placed_bootstrap"
    using record_result_cases(1,5) [OF placed_steps(2)] by (simp_all add: dict.get_put)
  have "plan_ok demo_sha (rs_plan placed_full_run)" using placed_sealed by (simp add: placed_runs(3))
  from tail_drops_recorded_item [OF this placed_tail_ready(2) ne w a r] show ?thesis by simp
qed

end
